(* ===== verification/PMC_Prelude.thy ===== *)
theory PMC_Prelude
  imports Main "HOL-Library.Word"
begin

text \<open>
  Shared vocabulary of the development: the type of failures of the tool (an assertion of the
  Valgrind core, the exit of the tool on a full event register with what it prints, an access outside an
  allocated array, the use of a freed node, a loop that does not end), the result type
  \<open>'a res\<close> in which every fallible operation returns, its sequencing operator \<open>rbind\<close>,
  monadic iteration over a list, and facts on lists and on 64-bit machine words that several
  components use.
\<close>

section \<open>Machine types\<close>

text \<open>\<open>Addr\<close>, \<open>UWord\<close>, \<open>ULong\<close> and \<open>SizeT\<close> are unsigned 64-bit integers on the only
  platform the tool accepts (\<open>pmc_pre_clo_init\<close> asserts the sizes).\<close>

type_synonym uword = "64 word"

text \<open>An \<open>ExeContext *\<close> is null or the stack trace it stands for: the core keeps one context per
  trace, so comparing pointers is comparing traces.\<close>

type_synonym exe_context = "uword list option"

section \<open>Output\<close>

text \<open>What the tool prints: a user message, a debug message or an entry of the store log, given by
  its format string (line breaks and tabs apart, strings that it shows given as texts) and the numbers it
  shows, a stack trace, or a text that another component supplies.\<close>

datatype out =
    Umsg string "uword list"
  | Dmsg string "uword list"
  | Emit string "uword list"
  | PpExe exe_context
  | Text string

section \<open>Failures and results\<close>

datatype pmc_error =
    AssertFail string     \<comment> \<open>\<open>vg_assert\<close> or \<open>tl_assert\<close>\<close>
  | ToolExit "out list"   \<comment> \<open>\<open>VG_(exit)(-1)\<close> after the messages of a full event register\<close>
  | OutOfBounds string    \<comment> \<open>a write past the end of a heap array\<close>
  | UseAfterFree string   \<comment> \<open>a node is freed while the set still holds it\<close>
  | NullDeref string      \<comment> \<open>a null pointer is followed\<close>
  | Panic string          \<comment> \<open>\<open>vpanic\<close> or \<open>VG_(tool_panic)\<close>\<close>
  | Diverge string        \<comment> \<open>the iteration bound of the model is used up\<close>

type_synonym 'a res = "pmc_error + 'a"

definition rbind :: "'a res \<Rightarrow> ('a \<Rightarrow> 'b res) \<Rightarrow> 'b res" where
  "rbind m f = (case m of Inl e \<Rightarrow> Inl e | Inr x \<Rightarrow> f x)"

declare rbind_def [code_unfold]

lemma rbind_Inr [simp]: "rbind (Inr x) f = f x"
  by (simp add: rbind_def)

lemma rbind_Inl [simp]: "rbind (Inl e) f = Inl e"
  by (simp add: rbind_def)

lemma rbind_eq_Inr: "rbind m f = Inr y \<longleftrightarrow> (\<exists>x. m = Inr x \<and> f x = Inr y)"
  by (cases m) auto

lemma rbind_assoc: "rbind (rbind m f) g = rbind m (\<lambda>x. rbind (f x) g)"
  by (cases m) auto

lemma rbind_cong [fundef_cong]:
  "m = m' \<Longrightarrow> (\<And>x. m' = Inr x \<Longrightarrow> f x = g x) \<Longrightarrow> rbind m f = rbind m' g"
  by (cases m') auto

definition err_of :: "'a res \<Rightarrow> pmc_error option" where
  "err_of m = (case m of Inl e \<Rightarrow> Some e | Inr x \<Rightarrow> None)"

lemma err_of_simps [simp]: "err_of (Inl e) = Some e" "err_of (Inr x) = None"
  by (simp_all add: err_of_def)

definition rassert :: "string \<Rightarrow> bool \<Rightarrow> 'a res \<Rightarrow> 'a res" where
  "rassert msg b k = (if b then k else Inl (AssertFail msg))"

declare rassert_def [code_unfold]

lemma rassert_True [simp]: "rassert msg True k = k"
  by (simp add: rassert_def)

lemma rassert_False [simp]: "rassert msg False k = Inl (AssertFail msg)"
  by (simp add: rassert_def)

lemma rassert_eq_Inr: "rassert msg b k = Inr y \<longleftrightarrow> b \<and> k = Inr y"
  by (simp add: rassert_def)

text \<open>A \<open>for\<close> or \<open>while\<close> loop over a list that its body does not change.\<close>

fun foldM :: "('a \<Rightarrow> 's \<Rightarrow> 's res) \<Rightarrow> 'a list \<Rightarrow> 's \<Rightarrow> 's res" where
  "foldM f [] s = Inr s"
| "foldM f (x # xs) s = rbind (f x s) (foldM f xs)"

lemma foldM_append: "foldM f (xs @ ys) s = rbind (foldM f xs s) (foldM f ys)"
proof (induction xs arbitrary: s)
  case Nil
  then show ?case by simp
next
  case (Cons x xs)
  then show ?case by (cases "f x s") simp_all
qed

lemma foldM_total:
  assumes "\<And>x s. x \<in> set xs \<Longrightarrow> f x s = Inr (g x s)"
  shows "foldM f xs s = Inr (fold g xs s)"
  using assms by (induction xs arbitrary: s) auto

text \<open>An invariant that the body keeps holds after the loop, and the loop does not fail where
  the body does not.\<close>

lemma foldM_inv:
  assumes "P s"
    and "\<And>x s. x \<in> set xs \<Longrightarrow> P s \<Longrightarrow> \<exists>s'. f x s = Inr s' \<and> P s'"
  shows "\<exists>s'. foldM f xs s = Inr s' \<and> P s'"
  using assms
proof (induction xs arbitrary: s)
  case Nil
  then show ?case by simp
next
  case (Cons x xs)
  obtain s1 where "f x s = Inr s1" "P s1"
    using Cons.prems by force
  moreover have "\<exists>s'. foldM f xs s1 = Inr s' \<and> P s'"
    using \<open>P s1\<close> Cons.prems(2) by (intro Cons.IH) auto
  ultimately show ?case by simp
qed

section \<open>Lists\<close>

lemma dropWhile_sorted_wrt_filter:
  assumes "sorted_wrt R xs" and "\<And>x y. R x y \<Longrightarrow> P y \<Longrightarrow> x \<in> set xs \<Longrightarrow> y \<in> set xs \<Longrightarrow> P x"
  shows "dropWhile P xs = filter (\<lambda>x. \<not> P x) xs"
  using assms
proof (induction xs)
  case Nil
  then show ?case by simp
next
  case (Cons x xs)
  show ?case
  proof (cases "P x")
    case True
    have "dropWhile P xs = filter (\<lambda>x. \<not> P x) xs"
      using Cons.prems by (intro Cons.IH) auto
    with True show ?thesis by simp
  next
    case False
    have "\<not> P y" if "y \<in> set xs" for y
      using Cons.prems(1) Cons.prems(2) [of x y] that False by auto
    then have "filter (\<lambda>x. \<not> P x) xs = xs"
      by (simp add: filter_id_conv)
    with False show ?thesis by simp
  qed
qed

lemma sorted_wrt_map_mono:
  assumes "sorted_wrt R xs"
    and "\<And>x y. x \<in> set xs \<Longrightarrow> y \<in> set xs \<Longrightarrow> R x y \<Longrightarrow> R (f x) (f y)"
  shows "sorted_wrt R (map f xs)"
  using assms by (induction xs) auto

section \<open>64-bit words\<close>

text \<open>Addition and subtraction that do not leave the range of the type.\<close>

lemma unat_plus_nowrap:
  fixes a b :: uword
  shows "unat a + unat b < 2 ^ 64 \<Longrightarrow> unat (a + b) = unat a + unat b"
  using unat_add_lem [of a b] by simp

lemma unat_minus_nowrap:
  fixes a b :: uword
  shows "unat b \<le> unat a \<Longrightarrow> unat (a - b) = unat a - unat b"
  by (rule unat_sub) (simp add: word_le_nat_alt)

lemma unat_max_word64 [simp]: "unat (- 1 :: uword) = 2 ^ 64 - 1"
  by (simp add: unsigned_minus_1_eq_mask mask_eq_exp_minus_1)

lemma unat_lt64: "unat (a :: uword) < 2 ^ 64"
proof -
  have "(unsigned a :: nat) < 2 ^ LENGTH(64)"
    by (rule unsigned_less)
  then show ?thesis by simp
qed

lemmas word64_simps = word_le_nat_alt word_less_nat_alt unat_plus_nowrap unat_minus_nowrap

end
