(* ===== verification/OSet.thy ===== *)
theory OSet
  imports PMC_Prelude
begin

text \<open>
  The ordered set of the Valgrind core (\<open>coregrind/m_oset.c\<close>), on which every component of the
  tool keeps its collections: an AVL tree whose nodes carry a balance factor, and an iterator
  that is an explicit stack of tree nodes.

  A node pointer is the subtree it points to; an operation that rewires pointers returns the
  new subtree.  The comparison \<open>cmp\<close> takes a key and an element, \<open>key\<close> reads the key of an
  element (\<open>slow_key_of_node\<close>, \<open>fast_key_of_node\<close>), so a set compared by its first word
  (\<open>cmp = NULL\<close>) is the instance with \<open>fast_cmp\<close>.  The members of a set have different keys, so
  the key stands for the identity of a node: where the C code compares or follows a pointer to a
  member, the model goes by its key.  Assertions of the C code and null pointers
  that would be followed are failures of the result type.

  This theory holds the definitions; their laws are in \<open>OSet_Laws\<close>.
\<close>

section \<open>Nodes and trees\<close>

datatype 'e avl =
    ANull
  | ANode (av_left: "'e avl") (av_elem: 'e) (av_balance: int) (av_right: "'e avl")

lemma equal_ANull_code [code_unfold]:
  "HOL.equal t ANull \<longleftrightarrow> (case t of ANull \<Rightarrow> True | ANode l a b r \<Rightarrow> False)"
  by (cases t) (simp_all add: equal)

fun inorder :: "'e avl \<Rightarrow> 'e list" where
  "inorder ANull = []"
| "inorder (ANode l a b r) = inorder l @ a # inorder r"

fun height :: "'e avl \<Rightarrow> nat" where
  "height ANull = 0"
| "height (ANode l a b r) = Suc (max (height l) (height r))"

text \<open>The balance factor of a node is the height of its right subtree less that of its left.\<close>

fun avl_ok :: "'e avl \<Rightarrow> bool" where
  "avl_ok ANull = True"
| "avl_ok (ANode l a b r) =
     (avl_ok l \<and> avl_ok r \<and> b = int (height r) - int (height l) \<and> - 1 \<le> b \<and> b \<le> 1)"

text \<open>\<open>fast_cmp\<close>: the comparison of sets whose key is the first word of the element.\<close>

definition fast_cmp :: "('e \<Rightarrow> uword) \<Rightarrow> uword \<Rightarrow> 'e \<Rightarrow> int" where
  "fast_cmp key w1 e = (let w2 = key e in if w1 > w2 then 1 else if w1 < w2 then - 1 else 0)"

section \<open>Rotations\<close>

text \<open>Swing to the left and to the right, without balance maintenance.\<close>

fun avl_swl :: "'e avl \<Rightarrow> 'e avl res" where
  "avl_swl (ANode A a ba (ANode B b bb C)) = Inr (ANode (ANode A a ba B) b bb C)"
| "avl_swl t = Inl (NullDeref ''avl_swl'')"

fun avl_swr :: "'e avl \<Rightarrow> 'e avl res" where
  "avl_swr (ANode (ANode A b bb B) a ba C) = Inr (ANode A b bb (ANode B a ba C))"
| "avl_swr t = Inl (NullDeref ''avl_swr'')"

fun set_balance :: "int \<Rightarrow> 'e avl \<Rightarrow> 'e avl" where
  "set_balance x (ANode l a b r) = ANode l a x r"
| "set_balance x ANull = ANull"

text \<open>The assignments to the balance of the root and of one of its children after a swing.\<close>

fun set_root_left :: "int \<Rightarrow> int \<Rightarrow> 'e avl \<Rightarrow> 'e avl" where
  "set_root_left x y (ANode l a b r) = ANode (set_balance y l) a x r"
| "set_root_left x y ANull = ANull"

fun set_root_right :: "int \<Rightarrow> int \<Rightarrow> 'e avl \<Rightarrow> 'e avl" where
  "set_root_right x y (ANode l a b r) = ANode l a x (set_balance y r)"
| "set_root_right x y ANull = ANull"

text \<open>Balance maintenance after especially nasty swings.\<close>

fun avl_nasty :: "'e avl \<Rightarrow> 'e avl res" where
  "avl_nasty (ANode (ANode l1 a ba r1) c bc (ANode l2 e be r2)) =
     (let (x, y) = (if bc = - 1 then (0, 1) else if bc = 1 then (- 1, 0)
                    else if bc = 0 then (0, 0) else (ba, be))
      in Inr (ANode (ANode l1 a x r1) c 0 (ANode l2 e y r2)))"
| "avl_nasty t = Inl (NullDeref ''avl_nasty'')"

text \<open>The two double swings: first a child, then the root.\<close>

fun swing_left_right :: "'e avl \<Rightarrow> 'e avl res" where
  "swing_left_right (ANode l a b r) =
     rbind (avl_swl l) (\<lambda>l'. rbind (avl_swr (ANode l' a b r)) avl_nasty)"
| "swing_left_right ANull = Inl (NullDeref ''swing'')"

fun swing_right_left :: "'e avl \<Rightarrow> 'e avl res" where
  "swing_right_left (ANode l a b r) =
     rbind (avl_swr r) (\<lambda>r'. rbind (avl_swl (ANode l a b r')) avl_nasty)"
| "swing_right_left ANull = Inl (NullDeref ''swing'')"

section \<open>Insertion\<close>

text \<open>
  What \<open>avl_insert\<close> does at a node whose left (right) subtree has grown: the post-decremented
  (post-incremented) balance decides between no change of depth, a grown node and a swing.
\<close>

definition insert_left_grown :: "'e avl \<Rightarrow> 'e \<Rightarrow> int \<Rightarrow> 'e avl \<Rightarrow> ('e avl \<times> bool) res" where
  "insert_left_grown l a b r =
     (if b = 1 then Inr (ANode l a (b - 1) r, False)
      else if b = 0 then Inr (ANode l a (b - 1) r, True)
      else if av_balance l < 0
      then rbind (avl_swr (ANode l a (b - 1) r)) (\<lambda>t. Inr (set_root_right 0 0 t, False))
      else rbind (swing_left_right (ANode l a (b - 1) r)) (\<lambda>t. Inr (t, False)))"

definition insert_right_grown :: "'e avl \<Rightarrow> 'e \<Rightarrow> int \<Rightarrow> 'e avl \<Rightarrow> ('e avl \<times> bool) res" where
  "insert_right_grown l a b r =
     (if b = - 1 then Inr (ANode l a (b + 1) r, False)
      else if b = 0 then Inr (ANode l a (b + 1) r, True)
      else if av_balance r > 0
      then rbind (avl_swl (ANode l a (b + 1) r)) (\<lambda>t. Inr (set_root_left 0 0 t, False))
      else rbind (swing_right_left (ANode l a (b + 1) r)) (\<lambda>t. Inr (t, False)))"

text \<open>
  \<open>avl_insert\<close> returns the tree and whether its depth has grown.  The C code writes the subtree
  root back only when the depth of the subtree has not grown; the relation \<open>grown_ok\<close> of the laws states
  that a subtree that has grown keeps its root node, so the pointer in the parent stays right.
\<close>

fun avl_insert :: "('k \<Rightarrow> 'e \<Rightarrow> int) \<Rightarrow> ('e \<Rightarrow> 'k) \<Rightarrow> 'e \<Rightarrow> 'e avl \<Rightarrow> ('e avl \<times> bool) res" where
  "avl_insert cmp key x ANull = Inl (NullDeref ''avl_insert'')"
| "avl_insert cmp key x (ANode l a b r) =
     (let cmpres = cmp (key x) a in
      if cmpres < 0 then
        (if l \<noteq> ANull then
           rbind (avl_insert cmp key x l) (\<lambda>(l', grown).
             if grown then insert_left_grown l' a b r else Inr (ANode l' a b r, False))
         else Inr (ANode (ANode ANull x 0 ANull) a (b - 1) r, b = 0))
      else if cmpres > 0 then
        (if r \<noteq> ANull then
           rbind (avl_insert cmp key x r) (\<lambda>(r', grown).
             if grown then insert_right_grown l a b r' else Inr (ANode l a b r', False))
         else Inr (ANode l a (b + 1) (ANode ANull x 0 ANull), b = 0))
      else Inl (AssertFail ''OSet Insert: duplicate element added''))"

section \<open>Lookup\<close>

fun avl_lookup :: "('k \<Rightarrow> 'e \<Rightarrow> int) \<Rightarrow> 'k \<Rightarrow> 'e avl \<Rightarrow> 'e option" where
  "avl_lookup cmp k ANull = None"
| "avl_lookup cmp k (ANode l a b r) =
     (let cmpres = cmp k a in
      if cmpres < 0 then avl_lookup cmp k l
      else if cmpres > 0 then avl_lookup cmp k r
      else Some a)"

section \<open>Deletion\<close>

text \<open>What \<open>avl_remove\<close> does at a node whose left (right) subtree has shrunk.\<close>

definition remove_left_shrunk :: "'e avl \<Rightarrow> 'e \<Rightarrow> int \<Rightarrow> 'e avl \<Rightarrow> ('e avl \<times> bool) res" where
  "remove_left_shrunk l a b r =
     (if b = - 1 then Inr (ANode l a (b + 1) r, True)
      else if b = 0 then Inr (ANode l a (b + 1) r, False)
      else if r = ANull then Inl (NullDeref ''avl_remove'')
      else if av_balance r = 0
      then rbind (avl_swl (ANode l a (b + 1) r)) (\<lambda>t. Inr (set_root_left (- 1) 1 t, False))
      else if av_balance r = 1
      then rbind (avl_swl (ANode l a (b + 1) r)) (\<lambda>t. Inr (set_root_left 0 0 t, True))
      else rbind (swing_right_left (ANode l a (b + 1) r)) (\<lambda>t. Inr (t, True)))"

definition remove_right_shrunk :: "'e avl \<Rightarrow> 'e \<Rightarrow> int \<Rightarrow> 'e avl \<Rightarrow> ('e avl \<times> bool) res" where
  "remove_right_shrunk l a b r =
     (if b = 1 then Inr (ANode l a (b - 1) r, True)
      else if b = 0 then Inr (ANode l a (b - 1) r, False)
      else if l = ANull then Inl (NullDeref ''avl_remove'')
      else if av_balance l = 0
      then rbind (avl_swr (ANode l a (b - 1) r)) (\<lambda>t. Inr (set_root_right 1 (- 1) t, False))
      else if av_balance l = - 1
      then rbind (avl_swr (ANode l a (b - 1) r)) (\<lambda>t. Inr (set_root_right 0 0 t, True))
      else rbind (swing_left_right (ANode l a (b - 1) r)) (\<lambda>t. Inr (t, True)))"

text \<open>The loops \<open>while (n->right) n = n->right\<close> and \<open>while (n->left) n = n->left\<close>.\<close>

fun rightmost :: "'e avl \<Rightarrow> 'e option" where
  "rightmost ANull = None"
| "rightmost (ANode l a b r) = (if r = ANull then Some a else rightmost r)"

fun leftmost :: "'e avl \<Rightarrow> 'e option" where
  "leftmost ANull = None"
| "leftmost (ANode l a b r) = (if l = ANull then Some a else leftmost l)"

text \<open>
  \<open>avl_removeroot\<close> calls \<open>avl_remove\<close> again on the whole tree, so the recursion is not
  structural and its end depends on the order of the elements: the first argument bounds the
  number of calls.  \<open>remove_fuel\<close> calls are always enough (\<open>avl_remove_correct\<close>).
\<close>

fun avl_remove :: "nat \<Rightarrow> ('k \<Rightarrow> 'e \<Rightarrow> int) \<Rightarrow> ('e \<Rightarrow> 'k) \<Rightarrow> 'e \<Rightarrow> 'e avl \<Rightarrow> ('e avl \<times> bool) res"
  and avl_removeroot :: "nat \<Rightarrow> ('k \<Rightarrow> 'e \<Rightarrow> int) \<Rightarrow> ('e \<Rightarrow> 'k) \<Rightarrow> 'e avl \<Rightarrow> ('e avl \<times> bool) res" where
  "avl_remove 0 cmp key n t = Inl (Diverge ''avl_remove'')"
| "avl_remove (Suc f) cmp key n t =
     (case t of ANull \<Rightarrow> Inl (AssertFail ''avl_remove: subtree'')
      | ANode l a b r \<Rightarrow>
        (let cmpres = cmp (key n) a in
         if cmpres < 0 then
           rbind (avl_remove f cmp key n l) (\<lambda>(l', ch).
             if ch then remove_left_shrunk l' a b r else Inr (ANode l' a b r, False))
         else if cmpres > 0 then
           rbind (avl_remove f cmp key n r) (\<lambda>(r', ch).
             if ch then remove_right_shrunk l a b r' else Inr (ANode l a b r', False))
         else if key a = key n then avl_removeroot f cmp key t
         else Inl (AssertFail ''t->root == n'')))"
| "avl_removeroot 0 cmp key t = Inl (Diverge ''avl_removeroot'')"
| "avl_removeroot (Suc f) cmp key t =
     (case t of ANull \<Rightarrow> Inl (NullDeref ''avl_removeroot'')
      | ANode l a b r \<Rightarrow>
        (if l = ANull then (if r = ANull then Inr (ANull, True) else Inr (r, True))
         else if r = ANull then Inr (l, True)
         else
           (case (if b < 0 then rightmost l else leftmost r) of
              None \<Rightarrow> Inl (NullDeref ''avl_removeroot'')
            | Some n \<Rightarrow>
                rbind (avl_remove f cmp key n t) (\<lambda>(t', ch).
                  case t' of ANull \<Rightarrow> Inl (NullDeref ''avl_removeroot'')
                  | ANode l' a' b' r' \<Rightarrow> Inr (ANode l' n b' r', b' = 0 \<and> ch)))))"

definition remove_fuel :: "'e avl \<Rightarrow> nat" where
  "remove_fuel t = 3 * height t"

section \<open>Sets\<close>

record ('k, 'e) oset =
  os_cmp :: "'k \<Rightarrow> 'e \<Rightarrow> int"
  os_key :: "'e \<Rightarrow> 'k"
  os_nElems :: nat
  os_root :: "'e avl"
  os_stack :: "('e avl \<times> nat) list"

definition STACK_MAX :: nat where
  "STACK_MAX = 32"

definition OSetGen_Create :: "('k \<Rightarrow> 'e \<Rightarrow> int) \<Rightarrow> ('e \<Rightarrow> 'k) \<Rightarrow> ('k, 'e) oset" where
  "OSetGen_Create cmp key =
     \<lparr>os_cmp = cmp, os_key = key, os_nElems = 0, os_root = ANull, os_stack = []\<rparr>"

definition OSetGen_Insert :: "'e \<Rightarrow> ('k, 'e) oset \<Rightarrow> ('k, 'e) oset res" where
  "OSetGen_Insert e t =
     rbind (if os_root t = ANull then Inr (ANode ANull e 0 ANull)
            else rbind (avl_insert (os_cmp t) (os_key t) e (os_root t)) (\<lambda>(r, g). Inr r))
       (\<lambda>r. Inr (t\<lparr>os_root := r, os_nElems := Suc (os_nElems t), os_stack := []\<rparr>))"

definition OSetGen_Lookup :: "('k, 'e) oset \<Rightarrow> 'k \<Rightarrow> 'e option" where
  "OSetGen_Lookup t k = avl_lookup (os_cmp t) k (os_root t)"

definition OSetGen_Contains :: "('k, 'e) oset \<Rightarrow> 'k \<Rightarrow> bool" where
  "OSetGen_Contains t k = (OSetGen_Lookup t k \<noteq> None)"

definition OSetGen_Remove :: "'k \<Rightarrow> ('k, 'e) oset \<Rightarrow> ('e option \<times> ('k, 'e) oset) res" where
  "OSetGen_Remove k t =
     (case avl_lookup (os_cmp t) k (os_root t) of
        None \<Rightarrow> Inr (None, t)
      | Some n \<Rightarrow>
          rbind (avl_remove (remove_fuel (os_root t)) (os_cmp t) (os_key t) n (os_root t))
            (\<lambda>(r, ch). Inr (Some n, t\<lparr>os_root := r, os_nElems := os_nElems t - 1, os_stack := []\<rparr>)))"

definition OSetGen_Size :: "('k, 'e) oset \<Rightarrow> nat" where
  "OSetGen_Size t = os_nElems t"

text \<open>The iterator stack: its head is the top.\<close>

definition stackPush :: "'e avl \<Rightarrow> nat \<Rightarrow> ('e avl \<times> nat) list \<Rightarrow> ('e avl \<times> nat) list res" where
  "stackPush n i st =
     rassert ''stackTop < STACK_MAX'' (length st < STACK_MAX)
       (rassert ''1 <= i && i <= 3'' (1 \<le> i \<and> i \<le> 3) (Inr ((n, i) # st)))"

definition OSetGen_ResetIter :: "('k, 'e) oset \<Rightarrow> ('k, 'e) oset" where
  "OSetGen_ResetIter t = t\<lparr>os_stack := (if os_root t = ANull then [] else [(os_root t, 1)])\<rparr>"

text \<open>The \<open>goto case_1\<close> chain of \<open>OSetGen_Next\<close>: push the node, go to its left child.\<close>

fun push_left :: "'e avl \<Rightarrow> ('e avl \<times> nat) list \<Rightarrow> ('e avl \<times> nat) list res" where
  "push_left ANull st = Inr st"
| "push_left (ANode l a b r) st = rbind (stackPush (ANode l a b r) 2 st) (push_left l)"

text \<open>One turn of the loop in \<open>OSetGen_Next\<close>.  Nodes pushed by \<open>push_left\<close> carry 2 and make the
  next turn the last one, which bounds the loop: \<open>next_measure\<close> falls in every turn.\<close>

definition next_measure :: "('e avl \<times> nat) list \<Rightarrow> nat" where
  "next_measure st = sum_list (map (\<lambda>(n, i). if i = 1 then 1 else if i = 2 then 0 else 2) st)"

lemma next_measure_push_left:
  "push_left n st = Inr st' \<Longrightarrow> next_measure st' = next_measure st"
  by (induction n arbitrary: st)
    (auto simp: rbind_eq_Inr stackPush_def rassert_eq_Inr next_measure_def)

function next_loop :: "('e avl \<times> nat) list \<Rightarrow> ('e option \<times> ('e avl \<times> nat) list) res" where
  "next_loop st =
     (case st of [] \<Rightarrow> Inr (None, [])
      | (n, i) # st1 \<Rightarrow>
          if i = 1 then rbind (push_left n st1) next_loop
          else if i = 2 then
            (case n of ANull \<Rightarrow> Inl (NullDeref ''OSetGen_Next'')
             | ANode l a b r \<Rightarrow> rbind (stackPush n 3 st1) (\<lambda>st2. Inr (Some a, st2)))
          else if i = 3 then
            (case n of ANull \<Rightarrow> Inl (NullDeref ''OSetGen_Next'')
             | ANode l a b r \<Rightarrow> rbind (push_left r st1) next_loop)
          else Inl (AssertFail ''1 <= *i && *i <= 3''))"
  by pat_completeness auto
termination
  by (relation "measure next_measure")
    (auto dest!: next_measure_push_left, auto simp: next_measure_def)

declare next_loop.simps [simp del]

definition OSetGen_Next :: "('k, 'e) oset \<Rightarrow> ('e option \<times> ('k, 'e) oset) res" where
  "OSetGen_Next t = rbind (next_loop (os_stack t)) (\<lambda>(e, st). Inr (e, t\<lparr>os_stack := st\<rparr>))"

text \<open>\<open>OSetGen_ResetIterAt\<close>: the regular search that pushes a node when it goes left.\<close>

fun iter_at :: "('k \<Rightarrow> 'e \<Rightarrow> int) \<Rightarrow> 'k \<Rightarrow> 'e avl \<Rightarrow> ('e avl \<times> nat) list \<Rightarrow> ('e avl \<times> nat) list res" where
  "iter_at cmp k ANull st = Inr st"
| "iter_at cmp k (ANode l a b r) st =
     (let cmpres = cmp k a in
      if cmpres = 0 then stackPush (ANode l a b r) 2 st
      else if cmpres < 0 then rbind (stackPush (ANode l a b r) 2 st) (iter_at cmp k l)
      else iter_at cmp k r st)"

definition OSetGen_ResetIterAt :: "'k \<Rightarrow> ('k, 'e) oset \<Rightarrow> ('k, 'e) oset res" where
  "OSetGen_ResetIterAt k t =
     rbind (iter_at (os_cmp t) k (os_root t) []) (\<lambda>st. Inr (t\<lparr>os_stack := st\<rparr>))"

text \<open>
  The code of the tool changes elements in place through the pointers that a lookup or the
  iterator returned.  The write reaches the node wherever it is referred to: in the tree and
  in the nodes on the iterator stack.
\<close>

fun avl_map :: "('e \<Rightarrow> 'e) \<Rightarrow> 'e avl \<Rightarrow> 'e avl" where
  "avl_map f ANull = ANull"
| "avl_map f (ANode l a b r) = ANode (avl_map f l) (f a) b (avl_map f r)"

definition os_write :: "'e \<Rightarrow> 'e \<Rightarrow> ('k, 'e) oset \<Rightarrow> ('k, 'e) oset" where
  "os_write old new t =
     (let f = (\<lambda>x. if os_key t x = os_key t old then new else x)
      in t\<lparr>os_root := avl_map f (os_root t),
           os_stack := map (\<lambda>(n, i). (avl_map f n, i)) (os_stack t)\<rparr>)"

text \<open>\<open>OSetGen_FreeNode\<close>: releasing a node that the set still holds leaves a dangling pointer in
  the tree, which every later operation may follow.\<close>

definition OSetGen_FreeNode :: "'e \<Rightarrow> ('k, 'e) oset \<Rightarrow> ('k, 'e) oset res" where
  "OSetGen_FreeNode e t =
     (if os_key t e \<in> os_key t ` set (inorder (os_root t)) then Inl (UseAfterFree ''OSetGen_FreeNode'') else Inr t)"

text \<open>\<open>OSetGen_Destroy\<close>: the post-order traversal that frees the nodes, with its count.\<close>

definition destroy_measure :: "('e avl \<times> nat) list \<Rightarrow> nat" where
  "destroy_measure st =
     sum_list (map (\<lambda>(n, i). if i = 1 then 4 * length (inorder n)
        else if i = 2 then 4 * length (inorder (av_right n)) + 2 else 1) st)"

function destroy_loop :: "('e avl \<times> nat) list \<Rightarrow> nat \<Rightarrow> nat res" where
  "destroy_loop st sz =
     (case st of [] \<Rightarrow> Inr sz
      | (n, i) # st1 \<Rightarrow>
         (case n of ANull \<Rightarrow> Inl (NullDeref ''OSetGen_Destroy'')
          | ANode l a b r \<Rightarrow>
              if i = 1 then
                rbind (stackPush n 2 st1) (\<lambda>st2.
                  if l \<noteq> ANull then rbind (stackPush l 1 st2) (\<lambda>st3. destroy_loop st3 sz)
                  else destroy_loop st2 sz)
              else if i = 2 then
                rbind (stackPush n 3 st1) (\<lambda>st2.
                  if r \<noteq> ANull then rbind (stackPush r 1 st2) (\<lambda>st3. destroy_loop st3 sz)
                  else destroy_loop st2 sz)
              else if i = 3 then destroy_loop st1 (Suc sz)
              else Inl (AssertFail ''1 <= *i && *i <= 3'')))"
  by pat_completeness auto
termination
  by (relation "measure (\<lambda>(st, sz). destroy_measure st)")
    (auto simp: destroy_measure_def stackPush_def rassert_eq_Inr)

declare destroy_loop.simps [simp del]

definition OSetGen_Destroy :: "('k, 'e) oset \<Rightarrow> unit res" where
  "OSetGen_Destroy t =
     rbind (destroy_loop (if os_root t = ANull then [] else [(os_root t, 1)]) 0) (\<lambda>sz.
       rassert ''sz == t->nElems'' (sz = os_nElems t) (Inr ()))"

section \<open>Sets of words\<close>

type_synonym oset_word = "(uword, uword) oset"

definition OSetWord_Create :: oset_word where
  "OSetWord_Create = OSetGen_Create (fast_cmp (\<lambda>x. x)) (\<lambda>x. x)"

definition OSetWord_Insert :: "uword \<Rightarrow> oset_word \<Rightarrow> oset_word res" where
  "OSetWord_Insert val t = OSetGen_Insert val t"

definition OSetWord_Contains :: "oset_word \<Rightarrow> uword \<Rightarrow> bool" where
  "OSetWord_Contains t val = (OSetGen_Lookup t val \<noteq> None)"

definition OSetWord_Remove :: "uword \<Rightarrow> oset_word \<Rightarrow> (bool \<times> oset_word) res" where
  "OSetWord_Remove val t =
     rbind (OSetGen_Remove val t) (\<lambda>(n, t').
       case n of None \<Rightarrow> Inr (False, t')
       | Some n \<Rightarrow> rbind (OSetGen_FreeNode n t') (\<lambda>t''. Inr (True, t'')))"

definition OSetWord_Next :: "oset_word \<Rightarrow> (uword option \<times> oset_word) res" where
  "OSetWord_Next t = OSetGen_Next t"

definition OSetWord_Size :: "oset_word \<Rightarrow> nat" where
  "OSetWord_Size t = OSetGen_Size t"

section \<open>Loops over a set\<close>

text \<open>The elements that \<open>ResetIter\<close> and a loop of \<open>Next\<close> visit, for loops that do not change the set.
  The position of the iterator after such a loop is not kept: every loop of the tool starts by
  resetting it.\<close>

fun iter_loop :: "nat \<Rightarrow> ('k, 'e) oset \<Rightarrow> 'e list res" where
  "iter_loop 0 t = Inl (Diverge ''OSetGen_Next loop'')"
| "iter_loop (Suc f) t =
     rbind (OSetGen_Next t) (\<lambda>(e, t').
       case e of None \<Rightarrow> Inr [] | Some x \<Rightarrow> rbind (iter_loop f t') (\<lambda>xs. Inr (x # xs)))"

definition os_iter :: "('k, 'e) oset \<Rightarrow> 'e list res" where
  "os_iter t = iter_loop (Suc (os_nElems t)) (OSetGen_ResetIter t)"

text \<open>
  \<open>while ((e = VG_(OSetGen_Next)(set)) != NULL) body\<close>, where the set is part of the loop state
  and the body may insert, remove and reset the iterator.  The first argument bounds the number
  of turns.
\<close>

fun while_next :: "nat \<Rightarrow> ('s \<Rightarrow> ('e option \<times> 's) res) \<Rightarrow> ('e \<Rightarrow> 's \<Rightarrow> 's res) \<Rightarrow> 's \<Rightarrow> 's res" where
  "while_next 0 nxt body s = Inl (Diverge ''OSetGen_Next loop'')"
| "while_next (Suc f) nxt body s =
     rbind (nxt s) (\<lambda>(e, s1).
       case e of None \<Rightarrow> Inr s1
       | Some x \<Rightarrow> rbind (body x s1) (while_next f nxt body))"

end
