(* ===== verification/OSet_Laws.thy ===== *)
theory OSet_Laws
  imports OSet
begin

text \<open>
  Laws of the ordered set.  The swings and the two rebalancing steps are shown to keep the
  balance invariant and the in-order list (\<open>insert_left_grown_ok\<close> and its kin).  The locale
  \<open>oset_order\<close> states what the set relies on: the comparison orders the elements it holds, and a
  lookup key is comparable with them.  Inside it, insertion, lookup, removal and the iterator are
  shown to implement the corresponding operations on the in-order list and never to fail, for
  sets of fewer than \<open>OSET_ITER_MAX\<close> elements where the iterator stack matters.
  The set-level laws (\<open>Insert_correct\<close>, \<open>Remove_correct\<close>, \<open>Next_Some\<close>, \<open>ResetIterAt_correct\<close>)
  are what the components of the tool use.
\<close>

section \<open>Rebalancing\<close>

lemma height_0_iff [simp]: "height t = 0 \<longleftrightarrow> t = ANull"
  by (cases t) auto

lemma inorder_Nil_iff [simp]: "inorder t = [] \<longleftrightarrow> t = ANull"
  by (cases t) auto

text \<open>The result of an insertion step on a tree of height \<open>h\<close> rooted at \<open>a\<close>: balanced, with the
  given in-order list, and grown by one exactly when the flag says so, in which case the root
  node is still \<open>a\<close> and leans to one side.\<close>

definition grown_ok :: "nat \<Rightarrow> 'e \<Rightarrow> 'e list \<Rightarrow> ('e avl \<times> bool) res \<Rightarrow> bool" where
  "grown_ok h a xs res =
     (case res of Inl e \<Rightarrow> False
      | Inr (t, g) \<Rightarrow> avl_ok t \<and> t \<noteq> ANull \<and> inorder t = xs \<and> height t = h + of_bool g \<and>
          (g \<longrightarrow> av_balance t \<noteq> 0 \<and> av_elem t = a))"

definition shrunk_ok :: "nat \<Rightarrow> 'e list \<Rightarrow> ('e avl \<times> bool) res \<Rightarrow> bool" where
  "shrunk_ok h xs res =
     (case res of Inl e \<Rightarrow> False
      | Inr (t, ch) \<Rightarrow> avl_ok t \<and> inorder t = xs \<and> height t + of_bool ch = h)"

lemma insert_left_grown_ok:
  assumes "avl_ok (ANode l0 a b r)" "avl_ok l" "height l = Suc (height l0)" "av_balance l \<noteq> 0"
  shows "grown_ok (Suc (max (height l0) (height r))) a (inorder l @ a # inorder r)
           (insert_left_grown l a b r)"
proof -
  obtain A x bl B where l: "l = ANode A x bl B"
    using assms(3) by (cases l) auto
  show ?thesis
  proof (cases "b = - 1 \<and> 0 < bl")
    case True
    then obtain B1 y by' B2 where "B = ANode B1 y by' B2"
      using assms(2) l by (cases B) auto
    with True assms l show ?thesis
      by (auto simp: grown_ok_def insert_left_grown_def max_def split: if_splits)
  next
    case False
    with assms l show ?thesis
      by (auto simp: grown_ok_def insert_left_grown_def max_def split: if_splits)
  qed
qed

lemma insert_right_grown_ok:
  assumes "avl_ok (ANode l a b r0)" "avl_ok r" "height r = Suc (height r0)" "av_balance r \<noteq> 0"
  shows "grown_ok (Suc (max (height l) (height r0))) a (inorder l @ a # inorder r)
           (insert_right_grown l a b r)"
proof -
  obtain A x br B where r: "r = ANode A x br B"
    using assms(3) by (cases r) auto
  show ?thesis
  proof (cases "b = 1 \<and> br < 0")
    case True
    then obtain A1 y by' A2 where "A = ANode A1 y by' A2"
      using assms(2) r by (cases A) auto
    with True assms r show ?thesis
      by (auto simp: grown_ok_def insert_right_grown_def max_def split: if_splits)
  next
    case False
    with assms r show ?thesis
      by (auto simp: grown_ok_def insert_right_grown_def max_def split: if_splits)
  qed
qed

lemma remove_left_shrunk_ok:
  assumes "avl_ok (ANode l0 a b r)" "avl_ok l" "height l0 = Suc (height l)"
  shows "shrunk_ok (Suc (max (height l0) (height r))) (inorder l @ a # inorder r)
           (remove_left_shrunk l a b r)"
proof (cases "b = 1")
  case True
  then obtain A x br B where r: "r = ANode A x br B"
    using assms by (cases r) auto
  show ?thesis
  proof (cases "br < 0")
    case True
    then obtain A1 y by' A2 where "A = ANode A1 y by' A2"
      using assms r by (cases A) auto
    with True \<open>b = 1\<close> assms r show ?thesis
      by (auto simp: shrunk_ok_def remove_left_shrunk_def max_def split: if_splits)
  next
    case False
    with \<open>b = 1\<close> assms r show ?thesis
      by (auto simp: shrunk_ok_def remove_left_shrunk_def max_def split: if_splits)
  qed
next
  case False
  with assms show ?thesis
    by (auto simp: shrunk_ok_def remove_left_shrunk_def max_def split: if_splits)
qed

lemma remove_right_shrunk_ok:
  assumes "avl_ok (ANode l a b r0)" "avl_ok r" "height r0 = Suc (height r)"
  shows "shrunk_ok (Suc (max (height l) (height r0))) (inorder l @ a # inorder r)
           (remove_right_shrunk l a b r)"
proof (cases "b = - 1")
  case True
  then obtain A x bl B where l: "l = ANode A x bl B"
    using assms by (cases l) auto
  show ?thesis
  proof (cases "0 < bl")
    case True
    then obtain B1 y by' B2 where "B = ANode B1 y by' B2"
      using assms l by (cases B) auto
    with True \<open>b = - 1\<close> assms l show ?thesis
      by (auto simp: shrunk_ok_def remove_right_shrunk_def max_def split: if_splits)
  next
    case False
    with \<open>b = - 1\<close> assms l show ?thesis
      by (auto simp: shrunk_ok_def remove_right_shrunk_def max_def split: if_splits)
  qed
next
  case False
  with assms show ?thesis
    by (auto simp: shrunk_ok_def remove_right_shrunk_def max_def split: if_splits)
qed

section \<open>Ordered lists and the contract of the comparison\<close>

definition ordered :: "('k \<Rightarrow> 'e \<Rightarrow> int) \<Rightarrow> ('e \<Rightarrow> 'k) \<Rightarrow> ('e \<Rightarrow> bool) \<Rightarrow> 'e list \<Rightarrow> bool" where
  "ordered cmp key ok xs \<longleftrightarrow> sorted_wrt (\<lambda>x y. cmp (key x) y < 0) xs \<and> (\<forall>x \<in> set xs. ok x)"

definition ins_sorted :: "('k \<Rightarrow> 'e \<Rightarrow> int) \<Rightarrow> ('e \<Rightarrow> 'k) \<Rightarrow> 'e \<Rightarrow> 'e list \<Rightarrow> 'e list" where
  "ins_sorted cmp key x xs =
     filter (\<lambda>y. cmp (key x) y > 0) xs @ x # filter (\<lambda>y. cmp (key x) y < 0) xs"

lemma ordered_append [simp]:
  "ordered cmp key ok (xs @ ys) \<longleftrightarrow>
     ordered cmp key ok xs \<and> ordered cmp key ok ys \<and>
     (\<forall>x \<in> set xs. \<forall>y \<in> set ys. cmp (key x) y < 0)"
  by (auto simp: ordered_def sorted_wrt_append)

lemma ordered_Cons [simp]:
  "ordered cmp key ok (x # xs) \<longleftrightarrow>
     ok x \<and> ordered cmp key ok xs \<and> (\<forall>y \<in> set xs. cmp (key x) y < 0)"
  by (auto simp: ordered_def)

lemma ordered_Nil [simp]: "ordered cmp key ok []"
  by (simp add: ordered_def)

lemma ordered_filter: "ordered cmp key ok xs \<Longrightarrow> ordered cmp key ok (filter P xs)"
  by (induction xs) auto

lemma ordered_ok: "ordered cmp key ok xs \<Longrightarrow> x \<in> set xs \<Longrightarrow> ok x"
  by (simp add: ordered_def)

lemma rightmost_inorder: "t \<noteq> ANull \<Longrightarrow> rightmost t = Some (last (inorder t))"
  by (induction t) auto

lemma leftmost_inorder: "t \<noteq> ANull \<Longrightarrow> leftmost t = Some (hd (inorder t))"
  by (induction t) (auto simp: hd_append)

locale oset_order =
  fixes cmp :: "'k \<Rightarrow> 'e \<Rightarrow> int" and key :: "'e \<Rightarrow> 'k"
    and ok :: "'e \<Rightarrow> bool" and okk :: "'k \<Rightarrow> bool"
  assumes key_okk: "ok x \<Longrightarrow> okk (key x)"
    and cmp_refl: "ok x \<Longrightarrow> cmp (key x) x = 0"
    and cmp_antisym: "ok x \<Longrightarrow> ok y \<Longrightarrow> cmp (key x) y < 0 \<longleftrightarrow> 0 < cmp (key y) x"
    and cmp_less: "okk k \<Longrightarrow> ok x \<Longrightarrow> ok y \<Longrightarrow> cmp (key x) y < 0 \<Longrightarrow> cmp k x < 0 \<Longrightarrow> cmp k y < 0"
    and cmp_greater: "okk k \<Longrightarrow> ok x \<Longrightarrow> ok y \<Longrightarrow> cmp (key x) y < 0 \<Longrightarrow> 0 < cmp k y \<Longrightarrow> 0 < cmp k x"
begin

lemma ordered_distinct: "ordered cmp key ok xs \<Longrightarrow> distinct xs"
  by (induction xs) (use cmp_refl in force)+

lemma ordered_ins_sorted:
  assumes "ordered cmp key ok xs" "ok x"
  shows "ordered cmp key ok (ins_sorted cmp key x xs)"
proof -
  have "cmp (key y) z < 0" if "y \<in> set xs" "z \<in> set xs" "0 < cmp (key x) y" "cmp (key x) z < 0" for y z
  proof -
    have "ok y" "ok z" using that ordered_ok [OF assms(1)] by simp_all
    with that assms show ?thesis
      using cmp_antisym [of y x] key_okk [of y] cmp_less [of "key y" x z] by simp
  qed
  moreover have "cmp (key y) x < 0" if "y \<in> set xs" "0 < cmp (key x) y" for y
    using cmp_antisym [of y x] that assms ordered_ok [OF assms(1)] by simp
  ultimately show ?thesis
    using assms by (auto simp: ins_sorted_def ordered_filter)
qed

lemma set_ins_sorted:
  "\<forall>y \<in> set xs. cmp (key x) y \<noteq> 0 \<Longrightarrow> set (ins_sorted cmp key x xs) = insert x (set xs)"
  unfolding ins_sorted_def by fastforce

lemma length_ins_sorted:
  "\<forall>y \<in> set xs. cmp (key x) y \<noteq> 0 \<Longrightarrow> length (ins_sorted cmp key x xs) = Suc (length xs)"
  unfolding ins_sorted_def by (induction xs) force+

lemma filter_split:
  assumes "ordered cmp key ok (xs @ a # ys)" "okk k"
  shows "cmp k a < 0 \<Longrightarrow> filter (\<lambda>y. 0 < cmp k y) (a # ys) = [] \<and>
           filter (\<lambda>y. cmp k y < 0) (a # ys) = a # ys"
    and "0 < cmp k a \<Longrightarrow> filter (\<lambda>y. cmp k y < 0) (xs @ [a]) = [] \<and>
           filter (\<lambda>y. 0 < cmp k y) (xs @ [a]) = xs @ [a]"
proof -
  assume "cmp k a < 0"
  then have "\<forall>y \<in> set ys. cmp k y < 0"
    using assms cmp_less [of k a] ordered_ok by fastforce
  with \<open>cmp k a < 0\<close> show "filter (\<lambda>y. 0 < cmp k y) (a # ys) = [] \<and>
           filter (\<lambda>y. cmp k y < 0) (a # ys) = a # ys"
    by (fastforce simp: filter_empty_conv filter_id_conv)
next
  assume "0 < cmp k a"
  then have "\<forall>y \<in> set xs. 0 < cmp k y"
    using assms cmp_greater [of k _ a] ordered_ok by fastforce
  with \<open>0 < cmp k a\<close> show "filter (\<lambda>y. cmp k y < 0) (xs @ [a]) = [] \<and>
           filter (\<lambda>y. 0 < cmp k y) (xs @ [a]) = xs @ [a]"
    by (fastforce simp: filter_empty_conv filter_id_conv)
qed

lemma ins_sorted_split:
  assumes "ordered cmp key ok (xs @ a # ys)" "ok x"
  shows "cmp (key x) a < 0 \<Longrightarrow>
           ins_sorted cmp key x (xs @ a # ys) = ins_sorted cmp key x xs @ a # ys"
    and "0 < cmp (key x) a \<Longrightarrow>
           ins_sorted cmp key x (xs @ a # ys) = xs @ a # ins_sorted cmp key x ys"
  using filter_split [OF assms(1) key_okk [OF assms(2)]]
  by (auto simp: ins_sorted_def)

theorem avl_insert_correct:
  assumes "avl_ok t" "t \<noteq> ANull" "ordered cmp key ok (inorder t)" "ok x"
    and "\<forall>y \<in> set (inorder t). cmp (key x) y \<noteq> 0"
  shows "grown_ok (height t) (av_elem t) (ins_sorted cmp key x (inorder t)) (avl_insert cmp key x t)"
  using assms
proof (induction t)
  case ANull
  then show ?case by simp
next
  case (ANode l a b r)
  have ord: "ordered cmp key ok (inorder l @ a # inorder r)"
    using ANode.prems by simp
  note split = ins_sorted_split [OF ord \<open>ok x\<close>]
  consider "cmp (key x) a < 0" | "0 < cmp (key x) a"
    using ANode.prems(5) by force
  then show ?case
  proof cases
    case 1
    show ?thesis
    proof (cases "l = ANull")
      case True
      with 1 ANode.prems split(1) show ?thesis
        by (cases r) (auto simp: grown_ok_def ins_sorted_def max_def)
    next
      case False
      then have IH: "grown_ok (height l) (av_elem l) (ins_sorted cmp key x (inorder l))
                  (avl_insert cmp key x l)"
        using ANode by simp
      then obtain l' g where l': "avl_insert cmp key x l = Inr (l', g)"
        by (auto simp: grown_ok_def split: sum.splits)
      show ?thesis
      proof (cases g)
        case True
        with IH l' have "grown_ok (Suc (max (height l) (height r))) a (inorder l' @ a # inorder r)
                  (insert_left_grown l' a b r)"
          using ANode.prems by (intro insert_left_grown_ok) (auto simp: grown_ok_def)
        with True IH l' False 1 split(1) show ?thesis
          by (simp add: grown_ok_def)
      next
        case False
        with \<open>l \<noteq> ANull\<close> IH l' 1 split(1) ANode.prems show ?thesis
          by (simp add: grown_ok_def)
      qed
    qed
  next
    case 2
    then have n: "\<not> cmp (key x) a < 0" by simp
    show ?thesis
    proof (cases "r = ANull")
      case True
      with 2 n ANode.prems split(2) show ?thesis
        by (cases l) (auto simp: grown_ok_def ins_sorted_def max_def)
    next
      case False
      then have IH: "grown_ok (height r) (av_elem r) (ins_sorted cmp key x (inorder r))
                  (avl_insert cmp key x r)"
        using ANode by simp
      then obtain r' g where r': "avl_insert cmp key x r = Inr (r', g)"
        by (auto simp: grown_ok_def split: sum.splits)
      show ?thesis
      proof (cases g)
        case True
        with IH r' have "grown_ok (Suc (max (height l) (height r))) a (inorder l @ a # inorder r')
                  (insert_right_grown l a b r')"
          using ANode.prems by (intro insert_right_grown_ok) (auto simp: grown_ok_def)
        with True IH r' False 2 n split(2) show ?thesis
          by (simp add: grown_ok_def)
      next
        case False
        with \<open>r \<noteq> ANull\<close> IH r' 2 n split(2) ANode.prems show ?thesis
          by (simp add: grown_ok_def)
      qed
    qed
  qed
qed

lemma avl_insert_duplicate:
  assumes "ordered cmp key ok (inorder t)" "ok x" "y \<in> set (inorder t)" "cmp (key x) y = 0"
  shows "avl_insert cmp key x t = Inl (AssertFail ''OSet Insert: duplicate element added'')"
  using assms
proof (induction t)
  case ANull
  then show ?case by simp
next
  case (ANode l a b r)
  have ord: "ordered cmp key ok (inorder l @ a # inorder r)"
    using ANode.prems by simp
  note split = filter_split [OF ord key_okk [OF \<open>ok x\<close>]]
  consider "cmp (key x) a < 0" | "cmp (key x) a > 0" | "cmp (key x) a = 0" by linarith
  then show ?case
  proof cases
    case 1
    then have "y \<in> set (inorder l)"
      using ANode.prems split(1) by (auto simp: filter_id_conv)
    then show ?thesis using 1 ANode by auto
  next
    case 2
    then have "y \<in> set (inorder r)"
      using ANode.prems split(2) by (auto simp: filter_id_conv)
    then show ?thesis using 2 ANode by auto
  qed simp
qed

lemma avl_lookup_None:
  assumes "ordered cmp key ok (inorder t)" "okk k" "avl_lookup cmp k t = None" "y \<in> set (inorder t)"
  shows "cmp k y \<noteq> 0"
  using assms
proof (induction t)
  case ANull
  then show ?case by simp
next
  case (ANode l a b r)
  have ord: "ordered cmp key ok (inorder l @ a # inorder r)"
    using ANode.prems by simp
  note split = filter_split [OF ord \<open>okk k\<close>]
  consider "cmp k a < 0" | "cmp k a > 0" | "cmp k a = 0" by linarith
  then show ?case
  proof cases
    case 1
    with ANode split(1) show ?thesis by (auto simp: filter_id_conv)
  next
    case 2
    with ANode split(2) show ?thesis by (auto simp: filter_id_conv)
  next
    case 3
    with ANode.prems show ?thesis by simp
  qed
qed

end

lemma avl_lookup_Some: "avl_lookup cmp k t = Some y \<Longrightarrow> y \<in> set (inorder t) \<and> cmp k y = 0"
  by (induction t) (auto simp: Let_def split: if_splits)

section \<open>Removal\<close>

context oset_order
begin

lemma ordered_mem_cases:
  assumes "ordered cmp key ok (xs @ a # ys)" "n \<in> set (xs @ a # ys)"
  obtains "n \<in> set xs" "cmp (key n) a < 0" "n \<noteq> a" "n \<notin> set ys"
    | "n = a" "cmp (key n) a = 0" "n \<notin> set xs" "n \<notin> set ys"
    | "n \<in> set ys" "0 < cmp (key n) a" "n \<noteq> a" "n \<notin> set xs"
proof -
  have "distinct (xs @ a # ys)"
    using assms(1) by (rule ordered_distinct)
  moreover have "ok n" "ok a"
    using assms ordered_ok [OF assms(1)] by auto
  ultimately show thesis
    using assms that cmp_refl [of a] cmp_antisym [of a n] by auto
qed

lemma filter_remove_neq: "n \<notin> set xs \<Longrightarrow> filter (\<lambda>y. y \<noteq> n) xs = xs"
  by (auto simp: filter_id_conv)

lemma remove_below:
  assumes ok: "avl_ok (ANode l a b r)" and ord: "ordered cmp key ok (inorder l @ a # inorder r)"
    and n: "n \<in> set (inorder l)" "cmp (key n) a < 0"
    and IH: "shrunk_ok (height l) (filter (\<lambda>y. y \<noteq> n) (inorder l)) (avl_remove f cmp key n l)"
  obtains l' ch where "avl_remove f cmp key n l = Inr (l', ch)" "avl_ok l'"
    "inorder l' = filter (\<lambda>y. y \<noteq> n) (inorder l)" "height l' + of_bool ch = height l"
    "shrunk_ok (height (ANode l a b r)) (filter (\<lambda>y. y \<noteq> n) (inorder l @ a # inorder r))
       (avl_remove (Suc f) cmp key n (ANode l a b r))"
proof -
  obtain l' ch where l': "avl_remove f cmp key n l = Inr (l', ch)" "avl_ok l'"
    "inorder l' = filter (\<lambda>y. y \<noteq> n) (inorder l)" "height l' + of_bool ch = height l"
    using IH by (auto simp: shrunk_ok_def split: sum.splits)
  have fl: "filter (\<lambda>y. y \<noteq> n) (a # inorder r) = a # inorder r"
    using n ordered_distinct [OF ord] by (intro filter_remove_neq) auto
  have "shrunk_ok (height (ANode l a b r)) (inorder l' @ a # inorder r)
          (avl_remove (Suc f) cmp key n (ANode l a b r))"
  proof (cases ch)
    case True
    then have "shrunk_ok (Suc (max (height l) (height r))) (inorder l' @ a # inorder r)
        (remove_left_shrunk l' a b r)"
      using ok l' by (intro remove_left_shrunk_ok) auto
    with True l' n show ?thesis by simp
  next
    case False
    with l' n ok show ?thesis by (simp add: shrunk_ok_def)
  qed
  with l' fl that show thesis by simp
qed

lemma remove_above:
  assumes ok: "avl_ok (ANode l a b r)" and ord: "ordered cmp key ok (inorder l @ a # inorder r)"
    and n: "n \<in> set (inorder r)" "0 < cmp (key n) a"
    and IH: "shrunk_ok (height r) (filter (\<lambda>y. y \<noteq> n) (inorder r)) (avl_remove f cmp key n r)"
  obtains r' ch where "avl_remove f cmp key n r = Inr (r', ch)" "avl_ok r'"
    "inorder r' = filter (\<lambda>y. y \<noteq> n) (inorder r)" "height r' + of_bool ch = height r"
    "shrunk_ok (height (ANode l a b r)) (filter (\<lambda>y. y \<noteq> n) (inorder l @ a # inorder r))
       (avl_remove (Suc f) cmp key n (ANode l a b r))"
proof -
  obtain r' ch where r': "avl_remove f cmp key n r = Inr (r', ch)" "avl_ok r'"
    "inorder r' = filter (\<lambda>y. y \<noteq> n) (inorder r)" "height r' + of_bool ch = height r"
    using IH by (auto simp: shrunk_ok_def split: sum.splits)
  have fl: "filter (\<lambda>y. y \<noteq> n) (inorder l) = inorder l" "n \<noteq> a"
    using n ordered_distinct [OF ord] by (auto intro!: filter_remove_neq)
  have "shrunk_ok (height (ANode l a b r)) (inorder l @ a # inorder r')
          (avl_remove (Suc f) cmp key n (ANode l a b r))"
  proof (cases ch)
    case True
    then have "shrunk_ok (Suc (max (height l) (height r))) (inorder l @ a # inorder r')
        (remove_right_shrunk l a b r')"
      using ok r' by (intro remove_right_shrunk_ok) auto
    with True r' n show ?thesis by simp
  next
    case False
    with r' n ok show ?thesis by (simp add: shrunk_ok_def)
  qed
  with r' fl n that show thesis by simp
qed

lemma removeroot_left:
  assumes ok: "avl_ok (ANode l a b r)" and ord: "ordered cmp key ok (inorder l @ a # inorder r)"
    and nn: "l \<noteq> ANull" "r \<noteq> ANull" and b: "b < 0"
    and IH: "\<And>n. n \<in> set (inorder l) \<Longrightarrow>
      shrunk_ok (height l) (filter (\<lambda>y. y \<noteq> n) (inorder l)) (avl_remove f cmp key n l)"
  shows "shrunk_ok (height (ANode l a b r)) (inorder l @ inorder r)
           (avl_removeroot (Suc (Suc f)) cmp key (ANode l a b r))"
proof -
  let ?n = "last (inorder l)"
  have n: "?n \<in> set (inorder l)" "cmp (key ?n) a < 0" "rightmost l = Some ?n"
    using nn ord by (auto simp: rightmost_inorder)
  obtain l' ch where l': "avl_remove f cmp key ?n l = Inr (l', ch)" "avl_ok l'"
    "inorder l' = filter (\<lambda>y. y \<noteq> ?n) (inorder l)" "height l' + of_bool ch = height l"
    using remove_below [OF ok ord n(1,2) IH [OF n(1)]] by metis
  have "distinct (inorder l)"
    using ord ordered_distinct [of "inorder l"] by simp
  then have "inorder l' @ [?n] = inorder l"
    using l'(3) nn by (cases "inorder l" rule: rev_cases) (auto simp: filter_remove_neq)
  then have in_eq: "inorder l' @ ?n # inorder r = inorder l @ inorder r"
    by (metis append.assoc append_Cons append_Nil)
  have "avl_remove (Suc f) cmp key ?n (ANode l a b r) =
      (if ch then Inr (ANode l' a 0 r, True) else Inr (ANode l' a b r, False))"
    using l' n b ok by (auto simp: remove_left_shrunk_def)
  then show ?thesis
    using nn n b l' ok in_eq by (auto simp: shrunk_ok_def split: if_splits)
qed

lemma removeroot_right:
  assumes ok: "avl_ok (ANode l a b r)" and ord: "ordered cmp key ok (inorder l @ a # inorder r)"
    and nn: "l \<noteq> ANull" "r \<noteq> ANull" and b: "\<not> b < 0"
    and IH: "\<And>n. n \<in> set (inorder r) \<Longrightarrow>
      shrunk_ok (height r) (filter (\<lambda>y. y \<noteq> n) (inorder r)) (avl_remove f cmp key n r)"
  shows "shrunk_ok (height (ANode l a b r)) (inorder l @ inorder r)
           (avl_removeroot (Suc (Suc f)) cmp key (ANode l a b r))"
proof -
  let ?n = "hd (inorder r)"
  have n: "?n \<in> set (inorder r)" "leftmost r = Some ?n"
    using nn by (auto simp: leftmost_inorder)
  have gt: "0 < cmp (key ?n) a"
    using n(1) ordered_mem_cases [OF ord, of ?n] ordered_distinct [OF ord] by auto
  obtain r' ch where r': "avl_remove f cmp key ?n r = Inr (r', ch)" "avl_ok r'"
    "inorder r' = filter (\<lambda>y. y \<noteq> ?n) (inorder r)" "height r' + of_bool ch = height r"
    using remove_above [OF ok ord n(1) gt IH [OF n(1)]] by metis
  have "distinct (inorder r)"
    using ord ordered_distinct [of "inorder r"] by simp
  then have "?n # inorder r' = inorder r"
    using r'(3) nn by (cases "inorder r") (auto simp: filter_id_conv)
  then have in_eq: "inorder l @ ?n # inorder r' = inorder l @ inorder r" by simp
  have "avl_remove (Suc f) cmp key ?n (ANode l a b r) =
      (if ch then Inr (ANode l a (b - 1) r', b = 1) else Inr (ANode l a b r', False))"
    using r' gt b ok by (auto simp: remove_right_shrunk_def)
  then show ?thesis
    using nn n b r' ok in_eq by (auto simp: shrunk_ok_def split: if_splits)
qed

theorem avl_remove_correct:
  assumes "avl_ok t" "ordered cmp key ok (inorder t)" "n \<in> set (inorder t)" "3 * height t \<le> f"
  shows "shrunk_ok (height t) (filter (\<lambda>y. y \<noteq> n) (inorder t)) (avl_remove f cmp key n t)"
  using assms
proof (induction t arbitrary: f n)
  case ANull
  then show ?case by simp
next
  case (ANode l a b r)
  obtain f' where f: "f = Suc (Suc (Suc f'))"
    using ANode.prems(4) le_Suc_ex [of 3 f] by force
  have ord: "ordered cmp key ok (inorder l @ a # inorder r)"
    using ANode.prems by simp
  have IHl: "shrunk_ok (height l) (filter (\<lambda>y. y \<noteq> m) (inorder l)) (avl_remove g cmp key m l)"
    if "m \<in> set (inorder l)" "f' \<le> g" for m g
    using that ANode f by (intro ANode.IH(1)) auto
  have IHr: "shrunk_ok (height r) (filter (\<lambda>y. y \<noteq> m) (inorder r)) (avl_remove g cmp key m r)"
    if "m \<in> set (inorder r)" "f' \<le> g" for m g
    using that ANode f by (intro ANode.IH(2)) auto
  from ANode.prems(3) have "n \<in> set (inorder l @ a # inorder r)" by simp
  with ord show ?case
  proof (cases rule: ordered_mem_cases)
    case 1
    have "shrunk_ok (height l) (filter (\<lambda>y. y \<noteq> n) (inorder l))
        (avl_remove (Suc (Suc f')) cmp key n l)"
      using 1 by (intro IHl) auto
    with ANode.prems(1) ord 1(1,2) show ?thesis
      unfolding f inorder.simps by (rule remove_below)
  next
    case 3
    have "shrunk_ok (height r) (filter (\<lambda>y. y \<noteq> n) (inorder r))
        (avl_remove (Suc (Suc f')) cmp key n r)"
      using 3 by (intro IHr) auto
    with ANode.prems(1) ord 3(1,2) show ?thesis
      unfolding f inorder.simps by (rule remove_above)
  next
    case 2
    have "shrunk_ok (height (ANode l a b r)) (inorder l @ inorder r)
        (avl_removeroot (Suc (Suc f')) cmp key (ANode l a b r))"
    proof (cases "l = ANull \<or> r = ANull")
      case True
      with ANode.prems(1) show ?thesis by (auto simp: shrunk_ok_def)
    next
      case False
      then have nn: "l \<noteq> ANull" "r \<noteq> ANull" by simp_all
      show ?thesis
      proof (cases "b < 0")
        case True
        show ?thesis
          by (rule removeroot_left [OF ANode.prems(1) ord nn True]) (rule IHl, simp_all)
      next
        case False
        show ?thesis
          by (rule removeroot_right [OF ANode.prems(1) ord nn False]) (rule IHr, simp_all)
      qed
    qed
    with 2 f show ?thesis by (simp add: filter_remove_neq del: avl_removeroot.simps)
  qed
qed

end

section \<open>Iteration\<close>

text \<open>What is left to iterate over, and the invariant that keeps the stack within its array.\<close>

fun pending :: "'e avl \<times> nat \<Rightarrow> 'e list" where
  "pending (ANull, i) = []"
| "pending (ANode l a b r, i) =
     (if i = 1 then inorder (ANode l a b r) else if i = 2 then a # inorder r else inorder r)"

definition rest :: "('e avl \<times> nat) list \<Rightarrow> 'e list" where
  "rest st = concat (map pending st)"

lemma rest_simps [simp]: "rest [] = []" "rest (x # st) = pending x @ rest st"
  by (simp_all add: rest_def)

fun stack_ok :: "('e avl \<times> nat) list \<Rightarrow> bool" where
  "stack_ok [] = True"
| "stack_ok ((n, i) # st) =
     (n \<noteq> ANull \<and> 1 \<le> i \<and> i \<le> 3 \<and> length st + height n \<le> STACK_MAX \<and> stack_ok st)"

lemma push_left_correct:
  assumes "stack_ok st" "length st + height n \<le> STACK_MAX"
  shows "\<exists>st'. push_left n st = Inr st' \<and> stack_ok st' \<and> rest st' = inorder n @ rest st \<and>
           (n \<noteq> ANull \<longrightarrow> (\<exists>l a b r st''. st' = (ANode l a b r, 2) # st''))"
  using assms
proof (induction n arbitrary: st)
  case ANull
  then show ?case by simp
next
  case (ANode l a b r)
  let ?st = "(ANode l a b r, 2) # st"
  have push: "stackPush (ANode l a b r) 2 st = Inr ?st"
    using ANode.prems by (simp add: stackPush_def)
  moreover have "\<exists>st'. push_left l ?st = Inr st' \<and> stack_ok st' \<and> rest st' = inorder l @ rest ?st \<and>
           (l \<noteq> ANull \<longrightarrow> (\<exists>l' a' b' r' st''. st' = (ANode l' a' b' r', 2) # st''))"
    using ANode.prems by (intro ANode.IH(1)) auto
  ultimately show ?case
    by (cases "l = ANull") auto
qed

theorem next_loop_correct:
  assumes "stack_ok st"
  shows "(case rest st of [] \<Rightarrow> next_loop st = Inr (None, [])
          | x # xs \<Rightarrow> \<exists>st'. next_loop st = Inr (Some x, st') \<and> stack_ok st' \<and> rest st' = xs)"
  using assms
proof (induction st rule: next_loop.induct)
  case (1 st)
  show ?case
  proof (cases st)
    case Nil
    then show ?thesis by (simp add: next_loop.simps)
  next
    case (Cons p st1)
    obtain n i where p: "p = (n, i)" by (cases p)
    with 1(3) Cons obtain l a b r where n: "n = ANode l a b r"
      by (cases n) auto
    consider "i = 1" | "i = 2" | "i = 3"
      using 1(3) Cons p by fastforce
    then show ?thesis
    proof cases
      case i: 1
      obtain st' where st': "push_left n st1 = Inr st'" "stack_ok st'" "rest st' = inorder n @ rest st1"
        using push_left_correct [of st1 n] 1(3) Cons p by auto
      have "next_loop st = next_loop st'"
        using Cons p i st'(1) by (subst next_loop.simps) simp
      moreover have "rest st' = rest st"
        using Cons p i n st'(3) by simp
      ultimately show ?thesis
        using 1(1) [OF Cons p [symmetric] i st'(1) st'(2)] by (cases "rest st") auto
    next
      case 2
      have "next_loop st = Inr (Some a, (n, 3) # st1)"
        using 1(3) Cons p n 2 by (subst next_loop.simps) (simp add: stackPush_def)
      with 1(3) Cons p n 2 show ?thesis by simp
    next
      case i: 3
      then have i': "i \<noteq> 1" "i \<noteq> 2" by simp_all
      obtain st' where st': "push_left r st1 = Inr st'" "stack_ok st'" "rest st' = inorder r @ rest st1"
        using push_left_correct [of st1 r] 1(3) Cons p n by force
      have "next_loop st = next_loop st'"
        using Cons p i n st'(1) by (subst next_loop.simps) simp
      moreover have "rest st' = rest st"
        using Cons p i n st'(3) by simp
      ultimately show ?thesis
        using 1(2) [OF Cons p [symmetric] i' i n st'(1) st'(2)] by (cases "rest st") auto
    qed
  qed
qed

text \<open>The least number of nodes of a balanced tree of a given height.\<close>

fun avl_min :: "nat \<Rightarrow> nat" where
  "avl_min 0 = 0"
| "avl_min (Suc 0) = 1"
| "avl_min (Suc (Suc n)) = Suc (avl_min n + avl_min (Suc n))"

lemma avl_min_Suc_mono: "avl_min n \<le> avl_min (Suc n)"
  by (induction n rule: avl_min.induct) auto

lemma avl_min_mono: "m \<le> n \<Longrightarrow> avl_min m \<le> avl_min n"
  by (rule lift_Suc_mono_le [of avl_min, OF avl_min_Suc_mono])

lemma avl_min_size: "avl_ok t \<Longrightarrow> avl_min (height t) \<le> length (inorder t)"
proof (induction t)
  case ANull
  then show ?case by simp
next
  case (ANode l a b r)
  then have IH: "avl_min (height l) \<le> length (inorder l)" "avl_min (height r) \<le> length (inorder r)"
    by simp_all
  have sub: "avl_min (Suc (Suc h)) \<le> Suc (avl_min x + avl_min y)"
    if "h \<le> x" "Suc h \<le> y" for h x y
    using that avl_min_mono [of h x] avl_min_mono [of "Suc h" y] by simp
  consider "height l = 0" "height r = 0" | h where "height l = Suc h" "h \<le> height r" "height r \<le> Suc h"
    | h where "height r = Suc h" "h \<le> height l" "height l \<le> Suc h"
    using ANode.prems by (cases "height l"; cases "height r") force+
  then show ?case
  proof cases
    case 1
    then show ?thesis by simp
  next
    case (2 h)
    then show ?thesis using IH sub [of h "height r" "height l"] by (simp add: max_def)
  next
    case (3 h)
    then show ?thesis using IH sub [of h "height l" "height r"] by (simp add: max_def)
  qed
qed

fun avl_min_pair :: "nat \<Rightarrow> int \<times> int" where
  "avl_min_pair 0 = (0, 1)"
| "avl_min_pair (Suc n) = (case avl_min_pair n of (x, y) \<Rightarrow> (y, 1 + x + y))"

lemma avl_min_pair_eq: "avl_min_pair n = (int (avl_min n), int (avl_min (Suc n)))"
  by (induction n) auto

lemma avl_min_33: "avl_min 33 = 9227464"
proof -
  have "avl_min_pair 33 = (9227464, 14930351)"
    by code_simp
  then show ?thesis by (simp add: avl_min_pair_eq)
qed

definition OSET_ITER_MAX :: nat where
  "OSET_ITER_MAX = 9227464"

lemma height_le_STACK_MAX:
  assumes "avl_ok t" "length (inorder t) < OSET_ITER_MAX"
  shows "height t \<le> STACK_MAX"
proof (rule ccontr)
  assume "\<not> height t \<le> STACK_MAX"
  then have "avl_min 33 \<le> avl_min (height t)"
    by (intro avl_min_mono) (simp add: STACK_MAX_def)
  with avl_min_size [OF assms(1)] assms(2) show False
    by (simp add: avl_min_33 OSET_ITER_MAX_def)
qed

lemma avl_map_simps [simp]:
  "inorder (avl_map f t) = map f (inorder t)" "height (avl_map f t) = height t"
  "avl_ok (avl_map f t) = avl_ok t" "avl_map f t = ANull \<longleftrightarrow> t = ANull"
proof -
  show h: "height (avl_map f t) = height t" for t by (induction t) auto
  show "inorder (avl_map f t) = map f (inorder t)" by (induction t) auto
  show "avl_ok (avl_map f t) = avl_ok t" by (induction t) (auto simp: h)
  show "avl_map f t = ANull \<longleftrightarrow> t = ANull" by (cases t) auto
qed

lemma stack_ok_map [simp]: "stack_ok (map (\<lambda>(n, i). (avl_map f n, i)) st) = stack_ok st"
  by (induction st rule: stack_ok.induct) auto

lemma rest_map [simp]: "rest (map (\<lambda>(n, i). (avl_map f n, i)) st) = map f (rest st)"
proof (induction st)
  case Nil
  then show ?case by simp
next
  case (Cons p st)
  then show ?case by (cases p; cases "fst p") auto
qed

lemma destroy_loop_correct:
  assumes "stack_ok ((n, 1) # st)"
  shows "destroy_loop ((n, 1) # st) sz = destroy_loop st (sz + length (inorder n))"
  using assms
proof (induction n arbitrary: st sz)
  case ANull
  then show ?case by simp
next
  case (ANode l a b r)
  let ?n = "ANode l a b r"
  have len: "length st < STACK_MAX" "l \<noteq> ANull \<Longrightarrow> Suc (length st) < STACK_MAX"
    "r \<noteq> ANull \<Longrightarrow> Suc (length st) < STACK_MAX"
    using ANode.prems height_0_iff [of l] height_0_iff [of r] by (auto simp: less_eq_Suc_le simp del: height_0_iff)
  have "destroy_loop ((?n, 1) # st) sz = destroy_loop ((?n, 2) # st) (sz + length (inorder l))"
  proof (cases "l = ANull")
    case True
    with len show ?thesis by (subst destroy_loop.simps) (simp add: stackPush_def)
  next
    case False
    have "destroy_loop ((l, 1) # (?n, 2) # st) sz = destroy_loop ((?n, 2) # st) (sz + length (inorder l))"
      using False ANode.prems by (intro ANode.IH(1)) auto
    with False len show ?thesis by (subst destroy_loop.simps) (simp add: stackPush_def)
  qed
  also have "\<dots> = destroy_loop ((?n, 3) # st) (sz + length (inorder l) + length (inorder r))"
  proof (cases "r = ANull")
    case True
    with len show ?thesis by (subst destroy_loop.simps) (simp add: stackPush_def)
  next
    case False
    have "destroy_loop ((r, 1) # (?n, 3) # st) (sz + length (inorder l)) =
        destroy_loop ((?n, 3) # st) (sz + length (inorder l) + length (inorder r))"
      using False ANode.prems by (intro ANode.IH(2)) auto
    with False len show ?thesis by (subst destroy_loop.simps) (simp add: stackPush_def)
  qed
  also have "\<dots> = destroy_loop st (sz + length (inorder ?n))"
    by (subst destroy_loop.simps) (simp add: add_ac)
  finally show ?case .
qed

section \<open>Set-level laws\<close>

definition elems :: "('k, 'e) oset \<Rightarrow> 'e list" where
  "elems t = inorder (os_root t)"

definition rest_of :: "('k, 'e) oset \<Rightarrow> 'e list" where
  "rest_of t = rest (os_stack t)"

definition oset_inv :: "('k \<Rightarrow> 'e \<Rightarrow> int) \<Rightarrow> ('e \<Rightarrow> 'k) \<Rightarrow> ('e \<Rightarrow> bool) \<Rightarrow> ('k, 'e) oset \<Rightarrow> bool" where
  "oset_inv cmp key ok t \<longleftrightarrow>
     os_cmp t = cmp \<and> os_key t = key \<and> avl_ok (os_root t) \<and> ordered cmp key ok (elems t) \<and>
     os_nElems t = length (elems t) \<and> stack_ok (os_stack t)"

lemmas oset_defs = oset_inv_def elems_def rest_of_def

lemma length_filter_neq:
  "distinct xs \<Longrightarrow> n \<in> set xs \<Longrightarrow> length (filter (\<lambda>y. y \<noteq> n) xs) = length xs - 1"
proof (induction xs)
  case (Cons x xs)
  then have "filter (\<lambda>y. y \<noteq> n) xs = xs" if "x = n"
    using that by (auto simp: filter_id_conv)
  with Cons show ?case by (cases "x = n") (auto dest: length_pos_if_in_set)
qed simp

lemma oset_inv_Create: "oset_inv cmp key ok (OSetGen_Create cmp key)"
  and elems_Create [simp]: "elems (OSetGen_Create cmp key) = []"
  by (simp_all add: OSetGen_Create_def oset_defs)

lemma Lookup_SomeD: "OSetGen_Lookup t k = Some e \<Longrightarrow> e \<in> set (elems t) \<and> os_cmp t k e = 0"
  by (simp add: OSetGen_Lookup_def elems_def avl_lookup_Some)

lemma Size_correct: "oset_inv cmp key ok t \<Longrightarrow> OSetGen_Size t = length (elems t)"
  by (simp add: OSetGen_Size_def oset_inv_def)

lemma ResetIter_correct:
  assumes "oset_inv cmp key ok t" "length (elems t) < OSET_ITER_MAX"
  shows "oset_inv cmp key ok (OSetGen_ResetIter t)" "elems (OSetGen_ResetIter t) = elems t"
    "rest_of (OSetGen_ResetIter t) = elems t"
proof -
  have "height (os_root t) \<le> STACK_MAX"
    using assms height_le_STACK_MAX [of "os_root t"] by (simp add: oset_defs)
  with assms show "oset_inv cmp key ok (OSetGen_ResetIter t)" "elems (OSetGen_ResetIter t) = elems t"
    "rest_of (OSetGen_ResetIter t) = elems t"
    by (cases "os_root t"; simp add: OSetGen_ResetIter_def oset_defs)+
qed

lemma Next_None:
  assumes "oset_inv cmp key ok t" "rest_of t = []"
  shows "OSetGen_Next t = Inr (None, t\<lparr>os_stack := []\<rparr>)"
  using assms next_loop_correct [of "os_stack t"]
  by (simp add: OSetGen_Next_def oset_defs)

lemma Next_Some:
  assumes "oset_inv cmp key ok t" "rest_of t = x # xs"
  shows "\<exists>t'. OSetGen_Next t = Inr (Some x, t') \<and> oset_inv cmp key ok t' \<and>
    os_root t' = os_root t \<and> elems t' = elems t \<and> rest_of t' = xs"
proof -
  obtain st' where "next_loop (os_stack t) = Inr (Some x, st')" "stack_ok st'" "rest st' = xs"
    using assms next_loop_correct [of "os_stack t"] by (auto simp: oset_defs)
  then show ?thesis
    using assms by (auto simp: OSetGen_Next_def oset_defs)
qed

lemma elems_write [simp]:
  "elems (os_write old new t) = map (\<lambda>x. if os_key t x = os_key t old then new else x) (elems t)"
  by (simp add: elems_def os_write_def Let_def)

lemma rest_of_write [simp]:
  "rest_of (os_write old new t) = map (\<lambda>x. if os_key t x = os_key t old then new else x) (rest_of t)"
  by (simp add: rest_of_def os_write_def Let_def)

lemma oset_inv_write:
  assumes "oset_inv cmp key ok t"
    and "ordered cmp key ok (map (\<lambda>x. if key x = key old then new else x) (elems t))"
  shows "oset_inv cmp key ok (os_write old new t)"
  using assms unfolding oset_inv_def elems_write
  by (simp add: os_write_def Let_def elems_def)

lemma iter_loop_correct:
  assumes "oset_inv cmp key ok t" "length (rest_of t) < f"
  shows "iter_loop f t = Inr (rest_of t)"
  using assms
proof (induction f arbitrary: t)
  case 0
  then show ?case by simp
next
  case (Suc f)
  show ?case
  proof (cases "rest_of t")
    case Nil
    with Suc.prems show ?thesis by (simp add: Next_None)
  next
    case (Cons x xs)
    then obtain t' where "OSetGen_Next t = Inr (Some x, t')" "oset_inv cmp key ok t'" "rest_of t' = xs"
      using Next_Some [OF Suc.prems(1) Cons] by auto
    with Suc Cons show ?thesis by simp
  qed
qed

lemma os_iter_correct:
  assumes "oset_inv cmp key ok t" "length (elems t) < OSET_ITER_MAX"
  shows "os_iter t = Inr (elems t)"
  using ResetIter_correct [OF assms] assms(1)
    iter_loop_correct [of cmp key ok "OSetGen_ResetIter t" "Suc (os_nElems t)"]
  by (simp add: os_iter_def oset_inv_def del: iter_loop.simps)

lemma FreeNode_ok:
  "oset_inv cmp key ok t \<Longrightarrow> key e \<notin> key ` set (elems t) \<Longrightarrow> OSetGen_FreeNode e t = Inr t"
  by (simp add: OSetGen_FreeNode_def oset_defs)

lemma FreeNode_held: "e \<in> set (elems t) \<Longrightarrow> OSetGen_FreeNode e t = Inl (UseAfterFree ''OSetGen_FreeNode'')"
  by (simp add: OSetGen_FreeNode_def elems_def)

lemma Destroy_correct:
  assumes "oset_inv cmp key ok t" "length (elems t) < OSET_ITER_MAX"
  shows "OSetGen_Destroy t = Inr ()"
proof (cases "os_root t = ANull")
  case True
  with assms show ?thesis
    by (simp add: OSetGen_Destroy_def oset_defs destroy_loop.simps)
next
  case False
  have "stack_ok [(os_root t, 1)]"
    using False assms height_le_STACK_MAX [of "os_root t"] by (simp add: oset_defs)
  then have "destroy_loop [(os_root t, 1)] 0 = Inr (os_nElems t)"
    using destroy_loop_correct [of "os_root t" "[]" 0] assms
    by (simp add: destroy_loop.simps [of "[]"] oset_defs)
  then show ?thesis
    using False by (simp add: OSetGen_Destroy_def)
qed

context oset_order
begin

lemma Insert_correct:
  assumes inv: "oset_inv cmp key ok t" and "ok e" and new: "\<forall>y \<in> set (elems t). cmp (key e) y \<noteq> 0"
  shows "\<exists>t'. OSetGen_Insert e t = Inr t' \<and> oset_inv cmp key ok t' \<and>
    elems t' = ins_sorted cmp key e (elems t) \<and> rest_of t' = []"
proof (cases "os_root t = ANull")
  case True
  with assms show ?thesis
    by (simp add: OSetGen_Insert_def oset_defs ins_sorted_def)
next
  case False
  have "grown_ok (height (os_root t)) (av_elem (os_root t)) (ins_sorted cmp key e (elems t))
      (avl_insert cmp key e (os_root t))"
    using assms False unfolding oset_inv_def elems_def by (intro avl_insert_correct) auto
  then obtain r g where "avl_insert cmp key e (os_root t) = Inr (r, g)" "avl_ok r"
    "inorder r = ins_sorted cmp key e (elems t)"
    by (auto simp: grown_ok_def split: sum.splits)
  with False assms ordered_ins_sorted [of "elems t" e] length_ins_sorted [of "elems t" e] show ?thesis
    by (simp add: OSetGen_Insert_def oset_defs)
qed

lemma Insert_duplicate:
  assumes "oset_inv cmp key ok t" "ok e" "y \<in> set (elems t)" "cmp (key e) y = 0"
  shows "OSetGen_Insert e t = Inl (AssertFail ''OSet Insert: duplicate element added'')"
  using assms avl_insert_duplicate [of "os_root t" e y]
  by (auto simp: OSetGen_Insert_def oset_defs)

lemma Lookup_NoneD:
  assumes "oset_inv cmp key ok t" "okk k" "OSetGen_Lookup t k = None" "y \<in> set (elems t)"
  shows "cmp k y \<noteq> 0"
  using assms avl_lookup_None [of "os_root t" k y]
  by (simp add: oset_defs OSetGen_Lookup_def)

lemma Lookup_Some_iff:
  assumes "oset_inv cmp key ok t" "okk k"
  shows "(\<exists>e. OSetGen_Lookup t k = Some e) \<longleftrightarrow> (\<exists>y \<in> set (elems t). cmp k y = 0)"
  using assms Lookup_NoneD [OF assms] Lookup_SomeD [of t k]
  by (cases "OSetGen_Lookup t k") (auto simp: oset_inv_def)

lemma Remove_correct:
  assumes inv: "oset_inv cmp key ok t" and lk: "OSetGen_Lookup t k = Some n"
  shows "\<exists>t'. OSetGen_Remove k t = Inr (Some n, t') \<and> oset_inv cmp key ok t' \<and>
    elems t' = filter (\<lambda>y. y \<noteq> n) (elems t) \<and> rest_of t' = []"
proof -
  have n: "n \<in> set (elems t)" using Lookup_SomeD [OF lk] by simp
  have "shrunk_ok (height (os_root t)) (filter (\<lambda>y. y \<noteq> n) (elems t))
      (avl_remove (remove_fuel (os_root t)) cmp key n (os_root t))"
    using inv n unfolding oset_inv_def elems_def by (intro avl_remove_correct) (auto simp: remove_fuel_def)
  then obtain r ch where r: "avl_remove (remove_fuel (os_root t)) cmp key n (os_root t) = Inr (r, ch)"
    "avl_ok r" "inorder r = filter (\<lambda>y. y \<noteq> n) (elems t)"
    by (auto simp: shrunk_ok_def split: sum.splits)
  have "length (filter (\<lambda>y. y \<noteq> n) (elems t)) = length (elems t) - 1"
    using n inv ordered_distinct [of "elems t"]
    by (simp add: oset_inv_def length_filter_neq)
  with r inv lk show ?thesis
    by (simp add: OSetGen_Remove_def OSetGen_Lookup_def oset_defs ordered_filter)
qed

lemma key_inj:
  assumes "ordered cmp key ok xs" "x \<in> set xs" "y \<in> set xs" "key x = key y"
  shows "x = y"
proof (rule ccontr)
  assume "x \<noteq> y"
  have "cmp (key x) y < 0 \<or> cmp (key y) x < 0"
    using assms(1-3) \<open>x \<noteq> y\<close> by (induction xs) auto
  then show False
    using assms cmp_refl ordered_ok [OF assms(1)] by (metis less_irrefl)
qed

lemma FreeNode_removed:
  assumes "oset_inv cmp key ok t" "n \<in> set (elems t)" "oset_inv cmp key ok t'"
    and "elems t' = filter (\<lambda>y. y \<noteq> n) (elems t)"
  shows "OSetGen_FreeNode n t' = Inr t'"
proof (rule FreeNode_ok [OF assms(3)])
  show "key n \<notin> key ` set (elems t')"
    using key_inj [of "elems t" n] assms(1,2,4) by (auto simp: oset_inv_def)
qed

lemma Remove_None: "OSetGen_Lookup t k = None \<Longrightarrow> OSetGen_Remove k t = Inr (None, t)"
  by (simp add: OSetGen_Remove_def OSetGen_Lookup_def)

lemma Lookup_elem:
  assumes "oset_inv cmp key ok t" "e \<in> set (elems t)"
  shows "OSetGen_Lookup t (key e) = Some e"
proof -
  have ord: "ordered cmp key ok (elems t)" using assms by (simp add: oset_inv_def)
  have "ok e" using ordered_ok [OF ord assms(2)] .
  then obtain e' where e': "OSetGen_Lookup t (key e) = Some e'"
    using Lookup_Some_iff [OF assms(1) key_okk] assms(2) cmp_refl by blast
  then have "e' \<in> set (elems t)" "cmp (key e) e' = 0"
    using Lookup_SomeD [OF e'] assms by (simp_all add: oset_inv_def)
  moreover obtain xs ys where "elems t = xs @ e' # ys"
    using \<open>e' \<in> set (elems t)\<close> by (meson split_list)
  ultimately have "e = e'"
    using ordered_mem_cases [of xs e' ys e] ord assms(2) by (metis less_irrefl)
  with e' show ?thesis by simp
qed

lemma iter_at_correct:
  assumes "ordered cmp key ok (inorder n)" "okk k"
    and "\<forall>y \<in> set (inorder n). \<forall>z \<in> set (inorder n). cmp k y = 0 \<longrightarrow> cmp k z = 0 \<longrightarrow> y = z"
    and "stack_ok st" "length st + height n \<le> STACK_MAX"
  shows "\<exists>st'. iter_at cmp k n st = Inr st' \<and> stack_ok st' \<and>
           rest st' = filter (\<lambda>y. cmp k y \<le> 0) (inorder n) @ rest st"
  using assms
proof (induction n arbitrary: st)
  case ANull
  then show ?case by simp
next
  case (ANode l a b r)
  let ?n = "ANode l a b r"
  have ord: "ordered cmp key ok (inorder l @ a # inorder r)"
    using ANode.prems by simp
  note split = filter_split [OF ord \<open>okk k\<close>]
  have push: "stackPush ?n 2 st = Inr ((?n, 2) # st)"
    using ANode.prems by (simp add: stackPush_def)
  consider "cmp k a < 0" | "cmp k a = 0" | "0 < cmp k a" by linarith
  then show ?case
  proof cases
    case 1
    have "\<exists>st'. iter_at cmp k l ((?n, 2) # st) = Inr st' \<and> stack_ok st' \<and>
           rest st' = filter (\<lambda>y. cmp k y \<le> 0) (inorder l) @ rest ((?n, 2) # st)"
      using ANode.prems by (intro ANode.IH(1)) auto
    moreover have "filter (\<lambda>y. cmp k y \<le> 0) (inorder r) = inorder r"
      using split(1) 1 by (auto simp: filter_id_conv)
    ultimately show ?thesis
      using 1 push by auto
  next
    case 2
    have "0 < cmp k y" if "y \<in> set (inorder l)" for y
    proof (rule ccontr)
      assume "\<not> 0 < cmp k y"
      moreover have "ok y" "ok a" "cmp (key y) a < 0" "y \<noteq> a"
        using that ord ordered_ok [OF ord] ordered_distinct [OF ord] by auto
      ultimately show False
        using 2 cmp_less [of k y a] ANode.prems(2,3) that by force
    qed
    moreover have "cmp k y < 0" if "y \<in> set (inorder r)" for y
    proof (rule ccontr)
      assume "\<not> cmp k y < 0"
      moreover have "ok y" "ok a" "cmp (key a) y < 0" "y \<noteq> a"
        using that ord ordered_ok [OF ord] ordered_distinct [OF ord] by auto
      ultimately show False
        using 2 cmp_greater [of k a y] ANode.prems(2,3) that by force
    qed
    ultimately have "filter (\<lambda>y. cmp k y \<le> 0) (inorder l) = []"
      "filter (\<lambda>y. cmp k y \<le> 0) (inorder r) = inorder r"
      by (fastforce simp: filter_empty_conv filter_id_conv)+
    with 2 push ANode.prems show ?thesis by simp
  next
    case 3
    have "\<exists>st'. iter_at cmp k r st = Inr st' \<and> stack_ok st' \<and>
           rest st' = filter (\<lambda>y. cmp k y \<le> 0) (inorder r) @ rest st"
      using ANode.prems by (intro ANode.IH(2)) auto
    moreover have "filter (\<lambda>y. cmp k y \<le> 0) (inorder l) = []"
      using split(2) 3 by (fastforce simp: filter_empty_conv filter_id_conv)
    ultimately show ?thesis
      using 3 by auto
  qed
qed

lemma ResetIterAt_correct:
  assumes "oset_inv cmp key ok t" "okk k" "length (elems t) < OSET_ITER_MAX"
    and "\<forall>y \<in> set (elems t). \<forall>z \<in> set (elems t). cmp k y = 0 \<longrightarrow> cmp k z = 0 \<longrightarrow> y = z"
  shows "\<exists>t'. OSetGen_ResetIterAt k t = Inr t' \<and> oset_inv cmp key ok t' \<and>
    os_root t' = os_root t \<and> elems t' = elems t \<and>
    rest_of t' = filter (\<lambda>y. cmp k y \<le> 0) (elems t)"
proof -
  have "height (os_root t) \<le> STACK_MAX"
    using assms height_le_STACK_MAX [of "os_root t"] by (simp add: oset_defs)
  then obtain st' where "iter_at cmp k (os_root t) [] = Inr st'" "stack_ok st'"
    "rest st' = filter (\<lambda>y. cmp k y \<le> 0) (elems t)"
    using iter_at_correct [of "os_root t" k "[]"] assms by (auto simp: oset_inv_def elems_def)
  with assms(1) show ?thesis
    by (simp add: OSetGen_ResetIterAt_def oset_defs)
qed

lemma ordered_partition:
  assumes "ordered cmp key ok xs" "okk k" "\<forall>y \<in> set xs. cmp k y \<noteq> 0"
  shows "filter (\<lambda>y. 0 < cmp k y) xs @ filter (\<lambda>y. cmp k y < 0) xs = xs"
  using assms
proof (induction xs)
  case Nil
  then show ?case by simp
next
  case (Cons a xs)
  show ?case
  proof (cases "0 < cmp k a")
    case True
    then show ?thesis using Cons by simp
  next
    case False
    then have "cmp k a < 0" using Cons.prems(3) by auto
    then have "\<forall>y \<in> set xs. cmp k y < 0"
      using Cons.prems(1,2) cmp_less [of k a] ordered_ok by fastforce
    then have "filter (\<lambda>y. 0 < cmp k y) xs = []" "filter (\<lambda>y. cmp k y < 0) xs = xs"
      by (auto simp: filter_empty_conv filter_id_conv)
    then show ?thesis using False \<open>cmp k a < 0\<close> by simp
  qed
qed

lemma Insert_Remove:
  assumes "oset_inv cmp key ok t" "ok e" "\<forall>y \<in> set (elems t). cmp (key e) y \<noteq> 0"
  shows "\<exists>t1 t2. OSetGen_Insert e t = Inr t1 \<and> OSetGen_Remove (key e) t1 = Inr (Some e, t2) \<and> oset_inv cmp key ok t2 \<and>
    elems t2 = elems t"
proof -
  obtain t1 where t1: "OSetGen_Insert e t = Inr t1" "oset_inv cmp key ok t1" "elems t1 = ins_sorted cmp key e (elems t)"
    using Insert_correct [OF assms] by blast
  have "e \<in> set (elems t1)" using t1(3) by (simp add: ins_sorted_def)
  then obtain t2 where t2: "OSetGen_Remove (key e) t1 = Inr (Some e, t2)" "oset_inv cmp key ok t2"
    "elems t2 = filter (\<lambda>y. y \<noteq> e) (elems t1)"
    using Remove_correct [OF t1(2) Lookup_elem [OF t1(2)]] by blast
  have part: "filter (\<lambda>y. 0 < cmp (key e) y) (elems t) @ filter (\<lambda>y. cmp (key e) y < 0) (elems t) = elems t"
    using assms(1,3) key_okk [OF assms(2)] by (intro ordered_partition) (simp_all add: oset_inv_def)
  have "e \<notin> set (elems t)" using assms(3) cmp_refl [OF assms(2)] by auto
  then have "filter (\<lambda>y. y \<noteq> e) (ins_sorted cmp key e (elems t)) =
      filter (\<lambda>y. 0 < cmp (key e) y) (elems t) @ filter (\<lambda>y. cmp (key e) y < 0) (elems t)"
    using filter_remove_neq [of e "filter (\<lambda>y. 0 < cmp (key e) y) (elems t)"]
      filter_remove_neq [of e "filter (\<lambda>y. cmp (key e) y < 0) (elems t)"]
    by (simp add: ins_sorted_def del: filter_filter)
  then show ?thesis using t1 t2 part by simp
qed

end

end
