(* ===== verification/PMC_Region.thy ===== *)
theory PMC_Region
  imports OSet_Laws
begin

text \<open>
  The records of \<open>pmdebugger/pmc_include.h\<close> and the region operations of
  \<open>pmdebugger/pmc_common.c\<close>: comparison of address ranges, overlap, membership of a range in a
  set of regions, registration and removal of a range, and the bounded event registers.
  The sets of registered mappings, of regions tracked by a transaction and of globally excluded
  regions are all kept by these operations.
\<close>

section \<open>Records\<close>

datatype store_state = STST_CLEAN | STST_DIRTY | STST_FLUSHED

datatype flushed_state = NO_FLUSHED | PART_FLUSHED | ALL_FLUSHED

record pmem_st =
  st_index :: nat
  st_is_delete :: bool
  st_addr :: uword
  st_size :: uword
  st_block_num :: uword
  st_value :: uword
  st_context :: exe_context
  st_state :: store_state
  st_inEpoch :: bool

text \<open>A zeroed record: \<open>struct pmem_st x = {0}\<close>, or a node from \<open>OSetGen_AllocNode\<close>.\<close>

definition zero_st :: pmem_st where
  "zero_st = \<lparr>st_index = 0, st_is_delete = False, st_addr = 0, st_size = 0, st_block_num = 0,
     st_value = 0, st_context = None, st_state = STST_CLEAN, st_inEpoch = False\<rparr>"

definition mk_region :: "uword \<Rightarrow> uword \<Rightarrow> pmem_st" where
  "mk_region a n = zero_st\<lparr>st_addr := a, st_size := n\<rparr>"

record arr_snippet =
  sn_index :: nat
  sn_min_add :: uword
  sn_max_add :: uword
  sn_start_index :: nat
  sn_flushed_num :: flushed_state

record pmem_st_order =
  od_index :: nat
  od_timestamp_begin :: uword
  od_timestamp_end :: uword
  od_context :: exe_context
  od_addr :: uword
  od_size :: uword

text \<open>The pointers \<open>a\<close> and \<open>b\<close> of an \<open>order_record\<close> refer to members of the set of time records;
  their index, which is the key of that set, stands for the pointer.\<close>

record order_record =
  or_index :: nat
  or_a :: nat
  or_b :: nat

type_synonym region_set = "(pmem_st, pmem_st) oset"

section \<open>Comparison and overlap\<close>

definition st_max :: "pmem_st \<Rightarrow> uword" where
  "st_max r = st_addr r + st_size r"

definition cmp_pmem_st :: "pmem_st \<Rightarrow> pmem_st \<Rightarrow> int" where
  "cmp_pmem_st lhs rhs =
     (if st_addr lhs + st_size lhs \<le> st_addr rhs then - 1
      else if st_addr lhs \<ge> st_addr rhs + st_size rhs then 1
      else 0)"

definition cmp_pmem_st_order :: "pmem_st_order \<Rightarrow> pmem_st_order \<Rightarrow> int" where
  "cmp_pmem_st_order lhs rhs =
     (if od_addr lhs + od_size lhs \<le> od_addr rhs then - 1
      else if od_addr lhs \<ge> od_addr rhs + od_size rhs then 1
      else 0)"

text \<open>\<open>cmp_pmem_own_st\<close> orders stores by their running index.\<close>

definition cmp_pmem_own_st :: "pmem_st \<Rightarrow> pmem_st \<Rightarrow> int" where
  "cmp_pmem_own_st lhs rhs =
     (if st_index lhs < st_index rhs then - 1 else if st_index lhs > st_index rhs then 1 else 0)"

text \<open>The sets of time and order records use the same function, which reads the index as the first
  word of the element.\<close>

definition cmp_index :: "('e \<Rightarrow> nat) \<Rightarrow> nat \<Rightarrow> 'e \<Rightarrow> int" where
  "cmp_index idx k e = (if k < idx e then - 1 else if k > idx e then 1 else 0)"

definition check_overlap :: "pmem_st \<Rightarrow> pmem_st \<Rightarrow> nat" where
  "check_overlap lhs rhs =
     (if cmp_pmem_st lhs rhs \<noteq> 0 then 0
      else if st_addr lhs < st_addr rhs \<or> st_addr lhs + st_size lhs > st_addr rhs + st_size rhs
      then 2
      else 1)"

definition is_in_mapping_set :: "pmem_st \<Rightarrow> region_set \<Rightarrow> nat" where
  "is_in_mapping_set region region_set =
     (if \<not> OSetGen_Contains region_set region then 0
      else (case OSetGen_Lookup region_set region of None \<Rightarrow> 0 | Some e \<Rightarrow> check_overlap region e))"

section \<open>Adding and removing a region\<close>

text \<open>The merge loop of \<open>add_region\<close>.  Each turn frees one entry, so one turn per entry and a last
  one are enough.\<close>

fun add_region_loop :: "nat \<Rightarrow> pmem_st \<Rightarrow> pmem_st \<Rightarrow> region_set \<Rightarrow> (pmem_st \<times> region_set) res" where
  "add_region_loop 0 search_entry entry region_set = Inl (Diverge ''add_region'')"
| "add_region_loop (Suc f) search_entry entry region_set =
     (case OSetGen_Lookup region_set search_entry of
        None \<Rightarrow> Inr (entry, region_set)
      | Some old_entry \<Rightarrow>
          (let max_addr = max (st_addr entry + st_size entry) (st_addr old_entry + st_size old_entry);
               lo_addr = min (st_addr entry) (st_addr old_entry);
               entry' = entry\<lparr>st_addr := lo_addr, st_size := max_addr - lo_addr\<rparr>
           in rbind (OSetGen_Remove old_entry region_set) (\<lambda>(n, set1).
                rbind (OSetGen_FreeNode old_entry set1) (\<lambda>set2.
                  add_region_loop f search_entry entry' set2))))"

definition add_region :: "pmem_st \<Rightarrow> region_set \<Rightarrow> region_set res" where
  "add_region region region_set =
     (let entry = region\<lparr>st_state := STST_CLEAN\<rparr>;
          search_entry = entry\<lparr>st_addr := st_addr entry - 1, st_size := st_size entry + 2\<rparr>
      in rbind (add_region_loop (Suc (OSetGen_Size region_set)) search_entry entry region_set)
           (\<lambda>(entry', set'). OSetGen_Insert entry' set'))"

text \<open>The body of the loop of \<open>remove_region\<close>; the second component of the state is the global
  counter \<open>db_pmem_store_index\<close>.\<close>

definition remove_region_drop :: "pmem_st \<Rightarrow> region_set \<Rightarrow> region_set res" where
  "remove_region_drop e region_set =
     rbind (OSetGen_Remove e region_set) (\<lambda>(n, set1).
       rbind (OSetGen_FreeNode e set1) (\<lambda>set2. OSetGen_ResetIterAt e set2))"

definition remove_region_body :: "pmem_st \<Rightarrow> pmem_st \<Rightarrow> region_set \<times> nat \<Rightarrow> (region_set \<times> nat) res" where
  "remove_region_body region e s =
     (let (region_set, idx) = s;
          region_max_addr = st_addr region + st_size region;
          mod_entry_max_addr = st_addr e + st_size e
      in if cmp_pmem_st e region \<noteq> 0 then Inr s
         else if st_addr e > st_addr region \<and> mod_entry_max_addr < region_max_addr
         then rbind (remove_region_drop e region_set) (\<lambda>set'. Inr (set', idx))
         else if st_addr e < st_addr region \<and> mod_entry_max_addr > region_max_addr
         then (let e' = e\<lparr>st_size := st_addr region - st_addr e\<rparr>;
                   new_region = zero_st\<lparr>st_addr := region_max_addr,
                     st_size := mod_entry_max_addr - region_max_addr, st_index := idx\<rparr>
               in rbind (OSetGen_Insert new_region (os_write e e' region_set)) (\<lambda>set1.
                    rbind (OSetGen_ResetIterAt e' set1) (\<lambda>set2. Inr (set2, Suc idx))))
         else if st_addr e \<ge> st_addr region \<and> mod_entry_max_addr > region_max_addr
         then Inr (os_write e (e\<lparr>st_size := st_size e - (region_max_addr - st_addr e),
                     st_addr := region_max_addr\<rparr>) region_set, idx)
         else if mod_entry_max_addr \<le> region_max_addr \<and> st_addr region > st_addr e
         then Inr (os_write e (e\<lparr>st_size := st_addr region - st_addr e\<rparr>) region_set, idx)
         else rbind (remove_region_drop e region_set) (\<lambda>set'. Inr (set', idx)))"

definition next_fst :: "('k, 'e) oset \<times> 'b \<Rightarrow> ('e option \<times> (('k, 'e) oset \<times> 'b)) res" where
  "next_fst s = rbind (OSetGen_Next (fst s)) (\<lambda>(e, t). Inr (e, (t, snd s)))"

text \<open>A removal can cut one entry in two, whose parts are visited again: three turns per entry and
  a last one are enough.\<close>

definition remove_region :: "pmem_st \<Rightarrow> region_set \<times> nat \<Rightarrow> (region_set \<times> nat) res" where
  "remove_region region s =
     while_next (3 * OSetGen_Size (fst s) + 1) next_fst (remove_region_body region)
       (OSetGen_ResetIter (fst s), snd s)"

text \<open>\<open>remove_region_mapping\<close> takes overlapping entries out one by one and puts the parts outside
  the region back.\<close>

definition put_back :: "pmem_st \<Rightarrow> pmem_st \<Rightarrow> region_set \<Rightarrow> region_set res" where
  "put_back r e set1 =
     (if st_addr e > st_addr r \<and> st_addr e + st_size e < st_addr r + st_size r then OSetGen_FreeNode e set1
      else if st_addr e < st_addr r \<and> st_addr e + st_size e > st_addr r + st_size r
      then rbind (OSetGen_Insert (e\<lparr>st_size := st_addr r - st_addr e\<rparr>) set1) (\<lambda>set2.
             OSetGen_Insert (zero_st\<lparr>st_addr := st_addr r + st_size r,
               st_size := st_addr e + st_size e - (st_addr r + st_size r)\<rparr>) set2)
      else if st_addr e \<ge> st_addr r \<and> st_addr e + st_size e > st_addr r + st_size r
      then OSetGen_Insert (e\<lparr>st_size := st_size e - (st_addr r + st_size r - st_addr e),
             st_addr := st_addr r + st_size r\<rparr>) set1
      else if st_addr e + st_size e \<le> st_addr r + st_size r \<and> st_addr r > st_addr e
      then OSetGen_Insert (e\<lparr>st_size := st_addr r - st_addr e\<rparr>) set1
      else OSetGen_FreeNode e set1)"

fun remove_region_mapping_loop :: "nat \<Rightarrow> pmem_st \<Rightarrow> region_set \<Rightarrow> region_set res" where
  "remove_region_mapping_loop 0 region region_set = Inl (Diverge ''remove_region_mapping'')"
| "remove_region_mapping_loop (Suc f) region region_set =
     rbind (OSetGen_Remove region region_set) (\<lambda>(n, set1).
       case n of None \<Rightarrow> Inr set1
       | Some e \<Rightarrow> rbind (put_back region e set1) (remove_region_mapping_loop f region))"

definition remove_region_mapping :: "pmem_st \<Rightarrow> region_set \<Rightarrow> region_set res" where
  "remove_region_mapping region region_set =
     remove_region_mapping_loop (Suc (OSetGen_Size region_set)) region region_set"

section \<open>Event registers\<close>

text \<open>An event register is the list of the events written to its array, oldest first; its length is
  the counter.  \<open>err_msg\<close> is what the register prints when it is full.\<close>

definition add_warning_event :: "(nat \<Rightarrow> out list) \<Rightarrow> nat \<Rightarrow> 'a \<Rightarrow> 'a list \<Rightarrow> 'a list res" where
  "add_warning_event err_msg limit event event_register =
     (if length event_register = limit then Inl (ToolExit (err_msg limit))
      else Inr (event_register @ [event]))"

end
