(* ===== verification/PMC_Region_Laws.thy ===== *)
theory PMC_Region_Laws
  imports PMC_Region
begin

text \<open>
  What the region operations of \<open>pmc_common.c\<close> do to the set of byte addresses that a set of
  regions covers: membership, registration (union, with neighbours merged) and the two removals
  (difference).  The ordered-set laws are instantiated for \<open>cmp_pmem_st\<close> on regions that are not
  empty and do not wrap around.
\<close>

section \<open>Regions as sets of byte addresses\<close>

definition lo :: "pmem_st \<Rightarrow> nat" where "lo r = unat (st_addr r)"
definition sz :: "pmem_st \<Rightarrow> nat" where "sz r = unat (st_size r)"
definition hi :: "pmem_st \<Rightarrow> nat" where "hi r = lo r + sz r"
definition bytes :: "pmem_st \<Rightarrow> nat set" where "bytes r = {lo r ..< hi r}"
definition set_bytes :: "pmem_st list \<Rightarrow> nat set" where "set_bytes xs = (\<Union>r \<in> set xs. bytes r)"

text \<open>A region that can be registered: not empty, not at address 0, and not touching the end of the
  address space.  A lookup key only has to be a range without wrap-around.\<close>

definition rok :: "pmem_st \<Rightarrow> bool" where
  "rok r \<longleftrightarrow> 0 < lo r \<and> 0 < sz r \<and> hi r < 2 ^ 64 - 1"

definition rkey :: "pmem_st \<Rightarrow> bool" where
  "rkey r \<longleftrightarrow> 0 < sz r \<and> hi r < 2 ^ 64"

lemma rok_rkey: "rok r \<Longrightarrow> rkey r"
  by (simp add: rok_def rkey_def)

lemma unat_hi: "hi r < 2 ^ 64 \<Longrightarrow> unat (st_addr r + st_size r) = hi r"
  by (simp add: hi_def lo_def sz_def unat_plus_nowrap)

lemma rkey_hi: "rkey r \<Longrightarrow> unat (st_addr r + st_size r) = hi r"
  by (simp add: rkey_def unat_hi)

lemma cmp_pmem_st_nat:
  "rkey l \<Longrightarrow> rkey r \<Longrightarrow>
     cmp_pmem_st l r = (if hi l \<le> lo r then - 1 else if hi r \<le> lo l then 1 else 0)"
  by (simp add: cmp_pmem_st_def word_le_nat_alt rkey_hi) (simp add: lo_def)

lemma cmp_pmem_st_eq_0:
  assumes "rkey l" "rkey r"
  shows "cmp_pmem_st l r = 0 \<longleftrightarrow> bytes l \<inter> bytes r \<noteq> {}"
proof -
  have "bytes l \<inter> bytes r \<noteq> {} \<longleftrightarrow> max (lo l) (lo r) < min (hi l) (hi r)"
    by (auto simp: bytes_def)
  also have "\<dots> \<longleftrightarrow> lo r < hi l \<and> lo l < hi r"
    using assms by (auto simp: rkey_def hi_def)
  finally show ?thesis
    using assms by (auto simp: cmp_pmem_st_nat)
qed

lemma check_overlap_nat:
  assumes "rkey l" "rkey r"
  shows "check_overlap l r = (if bytes l \<inter> bytes r = {} then 0
           else if bytes l \<subseteq> bytes r then 1 else 2)"
proof -
  have "st_addr l < st_addr r \<longleftrightarrow> lo l < lo r" "st_addr l + st_size l > st_addr r + st_size r \<longleftrightarrow> hi r < hi l"
    using assms by (simp_all add: word_less_nat_alt rkey_hi lo_def)
  moreover have "bytes l \<subseteq> bytes r \<longleftrightarrow> lo r \<le> lo l \<and> hi l \<le> hi r"
    using assms by (auto simp: bytes_def rkey_def hi_def)
  ultimately show ?thesis
    using assms cmp_pmem_st_eq_0 [OF assms] by (auto simp: check_overlap_def)
qed

interpretation ro: oset_order cmp_pmem_st "\<lambda>x. x" rok rkey
proof
  fix x y k :: pmem_st
  show "rok x \<Longrightarrow> rkey x" by (simp add: rok_rkey)
  show "rok x \<Longrightarrow> cmp_pmem_st x x = 0"
    by (auto simp: rok_rkey cmp_pmem_st_nat rok_def hi_def)
  show "rok x \<Longrightarrow> rok y \<Longrightarrow> cmp_pmem_st x y < 0 \<longleftrightarrow> 0 < cmp_pmem_st y x"
    by (auto simp: rok_rkey cmp_pmem_st_nat rok_def hi_def)
  show "rkey k \<Longrightarrow> rok x \<Longrightarrow> rok y \<Longrightarrow> cmp_pmem_st x y < 0 \<Longrightarrow> cmp_pmem_st k x < 0 \<Longrightarrow>
      cmp_pmem_st k y < 0"
    by (auto simp: rok_rkey cmp_pmem_st_nat rok_def hi_def split: if_splits)
  show "rkey k \<Longrightarrow> rok x \<Longrightarrow> rok y \<Longrightarrow> cmp_pmem_st x y < 0 \<Longrightarrow> 0 < cmp_pmem_st k y \<Longrightarrow>
      0 < cmp_pmem_st k x"
    by (auto simp: rok_rkey cmp_pmem_st_nat rok_def rkey_def hi_def split: if_splits)
qed

abbreviation regions_ok :: "region_set \<Rightarrow> bool" where
  "regions_ok \<equiv> oset_inv cmp_pmem_st (\<lambda>x. x) rok"

abbreviation region_bytes :: "region_set \<Rightarrow> nat set" where
  "region_bytes s \<equiv> set_bytes (elems s)"

definition disjoint_list :: "pmem_st list \<Rightarrow> bool" where
  "disjoint_list xs \<longleftrightarrow> sorted_wrt (\<lambda>x y. hi x \<le> lo y) xs \<and> (\<forall>x \<in> set xs. rok x)"

lemma ordered_regions: "ordered cmp_pmem_st (\<lambda>x. x) rok xs \<longleftrightarrow> disjoint_list xs"
proof -
  have "sorted_wrt (\<lambda>x y. cmp_pmem_st x y < 0) xs \<longleftrightarrow> sorted_wrt (\<lambda>x y. hi x \<le> lo y) xs"
    if "\<forall>x \<in> set xs. rok x"
    using that by (induction xs) (auto simp: rok_rkey cmp_pmem_st_nat)
  then show ?thesis by (auto simp: ordered_def disjoint_list_def)
qed

lemma regions_okD: "regions_ok s \<Longrightarrow> disjoint_list (elems s)"
  by (simp add: oset_inv_def ordered_regions)

lemma regions_cmp [simp]: "regions_ok s \<Longrightarrow> os_cmp s = cmp_pmem_st"
  and regions_key: "regions_ok s \<Longrightarrow> os_key s = (\<lambda>x. x)"
  by (simp_all add: oset_inv_def)

lemma regions_rok: "regions_ok s \<Longrightarrow> e \<in> set (elems s) \<Longrightarrow> rok e"
  using regions_okD by (auto simp: disjoint_list_def)

lemma set_bytes_simps [simp]:
  "set_bytes [] = {}" "set_bytes (x # xs) = bytes x \<union> set_bytes xs"
  "set_bytes (xs @ ys) = set_bytes xs \<union> set_bytes ys"
  by (auto simp: set_bytes_def)

lemma disjoint_list_disj:
  assumes "disjoint_list xs" "x \<in> set xs" "y \<in> set xs" "x \<noteq> y"
  shows "bytes x \<inter> bytes y = {}"
proof -
  have "hi x \<le> lo y \<or> hi y \<le> lo x"
    using assms by (induction xs) (auto simp: disjoint_list_def)
  then show ?thesis by (auto simp: bytes_def)
qed

lemma set_bytes_filter_neq:
  assumes "disjoint_list xs" "e \<in> set xs"
  shows "set_bytes (filter (\<lambda>y. y \<noteq> e) xs) = set_bytes xs - bytes e"
  using disjoint_list_disj [OF assms(1) _ assms(2)] assms(2) by (auto simp: set_bytes_def)

section \<open>Membership\<close>

lemma region_lookup_Some:
  assumes "regions_ok s" "rkey k" "OSetGen_Lookup s k = Some e"
  shows "e \<in> set (elems s)" "bytes k \<inter> bytes e \<noteq> {}" "rok e"
  using assms Lookup_SomeD [OF assms(3)] cmp_pmem_st_eq_0 [of k e] regions_rok [OF assms(1), of e] rok_rkey
  by auto

lemma region_lookup_None:
  assumes "regions_ok s" "rkey k" "OSetGen_Lookup s k = None"
  shows "bytes k \<inter> region_bytes s = {}"
  using assms ro.Lookup_NoneD [OF assms(1,2,3)] cmp_pmem_st_eq_0 [OF assms(2)]
    regions_rok [OF assms(1)] rok_rkey
  by (fastforce simp: set_bytes_def)

lemma region_contains:
  assumes "regions_ok s" "rkey k"
  shows "OSetGen_Contains s k \<longleftrightarrow> bytes k \<inter> region_bytes s \<noteq> {}"
proof (cases "OSetGen_Lookup s k")
  case None
  with region_lookup_None [OF assms] show ?thesis by (simp add: OSetGen_Contains_def)
next
  case (Some e)
  with region_lookup_Some [OF assms Some] show ?thesis
    by (auto simp: OSetGen_Contains_def set_bytes_def)
qed

lemma is_in_mapping_set_correct:
  assumes "regions_ok s" "rkey k"
  shows "is_in_mapping_set k s = 0 \<longleftrightarrow> bytes k \<inter> region_bytes s = {}"
    and "is_in_mapping_set k s = 1 \<longrightarrow> bytes k \<subseteq> region_bytes s"
proof -
  have eq: "is_in_mapping_set k s = (if bytes k \<inter> bytes e = {} then 0 else if bytes k \<subseteq> bytes e then 1 else 2)"
    "e \<in> set (elems s)" "bytes k \<inter> bytes e \<noteq> {}"
    if "OSetGen_Lookup s k = Some e" for e
    using region_lookup_Some [OF assms that] check_overlap_nat [OF assms(2), of e] rok_rkey that
    by (auto simp: is_in_mapping_set_def OSetGen_Contains_def)
  show "is_in_mapping_set k s = 0 \<longleftrightarrow> bytes k \<inter> region_bytes s = {}"
  proof (cases "OSetGen_Lookup s k")
    case None
    then show ?thesis
      using region_lookup_None [OF assms None] by (simp add: is_in_mapping_set_def OSetGen_Contains_def)
  next
    case (Some e)
    then show ?thesis using eq [OF Some] by (auto simp: set_bytes_def)
  qed
  show "is_in_mapping_set k s = 1 \<longrightarrow> bytes k \<subseteq> region_bytes s"
  proof (cases "OSetGen_Lookup s k")
    case None
    then show ?thesis by (simp add: is_in_mapping_set_def OSetGen_Contains_def)
  next
    case (Some e)
    then show ?thesis using eq [OF Some] by (auto simp: set_bytes_def)
  qed
qed

section \<open>Registration\<close>

definition gapped :: "pmem_st list \<Rightarrow> bool" where
  "gapped xs \<longleftrightarrow> (\<forall>x \<in> set xs. \<forall>y \<in> set xs. hi x \<noteq> lo y)"

lemma unat_max64: "unat (max a b :: uword) = max (unat a) (unat b)"
  by (simp add: max_def word_le_nat_alt)

lemma unat_min64: "unat (min a b :: uword) = min (unat a) (unat b)"
  by (simp add: min_def word_le_nat_alt)

definition hull :: "pmem_st \<Rightarrow> pmem_st \<Rightarrow> pmem_st" where
  "hull x y = x\<lparr>st_addr := min (st_addr x) (st_addr y),
     st_size := max (st_addr x + st_size x) (st_addr y + st_size y) - min (st_addr x) (st_addr y)\<rparr>"

lemma hull_bounds:
  assumes "rok x" "rok y"
  shows "lo (hull x y) = min (lo x) (lo y)" "hi (hull x y) = max (hi x) (hi y)" "rok (hull x y)"
proof -
  have "lo (hull x y) = min (lo x) (lo y)"
    by (simp add: hull_def lo_def unat_min64)
  moreover have "sz (hull x y) = max (hi x) (hi y) - min (lo x) (lo y)"
  proof -
    have "unat (max (st_addr x + st_size x) (st_addr y + st_size y)) = max (hi x) (hi y)"
      using assms by (simp add: unat_max64 rkey_hi rok_rkey)
    moreover have "unat (min (st_addr x) (st_addr y)) = min (lo x) (lo y)"
      by (simp add: unat_min64 lo_def)
    moreover have "min (lo x) (lo y) \<le> max (hi x) (hi y)"
      by (simp add: hi_def)
    ultimately show ?thesis
      by (simp add: hull_def sz_def unat_minus_nowrap)
  qed
  ultimately show "lo (hull x y) = min (lo x) (lo y)" "hi (hull x y) = max (hi x) (hi y)" "rok (hull x y)"
    using assms by (auto simp: hi_def rok_def)
qed

lemma bytes_hull:
  assumes "rok x" "rok y" "lo x \<le> hi y" "lo y \<le> hi x"
  shows "bytes (hull x y) = bytes x \<union> bytes y"
  using assms by (auto simp: bytes_def hull_bounds)

lemma search_entry_bounds:
  assumes "rok r" and "k = r\<lparr>st_addr := st_addr r - 1, st_size := st_size r + 2\<rparr>"
  shows "lo k = lo r - 1" "hi k = hi r + 1" "rkey k"
proof -
  have "lo k = lo r - 1" "sz k = sz r + 2"
    using assms by (auto simp: lo_def sz_def rok_def hi_def unat_minus_nowrap unat_plus_nowrap)
  with assms show "lo k = lo r - 1" "hi k = hi r + 1" "rkey k"
    by (auto simp: hi_def rok_def rkey_def)
qed

lemma add_region_loop_correct:
  assumes "regions_ok s" "rok e" "rok r" "bytes r \<subseteq> bytes e" "lo k = lo r - 1" "hi k = hi r + 1" "rkey k"
    and "\<forall>x \<in> set (elems s). bytes x \<inter> bytes e \<subseteq> bytes r"
    and "length (elems s) < f"
  shows "\<exists>e' s'. add_region_loop f k e s = Inr (e', s') \<and> regions_ok s' \<and> rok e' \<and> bytes r \<subseteq> bytes e' \<and>
    bytes e' \<union> region_bytes s' = bytes e \<union> region_bytes s \<and>
    set (elems s') = {x \<in> set (elems s). bytes k \<inter> bytes x = {}} \<and>
    length (elems s') \<le> length (elems s) \<and>
    (\<forall>x \<in> set (elems s'). bytes x \<inter> bytes e' = {})"
  using assms
proof (induction f arbitrary: e s)
  case 0
  then show ?case by simp
next
  case (Suc f)
  show ?case
  proof (cases "OSetGen_Lookup s k")
    case None
    have "bytes k \<inter> bytes x = {}" if "x \<in> set (elems s)" for x
      using region_lookup_None [OF Suc.prems(1) \<open>rkey k\<close> None] that by (auto simp: set_bytes_def)
    moreover have "bytes r \<subseteq> bytes k"
      using Suc.prems by (auto simp: bytes_def)
    ultimately show ?thesis
      using None Suc.prems by fastforce
  next
    case (Some old)
    note old = region_lookup_Some [OF Suc.prems(1) \<open>rkey k\<close> Some]
    have lkp: "OSetGen_Lookup s old = Some old"
      using ro.Lookup_elem [OF Suc.prems(1) old(1)] by simp
    obtain s1 where s1: "OSetGen_Remove old s = Inr (Some old, s1)" "regions_ok s1"
      "elems s1 = filter (\<lambda>y. y \<noteq> old) (elems s)"
      using ro.Remove_correct [OF Suc.prems(1) lkp] by auto
    have fr: "OSetGen_FreeNode old s1 = Inr s1"
      using FreeNode_ok [OF s1(2), of old] s1(3) by simp
    have touch: "lo e \<le> hi old" "lo old \<le> hi e"
      using old(2) Suc.prems(2-6) by (auto simp: bytes_def rok_def hi_def)
    have h: "bytes (hull e old) = bytes e \<union> bytes old" "rok (hull e old)"
      using bytes_hull hull_bounds Suc.prems(2) old(3) touch by auto
    have disj: "bytes x \<inter> bytes old = {}" if "x \<in> set (elems s1)" for x
      using disjoint_list_disj [OF regions_okD [OF Suc.prems(1)] _ old(1), of x] that s1(3) by auto
    have len: "length (elems s1) < f"
      using Suc.prems(9) s1(3) length_filter_less [OF old(1), of "\<lambda>y. y \<noteq> old"] by simp
    have pre: "bytes r \<subseteq> bytes (hull e old)" "\<forall>x \<in> set (elems s1). bytes x \<inter> bytes (hull e old) \<subseteq> bytes r"
      using Suc.prems(4,8) h(1) disj s1(3) by (auto simp: Int_Un_distrib)
    obtain e' s' where IH: "add_region_loop f k (hull e old) s1 = Inr (e', s')" "regions_ok s'" "rok e'"
      "bytes r \<subseteq> bytes e'" "bytes e' \<union> region_bytes s' = bytes (hull e old) \<union> region_bytes s1"
      "set (elems s') = {x \<in> set (elems s1). bytes k \<inter> bytes x = {}}"
      "length (elems s') \<le> length (elems s1)" "\<forall>x \<in> set (elems s'). bytes x \<inter> bytes e' = {}"
      using Suc.IH [OF s1(2) h(2) Suc.prems(3) pre(1) Suc.prems(5-7) pre(2) len] by auto
    have "bytes (hull e old) \<union> region_bytes s1 = bytes e \<union> region_bytes s"
      using h s1(3) set_bytes_filter_neq [OF regions_okD [OF Suc.prems(1)] old(1)] old(1)
      by (auto simp: set_bytes_def)
    moreover have "{x \<in> set (elems s1). bytes k \<inter> bytes x = {}} = {x \<in> set (elems s). bytes k \<inter> bytes x = {}}"
      using s1(3) old(2) by auto
    moreover have "add_region_loop (Suc f) k e s = add_region_loop f k (hull e old) s1"
      using Some s1 fr by (simp add: hull_def Let_def)
    moreover have "length (elems s1) \<le> length (elems s)" using s1(3) by simp
    ultimately show ?thesis
      using IH by (intro exI [of _ e'] exI [of _ s']) simp
  qed
qed

lemma bytes_disjoint_iff:
  assumes "rkey x" "rkey y"
  shows "bytes x \<inter> bytes y = {} \<longleftrightarrow> hi x \<le> lo y \<or> hi y \<le> lo x"
  using cmp_pmem_st_eq_0 [OF assms] cmp_pmem_st_nat [OF assms] by (auto split: if_splits)

lemma gapped_insert:
  assumes "disjoint_list xs" "gapped xs" "set ys \<subseteq> set xs" "\<forall>y \<in> set ys. bytes k \<inter> bytes y = {}"
    and e': "rok e'" "bytes e \<subseteq> bytes e'" "bytes e' \<subseteq> bytes e \<union> set_bytes xs"
    and k: "rok e" "lo k = lo e - 1" "hi k = hi e + 1"
    and zs: "set zs = insert e' (set ys)"
  shows "gapped zs"
proof -
  have rok: "rok x" if "x \<in> set xs" for x
    using that assms(1) by (auto simp: disjoint_list_def)
  have same: "x = y" if "x \<in> set xs" "y \<in> set xs" "b \<in> bytes x" "b \<in> bytes y" for x y b
    using disjoint_list_disj [OF assms(1) that(1,2)] that by blast
  have "hi e' \<noteq> lo y" if y: "y \<in> set ys" for y
  proof
    assume eq: "hi e' = lo y"
    have y': "rok y" "y \<in> set xs" using y assms(3) rok by auto
    have "hi e' - 1 \<in> bytes e'"
      using e'(1) by (auto simp: bytes_def rok_def hi_def)
    then consider "hi e' - 1 \<in> bytes e" | x where "x \<in> set xs" "hi e' - 1 \<in> bytes x"
      using e'(3) by (auto simp: set_bytes_def)
    then show False
    proof cases
      case 1
      then have "lo y \<in> bytes k \<inter> bytes y"
        using e'(2) k eq y'(1) by (auto simp: bytes_def rok_def hi_def)
      then show False using assms(4) y by auto
    next
      case 2
      then have "hi x \<noteq> lo y" using assms(2) y' by (auto simp: gapped_def)
      then have "lo y \<in> bytes x" "lo y \<in> bytes y"
        using 2 eq y'(1) by (auto simp: bytes_def rok_def hi_def)
      then have "x = y" using same 2 y' by blast
      then show False using 2 eq e'(1) by (auto simp: bytes_def rok_def hi_def)
    qed
  qed
  moreover have "hi y \<noteq> lo e'" if y: "y \<in> set ys" for y
  proof
    assume eq: "hi y = lo e'"
    have y': "rok y" "y \<in> set xs" using y assms(3) rok by auto
    have "lo e' \<in> bytes e'"
      using e'(1) by (auto simp: bytes_def rok_def hi_def)
    then consider "lo e' \<in> bytes e" | x where "x \<in> set xs" "lo e' \<in> bytes x"
      using e'(3) by (auto simp: set_bytes_def)
    then show False
    proof cases
      case 1
      then have "lo e' - 1 \<in> bytes k \<inter> bytes y"
        using e'(2) k eq y'(1) by (auto simp: bytes_def rok_def hi_def)
      then show False using assms(4) y by auto
    next
      case 2
      then have "hi y \<noteq> lo x" using assms(2) y' by (auto simp: gapped_def)
      then have "hi y - 1 \<in> bytes x" "hi y - 1 \<in> bytes y"
        using 2 eq y'(1) by (auto simp: bytes_def rok_def hi_def)
      then have "x = y" using same 2 y' by blast
      then show False using 2 eq by (auto simp: bytes_def)
    qed
  qed
  moreover have "hi e' \<noteq> lo e'" "gapped ys"
    using e'(1) assms(2,3) by (auto simp: rok_def hi_def gapped_def)
  ultimately show ?thesis
    using zs unfolding gapped_def by auto
qed

theorem add_region_spec:
  assumes "regions_ok s" "rok r"
  shows "\<exists>s'. add_region r s = Inr s' \<and> regions_ok s' \<and> region_bytes s' = region_bytes s \<union> bytes r \<and>
    (gapped (elems s) \<longrightarrow> gapped (elems s')) \<and> length (elems s') \<le> Suc (length (elems s))"
proof -
  define e where "e = r\<lparr>st_state := STST_CLEAN\<rparr>"
  define k where "k = e\<lparr>st_addr := st_addr e - 1, st_size := st_size e + 2\<rparr>"
  have e: "rok e" "bytes e = bytes r" "lo e = lo r" "hi e = hi r"
    using assms(2) by (simp_all add: e_def rok_def bytes_def hi_def lo_def sz_def)
  note k = search_entry_bounds [OF e(1) k_def]
  obtain e' s1 where s1: "add_region_loop (Suc (OSetGen_Size s)) k e s = Inr (e', s1)" "regions_ok s1" "rok e'"
    "bytes e \<subseteq> bytes e'" "bytes e' \<union> region_bytes s1 = bytes e \<union> region_bytes s"
    "set (elems s1) = {x \<in> set (elems s). bytes k \<inter> bytes x = {}}"
    "length (elems s1) \<le> length (elems s)" "\<forall>x \<in> set (elems s1). bytes x \<inter> bytes e' = {}"
    using add_region_loop_correct [OF assms(1) e(1) e(1) _ k, of "Suc (OSetGen_Size s)"]
      Size_correct [OF assms(1)] by auto
  have "\<forall>y \<in> set (elems s1). cmp_pmem_st e' y \<noteq> 0"
    using s1(3,8) cmp_pmem_st_eq_0 [of e'] regions_rok [OF s1(2)] rok_rkey by blast
  then obtain s' where s': "OSetGen_Insert e' s1 = Inr s'" "regions_ok s'"
    "elems s' = ins_sorted cmp_pmem_st (\<lambda>x. x) e' (elems s1)"
    using ro.Insert_correct [OF s1(2,3)] by auto
  have set': "set (elems s') = insert e' (set (elems s1))"
    using s'(3) ro.set_ins_sorted \<open>\<forall>y \<in> set (elems s1). cmp_pmem_st e' y \<noteq> 0\<close> by simp
  have "add_region r s = Inr s'"
    using s1(1) s'(1) unfolding add_region_def Let_def e_def [symmetric] k_def [symmetric] by simp
  moreover have "region_bytes s' = region_bytes s \<union> bytes r"
    using set' s1(5) e(2) by (auto simp: set_bytes_def)
  moreover have "length (elems s') \<le> Suc (length (elems s))"
    using s'(3) s1(7) ro.length_ins_sorted [of "elems s1" e'] \<open>\<forall>y \<in> set (elems s1). cmp_pmem_st e' y \<noteq> 0\<close>
    by simp
  moreover have "gapped (elems s')" if "gapped (elems s)"
  proof (rule gapped_insert [OF regions_okD [OF assms(1)] that _ _ s1(3,4) _ e(1) k(1,2) set'])
    show "set (elems s1) \<subseteq> set (elems s)" "\<forall>y\<in>set (elems s1). bytes k \<inter> bytes y = {}"
      using s1(6) by auto
    show "bytes e' \<subseteq> bytes e \<union> set_bytes (elems s)"
      using s1(5) by blast
  qed
  ultimately show ?thesis using s'(2) by blast
qed

section \<open>Removal\<close>

text \<open>What is left of an entry when a range is cut out of it: \<open>piece r e x\<close> says that \<open>x\<close> is a
  remainder of \<open>e\<close>, whose ends are ends of \<open>e\<close> or of the hole.\<close>

definition piece :: "pmem_st \<Rightarrow> pmem_st \<Rightarrow> pmem_st \<Rightarrow> bool" where
  "piece r e x \<longleftrightarrow> bytes x \<subseteq> bytes e \<and> (hi x = hi e \<or> hi x = lo r) \<and> (lo x = lo e \<or> lo x = hi r)"

lemma piece_refl [simp]: "piece r e e"
  by (simp add: piece_def)

lemma piece_trans: "piece r e x \<Longrightarrow> piece r x y \<Longrightarrow> piece r e y"
  by (auto simp: piece_def)

text \<open>\<open>s'\<close> is the set \<open>s\<close> with the range \<open>r\<close> cut out.\<close>

definition cut_out :: "pmem_st \<Rightarrow> region_set \<Rightarrow> region_set \<Rightarrow> bool" where
  "cut_out r s s' \<longleftrightarrow> regions_ok s' \<and> region_bytes s' = region_bytes s - bytes r \<and>
     (\<forall>x \<in> set (elems s'). \<exists>e \<in> set (elems s). piece r e x)"

lemma cut_out_gapped:
  assumes "regions_ok s" "gapped (elems s)" "rkey r" "cut_out r s s'"
  shows "gapped (elems s')"
  unfolding gapped_def
proof (intro ballI notI)
  fix x y assume xy: "x \<in> set (elems s')" "y \<in> set (elems s')" "hi x = lo y"
  have rok: "rok x" "rok y"
    using assms(4) xy regions_rok by (auto simp: cut_out_def)
  obtain e d where e: "e \<in> set (elems s)" "piece r e x" and d: "d \<in> set (elems s)" "piece r d y"
    using assms(4) xy by (meson cut_out_def)
  have b: "hi x - 1 \<in> bytes e" "hi x \<in> bytes d"
    using e d xy rok by (auto simp: piece_def bytes_def rok_def hi_def)
  have "hi x \<in> bytes e"
  proof (rule ccontr)
    assume n: "hi x \<notin> bytes e"
    then have "hi e = hi x" using b rok by (auto simp: bytes_def rok_def hi_def)
    then have "hi x \<noteq> lo d" using assms(2) e d by (auto simp: gapped_def)
    then have "hi x - 1 \<in> bytes d" using b by (auto simp: bytes_def)
    then have "e = d"
      using b disjoint_list_disj [OF regions_okD [OF assms(1)] e(1) d(1)] by blast
    with n b show False by simp
  qed
  then have "e = d"
    using b disjoint_list_disj [OF regions_okD [OF assms(1)] e(1) d(1)] by blast
  moreover have "0 < sz r" "0 < sz x" "0 < sz y"
    using assms(3) rok by (auto simp: rkey_def rok_def)
  ultimately show False
    using e d xy b by (auto simp: piece_def bytes_def hi_def)
qed

lemma left_part:
  assumes "rok e" "lo e < lo r" "lo r < hi e"
  defines "p \<equiv> e\<lparr>st_size := st_addr r - st_addr e\<rparr>"
  shows "lo p = lo e" "hi p = lo r" "rok p"
proof -
  have "lo p = lo e" "sz p = lo r - lo e"
    using assms by (auto simp: lo_def sz_def unat_minus_nowrap)
  with assms(1-3) show "lo p = lo e" "hi p = lo r" "rok p"
    by (auto simp: hi_def rok_def)
qed

lemma right_part:
  assumes "rok e" "rkey r" "hi r < hi e"
    and "st_addr p = st_addr r + st_size r"
    and "st_size p = st_addr e + st_size e - (st_addr r + st_size r)"
  shows "lo p = hi r" "hi p = hi e" "rok p"
proof -
  have "lo p = hi r" "sz p = hi e - hi r"
    using assms by (auto simp: lo_def [of p] sz_def [of p] unat_minus_nowrap rkey_hi rok_rkey)
  with assms(1-3) show "lo p = hi r" "hi p = hi e" "rok p"
    by (auto simp: hi_def rok_def rkey_def)
qed

lemma region_insert:
  assumes "regions_ok s" "rok p" "bytes p \<inter> region_bytes s = {}"
  obtains s' where "OSetGen_Insert p s = Inr s'" "regions_ok s'"
    "elems s' = ins_sorted cmp_pmem_st (\<lambda>x. x) p (elems s)"
    "set (elems s') = insert p (set (elems s))" "length (elems s') = Suc (length (elems s))"
proof -
  have "\<forall>y \<in> set (elems s). cmp_pmem_st p y \<noteq> 0"
    using assms cmp_pmem_st_eq_0 [of p] regions_rok [OF assms(1)] rok_rkey
    by (fastforce simp: set_bytes_def)
  then show thesis
    using that ro.Insert_correct [OF assms(1,2)] ro.set_ins_sorted ro.length_ins_sorted by metis
qed

lemma cut_cmp:
  assumes "rok e" "rkey r"
  shows "st_addr e > st_addr r \<longleftrightarrow> lo r < lo e" "st_addr e < st_addr r \<longleftrightarrow> lo e < lo r"
    "st_addr e \<ge> st_addr r \<longleftrightarrow> lo r \<le> lo e"
    "st_addr e + st_size e < st_addr r + st_size r \<longleftrightarrow> hi e < hi r"
    "st_addr e + st_size e > st_addr r + st_size r \<longleftrightarrow> hi r < hi e"
    "st_addr e + st_size e \<le> st_addr r + st_size r \<longleftrightarrow> hi e \<le> hi r"
  using assms by (simp_all add: word_less_nat_alt word_le_nat_alt rkey_hi rok_rkey lo_def)

lemma put_back_ok:
  assumes s: "regions_ok s" and e: "rok e" "bytes e \<inter> region_bytes s = {}"
    and r: "rkey r" "bytes e \<inter> bytes r \<noteq> {}"
  shows "\<exists>s' P. put_back r e s = Inr s' \<and> regions_ok s' \<and> set (elems s') = set (elems s) \<union> P \<and>
    (\<forall>p \<in> P. piece r e p) \<and> (\<Union>p \<in> P. bytes p) = bytes e - bytes r"
proof -
  have ov: "lo r < hi e" "lo e < hi r"
    using r bytes_disjoint_iff [OF rok_rkey [OF e(1)] r(1)] by auto
  note cmp = cut_cmp [OF e(1) r(1)]
  have e_out: "e \<notin> set (elems s)"
    using e r by (auto simp: set_bytes_def)
  have drop: ?thesis if "put_back r e s = OSetGen_FreeNode e s" "lo r \<le> lo e" "hi e \<le> hi r"
    using that s e_out FreeNode_ok [OF s, of e] by (intro exI [of _ s] exI [of _ "{}"]) (auto simp: bytes_def)
  define p where "p = e\<lparr>st_size := st_addr r - st_addr e\<rparr>"
  consider "lo r \<le> lo e" "hi e \<le> hi r" | "lo e < lo r" "hi r < hi e" | "lo r \<le> lo e" "hi r < hi e"
    | "lo e < lo r" "hi e \<le> hi r" by linarith
  then show ?thesis
  proof cases
    case 1
    then have "put_back r e s = OSetGen_FreeNode e s"
      using cmp unfolding put_back_def by auto
    then show ?thesis using drop 1 by blast
  next
    case 2
    define q where "q = zero_st\<lparr>st_addr := st_addr r + st_size r,
               st_size := st_addr e + st_size e - (st_addr r + st_size r)\<rparr>"
    have p: "lo p = lo e" "hi p = lo r" "rok p"
      using left_part [OF e(1), of r] 2 ov by (simp_all add: p_def)
    have q: "lo q = hi r" "hi q = hi e" "rok q"
      using right_part [OF e(1) r(1), of q] 2 by (simp_all add: q_def)
    have b: "bytes p \<union> bytes q = bytes e - bytes r" "bytes p \<inter> bytes q = {}"
      using p q 2 ov r(1) by (auto simp: bytes_def rkey_def hi_def)
    have dp: "bytes p \<inter> region_bytes s = {}" using b(1) e(2) by auto
    obtain s1 where s1: "OSetGen_Insert p s = Inr s1" "regions_ok s1" "set (elems s1) = insert p (set (elems s))"
      using region_insert [OF s p(3) dp] by metis
    have "bytes q \<inter> region_bytes s1 = {}"
      using s1(3) b e(2) by (auto simp: set_bytes_def)
    then obtain s2 where s2: "OSetGen_Insert q s1 = Inr s2" "regions_ok s2" "set (elems s2) = insert q (set (elems s1))"
      using region_insert [OF s1(2) q(3)] by blast
    have "put_back r e s = Inr s2"
      unfolding put_back_def p_def [symmetric] q_def [symmetric] using cmp 2 s1(1) s2(1) by simp
    then show ?thesis
      using s2 s1 b p q by (intro exI [of _ s2] exI [of _ "{p, q}"]) (auto simp: piece_def)
  next
    case 3
    define q where "q = e\<lparr>st_size := st_size e - (st_addr r + st_size r - st_addr e),
             st_addr := st_addr r + st_size r\<rparr>"
    have q: "lo q = hi r" "hi q = hi e" "rok q"
      using right_part [OF e(1) r(1), of q] 3 by (simp_all add: q_def)
    have b: "bytes q = bytes e - bytes r"
      using q 3 ov by (auto simp: bytes_def)
    have dq: "bytes q \<inter> region_bytes s = {}" using b(1) e(2) by auto
    obtain s1 where s1: "OSetGen_Insert q s = Inr s1" "regions_ok s1" "set (elems s1) = insert q (set (elems s))"
      using region_insert [OF s q(3) dq] by metis
    have "put_back r e s = Inr s1"
      unfolding put_back_def q_def [symmetric] using cmp 3 s1(1) by simp
    then show ?thesis
      using s1 b q by (intro exI [of _ s1] exI [of _ "{q}"]) (auto simp: piece_def)
  next
    case 4
    have p: "lo p = lo e" "hi p = lo r" "rok p"
      using left_part [OF e(1), of r] 4 ov by (simp_all add: p_def)
    have b: "bytes p = bytes e - bytes r"
      using p 4 ov by (auto simp: bytes_def)
    have dp: "bytes p \<inter> region_bytes s = {}" using b(1) e(2) by auto
    obtain s1 where s1: "OSetGen_Insert p s = Inr s1" "regions_ok s1" "set (elems s1) = insert p (set (elems s))"
      using region_insert [OF s p(3) dp] by metis
    have "put_back r e s = Inr s1"
      unfolding put_back_def p_def [symmetric] using cmp 4 s1(1) by simp
    then show ?thesis
      using s1 b p by (intro exI [of _ s1] exI [of _ "{p}"]) (auto simp: piece_def)
  qed
qed

definition overlaps :: "pmem_st \<Rightarrow> region_set \<Rightarrow> pmem_st set" where
  "overlaps r s = {x \<in> set (elems s). bytes x \<inter> bytes r \<noteq> {}}"

lemma remove_region_mapping_loop_ok:
  assumes "regions_ok s" "rkey r" "card (overlaps r s) < f"
  shows "\<exists>s'. remove_region_mapping_loop f r s = Inr s' \<and> cut_out r s s'"
  using assms
proof (induction f arbitrary: s)
  case 0
  then show ?case by simp
next
  case (Suc f)
  show ?case
  proof (cases "OSetGen_Lookup s r")
    case None
    then have "region_bytes s - bytes r = region_bytes s"
      using region_lookup_None [OF Suc.prems(1,2) None] by auto
    then have "cut_out r s s" using Suc.prems by (auto simp: cut_out_def intro: piece_refl)
    then show ?thesis
      using ro.Remove_None [OF None] by simp
  next
    case (Some e)
    note e = region_lookup_Some [OF Suc.prems(1,2) Some]
    obtain s1 where s1: "OSetGen_Remove r s = Inr (Some e, s1)" "regions_ok s1"
      "elems s1 = filter (\<lambda>y. y \<noteq> e) (elems s)"
      using ro.Remove_correct [OF Suc.prems(1) Some] by auto
    have b1: "region_bytes s1 = region_bytes s - bytes e"
      using s1(3) set_bytes_filter_neq [OF regions_okD [OF Suc.prems(1)] e(1)] by simp
    then have d1: "bytes e \<inter> region_bytes s1 = {}" by auto
    have eb: "bytes e \<inter> bytes r \<noteq> {}" using e(2) by auto
    obtain s2 P where s2: "put_back r e s1 = Inr s2" "regions_ok s2" "set (elems s2) = set (elems s1) \<union> P"
      "\<forall>p \<in> P. piece r e p" "(\<Union>p \<in> P. bytes p) = bytes e - bytes r"
      using put_back_ok [OF s1(2) e(3) d1 Suc.prems(2) eb] by auto
    have P: "bytes p \<inter> bytes r = {}" if "p \<in> P" for p using that s2(5) by blast
    have "overlaps r s2 = overlaps r s - {e}"
      using s2(3) s1(3) P by (auto simp: overlaps_def)
    moreover have "e \<in> overlaps r s" "finite (overlaps r s)"
      using e by (auto simp: overlaps_def)
    ultimately have "card (overlaps r s2) < f"
      using Suc.prems(3) by (simp add: card_Diff_singleton) (metis Suc_less_eq Suc_pred card_gt_0_iff empty_iff less_Suc_eq_0_disj not_less_eq)
    then obtain s3 where s3: "remove_region_mapping_loop f r s2 = Inr s3" "cut_out r s2 s3"
      using Suc.IH [OF s2(2) Suc.prems(2)] by blast
    have "region_bytes s2 = region_bytes s1 \<union> (bytes e - bytes r)"
      using s2(3,5) by (auto simp: set_bytes_def)
    then have "region_bytes s2 - bytes r = region_bytes s - bytes r"
      using b1 e(1) by (auto simp: set_bytes_def)
    moreover have "\<exists>d \<in> set (elems s). piece r d x" if "x \<in> set (elems s2)" for x
      using that s2(3,4) s1(3) e(1) by (auto intro: piece_refl)
    ultimately have "cut_out r s s3"
      using s3(2) unfolding cut_out_def by (metis piece_trans)
    then show ?thesis
      using s1(1) s2(1) s3(1) by simp
  qed
qed

lemma card_overlaps: "regions_ok s \<Longrightarrow> card (overlaps r s) \<le> OSetGen_Size s"
  using Size_correct [of _ _ _ s] card_mono [of "set (elems s)" "overlaps r s"] card_length [of "elems s"]
  by (force simp: overlaps_def)

theorem remove_region_mapping_spec:
  assumes "regions_ok s" "rkey r"
  shows "\<exists>s'. remove_region_mapping r s = Inr s' \<and> cut_out r s s'"
  using remove_region_mapping_loop_ok [OF assms, of "Suc (OSetGen_Size s)"] card_overlaps [OF assms(1)]
  by (simp add: remove_region_mapping_def less_Suc_eq_le del: remove_region_mapping_loop.simps)

text \<open>Turns that the loop of \<open>remove_region\<close> still needs for the entries the iterator has ahead.\<close>

definition turns :: "pmem_st \<Rightarrow> pmem_st list \<Rightarrow> nat" where
  "turns r xs = sum_list (map (\<lambda>x. if bytes x \<inter> bytes r \<noteq> {} then 3 else 1) xs)"

text \<open>Entries ahead of the iterator that can still be cut in two.\<close>

definition overlapping :: "pmem_st \<Rightarrow> pmem_st list \<Rightarrow> nat" where
  "overlapping r xs = length (filter (\<lambda>x. bytes x \<inter> bytes r \<noteq> {}) xs)"

lemma turns_simps [simp]:
  "turns r [] = 0" "turns r (x # xs) = (if bytes x \<inter> bytes r \<noteq> {} then 3 else 1) + turns r xs"
  by (simp_all add: turns_def)

lemma overlapping_simps [simp]:
  "overlapping r [] = 0" "overlapping r (x # xs) = of_bool (bytes x \<inter> bytes r \<noteq> {}) + overlapping r xs"
  by (simp_all add: overlapping_def)

lemma turns_le: "turns r xs \<le> 3 * length xs"
  by (induction xs) auto

lemma overlapping_le: "overlapping r xs \<le> length xs"
  by (simp add: overlapping_def)

lemma disjoint_list_simps [simp]:
  "disjoint_list (xs @ y # ys) \<longleftrightarrow> disjoint_list xs \<and> disjoint_list ys \<and> rok y \<and>
     (\<forall>x \<in> set xs. hi x \<le> lo y) \<and> (\<forall>x \<in> set ys. hi y \<le> lo x) \<and> (\<forall>x \<in> set xs. \<forall>z \<in> set ys. hi x \<le> lo z)"
  by (auto simp: disjoint_list_def sorted_wrt_append)

lemma filter_cmp_split:
  assumes "disjoint_list xs" "disjoint_list ys" "rok k" "\<forall>x \<in> set xs. hi x \<le> lo k" "\<forall>y \<in> set ys. hi k \<le> lo y"
  shows "filter (\<lambda>y. cmp_pmem_st k y \<le> 0) (xs @ ys) = ys"
    "filter (\<lambda>y. cmp_pmem_st k y < 0) (xs @ ys) = ys" "filter (\<lambda>y. cmp_pmem_st k y > 0) (xs @ ys) = xs"
proof -
  have "cmp_pmem_st k x = 1" if "x \<in> set xs" for x
    using that assms by (auto simp: cmp_pmem_st_nat rok_rkey disjoint_list_def rok_def hi_def)
  moreover have "cmp_pmem_st k y = - 1" if "y \<in> set ys" for y
    using that assms by (auto simp: cmp_pmem_st_nat rok_rkey disjoint_list_def)
  ultimately show "filter (\<lambda>y. cmp_pmem_st k y \<le> 0) (xs @ ys) = ys"
    "filter (\<lambda>y. cmp_pmem_st k y < 0) (xs @ ys) = ys" "filter (\<lambda>y. cmp_pmem_st k y > 0) (xs @ ys) = xs"
    by (simp_all add: filter_empty_conv filter_id_conv)
qed

lemma map_write_other: "e \<notin> set xs \<Longrightarrow> map (\<lambda>x. if x = e then p else x) xs = xs"
  by (induction xs) auto

lemma map_write_split:
  "e \<notin> set xs \<Longrightarrow> e \<notin> set ys \<Longrightarrow> map (\<lambda>x. if x = e then p else x) (xs @ e # ys) = xs @ p # ys"
  using map_write_other [of e xs p] map_write_other [of e ys p] by simp

lemma region_write:
  assumes "regions_ok s" "elems s = xs @ e # ys" "rest_of s = ys" "rok p" "lo e \<le> lo p" "hi p \<le> hi e"
  shows "regions_ok (os_write e p s)" "elems (os_write e p s) = xs @ p # ys" "rest_of (os_write e p s) = ys"
proof -
  have d: "disjoint_list (xs @ e # ys)" using regions_okD [OF assms(1)] assms(2) by simp
  have "lo e < hi e" using d by (auto simp: rok_def hi_def)
  with d have n: "e \<notin> set xs" "e \<notin> set ys" by force+
  have "disjoint_list (xs @ p # ys)"
    using d assms(4-6) by force
  then show "regions_ok (os_write e p s)"
    by (intro oset_inv_write [OF assms(1)]) (simp only: ordered_regions assms(2) map_write_split [OF n])
  show "elems (os_write e p s) = xs @ p # ys" "rest_of (os_write e p s) = ys"
    using assms(2,3) regions_key [OF assms(1)] map_write_split [OF n, of p] map_write_other [OF n(2), of p] by simp_all
qed

lemma region_ResetIterAt:
  assumes "regions_ok s" "rok k" "length (elems s) < OSET_ITER_MAX" "elems s = xs @ ys"
    "\<forall>x \<in> set xs. hi x \<le> lo k" "\<forall>y \<in> set ys. y = k \<or> hi k \<le> lo y"
  shows "\<exists>s'. OSetGen_ResetIterAt k s = Inr s' \<and> regions_ok s' \<and> elems s' = elems s \<and> rest_of s' = ys"
proof -
  have rok: "rok x" if "x \<in> set xs \<or> x \<in> set ys" for x
    using that regions_rok [OF assms(1)] assms(4) by auto
  have "cmp_pmem_st k x = 1" if "x \<in> set xs" for x
    using that assms(2,5) rok [of x] by (auto simp: cmp_pmem_st_nat rok_rkey rok_def hi_def)
  moreover have "cmp_pmem_st k y = - 1 \<or> y = k" "cmp_pmem_st k y \<le> 0" if "y \<in> set ys" for y
    using that assms(2,6) rok [of y] by (auto simp: cmp_pmem_st_nat rok_rkey)
  ultimately have "filter (\<lambda>y. cmp_pmem_st k y \<le> 0) (elems s) = ys"
    "\<forall>y \<in> set (elems s). cmp_pmem_st k y = 0 \<longrightarrow> y = k"
    using assms(4) by (force simp: filter_empty_conv filter_id_conv)+
  then show ?thesis
    using ro.ResetIterAt_correct [OF assms(1) rok_rkey [OF assms(2)] assms(3)] by auto
qed

text \<open>One turn: the entry \<open>e\<close> the iterator returned is replaced by its pieces.\<close>

lemma remove_region_body_ok:
  assumes s: "regions_ok s" "elems s = ys @ e # xs" "rest_of s = xs" "\<forall>y \<in> set ys. bytes y \<inter> bytes r = {}"
    and r: "rkey r" and len: "Suc (length (elems s)) < OSET_ITER_MAX \<or> bytes e \<inter> bytes r = {}"
  shows "\<exists>s' idx' ps zs. remove_region_body r e (s, idx) = Inr (s', idx') \<and> regions_ok s' \<and>
    elems s' = ys @ ps @ xs \<and> rest_of s' = zs @ xs \<and> (zs = [] \<or> zs = ps) \<and>
    (\<forall>p \<in> set ps. piece r e p) \<and> set_bytes ps = bytes e - bytes r \<and>
    length ps \<le> Suc (of_bool (bytes e \<inter> bytes r \<noteq> {})) \<and>
    length zs < (if bytes e \<inter> bytes r \<noteq> {} then 3 else 1)"
proof (cases "bytes e \<inter> bytes r = {}")
  case True
  have "rok e" using regions_rok [OF s(1)] s(2) by simp
  then have "cmp_pmem_st e r \<noteq> 0" using cmp_pmem_st_eq_0 [OF rok_rkey r] True by blast
  then show ?thesis
    using s True by (intro exI [of _ s] exI [of _ idx] exI [of _ "[e]"] exI [of _ "[]"])
      (auto simp: remove_region_body_def)
next
  case False
  have e: "rok e" using regions_rok [OF s(1)] s(2) by simp
  have d: "disjoint_list (ys @ e # xs)" using regions_okD [OF s(1)] s(2) by simp
  have ov: "lo r < hi e" "lo e < hi r"
    using False bytes_disjoint_iff [OF rok_rkey [OF e] r] by auto
  have c0: "cmp_pmem_st e r = 0" using cmp_pmem_st_eq_0 [OF rok_rkey [OF e] r] False by blast
  note cmp = cut_cmp [OF e r]
  have "lo e < hi e" using e by (auto simp: rok_def hi_def)
  with d have n: "e \<notin> set ys" "e \<notin> set xs" by force+
  define p where "p = e\<lparr>st_size := st_addr r - st_addr e\<rparr>"
  have body: "remove_region_body r e (s, idx) =
      (if lo r < lo e \<and> hi e < hi r then rbind (remove_region_drop e s) (\<lambda>set'. Inr (set', idx))
       else if lo e < lo r \<and> hi r < hi e
       then (let new_region = zero_st\<lparr>st_addr := st_addr r + st_size r,
                     st_size := st_addr e + st_size e - (st_addr r + st_size r), st_index := idx\<rparr>
               in rbind (OSetGen_Insert new_region (os_write e p s)) (\<lambda>set1.
                    rbind (OSetGen_ResetIterAt p set1) (\<lambda>set2. Inr (set2, Suc idx))))
       else if lo r \<le> lo e \<and> hi r < hi e
       then Inr (os_write e (e\<lparr>st_size := st_size e - (st_addr r + st_size r - st_addr e),
                     st_addr := st_addr r + st_size r\<rparr>) s, idx)
       else if hi e \<le> hi r \<and> lo e < lo r then Inr (os_write e p s, idx)
       else rbind (remove_region_drop e s) (\<lambda>set'. Inr (set', idx)))"
    unfolding remove_region_body_def Let_def prod.case c0 cmp p_def by simp
  consider "lo r \<le> lo e" "hi e \<le> hi r" | "lo e < lo r" "hi r < hi e" | "lo r \<le> lo e" "hi r < hi e"
    | "lo e < lo r" "hi e \<le> hi r" by linarith
  then show ?thesis
  proof cases
    case 1
    have lk: "OSetGen_Lookup s e = Some e" using ro.Lookup_elem [OF s(1)] s(2) by simp
    obtain s1 where s1: "OSetGen_Remove e s = Inr (Some e, s1)" "regions_ok s1" "elems s1 = ys @ xs"
      using ro.Remove_correct [OF s(1) lk] s(2) ro.filter_remove_neq [OF n(1)] ro.filter_remove_neq [OF n(2)] by auto
    have fr: "OSetGen_FreeNode e s1 = Inr s1" using FreeNode_ok [OF s1(2), of e] s1(3) n by simp
    obtain s2 where s2: "OSetGen_ResetIterAt e s1 = Inr s2" "regions_ok s2" "elems s2 = ys @ xs" "rest_of s2 = xs"
      using region_ResetIterAt [OF s1(2) e _ s1(3)] len False s(2) s1(3) d by auto
    have "remove_region_body r e (s, idx) = Inr (s2, idx)"
      unfolding body remove_region_drop_def using 1 s1(1) fr s2(1) by auto
    moreover have "bytes e - bytes r = {}" using 1 by (auto simp: bytes_def)
    ultimately show ?thesis
      using s2 by (intro exI [of _ s2] exI [of _ idx] exI [of _ "[]"]) auto
  next
    case 2
    define q where "q = zero_st\<lparr>st_addr := st_addr r + st_size r,
                     st_size := st_addr e + st_size e - (st_addr r + st_size r), st_index := idx\<rparr>"
    have p: "lo p = lo e" "hi p = lo r" "rok p"
      using left_part [OF e, of r] 2 ov by (simp_all add: p_def)
    have q: "lo q = hi r" "hi q = hi e" "rok q"
      using right_part [OF e r, of q] 2 by (simp_all add: q_def)
    have rr: "lo r < hi r" using r by (auto simp: rkey_def hi_def)
    have b: "bytes p \<union> bytes q = bytes e - bytes r"
      using p q 2 ov rr by (auto simp: bytes_def)
    have w: "regions_ok (os_write e p s)" "elems (os_write e p s) = ys @ p # xs"
      using region_write [OF s(1-3) p(3)] p 2 ov by auto
    have dj: "\<forall>x \<in> set ys. hi x \<le> lo e" "\<forall>x \<in> set xs. hi e \<le> lo x"
      using d by auto
    have qd: "\<forall>x \<in> set (ys @ [p]). hi x \<le> lo q"
    proof -
      have "hi x \<le> hi r" if "x \<in> set ys" for x
        using dj(1) that ov by force
      then show ?thesis using p q rr by auto
    qed
    have qx: "\<forall>x \<in> set xs. hi q \<le> lo x" using q dj by auto
    have dpq: "disjoint_list (ys @ [p])" "disjoint_list xs"
      using regions_okD [OF w(1), unfolded w(2)] by (auto simp: disjoint_list_def sorted_wrt_append)
    have "bytes q \<inter> region_bytes (os_write e p s) = {}"
      using qd qx w(2) by (fastforce simp: set_bytes_def bytes_def)
    then obtain s1 where s1: "OSetGen_Insert q (os_write e p s) = Inr s1" "regions_ok s1"
      "elems s1 = ins_sorted cmp_pmem_st (\<lambda>x. x) q (ys @ p # xs)" "length (elems s1) = Suc (length (ys @ p # xs))"
      using region_insert [OF w(1) q(3)] w(2) by metis
    have el: "elems s1 = ys @ p # q # xs"
      using filter_cmp_split [OF dpq q(3) qd qx] s1(3) by (simp add: ins_sorted_def)
    obtain s2 where s2: "OSetGen_ResetIterAt p s1 = Inr s2" "regions_ok s2" "elems s2 = elems s1" "rest_of s2 = p # q # xs"
      using region_ResetIterAt [OF s1(2) p(3) _ el] len False s(2) s1(4) p q dj rr 2 by fastforce
    have "remove_region_body r e (s, idx) = Inr (s2, Suc idx)"
      unfolding body Let_def q_def [symmetric] using 2 s1(1) s2(1) by auto
    then show ?thesis
      using s2 el b p q False
      by (intro exI [of _ s2] exI [of _ "Suc idx"] exI [of _ "[p, q]"]) (auto simp: piece_def)
  next
    case 3
    define q where "q = e\<lparr>st_size := st_size e - (st_addr r + st_size r - st_addr e),
             st_addr := st_addr r + st_size r\<rparr>"
    have q: "lo q = hi r" "hi q = hi e" "rok q"
      using right_part [OF e r, of q] 3 by (simp_all add: q_def)
    have b: "bytes q = bytes e - bytes r"
      using q 3 ov by (auto simp: bytes_def)
    have w: "regions_ok (os_write e q s)" "elems (os_write e q s) = ys @ q # xs" "rest_of (os_write e q s) = xs"
      using region_write [OF s(1-3) q(3)] q 3 ov by auto
    have "remove_region_body r e (s, idx) = Inr (os_write e q s, idx)"
      unfolding body q_def [symmetric] using 3 by auto
    moreover have "piece r e q" using b q by (auto simp: piece_def)
    ultimately show ?thesis
      using w b False by (intro exI [of _ "os_write e q s"] exI [of _ idx] exI [of _ "[q]"] exI [of _ "[]"])
        (simp del: elems_write rest_of_write)
  next
    case 4
    have p: "lo p = lo e" "hi p = lo r" "rok p"
      using left_part [OF e, of r] 4 ov by (simp_all add: p_def)
    have b: "bytes p = bytes e - bytes r"
      using p 4 ov by (auto simp: bytes_def)
    have w: "regions_ok (os_write e p s)" "elems (os_write e p s) = ys @ p # xs" "rest_of (os_write e p s) = xs"
      using region_write [OF s(1-3) p(3)] p 4 ov by auto
    have "remove_region_body r e (s, idx) = Inr (os_write e p s, idx)"
      unfolding body using 4 by auto
    moreover have "piece r e p" using b p by (auto simp: piece_def)
    ultimately show ?thesis
      using w b False by (intro exI [of _ "os_write e p s"] exI [of _ idx] exI [of _ "[p]"] exI [of _ "[]"])
        (simp del: elems_write rest_of_write)
  qed
qed

lemma next_fst_Some: "OSetGen_Next s = Inr (x, s') \<Longrightarrow> next_fst (s, i) = Inr (x, (s', i))"
  by (simp add: next_fst_def)

lemma remove_region_loop_ok:
  assumes "regions_ok s" "elems s = ys @ rest_of s" "\<forall>y \<in> set ys. bytes y \<inter> bytes r = {}" "rkey r"
    and "length (elems s) + overlapping r (rest_of s) < OSET_ITER_MAX" "turns r (rest_of s) < f"
  shows "\<exists>s' idx'. while_next f next_fst (remove_region_body r) (s, idx) = Inr (s', idx') \<and> cut_out r s s'"
  using assms
proof (induction f arbitrary: s ys idx)
  case 0
  then show ?case by simp
next
  case (Suc f)
  show ?case
  proof (cases "rest_of s")
    case Nil
    let ?s = "s\<lparr>os_stack := []\<rparr>"
    have nx: "OSetGen_Next s = Inr (None, ?s)" using Next_None [OF Suc.prems(1) Nil] .
    have "regions_ok ?s" "elems ?s = elems s"
      using Suc.prems(1) by (simp_all add: oset_defs)
    moreover have "region_bytes s \<inter> bytes r = {}"
      using Suc.prems(2,3) Nil by (auto simp: set_bytes_def)
    ultimately have "cut_out r s ?s" by (auto simp: cut_out_def intro: piece_refl)
    with nx show ?thesis by (simp add: next_fst_def)
  next
    case (Cons e xs)
    obtain s1 where s1: "OSetGen_Next s = Inr (Some e, s1)" "regions_ok s1" "elems s1 = ys @ e # xs" "rest_of s1 = xs"
      using Next_Some [OF Suc.prems(1) Cons] Suc.prems(2) Cons by auto
    have len: "Suc (length (elems s1)) < OSET_ITER_MAX \<or> bytes e \<inter> bytes r = {}"
      using Suc.prems(2,5) Cons s1(3) by (cases "bytes e \<inter> bytes r = {}") auto
    obtain s2 idx2 ps zs where s2: "remove_region_body r e (s1, idx) = Inr (s2, idx2)" "regions_ok s2"
      "elems s2 = ys @ ps @ xs" "rest_of s2 = zs @ xs" "zs = [] \<or> zs = ps" "\<forall>p \<in> set ps. piece r e p"
      "set_bytes ps = bytes e - bytes r" "length ps \<le> Suc (of_bool (bytes e \<inter> bytes r \<noteq> {}))"
      "length zs < (if bytes e \<inter> bytes r \<noteq> {} then 3 else 1)"
      using remove_region_body_ok [OF s1(2,3,4) Suc.prems(3,4) len] by blast
    have clean: "\<forall>p \<in> set ps. bytes p \<inter> bytes r = {}"
      using s2(7) by (auto simp: set_bytes_def)
    then have "\<forall>p \<in> set zs. bytes p \<inter> bytes r = {}" using s2(5) by auto
    then have zs: "turns r (zs @ xs) = length zs + turns r xs" "overlapping r (zs @ xs) = overlapping r xs"
      by (induction zs) auto
    have "turns r (rest_of s2) < f"
      using Suc.prems(6) Cons s2(4,9) zs(1) by (auto split: if_splits)
    moreover have "length (elems s2) + overlapping r (rest_of s2) < OSET_ITER_MAX"
      using Suc.prems(2,5) Cons s2(3,4,8) zs(2) by (auto split: if_splits)
    moreover have "\<exists>ys'. elems s2 = ys' @ rest_of s2 \<and> (\<forall>y \<in> set ys'. bytes y \<inter> bytes r = {})"
      using s2(3,4,5) clean Suc.prems(3)
      by (intro exI [of _ "if zs = [] then ys @ ps else ys"]) auto
    ultimately obtain s3 idx3 where s3: "while_next f next_fst (remove_region_body r) (s2, idx2) = Inr (s3, idx3)"
      "cut_out r s2 s3"
      using Suc.IH [OF s2(2) _ _ Suc.prems(4)] by blast
    have "region_bytes s2 - bytes r = region_bytes s - bytes r"
      using s2(3,7) Suc.prems(2) Cons by auto
    moreover have "\<exists>d \<in> set (elems s). piece r d x" if "x \<in> set (elems s2)" for x
      using that s2(3,6) Suc.prems(2) Cons by (auto intro: piece_refl)
    ultimately have "cut_out r s s3"
      using s3(2) unfolding cut_out_def by (metis piece_trans)
    then show ?thesis
      using next_fst_Some [OF s1(1), of idx] s2(1) s3(1) by simp
  qed
qed

theorem remove_region_spec:
  assumes "regions_ok s" "rkey r" "2 * length (elems s) < OSET_ITER_MAX"
  shows "\<exists>s' idx'. remove_region r (s, idx) = Inr (s', idx') \<and> cut_out r s s'"
proof -
  have l: "length (elems s) < OSET_ITER_MAX" using assms(3) by linarith
  note i = ResetIter_correct [OF assms(1) l]
  have "\<exists>s' idx'. while_next (3 * OSetGen_Size s + 1) next_fst (remove_region_body r)
      (OSetGen_ResetIter s, idx) = Inr (s', idx') \<and> cut_out r (OSetGen_ResetIter s) s'"
    using i assms turns_le [of r "elems s"] overlapping_le [of r "elems s"] Size_correct [OF assms(1)]
    by (intro remove_region_loop_ok [where ys = "[]"]) auto
  then show ?thesis
    using i(2) by (auto simp: remove_region_def cut_out_def)
qed

section \<open>Zero-sized entries\<close>

text \<open>A mapping of size 0 is stored as an entry that no lookup key equal to itself finds: a
  second registration next to it takes it for an entry to merge, does not remove it, and frees
  it while the set still holds it.\<close>

lemma cmp_pmem_st_empty: "st_size r = 0 \<Longrightarrow> cmp_pmem_st r r = - 1"
  by (simp add: cmp_pmem_st_def)

lemma add_region_empty_entry:
  "err_of (rbind (add_region (mk_region 4096 0) (OSetGen_Create cmp_pmem_st (\<lambda>x. x)))
      (add_region (mk_region 4096 64))) = Some (UseAfterFree ''OSetGen_FreeNode'')"
  by code_simp

end
