(* ===== verification/PMC_Tx.thy ===== *)
theory PMC_Tx
  imports PMC_Region
begin

text \<open>
  The transaction module \<open>pmdebugger/pmc_tx.c\<close>: running transactions with the regions they
  track, the threads that take part in them, stores made outside of a transaction, regions
  registered in two transactions, and regions logged twice in one.

  \<open>VG_(get_running_tid)\<close>, \<open>VG_(record_ExeContext)\<close> and \<open>VG_(describe_IP)\<close> belong to the Valgrind
  core: the running thread, its stack trace, the description of an instruction address (one text
  per inlined function) and the choice of XML output are an argument of the operations (\<open>env\<close>),
  as are the strings that the client passes by address, the name behind a file descriptor, what
  the reads of \<open>/proc/cpuinfo\<close> return and the stack holds before them, the keyword search of the core and the contents of freshly allocated arrays.  Debug messages of the
  verbose mode go to the log \<open>tr_out\<close>.
\<close>

record env =
  en_tid :: uword
  en_context :: exe_context
  en_describe :: "uword \<Rightarrow> string list"
  en_xml :: bool
  en_cstring :: "uword \<Rightarrow> string"
  en_readlink :: "uword \<Rightarrow> string option"
  en_cpuinfo_opened :: bool
  en_cpuinfo_reads :: "string list"
  en_cpuinfo_stack :: "nat \<Rightarrow> char"
  en_keyword_id :: "string list \<Rightarrow> string \<Rightarrow> int"
  en_fresh_stores :: "nat \<Rightarrow> pmem_st"
  en_fresh_snippets :: "nat \<Rightarrow> arr_snippet"

definition MAX_OOT_STORES :: nat where
  "MAX_OOT_STORES = 10000"

definition MAX_CROSS_EVS :: nat where
  "MAX_CROSS_EVS = 1000"

section \<open>State\<close>

record tx_info =
  tx_id :: uword
  tx_counter :: uword
  tx_context :: exe_context
  tx_regions :: region_set
  tx_cached_region :: pmem_st

record thread_info =
  th_thread_id :: uword
  th_tx_ids :: oset_word

record cross_tx_event =
  cr_original :: pmem_st
  cr_orig_tx_id :: uword
  cr_duplicate :: pmem_st
  cr_dup_tx_id :: uword

record redundant_logging_tx_event =
  rl_original :: pmem_st
  rl_tx_id :: uword
  rl_duplicate :: pmem_st

record transaction_ops =
  tr_transactions :: "(uword, tx_info) oset"
  tr_threads :: "(uword, thread_info) oset"
  tr_oot_stores :: "pmem_st list"
  tr_verbose :: bool
  tr_transactions_only :: bool
  tr_excludes :: region_set
  tr_cross_tx_evs :: "cross_tx_event list"
  tr_redundant_logging_tx_evs :: "redundant_logging_tx_event list"
  tr_tree_reorganization :: bool
  tr_redundant_logging :: bool
  tr_print_bug_detail :: bool
  tr_out :: "out list"

definition init_transactions :: "bool \<Rightarrow> bool \<Rightarrow> bool \<Rightarrow> bool \<Rightarrow> bool \<Rightarrow> transaction_ops" where
  "init_transactions verbose transactions_only tree_reorganization redundant_logging print_bug_detail =
     \<lparr>tr_transactions = OSetGen_Create (fast_cmp tx_id) tx_id,
      tr_threads = OSetGen_Create (fast_cmp th_thread_id) th_thread_id,
      tr_oot_stores = [], tr_verbose = verbose, tr_transactions_only = transactions_only,
      tr_excludes = OSetGen_Create cmp_pmem_st (\<lambda>x. x), tr_cross_tx_evs = [],
      tr_redundant_logging_tx_evs = [], tr_tree_reorganization = tree_reorganization,
      tr_redundant_logging = redundant_logging, tr_print_bug_detail = print_bug_detail,
      tr_out = []\<rparr>"

definition tr_log :: "out list \<Rightarrow> transaction_ops \<Rightarrow> transaction_ops" where
  "tr_log ms t = t\<lparr>tr_out := tr_out t @ ms\<rparr>"

definition tr_dmsg :: "string \<Rightarrow> uword list \<Rightarrow> transaction_ops \<Rightarrow> transaction_ops" where
  "tr_dmsg fmt args t = (if tr_verbose t then tr_log [Dmsg fmt args] t else t)"

section \<open>Debug printing\<close>

fun print_threads_loop :: "thread_info list \<Rightarrow> out list res" where
  "print_threads_loop [] = Inr []"
| "print_threads_loop (elem # es) =
     rbind (os_iter (th_tx_ids elem)) (\<lambda>ids.
       rbind (print_threads_loop es) (\<lambda>ms.
         Inr (Dmsg ''Thread: %lu'' [th_thread_id elem] # map (\<lambda>i. Dmsg ''tx: %lu'' [i]) ids @ ms)))"

definition print_thread_transactions :: "transaction_ops \<Rightarrow> transaction_ops res" where
  "print_thread_transactions t =
     (if \<not> tr_verbose t then Inr t
      else rbind (os_iter (tr_threads t)) (\<lambda>es.
             rbind (print_threads_loop es) (\<lambda>ms.
               Inr (tr_log (Dmsg ''Printing thread transactions'' [] # ms) t))))"

definition print_running_transactions :: "transaction_ops \<Rightarrow> transaction_ops res" where
  "print_running_transactions t =
     (if \<not> tr_verbose t then Inr t
      else rbind (os_iter (tr_transactions t)) (\<lambda>txs.
             Inr (tr_log (Dmsg ''Printing running transactions'' [] #
               map (\<lambda>x. Dmsg ''tx: %lu nesting: %lu'' [tx_id x, tx_counter x]) txs) t)))"

definition show_context :: "transaction_ops \<Rightarrow> exe_context \<Rightarrow> out list" where
  "show_context t c = (if tr_tree_reorganization t \<or> tr_print_bug_detail t then [PpExe c] else [])"

text \<open>\<open>print_regions\<close> reports a missing transaction and then goes on to follow the null pointer.\<close>

definition print_regions :: "uword \<Rightarrow> transaction_ops \<Rightarrow> transaction_ops res" where
  "print_regions txid t =
     (if \<not> tr_verbose t then Inr t
      else (case OSetGen_Lookup (tr_transactions t) txid of
              None \<Rightarrow> Inl (NullDeref ''print_regions'')
            | Some tx \<Rightarrow> rbind (os_iter (tx_regions tx)) (\<lambda>rs.
                Inr (tr_log (concat (map (\<lambda>r. Dmsg ''Address 0x%lx size %llu'' [st_addr r, st_size r] #
                  show_context t (st_context r)) rs)) t))))"

section \<open>Reports\<close>

definition print_pair :: "transaction_ops \<Rightarrow> nat \<Rightarrow> pmem_st \<Rightarrow> uword \<Rightarrow> pmem_st \<Rightarrow> uword \<Rightarrow> out list" where
  "print_pair t i dup dup_id orig orig_id =
     [Umsg ''[%d] '' [of_nat i]] @ show_context t (st_context dup) @
     [Umsg ''Address: 0x%lx size: %llu tx_id: %lu'' [st_addr dup, st_size dup, dup_id],
      Umsg ''First registered here: [%d]'' [of_nat i]] @ show_context t (st_context orig) @
     [Umsg ''Address: 0x%lx size: %llu tx_id: %lu'' [st_addr orig, st_size orig, orig_id]]"

definition print_cross_evs :: "transaction_ops \<Rightarrow> out list" where
  "print_cross_evs t =
     (let evs = tr_cross_tx_evs t in
      if evs = [] then []
      else [Umsg '''' [],
            Umsg ''Number of overlapping regions registered in different transactions: %lu''
              [of_nat (length evs)],
            Umsg ''Overlapping regions:'' []] @
           concat (map (\<lambda>(i, e). print_pair t i (cr_duplicate e) (cr_dup_tx_id e)
                     (cr_original e) (cr_orig_tx_id e)) (enumerate 0 evs)))"

definition print_redundant_logging_evs :: "transaction_ops \<Rightarrow> out list" where
  "print_redundant_logging_evs t =
     (let evs = tr_redundant_logging_tx_evs t in
      if evs = [] then []
      else [Umsg '''' [],
            Umsg ''Number of overlapping regions registered in a same transactions: %lu''
              [of_nat (length evs)],
            Umsg ''Overlapping regions:'' []] @
           concat (map (\<lambda>(i, e). print_pair t i (rl_duplicate e) (rl_tx_id e)
                     (rl_original e) (rl_tx_id e)) (enumerate 0 evs)))"

definition print_cross_error :: "transaction_ops \<Rightarrow> out list" where
  "print_cross_error t =
     [Umsg ''Number of overlapping regions registered in different transactions exceeded %lu''
        [of_nat MAX_CROSS_EVS],
      Umsg ''This means your program is tracking the same memory regions within different transactions.'' []] @
     print_cross_evs t"

definition print_redundant_logging_error :: "transaction_ops \<Rightarrow> out list" where
  "print_redundant_logging_error t =
     [Umsg ''Number of overlapping regions registered in a same transaction exceeded %lu''
        [of_nat MAX_CROSS_EVS],
      Umsg ''This means your program is tracking the same memory regions within a same transactions.'' []] @
     print_redundant_logging_evs t"

definition print_oot_stores :: "transaction_ops \<Rightarrow> out list" where
  "print_oot_stores t =
     (if tr_oot_stores t = [] then []
      else [Umsg '''' [],
            Umsg ''Number of stores made without adding to transaction: %lu''
              [of_nat (length (tr_oot_stores t))],
            Umsg ''Stores made without adding to transactions:'' []] @
           concat (map (\<lambda>(i, s). [Umsg ''[%d] '' [of_nat i]] @ show_context t (st_context s) @
             [Umsg ''Address: 0x%lx size: %llu'' [st_addr s, st_size s]])
             (enumerate 0 (tr_oot_stores t))))"

definition print_tx_summary :: "transaction_ops \<Rightarrow> out list res" where
  "print_tx_summary t =
     rbind (if OSetGen_Size (tr_transactions t) = 0 then Inr []
            else rbind (os_iter (tr_transactions t)) (\<lambda>txs.
              Inr ([Umsg '''' [], Umsg ''Number of active transactions: %lu''
                      [of_nat (OSetGen_Size (tr_transactions t))]] @
                concat (map (\<lambda>(i, x). [Umsg ''[%lu] '' [of_nat i]] @ show_context t (tx_context x) @
                  [Umsg ''tx_id: %lu nesting: %lu'' [tx_id x, tx_counter x]]) (enumerate 0 txs)))))
       (\<lambda>active. Inr (print_oot_stores t @ print_cross_evs t @ print_redundant_logging_evs t @ active))"

definition get_tx_all_err :: "transaction_ops \<Rightarrow> nat" where
  "get_tx_all_err t = length (tr_oot_stores t) + length (tr_cross_tx_evs t) +
     OSetGen_Size (tr_transactions t) + length (tr_redundant_logging_tx_evs t)"

definition print_tx_err_msg :: "transaction_ops \<Rightarrow> nat \<Rightarrow> out list" where
  "print_tx_err_msg t limit =
     [Umsg ''The number of out of transaction stores exceeded %lu'' [of_nat limit],
      Umsg ''This means your applications is changing objects that are not tracked by the ongoing transaction.'' []] @
     (case print_tx_summary t of Inl e \<Rightarrow> [] | Inr ms \<Rightarrow> ms)"

section \<open>Event registration\<close>

definition register_cross_event ::
    "pmem_st \<Rightarrow> uword \<Rightarrow> pmem_st \<Rightarrow> uword \<Rightarrow> transaction_ops \<Rightarrow> transaction_ops res" where
  "register_cross_event orig orig_tx dup dup_tx t =
     (if length (tr_cross_tx_evs t) = MAX_CROSS_EVS then Inl (ToolExit (print_cross_error t))
      else Inr (t\<lparr>tr_cross_tx_evs := tr_cross_tx_evs t @
             [\<lparr>cr_original = orig, cr_orig_tx_id = orig_tx, cr_duplicate = dup, cr_dup_tx_id = dup_tx\<rparr>]\<rparr>))"

definition register_redundant_logging_event ::
    "pmem_st \<Rightarrow> pmem_st \<Rightarrow> uword \<Rightarrow> transaction_ops \<Rightarrow> transaction_ops res" where
  "register_redundant_logging_event orig dup txid t =
     (if length (tr_redundant_logging_tx_evs t) = MAX_CROSS_EVS
      then Inl (ToolExit (print_redundant_logging_error t))
      else Inr (t\<lparr>tr_redundant_logging_tx_evs := tr_redundant_logging_tx_evs t @
             [\<lparr>rl_original = orig, rl_tx_id = txid, rl_duplicate = dup\<rparr>]\<rparr>))"

section \<open>Threads and transactions\<close>

definition create_get_thread_entry ::
    "uword \<Rightarrow> (uword, thread_info) oset \<Rightarrow> (thread_info \<times> (uword, thread_info) oset) res" where
  "create_get_thread_entry thread_id threads =
     (if \<not> OSetGen_Contains threads thread_id
      then (let new_thread = \<lparr>th_thread_id = thread_id, th_tx_ids = OSetWord_Create\<rparr>
            in rbind (OSetGen_Insert new_thread threads) (\<lambda>threads'. Inr (new_thread, threads')))
      else (case OSetGen_Lookup threads thread_id of
              None \<Rightarrow> Inl (NullDeref ''create_get_thread_entry'')
            | Some th \<Rightarrow> Inr (th, threads)))"

definition is_in_cache :: "pmem_st \<Rightarrow> tx_info \<Rightarrow> bool" where
  "is_in_cache store tx =
     (st_addr store = st_addr (tx_cached_region tx) \<and> st_size store = st_size (tx_cached_region tx))"

text \<open>The part of \<open>register_new_tx\<close> and \<open>add_thread_to_tx\<close> that notes the transaction in the entry
  of the running thread.\<close>

definition join_tx :: "env \<Rightarrow> uword \<Rightarrow> transaction_ops \<Rightarrow> transaction_ops res" where
  "join_tx en txid t =
     rbind (create_get_thread_entry (en_tid en) (tr_threads t)) (\<lambda>(tinfo, threads).
       if OSetWord_Contains (th_tx_ids tinfo) txid then Inr (t\<lparr>tr_threads := threads\<rparr>)
       else rbind (OSetWord_Insert txid (th_tx_ids tinfo)) (\<lambda>ids.
              Inr (t\<lparr>tr_threads := os_write tinfo (tinfo\<lparr>th_tx_ids := ids\<rparr>) threads\<rparr>)))"

definition register_new_tx :: "env \<Rightarrow> uword \<Rightarrow> transaction_ops \<Rightarrow> transaction_ops res" where
  "register_new_tx en txid t =
     rbind (if \<not> OSetGen_Contains (tr_transactions t) txid
            then OSetGen_Insert \<lparr>tx_id = txid, tx_counter = 0, tx_context = en_context en,
                    tx_regions = OSetGen_Create cmp_pmem_st (\<lambda>x. x), tx_cached_region = zero_st\<rparr>
                    (tr_transactions t)
            else Inr (tr_transactions t)) (\<lambda>txs.
     rbind (join_tx en txid (t\<lparr>tr_transactions := txs\<rparr>)) (\<lambda>t1.
       case OSetGen_Lookup (tr_transactions t1) txid of
         None \<Rightarrow> Inl (NullDeref ''register_new_tx'')
       | Some txinf \<Rightarrow>
           (let txinf' = txinf\<lparr>tx_counter := tx_counter txinf + 1\<rparr>;
                t2 = t1\<lparr>tr_transactions := os_write txinf txinf' (tr_transactions t1)\<rparr>
            in print_running_transactions
                 (tr_dmsg ''Starting transaction: %lu, nesting %lu'' [txid, tx_counter txinf'] t2))))"

definition is_nest_trans :: "uword \<Rightarrow> transaction_ops \<Rightarrow> bool" where
  "is_nest_trans txid t =
     (case OSetGen_Lookup (tr_transactions t) txid of None \<Rightarrow> False
      | Some txinf \<Rightarrow> tx_counter txinf > 1)"

definition remove_thread_entry ::
    "thread_info \<Rightarrow> (uword, thread_info) oset \<Rightarrow> (uword, thread_info) oset res" where
  "remove_thread_entry thread_entry threads =
     (if \<not> OSetGen_Contains threads (th_thread_id thread_entry) then Inr threads
      else rbind (OSetGen_Remove (th_thread_id thread_entry) threads) (\<lambda>(n, threads1).
             rbind (OSetGen_Destroy (th_tx_ids thread_entry)) (\<lambda>u.
               OSetGen_FreeNode thread_entry threads1)))"

definition remove_tx_body ::
    "uword \<Rightarrow> thread_info \<Rightarrow> (uword, thread_info) oset \<Rightarrow> (uword, thread_info) oset res" where
  "remove_tx_body txid elem threads =
     rbind (OSetWord_Remove txid (th_tx_ids elem)) (\<lambda>(b, ids).
       (let elem' = elem\<lparr>th_tx_ids := ids\<rparr>;
            threads' = os_write elem elem' threads
        in if OSetWord_Size ids = 0 then remove_thread_entry elem' threads' else Inr threads'))"

text \<open>\<open>remove_tx\<close>.  A turn of the loop over the threads adds no entry, so one turn per thread and a
  last one are enough.\<close>

definition remove_tx :: "uword \<Rightarrow> transaction_ops \<Rightarrow> (nat \<times> transaction_ops) res" where
  "remove_tx txid t =
     (case OSetGen_Lookup (tr_transactions t) txid of
        None \<Rightarrow> Inr (1, tr_log [Umsg ''========remove_tx NULL=========='' []] t)
      | Some tx \<Rightarrow>
          (let tx' = tx\<lparr>tx_counter := tx_counter tx - 1\<rparr>;
               txs = os_write tx tx' (tr_transactions t)
           in if tx_counter tx' > 0 then Inr (0, t\<lparr>tr_transactions := txs\<rparr>)
              else
                rbind (while_next (Suc (OSetGen_Size (tr_threads t))) OSetGen_Next (remove_tx_body txid)
                         (OSetGen_ResetIter (tr_threads t))) (\<lambda>threads.
                  rbind (OSetGen_Destroy (tx_regions tx')) (\<lambda>u.
                    rbind (OSetGen_Remove txid txs) (\<lambda>(n, txs1).
                      rbind (OSetGen_FreeNode tx' txs1) (\<lambda>txs2.
                        Inr (0, t\<lparr>tr_threads := threads, tr_transactions := txs2\<rparr>)))))))"

definition is_tx_in_thread :: "env \<Rightarrow> uword \<Rightarrow> transaction_ops \<Rightarrow> bool \<times> transaction_ops" where
  "is_tx_in_thread en txid t =
     (case OSetGen_Lookup (tr_threads t) (en_tid en) of
        None \<Rightarrow> (False, tr_dmsg ''thread %lu not part of any transaction'' [en_tid en] t)
      | Some tinfo \<Rightarrow> (OSetWord_Contains (th_tx_ids tinfo) txid, t))"

text \<open>The common answer of the operations to a thread that takes no part in the transaction.\<close>

definition not_in_thread :: "transaction_ops \<Rightarrow> transaction_ops res" where
  "not_in_thread t =
     rbind (print_running_transactions
              (tr_dmsg ''this thread does not participate in this transaction'' [] t))
       print_thread_transactions"

section \<open>Regions of a transaction\<close>

definition clear_cache :: "tx_info \<Rightarrow> tx_info" where
  "clear_cache tx = tx\<lparr>tx_cached_region := (tx_cached_region tx)\<lparr>st_addr := 0, st_size := 0\<rparr>\<rparr>"

definition flush_cache :: "tx_info \<Rightarrow> tx_info res" where
  "flush_cache tx =
     (if st_addr (tx_cached_region tx) = 0 \<and> st_size (tx_cached_region tx) = 0 then Inr tx
      else rbind (add_region (tx_cached_region tx) (tx_regions tx)) (\<lambda>rs.
             Inr (clear_cache (tx\<lparr>tx_regions := rs\<rparr>))))"

definition overlap_events :: "uword \<Rightarrow> pmem_st \<Rightarrow> tx_info \<Rightarrow> transaction_ops \<Rightarrow> transaction_ops res" where
  "overlap_events txid reg tx_iter t =
     (let found = (if cmp_pmem_st reg (tx_cached_region tx_iter) = 0 then Inr (Some (tx_cached_region tx_iter))
                   else if is_in_mapping_set reg (tx_regions tx_iter) \<noteq> 0
                   then (case OSetGen_Lookup (tx_regions tx_iter) reg of
                           None \<Rightarrow> Inl (NullDeref ''add_obj_to_tx'') | Some r \<Rightarrow> Inr (Some r))
                   else Inr None)
      in if tx_id tx_iter = txid
         then (if tr_redundant_logging t
               then rbind found (\<lambda>f. case f of None \<Rightarrow> Inr t
                      | Some orig \<Rightarrow> register_redundant_logging_event orig reg txid t)
               else Inr t)
         else rbind found (\<lambda>f. case f of None \<Rightarrow> Inr t
                      | Some orig \<Rightarrow> register_cross_event orig (tx_id tx_iter) reg txid t))"

text \<open>The update of the cached region and of the tree at the end of \<open>add_obj_to_tx\<close>.  The counter
  \<open>db_pmem_store_index\<close>, which \<open>remove_region\<close> advances, is passed along.\<close>

definition cache_obj :: "pmem_st \<Rightarrow> tx_info \<Rightarrow> nat \<Rightarrow> (tx_info \<times> nat) res" where
  "cache_obj reg tx idx =
     rbind (if st_addr (tx_cached_region tx) \<noteq> 0 \<and> st_size (tx_cached_region tx) \<noteq> 0
            then (let overlap = check_overlap (tx_cached_region tx) reg in
                  if overlap = 0 then rbind (flush_cache tx) (\<lambda>tx1. Inr (tx1, idx))
                  else if overlap = 2
                  then rbind (flush_cache tx) (\<lambda>tx1.
                         rbind (remove_region reg (tx_regions tx1, idx)) (\<lambda>(rs, idx').
                           Inr (tx1\<lparr>tx_regions := rs\<rparr>, idx')))
                  else Inr (tx, idx))
            else Inr (tx, idx))
       (\<lambda>(tx2, idx2). Inr (tx2\<lparr>tx_cached_region := reg\<rparr>, idx2))"

definition add_obj_to_tx ::
    "env \<Rightarrow> uword \<Rightarrow> uword \<Rightarrow> uword \<Rightarrow> transaction_ops \<times> nat \<Rightarrow> (nat \<times> transaction_ops \<times> nat) res" where
  "add_obj_to_tx en txid base sze s =
     (let (t, idx) = s in
      case OSetGen_Lookup (tr_transactions t) txid of
        None \<Rightarrow> Inr (1, tr_dmsg ''no matching transaction found'' [] t, idx)
      | Some tx \<Rightarrow>
          (let (inthread, t1) = is_tx_in_thread en txid t in
           if \<not> inthread then rbind (not_in_thread t1) (\<lambda>t2. Inr (2, t2, idx))
           else
             (let reg = (mk_region base sze)\<lparr>st_context := en_context en\<rparr>
              in rbind (os_iter (tr_transactions t1)) (\<lambda>txs.
                   rbind (foldM (overlap_events txid reg) txs t1) (\<lambda>t2.
                     rbind (cache_obj reg tx idx) (\<lambda>(tx', idx').
                       Inr (0, t2\<lparr>tr_transactions := os_write tx tx' (tr_transactions t2)\<rparr>, idx')))))))"

definition remove_obj_from_tx ::
    "env \<Rightarrow> uword \<Rightarrow> uword \<Rightarrow> uword \<Rightarrow> transaction_ops \<times> nat \<Rightarrow> (nat \<times> transaction_ops \<times> nat) res" where
  "remove_obj_from_tx en txid base sze s =
     (let (t, idx) = s in
      case OSetGen_Lookup (tr_transactions t) txid of
        None \<Rightarrow> Inr (1, tr_dmsg ''no matching transaction found'' [] t, idx)
      | Some tx \<Rightarrow>
          (let (inthread, t1) = is_tx_in_thread en txid t in
           if \<not> inthread then rbind (not_in_thread t1) (\<lambda>t2. Inr (2, t2, idx))
           else
             (let reg = mk_region base sze in
              if is_in_cache reg tx
              then Inr (0, t1\<lparr>tr_transactions := os_write tx (clear_cache tx) (tr_transactions t1)\<rparr>, idx)
              else rbind (if cmp_pmem_st reg (tx_cached_region tx) = 0
                          then add_region (tx_cached_region tx) (tx_regions tx)
                          else Inr (tx_regions tx)) (\<lambda>rs.
                     rbind (remove_region reg (rs, idx)) (\<lambda>(rs', idx').
                       Inr (0, t1\<lparr>tr_transactions :=
                         os_write tx (tx\<lparr>tx_regions := rs'\<rparr>) (tr_transactions t1)\<rparr>, idx'))))))"

section \<open>Stores\<close>

definition is_store_in_tx :: "pmem_st \<Rightarrow> uword \<Rightarrow> transaction_ops \<Rightarrow> (bool \<times> transaction_ops) res" where
  "is_store_in_tx store txid t =
     (case OSetGen_Lookup (tr_transactions t) txid of
        None \<Rightarrow> Inr (False, tr_dmsg ''no matching transaction found'' [] t)
      | Some tx \<Rightarrow>
          if check_overlap store (tx_cached_region tx) = 1 then Inr (True, t)
          else rbind (flush_cache tx) (\<lambda>tx'.
                 Inr (is_in_mapping_set store (tx_regions tx') = 1,
                      t\<lparr>tr_transactions := os_write tx tx' (tr_transactions t)\<rparr>)))"

text \<open>\<open>record_store\<close>: in verbose mode it follows \<open>tinfo\<close>, which \<open>handle_tx_store\<close> passes as null for
  a thread that is in no transaction.\<close>

definition record_store :: "pmem_st \<Rightarrow> thread_info option \<Rightarrow> transaction_ops \<Rightarrow> transaction_ops res" where
  "record_store store tinfo t =
     rbind (add_warning_event (print_tx_err_msg t) MAX_OOT_STORES store (tr_oot_stores t)) (\<lambda>evs.
       (let t1 = t\<lparr>tr_oot_stores := evs\<rparr> in
        if \<not> tr_verbose t1 then Inr t1
        else (case tinfo of None \<Rightarrow> Inl (NullDeref ''record_store'')
              | Some th \<Rightarrow>
                 rbind (os_iter (th_tx_ids th)) (\<lambda>ids.
                   foldM print_regions ids
                     (tr_log [Dmsg ''Store outside of transaction address 0x%lx size %llu''
                                [st_addr store, st_size store],
                              Dmsg ''Registered objects:'' []] t1)))))"

fun find_tx :: "pmem_st \<Rightarrow> uword list \<Rightarrow> transaction_ops \<Rightarrow> (bool \<times> transaction_ops) res" where
  "find_tx store [] t = Inr (False, t)"
| "find_tx store (i # ids) t =
     rbind (is_store_in_tx store i t) (\<lambda>(b, t'). if b then Inr (True, t') else find_tx store ids t')"

definition handle_tx_store :: "env \<Rightarrow> pmem_st \<Rightarrow> transaction_ops \<Rightarrow> transaction_ops res" where
  "handle_tx_store en store t =
     (if is_in_mapping_set store (tr_excludes t) = 1 then Inr t
      else (case OSetGen_Lookup (tr_threads t) (en_tid en) of
        None \<Rightarrow>
          rbind (if tr_transactions_only t then record_store store None t else Inr t) (\<lambda>t1.
            Inr (tr_dmsg ''thread is not part of any transaction'' [] t1))
      | Some tinfo \<Rightarrow>
          rbind (os_iter (th_tx_ids tinfo)) (\<lambda>ids.
            rbind (find_tx store ids t) (\<lambda>(b, t1).
              if b then Inr t1
              else rbind (if tr_verbose t1 then foldM print_regions ids t1 else Inr t1)
                     (record_store store (Some tinfo))))))"

definition add_thread_to_tx :: "env \<Rightarrow> uword \<Rightarrow> transaction_ops \<Rightarrow> (nat \<times> transaction_ops) res" where
  "add_thread_to_tx en txid t =
     (if \<not> OSetGen_Contains (tr_transactions t) txid
      then Inr (1, tr_dmsg ''no matching transaction found'' [] t)
      else rbind (join_tx en txid t) (\<lambda>t1. Inr (0, t1)))"

definition remove_thread_from_tx :: "env \<Rightarrow> uword \<Rightarrow> transaction_ops \<Rightarrow> (nat \<times> transaction_ops) res" where
  "remove_thread_from_tx en txid t =
     (if \<not> OSetGen_Contains (tr_transactions t) txid
      then Inr (1, tr_dmsg ''no matching transaction found'' [] t)
      else
        (let (inthread, t1) = is_tx_in_thread en txid t in
         if \<not> inthread then rbind (not_in_thread t1) (\<lambda>t2. Inr (2, t2))
         else (case OSetGen_Lookup (tr_threads t1) (en_tid en) of
                 None \<Rightarrow> Inl (NullDeref ''remove_thread_from_tx'')
               | Some tinfo \<Rightarrow>
                   rbind (OSetWord_Remove txid (th_tx_ids tinfo)) (\<lambda>(b, ids).
                     Inr (0, t1\<lparr>tr_threads := os_write tinfo (tinfo\<lparr>th_tx_ids := ids\<rparr>) (tr_threads t1)\<rparr>)))))"

definition add_to_global_excludes :: "pmem_st \<Rightarrow> transaction_ops \<Rightarrow> transaction_ops res" where
  "add_to_global_excludes region t =
     rbind (add_region region (tr_excludes t)) (\<lambda>ex. Inr (t\<lparr>tr_excludes := ex\<rparr>))"

end
