(* ===== verification/PMC_State.thy ===== *)
theory PMC_State
  imports PMC_Tx
begin

text \<open>
  The state of the tool (\<open>struct pmem_ops\<close> in \<open>pmdebugger/pmc_main.c\<close>) and the helpers that the
  store, flush and fence handlers share: the array of recent stores with its snippets, the bounds
  of a snippet and of the tree, the comparison of stack traces, and the reports on the event
  registers.

  The two heap arrays are functions from indices; entries beyond the used part hold whatever an
  earlier use left there, and \<open>VG_(malloc)\<close> does not clear them, so their first contents are an
  argument of the initialisation.  The globals \<open>db_pmem_store_index\<close> and \<open>sblocks\<close> and the output
  are fields of the state.  Statistics that only exist under \<open>#ifdef\<close> are left out.
\<close>

section \<open>State\<close>

record options =
  op_store_sb_indiff :: uword
  op_track_multiple_stores :: bool
  op_log_stores :: bool
  op_print_summary :: bool
  op_check_flush :: bool
  op_flush_align_size :: uword
  op_force_flush_align :: bool
  op_transactions_only :: bool
  op_store_traces :: bool
  op_store_traces_depth :: nat
  op_automatic_isa_rec :: bool
  op_error_summary :: bool
  op_weak_clflush :: bool
  op_tree_reorganization :: bool
  op_redundant_logging :: bool
  op_epoch_durability_fence :: bool
  op_print_bug_detail :: bool
  op_order_guarantee :: bool
  op_lack_ordering_trand :: bool

type_synonym time_set = "(nat, pmem_st_order) oset"
type_synonym order_set = "(nat, order_record) oset"

record pmem_ops =
  pm_stores :: region_set
  pm_min_store :: uword
  pm_max_store :: uword
  pm_not_pmem_num :: nat
  pm_snippet_index :: nat
  pm_array :: "nat \<Rightarrow> pmem_st"
  pm_snippet :: "nat \<Rightarrow> arr_snippet"
  pm_merge :: "region_set option"
  pm_mappings :: region_set
  pm_min_map :: uword
  pm_max_map :: uword
  pm_multiple_stores :: "pmem_st list"
  pm_redundant_flushes :: "pmem_st list"
  pm_superfluous_flushes :: "pmem_st list"
  pm_opts :: options
  pm_epoch :: bool
  pm_epoch_fence :: nat
  pm_redundant_fence :: "exe_context list"
  pm_epoch_durability_reg :: nat
  pm_time_records :: "time_set option"
  pm_global_time_stamp :: uword
  pm_order_records :: "order_set option"
  pm_order_guarantee_reg :: nat
  pm_time_records_index :: nat
  pm_lack_ordering_reg :: nat
  pm_db_index :: nat
  pm_sblocks :: uword
  pm_out :: "out list"

definition MAX_REDUNDANT_FENCE :: nat where
  "MAX_REDUNDANT_FENCE = 10000"

definition MAX_MULT_OVERWRITES :: nat where
  "MAX_MULT_OVERWRITES = 10000"

definition MAX_ARRAY_NUM :: nat where
  "MAX_ARRAY_NUM = 100000000"

definition MAX_FLUSH_ERROR_EVENTS :: nat where
  "MAX_FLUSH_ERROR_EVENTS = 10000"

abbreviation tree_mode :: "pmem_ops \<Rightarrow> bool" where
  "tree_mode p \<equiv> op_tree_reorganization (pm_opts p)"

abbreviation show_traces :: "pmem_ops \<Rightarrow> bool" where
  "show_traces p \<equiv> op_tree_reorganization (pm_opts p) \<or> op_print_bug_detail (pm_opts p)"

definition log_out :: "out list \<Rightarrow> pmem_ops \<Rightarrow> pmem_ops" where
  "log_out ms p = p\<lparr>pm_out := pm_out p @ ms\<rparr>"

definition pp_context :: "pmem_ops \<Rightarrow> exe_context \<Rightarrow> out list" where
  "pp_context p c = (if show_traces p then [PpExe c] else [])"

section \<open>The array of stores and its snippets\<close>

text \<open>\<open>current p\<close> is the snippet that new stores are added to.\<close>

abbreviation current :: "pmem_ops \<Rightarrow> arr_snippet" where
  "current p \<equiv> pm_snippet p (pm_snippet_index p)"

definition set_snippet :: "nat \<Rightarrow> arr_snippet \<Rightarrow> pmem_ops \<Rightarrow> pmem_ops" where
  "set_snippet s a p = p\<lparr>pm_snippet := (pm_snippet p)(s := a)\<rparr>"

definition set_entry :: "nat \<Rightarrow> pmem_st \<Rightarrow> pmem_ops \<Rightarrow> pmem_ops" where
  "set_entry i e p = p\<lparr>pm_array := (pm_array p)(i := e)\<rparr>"

definition empty_snippet :: "nat \<Rightarrow> arr_snippet" where
  "empty_snippet start = \<lparr>sn_index = start, sn_min_add = - 1, sn_max_add = - 1,
     sn_start_index = start, sn_flushed_num = NO_FLUSHED\<rparr>"

definition init_snippet_info :: "pmem_ops \<Rightarrow> pmem_ops res" where
  "init_snippet_info p =
     (let k = Suc (pm_snippet_index p) in
      if MAX_ARRAY_NUM \<le> k then Inl (OutOfBounds ''snippet_info'')
      else Inr (set_snippet k (empty_snippet (sn_index (current p))) (p\<lparr>pm_snippet_index := k\<rparr>)))"

text \<open>\<open>pmem_st_copy\<close>: everything but the index.\<close>

definition pmem_st_copy :: "pmem_st \<Rightarrow> pmem_st \<Rightarrow> pmem_st" where
  "pmem_st_copy copy orig = orig\<lparr>st_index := st_index copy\<rparr>"

definition alloc_store :: "pmem_ops \<Rightarrow> pmem_st \<times> pmem_ops" where
  "alloc_store p = (zero_st\<lparr>st_index := pm_db_index p\<rparr>, p\<lparr>pm_db_index := Suc (pm_db_index p)\<rparr>)"

text \<open>The growth of a pair of bounds, where both being \<open>-1\<close> means that nothing is recorded.\<close>

definition grow_bounds :: "pmem_st \<Rightarrow> uword \<times> uword \<Rightarrow> uword \<times> uword" where
  "grow_bounds store b =
     (let store_max = st_addr store + st_size store;
          (lo, hi) = (if snd b = - 1 \<and> fst b = - 1 then (st_addr store, store_max) else b)
      in (if lo > st_addr store then st_addr store else lo, if hi < store_max then store_max else hi))"

definition update_pmem_stores_head_minandmax :: "pmem_st \<Rightarrow> pmem_ops \<Rightarrow> pmem_ops" where
  "update_pmem_stores_head_minandmax store p =
     (let (lo, hi) = grow_bounds store (sn_min_add (current p), sn_max_add (current p))
      in set_snippet (pm_snippet_index p) ((current p)\<lparr>sn_min_add := lo, sn_max_add := hi\<rparr>) p)"

definition update_Oset_pmem_stores_minandmax :: "pmem_st \<Rightarrow> pmem_ops \<Rightarrow> pmem_ops" where
  "update_Oset_pmem_stores_minandmax store p =
     (let (lo, hi) = grow_bounds store (pm_min_store p, pm_max_store p)
      in p\<lparr>pm_min_store := lo, pm_max_store := hi\<rparr>)"

definition cmp_with_arr_minandmax :: "pmem_st \<Rightarrow> nat \<Rightarrow> pmem_ops \<Rightarrow> int" where
  "cmp_with_arr_minandmax p_st index p =
     (let p_st_max = st_addr p_st + st_size p_st; a = pm_snippet p index in
      if st_addr p_st > sn_max_add a \<or> p_st_max < sn_min_add a then - 1
      else if sn_min_add a \<le> st_addr p_st \<and> p_st_max \<le> sn_max_add a then 1
      else 0)"

section \<open>Persistent memory accesses\<close>

definition is_pmem_access :: "uword \<Rightarrow> uword \<Rightarrow> pmem_ops \<Rightarrow> bool" where
  "is_pmem_access addr sze p =
     (if addr > pm_max_map p \<or> addr + sze < pm_min_map p then False
      else OSetGen_Contains (pm_mappings p) (mk_region addr sze))"

section \<open>Stack traces\<close>

fun is_prefix :: "'a list \<Rightarrow> 'a list \<Rightarrow> bool" where
  "is_prefix [] ys = True"
| "is_prefix (x # xs) [] = False"
| "is_prefix (x # xs) (y # ys) = (x = y \<and> is_prefix xs ys)"

fun has_substring :: "'a list \<Rightarrow> 'a list \<Rightarrow> bool" where
  "has_substring ys [] = is_prefix ys []"
| "has_substring ys (x # xs) = (is_prefix ys (x # xs) \<or> has_substring ys xs)"

definition is_ip_memset_memcpy :: "env \<Rightarrow> uword \<Rightarrow> bool" where
  "is_ip_memset_memcpy en ip =
     (case en_describe en ip of [] \<Rightarrow> False
      | buf # _ \<Rightarrow> has_substring ''memcpy'' buf \<or> has_substring ''memset'' buf)"

definition cmp_exe_context :: "env \<Rightarrow> exe_context \<Rightarrow> exe_context \<Rightarrow> bool res" where
  "cmp_exe_context en lhs rhs =
     (case (lhs, rhs) of
        (Some ips1, Some ips2) \<Rightarrow>
          if ips1 = ips2 then Inr True
          else rassert ''n_ips1 >= 1 && n_ips2 >= 1'' (ips1 \<noteq> [] \<and> ips2 \<noteq> [])
            (if length ips1 \<noteq> length ips2 then Inr False
             else if hd ips1 = hd ips2 \<or> (is_ip_memset_memcpy en (hd ips1) \<and> is_ip_memset_memcpy en (hd ips2))
             then Inr (tl ips1 = tl ips2)
             else Inr (ips1 = ips2))
      | _ \<Rightarrow> Inr False)"

definition is_store_mergeable :: "env \<Rightarrow> pmem_st \<Rightarrow> pmem_st \<Rightarrow> bool res" where
  "is_store_mergeable en lhs rhs =
     (if st_state lhs = st_state rhs then cmp_exe_context en (st_context lhs) (st_context rhs)
      else Inr False)"

definition merge_stores :: "pmem_st \<Rightarrow> pmem_st \<Rightarrow> pmem_st" where
  "merge_stores to_merge to_be_merged =
     (let max_addr = max (st_addr to_merge + st_size to_merge) (st_addr to_be_merged + st_size to_be_merged);
          lo_addr = min (st_addr to_merge) (st_addr to_be_merged)
      in to_merge\<lparr>st_addr := lo_addr, st_size := max_addr - lo_addr\<rparr>)"

text \<open>\<open>print_store_ip_desc\<close> and \<open>pp_store_trace\<close>: the frames of a store in the log.  A store whose
  context was never recorded has no trace to read.\<close>

definition print_store_ip_desc :: "env \<Rightarrow> uword \<Rightarrow> out list" where
  "print_store_ip_desc en ip = Emit '';'' [] # map Text (en_describe en ip)"

definition pp_store_trace :: "env \<Rightarrow> pmem_st \<Rightarrow> nat \<Rightarrow> out list res" where
  "pp_store_trace en store depth =
     (case st_context store of None \<Rightarrow> Inl (NullDeref ''pp_store_trace'')
      | Some ips \<Rightarrow>
          (let n_ips = (if depth = 0 then length ips else depth) in
           rassert ''n_ips > 0'' (n_ips > 0)
             (if n_ips > length ips then Inl (OutOfBounds ''pp_store_trace'')
              else Inr ((if en_xml en then [Text ''<stack>''] else []) @
                     concat (map (print_store_ip_desc en) (take n_ips ips)) @
                     (if en_xml en then [Text ''</stack>''] else [])))))"

section \<open>Reports on the event registers\<close>

fun store_state_to_string :: "store_state \<Rightarrow> string" where
  "store_state_to_string STST_CLEAN = ''CLEAN''"
| "store_state_to_string STST_DIRTY = ''DIRTY''"
| "store_state_to_string STST_FLUSHED = ''FLUSHED''"

definition print_store_line :: "pmem_st \<Rightarrow> out list" where
  "print_store_line s = [Umsg ''Address: 0x%lx size: %llu state:'' [st_addr s, st_size s],
     Text (store_state_to_string (st_state s))]"

definition print_numbered :: "pmem_ops \<Rightarrow> (pmem_st \<Rightarrow> out list) \<Rightarrow> pmem_st list \<Rightarrow> out list" where
  "print_numbered p line evs =
     concat (map (\<lambda>(i, s). [Umsg ''[%d] '' [of_nat i]] @ pp_context p (st_context s) @ line s)
       (enumerate 0 evs))"

definition print_redundant_fences :: "pmem_ops \<Rightarrow> out list" where
  "print_redundant_fences p =
     (let evs = pm_redundant_fence p in
      if evs = [] then []
      else Umsg ''Number of redundantly fence: %lu'' [of_nat (length evs)] #
           concat (map (\<lambda>(i, c). [Umsg ''[%d] '' [of_nat i]] @ pp_context p c) (enumerate 0 evs)))"

definition print_redundant_flushes :: "pmem_ops \<Rightarrow> out list" where
  "print_redundant_flushes p =
     [Umsg ''Number of redundantly flushed stores: %lu'' [of_nat (length (pm_redundant_flushes p))],
      Umsg ''Stores flushed multiple times:'' []] @
     print_numbered p print_store_line (pm_redundant_flushes p)"

definition print_superfluous_flushes :: "pmem_ops \<Rightarrow> out list" where
  "print_superfluous_flushes p =
     [Umsg ''Number of unnecessary flushes: %lu'' [of_nat (length (pm_superfluous_flushes p))]] @
     print_numbered p (\<lambda>s. [Umsg ''Address: 0x%lx size: %llu'' [st_addr s, st_size s]])
       (pm_superfluous_flushes p)"

definition print_multiple_stores :: "pmem_ops \<Rightarrow> out list" where
  "print_multiple_stores p =
     [Umsg ''Number of overwritten stores: %lu'' [of_nat (length (pm_multiple_stores p))],
      Umsg ''Overwritten stores before they were made persistent:'' []] @
     print_numbered p print_store_line (pm_multiple_stores p)"

definition print_max_poss_overwrites_error :: "pmem_ops \<Rightarrow> nat \<Rightarrow> out list" where
  "print_max_poss_overwrites_error p limit =
     [Umsg ''The number of overwritten stores exceeded %lu'' [of_nat limit],
      Umsg ''This either means there is something fundamentally wrong with your program, or you are using your persistent memory as volatile memory.'' []] @
     print_multiple_stores p"

definition print_superfluous_flush_error :: "pmem_ops \<Rightarrow> nat \<Rightarrow> out list" where
  "print_superfluous_flush_error p limit =
     [Umsg ''The number of superfluous flushes exceeded %lu'' [of_nat limit],
      Umsg ''This means your program is constantly flushing regions of memory, where no stores were made. This is a performance issue.'' []] @
     print_superfluous_flushes p"

definition print_redundant_flush_error :: "pmem_ops \<Rightarrow> nat \<Rightarrow> out list" where
  "print_redundant_flush_error p limit =
     [Umsg ''The number of redundant flushes exceeded %lu'' [of_nat limit],
      Umsg ''This means your program is constantly flushing regions of memory, which have already been flushed. This is a performance issue.'' []] @
     print_redundant_flushes p"

end
