(* ===== verification/PMC_Store.thy ===== *)
theory PMC_Store
  imports PMC_State
begin

text \<open>
  Stores (\<open>pmdebugger/pmc_main.c\<close>): splitting and merging of overlapping stores, the detection of
  overwritten stores, and \<open>trace_pmem_store\<close>, the handler of every store of the client program.
\<close>

section \<open>Splitting two overlapping stores\<close>

datatype split_clb = Free_Clb | Add_Mult_Overwrite_Warn

text \<open>\<open>free_clb\<close> is only called with \<open>preallocated = False\<close> and does nothing then.
  \<open>add_mult_overwrite_warn\<close> registers a copy of the store.\<close>

definition add_mult_overwrite_warn :: "pmem_st \<Rightarrow> pmem_ops \<Rightarrow> pmem_ops res" where
  "add_mult_overwrite_warn store p =
     (let (new, p1) = alloc_store p in
      rbind (add_warning_event (print_max_poss_overwrites_error p1) MAX_MULT_OVERWRITES
               (pmem_st_copy new store) (pm_multiple_stores p1)) (\<lambda>evs.
        Inr (p1\<lparr>pm_multiple_stores := evs\<rparr>)))"

definition run_clb :: "split_clb \<Rightarrow> pmem_st \<Rightarrow> pmem_ops \<Rightarrow> pmem_ops res" where
  "run_clb clb store p =
     (case clb of Free_Clb \<Rightarrow> Inr p | Add_Mult_Overwrite_Warn \<Rightarrow> add_mult_overwrite_warn store p)"

text \<open>The callback on a node that was freed just before: the warning copies the freed node.\<close>

definition run_clb_freed :: "split_clb \<Rightarrow> pmem_ops \<Rightarrow> pmem_ops res" where
  "run_clb_freed clb p =
     (case clb of Free_Clb \<Rightarrow> Inr p
      | Add_Mult_Overwrite_Warn \<Rightarrow> Inl (UseAfterFree ''add_mult_overwrite_warn''))"

text \<open>The mask \<open>(1 << (size * 8 + 1)) - 1\<close> is computed in \<open>int\<close>: the shift count is taken modulo 32 and
  the result is sign-extended, as the amd64 compilers do; the C standard leaves larger counts
  open.\<close>

definition value_mask :: "uword \<Rightarrow> uword" where
  "value_mask n = scast (push_bit (unat (n * 8 + 1) mod 32) (1 :: 32 word) - 1)"

definition shift_right :: "uword \<Rightarrow> uword \<Rightarrow> uword" where
  "shift_right v n = drop_bit (unat n mod 64) v"

definition mask_value :: "pmem_st \<Rightarrow> pmem_st" where
  "mask_value s = s\<lparr>st_value := and (st_value s) (value_mask (st_size s))\<rparr>"

text \<open>\<open>split_stores\<close> returns the new value of \<open>*old\<close>, the set and the state.  For a member of the set
  (\<open>is_arr\<close> false) the change of \<open>*old\<close> is also made in the set.\<close>

definition put_old :: "bool \<Rightarrow> pmem_st \<Rightarrow> pmem_st \<Rightarrow> region_set \<Rightarrow> region_set" where
  "put_old is_arr old old' ss = (if is_arr then ss else os_write old old' ss)"

definition split_stores ::
    "split_clb \<Rightarrow> bool \<Rightarrow> pmem_st \<Rightarrow> pmem_st \<Rightarrow> region_set \<times> pmem_ops \<Rightarrow> (pmem_st \<times> region_set \<times> pmem_ops) res" where
  "split_stores clb is_arr old new sp =
     (let (ss, p) = sp;
          new_max = st_addr new + st_size new;
          old_max = st_addr old + st_size old
      in if st_addr old \<ge> st_addr new \<and> old_max \<le> new_max then
           (if is_arr then
              (let old' = old\<lparr>st_is_delete := True\<rparr>
               in rbind (run_clb clb old' p) (\<lambda>p'. Inr (old', ss, p')))
            else
              rbind (OSetGen_Remove old ss) (\<lambda>(n, set1).
                rbind (OSetGen_FreeNode old set1) (\<lambda>set2.
                  rbind (OSetGen_ResetIterAt old set2) (\<lambda>set3.
                    rbind (run_clb_freed clb p) (\<lambda>p'. Inr (old, set3, p'))))))
         else if st_addr old < st_addr new then
           (let old' = old\<lparr>st_value := shift_right (st_value old) (old_max - st_addr new),
                           st_size := st_addr new - st_addr old\<rparr>
            in if old_max > new_max then
                 (let (nd, p1) = alloc_store p;
                      after = mask_value ((pmem_st_copy nd old)\<lparr>st_addr := new_max, st_size := old_max - new_max\<rparr>)
                  in rbind (OSetGen_Insert after (put_old is_arr old old' ss)) (\<lambda>set1.
                       rbind (OSetGen_ResetIterAt old' set1) (\<lambda>set2.
                         rbind (run_clb clb (new\<lparr>st_context := st_context old\<rparr>) p1) (\<lambda>p2.
                           Inr (old', set2, p2)))))
               else
                 rbind (run_clb clb (old\<lparr>st_addr := st_addr new, st_size := old_max - st_addr new\<rparr>) p) (\<lambda>p'.
                   Inr (old', put_old is_arr old old' ss, p')))
         else if old_max > new_max then
           (let old' = mask_value (old\<lparr>st_addr := new_max, st_size := old_max - new_max\<rparr>)
            in rbind (run_clb clb (old\<lparr>st_size := st_size old - (old_max - new_max)\<rparr>) p) (\<lambda>p'.
                 Inr (old', put_old is_arr old old' ss, p')))
         else Inl (AssertFail ''split_stores''))"

section \<open>Merging stores in a set ordered by address\<close>

text \<open>The first loop of \<open>add_and_merge_store\<close>.  A turn leaves one overlapping entry less, so one turn per
  entry and a last one are enough.\<close>

fun cut_overlaps :: "nat \<Rightarrow> pmem_st \<Rightarrow> region_set \<times> pmem_ops \<Rightarrow> (region_set \<times> pmem_ops) res" where
  "cut_overlaps 0 region sp = Inl (Diverge ''add_and_merge_store'')"
| "cut_overlaps (Suc f) region sp =
     (case OSetGen_Lookup (fst sp) region of
        None \<Rightarrow> Inr sp
      | Some old_entry \<Rightarrow>
          rbind (split_stores Free_Clb False old_entry region sp) (\<lambda>(o', set', p').
            cut_overlaps f region (set', p')))"

text \<open>One turn of the second loop, for one neighbour.\<close>

definition merge_neighbour :: "env \<Rightarrow> pmem_st \<Rightarrow> pmem_st \<times> region_set \<Rightarrow> (pmem_st \<times> region_set) res" where
  "merge_neighbour en search_entry rs =
     (let (region, ss) = rs in
      case OSetGen_Lookup ss search_entry of
        None \<Rightarrow> Inr rs
      | Some old_entry \<Rightarrow>
          rbind (is_store_mergeable en region old_entry) (\<lambda>b.
            if \<not> b then Inr rs
            else rbind (OSetGen_Remove search_entry ss) (\<lambda>(n, set1).
              case n of None \<Rightarrow> Inl (NullDeref ''add_and_merge_store'')
              | Some old \<Rightarrow> rbind (OSetGen_FreeNode old set1) (\<lambda>set2.
                  Inr (merge_stores region old_entry, set2)))))"

definition merge_region ::
    "env \<Rightarrow> pmem_st \<Rightarrow> region_set \<times> pmem_ops \<Rightarrow> (pmem_st \<times> region_set \<times> pmem_ops) res" where
  "merge_region en region sp =
     rbind (cut_overlaps (Suc (OSetGen_Size (fst sp))) region sp) (\<lambda>(set1, p1).
       (let ahead = region\<lparr>st_addr := st_addr region - 1\<rparr>;
            behind = ahead\<lparr>st_addr := st_addr ahead + 2\<rparr>
        in rbind (merge_neighbour en ahead (region, set1)) (\<lambda>rs.
             rbind (merge_neighbour en behind rs) (\<lambda>(region', set2). Inr (region', set2, p1)))))"

text \<open>\<open>merge_stores\<close> changes the region in place, and the callers go on to use it: both functions
  return the changed region.\<close>

definition add_and_merge_store :: "env \<Rightarrow> pmem_st \<Rightarrow> pmem_ops \<Rightarrow> (pmem_st \<times> pmem_ops) res" where
  "add_and_merge_store en region p =
     rbind (merge_region en region (pm_stores p, p)) (\<lambda>(region', set', p').
       rbind (OSetGen_Insert region' set') (\<lambda>set''. Inr (region', p'\<lparr>pm_stores := set''\<rparr>)))"

definition db_add_and_merge_store :: "env \<Rightarrow> pmem_st \<Rightarrow> pmem_ops \<Rightarrow> (pmem_st \<times> pmem_ops) res" where
  "db_add_and_merge_store en region p =
     (case pm_merge p of None \<Rightarrow> Inl (NullDeref ''db_add_and_merge_store'')
      | Some ss \<Rightarrow>
          rbind (merge_region en region (ss, p)) (\<lambda>(region', set', p').
            (let (nd, p'') = alloc_store p'
             in rbind (OSetGen_Insert (pmem_st_copy nd region') set') (\<lambda>set''.
                  Inr (region', p''\<lparr>pm_merge := Some set''\<rparr>)))))"

text \<open>Insertion of a store that does not fit into the array any more.\<close>

definition insert_store :: "env \<Rightarrow> pmem_st \<Rightarrow> pmem_ops \<Rightarrow> (pmem_st \<times> pmem_ops) res" where
  "insert_store en store p =
     (if tree_mode p then add_and_merge_store en store p
      else rbind (OSetGen_Insert store (pm_stores p)) (\<lambda>set'. Inr (store, p\<lparr>pm_stores := set'\<rparr>)))"

section \<open>Overwritten stores\<close>

definition same_store :: "pmem_st \<Rightarrow> pmem_st \<Rightarrow> pmem_ops \<Rightarrow> bool" where
  "same_store store existing p \<longleftrightarrow>
     st_block_num store - st_block_num existing < op_store_sb_indiff (pm_opts p) \<and>
     st_addr existing = st_addr store \<and> st_size existing = st_size store \<and>
     st_value existing = st_value store"

definition mult_array_entry :: "pmem_st \<Rightarrow> nat \<Rightarrow> pmem_ops \<Rightarrow> pmem_ops res" where
  "mult_array_entry store i p =
     (let existing = pm_array p i in
      if st_is_delete existing then Inr p
      else if cmp_pmem_st existing store = 0 then
        (if same_store store existing p then Inr (set_entry i (existing\<lparr>st_is_delete := True\<rparr>) p)
         else rbind (split_stores Add_Mult_Overwrite_Warn True existing store (pm_stores p, p))
                (\<lambda>(existing', set', p'). Inr (set_entry i existing' (p'\<lparr>pm_stores := set'\<rparr>))))
      else Inr p)"

definition mult_snippet :: "pmem_st \<Rightarrow> nat \<Rightarrow> pmem_ops \<Rightarrow> pmem_ops res" where
  "mult_snippet store s p =
     (if cmp_with_arr_minandmax store s p \<noteq> - 1
      then foldM (mult_array_entry store) [sn_start_index (pm_snippet p s) ..< sn_index (pm_snippet p s)] p
      else Inr p)"

definition mult_tree_entry :: "pmem_st \<Rightarrow> pmem_st \<Rightarrow> pmem_ops \<Rightarrow> pmem_ops res" where
  "mult_tree_entry store existing p =
     (if cmp_pmem_st existing store \<noteq> 0 then Inr p
      else if same_store store existing p then
        rbind (OSetGen_Remove store (pm_stores p)) (\<lambda>(n, set1).
          rbind (OSetGen_FreeNode existing set1) (\<lambda>set2.
            rbind (OSetGen_ResetIterAt store set2) (\<lambda>set3. Inr (p\<lparr>pm_stores := set3\<rparr>))))
      else rbind (split_stores Add_Mult_Overwrite_Warn False existing store (pm_stores p, p))
             (\<lambda>(o', set', p'). Inr (p'\<lparr>pm_stores := set'\<rparr>)))"

definition next_store :: "pmem_ops \<Rightarrow> (pmem_st option \<times> pmem_ops) res" where
  "next_store p = rbind (OSetGen_Next (pm_stores p)) (\<lambda>(e, s). Inr (e, p\<lparr>pm_stores := s\<rparr>))"

definition reset_stores :: "pmem_ops \<Rightarrow> pmem_ops" where
  "reset_stores p = p\<lparr>pm_stores := OSetGen_ResetIter (pm_stores p)\<rparr>"

definition handle_with_mult_stores :: "pmem_st \<Rightarrow> pmem_ops \<Rightarrow> pmem_ops res" where
  "handle_with_mult_stores store p =
     rbind (foldM (mult_snippet store) [0 ..< Suc (pm_snippet_index p)] p) (\<lambda>p1.
       if st_addr store > pm_max_store p1 \<or> st_addr store + st_size store < pm_min_store p1 then Inr p1
       else while_next (3 * OSetGen_Size (pm_stores p1) + 1) next_store (mult_tree_entry store)
              (reset_stores p1))"

section \<open>The store handler\<close>

definition mk_order :: "uword \<Rightarrow> uword \<Rightarrow> pmem_st_order" where
  "mk_order a n = \<lparr>od_index = 0, od_timestamp_begin = 0, od_timestamp_end = 0, od_context = None,
     od_addr = a, od_size = n\<rparr>"

text \<open>The time records of the order checks whose range the store overlaps start anew.\<close>

definition restart_record :: "pmem_st \<Rightarrow> pmem_ops \<Rightarrow> pmem_st_order \<Rightarrow> time_set \<Rightarrow> time_set res" where
  "restart_record store p rec ss =
     Inr (if cmp_pmem_st_order (mk_order (st_addr store) (st_size store)) rec = 0
          then os_write rec (rec\<lparr>od_timestamp_begin := pm_global_time_stamp p, od_timestamp_end := - 1,
                  od_context := (if show_traces p then st_context store else od_context rec)\<rparr>) ss
          else ss)"

definition restart_records :: "pmem_st \<Rightarrow> pmem_ops \<Rightarrow> pmem_ops res" where
  "restart_records store p =
     (if \<not> op_order_guarantee (pm_opts p) then Inr p
      else (case pm_time_records p of None \<Rightarrow> Inl (AssertFail ''OSetGen_ResetIter'')
            | Some recs \<Rightarrow>
                rbind (os_iter recs) (\<lambda>rs.
                  rbind (foldM (restart_record store p) rs recs) (\<lambda>recs'.
                    Inr (p\<lparr>pm_time_records := Some recs'\<rparr>)))))"

text \<open>The fields that \<open>trace_pmem_store\<close> writes; \<open>inEpoch\<close> is set inside an epoch and otherwise left as
  it is.\<close>

definition fill_store :: "env \<Rightarrow> uword \<Rightarrow> uword \<Rightarrow> uword \<Rightarrow> pmem_ops \<Rightarrow> pmem_st \<Rightarrow> pmem_st" where
  "fill_store en addr sze val p s =
     s\<lparr>st_inEpoch := (if pm_epoch p then True else st_inEpoch s), st_addr := addr, st_size := sze,
       st_state := STST_DIRTY, st_block_num := pm_sblocks p, st_value := val, st_is_delete := False,
       st_context := (if show_traces p then en_context en else st_context s)\<rparr>"

definition log_store :: "env \<Rightarrow> pmem_st \<Rightarrow> pmem_ops \<Rightarrow> pmem_ops res" where
  "log_store en store p =
     (if \<not> op_log_stores (pm_opts p) then Inr p
      else (let p1 = log_out [Emit ''|STORE;0x%lx;0x%lx;0x%lx'' [st_addr store, st_value store, st_size store]] p
            in if op_store_traces (pm_opts p)
               then rbind (pp_store_trace en store (op_store_traces_depth (pm_opts p))) (\<lambda>ms. Inr (log_out ms p1))
               else Inr p1))"

text \<open>\<open>track_store\<close> is \<open>trace_pmem_store\<close> up to the call of \<open>handle_tx_store\<close>; it also returns the store.\<close>

definition track_store :: "env \<Rightarrow> uword \<Rightarrow> uword \<Rightarrow> uword \<Rightarrow> pmem_ops \<Rightarrow> (pmem_st \<times> pmem_ops) res" where
  "track_store en addr sze val p =
     (let old_index = sn_index (current p);
          in_array = (old_index < MAX_ARRAY_NUM);
          (s0, p0) = (if in_array then (pm_array p old_index, p) else alloc_store p);
          store = fill_store en addr sze val p s0;
          p1 = (if in_array then set_entry old_index store p0 else p0)
      in rbind (log_store en store p1) (\<lambda>p2.
         rbind (if op_track_multiple_stores (pm_opts p2) then handle_with_mult_stores store p2 else Inr p2) (\<lambda>p3.
         rbind (restart_records store p3) (\<lambda>p4.
         (if in_array
                then Inr (store, update_pmem_stores_head_minandmax store
                       (set_snippet (pm_snippet_index p4) ((current p4)\<lparr>sn_index := Suc (sn_index (current p4))\<rparr>) p4))
                else rbind (insert_store en store p4) (\<lambda>(store', p5).
                       Inr (store', update_Oset_pmem_stores_minandmax store' p5)))))))"

definition trace_pmem_store ::
    "env \<Rightarrow> uword \<Rightarrow> uword \<Rightarrow> uword \<Rightarrow> pmem_ops \<times> transaction_ops \<Rightarrow> (pmem_ops \<times> transaction_ops) res" where
  "trace_pmem_store en addr sze val s =
     (let (p, t) = s in
      if \<not> is_pmem_access addr sze p then Inr s
      else rbind (track_store en addr sze val p) (\<lambda>(store, p').
             rbind (handle_tx_store en store t) (\<lambda>t'. Inr (p', t'))))"

definition add_one_SB_entered :: "pmem_ops \<Rightarrow> pmem_ops" where
  "add_one_SB_entered p = p\<lparr>pm_sblocks := pm_sblocks p + 1\<rparr>"

end
