(* ===== verification/PMC_Flush.thy ===== *)
theory PMC_Flush
  imports PMC_Store
begin

text \<open>
  \<open>do_flush\<close> of \<open>pmdebugger/pmc_main.c\<close>: the stores that the flushed range overlaps become flushed,
  and those that it cuts are split; flushes of what is flushed already and of ranges without a store are
  registered.
\<close>

section \<open>Flush: the array\<close>

definition flush_range :: "uword \<Rightarrow> uword \<Rightarrow> pmem_ops \<Rightarrow> pmem_st" where
  "flush_range base sze p =
     (let al = op_flush_align_size (pm_opts p) in
      if \<not> op_force_flush_align (pm_opts p) then mk_region base sze
      else mk_region (and base (not (al - 1))) (((sze + (al - 1)) div al) * al))"

text \<open>The place for a new entry: the next slot of the array, or a new node of the tree.\<close>

definition new_slot :: "pmem_ops \<Rightarrow> nat option \<times> pmem_st \<times> pmem_ops" where
  "new_slot p =
     (let k = sn_index (current p) in
      if k < MAX_ARRAY_NUM
      then (Some k, pm_array p k, set_snippet (pm_snippet_index p) ((current p)\<lparr>sn_index := Suc k\<rparr>) p)
      else (let (nd, p1) = alloc_store p in (None, nd, p1)))"

definition put_slot :: "env \<Rightarrow> nat option \<Rightarrow> pmem_st \<Rightarrow> pmem_ops \<Rightarrow> pmem_ops res" where
  "put_slot en loc split p =
     (case loc of Some k \<Rightarrow> Inr (set_entry k split p)
      | None \<Rightarrow> rbind (insert_store en split p) (\<lambda>(s', p'). Inr p'))"

definition add_redundant_flush :: "pmem_st \<Rightarrow> pmem_ops \<Rightarrow> pmem_ops res" where
  "add_redundant_flush being_flushed p =
     (if op_check_flush (pm_opts p)
      then rbind (add_warning_event (print_redundant_flush_error p) MAX_FLUSH_ERROR_EVENTS
                    (being_flushed\<lparr>st_state := STST_FLUSHED\<rparr>) (pm_redundant_flushes p)) (\<lambda>evs.
             Inr (p\<lparr>pm_redundant_flushes := evs\<rparr>))
      else Inr p)"

text \<open>The part of entry \<open>i\<close> before the flushed range, and the part behind it, become new dirty entries.\<close>

definition split_before :: "env \<Rightarrow> pmem_st \<Rightarrow> nat \<Rightarrow> pmem_ops \<Rightarrow> pmem_ops res" where
  "split_before en fi i p =
     (let e = pm_array p i in
      if st_addr e < st_addr fi then
        (let (loc, nd, p1) = new_slot p;
             split = (pmem_st_copy nd e)\<lparr>st_size := st_addr fi - st_addr e, st_state := STST_DIRTY\<rparr>;
             e' = e\<lparr>st_addr := st_addr fi, st_size := st_size e - st_size split\<rparr>
         in put_slot en loc split (set_entry i e' p1))
      else Inr p)"

definition split_behind :: "env \<Rightarrow> pmem_st \<Rightarrow> nat \<Rightarrow> pmem_ops \<Rightarrow> pmem_ops res" where
  "split_behind en fi i p =
     (let e = pm_array p i; flush_max = st_addr fi + st_size fi in
      if st_addr e + st_size e > flush_max then
        (let (loc, nd, p1) = new_slot p;
             split = (pmem_st_copy nd e)\<lparr>st_addr := flush_max,
                       st_size := st_addr e + st_size e - flush_max, st_state := STST_DIRTY\<rparr>;
             e' = e\<lparr>st_size := st_size e - st_size split\<rparr>
         in put_slot en loc split (set_entry i e' p1))
      else Inr p)"

text \<open>One entry of the array; the flag is \<open>valid_flush\<close>.\<close>

definition flush_entry :: "env \<Rightarrow> pmem_st \<Rightarrow> nat \<Rightarrow> nat \<Rightarrow> pmem_ops \<times> bool \<Rightarrow> (pmem_ops \<times> bool) res" where
  "flush_entry en fi s i pv =
     (let (p, v) = pv; e = pm_array p i in
      if st_is_delete e then Inr (set_entry i (e\<lparr>st_state := STST_FLUSHED\<rparr>) p, v)
      else if cmp_pmem_st fi e \<noteq> 0 then Inr (p, v)
      else if sn_flushed_num (pm_snippet p s) = ALL_FLUSHED \<or> st_state e \<noteq> STST_DIRTY
      then rbind (add_redundant_flush e p) (\<lambda>p'. Inr (p', True))
      else
        (let p1 = set_snippet s ((pm_snippet p s)\<lparr>sn_flushed_num := PART_FLUSHED\<rparr>)
                    (set_entry i (e\<lparr>st_state := STST_FLUSHED\<rparr>) p)
         in rbind (split_before en fi i p1) (\<lambda>p2.
              rbind (split_behind en fi i p2) (\<lambda>p3. Inr (p3, True)))))"

text \<open>The loop over the entries of a snippet.  Its bound is read in every turn, because the splits may be
  added to the same snippet.  An entry adds at most two splits, which the flush does not overlap:
  three turns per entry and a last one are enough.\<close>

fun flush_entries :: "nat \<Rightarrow> env \<Rightarrow> pmem_st \<Rightarrow> nat \<Rightarrow> nat \<Rightarrow> pmem_ops \<times> bool \<Rightarrow> (pmem_ops \<times> bool) res" where
  "flush_entries 0 en fi s i pv = Inl (Diverge ''do_flush'')"
| "flush_entries (Suc f) en fi s i pv =
     (if i < sn_index (pm_snippet (fst pv) s)
      then rbind (flush_entry en fi s i pv) (flush_entries f en fi s (Suc i))
      else Inr pv)"

definition flush_snippet :: "env \<Rightarrow> pmem_st \<Rightarrow> nat \<Rightarrow> pmem_ops \<times> bool \<Rightarrow> (pmem_ops \<times> bool) res" where
  "flush_snippet en fi s pv =
     (let (p, v) = pv; a = pm_snippet p s; flush_max = st_addr fi + st_size fi in
      if flush_max \<ge> sn_max_add a \<and> sn_min_add a \<ge> st_addr fi \<and> sn_flushed_num a = NO_FLUSHED
      then Inr (set_snippet s (a\<lparr>sn_flushed_num := ALL_FLUSHED\<rparr>) p, True)
      else if flush_max < sn_min_add a \<or> sn_max_add a < st_addr fi then Inr pv
      else flush_entries (3 * (sn_index a - sn_start_index a) + 1) en fi s (sn_start_index a) pv)"

section \<open>Flush: the tree\<close>

definition next_flush :: "pmem_ops \<times> bool \<Rightarrow> (pmem_st option \<times> (pmem_ops \<times> bool)) res" where
  "next_flush pv = rbind (next_store (fst pv)) (\<lambda>(e, p). Inr (e, (p, snd pv)))"

text \<open>Each split puts the iterator back on the entry that was just marked.  The second split does
  not copy the entry.\<close>

definition tree_split_before :: "pmem_st \<Rightarrow> pmem_st \<times> pmem_ops \<Rightarrow> (pmem_st \<times> pmem_ops) res" where
  "tree_split_before fi ep =
     (let (e, p) = ep in
      if st_addr e < st_addr fi then
        (let (nd, p1) = alloc_store p;
             split = (pmem_st_copy nd e)\<lparr>st_size := st_addr fi - st_addr e, st_state := STST_DIRTY\<rparr>;
             e' = e\<lparr>st_addr := st_addr fi, st_size := st_size e - st_size split\<rparr>
         in rbind (OSetGen_Insert split (os_write e e' (pm_stores p1))) (\<lambda>s1.
              rbind (OSetGen_ResetIterAt e' s1) (\<lambda>s2. Inr (e', p1\<lparr>pm_stores := s2\<rparr>))))
      else Inr ep)"

definition tree_split_behind :: "pmem_st \<Rightarrow> pmem_st \<times> pmem_ops \<Rightarrow> (pmem_st \<times> pmem_ops) res" where
  "tree_split_behind fi ep =
     (let (e, p) = ep; flush_max = st_addr fi + st_size fi in
      if st_addr e + st_size e > flush_max then
        (let (nd, p1) = alloc_store p;
             split = nd\<lparr>st_addr := flush_max, st_size := st_addr e + st_size e - flush_max,
                        st_state := STST_DIRTY\<rparr>;
             e' = e\<lparr>st_size := st_size e - st_size split\<rparr>
         in rbind (OSetGen_Insert split (os_write e e' (pm_stores p1))) (\<lambda>s1.
              rbind (OSetGen_ResetIterAt e' s1) (\<lambda>s2. Inr (e', p1\<lparr>pm_stores := s2\<rparr>))))
      else Inr ep)"

definition flush_tree_entry :: "pmem_st \<Rightarrow> pmem_st \<Rightarrow> pmem_ops \<times> bool \<Rightarrow> (pmem_ops \<times> bool) res" where
  "flush_tree_entry fi e pv =
     (let (p, v) = pv in
      if cmp_pmem_st fi e \<noteq> 0 then Inr pv
      else if st_state e \<noteq> STST_DIRTY then rbind (add_redundant_flush e p) (\<lambda>p'. Inr (p', True))
      else
        (let e1 = e\<lparr>st_state := STST_FLUSHED\<rparr>;
             p1 = p\<lparr>pm_stores := os_write e e1 (pm_stores p)\<rparr>
         in rbind (tree_split_before fi (e1, p1)) (\<lambda>ep.
              rbind (tree_split_behind fi ep) (\<lambda>(e', p'). Inr (p', True)))))"

text \<open>An entry is visited at most twice and adds at most two others, which the flush does not overlap:
  four turns per entry and a last one are enough.\<close>

definition flush_tree :: "pmem_st \<Rightarrow> pmem_ops \<times> bool \<Rightarrow> (pmem_ops \<times> bool) res" where
  "flush_tree fi pv =
     (let (p, v) = pv in
      if st_addr fi > pm_max_store p \<or> st_addr fi + st_size fi < pm_min_store p then Inr pv
      else while_next (4 * OSetGen_Size (pm_stores p) + 1) next_flush (flush_tree_entry fi)
             (reset_stores p, v))"

section \<open>Flush\<close>

text \<open>The check of \<open>--lack-ordering-in-strand\<close>: a flush in a later strand that touches the second range of an
  order request.\<close>

definition strand_order_check :: "env \<Rightarrow> pmem_st \<Rightarrow> time_set \<Rightarrow> order_record \<Rightarrow> pmem_ops \<Rightarrow> pmem_ops res" where
  "strand_order_check en fi recs rec p =
     (case OSetGen_Lookup recs (or_b rec) of None \<Rightarrow> Inl (NullDeref ''do_flush'')
      | Some b \<Rightarrow>
          if cmp_pmem_st_order (mk_order (st_addr fi) (st_size fi)) b = 0
          then Inr (log_out ([Umsg ''Violating order guarantee because of multi-strands: '' []] @
                 pp_context p (en_context en) @
                 [Umsg ''flush Address: 0x%lx flush size: %lu'' [st_addr fi, st_size fi]])
                 (p\<lparr>pm_lack_ordering_reg := Suc (pm_lack_ordering_reg p)\<rparr>))
          else Inr p)"

definition check_strand_order :: "env \<Rightarrow> nat \<Rightarrow> pmem_st \<Rightarrow> pmem_ops \<Rightarrow> pmem_ops res" where
  "check_strand_order en strand_id fi p =
     (if op_lack_ordering_trand (pm_opts p) \<and> strand_id > 0
      then (case (pm_order_records p, pm_time_records p) of
              (Some os, Some recs) \<Rightarrow>
                rbind (os_iter os) (\<lambda>rs. foldM (strand_order_check en fi recs) rs p)
            | _ \<Rightarrow> Inl (AssertFail ''OSetGen_ResetIter''))
      else Inr p)"

definition add_superfluous_flush :: "env \<Rightarrow> pmem_st \<Rightarrow> pmem_ops \<Rightarrow> pmem_ops res" where
  "add_superfluous_flush en fi p =
     rbind (add_warning_event (print_superfluous_flush_error p) MAX_FLUSH_ERROR_EVENTS
              (fi\<lparr>st_context := en_context en\<rparr>) (pm_superfluous_flushes p)) (\<lambda>evs.
       Inr (p\<lparr>pm_superfluous_flushes := evs\<rparr>))"

definition do_flush :: "env \<Rightarrow> nat \<Rightarrow> uword \<Rightarrow> uword \<Rightarrow> pmem_ops \<Rightarrow> pmem_ops res" where
  "do_flush en strand_id base sze p =
     (let fi = flush_range base sze p;
          p0 = (if op_log_stores (pm_opts p)
                then log_out [Emit ''|FLUSH;0x%lx;0x%llx'' [st_addr fi, st_size fi]] p else p)
      in rbind (check_strand_order en strand_id fi p0) (\<lambda>p1.
         rbind (foldM (flush_snippet en fi) [0 ..< Suc (pm_snippet_index p1)] (p1, False)) (\<lambda>pv.
         rbind (flush_tree fi pv) (\<lambda>(p2, v).
         rbind (if \<not> v \<and> op_check_flush (pm_opts p2) then add_superfluous_flush en fi p2 else Inr p2) (\<lambda>p3.
           if sn_flushed_num (current p3) \<noteq> NO_FLUSHED then init_snippet_info p3 else Inr p3)))))"

definition trace_pmem_flush :: "env \<Rightarrow> nat \<Rightarrow> uword \<Rightarrow> pmem_ops \<Rightarrow> pmem_ops res" where
  "trace_pmem_flush en strand_id addr p = do_flush en strand_id addr (op_flush_align_size (pm_opts p)) p"

end
