(* ===== verification/PMC_Fence.thy ===== *)
theory PMC_Fence
  imports PMC_Flush
begin

text \<open>
  \<open>do_fence\<close>, the epoch operations and \<open>check_pmem_order\<close> of \<open>pmdebugger/pmc_main.c\<close>.
\<close>

section \<open>Fence: time records\<close>

text \<open>A record of the order checks gets its end time when a flushed store touches its range.  For a
  snippet that is flushed as a whole the bounds of the snippet decide.  The range tests are not
  strict: neighbours count as touching, except in the tree.\<close>

definition touches :: "uword \<Rightarrow> uword \<Rightarrow> uword \<Rightarrow> uword \<Rightarrow> bool" where
  "touches min_order max_order lo hi \<longleftrightarrow> \<not> (min_order > hi \<or> max_order < lo)"

definition snippet_persists :: "pmem_ops \<Rightarrow> uword \<Rightarrow> uword \<Rightarrow> nat \<Rightarrow> bool" where
  "snippet_persists p min_order max_order s =
     (let a = pm_snippet p s in
      if sn_flushed_num a = ALL_FLUSHED then touches min_order max_order (sn_min_add a) (sn_max_add a)
      else if sn_flushed_num a = PART_FLUSHED \<and> touches min_order max_order (sn_min_add a) (sn_max_add a)
      then list_ex (\<lambda>i. let e = pm_array p i in st_state e = STST_FLUSHED \<and>
             touches min_order max_order (st_addr e) (st_addr e + st_size e)) [sn_start_index a ..< sn_index a]
      else False)"

definition record_persists :: "pmem_ops \<Rightarrow> pmem_st list \<Rightarrow> pmem_st_order \<Rightarrow> bool" where
  "record_persists p tree rec =
     (list_ex (snippet_persists p (od_addr rec) (od_addr rec + od_size rec)) [0 ..< Suc (pm_snippet_index p)] \<or>
      list_ex (\<lambda>e. cmp_pmem_st e (mk_region (od_addr rec) (od_size rec)) = 0 \<and> st_state e = STST_FLUSHED) tree)"

definition stamp_record :: "pmem_ops \<Rightarrow> pmem_st list \<Rightarrow> pmem_st_order \<Rightarrow> time_set \<Rightarrow> time_set res" where
  "stamp_record p tree rec s =
     Inr (if record_persists p tree rec
          then os_write rec (rec\<lparr>od_timestamp_end := pm_global_time_stamp p\<rparr>) s else s)"

definition stamp_records :: "pmem_ops \<Rightarrow> pmem_ops res" where
  "stamp_records p =
     (if \<not> op_order_guarantee (pm_opts p) then Inr p
      else (case pm_time_records p of None \<Rightarrow> Inl (AssertFail ''OSetGen_ResetIter'')
            | Some recs \<Rightarrow>
                rbind (os_iter recs) (\<lambda>rs.
                  rbind (os_iter (pm_stores p)) (\<lambda>tree.
                    rbind (foldM (stamp_record p tree) rs recs) (\<lambda>recs'.
                      Inr (p\<lparr>pm_time_records := Some recs'\<rparr>))))))"

section \<open>Fence: the tree and the array\<close>

text \<open>A flushed entry of the tree is dropped, the others make up the new bounds.\<close>

definition fence_tree_entry :: "pmem_st \<Rightarrow> pmem_ops \<Rightarrow> pmem_ops res" where
  "fence_tree_entry e p =
     (if st_state e = STST_FLUSHED
      then rbind (OSetGen_Remove e (pm_stores p)) (\<lambda>(n, s1).
             rbind (OSetGen_FreeNode e s1) (\<lambda>s2.
               rbind (OSetGen_ResetIterAt e s2) (\<lambda>s3. Inr (p\<lparr>pm_stores := s3\<rparr>))))
      else Inr (update_Oset_pmem_stores_minandmax e p))"

definition fence_tree :: "pmem_ops \<Rightarrow> pmem_ops res" where
  "fence_tree p =
     while_next (Suc (OSetGen_Size (pm_stores p))) next_store fence_tree_entry
       (reset_stores (p\<lparr>pm_min_store := - 1, pm_max_store := - 1\<rparr>))"

text \<open>An entry of the array that is neither flushed nor deleted moves to the tree.\<close>

definition fence_entry :: "env \<Rightarrow> nat \<Rightarrow> pmem_ops \<Rightarrow> pmem_ops res" where
  "fence_entry en i p =
     (let e = pm_array p i in
      if st_state e = STST_FLUSHED \<or> st_is_delete e then Inr p
      else (let (nd, p1) = alloc_store p
            in rbind (insert_store en (pmem_st_copy nd e) p1) (\<lambda>(new, p2).
                 Inr (update_Oset_pmem_stores_minandmax new p2))))"

definition fence_snippet :: "env \<Rightarrow> nat \<Rightarrow> pmem_ops \<Rightarrow> pmem_ops res" where
  "fence_snippet en s p =
     (let a = pm_snippet p s in
      if sn_flushed_num a = ALL_FLUSHED then Inr p
      else foldM (fence_entry en) [sn_start_index a ..< sn_index a] p)"

definition reset_array :: "pmem_ops \<Rightarrow> pmem_ops" where
  "reset_array p = set_snippet 0 (empty_snippet 0) (p\<lparr>pm_snippet_index := 0\<rparr>)"

definition do_fence :: "env \<Rightarrow> pmem_ops \<Rightarrow> pmem_ops res" where
  "do_fence en p =
     (let p0 = (if op_log_stores (pm_opts p) then log_out [Emit ''|FENCE'' []] p else p)
      in rbind (stamp_records p0) (\<lambda>p1.
         rbind (fence_tree p1) (\<lambda>p2.
         rbind (foldM (fence_snippet en) [0 ..< Suc (pm_snippet_index p2)] p2) (\<lambda>p3.
           (let p4 = reset_array p3 in
            Inr (if op_order_guarantee (pm_opts p4)
                 then p4\<lparr>pm_global_time_stamp := pm_global_time_stamp p4 + 1\<rparr> else p4))))))"

section \<open>Order of persistence\<close>

definition check_order_record :: "time_set \<Rightarrow> order_record \<Rightarrow> pmem_ops \<Rightarrow> pmem_ops res" where
  "check_order_record recs rec p =
     (case (OSetGen_Lookup recs (or_a rec), OSetGen_Lookup recs (or_b rec)) of
        (Some a, Some b) \<Rightarrow>
          if od_timestamp_end a < od_timestamp_begin b then Inr p
          else Inr (log_out ([Umsg ''Not order guarantee: '' []] @
                 (if show_traces p then [PpExe (od_context a), PpExe (od_context b)] else []) @
                 [Umsg ''First Address: 0x%lx First size: %lu Second Address: 0x%lx Second size: %lu''
                    [od_addr a, od_size a, od_addr b, od_size b]])
                 (p\<lparr>pm_order_guarantee_reg := Suc (pm_order_guarantee_reg p)\<rparr>))
      | _ \<Rightarrow> Inl (NullDeref ''check_pmem_order''))"

definition check_pmem_order :: "pmem_ops \<Rightarrow> pmem_ops res" where
  "check_pmem_order p =
     (case (pm_order_records p, pm_time_records p) of
        (Some os, Some recs) \<Rightarrow> rbind (os_iter os) (\<lambda>rs. foldM (check_order_record recs) rs p)
      | _ \<Rightarrow> Inl (AssertFail ''OSetGen_ResetIter''))"

section \<open>Epochs\<close>

text \<open>The register of redundant fences is an array of \<open>MAX_REDUNDANT_FENCE\<close> pointers, but the guard looks
  at the fences of the current epoch only.\<close>

definition mark_epoch_fence :: "env \<Rightarrow> pmem_ops \<Rightarrow> pmem_ops res" where
  "mark_epoch_fence en p =
     (if pm_epoch p then
        (let p1 = p\<lparr>pm_epoch_fence := Suc (pm_epoch_fence p)\<rparr> in
         if pm_epoch_fence p1 > MAX_REDUNDANT_FENCE - 1
         then Inr (log_out [Umsg ''exceed the capacity of MAX_REDUNDANT_FENCE'' []] p1)
         else if pm_epoch_fence p1 > 1 then
           (if MAX_REDUNDANT_FENCE \<le> length (pm_redundant_fence p1)
            then Inl (OutOfBounds ''redundant_fence'')
            else Inr (p1\<lparr>pm_redundant_fence := pm_redundant_fence p1 @ [en_context en]\<rparr>))
         else Inr p1)
      else Inr p)"

definition epoch_begin :: "pmem_ops \<Rightarrow> pmem_ops" where
  "epoch_begin p = p\<lparr>pm_epoch := True\<rparr>"

definition report_epoch :: "pmem_st \<Rightarrow> pmem_ops \<Rightarrow> pmem_ops" where
  "report_epoch e p =
     log_out ([Umsg ''Not persistent memory even if the epoch ends: '' []] @ pp_context p (st_context e) @
       print_store_line e) (p\<lparr>pm_epoch_durability_reg := Suc (pm_epoch_durability_reg p)\<rparr>)"

definition epoch_tree_entry :: "pmem_st \<Rightarrow> pmem_ops \<Rightarrow> pmem_ops res" where
  "epoch_tree_entry e p =
     (if st_inEpoch e
      then Inr ((report_epoch e p)\<lparr>pm_stores := os_write e (e\<lparr>st_inEpoch := False\<rparr>) (pm_stores p)\<rparr>)
      else Inr p)"

definition epoch_entry :: "nat \<Rightarrow> pmem_ops \<Rightarrow> pmem_ops" where
  "epoch_entry i p =
     (let e = pm_array p i in
      if st_inEpoch e \<and> \<not> st_is_delete e
      then set_entry i (e\<lparr>st_inEpoch := False\<rparr>) (report_epoch e p) else p)"

definition epoch_snippet :: "nat \<Rightarrow> pmem_ops \<Rightarrow> pmem_ops" where
  "epoch_snippet s p = fold epoch_entry [sn_start_index (pm_snippet p s) ..< sn_index (pm_snippet p s)] p"

definition epoch_end :: "uword \<Rightarrow> transaction_ops \<Rightarrow> pmem_ops \<Rightarrow> pmem_ops res" where
  "epoch_end txid t p =
     (if \<not> pm_epoch p then Inr (log_out [Umsg ''Cannot find EPOCH_BEGIN'' []] p)
      else (let p1 = p\<lparr>pm_epoch := is_nest_trans txid t, pm_epoch_fence := 0\<rparr>
            in rbind (os_iter (pm_stores p1)) (\<lambda>tree.
               rbind (foldM epoch_tree_entry tree p1) (\<lambda>p2.
                 Inr (fold epoch_snippet [0 ..< Suc (pm_snippet_index p2)] p2)))))"

end
