(* ===== verification/PMC_Report.thy ===== *)
theory PMC_Report
  imports PMC_Fence
begin

text \<open>
  The reports of \<open>pmdebugger/pmc_main.c\<close>: outstanding stores, with and without merging, the summary of
  all detectors, the registered mappings, and the monitor commands.
\<close>

section \<open>Outstanding stores\<close>

text \<open>\<open>print_store_stats\<close> lists the entries of the array and of the tree.  Entries of a snippet that was
  flushed as a whole are marked on the way.\<close>

definition stats_entry :: "nat \<Rightarrow> nat \<Rightarrow> pmem_ops \<times> nat \<Rightarrow> pmem_ops \<times> nat" where
  "stats_entry s i pk =
     (let (p, k) = pk; e = pm_array p i;
          e' = (if sn_flushed_num (pm_snippet p s) = ALL_FLUSHED then e\<lparr>st_state := STST_FLUSHED\<rparr> else e)
      in (log_out ([Umsg ''[%lu] '' [of_nat k]] @ pp_context p (st_context e') @ print_store_line e')
            (set_entry i e' p), Suc k))"

definition stats_snippet :: "nat \<Rightarrow> pmem_ops \<times> nat \<Rightarrow> pmem_ops \<times> nat" where
  "stats_snippet s pk =
     fold (stats_entry s) [sn_start_index (pm_snippet (fst pk) s) ..< sn_index (pm_snippet (fst pk) s)] pk"

definition stats_tree_entry :: "pmem_st \<Rightarrow> pmem_ops \<times> nat \<Rightarrow> pmem_ops \<times> nat" where
  "stats_tree_entry e pk =
     (let (p, k) = pk in (log_out (pp_context p (st_context e) @ print_store_line e) p, Suc k))"

definition print_store_stats :: "pmem_ops \<Rightarrow> pmem_ops res" where
  "print_store_stats p =
     (let pk = fold stats_snippet [0 ..< Suc (pm_snippet_index p)] (p, 0)
      in rbind (os_iter (pm_stores (fst pk))) (\<lambda>tree.
           (let (p', k) = fold stats_tree_entry tree pk in Inr (p'\<lparr>pm_not_pmem_num := k\<rparr>))))"

text \<open>\<open>print_store_stats_detail\<close> collects them in the set \<open>debug_memory_merge\<close> first.\<close>

definition detail_entry :: "env \<Rightarrow> nat \<Rightarrow> nat \<Rightarrow> pmem_ops \<Rightarrow> pmem_ops res" where
  "detail_entry en s i p =
     (let e = pm_array p i in
      if st_is_delete e then Inr p
      else (let e1 = (if sn_flushed_num (pm_snippet p s) = ALL_FLUSHED then e\<lparr>st_state := STST_FLUSHED\<rparr> else e)
            in rbind (db_add_and_merge_store en e1 p) (\<lambda>(e2, p'). Inr (set_entry i e2 p'))))"

definition detail_snippet :: "env \<Rightarrow> nat \<Rightarrow> pmem_ops \<Rightarrow> pmem_ops res" where
  "detail_snippet en s p =
     foldM (detail_entry en s) [sn_start_index (pm_snippet p s) ..< sn_index (pm_snippet p s)] p"

definition detail_tree_entry :: "env \<Rightarrow> pmem_st \<Rightarrow> pmem_ops \<Rightarrow> pmem_ops res" where
  "detail_tree_entry en e p =
     rbind (db_add_and_merge_store en e p) (\<lambda>(e', p').
       Inr (p'\<lparr>pm_stores := os_write e e' (pm_stores p')\<rparr>))"

definition print_merged :: "pmem_ops \<Rightarrow> pmem_st list \<Rightarrow> out list" where
  "print_merged p es =
     [Umsg ''Stores not made persistent properly:'' []] @ print_numbered p print_store_line es @
     [Umsg ''Total memory not made persistent: %lu'' [sum_list (map st_size es)]]"

definition print_store_stats_detail :: "env \<Rightarrow> pmem_ops \<Rightarrow> pmem_ops res" where
  "print_store_stats_detail en p =
     rbind (case pm_merge p of None \<Rightarrow> Inr () | Some m \<Rightarrow> OSetGen_Destroy m) (\<lambda>u.
       (let p0 = p\<lparr>pm_not_pmem_num := 0, pm_merge := Some (OSetGen_Create cmp_pmem_st (\<lambda>x. x))\<rparr>
        in rbind (foldM (detail_snippet en) [0 ..< Suc (pm_snippet_index p0)] p0) (\<lambda>p1.
           rbind (os_iter (pm_stores p1)) (\<lambda>tree.
           rbind (foldM (detail_tree_entry en) tree p1) (\<lambda>p2.
             case pm_merge p2 of None \<Rightarrow> Inl (NullDeref ''print_store_stats_detail'')
             | Some m \<Rightarrow>
                 (let p3 = log_out [Umsg ''Number of stores not made persistent: %u'' [of_nat (OSetGen_Size m)]] p2
                  in if OSetGen_Size m = 0 then Inr p3
                     else rbind (os_iter m) (\<lambda>es.
                            Inr (log_out (print_merged p3 es) (p3\<lparr>pm_not_pmem_num := length es\<rparr>)))))))))"

section \<open>Summary\<close>

definition all_errors :: "pmem_ops \<Rightarrow> transaction_ops \<Rightarrow> nat" where
  "all_errors p t =
     length (pm_redundant_flushes p) + length (pm_superfluous_flushes p) + length (pm_multiple_stores p) +
     pm_not_pmem_num p + length (pm_redundant_fence p) + pm_epoch_durability_reg p +
     pm_order_guarantee_reg p + pm_lack_ordering_reg p + get_tx_all_err t"

definition print_general_summary :: "pmem_ops \<Rightarrow> transaction_ops \<Rightarrow> out list" where
  "print_general_summary p t = [Umsg ''ERROR SUMMARY: %lu errors'' [of_nat (all_errors p t)]]"

definition print_pmem_stats :: "env \<Rightarrow> bool \<Rightarrow> transaction_ops \<Rightarrow> pmem_ops \<Rightarrow> pmem_ops res" where
  "print_pmem_stats en append_blank_line t p =
     rbind (if op_print_bug_detail (pm_opts p) then print_store_stats_detail en p else print_store_stats p) (\<lambda>p1.
       rbind (print_tx_summary t) (\<lambda>txs.
         Inr (log_out (txs @ print_redundant_fences p1 @
           (if pm_redundant_flushes p1 \<noteq> [] then print_redundant_flushes p1 else []) @
           (if pm_superfluous_flushes p1 \<noteq> [] then print_superfluous_flushes p1 else []) @
           (if op_track_multiple_stores (pm_opts p1) \<and> pm_multiple_stores p1 \<noteq> []
            then print_multiple_stores p1 else []) @
           (if op_error_summary (pm_opts p1) then print_general_summary p1 t else []) @
           (if append_blank_line then [Umsg '''' []] else [])) p1)))"

definition print_persistent_mappings :: "pmem_ops \<Rightarrow> pmem_ops res" where
  "print_persistent_mappings p =
     rbind (os_iter (pm_mappings p)) (\<lambda>ms.
       Inr (log_out (map (\<lambda>(i, m). Umsg ''[%d] Mapping base: 0x%lx size: %llu'' [of_nat i, st_addr m, st_size m])
              (enumerate 0 ms)) p))"

section \<open>Monitor commands\<close>

definition print_monitor_help :: "out list" where
  "print_monitor_help = [Text ''pmemcheck gdb monitor commands: print_stats prints the summary, print_pmem_regions prints the registered persistent memory regions'']"

definition array_entries :: "pmem_ops \<Rightarrow> pmem_st list" where
  "array_entries p =
     concat (map (\<lambda>s. map (pm_array p) [sn_start_index (pm_snippet p s) ..< sn_index (pm_snippet p s)])
       [0 ..< Suc (pm_snippet_index p)])"

text \<open>The first word of the command: \<open>strtok_r\<close> with a blank as the delimiter.\<close>

definition first_word :: "string \<Rightarrow> string" where
  "first_word s = takeWhile (\<lambda>c. c \<noteq> CHR '' '') (dropWhile (\<lambda>c. c = CHR '' '') s)"

definition handle_gdb_monitor_command :: "env \<Rightarrow> string \<Rightarrow> transaction_ops \<Rightarrow> pmem_ops \<Rightarrow> (bool \<times> pmem_ops) res" where
  "handle_gdb_monitor_command en req t p =
     (let k = en_keyword_id en [''help'', ''print_stats'', ''print_pmem_regions''] (first_word req) in
      if k = - 2 then Inr (True, p)
      else if k = - 1 then Inr (False, p)
      else if k = 0 then Inr (True, log_out print_monitor_help p)
      else if k = 1 then rbind (print_pmem_stats en True t p) (\<lambda>p'. Inr (True, p'))
      else if k = 2 then
        rbind (os_iter (pm_stores p)) (\<lambda>tree.
          Inr (True, log_out (Text ''Registered persistent memory regions:'' #
            map (\<lambda>e. Umsg ''Address: 0x%lx size: %llu'' [st_addr e, st_size e]) (array_entries p @ tree)) p))
      else Inl (AssertFail ''handle_gdb_monitor_command''))"

end
