(* ===== verification/PMC_Cpuinfo.thy ===== *)
theory PMC_Cpuinfo
  imports PMC_State
begin

text \<open>
  The size of a cache line (\<open>read_cache_line_size\<close> in \<open>pmdebugger/pmc_main.c\<close>): the tool reads
  \<open>/proc/cpuinfo\<close> in pieces of up to 2047 bytes into a buffer on the stack and looks for the line with the
  size, which \<open>VG_(strtoll10)\<close> of the Valgrind core converts.  What the kernel returns for each read is an
  argument, an empty piece standing for the end of the file or an error; so is what the stack holds before the
  first read.

  The terminator is written at index 2048, one byte behind the array; that byte is cell 2048 of the buffer
  here.
\<close>

section \<open>Numbers\<close>

definition is_space :: "char \<Rightarrow> bool" where
  "is_space c \<longleftrightarrow> c \<in> {CHR '' '', CHR 0x09, CHR 0x0A, CHR 0x0B, CHR 0x0C, CHR 0x0D}"

definition is_digit :: "char \<Rightarrow> bool" where
  "is_digit c \<longleftrightarrow> 48 \<le> (of_char c :: nat) \<and> (of_char c :: nat) \<le> 57"

text \<open>The accumulation \<open>n = 10*n + digit\<close> on a \<open>Long\<close>: a number that is too large wraps around.\<close>

definition digits_value :: "string \<Rightarrow> uword" where
  "digits_value ds = foldl (\<lambda>n c. 10 * n + (of_char c - 48)) 0 ds"

text \<open>\<open>VG_(strtoll10)\<close>: the number, in two's complement, and what is left of the string.\<close>

definition strtoll10 :: "string \<Rightarrow> uword \<times> string" where
  "strtoll10 str =
     (let s1 = dropWhile is_space str;
          neg = (s1 \<noteq> [] \<and> hd s1 = CHR ''-'');
          s2 = (if s1 \<noteq> [] \<and> (hd s1 = CHR ''-'' \<or> hd s1 = CHR ''+'') then tl s1 else s1);
          ds = takeWhile is_digit s2;
          n = digits_value ds
      in (if neg then - n else n, if ds = [] then str else dropWhile is_digit s2))"

section \<open>Strings in a buffer\<close>

type_synonym buffer = "nat \<Rightarrow> char"

definition proc_read_size :: nat where
  "proc_read_size = 2048"

definition fill :: "string \<Rightarrow> buffer \<Rightarrow> buffer" where
  "fill piece buf = (\<lambda>i. if i < length piece then piece ! i else buf i)"

definition c_string :: "buffer \<Rightarrow> string" where
  "c_string buf = takeWhile (\<lambda>c. c \<noteq> CHR 0x00) (map buf [0 ..< Suc proc_read_size])"

fun strstr :: "string \<Rightarrow> string \<Rightarrow> string option" where
  "strstr [] needle = None"
| "strstr (c # haystack) needle =
     (if take (length needle) (c # haystack) = needle then Some (c # haystack) else strstr haystack needle)"

section \<open>The search\<close>

definition clflush :: string where
  "clflush = ''clflush size'' @ [CHR 0x09] @ '': ''"

text \<open>The result has the type \<open>Int\<close>; the test for zero is made before the conversion.\<close>

definition line_size :: "string \<Rightarrow> 32 word" where
  "line_size str = (let n = fst (strtoll10 str) in if n = 0 then 64 else ucast n)"

fun read_loop :: "string list \<Rightarrow> buffer \<Rightarrow> 32 word" where
  "read_loop [] buf = 64"
| "read_loop (piece # pieces) buf =
     (if piece = [] then 64
      else let buf = (fill piece buf)(proc_read_size := CHR 0x00) in
        case strstr (c_string buf) clflush of
          Some cache_str \<Rightarrow> line_size (drop (length clflush) cache_str)
        | None \<Rightarrow> read_loop pieces buf)"

definition read_cache_line_size :: "bool \<Rightarrow> string list \<Rightarrow> buffer \<Rightarrow> 32 word" where
  "read_cache_line_size opened pieces buf = (if \<not> opened then 64 else read_loop pieces buf)"

text \<open>\<open>flush_align_size = read_cache_line_size()\<close> at the start of the tool and of a strand: the \<open>Int\<close> becomes a \<open>Long\<close>.\<close>

definition en_cache_line_size :: "env \<Rightarrow> uword" where
  "en_cache_line_size en =
     scast (read_cache_line_size (en_cpuinfo_opened en) (en_cpuinfo_reads en) (en_cpuinfo_stack en))"

end
