(* ===== verification/PMC_Client.thy ===== *)
theory PMC_Client
  imports PMC_Report PMC_Cpuinfo
begin

text \<open>
  The outer interface of the tool (\<open>pmdebugger/pmc_main.c\<close>): client requests, command line options,
  initialisation and exit.  The state of the whole tool is the state of the current strand, the
  transaction module and the chain of strands.
\<close>

record tool =
  tl_pmem :: pmem_ops
  tl_trans :: transaction_ops
  tl_strand_id :: nat
  tl_saved :: "(nat \<times> pmem_ops) list"

section \<open>Mappings\<close>

definition register_mapping :: "uword \<Rightarrow> uword \<Rightarrow> pmem_ops \<Rightarrow> pmem_ops res" where
  "register_mapping addr sze p =
     (let r = mk_region addr sze; (lo, hi) = grow_bounds r (pm_min_map p, pm_max_map p)
      in rbind (add_region r (pm_mappings p)) (\<lambda>ms.
           Inr (p\<lparr>pm_min_map := lo, pm_max_map := hi, pm_mappings := ms\<rparr>)))"

definition remove_mapping :: "uword \<Rightarrow> uword \<Rightarrow> pmem_ops \<Rightarrow> pmem_ops res" where
  "remove_mapping addr sze p =
     rbind (remove_region_mapping (mk_region addr sze) (pm_mappings p)) (\<lambda>ms.
       rbind (os_iter ms) (\<lambda>es.
         (let p1 = p\<lparr>pm_mappings := ms\<rparr>;
              p2 = (if addr = pm_min_map p1
                    then (case es of [] \<Rightarrow> p1\<lparr>pm_max_map := - 1, pm_min_map := - 1\<rparr>
                          | e # _ \<Rightarrow> p1\<lparr>pm_min_map := st_addr e\<rparr>)
                    else p1)
          in Inr (if addr + sze = pm_max_map p2
                  then (if es = [] then p2\<lparr>pm_max_map := - 1, pm_min_map := - 1\<rparr>
                        else p2\<lparr>pm_max_map := st_addr (last es) + st_size (last es)\<rparr>)
                  else p2))))"

text \<open>\<open>register_new_file\<close> answers 1 when the name of the descriptor cannot be read.\<close>

definition register_new_file :: "env \<Rightarrow> uword \<Rightarrow> uword \<Rightarrow> uword \<Rightarrow> uword \<Rightarrow> pmem_ops \<Rightarrow> uword \<times> pmem_ops" where
  "register_new_file en fd base sze offset p =
     (case en_readlink en fd of
        None \<Rightarrow> (1, p)
      | Some name \<Rightarrow>
          (0, if op_log_stores (pm_opts p)
              then log_out [Emit ''|REGISTER_FILE'' [], Text name, Emit '';0x%lx;0x%lx;0x%lx'' [base, sze, offset]] p
              else p))"

section \<open>Setting a range clean\<close>

text \<open>The array part of \<open>SET_CLEAN\<close>.  The entry made for the part behind the range gets its address and
  size only: in a slot of the array the other fields keep what is there.\<close>

definition set_clean_entry :: "env \<Rightarrow> pmem_st \<Rightarrow> nat \<Rightarrow> pmem_ops \<Rightarrow> pmem_ops res" where
  "set_clean_entry en r i p =
     (let e = pm_array p i;
          r_max = st_addr r + st_size r;
          e_max = st_addr e + st_size e
      in if st_is_delete e then Inr p
         else if cmp_pmem_st r e \<noteq> 0 then Inr p
         else if st_addr e > st_addr r \<and> e_max < r_max then Inr (set_entry i (e\<lparr>st_is_delete := True\<rparr>) p)
         else if st_addr e < st_addr r \<and> e_max > r_max then
           (let (loc, nd, p1) = new_slot (set_entry i (e\<lparr>st_size := st_addr r - st_addr e\<rparr>) p)
            in put_slot en loc (nd\<lparr>st_addr := r_max, st_size := e_max - r_max\<rparr>) p1)
         else if st_addr e \<ge> st_addr r \<and> e_max > r_max then
           Inr (set_entry i (e\<lparr>st_size := st_size e - (r_max - st_addr e), st_addr := r_max\<rparr>) p)
         else if e_max \<le> r_max \<and> st_addr r > st_addr e then
           Inr (set_entry i (e\<lparr>st_size := st_addr r - st_addr e\<rparr>) p)
         else Inr (set_entry i (e\<lparr>st_is_delete := True\<rparr>) p))"

fun set_clean_entries :: "nat \<Rightarrow> env \<Rightarrow> pmem_st \<Rightarrow> nat \<Rightarrow> nat \<Rightarrow> pmem_ops \<Rightarrow> pmem_ops res" where
  "set_clean_entries 0 en r s i p = Inl (Diverge ''SET_CLEAN'')"
| "set_clean_entries (Suc f) en r s i p =
     (if i < sn_index (pm_snippet p s)
      then rbind (set_clean_entry en r i p) (set_clean_entries f en r s (Suc i))
      else Inr p)"

definition set_clean_snippet :: "env \<Rightarrow> pmem_st \<Rightarrow> nat \<Rightarrow> pmem_ops \<Rightarrow> pmem_ops res" where
  "set_clean_snippet en r s p =
     (let a = pm_snippet p s in
      if cmp_with_arr_minandmax r s p \<noteq> - 1
      then set_clean_entries (2 * (sn_index a - sn_start_index a) + 1) en r s (sn_start_index a) p
      else Inr p)"

definition set_clean :: "env \<Rightarrow> uword \<Rightarrow> uword \<Rightarrow> pmem_ops \<Rightarrow> pmem_ops res" where
  "set_clean en addr sze p =
     (let r = mk_region addr sze
      in rbind (foldM (set_clean_snippet en r) [0 ..< Suc (pm_snippet_index p)] p) (\<lambda>p1.
           rbind (remove_region r (pm_stores p1, pm_db_index p1)) (\<lambda>(s, idx).
             Inr (p1\<lparr>pm_stores := s, pm_db_index := idx\<rparr>))))"

section \<open>Transactions\<close>

definition start_tx :: "env \<Rightarrow> uword \<Rightarrow> tool \<Rightarrow> tool res" where
  "start_tx en txid w =
     rbind (register_new_tx en txid (tl_trans w)) (\<lambda>t.
       Inr (w\<lparr>tl_trans := t,
              tl_pmem := (if op_epoch_durability_fence (pm_opts (tl_pmem w)) \<and> \<not> is_nest_trans txid t
                          then epoch_begin (tl_pmem w) else tl_pmem w)\<rparr>))"

definition end_tx :: "env \<Rightarrow> uword \<Rightarrow> tool \<Rightarrow> (nat \<times> tool) res" where
  "end_tx en txid w =
     (let outermost = op_epoch_durability_fence (pm_opts (tl_pmem w)) \<and> \<not> is_nest_trans txid (tl_trans w)
      in rbind (remove_tx txid (tl_trans w)) (\<lambda>(ret, t).
           if outermost
           then rbind (mark_epoch_fence en (tl_pmem w)) (\<lambda>p1.
                  rbind (epoch_end txid t p1) (\<lambda>p2. Inr (ret, w\<lparr>tl_trans := t, tl_pmem := p2\<rparr>)))
           else Inr (ret, w\<lparr>tl_trans := t\<rparr>)))"

text \<open>The operations of the transaction module that advance the counter \<open>db_pmem_store_index\<close>.\<close>

definition with_trans :: "(transaction_ops \<times> nat \<Rightarrow> (nat \<times> transaction_ops \<times> nat) res) \<Rightarrow> tool \<Rightarrow> (nat \<times> tool) res" where
  "with_trans f w =
     rbind (f (tl_trans w, pm_db_index (tl_pmem w))) (\<lambda>(ret, t, idx).
       Inr (ret, w\<lparr>tl_trans := t, tl_pmem := (tl_pmem w)\<lparr>pm_db_index := idx\<rparr>\<rparr>))"

section \<open>Strands and order requests\<close>

definition create_stores :: "bool \<Rightarrow> region_set" where
  "create_stores by_address = OSetGen_Create (if by_address then cmp_pmem_st else cmp_pmem_own_st) (\<lambda>x. x)"

text \<open>A new strand starts with empty bookkeeping of stores; the registers, the mappings and the bounds of
  the tree are those of the strand before.\<close>

definition new_strand :: "env \<Rightarrow> tool \<Rightarrow> tool" where
  "new_strand en w =
     (let p = tl_pmem w; id = Suc (tl_strand_id w);
          p' = p\<lparr>pm_epoch := False, pm_epoch_fence := 0, pm_not_pmem_num := 0,
                 pm_merge := (if op_print_bug_detail (pm_opts p) then None else pm_merge p),
                 pm_stores := create_stores (tree_mode p), pm_array := en_fresh_stores en,
                 pm_snippet_index := 0, pm_snippet := (en_fresh_snippets en)(0 := empty_snippet 0),
                 pm_opts := (pm_opts p)\<lparr>op_flush_align_size := en_cache_line_size en\<rparr>\<rparr>
      in w\<lparr>tl_pmem := p', tl_strand_id := id, tl_saved := (id, p) # tl_saved w\<rparr>)"

definition order_guarantee :: "uword \<Rightarrow> uword \<Rightarrow> uword \<Rightarrow> uword \<Rightarrow> pmem_ops \<Rightarrow> pmem_ops res" where
  "order_guarantee a1 n1 a2 n2 p =
     (case (pm_time_records p, pm_order_records p) of
        (Some recs, Some os) \<Rightarrow>
          (let k = pm_time_records_index p in
           rbind (OSetGen_Insert ((mk_order a1 n1)\<lparr>od_index := k\<rparr>) recs) (\<lambda>recs1.
           rbind (OSetGen_Insert ((mk_order a2 n2)\<lparr>od_index := Suc k\<rparr>) recs1) (\<lambda>recs2.
           rbind (OSetGen_Insert \<lparr>or_index = Suc (Suc k), or_a = k, or_b = Suc k\<rparr> os) (\<lambda>os'.
             Inr (p\<lparr>pm_time_records := Some recs2, pm_order_records := Some os',
                    pm_time_records_index := Suc (Suc (Suc k))\<rparr>)))))
      | _ \<Rightarrow> Inl (NullDeref ''OSetGen_AllocNode''))"

section \<open>Client requests\<close>

datatype request =
    REGISTER_PMEM_MAPPING | REGISTER_PMEM_FILE | REMOVE_PMEM_MAPPING | CHECK_IS_PMEM_MAPPING
  | PRINT_PMEM_MAPPINGS | DO_FLUSH | DO_FENCE | RESERVED1 | WRITE_STATS | RESERVED2 | RESERVED3
  | RESERVED4 | RESERVED5 | RESERVED7 | RESERVED8 | RESERVED9 | RESERVED10 | SET_CLEAN
  | START_TX | START_TX_N | END_TX | END_TX_N | ADD_TO_TX | ADD_TO_TX_N | REMOVE_FROM_TX
  | REMOVE_FROM_TX_N | ADD_THREAD_TO_TX_N | REMOVE_THREAD_FROM_TX_N | ADD_TO_GLOBAL_TX_IGNORE
  | RESERVED6 | EMIT_LOG | EPOCH_BEGIN | EPOCH_END | FENCE_MARK | NEW_STRAND | ORDER_GUARANTEE

definition requests :: "request list" where
  "requests = [REGISTER_PMEM_MAPPING, REGISTER_PMEM_FILE, REMOVE_PMEM_MAPPING, CHECK_IS_PMEM_MAPPING,
     PRINT_PMEM_MAPPINGS, DO_FLUSH, DO_FENCE, RESERVED1, WRITE_STATS, RESERVED2, RESERVED3, RESERVED4,
     RESERVED5, RESERVED7, RESERVED8, RESERVED9, RESERVED10, SET_CLEAN, START_TX, START_TX_N, END_TX,
     END_TX_N, ADD_TO_TX, ADD_TO_TX_N, REMOVE_FROM_TX, REMOVE_FROM_TX_N, ADD_THREAD_TO_TX_N,
     REMOVE_THREAD_FROM_TX_N, ADD_TO_GLOBAL_TX_IGNORE, RESERVED6, EMIT_LOG, EPOCH_BEGIN, EPOCH_END,
     FENCE_MARK, NEW_STRAND, ORDER_GUARANTEE]"

text \<open>The request codes start at \<open>VG_USERREQ_TOOL_BASE('P','C')\<close>.\<close>

definition PC_BASE :: uword where
  "PC_BASE = 0x50430000"

definition GDB_MONITOR_COMMAND :: uword where
  "GDB_MONITOR_COMMAND = 0x1202"

definition request_of :: "uword \<Rightarrow> request option" where
  "request_of code =
     (let k = unat (code - PC_BASE) in if k < length requests then Some (requests ! k) else None)"

definition with_pmem :: "(pmem_ops \<Rightarrow> pmem_ops res) \<Rightarrow> tool \<Rightarrow> (uword option \<times> tool) res" where
  "with_pmem f w = rbind (f (tl_pmem w)) (\<lambda>p. Inr (None, w\<lparr>tl_pmem := p\<rparr>))"

definition with_ret :: "(nat \<times> tool) res \<Rightarrow> (uword option \<times> tool) res" where
  "with_ret m = rbind m (\<lambda>(r, w). Inr (Some (of_nat r), w))"

text \<open>The requests that are handled; the first component is what is written to \<open>*ret\<close>, if anything.
  \<open>a\<close> gives the arguments \<open>arg[1]\<close> to \<open>arg[4]\<close>.\<close>

fun run_request :: "env \<Rightarrow> request \<Rightarrow> (nat \<Rightarrow> uword) \<Rightarrow> tool \<Rightarrow> (uword option \<times> tool) res" where
  "run_request en REGISTER_PMEM_MAPPING a w = with_pmem (register_mapping (a 1) (a 2)) w"
| "run_request en REMOVE_PMEM_MAPPING a w = with_pmem (remove_mapping (a 1) (a 2)) w"
| "run_request en REGISTER_PMEM_FILE a w =
     (if sint (ucast (a 1) :: 32 word) \<ge> 0
      then (let (r, p) = register_new_file en (a 1) (a 2) (a 3) (a 4) (tl_pmem w) in Inr (Some r, w\<lparr>tl_pmem := p\<rparr>))
      else Inr (Some 1, w))"
| "run_request en CHECK_IS_PMEM_MAPPING a w =
     Inr (Some (of_nat (is_in_mapping_set (mk_region (a 1) (a 2)) (pm_mappings (tl_pmem w)))), w)"
| "run_request en PRINT_PMEM_MAPPINGS a w = with_pmem print_persistent_mappings w"
| "run_request en DO_FLUSH a w = with_pmem (do_flush en (tl_strand_id w) (a 1) (a 2)) w"
| "run_request en DO_FENCE a w = with_pmem (do_fence en) w"
| "run_request en WRITE_STATS a w = with_pmem (print_pmem_stats en True (tl_trans w)) w"
| "run_request en EMIT_LOG a w =
     with_pmem (\<lambda>p. Inr (if op_log_stores (pm_opts p)
       then log_out [Emit ''|'' [], Text (en_cstring en (a 1))] p else p)) w"
| "run_request en SET_CLEAN a w = with_pmem (set_clean en (a 1) (a 2)) w"
| "run_request en START_TX a w = rbind (start_tx en (en_tid en) w) (\<lambda>w'. Inr (None, w'))"
| "run_request en START_TX_N a w = rbind (start_tx en (a 1) w) (\<lambda>w'. Inr (None, w'))"
| "run_request en END_TX a w = with_ret (end_tx en (en_tid en) w)"
| "run_request en END_TX_N a w = with_ret (end_tx en (a 1) w)"
| "run_request en ADD_TO_TX a w = with_ret (with_trans (add_obj_to_tx en (en_tid en) (a 1) (a 2)) w)"
| "run_request en ADD_TO_TX_N a w = with_ret (with_trans (add_obj_to_tx en (a 1) (a 2) (a 3)) w)"
| "run_request en REMOVE_FROM_TX a w = with_ret (with_trans (remove_obj_from_tx en (en_tid en) (a 1) (a 2)) w)"
| "run_request en REMOVE_FROM_TX_N a w = with_ret (with_trans (remove_obj_from_tx en (a 1) (a 2) (a 3)) w)"
| "run_request en ADD_THREAD_TO_TX_N a w = with_ret (with_trans (remove_obj_from_tx en (a 1) (a 2) (a 3)) w)"
| "run_request en REMOVE_THREAD_FROM_TX_N a w = with_ret (with_trans (remove_obj_from_tx en (a 1) (a 2) (a 3)) w)"
| "run_request en ADD_TO_GLOBAL_TX_IGNORE a w =
     rbind (add_to_global_excludes (mk_region (a 1) (a 2)) (tl_trans w)) (\<lambda>t. Inr (None, w\<lparr>tl_trans := t\<rparr>))"
| "run_request en FENCE_MARK a w = with_pmem (mark_epoch_fence en) w"
| "run_request en EPOCH_BEGIN a w =
     with_pmem (\<lambda>p. Inr (if op_epoch_durability_fence (pm_opts p) then epoch_begin p else p)) w"
| "run_request en EPOCH_END a w =
     with_pmem (\<lambda>p. if op_epoch_durability_fence (pm_opts p) then epoch_end (en_tid en) (tl_trans w) p else Inr p) w"
| "run_request en NEW_STRAND a w = Inr (None, new_strand en w)"
| "run_request en ORDER_GUARANTEE a w = with_pmem (order_guarantee (a 1) (a 2) (a 3) (a 4)) w"
| "run_request en _ a w = Inr (None, w)"

definition deprecated :: "request \<Rightarrow> bool" where
  "deprecated r \<longleftrightarrow> r \<in> {RESERVED2, RESERVED3, RESERVED4, RESERVED5, RESERVED6, RESERVED7, RESERVED8,
     RESERVED9, RESERVED10}"

text \<open>\<open>pmc_handle_client_request\<close>: whether the request is handled, what \<open>*ret\<close> becomes, and the new state.\<close>

definition pmc_handle_client_request ::
    "env \<Rightarrow> uword \<Rightarrow> (nat \<Rightarrow> uword) \<Rightarrow> tool \<Rightarrow> (bool \<times> uword option \<times> tool) res" where
  "pmc_handle_client_request en code a w =
     (if code = GDB_MONITOR_COMMAND
      then rbind (handle_gdb_monitor_command en (en_cstring en (a 1)) (tl_trans w) (tl_pmem w)) (\<lambda>(handled, p).
             Inr (handled, Some (if handled then 0 else 1), w\<lparr>tl_pmem := p\<rparr>))
      else if and code 0xffff0000 \<noteq> PC_BASE then Inr (False, None, w)
      else (case request_of code of
              None \<Rightarrow> Inr (False, None, w\<lparr>tl_pmem :=
                log_out [Umsg ''Warning: unknown pmemcheck client request code 0x%llx'' [code]] (tl_pmem w)\<rparr>)
            | Some r \<Rightarrow>
                if deprecated r then Inr (False, None, w\<lparr>tl_pmem :=
                  log_out [Umsg ''Warning: deprecated pmemcheck client request code 0x%llx'' [code]] (tl_pmem w)\<rparr>)
                else rbind (run_request en r a w) (\<lambda>(ret, w'). Inr (True, ret, w'))))"

end
