(* ===== verification/PMC_Init.thy ===== *)
theory PMC_Init
  imports PMC_Client
begin

text \<open>
  Start and end of the tool (\<open>pmdebugger/pmc_main.c\<close>): the defaults of \<open>pmc_pre_clo_init\<close>, the command line
  options with the recognisers of the Valgrind core (\<open>VG_BOOL_CLO\<close>, \<open>VG_BINT_CLO\<close>), the initialisation of \<open>pmc_post_clo_init\<close> and the final report of \<open>pmc_fini\<close>.
\<close>

section \<open>Defaults\<close>

text \<open>\<open>pmem\<close> is a static variable: what \<open>pmc_pre_clo_init\<close> does not set is zero.\<close>

definition pmc_pre_clo_init :: options where
  "pmc_pre_clo_init =
     \<lparr>op_store_sb_indiff = 0, op_track_multiple_stores = False, op_log_stores = False,
      op_print_summary = True, op_check_flush = False, op_flush_align_size = 0,
      op_force_flush_align = False, op_transactions_only = False, op_store_traces = False,
      op_store_traces_depth = 1, op_automatic_isa_rec = True, op_error_summary = True,
      op_weak_clflush = False, op_tree_reorganization = False, op_redundant_logging = False,
      op_epoch_durability_fence = False, op_print_bug_detail = False, op_order_guarantee = False,
      op_lack_ordering_trand = False\<rparr>"

section \<open>Command line\<close>

text \<open>The value of \<open>--name=value\<close>, if the argument has that form.\<close>

definition clo_value :: "string \<Rightarrow> string \<Rightarrow> string option" where
  "clo_value arg name =
     (let pre = name @ ''='' in if take (length pre) arg = pre then Some (drop (length pre) arg) else None)"

text \<open>\<open>VG_(fmsg_bad_option)\<close> ends the tool.\<close>

definition bool_value :: "string \<Rightarrow> bool res" where
  "bool_value v = (if v = ''yes'' then Inr True else if v = ''no'' then Inr False
     else Inl (ToolExit [Text ''Invalid boolean value'']))"

definition UINT_MAX :: uword where
  "UINT_MAX = 4294967295"

text \<open>The variable of the option has \<open>w\<close> bits and is unsigned: the test for overflow compares what
  was stored in it with the number read, which never differ for 64 bits.\<close>

definition bint_value :: "nat \<Rightarrow> string \<Rightarrow> uword \<Rightarrow> uword res" where
  "bint_value w v lo =
     (let (n, end) = strtoll10 v; var = take_bit w n in
      if end \<noteq> [] \<or> var \<noteq> n then Inl (ToolExit [Text ''Invalid integer value''])
      else if var < lo \<or> var > UINT_MAX then Inl (ToolExit [Text ''argument must be between''])
      else Inr var)"

definition bool_opts :: "(string \<times> (bool \<Rightarrow> options \<Rightarrow> options)) list" where
  "bool_opts =
     [(''--mult-stores'', \<lambda>b x. x\<lparr>op_track_multiple_stores := b\<rparr>),
      (''--log-stores'', \<lambda>b x. x\<lparr>op_log_stores := b\<rparr>),
      (''--log-stores-stacktraces'', \<lambda>b x. x\<lparr>op_store_traces := b\<rparr>),
      (''--print-summary'', \<lambda>b x. x\<lparr>op_print_summary := b\<rparr>),
      (''--flush-check'', \<lambda>b x. x\<lparr>op_check_flush := b\<rparr>),
      (''--flush-align'', \<lambda>b x. x\<lparr>op_force_flush_align := b\<rparr>),
      (''--tx-only'', \<lambda>b x. x\<lparr>op_transactions_only := b\<rparr>),
      (''--isa-rec'', \<lambda>b x. x\<lparr>op_automatic_isa_rec := b\<rparr>),
      (''--error-summary'', \<lambda>b x. x\<lparr>op_error_summary := b\<rparr>),
      (''--expect-fence-after-clflush'', \<lambda>b x. x\<lparr>op_weak_clflush := b\<rparr>),
      (''--tree-reorganization'', \<lambda>b x. x\<lparr>op_tree_reorganization := b\<rparr>),
      (''--redundant-logging'', \<lambda>b x. x\<lparr>op_redundant_logging := b\<rparr>),
      (''--epoch-durability-fence'', \<lambda>b x. x\<lparr>op_epoch_durability_fence := b\<rparr>),
      (''--print-debug-detail'', \<lambda>b x. x\<lparr>op_print_bug_detail := b\<rparr>),
      (''--order-guarantee'', \<lambda>b x. x\<lparr>op_order_guarantee := b\<rparr>),
      (''--lack-ordering-in-strand'', \<lambda>b x. x\<lparr>op_lack_ordering_trand := b\<rparr>)]"

definition int_opts :: "(string \<times> nat \<times> uword \<times> (uword \<Rightarrow> options \<Rightarrow> options)) list" where
  "int_opts =
     [(''--indiff'', 64, 0, \<lambda>n x. x\<lparr>op_store_sb_indiff := n\<rparr>),
      (''--log-stores-stacktraces-depth'', 32, 1, \<lambda>n x. x\<lparr>op_store_traces_depth := unat n\<rparr>)]"

fun find_bool_opt :: "string \<Rightarrow> (string \<times> (bool \<Rightarrow> options \<Rightarrow> options)) list \<Rightarrow> options \<Rightarrow> options option res" where
  "find_bool_opt arg [] opts = Inr None"
| "find_bool_opt arg ((name, put) # others) opts =
     (case clo_value arg name of None \<Rightarrow> find_bool_opt arg others opts
      | Some v \<Rightarrow> rbind (bool_value v) (\<lambda>b. Inr (Some (put b opts))))"

fun find_int_opt :: "string \<Rightarrow> (string \<times> nat \<times> uword \<times> (uword \<Rightarrow> options \<Rightarrow> options)) list \<Rightarrow> options \<Rightarrow> options option res" where
  "find_int_opt arg [] opts = Inr None"
| "find_int_opt arg ((name, w, lo, put) # others) opts =
     (case clo_value arg name of None \<Rightarrow> find_int_opt arg others opts
      | Some v \<Rightarrow> rbind (bint_value w v lo) (\<lambda>n. Inr (Some (put n opts))))"

text \<open>\<open>pmc_process_cmd_line_option\<close>: no two option names are followed by \<open>=\<close> in the same argument, so the
  order of the tests does not matter.  \<open>None\<close>: the argument is not recognised.\<close>

definition pmc_process_cmd_line_option :: "string \<Rightarrow> options \<Rightarrow> options option res" where
  "pmc_process_cmd_line_option arg opts =
     rbind (find_bool_opt arg bool_opts opts) (\<lambda>r.
       case r of Some x \<Rightarrow> Inr (Some x) | None \<Rightarrow> find_int_opt arg int_opts opts)"

section \<open>Initialisation\<close>

definition order_sets :: "bool \<Rightarrow> time_set option \<times> order_set option" where
  "order_sets b =
     (if b then (Some (OSetGen_Create (cmp_index od_index) od_index),
                 Some (OSetGen_Create (cmp_index or_index) or_index))
      else (None, None))"

definition pmc_post_clo_init :: "env \<Rightarrow> bool \<Rightarrow> options \<Rightarrow> tool" where
  "pmc_post_clo_init en verbose opts =
     (let p = \<lparr>pm_stores = create_stores (op_tree_reorganization opts), pm_min_store = - 1, pm_max_store = - 1,
               pm_not_pmem_num = 0, pm_snippet_index = 0, pm_array = en_fresh_stores en,
               pm_snippet = (en_fresh_snippets en)(0 := empty_snippet 0), pm_merge = None,
               pm_mappings = OSetGen_Create cmp_pmem_st (\<lambda>x. x), pm_min_map = - 1, pm_max_map = - 1,
               pm_multiple_stores = [], pm_redundant_flushes = [], pm_superfluous_flushes = [],
               pm_opts = opts\<lparr>op_flush_align_size := en_cache_line_size en\<rparr>, pm_epoch = False,
               pm_epoch_fence = 0, pm_redundant_fence = [], pm_epoch_durability_reg = 0,
               pm_time_records = fst (order_sets (op_order_guarantee opts)), pm_global_time_stamp = 0,
               pm_order_records = snd (order_sets (op_order_guarantee opts)), pm_order_guarantee_reg = 0,
               pm_time_records_index = 0, pm_lack_ordering_reg = 0, pm_db_index = 0, pm_sblocks = 0,
               pm_out = (if op_log_stores opts then [Emit ''START'' []] else [])\<rparr>
      in \<lparr>tl_pmem = p,
          tl_trans = init_transactions verbose (op_transactions_only opts) (op_tree_reorganization opts)
            (op_redundant_logging opts) (op_print_bug_detail opts),
          tl_strand_id = 0, tl_saved = []\<rparr>)"

section \<open>Exit\<close>

definition pmc_fini :: "env \<Rightarrow> tool \<Rightarrow> tool res" where
  "pmc_fini en w =
     rbind (if op_order_guarantee (pm_opts (tl_pmem w)) then check_pmem_order (tl_pmem w) else Inr (tl_pmem w)) (\<lambda>p1.
       (let p2 = (if MAX_ARRAY_NUM \<le> pm_snippet_index p1
                  then log_out [Umsg ''pmem.array.snippet_info_index>=MAX_ARRAY_NUM'' []] p1 else p1);
            p3 = (if op_log_stores (pm_opts p2) then log_out [Emit ''|STOP'' []] p2 else p2)
        in rbind (if op_print_summary (pm_opts p3) then print_pmem_stats en False (tl_trans w) p3 else Inr p3) (\<lambda>p4.
             Inr (w\<lparr>tl_pmem := p4\<rparr>))))"

end
