(* ===== verification/PMC_Index_Laws.thy ===== *)
theory PMC_Index_Laws
  imports PMC_Region_Laws PMC_Init
begin

text \<open>
  The set of outstanding stores in its default order, by running index (\<open>cmp_pmem_own_st\<close>): the
  ordered-set laws are instantiated for it, and insertion at the end, a change in place and the
  removal of the entry just visited are stated on the list of its elements.
\<close>

section \<open>Sets ordered by the running index\<close>

interpretation io: oset_order cmp_pmem_own_st "\<lambda>x. x" "\<lambda>x. True" "\<lambda>x. True"
  by unfold_locales (auto simp: cmp_pmem_own_st_def split: if_splits)

abbreviation index_set :: "region_set \<Rightarrow> bool" where
  "index_set \<equiv> oset_inv cmp_pmem_own_st (\<lambda>x. x) (\<lambda>x. True)"

definition by_index :: "pmem_st list \<Rightarrow> bool" where
  "by_index xs \<longleftrightarrow> sorted_wrt (\<lambda>x y. st_index x < st_index y) xs"

lemma ordered_by_index: "ordered cmp_pmem_own_st (\<lambda>x. x) (\<lambda>x. True) xs \<longleftrightarrow> by_index xs"
  by (auto simp: ordered_def by_index_def cmp_pmem_own_st_def elim: sorted_wrt_mono_rel [rotated])

lemma index_set_by_index: "index_set s \<Longrightarrow> by_index (elems s)"
  by (simp add: oset_inv_def flip: ordered_by_index)

lemma by_index_distinct: "by_index xs \<Longrightarrow> distinct xs"
  by (induction xs) (auto simp: by_index_def)

lemma by_index_append:
  "by_index (xs @ e # ys) \<longleftrightarrow> by_index xs \<and> by_index ys \<and> (\<forall>x \<in> set xs. st_index x < st_index e) \<and>
     (\<forall>y \<in> set ys. st_index e < st_index y) \<and> (\<forall>x \<in> set xs. \<forall>y \<in> set ys. st_index x < st_index y)"
  by (auto simp: by_index_def sorted_wrt_append)

lemma by_index_mid: "by_index (xs @ e # ys) \<Longrightarrow> e \<notin> set xs \<and> e \<notin> set ys"
  by (auto simp: by_index_append)

lemma index_set_insert_last:
  assumes "index_set s" "\<forall>x \<in> set (elems s). st_index x < st_index e"
  shows "\<exists>s'. OSetGen_Insert e s = Inr s' \<and> index_set s' \<and> elems s' = elems s @ [e]"
proof -
  have "\<forall>y \<in> set (elems s). cmp_pmem_own_st e y \<noteq> 0"
    using assms(2) by (fastforce simp: cmp_pmem_own_st_def)
  moreover have "ins_sorted cmp_pmem_own_st (\<lambda>x. x) e (elems s) = elems s @ [e]"
    using assms(2) by (force simp: ins_sorted_def cmp_pmem_own_st_def filter_id_conv filter_empty_conv)
  ultimately show ?thesis
    using io.Insert_correct [OF assms(1), of e] by auto
qed

lemma index_set_write:
  assumes "index_set s" "elems s = xs @ e # ys" "st_index e' = st_index e"
  shows "index_set (os_write e e' s)" "elems (os_write e e' s) = xs @ e' # ys"
    "rest_of s = ys \<Longrightarrow> rest_of (os_write e e' s) = ys"
proof -
  have d: "by_index (xs @ e # ys)" using index_set_by_index [OF assms(1)] assms(2) by simp
  note n = by_index_mid [OF d]
  have key: "os_key s = (\<lambda>x. x)" using assms(1) by (simp add: oset_inv_def)
  have "by_index (xs @ e' # ys)" using d assms(3) by (simp add: by_index_append)
  then show "index_set (os_write e e' s)"
    using n by (intro oset_inv_write [OF assms(1)]) (simp only: ordered_by_index assms(2) map_write_split simp_thms)
  show "elems (os_write e e' s) = xs @ e' # ys"
    using n assms(2) key map_write_split [of e xs ys e'] by simp
  show "rest_of (os_write e e' s) = ys" if "rest_of s = ys"
    using n that key map_write_other [of e ys e'] by simp
qed

lemma index_set_drop:
  assumes "index_set s" "elems s = xs @ e # ys" "length (elems s) < OSET_ITER_MAX"
  shows "\<exists>s1 s'. OSetGen_Remove e s = Inr (Some e, s1) \<and> OSetGen_FreeNode e s1 = Inr s1 \<and>
    OSetGen_ResetIterAt e s1 = Inr s' \<and> index_set s' \<and> elems s' = xs @ ys \<and> rest_of s' = ys"
proof -
  have d: "by_index (xs @ e # ys)" using index_set_by_index [OF assms(1)] assms(2) by simp
  note n = by_index_mid [OF d]
  have lk: "OSetGen_Lookup s e = Some e" using io.Lookup_elem [OF assms(1)] assms(2) by simp
  obtain s1 where s1: "OSetGen_Remove e s = Inr (Some e, s1)" "index_set s1" "elems s1 = filter (\<lambda>y. y \<noteq> e) (elems s)"
    using io.Remove_correct [OF assms(1) lk] by auto
  have e1: "elems s1 = xs @ ys"
    using s1(3) assms(2) n io.filter_remove_neq [of e xs] io.filter_remove_neq [of e ys] by simp
  have f: "OSetGen_FreeNode e s1 = Inr s1"
    using io.FreeNode_removed [OF assms(1) _ s1(2,3)] assms(2) by simp
  have fl: "filter (\<lambda>y. cmp_pmem_own_st e y \<le> 0) (elems s1) = ys"
    using d e1 by (force simp: by_index_append cmp_pmem_own_st_def filter_id_conv filter_empty_conv)
  have "\<forall>y \<in> set (elems s1). cmp_pmem_own_st e y \<noteq> 0"
    using d e1 by (force simp: by_index_append cmp_pmem_own_st_def)
  then obtain s' where "OSetGen_ResetIterAt e s1 = Inr s'" "index_set s'" "elems s' = elems s1"
    "rest_of s' = filter (\<lambda>y. cmp_pmem_own_st e y \<le> 0) (elems s1)"
    using io.ResetIterAt_correct [OF s1(2), of e] assms(2,3) e1 by auto
  with s1 e1 f fl show ?thesis by auto
qed

end
