(* ===== verification/PMC_Keyed_Laws.thy ===== *)
theory PMC_Keyed_Laws
  imports PMC_Index_Laws
begin

text \<open>
  Sets whose elements are found by a machine word (\<open>fast_cmp\<close>): the transactions by their id, the
  threads by theirs, and the sets of transaction ids of a thread.  The ordered-set laws are instantiated for
  them for every key function, and the operations are described by the partial function \<open>OSetGen_Lookup t\<close>.
\<close>

interpretation wo: oset_order "fast_cmp key" key ok "\<lambda>k. True"
  for key :: "'e \<Rightarrow> uword" and ok
  by unfold_locales (auto simp: fast_cmp_def Let_def split: if_splits)

abbreviation keyed :: "('e \<Rightarrow> uword) \<Rightarrow> ('e \<Rightarrow> bool) \<Rightarrow> (uword, 'e) oset \<Rightarrow> bool" where
  "keyed key ok t \<equiv> oset_inv (fast_cmp key) key ok t"

lemma fast_cmp_eq_0: "fast_cmp key k e = 0 \<longleftrightarrow> k = key e"
  by (auto simp: fast_cmp_def Let_def split: if_splits)

lemma keyed_ok: "keyed key ok t \<Longrightarrow> e \<in> set (elems t) \<Longrightarrow> ok e"
  by (auto simp: oset_inv_def ordered_def)

lemma keyed_inj: "keyed key ok t \<Longrightarrow> x \<in> set (elems t) \<Longrightarrow> y \<in> set (elems t) \<Longrightarrow> key x = key y \<Longrightarrow> x = y"
  using wo.key_inj by (auto simp: oset_inv_def)

lemma keyed_lookup:
  assumes "keyed key ok t"
  shows "OSetGen_Lookup t k = Some e \<longleftrightarrow> e \<in> set (elems t) \<and> key e = k"
proof
  show "e \<in> set (elems t) \<and> key e = k" if "OSetGen_Lookup t k = Some e"
    using Lookup_SomeD [OF that] assms by (simp add: oset_inv_def fast_cmp_eq_0)
next
  assume e: "e \<in> set (elems t) \<and> key e = k"
  then obtain x where x: "OSetGen_Lookup t k = Some x"
    using wo.Lookup_Some_iff [OF assms] by (auto simp: fast_cmp_eq_0)
  then have "x \<in> set (elems t)" "key x = k"
    using Lookup_SomeD [OF x] assms by (simp_all add: oset_inv_def fast_cmp_eq_0)
  then show "OSetGen_Lookup t k = Some e" using x e keyed_inj [OF assms] by blast
qed

lemma keyed_lookup_None:
  "keyed key ok t \<Longrightarrow> OSetGen_Lookup t k = None \<longleftrightarrow> k \<notin> key ` set (elems t)"
  using keyed_lookup [of key ok t k] by (cases "OSetGen_Lookup t k") (auto, fastforce)

lemma keyed_lookup_ok:
  assumes "keyed key ok t" "OSetGen_Lookup t k = Some e"
  shows "e \<in> set (elems t)" "key e = k" "ok e"
  using assms keyed_lookup [OF assms(1)] keyed_ok [OF assms(1)] by auto

lemma lookup_fun_eqI:
  assumes "keyed key ok t" "keyed key ok' t'" "\<And>e. e \<in> set (elems t') \<longleftrightarrow> m (key e) = Some e"
    and "\<And>k e. m k = Some e \<Longrightarrow> key e = k"
  shows "OSetGen_Lookup t' = m"
proof
  fix k
  show "OSetGen_Lookup t' k = m k"
  proof (cases "m k")
    case None
    then have "k \<notin> key ` set (elems t')" using assms(3) by force
    then show ?thesis using None keyed_lookup_None [OF assms(2)] by simp
  next
    case (Some e)
    then show ?thesis using keyed_lookup [OF assms(2)] assms(3,4) by metis
  qed
qed

lemma keyed_insert:
  assumes "keyed key ok t" "ok e" "OSetGen_Lookup t (key e) = None"
  shows "\<exists>t'. OSetGen_Insert e t = Inr t' \<and> keyed key ok t' \<and> OSetGen_Lookup t' = (OSetGen_Lookup t)(key e \<mapsto> e) \<and>
    set (elems t') = insert e (set (elems t)) \<and> length (elems t') = Suc (length (elems t))"
proof -
  have new: "key e \<notin> key ` set (elems t)" using keyed_lookup_None [OF assms(1)] assms(3) by simp
  then have "\<forall>y \<in> set (elems t). fast_cmp key (key e) y \<noteq> 0" by (auto simp: fast_cmp_eq_0)
  then obtain t' where t': "OSetGen_Insert e t = Inr t'" "keyed key ok t'"
    "elems t' = ins_sorted (fast_cmp key) key e (elems t)"
    "set (elems t') = insert e (set (elems t))" "length (elems t') = Suc (length (elems t))"
    using wo.Insert_correct [OF assms(1,2)] wo.set_ins_sorted wo.length_ins_sorted by metis
  have "OSetGen_Lookup t' = (OSetGen_Lookup t)(key e \<mapsto> e)"
  proof (rule lookup_fun_eqI [OF assms(1) t'(2)])
    show "x \<in> set (elems t') \<longleftrightarrow> ((OSetGen_Lookup t)(key e \<mapsto> e)) (key x) = Some x" for x
      using t'(4) new assms(3) keyed_lookup [OF assms(1), of "key x" x] by (cases "key x = key e") auto
    show "key x = j" if "((OSetGen_Lookup t)(key e \<mapsto> e)) j = Some x" for j x
      using that keyed_lookup [OF assms(1), of j x] by (auto split: if_splits)
  qed
  with t' show ?thesis by blast
qed

lemma keyed_map_write:
  assumes "keyed key ok t" "e \<in> set (elems t)" "key e' = key e" "ok e'"
  shows "keyed key ok (os_write e e' t)" "OSetGen_Lookup (os_write e e' t) = (OSetGen_Lookup t)(key e \<mapsto> e')"
    "elems (os_write e e' t) = map (\<lambda>x. if x = e then e' else x) (elems t)"
    "rest_of (os_write e e' t) = map (\<lambda>x. if key x = key e then e' else x) (rest_of t)"
proof -
  have k: "os_key t = key" using assms(1) by (simp add: oset_inv_def)
  have "map (\<lambda>x. if key x = key e then e' else x) (elems t) = map (\<lambda>x. if x = e then e' else x) (elems t)"
    using keyed_inj [OF assms(1) _ assms(2)] by (intro map_cong) auto
  then show el: "elems (os_write e e' t) = map (\<lambda>x. if x = e then e' else x) (elems t)"
    by (simp add: k)
  have cmp: "fast_cmp key (key (if key x = key e then e' else x)) (if key y = key e then e' else y) = fast_cmp key (key x) y" for x y
    using assms(3) by (auto simp: fast_cmp_def Let_def)
  have "ordered (fast_cmp key) key ok (elems t)" using assms(1) by (simp add: oset_inv_def)
  then have "ordered (fast_cmp key) key ok (map (\<lambda>x. if key x = key e then e' else x) (elems t))"
    unfolding ordered_def using assms(4) cmp by (auto simp: sorted_wrt_map)
  then show inv: "keyed key ok (os_write e e' t)" by (rule oset_inv_write [OF assms(1)])
  show "OSetGen_Lookup (os_write e e' t) = (OSetGen_Lookup t)(key e \<mapsto> e')"
  proof (rule lookup_fun_eqI [OF assms(1) inv])
    show "x \<in> set (elems (os_write e e' t)) \<longleftrightarrow> ((OSetGen_Lookup t)(key e \<mapsto> e')) (key x) = Some x" for x
    proof (cases "key x = key e")
      case True
      have "x \<in> set (elems (os_write e e' t)) \<longleftrightarrow> x = e'"
        using keyed_inj [OF assms(1) _ assms(2)] True assms(2,3) by (auto simp: k)
      then show ?thesis using True by auto
    next
      case False
      then have "x \<in> set (elems (os_write e e' t)) \<longleftrightarrow> x \<in> set (elems t)" using assms(3) by (auto simp: k)
      then show ?thesis using False keyed_lookup [OF assms(1)] by auto
    qed
    show "key x = k" if "((OSetGen_Lookup t)(key e \<mapsto> e')) k = Some x" for k x
      using that assms(3) keyed_lookup [OF assms(1)] by (auto split: if_splits)
  qed
  show "rest_of (os_write e e' t) = map (\<lambda>x. if key x = key e then e' else x) (rest_of t)" by (simp add: k)
qed

lemma keyed_remove:
  assumes "keyed key ok t" "OSetGen_Lookup t k = Some e"
  shows "\<exists>t'. OSetGen_Remove k t = Inr (Some e, t') \<and> keyed key ok t' \<and> OSetGen_Lookup t' = (OSetGen_Lookup t)(k := None) \<and>
    elems t' = filter (\<lambda>y. y \<noteq> e) (elems t) \<and> rest_of t' = [] \<and> (\<forall>x. key x = k \<longrightarrow> OSetGen_FreeNode x t' = Inr t') \<and>
    Suc (length (elems t')) = length (elems t)"
proof -
  obtain t' where t': "OSetGen_Remove k t = Inr (Some e, t')" "keyed key ok t'"
    "elems t' = filter (\<lambda>y. y \<noteq> e) (elems t)" "rest_of t' = []"
    using wo.Remove_correct [OF assms] by blast
  have e: "e \<in> set (elems t)" "key e = k" using keyed_lookup_ok [OF assms] by simp_all
  have "OSetGen_Lookup t' = (OSetGen_Lookup t)(k := None)"
  proof (rule lookup_fun_eqI [OF assms(1) t'(2)])
    show "x \<in> set (elems t') \<longleftrightarrow> ((OSetGen_Lookup t)(k := None)) (key x) = Some x" for x
      using keyed_lookup [OF assms(1), of "key x" x] keyed_inj [OF assms(1) _ e(1), of x] e
      by (cases "key x = k") (auto simp: t'(3))
    show "key x = j" if "((OSetGen_Lookup t)(k := None)) j = Some x" for j x
      using that keyed_lookup [OF assms(1), of j x] by (simp split: if_splits)
  qed
  moreover have "OSetGen_FreeNode x t' = Inr t'" if "key x = k" for x
  proof (rule FreeNode_ok [OF t'(2)])
    show "key x \<notin> key ` set (elems t')"
      using that e(2) keyed_inj [OF assms(1) _ e(1)] t'(3) by fastforce
  qed
  moreover have "distinct (elems t)" using wo.ordered_distinct assms(1) by (auto simp: oset_inv_def)
  then have "Suc (length (elems t')) = length (elems t)"
    using length_filter_neq [OF _ e(1)] length_pos_if_in_set [OF e(1)] t'(3) by simp
  ultimately show ?thesis using t' by blast
qed

lemma keyed_create [simp]: "keyed key ok (OSetGen_Create (fast_cmp key) key)"
  "OSetGen_Lookup (OSetGen_Create (fast_cmp key) key) = Map.empty"
  by (rule oset_inv_Create) (simp add: OSetGen_Lookup_def OSetGen_Create_def fun_eq_iff)

section \<open>Sets of words\<close>

abbreviation word_set :: "oset_word \<Rightarrow> bool" where
  "word_set \<equiv> keyed (\<lambda>x. x) (\<lambda>x. True)"

lemma word_set_create [simp]: "word_set OSetWord_Create" "elems OSetWord_Create = []"
  by (simp_all add: OSetWord_Create_def)

lemma word_set_contains: "word_set s \<Longrightarrow> OSetWord_Contains s x \<longleftrightarrow> x \<in> set (elems s)"
  using keyed_lookup_None [of "\<lambda>x. x" "\<lambda>x. True" s x] by (simp add: OSetWord_Contains_def)

lemma word_set_insert:
  assumes "word_set s" "x \<notin> set (elems s)"
  shows "\<exists>s'. OSetWord_Insert x s = Inr s' \<and> word_set s' \<and> set (elems s') = insert x (set (elems s)) \<and>
    length (elems s') = Suc (length (elems s))"
  using keyed_insert [OF assms(1), of x] keyed_lookup_None [OF assms(1)] assms(2) by (auto simp: OSetWord_Insert_def)

lemma word_set_remove:
  assumes "word_set s"
  shows "\<exists>s'. OSetWord_Remove x s = Inr (x \<in> set (elems s), s') \<and> word_set s' \<and> elems s' = filter (\<lambda>y. y \<noteq> x) (elems s)"
proof (cases "OSetGen_Lookup s x")
  case None
  then have "x \<notin> set (elems s)" using keyed_lookup_None [OF assms] by simp
  then have "filter (\<lambda>y. y \<noteq> x) (elems s) = elems s" by (auto simp: filter_id_conv)
  then show ?thesis
    using None assms wo.Remove_None [OF None] \<open>x \<notin> set (elems s)\<close> by (auto simp: OSetWord_Remove_def)
next
  case (Some e)
  then have e: "e = x" "x \<in> set (elems s)" using keyed_lookup_ok [OF assms Some] by auto
  obtain s' where "OSetGen_Remove x s = Inr (Some x, s')" "word_set s'" "elems s' = filter (\<lambda>y. y \<noteq> x) (elems s)"
    "OSetGen_FreeNode x s' = Inr s'"
    using keyed_remove [OF assms Some] e(1) by auto
  then show ?thesis using e by (auto simp: OSetWord_Remove_def)
qed

lemma word_set_size: "word_set s \<Longrightarrow> OSetWord_Size s = length (elems s)"
  by (simp add: OSetWord_Size_def Size_correct)

end
