(* ===== verification/PMC_Outstanding.thy ===== *)
theory PMC_Outstanding
  imports PMC_Index_Laws
begin

text \<open>
  The outstanding stores of a state, that is the used part of the array, snippet by snippet, followed by the
  tree, and the invariant of the bookkeeping: the snippets follow each other in the array, the bounds of a
  snippet and of the tree enclose their entries, no entry is empty or wraps around.
\<close>

section \<open>Outstanding entries\<close>

definition mark :: "arr_snippet \<Rightarrow> pmem_st \<Rightarrow> pmem_st" where
  "mark a e = (if sn_flushed_num a = ALL_FLUSHED then e\<lparr>st_state := STST_FLUSHED\<rparr> else e)"

definition snip_out :: "pmem_ops \<Rightarrow> nat \<Rightarrow> pmem_st list" where
  "snip_out p s = map (mark (pm_snippet p s) \<circ> pm_array p)
     [sn_start_index (pm_snippet p s) ..< sn_index (pm_snippet p s)]"

definition out_entries :: "pmem_ops \<Rightarrow> pmem_st list" where
  "out_entries p = concat (map (snip_out p) [0 ..< Suc (pm_snippet_index p)]) @ elems (pm_stores p)"

definition entry_ok :: "pmem_st \<Rightarrow> bool" where
  "entry_ok e \<longleftrightarrow> \<not> st_is_delete e \<and> st_state e \<noteq> STST_CLEAN \<and> rkey e \<and> hi e < 2 ^ 64 - 1"

definition in_bounds :: "uword \<Rightarrow> uword \<Rightarrow> pmem_st \<Rightarrow> bool" where
  "in_bounds l h e \<longleftrightarrow> unat l \<le> lo e \<and> hi e \<le> unat h"

definition snip_ok :: "pmem_ops \<Rightarrow> nat \<Rightarrow> bool" where
  "snip_ok p s \<longleftrightarrow> (let a = pm_snippet p s in
     sn_start_index a \<le> sn_index a \<and>
     (sn_start_index a = sn_index a \<longrightarrow> sn_min_add a = - 1 \<and> sn_max_add a = - 1) \<and>
     (sn_start_index a < sn_index a \<longrightarrow> sn_max_add a \<noteq> - 1) \<and>
     (\<forall>i. sn_start_index a \<le> i \<and> i < sn_index a \<longrightarrow>
        entry_ok (pm_array p i) \<and> in_bounds (sn_min_add a) (sn_max_add a) (pm_array p i) \<and>
        (sn_flushed_num a = NO_FLUSHED \<longrightarrow> st_state (pm_array p i) = STST_DIRTY)))"

definition tree_ok :: "pmem_ops \<Rightarrow> bool" where
  "tree_ok p \<longleftrightarrow> index_set (pm_stores p) \<and>
     (\<forall>e \<in> set (elems (pm_stores p)). st_index e < pm_db_index p \<and> entry_ok e \<and>
        in_bounds (pm_min_store p) (pm_max_store p) e) \<and>
     (elems (pm_stores p) \<noteq> [] \<longrightarrow> pm_max_store p \<noteq> - 1) \<and>
     (elems (pm_stores p) = [] \<longrightarrow> pm_max_store p = - 1 \<and> pm_min_store p = - 1)"

text \<open>The snippets follow each other in the array; all but the last have been flushed at least in part
  and are not empty.\<close>

definition array_ok :: "pmem_ops \<Rightarrow> bool" where
  "array_ok p \<longleftrightarrow> sn_start_index (pm_snippet p 0) = 0 \<and>
     (\<forall>s \<le> pm_snippet_index p. snip_ok p s) \<and>
     (\<forall>s < pm_snippet_index p. sn_start_index (pm_snippet p (Suc s)) = sn_index (pm_snippet p s) \<and>
        sn_start_index (pm_snippet p s) < sn_index (pm_snippet p s) \<and>
        sn_flushed_num (pm_snippet p s) \<noteq> NO_FLUSHED)"

definition pmem_wf :: "pmem_ops \<Rightarrow> bool" where
  "pmem_wf p \<longleftrightarrow> array_ok p \<and> sn_flushed_num (current p) = NO_FLUSHED \<and> tree_ok p"

lemma mark_simps [simp]:
  "st_index (mark a e) = st_index e" "st_addr (mark a e) = st_addr e" "st_size (mark a e) = st_size e"
  "st_is_delete (mark a e) = st_is_delete e" "bytes (mark a e) = bytes e" "lo (mark a e) = lo e" "hi (mark a e) = hi e"
  by (simp_all add: mark_def bytes_def lo_def hi_def sz_def)

lemma start_index_mono:
  assumes "array_ok p" "s \<le> s'" "s' \<le> pm_snippet_index p"
  shows "sn_start_index (pm_snippet p s) \<le> sn_start_index (pm_snippet p s')"
  using assms(2,3)
proof (induction s')
  case (Suc s')
  show ?case
  proof (cases "s = Suc s'")
    case False
    then have "sn_start_index (pm_snippet p s) \<le> sn_start_index (pm_snippet p s')" using Suc by simp
    also have "\<dots> < sn_index (pm_snippet p s')" "sn_index (pm_snippet p s') = sn_start_index (pm_snippet p (Suc s'))"
      using assms(1) Suc.prems by (simp_all add: array_ok_def)
    ultimately show ?thesis by simp
  qed simp
qed simp

lemma snippets_disjoint:
  assumes "array_ok p" "s < s'" "s' \<le> pm_snippet_index p"
  shows "sn_index (pm_snippet p s) \<le> sn_start_index (pm_snippet p s')"
proof -
  have "sn_index (pm_snippet p s) = sn_start_index (pm_snippet p (Suc s))"
    using assms by (simp add: array_ok_def)
  also have "\<dots> \<le> sn_start_index (pm_snippet p s')"
    using assms by (intro start_index_mono) auto
  finally show ?thesis .
qed

lemma length_array_out:
  assumes "array_ok p" "s \<le> pm_snippet_index p"
  shows "length (concat (map (snip_out p) [0 ..< Suc s])) = sn_index (pm_snippet p s)"
  using assms(2)
proof (induction s)
  case 0
  then show ?case using assms(1) by (simp add: array_ok_def snip_out_def)
next
  case (Suc s)
  have "length (snip_out p (Suc s)) = sn_index (pm_snippet p (Suc s)) - sn_index (pm_snippet p s)"
    using assms(1) Suc.prems by (simp add: array_ok_def snip_out_def)
  moreover have "sn_index (pm_snippet p s) \<le> sn_index (pm_snippet p (Suc s))"
    using assms(1) Suc.prems by (auto simp: array_ok_def snip_ok_def Let_def)
  ultimately show ?case using Suc by simp
qed

lemma snippet_count:
  assumes "array_ok p" "s \<le> pm_snippet_index p"
  shows "s \<le> sn_start_index (pm_snippet p s)"
  using assms(2)
proof (induction s)
  case (Suc s)
  then have "sn_start_index (pm_snippet p s) < sn_start_index (pm_snippet p (Suc s))"
    using assms(1) by (simp add: array_ok_def)
  with Suc show ?case by simp
qed simp

lemma out_count:
  assumes "pmem_wf p"
  shows "length (out_entries p) = sn_index (current p) + length (elems (pm_stores p))"
    "pm_snippet_index p \<le> sn_index (current p)"
proof -
  have ok: "array_ok p" "snip_ok p (pm_snippet_index p)"
    using assms by (auto simp: pmem_wf_def array_ok_def)
  show "length (out_entries p) = sn_index (current p) + length (elems (pm_stores p))"
    using length_array_out [OF ok(1), of "pm_snippet_index p"] by (simp add: out_entries_def)
  show "pm_snippet_index p \<le> sn_index (current p)"
    using snippet_count [OF ok(1), of "pm_snippet_index p"] ok(2) by (simp add: snip_ok_def Let_def)
qed

end
