(* ===== verification/PMC_Flush_Entry_Laws.thy ===== *)
theory PMC_Flush_Entry_Laws
  imports PMC_Outstanding
begin

text \<open>
  One snippet of the array under a flush whose range cuts no entry in two: the entries it overlaps become
  flushed, the entries it finds flushed are reported.
\<close>

section \<open>Flush of ranges that cut no entry\<close>

definition overlaps_e :: "pmem_st \<Rightarrow> pmem_st \<Rightarrow> bool" where
  "overlaps_e fi e \<longleftrightarrow> bytes e \<inter> bytes fi \<noteq> {}"

text \<open>The flushed range covers every outstanding entry that it touches.\<close>

definition whole :: "pmem_st \<Rightarrow> pmem_st list \<Rightarrow> bool" where
  "whole fi es \<longleftrightarrow> (\<forall>e \<in> set es. overlaps_e fi e \<longrightarrow> bytes e \<subseteq> bytes fi)"

definition flush_e :: "pmem_st \<Rightarrow> pmem_st \<Rightarrow> pmem_st" where
  "flush_e fi e = (if st_state e = STST_DIRTY \<and> overlaps_e fi e then e\<lparr>st_state := STST_FLUSHED\<rparr> else e)"

text \<open>The entries that a flush finds flushed already.\<close>

definition again :: "pmem_st \<Rightarrow> pmem_st list \<Rightarrow> pmem_st list" where
  "again fi es = filter (\<lambda>e. st_state e \<noteq> STST_DIRTY \<and> overlaps_e fi e) es"

definition warned :: "pmem_ops \<Rightarrow> 'a list \<Rightarrow> 'a list" where
  "warned p evs = (if op_check_flush (pm_opts p) then evs else [])"

definition room :: "pmem_ops \<Rightarrow> nat \<Rightarrow> bool" where
  "room p n \<longleftrightarrow> (op_check_flush (pm_opts p) \<longrightarrow> length (pm_redundant_flushes p) + n \<le> MAX_FLUSH_ERROR_EVENTS)"

lemma bytes_state [simp]: "bytes (e\<lparr>st_state := x\<rparr>) = bytes e" "lo (e\<lparr>st_state := x\<rparr>) = lo e"
  "hi (e\<lparr>st_state := x\<rparr>) = hi e" "sz (e\<lparr>st_state := x\<rparr>) = sz e"
  by (simp_all add: bytes_def lo_def hi_def sz_def)

lemma rkey_state [simp]: "rkey (e\<lparr>st_state := x\<rparr>) = rkey e"
  by (simp add: rkey_def)

lemma overlaps_e_mark [simp]: "overlaps_e fi (mark a e) = overlaps_e fi e"
  by (simp add: overlaps_e_def)

lemma overlaps_cmp: "rkey fi \<Longrightarrow> entry_ok e \<Longrightarrow> cmp_pmem_st fi e = 0 \<longleftrightarrow> overlaps_e fi e"
  using cmp_pmem_st_eq_0 [of fi e] by (auto simp: overlaps_e_def entry_ok_def)

lemma whole_no_split:
  assumes "whole fi es" "e \<in> set es" "overlaps_e fi e" "rkey fi" "rkey e"
  shows "\<not> st_addr e < st_addr fi" "\<not> st_addr fi + st_size fi < st_addr e + st_size e"
proof -
  have "bytes e \<subseteq> bytes fi" using assms by (simp add: whole_def)
  then have "lo fi \<le> lo e" "hi e \<le> hi fi"
    using assms(4,5) by (auto simp: bytes_def rkey_def hi_def)
  then show "\<not> st_addr e < st_addr fi" "\<not> st_addr fi + st_size fi < st_addr e + st_size e"
    using rkey_hi [OF assms(4)] rkey_hi [OF assms(5)] by (simp_all add: word_less_nat_alt lo_def)
qed

lemma add_redundant_flush_ok:
  assumes "room p 1"
  shows "add_redundant_flush e p = Inr (p\<lparr>pm_redundant_flushes :=
     pm_redundant_flushes p @ warned p [e\<lparr>st_state := STST_FLUSHED\<rparr>]\<rparr>)"
  using assms by (auto simp: add_redundant_flush_def room_def warned_def add_warning_event_def)

lemma mark_state_eq: "st_state e \<noteq> STST_DIRTY \<Longrightarrow> st_state e \<noteq> STST_CLEAN \<Longrightarrow> e\<lparr>st_state := STST_FLUSHED\<rparr> = e"
  by (cases e; cases "st_state e") auto

text \<open>One entry of the array.\<close>

definition touched :: "arr_snippet \<Rightarrow> pmem_st \<Rightarrow> pmem_st \<Rightarrow> bool" where
  "touched a fi e \<longleftrightarrow> sn_flushed_num a \<noteq> ALL_FLUSHED \<and> st_state e = STST_DIRTY \<and> overlaps_e fi e"

lemma flush_entry_ok:
  assumes e: "e = pm_array p i" "entry_ok e" "rkey fi" "whole fi [e]" "room p 1" and a: "a = pm_snippet p s"
  shows "flush_entry en fi s i (p, v) = Inr
    (p\<lparr>pm_array := (pm_array p)(i := if touched a fi e then e\<lparr>st_state := STST_FLUSHED\<rparr> else e),
       pm_snippet := (pm_snippet p)(s := if touched a fi e then a\<lparr>sn_flushed_num := PART_FLUSHED\<rparr> else a),
       pm_redundant_flushes := pm_redundant_flushes p @ warned p (again fi [mark a e])\<rparr>,
     v \<or> overlaps_e fi e)"
proof (cases "overlaps_e fi e")
  case False
  then show ?thesis
    using assms overlaps_cmp [of fi e]
    by (simp add: flush_entry_def entry_ok_def again_def warned_def touched_def)
next
  case True
  note ns = whole_no_split [OF e(4) _ True e(3)]
  have ok: "\<not> st_is_delete e" "rkey e" "cmp_pmem_st fi e = 0" "st_state e \<noteq> STST_CLEAN"
    using e True overlaps_cmp [of fi e] by (auto simp: entry_ok_def)
  show ?thesis
  proof (cases "touched a fi e")
    case t: True
    have "split_before en fi i (set_snippet s (a\<lparr>sn_flushed_num := PART_FLUSHED\<rparr>) (set_entry i (e\<lparr>st_state := STST_FLUSHED\<rparr>) p))
        = Inr (set_snippet s (a\<lparr>sn_flushed_num := PART_FLUSHED\<rparr>) (set_entry i (e\<lparr>st_state := STST_FLUSHED\<rparr>) p))"
      "split_behind en fi i (set_snippet s (a\<lparr>sn_flushed_num := PART_FLUSHED\<rparr>) (set_entry i (e\<lparr>st_state := STST_FLUSHED\<rparr>) p))
        = Inr (set_snippet s (a\<lparr>sn_flushed_num := PART_FLUSHED\<rparr>) (set_entry i (e\<lparr>st_state := STST_FLUSHED\<rparr>) p))"
      using ns ok by (simp_all add: split_before_def split_behind_def set_snippet_def set_entry_def)
    then show ?thesis
      using t ok e(1) a by (simp add: flush_entry_def touched_def again_def mark_def warned_def set_snippet_def set_entry_def)
  next
    case f: False
    then have "sn_flushed_num a = ALL_FLUSHED \<or> st_state e \<noteq> STST_DIRTY" using True by (auto simp: touched_def)
    moreover from this have "again fi [mark a e] = [e\<lparr>st_state := STST_FLUSHED\<rparr>]"
      using True ok mark_state_eq [of e] by (auto simp: again_def mark_def overlaps_e_def)
    ultimately show ?thesis
      using f True ok e(1) a add_redundant_flush_ok [OF e(5), of e]
      by (simp add: flush_entry_def)
  qed
qed

definition flush_upd :: "pmem_st \<Rightarrow> nat \<Rightarrow> nat \<Rightarrow> nat \<Rightarrow> pmem_ops \<Rightarrow> pmem_ops" where
  "flush_upd fi s i n p = (let a = pm_snippet p s in
     p\<lparr>pm_array := (\<lambda>j. if i \<le> j \<and> j < n \<and> touched a fi (pm_array p j)
          then (pm_array p j)\<lparr>st_state := STST_FLUSHED\<rparr> else pm_array p j),
       pm_snippet := (pm_snippet p)(s := if \<exists>j \<in> {i..<n}. touched a fi (pm_array p j)
          then a\<lparr>sn_flushed_num := PART_FLUSHED\<rparr> else a),
       pm_redundant_flushes := pm_redundant_flushes p @
          warned p (again fi (map (mark a \<circ> pm_array p) [i..<n]))\<rparr>)"

lemma touched_part: "touched a fi e \<Longrightarrow> touched (a\<lparr>sn_flushed_num := PART_FLUSHED\<rparr>) = touched a"
  by (auto simp: touched_def fun_eq_iff)

lemma mark_part: "sn_flushed_num a \<noteq> ALL_FLUSHED \<Longrightarrow> mark (a\<lparr>sn_flushed_num := PART_FLUSHED\<rparr>) = mark a"
  by (auto simp: mark_def fun_eq_iff)

lemma flush_upd_empty: "n \<le> i \<Longrightarrow> flush_upd fi s i n p = p"
proof -
  assume "n \<le> i"
  then have "(\<lambda>j. if i \<le> j \<and> j < n \<and> touched (pm_snippet p s) fi (pm_array p j)
          then (pm_array p j)\<lparr>st_state := STST_FLUSHED\<rparr> else pm_array p j) = pm_array p" by (auto simp: fun_eq_iff)
  with \<open>n \<le> i\<close> show ?thesis
    by (simp add: flush_upd_def Let_def again_def warned_def)
qed

lemma again_append: "again fi (xs @ ys) = again fi xs @ again fi ys"
  by (simp add: again_def)

lemma warned_append: "warned p (xs @ ys) = warned p xs @ warned p ys"
  by (simp add: warned_def)

lemma flush_upd_step:
  assumes "i < n" "e = pm_array p i" "a = pm_snippet p s"
    and x: "x = (if touched a fi e then e\<lparr>st_state := STST_FLUSHED\<rparr> else e)"
    and a': "a' = (if touched a fi e then a\<lparr>sn_flushed_num := PART_FLUSHED\<rparr> else a)"
    and p1: "p1 = p\<lparr>pm_array := (pm_array p)(i := x), pm_snippet := (pm_snippet p)(s := a'),
       pm_redundant_flushes := pm_redundant_flushes p @ warned p (again fi [mark a e])\<rparr>"
  shows "flush_upd fi s (Suc i) n p1 = flush_upd fi s i n p"
proof -
  have tm: "touched a' = touched a" "mark a' = mark a"
    using touched_part [of a fi e] mark_part [of a] by (auto simp: a' touched_def)
  have q: "pm_array p1 = (pm_array p)(i := x)" "pm_snippet p1 s = a'" "warned p1 = warned p"
    "pm_redundant_flushes p1 = pm_redundant_flushes p @ warned p (again fi [mark a e])"
    by (simp_all add: p1 warned_def fun_eq_iff)
  have rng: "{i..<n} = insert i {Suc i..<n}" "[i..<n] = i # [Suc i..<n]"
    using assms(1) by (auto simp: upt_conv_Cons)
  have "map (mark a \<circ> pm_array p1) [Suc i..<n] = map (mark a \<circ> pm_array p) [Suc i..<n]"
    by (intro map_cong) (auto simp: q)
  moreover have "again fi (map (mark a \<circ> pm_array p) [i..<n]) =
      again fi [mark a e] @ again fi (map (mark a \<circ> pm_array p) [Suc i..<n])"
    using assms(2) by (simp add: rng again_def)
  ultimately have R: "pm_redundant_flushes p1 @ warned p1 (again fi (map (mark a' \<circ> pm_array p1) [Suc i..<n]))
      = pm_redundant_flushes p @ warned p (again fi (map (mark a \<circ> pm_array p) [i..<n]))"
    unfolding tm q(3,4) by (simp only: warned_append append_assoc)
  have ex: "(\<exists>j \<in> {Suc i..<n}. touched a fi (pm_array p1 j)) = (\<exists>j \<in> {Suc i..<n}. touched a fi (pm_array p j))"
    by (intro bex_cong) (auto simp: q)
  have A: "(\<lambda>j. if Suc i \<le> j \<and> j < n \<and> touched a' fi (pm_array p1 j)
          then (pm_array p1 j)\<lparr>st_state := STST_FLUSHED\<rparr> else pm_array p1 j)
     = (\<lambda>j. if i \<le> j \<and> j < n \<and> touched a fi (pm_array p j)
          then (pm_array p j)\<lparr>st_state := STST_FLUSHED\<rparr> else pm_array p j)"
    using assms(1,2) unfolding tm q x by (auto simp: fun_eq_iff)
  have S: "(pm_snippet p1)(s := if \<exists>j \<in> {Suc i..<n}. touched a' fi (pm_array p1 j)
          then a'\<lparr>sn_flushed_num := PART_FLUSHED\<rparr> else a')
      = (pm_snippet p)(s := if \<exists>j \<in> {i..<n}. touched a fi (pm_array p j)
          then a\<lparr>sn_flushed_num := PART_FLUSHED\<rparr> else a)"
    unfolding tm ex using assms(2) by (auto simp: p1 a' rng)
  show ?thesis
    unfolding flush_upd_def Let_def q(2) assms(3) [symmetric] A S R by (simp add: p1)
qed

lemma flush_entries_ok:
  assumes "sn_index (pm_snippet p s) = n" "i \<le> n" "n - i < f" "rkey fi" "room p (n - i)"
    and "\<forall>j. i \<le> j \<and> j < n \<longrightarrow> entry_ok (pm_array p j) \<and> whole fi [pm_array p j]"
  shows "flush_entries f en fi s i (p, v) = Inr (flush_upd fi s i n p, v \<or> (\<exists>j \<in> {i..<n}. overlaps_e fi (pm_array p j)))"
  using assms
proof (induction f arbitrary: i p v)
  case 0
  then show ?case by simp
next
  case (Suc f)
  show ?case
  proof (cases "i < n")
    case False
    then show ?thesis using Suc.prems by (simp add: flush_upd_empty)
  next
    case True
    let ?e = "pm_array p i" and ?a = "pm_snippet p s"
    define x where "x = (if touched ?a fi ?e then ?e\<lparr>st_state := STST_FLUSHED\<rparr> else ?e)"
    define a' where "a' = (if touched ?a fi ?e then ?a\<lparr>sn_flushed_num := PART_FLUSHED\<rparr> else ?a)"
    define p1 where "p1 = p\<lparr>pm_array := (pm_array p)(i := x), pm_snippet := (pm_snippet p)(s := a'),
       pm_redundant_flushes := pm_redundant_flushes p @ warned p (again fi [mark ?a ?e])\<rparr>"
    have "room p 1" using Suc.prems(5) True by (auto simp: room_def)
    then have step: "flush_entry en fi s i (p, v) = Inr (p1, v \<or> overlaps_e fi ?e)"
      using flush_entry_ok [OF refl _ Suc.prems(4) _ _ refl, of p i en s v] Suc.prems(6) True
      by (simp add: p1_def x_def a'_def)
    have "length (warned p (again fi [mark ?a ?e])) \<le> 1" by (simp add: warned_def again_def)
    then have "room p1 (n - Suc i)"
      using Suc.prems(5) True by (auto simp: room_def p1_def)
    moreover have "sn_index (pm_snippet p1 s) = n"
      using Suc.prems(1) by (simp add: p1_def a'_def)
    moreover have "\<forall>j. Suc i \<le> j \<and> j < n \<longrightarrow> entry_ok (pm_array p1 j) \<and> whole fi [pm_array p1 j]"
      using Suc.prems(6) by (simp add: p1_def)
    ultimately have "flush_entries f en fi s (Suc i) (p1, v \<or> overlaps_e fi ?e) =
        Inr (flush_upd fi s (Suc i) n p1, (v \<or> overlaps_e fi ?e) \<or> (\<exists>j \<in> {Suc i..<n}. overlaps_e fi (pm_array p1 j)))"
      using Suc.prems(3,4) True by (intro Suc.IH) auto
    moreover have "(\<exists>j \<in> {Suc i..<n}. overlaps_e fi (pm_array p1 j)) = (\<exists>j \<in> {Suc i..<n}. overlaps_e fi (pm_array p j))"
      by (intro bex_cong) (auto simp: p1_def)
    moreover have "{i..<n} = insert i {Suc i..<n}" using True by auto
    moreover have "flush_upd fi s (Suc i) n p1 = flush_upd fi s i n p"
      using flush_upd_step [OF True refl refl x_def a'_def p1_def] .
    ultimately show ?thesis
      using step True Suc.prems(1) by simp
  qed
qed

text \<open>One snippet.\<close>

definition snip_flushed :: "pmem_st \<Rightarrow> nat \<Rightarrow> pmem_ops \<Rightarrow> pmem_ops \<Rightarrow> bool" where
  "snip_flushed fi s p p' \<longleftrightarrow> (\<exists>A fl.
     p' = p\<lparr>pm_array := A, pm_snippet := (pm_snippet p)(s := (pm_snippet p s)\<lparr>sn_flushed_num := fl\<rparr>),
       pm_redundant_flushes := pm_redundant_flushes p @ warned p (again fi (snip_out p s))\<rparr> \<and>
     (\<forall>j. j < sn_start_index (pm_snippet p s) \<or> sn_index (pm_snippet p s) \<le> j \<longrightarrow> A j = pm_array p j) \<and>
     (\<forall>j. A j = pm_array p j \<or> A j = (pm_array p j)\<lparr>st_state := STST_FLUSHED\<rparr>) \<and>
     (fl = NO_FLUSHED \<longrightarrow> A = pm_array p \<and> sn_flushed_num (pm_snippet p s) = NO_FLUSHED) \<and>
     (sn_start_index (pm_snippet p s) = sn_index (pm_snippet p s) \<longrightarrow> fl = sn_flushed_num (pm_snippet p s)) \<and>
     snip_out p' s = map (flush_e fi) (snip_out p s))"

lemma entry_ok_flushed: "entry_ok e \<Longrightarrow> entry_ok (e\<lparr>st_state := STST_FLUSHED\<rparr>)"
  by (simp add: entry_ok_def)

lemma in_bounds_flushed [simp]: "in_bounds l h (e\<lparr>st_state := x\<rparr>) = in_bounds l h e"
  by (simp add: in_bounds_def)

lemma snip_flushed_ok:
  assumes "snip_flushed fi s p p'" "snip_ok p s"
  shows "snip_ok p' s"
proof -
  obtain A fl where p': "p' = p\<lparr>pm_array := A, pm_snippet := (pm_snippet p)(s := (pm_snippet p s)\<lparr>sn_flushed_num := fl\<rparr>),
       pm_redundant_flushes := pm_redundant_flushes p @ warned p (again fi (snip_out p s))\<rparr>"
    and A: "\<forall>j. A j = pm_array p j \<or> A j = (pm_array p j)\<lparr>st_state := STST_FLUSHED\<rparr>"
    and fl: "fl = NO_FLUSHED \<longrightarrow> A = pm_array p \<and> sn_flushed_num (pm_snippet p s) = NO_FLUSHED"
    using assms(1) unfolding snip_flushed_def by blast
  have "entry_ok (A i) \<and> in_bounds l h (A i)" if "entry_ok (pm_array p i) \<and> in_bounds l h (pm_array p i)" for i l h
    using that A [rule_format, of i] entry_ok_flushed by auto
  then show ?thesis
    using assms(2) fl by (auto simp: snip_ok_def Let_def p')
qed

lemma mark_flush_e:
  assumes "entry_ok e"
  shows "mark (if touched a fi e then a\<lparr>sn_flushed_num := PART_FLUSHED\<rparr> else a)
      (if touched a fi e then e\<lparr>st_state := STST_FLUSHED\<rparr> else e) = flush_e fi (mark a e)"
  using assms by (auto simp: mark_def flush_e_def touched_def overlaps_e_def entry_ok_def)

lemma flush_snippet_loop:
  assumes ok: "snip_ok p s" and fi: "rkey fi" and wh: "whole fi (snip_out p s)"
    and rm: "room p (length (snip_out p s))"
    and n: "n = sn_index (pm_snippet p s)" "i = sn_start_index (pm_snippet p s)"
  shows "flush_entries (3 * (n - i) + 1) en fi s i (p, v) =
      Inr (flush_upd fi s i n p, v \<or> (\<exists>e \<in> set (snip_out p s). overlaps_e fi e))"
    and "snip_flushed fi s p (flush_upd fi s i n p)"
proof -
  let ?a = "pm_snippet p s"
  have le: "i \<le> n" and ent: "\<forall>j. i \<le> j \<and> j < n \<longrightarrow> entry_ok (pm_array p j)"
    using ok by (auto simp: snip_ok_def Let_def n)
  have out: "snip_out p s = map (mark ?a \<circ> pm_array p) [i..<n]"
    by (simp add: snip_out_def n)
  have wh1: "\<forall>j. i \<le> j \<and> j < n \<longrightarrow> whole fi [pm_array p j]"
    using wh by (auto simp: out whole_def overlaps_e_def)
  have ov: "(\<exists>j \<in> {i..<n}. overlaps_e fi (pm_array p j)) = (\<exists>e \<in> set (snip_out p s). overlaps_e fi e)"
    by (auto simp: out)
  show "flush_entries (3 * (n - i) + 1) en fi s i (p, v) =
      Inr (flush_upd fi s i n p, v \<or> (\<exists>e \<in> set (snip_out p s). overlaps_e fi e))"
    using flush_entries_ok [of p s n i "3 * (n - i) + 1" fi en v] le fi rm ent wh1 n(1) unfolding ov
    by (simp add: out)
  define any where "any = (\<exists>j \<in> {i..<n}. touched ?a fi (pm_array p j))"
  define A where "A = (\<lambda>j. if i \<le> j \<and> j < n \<and> touched ?a fi (pm_array p j)
          then (pm_array p j)\<lparr>st_state := STST_FLUSHED\<rparr> else pm_array p j)"
  define a' where "a' = (if any then ?a\<lparr>sn_flushed_num := PART_FLUSHED\<rparr> else ?a)"
  have up: "flush_upd fi s i n p = p\<lparr>pm_array := A, pm_snippet := (pm_snippet p)(s := a'),
       pm_redundant_flushes := pm_redundant_flushes p @ warned p (again fi (snip_out p s))\<rparr>"
    by (simp add: flush_upd_def Let_def A_def a'_def any_def out)
  have a'fl: "a' = ?a\<lparr>sn_flushed_num := sn_flushed_num a'\<rparr>" by (simp add: a'_def)
  have "mark a' (A j) = flush_e fi (mark ?a (pm_array p j))" if "i \<le> j" "j < n" for j
    using that ent by (auto simp: A_def a'_def any_def mark_def flush_e_def touched_def overlaps_e_def entry_ok_def)
  moreover have "snip_out (flush_upd fi s i n p) s = map (mark a' \<circ> A) [i..<n]"
    unfolding up snip_out_def using n by (simp add: a'_def)
  ultimately have so: "snip_out (flush_upd fi s i n p) s = map (flush_e fi) (snip_out p s)"
    by (simp add: out)
  have no: "sn_flushed_num a' = NO_FLUSHED \<longrightarrow> A = pm_array p \<and> sn_flushed_num ?a = NO_FLUSHED"
    by (auto simp: a'_def A_def any_def fun_eq_iff)
  show "snip_flushed fi s p (flush_upd fi s i n p)"
    unfolding snip_flushed_def
  proof (intro exI [of _ A] exI [of _ "sn_flushed_num a'"] conjI)
    show "flush_upd fi s i n p = p\<lparr>pm_array := A, pm_snippet := (pm_snippet p)(s := ?a\<lparr>sn_flushed_num := sn_flushed_num a'\<rparr>),
       pm_redundant_flushes := pm_redundant_flushes p @ warned p (again fi (snip_out p s))\<rparr>"
      using up a'fl by metis
  qed (use so no n in \<open>auto simp: A_def a'_def any_def\<close>)
qed

lemma word_max_iff: "(w :: uword) = - 1 \<longleftrightarrow> unat w = 2 ^ 64 - 1"
  by (metis unat_max_word64 word_unat_eq_iff)

lemma flush_snippet_ok:
  assumes ok: "snip_ok p s" and fi: "rkey fi" "hi fi < 2 ^ 64 - 1" and wh: "whole fi (snip_out p s)"
    and rm: "room p (length (snip_out p s))"
  shows "\<exists>p'. flush_snippet en fi s (p, v) = Inr (p', v \<or> (\<exists>e \<in> set (snip_out p s). overlaps_e fi e)) \<and>
    snip_flushed fi s p p'"
proof -
  let ?a = "pm_snippet p s"
  define n i where "n = sn_index ?a" and "i = sn_start_index ?a"
  have le: "i \<le> n" and ent: "\<And>j. i \<le> j \<Longrightarrow> j < n \<Longrightarrow> entry_ok (pm_array p j) \<and>
      in_bounds (sn_min_add ?a) (sn_max_add ?a) (pm_array p j)"
    and emp: "i = n \<Longrightarrow> sn_min_add ?a = - 1 \<and> sn_max_add ?a = - 1"
    and dirty: "\<And>j. i \<le> j \<Longrightarrow> j < n \<Longrightarrow> sn_flushed_num ?a = NO_FLUSHED \<Longrightarrow> st_state (pm_array p j) = STST_DIRTY"
    using ok by (auto simp: snip_ok_def Let_def n_def i_def)
  have out: "snip_out p s = map (mark ?a \<circ> pm_array p) [i..<n]"
    by (simp add: snip_out_def n_def i_def)
  have fmax: "unat (st_addr fi + st_size fi) = hi fi" "unat (st_addr fi) = lo fi"
    using rkey_hi [OF fi(1)] by (simp_all add: lo_def)
  consider (all) "st_addr fi + st_size fi \<ge> sn_max_add ?a \<and> sn_min_add ?a \<ge> st_addr fi \<and> sn_flushed_num ?a = NO_FLUSHED"
    | (skip) "\<not> (st_addr fi + st_size fi \<ge> sn_max_add ?a \<and> sn_min_add ?a \<ge> st_addr fi \<and> sn_flushed_num ?a = NO_FLUSHED)"
        "st_addr fi + st_size fi < sn_min_add ?a \<or> sn_max_add ?a < st_addr fi"
    | (each) "\<not> (st_addr fi + st_size fi \<ge> sn_max_add ?a \<and> sn_min_add ?a \<ge> st_addr fi \<and> sn_flushed_num ?a = NO_FLUSHED)"
        "\<not> (st_addr fi + st_size fi < sn_min_add ?a \<or> sn_max_add ?a < st_addr fi)"
    by blast
  then show ?thesis
  proof cases
    case all
    have ne: "i < n"
    proof (rule ccontr)
      assume "\<not> i < n"
      then have "sn_max_add ?a = - 1" using emp le by simp
      then show False using all fmax fi(2) by (simp add: word_le_nat_alt)
    qed
    have ov: "overlaps_e fi (pm_array p j)" if "i \<le> j" "j < n" for j
    proof -
      have "bytes (pm_array p j) \<subseteq> bytes fi"
        using ent [OF that] all fmax by (auto simp: in_bounds_def bytes_def word_le_nat_alt)
      moreover have "lo (pm_array p j) \<in> bytes (pm_array p j)"
        using ent [OF that] by (auto simp: entry_ok_def rkey_def bytes_def hi_def)
      ultimately show ?thesis by (auto simp: overlaps_e_def)
    qed
    have na: "again fi (snip_out p s) = []"
      using dirty all by (auto simp: again_def out filter_empty_conv mark_def)
    have ex: "\<exists>e \<in> set (snip_out p s). overlaps_e fi e"
      using ne ov by (auto simp: out)
    let ?p' = "set_snippet s (?a\<lparr>sn_flushed_num := ALL_FLUSHED\<rparr>) p"
    have so: "snip_out ?p' s = map (flush_e fi) (snip_out p s)"
      using ov dirty all by (auto simp: snip_out_def set_snippet_def mark_def flush_e_def overlaps_e_def n_def i_def)
    have "snip_flushed fi s p ?p'"
      unfolding snip_flushed_def
      by (rule exI [of _ "pm_array p"], rule exI [of _ ALL_FLUSHED])
        (use so na ne in \<open>simp add: set_snippet_def warned_def n_def i_def\<close>)
    then show ?thesis
      using all ex by (auto simp: flush_snippet_def)
  next
    case skip
    have no: "\<not> overlaps_e fi e" if e: "e \<in> set (snip_out p s)" for e
    proof -
      obtain j where j: "i \<le> j" "j < n" "e = mark ?a (pm_array p j)"
        using e by (auto simp: out)
      have "hi fi \<le> lo e \<or> hi e \<le> lo fi"
        using ent [OF j(1,2)] skip fmax j(3) by (auto simp: in_bounds_def word_less_nat_alt)
      then show ?thesis by (auto simp: overlaps_e_def bytes_def)
    qed
    have "map (flush_e fi) (snip_out p s) = snip_out p s"
      using no by (intro map_idI) (auto simp: flush_e_def)
    moreover have "again fi (snip_out p s) = []"
      using no by (auto simp: again_def filter_empty_conv)
    ultimately have "snip_flushed fi s p p"
      unfolding snip_flushed_def
      by (intro exI [of _ "pm_array p"] exI [of _ "sn_flushed_num ?a"]) (simp add: warned_def)
    then show ?thesis
      using skip no by (auto simp: flush_snippet_def)
  next
    case each
    have "flush_snippet en fi s (p, v) = flush_entries (3 * (n - i) + 1) en fi s i (p, v)"
      using each unfolding flush_snippet_def Let_def n_def i_def prod.case by presburger
    then show ?thesis
      using flush_snippet_loop [OF ok fi(1) wh rm n_def i_def] by auto
  qed
qed

end
