(* ===== verification/PMC_Flush_Laws.thy ===== *)
theory PMC_Flush_Laws
  imports PMC_Flush_Entry_Laws
begin

text \<open>
  \<open>do_flush\<close> on a range that cuts no entry in two: all snippets, then the tree, then the register of
  superfluous flushes and the new snippet.
\<close>

text \<open>The other snippets are not affected.\<close>

lemma snip_flushed_other:
  assumes "array_ok p" "snip_flushed fi s p p'" "s \<le> pm_snippet_index p" "s' \<le> pm_snippet_index p" "s' \<noteq> s"
  shows "snip_out p' s' = snip_out p s'" "snip_ok p s' \<Longrightarrow> snip_ok p' s'" "pm_snippet p' s' = pm_snippet p s'"
proof -
  obtain A fl where p': "p' = p\<lparr>pm_array := A, pm_snippet := (pm_snippet p)(s := (pm_snippet p s)\<lparr>sn_flushed_num := fl\<rparr>),
       pm_redundant_flushes := pm_redundant_flushes p @ warned p (again fi (snip_out p s))\<rparr>"
    and A: "\<And>j. j < sn_start_index (pm_snippet p s) \<or> sn_index (pm_snippet p s) \<le> j \<Longrightarrow> A j = pm_array p j"
    using assms(2) unfolding snip_flushed_def by blast
  have same: "A j = pm_array p j" if "sn_start_index (pm_snippet p s') \<le> j" "j < sn_index (pm_snippet p s')" for j
  proof (cases "s' < s")
    case True
    then show ?thesis
      using A [of j] that snippets_disjoint [OF assms(1) True assms(3)] by auto
  next
    case False
    then have "s < s'" using assms(5) by simp
    then show ?thesis
      using A [of j] that snippets_disjoint [OF assms(1) _ assms(4)] by fastforce
  qed
  show sn: "pm_snippet p' s' = pm_snippet p s'" using assms(5) by (simp add: p')
  have arr: "pm_array p' = A" by (simp add: p')
  show "snip_out p' s' = snip_out p s'"
    unfolding snip_out_def sn arr using same by (intro map_cong) auto
  show "snip_ok p' s'" if "snip_ok p s'"
    using that same unfolding snip_ok_def Let_def sn arr by auto
qed

lemma snip_flushed_same:
  assumes "snip_flushed fi s p p'"
  shows "pm_stores p' = pm_stores p" "pm_snippet_index p' = pm_snippet_index p" "pm_opts p' = pm_opts p"
    "pm_min_store p' = pm_min_store p" "pm_max_store p' = pm_max_store p" "pm_db_index p' = pm_db_index p"
    "pm_superfluous_flushes p' = pm_superfluous_flushes p"
    "pm_redundant_flushes p' = pm_redundant_flushes p @ warned p (again fi (snip_out p s))"
    "sn_start_index (pm_snippet p' t) = sn_start_index (pm_snippet p t)"
    "sn_index (pm_snippet p' t) = sn_index (pm_snippet p t)"
    "sn_flushed_num (pm_snippet p t) \<noteq> NO_FLUSHED \<Longrightarrow> sn_flushed_num (pm_snippet p' t) \<noteq> NO_FLUSHED"
    "sn_start_index (pm_snippet p t) = sn_index (pm_snippet p t) \<Longrightarrow>
       sn_flushed_num (pm_snippet p' t) = sn_flushed_num (pm_snippet p t)"
  using assms unfolding snip_flushed_def by (auto split: if_splits)

lemma snip_flushed_array_ok:
  assumes "array_ok p" "snip_flushed fi s p p'" "s \<le> pm_snippet_index p"
  shows "array_ok p'"
proof -
  note same = snip_flushed_same [OF assms(2)]
  have "snip_ok p' t" if t: "t \<le> pm_snippet_index p" for t
  proof (cases "t = s")
    case True
    then show ?thesis using snip_flushed_ok [OF assms(2)] assms(1) t by (simp add: array_ok_def)
  next
    case False
    then show ?thesis using snip_flushed_other(2) [OF assms t False] assms(1) t by (simp add: array_ok_def)
  qed
  then show ?thesis
    using assms(1) by (simp add: array_ok_def same)
qed

text \<open>What the loop over the first \<open>m\<close> snippets has done.\<close>

definition frame :: "pmem_ops \<Rightarrow> pmem_ops \<Rightarrow> bool" where
  "frame p p' \<longleftrightarrow> (\<exists>A S R. p' = p\<lparr>pm_array := A, pm_snippet := S, pm_redundant_flushes := R\<rparr>)"

lemma frame_refl [simp]: "frame p p"
  unfolding frame_def by (intro exI [of _ "pm_array p"] exI [of _ "pm_snippet p"] exI [of _ "pm_redundant_flushes p"]) simp

lemma frame_trans: "frame p q \<Longrightarrow> frame q r \<Longrightarrow> frame p r"
  unfolding frame_def by (elim exE) (simp, blast)

lemma frame_snip_flushed: "snip_flushed fi s p p' \<Longrightarrow> frame p p'"
  by (auto simp: frame_def snip_flushed_def)

lemma frameD:
  assumes "frame p p'"
  shows "pm_stores p' = pm_stores p" "pm_snippet_index p' = pm_snippet_index p" "pm_opts p' = pm_opts p"
    "pm_min_store p' = pm_min_store p" "pm_max_store p' = pm_max_store p" "pm_db_index p' = pm_db_index p"
    "pm_superfluous_flushes p' = pm_superfluous_flushes p"
  using assms by (auto simp: frame_def)

definition prefix_out :: "pmem_ops \<Rightarrow> nat \<Rightarrow> pmem_st list" where
  "prefix_out p m = concat (map (snip_out p) [0..<m])"

lemma flush_snippets_ok:
  assumes "array_ok p" "rkey fi" "hi fi < 2 ^ 64 - 1" "whole fi (prefix_out p m)" "room p (length (prefix_out p m))"
    and "m \<le> Suc (pm_snippet_index p)"
  shows "\<exists>p'. foldM (flush_snippet en fi) [0..<m] (p, v) = Inr (p', v \<or> (\<exists>e \<in> set (prefix_out p m). overlaps_e fi e)) \<and>
    frame p p' \<and> array_ok p' \<and>
    (\<forall>s \<le> pm_snippet_index p. snip_out p' s = (if s < m then map (flush_e fi) (snip_out p s) else snip_out p s)) \<and>
    pm_redundant_flushes p' = pm_redundant_flushes p @ warned p (again fi (prefix_out p m)) \<and>
    (\<forall>s. sn_start_index (pm_snippet p' s) = sn_start_index (pm_snippet p s) \<and>
         sn_index (pm_snippet p' s) = sn_index (pm_snippet p s) \<and>
         (sn_start_index (pm_snippet p s) = sn_index (pm_snippet p s) \<longrightarrow>
            sn_flushed_num (pm_snippet p' s) = sn_flushed_num (pm_snippet p s)))"
  using assms(4,5,6)
proof (induction m)
  case 0
  then show ?case using assms(1) by (auto simp: prefix_out_def again_def warned_def)
next
  case (Suc m)
  have pre: "prefix_out p (Suc m) = prefix_out p m @ snip_out p m"
    by (simp add: prefix_out_def)
  have wh: "whole fi (prefix_out p m)" "whole fi (snip_out p m)"
    using Suc.prems(1) by (auto simp: pre whole_def)
  have "room p (length (prefix_out p m))" using Suc.prems(2) by (auto simp: pre room_def)
  then obtain q where q: "foldM (flush_snippet en fi) [0..<m] (p, v) = Inr (q, v \<or> (\<exists>e \<in> set (prefix_out p m). overlaps_e fi e))"
    "frame p q" "array_ok q"
    "\<forall>s \<le> pm_snippet_index p. snip_out q s = (if s < m then map (flush_e fi) (snip_out p s) else snip_out p s)"
    "pm_redundant_flushes q = pm_redundant_flushes p @ warned p (again fi (prefix_out p m))"
    "\<forall>s. sn_start_index (pm_snippet q s) = sn_start_index (pm_snippet p s) \<and> sn_index (pm_snippet q s) = sn_index (pm_snippet p s) \<and>
         (sn_start_index (pm_snippet p s) = sn_index (pm_snippet p s) \<longrightarrow>
            sn_flushed_num (pm_snippet q s) = sn_flushed_num (pm_snippet p s))"
    using Suc.IH wh(1) Suc.prems(3) by auto
  have m: "m \<le> pm_snippet_index p" "snip_out q m = snip_out p m" using Suc.prems(3) q(4) by auto
  have okm: "snip_ok q m" using q(3) m(1) frameD(2) [OF q(2)] by (simp add: array_ok_def)
  have "length (again fi (prefix_out p m)) \<le> length (prefix_out p m)" by (simp add: again_def)
  then have rm: "room q (length (snip_out q m))"
    using Suc.prems(2) q(5) m(2) frameD(3) [OF q(2)] by (auto simp: room_def pre warned_def)
  have whq: "whole fi (snip_out q m)" using wh(2) m(2) by simp
  obtain r where r: "flush_snippet en fi m (q, v \<or> (\<exists>e \<in> set (prefix_out p m). overlaps_e fi e)) =
      Inr (r, (v \<or> (\<exists>e \<in> set (prefix_out p m). overlaps_e fi e)) \<or> (\<exists>e \<in> set (snip_out q m). overlaps_e fi e))"
    "snip_flushed fi m q r"
    using flush_snippet_ok [OF okm assms(2,3) whq rm] by blast
  have ovl: "(v \<or> (\<exists>e \<in> set (prefix_out p m). overlaps_e fi e)) \<or> (\<exists>e \<in> set (snip_out q m). overlaps_e fi e)
      \<longleftrightarrow> v \<or> (\<exists>e \<in> set (prefix_out p (Suc m)). overlaps_e fi e)"
    by (auto simp: pre m(2))
  have fold: "foldM (flush_snippet en fi) [0..<Suc m] (p, v) = Inr (r, v \<or> (\<exists>e \<in> set (prefix_out p (Suc m)). overlaps_e fi e))"
    using q(1) r(1) unfolding ovl by (simp add: foldM_append)
  note sq = snip_flushed_same [OF r(2)]
  have mq: "m \<le> pm_snippet_index q" using m(1) frameD(2) [OF q(2)] by simp
  have "snip_out r s = (if s < Suc m then map (flush_e fi) (snip_out p s) else snip_out p s)"
    if s: "s \<le> pm_snippet_index p" for s
  proof (cases "s = m")
    case True
    then show ?thesis using r(2) m(2) by (auto simp: snip_flushed_def)
  next
    case False
    then show ?thesis
      using snip_flushed_other(1) [OF q(3) r(2) mq _ False] s frameD(2) [OF q(2)] q(4) by auto
  qed
  moreover have "pm_redundant_flushes r = pm_redundant_flushes p @ warned p (again fi (prefix_out p (Suc m)))"
    using sq(8) q(5) m(2) frameD(3) [OF q(2)] by (simp add: pre again_append warned_def)
  moreover have "array_ok r" using snip_flushed_array_ok [OF q(3) r(2) mq] .
  moreover have "frame p r" using frame_trans [OF q(2) frame_snip_flushed [OF r(2)]] .
  ultimately show ?case using fold q(6) sq(9,10,12) by auto
qed

section \<open>Flush of the tree\<close>

lemma next_store_Nil:
  assumes "index_set (pm_stores p)" "rest_of (pm_stores p) = []"
  shows "\<exists>T. next_store p = Inr (None, p\<lparr>pm_stores := T\<rparr>) \<and> index_set T \<and> elems T = elems (pm_stores p)"
proof -
  let ?T = "(pm_stores p)\<lparr>os_stack := []\<rparr>"
  have "index_set ?T" "elems ?T = elems (pm_stores p)"
    using assms(1) by (simp_all add: oset_defs)
  then show ?thesis
    using Next_None [OF assms] by (auto simp: next_store_def)
qed

lemma next_store_Cons:
  assumes "index_set (pm_stores p)" "rest_of (pm_stores p) = x # xs"
  shows "\<exists>T. next_store p = Inr (Some x, p\<lparr>pm_stores := T\<rparr>) \<and> index_set T \<and> elems T = elems (pm_stores p) \<and> rest_of T = xs"
  using Next_Some [OF assms] by (auto simp: next_store_def)

lemma flush_tree_entry_ok:
  assumes "entry_ok e" "rkey fi" "whole fi [e]" "room p 1"
  shows "flush_tree_entry fi e (p, v) = Inr
    (p\<lparr>pm_stores := (if flush_e fi e = e then pm_stores p else os_write e (flush_e fi e) (pm_stores p)),
       pm_redundant_flushes := pm_redundant_flushes p @ warned p (again fi [e])\<rparr>, v \<or> overlaps_e fi e)"
proof (cases "overlaps_e fi e")
  case False
  then show ?thesis
    using assms overlaps_cmp [of fi e]
    by (simp add: flush_tree_entry_def flush_e_def again_def warned_def)
next
  case True
  note ns = whole_no_split [OF assms(3) _ True assms(2)]
  have ok: "rkey e" "cmp_pmem_st fi e = 0" "st_state e \<noteq> STST_CLEAN"
    using assms True overlaps_cmp [of fi e] by (auto simp: entry_ok_def)
  show ?thesis
  proof (cases "st_state e = STST_DIRTY")
    case d: True
    then have ne: "e\<lparr>st_state := STST_FLUSHED\<rparr> \<noteq> e" by (cases e) auto
    show ?thesis
      using d ns ok True ne
      by (simp add: flush_tree_entry_def tree_split_before_def tree_split_behind_def flush_e_def again_def warned_def)
  next
    case f: False
    then have "e\<lparr>st_state := STST_FLUSHED\<rparr> = e" using mark_state_eq [OF _ ok(3)] by blast
    then show ?thesis
      using f True ok add_redundant_flush_ok [OF assms(4), of e]
      by (simp add: flush_tree_entry_def flush_e_def again_def)
  qed
qed

lemma next_flush_Some: "next_store p = Inr (x, q) \<Longrightarrow> next_flush (p, v) = Inr (x, (q, v))"
  by (simp add: next_flush_def)

lemma flush_tree_loop_ok:
  assumes "index_set (pm_stores p)" "elems (pm_stores p) = ys @ rest_of (pm_stores p)" "rkey fi"
    and "\<forall>e \<in> set (rest_of (pm_stores p)). entry_ok e" "whole fi (rest_of (pm_stores p))"
    and "room p (length (rest_of (pm_stores p)))" "length (rest_of (pm_stores p)) < f"
  shows "\<exists>T. while_next f next_flush (flush_tree_entry fi) (p, v) =
      Inr (p\<lparr>pm_stores := T, pm_redundant_flushes := pm_redundant_flushes p @ warned p (again fi (rest_of (pm_stores p)))\<rparr>,
        v \<or> (\<exists>e \<in> set (rest_of (pm_stores p)). overlaps_e fi e)) \<and>
    index_set T \<and> elems T = ys @ map (flush_e fi) (rest_of (pm_stores p))"
  using assms
proof (induction f arbitrary: p v ys)
  case 0
  then show ?case by simp
next
  case (Suc f)
  show ?case
  proof (cases "rest_of (pm_stores p)")
    case Nil
    then show ?thesis
      using next_store_Nil [OF Suc.prems(1) Nil] Suc.prems(2)
      by (auto simp: next_flush_def again_def warned_def)
  next
    case (Cons e xs)
    obtain T where T: "next_store p = Inr (Some e, p\<lparr>pm_stores := T\<rparr>)" "index_set T"
      "elems T = ys @ e # xs" "rest_of T = xs"
      using next_store_Cons [OF Suc.prems(1) Cons] Suc.prems(2) Cons by auto
    let ?p1 = "p\<lparr>pm_stores := T\<rparr>"
    let ?T2 = "if flush_e fi e = e then T else os_write e (flush_e fi e) T"
    let ?p2 = "p\<lparr>pm_stores := ?T2, pm_redundant_flushes := pm_redundant_flushes p @ warned p (again fi [e])\<rparr>"
    have e: "entry_ok e" "whole fi [e]" "room ?p1 1"
      using Suc.prems(4-6) Cons by (auto simp: whole_def room_def)
    have body: "flush_tree_entry fi e (?p1, v) = Inr (?p2, v \<or> overlaps_e fi e)"
      using flush_tree_entry_ok [OF e(1) Suc.prems(3) e(2,3), of v] by (simp add: warned_def)
    have "st_index (flush_e fi e) = st_index e" by (simp add: flush_e_def)
    then have T2: "index_set ?T2" "elems ?T2 = ys @ flush_e fi e # xs" "rest_of ?T2 = xs"
      using index_set_write [OF T(2,3)] T by auto
    have "length (warned p (again fi [e])) \<le> 1" by (simp add: warned_def again_def)
    then have rm: "room ?p2 (length xs)"
      using Suc.prems(6) Cons by (auto simp: room_def)
    have "\<exists>T'. while_next f next_flush (flush_tree_entry fi) (?p2, v \<or> overlaps_e fi e) =
      Inr (?p2\<lparr>pm_stores := T', pm_redundant_flushes := pm_redundant_flushes ?p2 @ warned ?p2 (again fi (rest_of (pm_stores ?p2)))\<rparr>,
        (v \<or> overlaps_e fi e) \<or> (\<exists>e \<in> set (rest_of (pm_stores ?p2)). overlaps_e fi e)) \<and>
      index_set T' \<and> elems T' = (ys @ [flush_e fi e]) @ map (flush_e fi) (rest_of (pm_stores ?p2))"
    proof (rule Suc.IH)
      show "elems (pm_stores ?p2) = (ys @ [flush_e fi e]) @ rest_of (pm_stores ?p2)"
        using T2(2,3) by (simp del: elems_write rest_of_write)
    qed (use T2 rm Suc.prems Cons in \<open>auto simp: whole_def simp del: elems_write rest_of_write\<close>)
    then obtain T' where T': "while_next f next_flush (flush_tree_entry fi) (?p2, v \<or> overlaps_e fi e) =
      Inr (?p2\<lparr>pm_stores := T', pm_redundant_flushes := pm_redundant_flushes ?p2 @ warned ?p2 (again fi xs)\<rparr>,
        (v \<or> overlaps_e fi e) \<or> (\<exists>e \<in> set xs. overlaps_e fi e))"
      "index_set T'" "elems T' = ys @ flush_e fi e # map (flush_e fi) xs"
      using T2(3) by (auto simp del: elems_write rest_of_write)
    have "while_next (Suc f) next_flush (flush_tree_entry fi) (p, v) =
        while_next f next_flush (flush_tree_entry fi) (?p2, v \<or> overlaps_e fi e)"
      using next_flush_Some [OF T(1), of v] body by simp
    also have "\<dots> = Inr (?p2\<lparr>pm_stores := T', pm_redundant_flushes := pm_redundant_flushes ?p2 @ warned ?p2 (again fi xs)\<rparr>,
        (v \<or> overlaps_e fi e) \<or> (\<exists>e \<in> set xs. overlaps_e fi e))" by (rule T'(1))
    also have "?p2\<lparr>pm_stores := T', pm_redundant_flushes := pm_redundant_flushes ?p2 @ warned ?p2 (again fi xs)\<rparr> =
        p\<lparr>pm_stores := T', pm_redundant_flushes := pm_redundant_flushes p @ warned p (again fi (e # xs))\<rparr>"
      by (simp add: warned_def again_def)
    also have "((v \<or> overlaps_e fi e) \<or> (\<exists>e \<in> set xs. overlaps_e fi e)) = (v \<or> (\<exists>e \<in> set (e # xs). overlaps_e fi e))"
      by auto
    finally show ?thesis
      unfolding Cons using T'(2,3) by (intro exI [of _ T']) simp
  qed
qed

lemma flush_tree_ok:
  assumes "tree_ok p" "rkey fi" "whole fi (elems (pm_stores p))" "length (elems (pm_stores p)) < OSET_ITER_MAX"
    and "room p (length (elems (pm_stores p)))"
  shows "\<exists>T. flush_tree fi (p, v) =
      Inr (p\<lparr>pm_stores := T, pm_redundant_flushes := pm_redundant_flushes p @ warned p (again fi (elems (pm_stores p)))\<rparr>,
        v \<or> (\<exists>e \<in> set (elems (pm_stores p)). overlaps_e fi e)) \<and>
    index_set T \<and> elems T = map (flush_e fi) (elems (pm_stores p))"
proof (cases "st_addr fi > pm_max_store p \<or> st_addr fi + st_size fi < pm_min_store p")
  case True
  have no: "\<not> overlaps_e fi e" if "e \<in> set (elems (pm_stores p))" for e
  proof -
    have "in_bounds (pm_min_store p) (pm_max_store p) e" using assms(1) that by (auto simp: tree_ok_def)
    then have "hi fi \<le> lo e \<or> hi e \<le> lo fi"
      using True rkey_hi [OF assms(2)] by (auto simp: in_bounds_def word_less_nat_alt lo_def)
    then show ?thesis by (auto simp: overlaps_e_def bytes_def)
  qed
  have "map (flush_e fi) (elems (pm_stores p)) = elems (pm_stores p)"
    using no by (intro map_idI) (auto simp: flush_e_def)
  moreover have "again fi (elems (pm_stores p)) = []"
    using no by (auto simp: again_def filter_empty_conv)
  ultimately show ?thesis
    using True no assms(1)
    by (intro exI [of _ "pm_stores p"]) (auto simp: flush_tree_def warned_def tree_ok_def)
next
  case False
  let ?q = "reset_stores p"
  have iset: "index_set (pm_stores p)" using assms(1) by (simp add: tree_ok_def)
  note it = ResetIter_correct [OF iset assms(4)]
  have q: "index_set (pm_stores ?q)" "elems (pm_stores ?q) = [] @ rest_of (pm_stores ?q)"
    "rest_of (pm_stores ?q) = elems (pm_stores p)"
    using it by (simp_all add: reset_stores_def)
  have "OSetGen_Size (pm_stores p) = length (elems (pm_stores p))" by (rule Size_correct [OF iset])
  then obtain T where T: "while_next (4 * OSetGen_Size (pm_stores p) + 1) next_flush (flush_tree_entry fi) (?q, v) =
      Inr (?q\<lparr>pm_stores := T, pm_redundant_flushes := pm_redundant_flushes ?q @ warned ?q (again fi (rest_of (pm_stores ?q)))\<rparr>,
        v \<or> (\<exists>e \<in> set (rest_of (pm_stores ?q)). overlaps_e fi e))"
    "index_set T" "elems T = [] @ map (flush_e fi) (rest_of (pm_stores ?q))"
    using flush_tree_loop_ok [OF q(1,2) assms(2), of "4 * OSetGen_Size (pm_stores p) + 1" v]
      assms(1,3,5) q(3) by (fastforce simp: tree_ok_def room_def reset_stores_def)
  have "flush_tree fi (p, v) = while_next (4 * OSetGen_Size (pm_stores p) + 1) next_flush (flush_tree_entry fi) (?q, v)"
    using False by (simp add: flush_tree_def)
  then show ?thesis
    using T unfolding q(3) by (intro exI [of _ T]) (simp add: reset_stores_def warned_def)
qed

text \<open>A flush and a fence leave everything but the bookkeeping of stores alone.\<close>

definition frame2 :: "pmem_ops \<Rightarrow> pmem_ops \<Rightarrow> bool" where
  "frame2 p p' \<longleftrightarrow> pm_opts p' = pm_opts p \<and> pm_mappings p' = pm_mappings p \<and> pm_min_map p' = pm_min_map p \<and>
     pm_max_map p' = pm_max_map p \<and> pm_multiple_stores p' = pm_multiple_stores p \<and> pm_epoch p' = pm_epoch p \<and>
     pm_epoch_fence p' = pm_epoch_fence p \<and> pm_redundant_fence p' = pm_redundant_fence p \<and>
     pm_epoch_durability_reg p' = pm_epoch_durability_reg p \<and>
     pm_order_guarantee_reg p' = pm_order_guarantee_reg p \<and> pm_lack_ordering_reg p' = pm_lack_ordering_reg p"

lemma log_out_sel [simp]:
  "pm_stores (log_out ms p) = pm_stores p" "pm_snippet (log_out ms p) = pm_snippet p"
  "pm_array (log_out ms p) = pm_array p" "pm_snippet_index (log_out ms p) = pm_snippet_index p"
  "pm_opts (log_out ms p) = pm_opts p" "pm_min_store (log_out ms p) = pm_min_store p"
  "pm_max_store (log_out ms p) = pm_max_store p" "pm_db_index (log_out ms p) = pm_db_index p"
  "pm_redundant_flushes (log_out ms p) = pm_redundant_flushes p"
  "pm_superfluous_flushes (log_out ms p) = pm_superfluous_flushes p"
  by (simp_all add: log_out_def)

lemma wf_cong:
  assumes "pm_stores p' = pm_stores p" "pm_snippet p' = pm_snippet p" "pm_array p' = pm_array p"
    "pm_snippet_index p' = pm_snippet_index p" "pm_min_store p' = pm_min_store p" "pm_max_store p' = pm_max_store p"
    "pm_db_index p' = pm_db_index p"
  shows "pmem_wf p' = pmem_wf p" "array_ok p' = array_ok p" "out_entries p' = out_entries p" "snip_out p' = snip_out p"
    "tree_ok p' = tree_ok p" "prefix_out p' = prefix_out p"
proof -
  show so: "snip_out p' = snip_out p" using assms(2,3) by (simp add: snip_out_def fun_eq_iff)
  show ao: "array_ok p' = array_ok p" using assms(2-4) by (simp add: array_ok_def snip_ok_def)
  show tk: "tree_ok p' = tree_ok p" using assms(1,5-7) by (simp add: tree_ok_def)
  show "pmem_wf p' = pmem_wf p" using ao tk assms(2,4) by (simp add: pmem_wf_def)
  show "out_entries p' = out_entries p" using so assms(1,4) by (simp add: out_entries_def)
  show "prefix_out p' = prefix_out p" by (intro ext) (simp only: prefix_out_def so)
qed

lemma wf_log [simp]: "pmem_wf (log_out ms p) = pmem_wf p" "out_entries (log_out ms p) = out_entries p"
  by (rule wf_cong; simp)+

lemma frame2_log [simp]: "frame2 p (log_out ms p)" "frame2 p p"
  by (simp_all add: frame2_def log_out_def)

lemma OSET_ITER_MAX_array: "OSET_ITER_MAX < MAX_ARRAY_NUM"
  by (simp add: OSET_ITER_MAX_def MAX_ARRAY_NUM_def)

lemma init_snippet_ok:
  assumes "array_ok p" "tree_ok p" "sn_flushed_num (current p) \<noteq> NO_FLUSHED"
    "sn_start_index (current p) < sn_index (current p)" "sn_index (current p) < OSET_ITER_MAX"
  shows "\<exists>p'. init_snippet_info p = Inr p' \<and> pmem_wf p' \<and> out_entries p' = out_entries p \<and> frame2 p p' \<and>
    pm_redundant_flushes p' = pm_redundant_flushes p \<and> pm_superfluous_flushes p' = pm_superfluous_flushes p"
proof -
  let ?k = "Suc (pm_snippet_index p)"
  let ?p' = "set_snippet ?k (empty_snippet (sn_index (current p))) (p\<lparr>pm_snippet_index := ?k\<rparr>)"
  have "pm_snippet_index p \<le> sn_start_index (current p)"
    by (rule snippet_count [OF assms(1)]) simp
  then have in_range: "\<not> MAX_ARRAY_NUM \<le> ?k"
    using assms(4,5) OSET_ITER_MAX_array by simp
  have old: "pm_snippet ?p' s = pm_snippet p s" if "s \<le> pm_snippet_index p" for s
    using that by (simp add: set_snippet_def)
  have so: "snip_out ?p' s = snip_out p s" if "s \<le> pm_snippet_index p" for s
    using that unfolding snip_out_def old [OF that] by (simp add: set_snippet_def)
  have sk: "snip_ok ?p' s" if "s \<le> pm_snippet_index p" for s
    using that assms(1) unfolding snip_ok_def old [OF that] by (simp add: set_snippet_def array_ok_def snip_ok_def)
  have new: "pm_snippet ?p' ?k = empty_snippet (sn_index (current p))" "snip_out ?p' ?k = []" "snip_ok ?p' ?k"
    by (auto simp: set_snippet_def snip_out_def snip_ok_def empty_snippet_def Let_def)
  have idx: "pm_snippet_index ?p' = ?k" by (simp add: set_snippet_def)
  have "array_ok ?p'"
    unfolding array_ok_def idx
  proof (intro conjI allI impI)
    show "sn_start_index (pm_snippet ?p' 0) = 0" using assms(1) old [of 0] by (simp add: array_ok_def)
    show "snip_ok ?p' s" if "s \<le> ?k" for s using that sk new(3) le_Suc_eq by auto
    fix s assume s: "s < ?k"
    show "sn_start_index (pm_snippet ?p' (Suc s)) = sn_index (pm_snippet ?p' s)"
      using s assms(1) old [of s] old [of "Suc s"] new(1) less_Suc_eq_le [of s "pm_snippet_index p"]
      by (cases "s = pm_snippet_index p") (auto simp: array_ok_def empty_snippet_def)
    show "sn_start_index (pm_snippet ?p' s) < sn_index (pm_snippet ?p' s)"
      "sn_flushed_num (pm_snippet ?p' s) \<noteq> NO_FLUSHED"
      using s assms(1,3,4) old [of s] by (cases "s = pm_snippet_index p"; simp add: array_ok_def)+
  qed
  moreover have "tree_ok ?p'" using assms(2) by (simp add: tree_ok_def set_snippet_def)
  ultimately have "pmem_wf ?p'" using new(1) idx by (simp add: pmem_wf_def empty_snippet_def)
  moreover have "out_entries ?p' = out_entries p"
  proof -
    have "concat (map (snip_out ?p') [0..<Suc ?k]) = concat (map (snip_out ?p') [0..<?k])"
      using new(2) by simp
    also have "map (snip_out ?p') [0..<?k] = map (snip_out p) [0..<?k]"
      using so by (intro map_cong) auto
    finally show ?thesis
      unfolding out_entries_def idx by (simp add: set_snippet_def)
  qed
  moreover have "init_snippet_info p = Inr ?p'"
    using in_range by (simp add: init_snippet_info_def)
  ultimately show ?thesis by (auto simp: frame2_def set_snippet_def)
qed

lemma tree_ok_flush:
  assumes "tree_ok p" "index_set T" "elems T = map (flush_e fi) (elems (pm_stores p))"
    and "pm_stores p' = T" "pm_min_store p' = pm_min_store p" "pm_max_store p' = pm_max_store p" "pm_db_index p' = pm_db_index p"
  shows "tree_ok p'"
proof -
  have "st_index (flush_e fi e) = st_index e" "in_bounds l h (flush_e fi e) = in_bounds l h e"
    "entry_ok e \<Longrightarrow> entry_ok (flush_e fi e)" for e l h
    by (auto simp: flush_e_def entry_ok_def)
  then show ?thesis using assms by (auto simp: tree_ok_def)
qed

lemma out_entries_prefix: "out_entries p = prefix_out p (Suc (pm_snippet_index p)) @ elems (pm_stores p)"
  by (simp add: out_entries_def prefix_out_def)

definition strands_off :: "nat \<Rightarrow> pmem_ops \<Rightarrow> bool" where
  "strands_off sid p \<longleftrightarrow> \<not> (op_lack_ordering_trand (pm_opts p) \<and> 0 < sid)"

definition superfluous :: "env \<Rightarrow> pmem_st \<Rightarrow> pmem_st list \<Rightarrow> pmem_st list" where
  "superfluous en fi es = (if \<exists>e \<in> set es. overlaps_e fi e then [] else [fi\<lparr>st_context := en_context en\<rparr>])"

theorem do_flush_spec:
  assumes pmem_wf: "pmem_wf p" and sid: "strands_off sid p" and fi: "fi = flush_range base sze p"
    and key: "rkey fi" "hi fi < 2 ^ 64 - 1" and wh: "whole fi (out_entries p)"
    and small: "length (out_entries p) < OSET_ITER_MAX" and rm: "room p (length (out_entries p))"
    and rs: "op_check_flush (pm_opts p) \<longrightarrow> length (pm_superfluous_flushes p) < MAX_FLUSH_ERROR_EVENTS"
  shows "\<exists>p'. do_flush en sid base sze p = Inr p' \<and> pmem_wf p' \<and> frame2 p p' \<and>
    out_entries p' = map (flush_e fi) (out_entries p) \<and>
    pm_redundant_flushes p' = pm_redundant_flushes p @ warned p (again fi (out_entries p)) \<and>
    pm_superfluous_flushes p' = pm_superfluous_flushes p @ warned p (superfluous en fi (out_entries p))"
proof -
  let ?k = "pm_snippet_index p"
  define p0 where "p0 = (if op_log_stores (pm_opts p)
                then log_out [Emit ''|FLUSH;0x%lx;0x%llx'' [st_addr fi, st_size fi]] p else p)"
  have p0: "pmem_wf p0" "out_entries p0 = out_entries p" "frame2 p p0" "pm_opts p0 = pm_opts p" "pm_snippet_index p0 = ?k"
    "pm_redundant_flushes p0 = pm_redundant_flushes p" "pm_superfluous_flushes p0 = pm_superfluous_flushes p"
    "pm_stores p0 = pm_stores p"
    using pmem_wf by (auto simp: p0_def)
  have so: "check_strand_order en sid fi p0 = Inr p0"
    using sid by (auto simp: check_strand_order_def strands_off_def p0(4))
  have ok0: "array_ok p0" "tree_ok p0" "sn_flushed_num (current p0) = NO_FLUSHED" using p0(1) by (simp_all add: pmem_wf_def)
  define pre where "pre = prefix_out p0 (Suc ?k)"
  define tr where "tr = elems (pm_stores p0)"
  have out: "out_entries p = pre @ tr"
    using out_entries_prefix [of p0] p0 by (simp add: pre_def tr_def)
  have wh2: "whole fi pre" "whole fi tr" using wh by (auto simp: out whole_def)
  have rm0: "room p0 (length pre)" using rm by (auto simp: room_def out p0)
  obtain p1 where p1: "foldM (flush_snippet en fi) [0..<Suc ?k] (p0, False) = Inr (p1, False \<or> (\<exists>e \<in> set pre. overlaps_e fi e))"
    "frame p0 p1" "array_ok p1"
    "\<forall>s \<le> ?k. snip_out p1 s = (if s < Suc ?k then map (flush_e fi) (snip_out p0 s) else snip_out p0 s)"
    "pm_redundant_flushes p1 = pm_redundant_flushes p0 @ warned p0 (again fi pre)"
    "\<forall>s. sn_start_index (pm_snippet p1 s) = sn_start_index (pm_snippet p0 s) \<and> sn_index (pm_snippet p1 s) = sn_index (pm_snippet p0 s) \<and>
         (sn_start_index (pm_snippet p0 s) = sn_index (pm_snippet p0 s) \<longrightarrow>
            sn_flushed_num (pm_snippet p1 s) = sn_flushed_num (pm_snippet p0 s))"
    using flush_snippets_ok [OF ok0(1) key wh2(1) [unfolded pre_def] rm0 [unfolded pre_def], of en False]
    unfolding pre_def [symmetric] p0(5) by blast
  note f1 = frameD [OF p1(2)]
  have tree1: "tree_ok p1" using ok0(2) f1 by (simp add: tree_ok_def)
  have tr1: "elems (pm_stores p1) = tr" by (simp add: f1 tr_def)
  have "length (again fi pre) \<le> length pre" by (simp add: again_def)
  then have rm1: "room p1 (length (elems (pm_stores p1)))"
    using rm p1(5) by (auto simp: room_def f1(3) p0 out tr1 warned_def)
  have small1: "length (elems (pm_stores p1)) < OSET_ITER_MAX" using small by (simp add: tr1 out)
  define v where "v = ((\<exists>e \<in> set pre. overlaps_e fi e) \<or> (\<exists>e \<in> set tr. overlaps_e fi e))"
  have wh1: "whole fi (elems (pm_stores p1))" using wh2(2) tr1 by simp
  obtain T where T: "flush_tree fi (p1, False \<or> (\<exists>e \<in> set pre. overlaps_e fi e)) =
      Inr (p1\<lparr>pm_stores := T, pm_redundant_flushes := pm_redundant_flushes p1 @ warned p1 (again fi tr)\<rparr>, v)"
    "index_set T" "elems T = map (flush_e fi) tr"
    using flush_tree_ok [OF tree1 key(1) wh1 small1 rm1, of "False \<or> (\<exists>e \<in> set pre. overlaps_e fi e)"]
    unfolding tr1 v_def by auto
  define p2 where "p2 = p1\<lparr>pm_stores := T, pm_redundant_flushes := pm_redundant_flushes p1 @ warned p1 (again fi tr)\<rparr>"
  have tree2: "tree_ok p2" using tree_ok_flush [OF tree1 T(2), of fi p2] T(3) tr1 by (simp add: p2_def)
  have arr2: "array_ok p2" using p1(3) by (simp add: p2_def array_ok_def snip_ok_def)
  have snip2: "snip_out p2 = snip_out p1" by (simp add: p2_def snip_out_def fun_eq_iff)
  have "out_entries p2 = concat (map (\<lambda>s. map (flush_e fi) (snip_out p0 s)) [0..<Suc ?k]) @ map (flush_e fi) tr"
  proof -
    have "map (snip_out p1) [0..<Suc ?k] = map (\<lambda>s. map (flush_e fi) (snip_out p0 s)) [0..<Suc ?k]"
      using p1(4) by (intro map_cong) auto
    moreover have "pm_snippet_index p2 = ?k" "elems (pm_stores p2) = map (flush_e fi) tr"
      using f1(2) p0(5) T(3) by (simp_all add: p2_def)
    ultimately show ?thesis unfolding out_entries_def snip2 by (simp only:)
  qed
  also have "\<dots> = map (flush_e fi) (out_entries p)"
    unfolding out pre_def prefix_out_def by (simp add: map_concat comp_def)
  finally have out2: "out_entries p2 = map (flush_e fi) (out_entries p)" .
  have rf2: "pm_redundant_flushes p2 = pm_redundant_flushes p @ warned p (again fi (out_entries p))"
    using p1(5) p0 f1(3) by (simp add: p2_def out again_append warned_def)
  have o2: "pm_opts p2 = pm_opts p" "pm_superfluous_flushes p2 = pm_superfluous_flushes p"
    using f1 p0 by (simp_all add: p2_def)
  have fr2: "frame2 p p2" using p1(2) p0(3) by (auto simp: frame_def frame2_def p2_def)
  define p3 where "p3 = p2\<lparr>pm_superfluous_flushes := pm_superfluous_flushes p @ warned p (superfluous en fi (out_entries p))\<rparr>"
  have "(\<exists>e \<in> set (out_entries p). overlaps_e fi e) = v" by (auto simp: out v_def)
  then have sf: "(if \<not> v \<and> op_check_flush (pm_opts p2) then add_superfluous_flush en fi p2 else Inr p2) = Inr p3"
    using rs o2 by (auto simp: add_superfluous_flush_def add_warning_event_def p3_def superfluous_def warned_def)
  have p3: "out_entries p3 = out_entries p2" "array_ok p3" "tree_ok p3"
    using arr2 tree2 wf_cong [of p3 p2] by (auto simp: p3_def)
  have fr3: "frame2 p p3" using fr2 by (simp add: frame2_def p3_def)
  have idx3: "sn_start_index (current p3) = sn_start_index (current p0)" "sn_index (current p3) = sn_index (current p0)"
    using p1(6) f1(2) p0(5) by (simp_all add: p3_def p2_def)
  have main: "do_flush en sid base sze p = (if sn_flushed_num (current p3) \<noteq> NO_FLUSHED then init_snippet_info p3 else Inr p3)"
    by (simp only: do_flush_def Let_def fi [symmetric] p0_def [symmetric] so rbind_Inr p0(5) p1(1)
        T(1) [folded p2_def] prod.case sf)
  show ?thesis
  proof (cases "sn_flushed_num (current p3) = NO_FLUSHED")
    case True
    then have "pmem_wf p3" using p3 by (simp add: pmem_wf_def)
    then show ?thesis using True main p3 out2 rf2 fr3 by (auto simp: p3_def)
  next
    case False
    have "sn_start_index (current p3) < sn_index (current p3)"
    proof (rule ccontr)
      assume "\<not> ?thesis"
      then have "sn_start_index (current p0) = sn_index (current p0)"
        using idx3 ok0(1) by (auto simp: array_ok_def snip_ok_def Let_def)
      then have "sn_flushed_num (current p3) = NO_FLUSHED"
        using p1(6) ok0(3) f1(2) p0(5) by (simp add: p3_def p2_def)
      then show False using False by simp
    qed
    moreover have "sn_index (current p3) < OSET_ITER_MAX"
      using out_count(1) [OF p0(1)] small idx3 p0(2) by simp
    ultimately obtain p4 where "init_snippet_info p3 = Inr p4" "pmem_wf p4" "out_entries p4 = out_entries p3" "frame2 p3 p4"
      "pm_redundant_flushes p4 = pm_redundant_flushes p3" "pm_superfluous_flushes p4 = pm_superfluous_flushes p3"
      using init_snippet_ok [OF p3(2,3) False] by auto
    then show ?thesis using False main p3 out2 rf2 fr3 by (auto simp: p3_def frame2_def)
  qed
qed

end
