(* ===== verification/PMC_Store_Laws.thy ===== *)
theory PMC_Store_Laws
  imports PMC_Flush_Laws
begin

text \<open>
  Bounds of snippets and of the tree, and \<open>trace_pmem_store\<close> in the default mode: the new store is the last
  entry of the array.
\<close>

section \<open>Bounds\<close>

definition bounds_cover :: "uword \<Rightarrow> uword \<Rightarrow> pmem_st set \<Rightarrow> bool" where
  "bounds_cover l h E \<longleftrightarrow> (\<forall>e \<in> E. in_bounds l h e) \<and> (E \<noteq> {} \<longrightarrow> h \<noteq> - 1) \<and> (E = {} \<longrightarrow> l = - 1 \<and> h = - 1)"

lemma grow_bounds_cover:
  assumes "bounds_cover l h E" "rkey e" "hi e < 2 ^ 64 - 1" "grow_bounds e (l, h) = (l', h')"
  shows "bounds_cover l' h' (insert e E)"
proof -
  have m: "unat (st_addr e + st_size e) = hi e" "unat (st_addr e) = lo e"
    using rkey_hi [OF assms(2)] by (simp_all add: lo_def)
  have ne: "st_addr e + st_size e \<noteq> - 1" using m(1) assms(3) by (auto simp: word_max_iff)
  have le: "lo e \<le> hi e" by (simp add: hi_def)
  show ?thesis
  proof (cases "h = - 1 \<and> l = - 1")
    case True
    then have "E = {}" using assms(1) by (auto simp: bounds_cover_def)
    then show ?thesis
      using True assms(4) ne m by (auto simp: bounds_cover_def in_bounds_def grow_bounds_def)
  next
    case False
    then have E: "E \<noteq> {}" "h \<noteq> - 1" using assms(1) by (auto simp: bounds_cover_def)
    have l': "unat l' = min (unat l) (lo e)" and h': "unat h' = max (unat h) (hi e)"
      using assms(4) False m by (auto simp: grow_bounds_def word_less_nat_alt split: if_splits)
    have "h' \<noteq> - 1" using E(2) ne assms(4) False by (auto simp: grow_bounds_def Let_def split: if_splits)
    then show ?thesis
      using assms(1) l' h' by (fastforce simp: bounds_cover_def in_bounds_def)
  qed
qed

lemma snip_cover:
  "snip_ok p s \<longleftrightarrow> (let a = pm_snippet p s in sn_start_index a \<le> sn_index a \<and>
     bounds_cover (sn_min_add a) (sn_max_add a) (pm_array p ` {sn_start_index a ..< sn_index a}) \<and>
     (\<forall>i \<in> {sn_start_index a ..< sn_index a}. entry_ok (pm_array p i) \<and>
        (sn_flushed_num a = NO_FLUSHED \<longrightarrow> st_state (pm_array p i) = STST_DIRTY)))"
  by (auto simp: snip_ok_def bounds_cover_def Let_def)

lemma tree_cover:
  "tree_ok p \<longleftrightarrow> index_set (pm_stores p) \<and>
     (\<forall>e \<in> set (elems (pm_stores p)). st_index e < pm_db_index p \<and> entry_ok e) \<and>
     bounds_cover (pm_min_store p) (pm_max_store p) (set (elems (pm_stores p)))"
  by (auto simp: tree_ok_def bounds_cover_def)

section \<open>Stores\<close>

definition simple_mode :: "pmem_ops \<Rightarrow> bool" where
  "simple_mode p \<longleftrightarrow> \<not> tree_mode p \<and> \<not> op_track_multiple_stores (pm_opts p) \<and> \<not> op_order_guarantee (pm_opts p) \<and>
     \<not> op_lack_ordering_trand (pm_opts p) \<and> \<not> (op_log_stores (pm_opts p) \<and> op_store_traces (pm_opts p))"

lemma fill_store_sel [simp]:
  "st_addr (fill_store en a n v p s) = a" "st_size (fill_store en a n v p s) = n"
  "st_state (fill_store en a n v p s) = STST_DIRTY" "st_is_delete (fill_store en a n v p s) = False"
  by (simp_all add: fill_store_def)

lemma log_store_ok:
  assumes "simple_mode p"
  shows "\<exists>ms. log_store en s p = Inr (log_out ms p)"
proof -
  have "log_out [] p = p" by (simp add: log_out_def)
  with assms show ?thesis by (auto simp: log_store_def simple_mode_def intro: exI [of _ "[]"])
qed

theorem track_store_spec:
  assumes pmem_wf: "pmem_wf p" and md: "simple_mode p" and fits: "sn_index (current p) < MAX_ARRAY_NUM"
    and key: "0 < unat sze" "unat addr + unat sze < 2 ^ 64 - 1"
  shows "\<exists>e p'. track_store en addr sze val p = Inr (e, p') \<and> pmem_wf p' \<and> frame2 p p' \<and>
    st_addr e = addr \<and> st_size e = sze \<and> st_state e = STST_DIRTY \<and>
    out_entries p' = prefix_out p (Suc (pm_snippet_index p)) @ e # elems (pm_stores p) \<and>
    pm_redundant_flushes p' = pm_redundant_flushes p \<and> pm_superfluous_flushes p' = pm_superfluous_flushes p"
proof -
  let ?k = "pm_snippet_index p" and ?a = "current p"
  define n where "n = sn_index ?a"
  define e where "e = fill_store en addr sze val p (pm_array p n)"
  define p1 where "p1 = set_entry n e p"
  obtain ms where ms: "log_store en e p1 = Inr (log_out ms p1)"
    using log_store_ok [of p1 en e] md by (auto simp: p1_def simple_mode_def set_entry_def)
  define p2 where "p2 = log_out ms p1"
  obtain l h where lh: "grow_bounds e (sn_min_add ?a, sn_max_add ?a) = (l, h)" by fastforce
  define a' where "a' = ?a\<lparr>sn_index := Suc n, sn_min_add := l, sn_max_add := h\<rparr>"
  define p3 where "p3 = p2\<lparr>pm_snippet := (pm_snippet p)(?k := a')\<rparr>"
  have md2: "\<not> op_track_multiple_stores (pm_opts p2)" "\<not> op_order_guarantee (pm_opts p2)"
    using md by (simp_all add: p2_def p1_def set_entry_def simple_mode_def)
  have "update_pmem_stores_head_minandmax e
      (set_snippet (pm_snippet_index p2) ((current p2)\<lparr>sn_index := Suc (sn_index (current p2))\<rparr>) p2) = p3"
    using lh by (simp add: update_pmem_stores_head_minandmax_def set_snippet_def p3_def p2_def p1_def set_entry_def a'_def n_def)
  then have run: "track_store en addr sze val p = Inr (e, p3)"
    using fits ms md2 unfolding track_store_def Let_def n_def [symmetric]
    by (simp add: e_def [symmetric] p1_def [symmetric] p2_def [symmetric] restart_records_def)
  have sel3: "pm_snippet p3 = (pm_snippet p)(?k := a')" "pm_array p3 = (pm_array p)(n := e)" "pm_snippet_index p3 = ?k"
    "pm_stores p3 = pm_stores p" "pm_min_store p3 = pm_min_store p" "pm_max_store p3 = pm_max_store p" "pm_db_index p3 = pm_db_index p"
    "pm_redundant_flushes p3 = pm_redundant_flushes p" "pm_superfluous_flushes p3 = pm_superfluous_flushes p"
    by (simp_all add: p3_def p2_def p1_def set_entry_def)
  have ok: "array_ok p" "sn_flushed_num ?a = NO_FLUSHED" "tree_ok p" "snip_ok p ?k" using pmem_wf by (auto simp: pmem_wf_def array_ok_def)
  have eok: "entry_ok e" "rkey e" "hi e < 2 ^ 64 - 1"
    using key by (simp_all add: e_def entry_ok_def rkey_def hi_def lo_def sz_def)
  have below: "sn_index (pm_snippet p s) \<le> n" if "s \<le> ?k" for s
  proof (cases "s = ?k")
    case False
    then have "sn_index (pm_snippet p s) \<le> sn_start_index ?a"
      using snippets_disjoint [OF ok(1), of s ?k] that by simp
    also have "\<dots> \<le> n" using ok(4) by (simp add: snip_ok_def Let_def n_def)
    finally show ?thesis .
  qed (simp add: n_def)
  have st: "sn_start_index ?a \<le> n" using ok(4) by (simp add: snip_ok_def Let_def n_def)
  have snip_last: "snip_ok p3 ?k"
  proof -
    have "pm_array p3 ` {sn_start_index ?a ..< Suc n} = insert e (pm_array p ` {sn_start_index ?a ..< n})"
      using st by (auto simp: sel3 atLeastLessThanSuc)
    moreover have "bounds_cover l h (insert e (pm_array p ` {sn_start_index ?a ..< n}))"
      using ok(4) grow_bounds_cover [OF _ eok(2,3) lh] by (simp add: snip_cover Let_def n_def)
    ultimately show ?thesis
      using ok(2,4) st eok(1) unfolding snip_cover Let_def
      by (auto simp: sel3 a'_def n_def less_Suc_eq) (auto simp: e_def)
  qed
  have snip_other: "snip_ok p3 s" "snip_out p3 s = snip_out p s" if "s < ?k" for s
  proof -
    have sn: "pm_snippet p3 s = pm_snippet p s" using that by (simp add: sel3)
    have ar: "pm_array p3 i = pm_array p i" if "i < sn_index (pm_snippet p s)" for i
      using that below [of s] \<open>s < ?k\<close> by (simp add: sel3)
    have "snip_ok p s" using ok(1) that by (simp add: array_ok_def)
    then show "snip_ok p3 s" using ar unfolding snip_ok_def Let_def sn by auto
    show "snip_out p3 s = snip_out p s" unfolding snip_out_def sn using ar by (intro map_cong) auto
  qed
  have "array_ok p3"
    unfolding array_ok_def sel3(3)
  proof (intro conjI allI impI)
    show "sn_start_index (pm_snippet p3 0) = 0" using ok(1) by (auto simp: sel3 a'_def array_ok_def)
    show "snip_ok p3 s" if "s \<le> ?k" for s using that snip_last snip_other(1) le_eq_less_or_eq by auto
    fix s assume "s < ?k"
    then show "sn_start_index (pm_snippet p3 (Suc s)) = sn_index (pm_snippet p3 s)"
      "sn_start_index (pm_snippet p3 s) < sn_index (pm_snippet p3 s)" "sn_flushed_num (pm_snippet p3 s) \<noteq> NO_FLUSHED"
      using ok(1) by (auto simp: sel3 a'_def array_ok_def)
  qed
  moreover have "tree_ok p3" using ok(3) by (simp add: tree_ok_def sel3)
  ultimately have "pmem_wf p3" using ok(2) by (simp add: pmem_wf_def sel3 a'_def)
  moreover have "out_entries p3 = prefix_out p (Suc ?k) @ e # elems (pm_stores p)"
  proof -
    have "concat (map (snip_out p3) [0..<?k]) = concat (map (snip_out p) [0..<?k])"
      using snip_other(2) by (intro arg_cong [of _ _ concat] map_cong) auto
    moreover have "snip_out p3 ?k = snip_out p ?k @ [e]"
    proof -
      have "map (mark a' \<circ> pm_array p3) [sn_start_index ?a..<n] = map (mark ?a \<circ> pm_array p) [sn_start_index ?a..<n]"
        by (intro map_cong) (auto simp: sel3 mark_def a'_def)
      moreover have "mark a' e = e" using ok(2) by (simp add: mark_def a'_def)
      ultimately show ?thesis using st unfolding snip_out_def by (simp add: sel3 a'_def n_def)
    qed
    ultimately show ?thesis
      by (simp add: out_entries_def prefix_out_def sel3)
  qed
  moreover have "frame2 p p3" by (simp add: frame2_def p3_def p2_def p1_def set_entry_def log_out_def)
  ultimately show ?thesis using run sel3(8,9) by (auto simp: e_def)
qed

end
