(* ===== verification/PMC_Fence_Laws.thy ===== *)
theory PMC_Fence_Laws
  imports PMC_Store_Laws
begin

text \<open>
  \<open>do_fence\<close> in the default mode: what is flushed is dropped, the other entries of the array move to the
  tree, and the array is empty afterwards.
\<close>

section \<open>Fence\<close>

abbreviation unflushed :: "pmem_st \<Rightarrow> bool" where
  "unflushed e \<equiv> st_state e \<noteq> STST_FLUSHED"

definition tree_frame :: "pmem_ops \<Rightarrow> pmem_ops \<Rightarrow> bool" where
  "tree_frame p p' \<longleftrightarrow> (\<exists>T l h d. p' = p\<lparr>pm_stores := T, pm_min_store := l, pm_max_store := h, pm_db_index := d\<rparr>)"

lemma tree_frame_trans: "tree_frame p q \<Longrightarrow> tree_frame q r \<Longrightarrow> tree_frame p r"
  unfolding tree_frame_def by (elim exE) (simp, blast)

lemma tree_frame_refl [simp]: "tree_frame p p"
  unfolding tree_frame_def
  by (intro exI [of _ "pm_stores p"] exI [of _ "pm_min_store p"] exI [of _ "pm_max_store p"] exI [of _ "pm_db_index p"]) simp

lemma tree_frame_stores: "tree_frame p (p\<lparr>pm_stores := T\<rparr>)"
  unfolding tree_frame_def
  by (intro exI [of _ T] exI [of _ "pm_min_store p"] exI [of _ "pm_max_store p"] exI [of _ "pm_db_index p"]) simp

lemma tree_frameD:
  assumes "tree_frame p p'"
  shows "pm_array p' = pm_array p" "pm_snippet p' = pm_snippet p" "pm_snippet_index p' = pm_snippet_index p"
    "pm_opts p' = pm_opts p" "frame2 p p'" "pm_redundant_flushes p' = pm_redundant_flushes p"
    "pm_superfluous_flushes p' = pm_superfluous_flushes p" "pm_out p' = pm_out p" "pm_time_records p' = pm_time_records p"
  using assms by (auto simp: tree_frame_def frame2_def)

lemma update_Oset_cover:
  assumes "bounds_cover (pm_min_store p) (pm_max_store p) E" "entry_ok e" "p' = update_Oset_pmem_stores_minandmax e p"
  shows "bounds_cover (pm_min_store p') (pm_max_store p') (insert e E)" "tree_frame p p'" "pm_stores p' = pm_stores p"
    "pm_db_index p' = pm_db_index p"
proof -
  obtain l h where lh: "grow_bounds e (pm_min_store p, pm_max_store p) = (l, h)" by fastforce
  have p': "p' = p\<lparr>pm_min_store := l, pm_max_store := h\<rparr>"
    using assms(3) lh by (simp add: update_Oset_pmem_stores_minandmax_def)
  show "bounds_cover (pm_min_store p') (pm_max_store p') (insert e E)"
    using grow_bounds_cover [OF assms(1) _ _ lh] assms(2) by (simp add: p' entry_ok_def)
  show "pm_stores p' = pm_stores p" "pm_db_index p' = pm_db_index p" by (simp_all add: p')
  show "tree_frame p p'"
    unfolding tree_frame_def p'
    by (intro exI [of _ "pm_stores p"] exI [of _ l] exI [of _ h] exI [of _ "pm_db_index p"]) simp
qed

lemma fence_tree_loop_ok:
  assumes "index_set (pm_stores p)" "elems (pm_stores p) = ys @ rest_of (pm_stores p)"
    and "\<forall>e \<in> set (elems (pm_stores p)). entry_ok e" "length (elems (pm_stores p)) < OSET_ITER_MAX"
    and "bounds_cover (pm_min_store p) (pm_max_store p) (set ys)" "length (rest_of (pm_stores p)) < f"
  shows "\<exists>p'. while_next f next_store fence_tree_entry p = Inr p' \<and> tree_frame p p' \<and> index_set (pm_stores p') \<and>
    elems (pm_stores p') = ys @ filter unflushed (rest_of (pm_stores p)) \<and> pm_db_index p' = pm_db_index p \<and>
    bounds_cover (pm_min_store p') (pm_max_store p') (set (elems (pm_stores p')))"
  using assms
proof (induction f arbitrary: p ys)
  case 0
  then show ?case by simp
next
  case (Suc f)
  show ?case
  proof (cases "rest_of (pm_stores p)")
    case Nil
    then show ?thesis
      using next_store_Nil [OF Suc.prems(1) Nil] Suc.prems(2,5) by (auto intro: tree_frame_stores)
  next
    case (Cons e xs)
    obtain T where T: "next_store p = Inr (Some e, p\<lparr>pm_stores := T\<rparr>)" "index_set T"
      "elems T = ys @ e # xs" "rest_of T = xs"
      using next_store_Cons [OF Suc.prems(1) Cons] Suc.prems(2) Cons by auto
    let ?p1 = "p\<lparr>pm_stores := T\<rparr>"
    have step: "while_next (Suc f) next_store fence_tree_entry p =
        rbind (fence_tree_entry e ?p1) (while_next f next_store fence_tree_entry)"
      using T(1) by simp
    have el: "elems (pm_stores p) = ys @ e # xs" using Suc.prems(2) Cons by simp
    show ?thesis
    proof (cases "st_state e = STST_FLUSHED")
      case True
      have len: "length (elems T) < OSET_ITER_MAX" using Suc.prems(4) T(3) el by simp
      obtain s1 T2 where T2: "OSetGen_Remove e T = Inr (Some e, s1)" "OSetGen_FreeNode e s1 = Inr s1"
        "OSetGen_ResetIterAt e s1 = Inr T2" "index_set T2" "elems T2 = ys @ xs" "rest_of T2 = xs"
        using index_set_drop [OF T(2,3) len] by auto
      have body: "fence_tree_entry e ?p1 = Inr (p\<lparr>pm_stores := T2\<rparr>)"
        using True T2 by (simp add: fence_tree_entry_def)
      have "\<exists>p'. while_next f next_store fence_tree_entry (p\<lparr>pm_stores := T2\<rparr>) = Inr p' \<and>
          tree_frame (p\<lparr>pm_stores := T2\<rparr>) p' \<and> index_set (pm_stores p') \<and>
          elems (pm_stores p') = ys @ filter unflushed (rest_of (pm_stores (p\<lparr>pm_stores := T2\<rparr>))) \<and>
          pm_db_index p' = pm_db_index (p\<lparr>pm_stores := T2\<rparr>) \<and>
          bounds_cover (pm_min_store p') (pm_max_store p') (set (elems (pm_stores p')))"
        using T2 Suc.prems el Cons by (intro Suc.IH) auto
      then show ?thesis
        using step body True T2(6) Cons tree_frame_trans [OF tree_frame_stores] by fastforce
    next
      case False
      define p2 where "p2 = update_Oset_pmem_stores_minandmax e ?p1"
      have eok: "entry_ok e" using Suc.prems(3) el by simp
      have cov: "bounds_cover (pm_min_store ?p1) (pm_max_store ?p1) (set ys)" using Suc.prems(5) by simp
      note u = update_Oset_cover [OF cov eok p2_def]
      have body: "fence_tree_entry e ?p1 = Inr p2" using False by (simp add: fence_tree_entry_def p2_def)
      have st2: "pm_stores p2 = T" using u(3) by simp
      have "\<exists>p'. while_next f next_store fence_tree_entry p2 = Inr p' \<and>
          tree_frame p2 p' \<and> index_set (pm_stores p') \<and>
          elems (pm_stores p') = (ys @ [e]) @ filter unflushed (rest_of (pm_stores p2)) \<and>
          pm_db_index p' = pm_db_index p2 \<and>
          bounds_cover (pm_min_store p') (pm_max_store p') (set (elems (pm_stores p')))"
        using T u(1) Suc.prems el Cons st2 by (intro Suc.IH) auto
      then show ?thesis
        using step body False T(4) Cons st2 u(4) tree_frame_trans [OF tree_frame_trans [OF tree_frame_stores u(2)]]
        by fastforce
    qed
  qed
qed

text \<open>The entries of the array get a new index when they move to the tree.\<close>

fun reindex :: "nat \<Rightarrow> pmem_st list \<Rightarrow> pmem_st list" where
  "reindex d [] = []"
| "reindex d (e # es) = e\<lparr>st_index := d\<rparr> # reindex (Suc d) es"

lemma reindex_append: "reindex d (xs @ ys) = reindex d xs @ reindex (d + length xs) ys"
  by (induction xs arbitrary: d) auto

lemma length_reindex [simp]: "length (reindex d xs) = length xs"
  by (induction xs arbitrary: d) auto

lemma entry_ok_index [simp]: "entry_ok (e\<lparr>st_index := d\<rparr>) = entry_ok e" "bytes (e\<lparr>st_index := d\<rparr>) = bytes e"
  by (simp_all add: entry_ok_def rkey_def bytes_def hi_def lo_def sz_def)

definition moved :: "pmem_ops \<Rightarrow> pmem_st list \<Rightarrow> pmem_ops \<Rightarrow> bool" where
  "moved p es p' \<longleftrightarrow> tree_frame p p' \<and> tree_ok p' \<and> pm_db_index p' = pm_db_index p + length es \<and>
     elems (pm_stores p') = elems (pm_stores p) @ reindex (pm_db_index p) es"

lemma moved_refl: "tree_ok p \<Longrightarrow> moved p [] p"
  by (simp add: moved_def)

lemma moved_trans: "moved p es q \<Longrightarrow> moved q es' r \<Longrightarrow> moved p (es @ es') r"
  by (auto simp: moved_def reindex_append intro: tree_frame_trans)

lemma fence_entry_ok:
  assumes "tree_ok p" "\<not> tree_mode p" "entry_ok (pm_array p i)"
  shows "\<exists>p'. fence_entry en i p = Inr p' \<and> moved p (filter unflushed [pm_array p i]) p'"
proof (cases "st_state (pm_array p i) = STST_FLUSHED")
  case True
  then show ?thesis using assms(1) moved_refl by (simp add: fence_entry_def)
next
  case False
  define e where "e = (pm_array p i)\<lparr>st_index := pm_db_index p\<rparr>"
  define p1 where "p1 = p\<lparr>pm_db_index := Suc (pm_db_index p)\<rparr>"
  have t: "index_set (pm_stores p)" "\<forall>x \<in> set (elems (pm_stores p)). st_index x < pm_db_index p \<and> entry_ok x"
    "bounds_cover (pm_min_store p) (pm_max_store p) (set (elems (pm_stores p)))"
    using assms(1) by (simp_all add: tree_cover)
  have eok: "entry_ok e" using assms(3) by (simp add: e_def)
  obtain T where T: "OSetGen_Insert e (pm_stores p) = Inr T" "index_set T" "elems T = elems (pm_stores p) @ [e]"
    using index_set_insert_last [OF t(1), of e] t(2) by (auto simp: e_def)
  define p2 where "p2 = p1\<lparr>pm_stores := T\<rparr>"
  define p3 where "p3 = update_Oset_pmem_stores_minandmax e p2"
  have "bounds_cover (pm_min_store p2) (pm_max_store p2) (set (elems (pm_stores p)))"
    using t(3) by (simp add: p2_def p1_def)
  note u = update_Oset_cover [OF this eok p3_def]
  have "\<not> st_is_delete (pm_array p i)" using assms(3) by (simp add: entry_ok_def)
  then have run: "fence_entry en i p = Inr p3"
    using False assms(2) T(1)
    by (simp add: fence_entry_def alloc_store_def insert_store_def pmem_st_copy_def p3_def p2_def p1_def e_def)
  have s3: "pm_stores p3 = T" "pm_db_index p3 = Suc (pm_db_index p)"
    using u(3,4) by (simp_all add: p2_def p1_def)
  have "tree_frame p p2"
    unfolding tree_frame_def p2_def p1_def
    by (intro exI [of _ T] exI [of _ "pm_min_store p"] exI [of _ "pm_max_store p"] exI [of _ "Suc (pm_db_index p)"]) simp
  then have fr: "tree_frame p p3" using u(2) tree_frame_trans by blast
  have "st_index e = pm_db_index p" by (simp add: e_def)
  then have "tree_ok p3"
    unfolding tree_cover s3 using T(2,3) t(2) eok u(1) by (auto simp: less_Suc_eq)
  then show ?thesis
    using run fr s3 T(3) False by (auto simp: moved_def e_def)
qed

lemma fence_entries_ok:
  assumes "tree_ok p" "\<not> tree_mode p" "\<forall>i \<in> set js. entry_ok (pm_array p i)"
  shows "\<exists>p'. foldM (fence_entry en) js p = Inr p' \<and> moved p (filter unflushed (map (pm_array p) js)) p'"
  using assms
proof (induction js arbitrary: p)
  case Nil
  then show ?case by (simp add: moved_refl)
next
  case (Cons j js)
  obtain q where q: "fence_entry en j p = Inr q" "moved p (filter unflushed [pm_array p j]) q"
    using fence_entry_ok [OF Cons.prems(1,2), of j en] Cons.prems(3) by (meson list.set_intros(1))
  have fq: "pm_array q = pm_array p" "pm_opts q = pm_opts p" "tree_ok q"
    using q(2) tree_frameD by (auto simp: moved_def)
  obtain r where "foldM (fence_entry en) js q = Inr r" "moved q (filter unflushed (map (pm_array q) js)) r"
    using Cons.IH [OF fq(3)] Cons.prems(2,3) fq by (metis list.set_intros(2))
  moreover from this have "moved p (filter unflushed [pm_array p j] @ filter unflushed (map (pm_array p) js)) r"
    using moved_trans [OF q(2)] fq(1) by simp
  moreover have "filter unflushed (map (pm_array p) (j # js)) =
      filter unflushed [pm_array p j] @ filter unflushed (map (pm_array p) js)"
    by simp
  ultimately show ?case using q(1) by (metis foldM.simps(2) rbind_Inr)
qed

lemma fence_snippet_ok:
  assumes "tree_ok p" "\<not> tree_mode p" "snip_ok p s"
  shows "\<exists>p'. fence_snippet en s p = Inr p' \<and> moved p (filter unflushed (snip_out p s)) p'"
proof (cases "sn_flushed_num (pm_snippet p s) = ALL_FLUSHED")
  case True
  then have "filter unflushed (snip_out p s) = []"
    by (auto simp: snip_out_def mark_def filter_empty_conv)
  with True show ?thesis using moved_refl [OF assms(1)] by (simp add: fence_snippet_def)
next
  case False
  then have "mark (pm_snippet p s) = (\<lambda>e. e)" by (simp add: mark_def fun_eq_iff)
  then have "snip_out p s = map (pm_array p) [sn_start_index (pm_snippet p s) ..< sn_index (pm_snippet p s)]"
    by (simp add: snip_out_def comp_def)
  moreover have "\<forall>i \<in> set [sn_start_index (pm_snippet p s) ..< sn_index (pm_snippet p s)]. entry_ok (pm_array p i)"
    using assms(3) by (auto simp: snip_ok_def Let_def)
  ultimately show ?thesis
    using fence_entries_ok [OF assms(1,2), of "[sn_start_index (pm_snippet p s) ..< sn_index (pm_snippet p s)]" en] False
    by (simp add: fence_snippet_def Let_def)
qed

lemma fence_snippets_ok:
  assumes "tree_ok p" "\<not> tree_mode p" "array_ok p" "m \<le> Suc (pm_snippet_index p)"
  shows "\<exists>p'. foldM (fence_snippet en) [0..<m] p = Inr p' \<and> moved p (filter unflushed (prefix_out p m)) p'"
  using assms(4)
proof (induction m)
  case 0
  then show ?case using moved_refl [OF assms(1)] by (simp add: prefix_out_def)
next
  case (Suc m)
  then obtain q where q: "foldM (fence_snippet en) [0..<m] p = Inr q" "moved p (filter unflushed (prefix_out p m)) q"
    by auto
  have fq: "pm_array q = pm_array p" "pm_snippet q = pm_snippet p" "pm_opts q = pm_opts p" "tree_ok q"
    using q(2) tree_frameD by (auto simp: moved_def)
  have same: "snip_out q m = snip_out p m" by (simp add: snip_out_def fq)
  have "snip_ok q m" using assms(3) Suc.prems by (simp add: snip_ok_def array_ok_def fq)
  moreover have "\<not> tree_mode q" using assms(2) fq(3) by simp
  ultimately obtain r where "fence_snippet en m q = Inr r" "moved q (filter unflushed (snip_out p m)) r"
    using fence_snippet_ok [OF fq(4), of m en] same by auto
  then show ?case
    using q moved_trans [OF q(2)] by (simp add: foldM_append prefix_out_def)
qed

text \<open>A fence drops what is flushed and keeps what is not; the array is empty afterwards.\<close>

definition fenced :: "pmem_ops \<Rightarrow> pmem_st list" where
  "fenced p = filter unflushed (elems (pm_stores p)) @
     reindex (pm_db_index p) (filter unflushed (prefix_out p (Suc (pm_snippet_index p))))"

lemma reset_array_ok:
  assumes "tree_ok p"
  shows "pmem_wf (reset_array p)" "out_entries (reset_array p) = elems (pm_stores p)"
  using assms
  by (auto simp: pmem_wf_def array_ok_def snip_ok_def tree_ok_def reset_array_def set_snippet_def empty_snippet_def
      out_entries_def snip_out_def)

lemma fence_tree_ok:
  assumes "tree_ok p" "length (elems (pm_stores p)) < OSET_ITER_MAX"
  shows "\<exists>p'. fence_tree p = Inr p' \<and> tree_frame p p' \<and> tree_ok p' \<and> pm_db_index p' = pm_db_index p \<and>
    elems (pm_stores p') = filter unflushed (elems (pm_stores p))"
proof -
  let ?q = "reset_stores (p\<lparr>pm_min_store := - 1, pm_max_store := - 1\<rparr>)"
  have t: "index_set (pm_stores p)" "\<forall>e \<in> set (elems (pm_stores p)). st_index e < pm_db_index p \<and> entry_ok e"
    using assms(1) by (simp_all add: tree_cover)
  note it = ResetIter_correct [OF t(1) assms(2)]
  have q: "index_set (pm_stores ?q)" "elems (pm_stores ?q) = elems (pm_stores p)" "rest_of (pm_stores ?q) = elems (pm_stores p)"
    using it by (simp_all add: reset_stores_def)
  have sz: "OSetGen_Size (pm_stores p) = length (elems (pm_stores p))" by (rule Size_correct [OF t(1)])
  have cov: "bounds_cover (pm_min_store ?q) (pm_max_store ?q) (set [])"
    by (simp add: bounds_cover_def reset_stores_def)
  obtain p' where p': "while_next (Suc (length (elems (pm_stores p)))) next_store fence_tree_entry ?q = Inr p'"
    "tree_frame ?q p'" "index_set (pm_stores p')" "elems (pm_stores p') = filter unflushed (elems (pm_stores p))"
    "pm_db_index p' = pm_db_index ?q"
    "bounds_cover (pm_min_store p') (pm_max_store p') (set (elems (pm_stores p')))"
    using fence_tree_loop_ok [OF q(1), of "[]" "Suc (length (elems (pm_stores p)))"] q(2,3) cov t(2) assms(2) by auto
  have "tree_frame p ?q"
    unfolding tree_frame_def reset_stores_def
    by (intro exI [of _ "OSetGen_ResetIter (pm_stores p)"] exI [of _ "- 1"] exI [of _ "pm_db_index p"]) simp
  then have "tree_frame p p'" using p'(2) tree_frame_trans by blast
  moreover have "pm_db_index p' = pm_db_index p" using p'(5) by (simp add: reset_stores_def)
  moreover from this have "tree_ok p'" using p' t(2) by (auto simp: tree_cover)
  ultimately show ?thesis using p'(1,4) sz by (auto simp: fence_tree_def)
qed

lemma frame2_trans: "frame2 p q \<Longrightarrow> frame2 q r \<Longrightarrow> frame2 p r"
  by (simp add: frame2_def)

lemma do_fence_spec:
  assumes pmem_wf: "pmem_wf p" and md: "simple_mode p" and small: "length (out_entries p) < OSET_ITER_MAX"
  shows "\<exists>p'. do_fence en p = Inr p' \<and> pmem_wf p' \<and> frame2 p p' \<and> out_entries p' = fenced p \<and>
    pm_redundant_flushes p' = pm_redundant_flushes p \<and> pm_superfluous_flushes p' = pm_superfluous_flushes p"
proof -
  define p0 where "p0 = (if op_log_stores (pm_opts p) then log_out [Emit ''|FENCE'' []] p else p)"
  have p0: "pmem_wf p0" "fenced p0 = fenced p" "frame2 p p0" "pm_opts p0 = pm_opts p" "pm_snippet_index p0 = pm_snippet_index p"
    "pm_stores p0 = pm_stores p" "pm_redundant_flushes p0 = pm_redundant_flushes p"
    "pm_superfluous_flushes p0 = pm_superfluous_flushes p"
    using pmem_wf wf_cong(6) [of "log_out [Emit ''|FENCE'' []] p" p] by (simp_all add: p0_def fenced_def)
  have st: "stamp_records p0 = Inr p0" using md p0(4) by (simp add: stamp_records_def simple_mode_def)
  have ok: "array_ok p0" "tree_ok p0" using p0(1) by (simp_all add: pmem_wf_def)
  have "length (elems (pm_stores p0)) < OSET_ITER_MAX" using small p0(6) by (simp add: out_entries_def)
  then obtain p1 where p1: "fence_tree p0 = Inr p1" "tree_frame p0 p1" "tree_ok p1" "pm_db_index p1 = pm_db_index p0"
    "elems (pm_stores p1) = filter unflushed (elems (pm_stores p0))"
    using fence_tree_ok [OF ok(2)] by blast
  note f1 = tree_frameD [OF p1(2)]
  have ar1: "array_ok p1" using ok(1) f1 by (simp add: array_ok_def snip_ok_def)
  have "snip_out p1 = snip_out p0" using f1 by (simp add: snip_out_def fun_eq_iff)
  then have po: "prefix_out p1 = prefix_out p0" by (intro ext) (simp add: prefix_out_def)
  have md1: "\<not> tree_mode p1" "\<not> op_order_guarantee (pm_opts p1)" using md f1 p0(4) by (simp_all add: simple_mode_def)
  obtain p2 where p2: "foldM (fence_snippet en) [0 ..< Suc (pm_snippet_index p1)] p1 = Inr p2"
    "moved p1 (filter unflushed (prefix_out p0 (Suc (pm_snippet_index p1)))) p2"
    using fence_snippets_ok [OF p1(3) md1(1) ar1, of "Suc (pm_snippet_index p1)" en] po by auto
  have fr2: "tree_frame p1 p2" "tree_ok p2" using p2(2) by (simp_all add: moved_def)
  note f2 = tree_frameD [OF fr2(1)]
  have el: "elems (pm_stores p2) = fenced p"
    using p2(2) p1(4,5) f1(3) p0(2) by (simp add: moved_def fenced_def)
  have "do_fence en p = Inr (reset_array p2)"
    using st p1(1) p2(1) md1(2) f2(4)
    by (simp add: do_fence_def Let_def p0_def [symmetric] reset_array_def set_snippet_def)
  moreover have "frame2 p2 (reset_array p2)" by (simp add: frame2_def reset_array_def set_snippet_def)
  then have "frame2 p (reset_array p2)" using f1(5) f2(5) p0(3) frame2_trans by blast
  moreover have "pm_redundant_flushes (reset_array p2) = pm_redundant_flushes p"
    "pm_superfluous_flushes (reset_array p2) = pm_superfluous_flushes p"
    using f1 f2 p0 by (simp_all add: reset_array_def set_snippet_def)
  ultimately show ?thesis using reset_array_ok [OF fr2(2)] el by simp
qed

end
