(* ===== verification/PMC_Map_Laws.thy ===== *)
theory PMC_Map_Laws
  imports PMC_Fence_Laws
begin

text \<open>
  The registered mappings: the test of an access against them (\<open>is_pmem_access\<close>), their registration
  and removal by client requests, and the bounds \<open>min_add_pmem_mappings\<close> and \<open>max_add_pmem_mappings\<close>
  that \<open>is_pmem_access\<close> looks at first.
\<close>

section \<open>Ranges within a set of separated regions\<close>

text \<open>Neighbouring regions are merged on registration, so that a covered range lies in one region.\<close>

lemma covered_by_one:
  assumes ok: "regions_ok s" and gap: "gapped (elems s)" and key: "rkey k" and sub: "bytes k \<subseteq> region_bytes s"
  shows "\<exists>e \<in> set (elems s). bytes k \<subseteq> bytes e"
proof -
  have "lo k \<in> bytes k" using key by (simp add: bytes_def rkey_def hi_def)
  then obtain e where e: "e \<in> set (elems s)" "lo k \<in> bytes e" using sub by (auto simp: set_bytes_def)
  have "hi k \<le> hi e"
  proof (rule ccontr)
    assume "\<not> hi k \<le> hi e"
    then have "hi e \<in> bytes k" using e(2) by (simp add: bytes_def)
    then obtain d where d: "d \<in> set (elems s)" "hi e \<in> bytes d" using sub by (auto simp: set_bytes_def)
    have "hi e \<noteq> lo d" using gap e(1) d(1) by (simp add: gapped_def)
    then have "hi e - 1 \<in> bytes d \<inter> bytes e" using e(2) d(2) by (auto simp: bytes_def)
    then have "d = e" using disjoint_list_disj [OF regions_okD [OF ok] d(1) e(1)] by blast
    then show False using d(2) by (simp add: bytes_def)
  qed
  then show ?thesis using e by (intro bexI [of _ e]) (auto simp: bytes_def)
qed

lemma lookup_overlapping:
  assumes ok: "regions_ok s" and key: "rkey k" and e: "e \<in> set (elems s)" "bytes k \<subseteq> bytes e"
  shows "OSetGen_Lookup s k = Some e"
proof (cases "OSetGen_Lookup s k")
  case None
  have "lo k \<in> bytes k" using key by (simp add: bytes_def rkey_def hi_def)
  then show ?thesis
    using region_lookup_None [OF ok key None] e by (auto simp: set_bytes_def)
next
  case (Some d)
  note d = region_lookup_Some [OF ok key Some]
  have "bytes d \<inter> bytes e \<noteq> {}" using d(2) e(2) by blast
  then have "d = e" using disjoint_list_disj [OF regions_okD [OF ok] d(1) e(1)] by blast
  then show ?thesis using Some by simp
qed

lemma is_in_mapping_set_value:
  assumes ok: "regions_ok s" and gap: "gapped (elems s)" and key: "rkey k"
  shows "is_in_mapping_set k s =
    (if bytes k \<inter> region_bytes s = {} then 0 else if bytes k \<subseteq> region_bytes s then 1 else 2)"
proof (cases "bytes k \<subseteq> region_bytes s")
  case True
  then obtain e where e: "e \<in> set (elems s)" "bytes k \<subseteq> bytes e"
    using covered_by_one [OF ok gap key] by blast
  have "lo k \<in> bytes k" using key by (simp add: bytes_def rkey_def hi_def)
  then have "check_overlap k e = 1"
    using check_overlap_nat [OF key rok_rkey [OF regions_rok [OF ok e(1)]]] e(2) by auto
  moreover have "bytes k \<inter> region_bytes s \<noteq> {}" using True \<open>lo k \<in> bytes k\<close> by blast
  ultimately show ?thesis
    using True lookup_overlapping [OF ok key e] by (simp add: is_in_mapping_set_def OSetGen_Contains_def)
next
  case False
  have "is_in_mapping_set k s \<in> {0, 1, 2}"
    by (auto simp: is_in_mapping_set_def check_overlap_def split: option.split)
  then show ?thesis using False is_in_mapping_set_correct [OF ok key] by auto
qed

section \<open>The mappings of the tool\<close>

definition maps_ok :: "pmem_ops \<Rightarrow> bool" where
  "maps_ok p \<longleftrightarrow> regions_ok (pm_mappings p) \<and> gapped (elems (pm_mappings p)) \<and>
     (\<forall>b \<in> region_bytes (pm_mappings p). unat (pm_min_map p) \<le> b \<and> b < unat (pm_max_map p))"

abbreviation mapped :: "pmem_ops \<Rightarrow> nat set" where
  "mapped p \<equiv> region_bytes (pm_mappings p)"

lemma region_sel [simp]:
  "lo (mk_region a n) = unat a" "sz (mk_region a n) = unat n" "hi (mk_region a n) = unat a + unat n"
  "bytes (mk_region a n) = {unat a ..< unat a + unat n}"
  by (simp_all add: mk_region_def zero_st_def lo_def sz_def hi_def bytes_def)

lemma region_fields [simp]: "st_addr (mk_region a n) = a" "st_size (mk_region a n) = n"
  by (simp_all add: mk_region_def)

lemma maps_ok_cong:
  "frame2 p p' \<Longrightarrow> maps_ok p' = maps_ok p" "frame2 p p' \<Longrightarrow> mapped p' = mapped p"
  by (simp_all add: maps_ok_def frame2_def)

lemma is_pmem_access_mapped:
  assumes ok: "maps_ok p" and key: "rkey (mk_region a n)"
  shows "is_pmem_access a n p \<longleftrightarrow> bytes (mk_region a n) \<inter> mapped p \<noteq> {}"
proof -
  have rs: "regions_ok (pm_mappings p)" using ok by (simp add: maps_ok_def)
  have h: "unat (a + n) = unat a + unat n" using rkey_hi [OF key] by simp
  have "bytes (mk_region a n) \<inter> mapped p = {}" if "a > pm_max_map p \<or> a + n < pm_min_map p"
    using that ok h by (fastforce simp: maps_ok_def word_less_nat_alt)
  then show ?thesis
    using region_contains [OF rs key] by (auto simp: is_pmem_access_def)
qed

lemma bytes_below: "regions_ok s \<Longrightarrow> b \<in> region_bytes s \<Longrightarrow> b < 2 ^ 64 - 1"
  using regions_rok by (fastforce simp: set_bytes_def bytes_def rok_def)

lemma register_mapping_ok:
  assumes ok: "maps_ok p" and r: "rok (mk_region a n)"
  shows "\<exists>p'. register_mapping a n p = Inr p' \<and> maps_ok p' \<and> mapped p' = mapped p \<union> bytes (mk_region a n)"
proof -
  let ?r = "mk_region a n"
  have rs: "regions_ok (pm_mappings p)" "gapped (elems (pm_mappings p))" using ok by (simp_all add: maps_ok_def)
  obtain l h where lh: "grow_bounds ?r (pm_min_map p, pm_max_map p) = (l, h)" by fastforce
  obtain ms where ms: "add_region ?r (pm_mappings p) = Inr ms" "regions_ok ms" "region_bytes ms = mapped p \<union> bytes ?r"
    "gapped (elems ms)"
    using add_region_spec [OF rs(1) r] rs(2) by blast
  have m: "unat (a + n) = unat a + unat n" using rkey_hi [OF rok_rkey [OF r]] by simp
  have "unat l \<le> b \<and> b < unat h" if b: "b \<in> region_bytes ms" for b
  proof (cases "pm_max_map p = - 1 \<and> pm_min_map p = - 1")
    case True
    then have "b \<notin> mapped p" using bytes_below [of "pm_mappings p" b] ok by (fastforce simp: maps_ok_def)
    then show ?thesis using b ms(3) True lh m by (auto simp: grow_bounds_def)
  next
    case False
    then have "unat l = min (unat (pm_min_map p)) (unat a)" "unat h = max (unat (pm_max_map p)) (unat a + unat n)"
      using lh m by (auto simp: grow_bounds_def word_less_nat_alt split: if_splits)
    then show ?thesis using b ms(3) ok by (auto simp: maps_ok_def)
  qed
  then show ?thesis using ms lh by (auto simp: register_mapping_def maps_ok_def)
qed

lemma sorted_hull:
  fixes xs :: "pmem_st list"
  assumes "sorted_wrt (\<lambda>x y. hi x \<le> lo y) xs" "x \<in> set xs"
  shows "lo (hd xs) \<le> lo x \<and> hi x \<le> hi (last xs)"
  using assms
proof (induction xs)
  case Nil
  then show ?case by simp
next
  case (Cons y ys)
  have le: "lo z \<le> hi z" for z by (simp add: hi_def)
  show ?case
  proof (cases "x = y")
    case True
    have "hi y \<le> hi (last (y # ys))"
    proof (cases "ys = []")
      case False
      then have "hi y \<le> lo (last ys)" using Cons.prems(1) by simp
      then show ?thesis using False le [of "last ys"] by simp
    qed simp
    then show ?thesis using True by simp
  next
    case False
    then have x: "x \<in> set ys" using Cons.prems(2) by simp
    then have "hi y \<le> lo x" "hi x \<le> hi (last ys)" using Cons by auto
    then show ?thesis using x le [of y] by (auto split: if_splits)
  qed
qed

lemma first_last_bounds:
  assumes "regions_ok s" "b \<in> region_bytes s"
  shows "lo (hd (elems s)) \<le> b \<and> b < hi (last (elems s))"
proof -
  obtain e where e: "e \<in> set (elems s)" "b \<in> bytes e" using assms(2) by (auto simp: set_bytes_def)
  have "lo (hd (elems s)) \<le> lo e \<and> hi e \<le> hi (last (elems s))"
    using regions_okD [OF assms(1)] e(1) by (intro sorted_hull) (auto simp: disjoint_list_def)
  then show ?thesis using e(2) by (auto simp: bytes_def)
qed

text \<open>Cutting a range out of a set of regions leaves at most one region more.\<close>

lemma cut_out_length:
  assumes "regions_ok s" "cut_out r s s'"
  shows "length (elems s') \<le> Suc (length (elems s))"
proof -
  have d: "disjoint_list (elems s')" using assms(2) regions_okD by (simp add: cut_out_def)
  then have "distinct (elems s')" using assms(2) ro.ordered_distinct ordered_regions by blast
  then have "length (elems s') = card (set (elems s'))" by (simp add: distinct_card)
  moreover have "inj_on lo (set (elems s'))"
  proof (rule inj_onI)
    fix x y assume xy: "x \<in> set (elems s')" "y \<in> set (elems s')" "lo x = lo y"
    then have "lo x \<in> bytes x \<inter> bytes y"
      using d by (auto simp: disjoint_list_def bytes_def rok_def hi_def)
    then show "x = y" using disjoint_list_disj [OF d xy(1,2)] by blast
  qed
  then have "card (set (elems s')) = card (lo ` set (elems s'))" by (simp add: card_image)
  moreover have "lo ` set (elems s') \<subseteq> insert (hi r) (lo ` set (elems s))"
    using assms(2) by (fastforce simp: cut_out_def piece_def)
  then have "card (lo ` set (elems s')) \<le> card (insert (hi r) (lo ` set (elems s)))" by (intro card_mono) auto
  moreover have "card (insert (hi r) (lo ` set (elems s))) \<le> Suc (card (lo ` set (elems s)))"
    by (simp add: card_insert_if)
  moreover have "card (lo ` set (elems s)) \<le> length (elems s)"
    using card_image_le [OF finite_set, of lo "elems s"] card_length [of "elems s"] by linarith
  ultimately show ?thesis by linarith
qed

lemma remove_mapping_ok:
  assumes ok: "maps_ok p" and key: "rkey (mk_region a n)" and few: "Suc (length (elems (pm_mappings p))) < OSET_ITER_MAX"
  shows "\<exists>p'. remove_mapping a n p = Inr p' \<and> maps_ok p' \<and> mapped p' = mapped p - bytes (mk_region a n)"
proof -
  have rs: "regions_ok (pm_mappings p)" "gapped (elems (pm_mappings p))" using ok by (simp_all add: maps_ok_def)
  obtain ms where ms: "remove_region_mapping (mk_region a n) (pm_mappings p) = Inr ms"
    and cut: "cut_out (mk_region a n) (pm_mappings p) ms"
    using remove_region_mapping_spec [OF rs(1) key] by blast
  from cut have m: "regions_ok ms" "region_bytes ms = mapped p - bytes (mk_region a n)" by (simp_all add: cut_out_def)
  have gap: "gapped (elems ms)" by (rule cut_out_gapped [OF rs key cut])
  have small: "length (elems ms) < OSET_ITER_MAX" using cut_out_length [OF rs(1) cut] few by linarith
  have it: "os_iter ms = Inr (elems ms)" by (rule os_iter_correct [OF m(1) small])
  have inside: "unat (pm_min_map p) \<le> b \<and> b < unat (pm_max_map p)" if "b \<in> region_bytes ms" for b
    using that ok m(2) by (auto simp: maps_ok_def)
  have ends: "unat (st_addr (hd (elems ms))) \<le> b \<and> b < unat (st_addr (last (elems ms)) + st_size (last (elems ms)))"
    if "b \<in> region_bytes ms" for b
  proof -
    have "elems ms \<noteq> []" using that by auto
    then have "rkey (last (elems ms))" using regions_rok [OF m(1)] rok_rkey by simp
    then show ?thesis using first_last_bounds [OF m(1) that] rkey_hi by (simp add: lo_def)
  qed
  obtain p' where p': "remove_mapping a n p = Inr p'" "pm_mappings p' = ms"
    "pm_min_map p' = pm_min_map p \<or> elems ms = [] \<or> pm_min_map p' = st_addr (hd (elems ms))"
    "pm_max_map p' = pm_max_map p \<or> elems ms = [] \<or> pm_max_map p' = st_addr (last (elems ms)) + st_size (last (elems ms))"
    by (cases "elems ms") (auto simp: remove_mapping_def ms it Let_def)
  have "unat (pm_min_map p') \<le> b \<and> b < unat (pm_max_map p')" if "b \<in> region_bytes ms" for b
  proof -
    have "elems ms \<noteq> []" using that by auto
    then show ?thesis using p'(3,4) inside [OF that] ends [OF that] by auto
  qed
  then have "maps_ok p'" using m(1) gap p'(2) by (simp add: maps_ok_def)
  then show ?thesis using p'(1,2) m(2) by auto
qed

end
