(* ===== verification/PMC_Tx_Laws.thy ===== *)
theory PMC_Tx_Laws
  imports PMC_Keyed_Laws PMC_Map_Laws
begin

text \<open>
  The transaction module \<open>pmc_tx.c\<close>: which bytes a transaction tracks, and what each operation does to them,
  to the nesting counters, to the threads and to the registers of events.  The region that was added
  last is cached outside the tree of regions; the laws are stated on the bytes of both.
\<close>

section \<open>Invariant\<close>

definition cache_empty :: "tx_info \<Rightarrow> bool" where
  "cache_empty tx \<longleftrightarrow> st_addr (tx_cached_region tx) = 0 \<and> st_size (tx_cached_region tx) = 0"

definition tx_info_ok :: "tx_info \<Rightarrow> bool" where
  "tx_info_ok tx \<longleftrightarrow> regions_ok (tx_regions tx) \<and> gapped (elems (tx_regions tx)) \<and>
     (cache_empty tx \<or> rok (tx_cached_region tx))"

definition thread_ok :: "thread_info \<Rightarrow> bool" where
  "thread_ok th \<longleftrightarrow> word_set (th_tx_ids th)"

definition tx_wf :: "transaction_ops \<Rightarrow> bool" where
  "tx_wf t \<longleftrightarrow> keyed tx_id tx_info_ok (tr_transactions t) \<and> keyed th_thread_id thread_ok (tr_threads t) \<and>
     regions_ok (tr_excludes t) \<and> gapped (elems (tr_excludes t))"

text \<open>The regions of a transaction, the cached one included.\<close>

definition tx_load :: "tx_info \<Rightarrow> nat" where
  "tx_load tx = length (elems (tx_regions tx)) + (if cache_empty tx then 0 else 1)"

text \<open>The bound of the iterator: at most \<open>n\<close> more elements may be added to any of the sets.\<close>

definition tx_room :: "nat \<Rightarrow> transaction_ops \<Rightarrow> bool" where
  "tx_room n t \<longleftrightarrow> 2 * (length (elems (tr_transactions t)) + n) < OSET_ITER_MAX \<and>
     length (elems (tr_threads t)) + n < OSET_ITER_MAX \<and>
     (\<forall>th \<in> set (elems (tr_threads t)). length (elems (th_tx_ids th)) + n < OSET_ITER_MAX) \<and>
     (\<forall>tx \<in> set (elems (tr_transactions t)). 2 * (tx_load tx + n) < OSET_ITER_MAX)"

text \<open>The bytes that a transaction tracks.\<close>

definition tx_bytes :: "tx_info \<Rightarrow> nat set" where
  "tx_bytes tx = region_bytes (tx_regions tx) \<union> bytes (tx_cached_region tx)"

abbreviation the_tx :: "transaction_ops \<Rightarrow> uword \<Rightarrow> tx_info option" where
  "the_tx t i \<equiv> OSetGen_Lookup (tr_transactions t) i"

abbreviation the_thread :: "transaction_ops \<Rightarrow> uword \<Rightarrow> thread_info option" where
  "the_thread t i \<equiv> OSetGen_Lookup (tr_threads t) i"

text \<open>What the operations of the module look at: the cache may move to the tree without notice.\<close>

definition tx_view :: "tx_info \<Rightarrow> uword \<times> uword \<times> exe_context \<times> nat set" where
  "tx_view tx = (tx_id tx, tx_counter tx, tx_context tx, tx_bytes tx)"

definition txs_view :: "transaction_ops \<Rightarrow> uword \<Rightarrow> (uword \<times> uword \<times> exe_context \<times> nat set) option" where
  "txs_view t i = map_option tx_view (the_tx t i)"

definition tx_same :: "transaction_ops \<Rightarrow> transaction_ops \<Rightarrow> bool" where
  "tx_same t t' \<longleftrightarrow> txs_view t' = txs_view t \<and> tr_threads t' = tr_threads t \<and> tr_excludes t' = tr_excludes t \<and>
     tr_cross_tx_evs t' = tr_cross_tx_evs t \<and> tr_redundant_logging_tx_evs t' = tr_redundant_logging_tx_evs t \<and>
     tr_verbose t' = tr_verbose t \<and> tr_transactions_only t' = tr_transactions_only t \<and>
     tr_redundant_logging t' = tr_redundant_logging t"

lemma tx_same_refl [simp]: "tx_same t t" by (simp add: tx_same_def)

lemma tx_same_trans: "tx_same t u \<Longrightarrow> tx_same u v \<Longrightarrow> tx_same t v" by (simp add: tx_same_def)

lemma tr_log_sel [simp]:
  "tr_transactions (tr_log ms t) = tr_transactions t" "tr_threads (tr_log ms t) = tr_threads t"
  "tr_oot_stores (tr_log ms t) = tr_oot_stores t" "tr_excludes (tr_log ms t) = tr_excludes t"
  "tr_cross_tx_evs (tr_log ms t) = tr_cross_tx_evs t"
  "tr_redundant_logging_tx_evs (tr_log ms t) = tr_redundant_logging_tx_evs t"
  "tr_verbose (tr_log ms t) = tr_verbose t" "tr_transactions_only (tr_log ms t) = tr_transactions_only t"
  "tr_redundant_logging (tr_log ms t) = tr_redundant_logging t"
  by (simp_all add: tr_log_def)

lemma tx_log [simp]: "tx_wf (tr_log ms t) = tx_wf t" "tx_room n (tr_log ms t) = tx_room n t" "tx_same t (tr_log ms t)"
  "txs_view (tr_log ms t) = txs_view t"
  by (simp_all add: tx_wf_def tx_room_def tx_same_def txs_view_def fun_eq_iff)

lemma tr_dmsg_log: "\<exists>ms. tr_dmsg f xs t = tr_log ms t"
proof -
  have "tr_log [] t = t" by (simp add: tr_log_def)
  then show ?thesis by (metis tr_dmsg_def)
qed

lemma tx_id_of: "tx_wf t \<Longrightarrow> the_tx t i = Some tx \<Longrightarrow> tx_id tx = i \<and> tx_info_ok tx \<and> tx \<in> set (elems (tr_transactions t))"
  using keyed_lookup_ok [of tx_id tx_info_ok "tr_transactions t" i tx] by (simp add: tx_wf_def)

lemma thread_of: "tx_wf t \<Longrightarrow> the_thread t i = Some th \<Longrightarrow>
    th_thread_id th = i \<and> word_set (th_tx_ids th) \<and> th \<in> set (elems (tr_threads t))"
  using keyed_lookup_ok [of th_thread_id thread_ok "tr_threads t" i th] by (simp add: tx_wf_def thread_ok_def)

text \<open>A transaction is changed in place.\<close>

lemma put_tx:
  assumes wf: "tx_wf t" and tx: "the_tx t i = Some tx" and tx': "tx_info_ok tx'" "tx_id tx' = i"
    and t': "t' = t\<lparr>tr_transactions := os_write tx tx' (tr_transactions t)\<rparr>"
  shows "tx_wf t'" "the_tx t' = (the_tx t)(i \<mapsto> tx')" "txs_view t' = (txs_view t)(i \<mapsto> tx_view tx')"
    "length (elems (tr_transactions t')) = length (elems (tr_transactions t))"
    "tx_room n t \<Longrightarrow> 2 * (tx_load tx' + n) < OSET_ITER_MAX \<Longrightarrow> tx_room n t'"
proof -
  note o = tx_id_of [OF wf tx]
  have k: "keyed tx_id tx_info_ok (tr_transactions t)" using wf by (simp add: tx_wf_def)
  note w = keyed_map_write [OF k, of tx tx']
  show "tx_wf t'" using w(1) wf o tx' by (simp add: tx_wf_def t')
  show lk: "the_tx t' = (the_tx t)(i \<mapsto> tx')" using w(2) o tx' by (simp add: t' fun_upd_def)
  show "txs_view t' = (txs_view t)(i \<mapsto> tx_view tx')" by (auto simp: txs_view_def lk)
  show "length (elems (tr_transactions t')) = length (elems (tr_transactions t))" by (simp add: t')
  show "tx_room n t'" if "tx_room n t" "2 * (tx_load tx' + n) < OSET_ITER_MAX"
    using that w(3) o tx' by (auto simp: tx_room_def t' simp del: elems_write)
qed

section \<open>The cached region\<close>

lemma cache_bytes: "cache_empty tx \<Longrightarrow> bytes (tx_cached_region tx) = {}"
  by (simp add: cache_empty_def bytes_def hi_def sz_def)

lemma cache_zero: "tx_info_ok tx \<Longrightarrow> cache_empty tx \<longleftrightarrow> st_addr (tx_cached_region tx) = 0 \<or> st_size (tx_cached_region tx) = 0"
  by (auto simp: cache_empty_def tx_info_ok_def rok_def lo_def sz_def)

lemma cmp_cached:
  assumes "tx_info_ok tx" "rkey r"
  shows "cmp_pmem_st r (tx_cached_region tx) = 0 \<longleftrightarrow> bytes r \<inter> bytes (tx_cached_region tx) \<noteq> {}"
proof (cases "cache_empty tx")
  case True
  have "unat (st_addr r + st_size r) > 0" using rkey_hi [OF assms(2)] assms(2) by (simp add: rkey_def hi_def)
  then have "\<not> st_addr r + st_size r \<le> 0" by (auto simp: word_le_nat_alt)
  then show ?thesis using True cache_bytes [OF True] by (simp add: cmp_pmem_st_def cache_empty_def)
next
  case False
  then have "rok (tx_cached_region tx)" using assms(1) by (simp add: tx_info_ok_def)
  then show ?thesis using cmp_pmem_st_eq_0 [OF assms(2)] rok_rkey by blast
qed

lemma tx_load_counter [simp]: "tx_load (tx\<lparr>tx_counter := c\<rparr>) = tx_load tx"
  by (simp add: tx_load_def cache_empty_def)

lemma tx_load_regions: "length (elems (tx_regions tx)) \<le> tx_load tx" "tx_load tx \<le> Suc (length (elems (tx_regions tx)))"
  by (simp_all add: tx_load_def)

lemma clear_cache_sel [simp]: "cache_empty (clear_cache tx)" "tx_regions (clear_cache tx) = tx_regions tx"
  "tx_id (clear_cache tx) = tx_id tx" "tx_counter (clear_cache tx) = tx_counter tx" "tx_context (clear_cache tx) = tx_context tx"
  by (simp_all add: clear_cache_def cache_empty_def)

lemma flush_cache_ok:
  assumes ok: "tx_info_ok tx"
  shows "\<exists>tx'. flush_cache tx = Inr tx' \<and> tx_info_ok tx' \<and> tx_view tx' = tx_view tx \<and> cache_empty tx' \<and>
    region_bytes (tx_regions tx') = tx_bytes tx \<and> tx_load tx' \<le> tx_load tx"
proof (cases "cache_empty tx")
  case True
  then show ?thesis
    using ok cache_bytes [OF True] by (simp add: flush_cache_def tx_bytes_def) (simp add: cache_empty_def)
next
  case False
  then have rok: "rok (tx_cached_region tx)" using ok by (simp add: tx_info_ok_def)
  have rs: "regions_ok (tx_regions tx)" "gapped (elems (tx_regions tx))" using ok by (simp_all add: tx_info_ok_def)
  obtain R where R: "add_region (tx_cached_region tx) (tx_regions tx) = Inr R" "regions_ok R" "gapped (elems R)"
    "region_bytes R = tx_bytes tx" "length (elems R) \<le> Suc (length (elems (tx_regions tx)))"
    using add_region_spec [OF rs(1) rok] rs(2) unfolding tx_bytes_def by blast
  define tx' where "tx' = clear_cache (tx\<lparr>tx_regions := R\<rparr>)"
  have "flush_cache tx = Inr tx'" using False R(1) by (auto simp: flush_cache_def tx'_def cache_empty_def)
  moreover have "tx_info_ok tx'" "cache_empty tx'" "tx_regions tx' = R" using R by (simp_all add: tx_info_ok_def tx'_def)
  moreover have "tx_view tx' = tx_view tx"
    using R(4) cache_bytes [OF \<open>cache_empty tx'\<close>] \<open>tx_regions tx' = R\<close>
    by (simp add: tx_view_def tx_bytes_def [of tx']) (simp add: tx'_def)
  moreover have "tx_load tx' \<le> tx_load tx"
    using False R(5) \<open>cache_empty tx'\<close> \<open>tx_regions tx' = R\<close> by (simp add: tx_load_def)
  ultimately show ?thesis using R by auto
qed

section \<open>Stores\<close>

lemma is_store_in_tx_ok:
  assumes wf: "tx_wf t" and tx: "the_tx t i = Some tx" and key: "rkey store"
  shows "\<exists>t'. is_store_in_tx store i t = Inr (bytes store \<subseteq> tx_bytes tx, t') \<and> tx_wf t' \<and> tx_same t t' \<and>
    tr_oot_stores t' = tr_oot_stores t \<and> (tx_room n t \<longrightarrow> tx_room n t')"
proof -
  note o = tx_id_of [OF wf tx]
  have in_cache: "check_overlap store (tx_cached_region tx) = 1 \<longleftrightarrow> bytes store \<subseteq> bytes (tx_cached_region tx)"
  proof (cases "cache_empty tx")
    case True
    have "lo store \<in> bytes store" using key by (simp add: bytes_def rkey_def hi_def)
    then show ?thesis
      using True cmp_cached [OF _ key, of tx] o cache_bytes [OF True] by (auto simp: check_overlap_def)
  next
    case False
    then have "rkey (tx_cached_region tx)" using o rok_rkey by (simp add: tx_info_ok_def)
    moreover have "bytes store \<noteq> {}" using key by (simp add: bytes_def rkey_def hi_def)
    ultimately show ?thesis using check_overlap_nat [OF key] by auto
  qed
  show ?thesis
  proof (cases "check_overlap store (tx_cached_region tx) = 1")
    case True
    then have "bytes store \<subseteq> tx_bytes tx" using in_cache by (auto simp: tx_bytes_def)
    then show ?thesis using True tx wf by (simp add: is_store_in_tx_def)
  next
    case False
    obtain tx' where f: "flush_cache tx = Inr tx'" "tx_info_ok tx'" "tx_view tx' = tx_view tx"
      "region_bytes (tx_regions tx') = tx_bytes tx" "tx_load tx' \<le> tx_load tx"
      using flush_cache_ok o by blast
    have id': "tx_id tx' = i" using f(3) o by (simp add: tx_view_def)
    have rs: "regions_ok (tx_regions tx')" "gapped (elems (tx_regions tx'))" using f(2) by (simp_all add: tx_info_ok_def)
    define t' where "t' = t\<lparr>tr_transactions := os_write tx tx' (tr_transactions t)\<rparr>"
    note w = put_tx [OF wf tx f(2) id' t'_def]
    have "txs_view t' = txs_view t" using w(3) f(3) tx by (auto simp: txs_view_def)
    then have same: "tx_same t t'" "tr_oot_stores t' = tr_oot_stores t" by (simp_all add: tx_same_def t'_def)
    have "bytes store \<noteq> {}" using key by (simp add: bytes_def rkey_def hi_def)
    then have "is_in_mapping_set store (tx_regions tx') = 1 \<longleftrightarrow> bytes store \<subseteq> tx_bytes tx"
      using is_in_mapping_set_value [OF rs key] f(4) by auto
    then have "is_store_in_tx store i t = Inr (bytes store \<subseteq> tx_bytes tx, t')"
      using False f(1) tx by (simp add: is_store_in_tx_def t'_def)
    moreover have "tx_room n t'" if "tx_room n t"
    proof (rule w(5) [OF that])
      have "2 * (tx_load tx + n) < OSET_ITER_MAX" using that o by (auto simp: tx_room_def)
      then show "2 * (tx_load tx' + n) < OSET_ITER_MAX" using f(5) by simp
    qed
    ultimately show ?thesis using w(1) same by auto
  qed
qed

text \<open>A transaction that does not exist covers nothing.\<close>

definition covers :: "transaction_ops \<Rightarrow> pmem_st \<Rightarrow> uword \<Rightarrow> bool" where
  "covers t store i \<longleftrightarrow> (case txs_view t i of None \<Rightarrow> False | Some (_, _, _, B) \<Rightarrow> bytes store \<subseteq> B)"

lemma covers_Some: "the_tx t i = Some tx \<Longrightarrow> covers t store i \<longleftrightarrow> bytes store \<subseteq> tx_bytes tx"
  by (simp add: covers_def txs_view_def tx_view_def)

lemma covers_same: "tx_same t t' \<Longrightarrow> covers t' = covers t"
  by (simp add: covers_def tx_same_def fun_eq_iff)

lemma find_tx_ok:
  assumes "tx_wf t" "rkey store" "tx_room n t"
  shows "\<exists>t'. find_tx store ids t = Inr (\<exists>i \<in> set ids. covers t store i, t') \<and> tx_wf t' \<and> tx_same t t' \<and>
    tr_oot_stores t' = tr_oot_stores t \<and> tx_room n t'"
  using assms
proof (induction ids arbitrary: t)
  case Nil
  then show ?case by simp
next
  case (Cons i ids)
  have "\<exists>t1. is_store_in_tx store i t = Inr (covers t store i, t1) \<and> tx_wf t1 \<and> tx_same t t1 \<and>
    tr_oot_stores t1 = tr_oot_stores t \<and> tx_room n t1"
  proof (cases "the_tx t i")
    case None
    show ?thesis
      using None Cons.prems(1,3) tr_dmsg_log [of "''no matching transaction found''" "[]" t]
      by (auto simp: is_store_in_tx_def covers_def txs_view_def)
  next
    case (Some tx)
    then show ?thesis
      using is_store_in_tx_ok [OF Cons.prems(1) Some Cons.prems(2), of n] Cons.prems(3) covers_Some [OF Some]
      by auto
  qed
  then obtain t1 where t1: "is_store_in_tx store i t = Inr (covers t store i, t1)" "tx_wf t1" "tx_same t t1"
    "tr_oot_stores t1 = tr_oot_stores t" "tx_room n t1" by blast
  show ?case
  proof (cases "covers t store i")
    case True
    then show ?thesis using True t1 by auto
  next
    case False
    then show ?thesis
      using t1 Cons.IH [OF t1(2) Cons.prems(2) t1(5)] covers_same [OF t1(3)] tx_same_trans [OF t1(3)] by auto
  qed
qed

text \<open>The stores that the module reports.\<close>

definition out_of_tx :: "transaction_ops \<Rightarrow> uword \<Rightarrow> pmem_st \<Rightarrow> bool" where
  "out_of_tx t tid store \<longleftrightarrow> \<not> bytes store \<subseteq> region_bytes (tr_excludes t) \<and>
     (case the_thread t tid of None \<Rightarrow> tr_transactions_only t
      | Some th \<Rightarrow> \<not> (\<exists>i \<in> set (elems (th_tx_ids th)). covers t store i))"

lemma handle_tx_store_ok:
  assumes wf: "tx_wf t" and key: "rkey store" and quiet: "\<not> tr_verbose t"
    and room: "tx_room n t"
    and reg: "length (tr_oot_stores t) < MAX_OOT_STORES"
  shows "\<exists>t'. handle_tx_store en store t = Inr t' \<and> tx_wf t' \<and> tx_same t t' \<and> tx_room n t' \<and>
    tr_oot_stores t' = tr_oot_stores t @ (if out_of_tx t (en_tid en) store then [store] else [])"
proof -
  have rec: "record_store store th t1 = Inr (t1\<lparr>tr_oot_stores := tr_oot_stores t1 @ [store]\<rparr>)"
    if "\<not> tr_verbose t1" "tr_oot_stores t1 = tr_oot_stores t" for th t1
    using that reg by (simp add: record_store_def add_warning_event_def)
  have keep: "tx_wf (t1\<lparr>tr_oot_stores := E\<rparr>) = tx_wf t1" "tx_room n (t1\<lparr>tr_oot_stores := E\<rparr>) = tx_room n t1"
    "tx_same t (t1\<lparr>tr_oot_stores := E\<rparr>) = tx_same t t1" for t1 E
    by (simp_all add: tx_wf_def tx_room_def tx_same_def txs_view_def fun_eq_iff)
  have ex: "regions_ok (tr_excludes t)" "gapped (elems (tr_excludes t))" using wf by (simp_all add: tx_wf_def)
  have "bytes store \<noteq> {}" using key by (simp add: bytes_def rkey_def hi_def)
  then have excl: "is_in_mapping_set store (tr_excludes t) = 1 \<longleftrightarrow> bytes store \<subseteq> region_bytes (tr_excludes t)"
    using is_in_mapping_set_value [OF ex key] by auto
  show ?thesis
  proof (cases "bytes store \<subseteq> region_bytes (tr_excludes t)")
    case True
    then show ?thesis using excl wf room by (simp add: handle_tx_store_def out_of_tx_def)
  next
    case out: False
    show ?thesis
    proof (cases "the_thread t (en_tid en)")
      case None
      then show ?thesis
        using out excl wf room quiet rec [OF quiet] keep
        by (cases "tr_transactions_only t") (auto simp: handle_tx_store_def out_of_tx_def tr_dmsg_def)
    next
      case (Some th)
      have ws: "word_set (th_tx_ids th)" using thread_of [OF wf Some] by simp
      have "th \<in> set (elems (tr_threads t))" using thread_of [OF wf Some] by simp
      then have it: "os_iter (th_tx_ids th) = Inr (elems (th_tx_ids th))"
        using room by (intro os_iter_correct [OF ws]) (auto simp: tx_room_def)
      define b where "b = (\<exists>i \<in> set (elems (th_tx_ids th)). covers t store i)"
      obtain t1 where t1: "find_tx store (elems (th_tx_ids th)) t = Inr (b, t1)" "tx_wf t1" "tx_same t t1"
        "tr_oot_stores t1 = tr_oot_stores t" "tx_room n t1"
        using find_tx_ok [OF wf key room] unfolding b_def by blast
      have v1: "\<not> tr_verbose t1" using quiet t1(3) by (simp add: tx_same_def)
      have o: "out_of_tx t (en_tid en) store = (\<not> b)" using out Some by (simp add: out_of_tx_def b_def)
      have "handle_tx_store en store t = (if b then Inr t1 else record_store store (Some th) t1)"
        using out excl Some it t1(1) v1 by (simp add: handle_tx_store_def)
      then show ?thesis using t1 rec [OF v1 t1(4)] keep o by auto
    qed
  qed
qed

end
