(* ===== verification/PMC_Tx_Ops_Laws.thy ===== *)
theory PMC_Tx_Ops_Laws
  imports PMC_Tx_Laws
begin

text \<open>
  The operations of the transaction module that client requests reach: start and end of a transaction, threads
  that join and leave, regions that are added and removed, and the reports of regions that are registered
  twice.
\<close>

section \<open>Threads\<close>

text \<open>The transactions that a thread takes part in.\<close>

definition tids :: "transaction_ops \<Rightarrow> uword \<Rightarrow> uword set" where
  "tids t k = (case the_thread t k of None \<Rightarrow> {} | Some th \<Rightarrow> set (elems (th_tx_ids th)))"

text \<open>What the operations on transactions and threads leave alone.\<close>

definition tx_rest :: "transaction_ops \<Rightarrow> transaction_ops \<Rightarrow> bool" where
  "tx_rest t t' \<longleftrightarrow> tr_oot_stores t' = tr_oot_stores t \<and> tr_excludes t' = tr_excludes t \<and>
     tr_cross_tx_evs t' = tr_cross_tx_evs t \<and> tr_redundant_logging_tx_evs t' = tr_redundant_logging_tx_evs t \<and>
     tr_verbose t' = tr_verbose t \<and> tr_transactions_only t' = tr_transactions_only t \<and>
     tr_redundant_logging t' = tr_redundant_logging t"

lemma tx_rest_refl [simp]: "tx_rest t t" "tx_rest t (tr_log ms t)" by (simp_all add: tx_rest_def)

lemma tx_rest_trans: "tx_rest t u \<Longrightarrow> tx_rest u v \<Longrightarrow> tx_rest t v" by (simp add: tx_rest_def)

lemma tids_log [simp]: "tids (tr_log ms t) = tids t" by (simp add: tids_def fun_eq_iff)

lemma tr_log_trans: "tr_log ms (tr_log ms' t) = tr_log (ms' @ ms) t" by (simp add: tr_log_def)

lemma tr_log_Nil: "tr_log [] t = t" by (simp add: tr_log_def)

lemma print_running_ok:
  assumes "tx_wf t" "tx_room n t"
  shows "\<exists>ms. print_running_transactions t = Inr (tr_log ms t)"
proof -
  have "os_iter (tr_transactions t) = Inr (elems (tr_transactions t))"
    using assms by (intro os_iter_correct [of "fast_cmp tx_id" tx_id tx_info_ok]) (auto simp: tx_wf_def tx_room_def)
  then show ?thesis by (auto simp: print_running_transactions_def intro: exI [of _ "[]"] tr_log_Nil [symmetric])
qed

lemma print_threads_loop_ok:
  assumes "\<forall>th \<in> set ths. word_set (th_tx_ids th) \<and> length (elems (th_tx_ids th)) < OSET_ITER_MAX"
  shows "\<exists>ms. print_threads_loop ths = Inr ms"
  using assms
proof (induction ths)
  case (Cons th ths)
  then have "os_iter (th_tx_ids th) = Inr (elems (th_tx_ids th))"
    by (intro os_iter_correct [of "fast_cmp (\<lambda>x. x)" "\<lambda>x. x" "\<lambda>x. True"]) auto
  with Cons show ?case by auto
qed simp

lemma print_threads_ok:
  assumes "tx_wf t" "tx_room n t"
  shows "\<exists>ms. print_thread_transactions t = Inr (tr_log ms t)"
proof -
  have k: "keyed th_thread_id thread_ok (tr_threads t)" using assms(1) by (simp add: tx_wf_def)
  have "os_iter (tr_threads t) = Inr (elems (tr_threads t))"
    using assms(2) by (intro os_iter_correct [OF k]) (auto simp: tx_room_def)
  moreover obtain ms where "print_threads_loop (elems (tr_threads t)) = Inr ms"
    using print_threads_loop_ok [of "elems (tr_threads t)"] keyed_ok [OF k] assms(2)
    by (fastforce simp: thread_ok_def tx_room_def)
  ultimately show ?thesis
    by (auto simp: print_thread_transactions_def intro: exI [of _ "[]"] tr_log_Nil [symmetric])
qed

lemma not_in_thread_ok:
  assumes "tx_wf t" "tx_room n t"
  shows "\<exists>ms. not_in_thread t = Inr (tr_log ms t)"
proof -
  obtain ms0 where "tr_dmsg ''this thread does not participate in this transaction'' [] t = tr_log ms0 t"
    using tr_dmsg_log by blast
  then show ?thesis
    using print_running_ok [of "tr_log ms0 t" n] print_threads_ok [of "tr_log _ (tr_log ms0 t)" n] assms
    by (fastforce simp: not_in_thread_def tr_log_trans)
qed

lemma is_tx_in_thread_ok: "\<exists>ms. is_tx_in_thread en i t = (b, tr_log ms t)" if "tx_wf t" "b = (i \<in> tids t (en_tid en))"
proof (cases "the_thread t (en_tid en)")
  case None
  then show ?thesis using that(2) tr_dmsg_log by (auto simp: is_tx_in_thread_def tids_def)
next
  case (Some th)
  then have "word_set (th_tx_ids th)" using thread_of [OF that(1)] by simp
  then show ?thesis
    using Some that(2) word_set_contains by (auto simp: is_tx_in_thread_def tids_def intro: tr_log_Nil [symmetric])
qed

lemma create_get_thread_entry_ok:
  assumes wf: "tx_wf t"
  shows "\<exists>th T. create_get_thread_entry k (tr_threads t) = Inr (th, T) \<and> keyed th_thread_id thread_ok T \<and>
    OSetGen_Lookup T k = Some th \<and> OSetGen_Lookup T = (the_thread t)(k \<mapsto> th) \<and> set (elems (th_tx_ids th)) = tids t k \<and>
    set (elems T) \<subseteq> insert th (set (elems (tr_threads t))) \<and> length (elems T) \<le> Suc (length (elems (tr_threads t))) \<and>
    (th \<in> set (elems (tr_threads t)) \<or> elems (th_tx_ids th) = [])"
proof -
  have kt: "keyed th_thread_id thread_ok (tr_threads t)" using wf by (simp add: tx_wf_def)
  show ?thesis
  proof (cases "the_thread t k")
    case None
    let ?n = "\<lparr>th_thread_id = k, th_tx_ids = OSetWord_Create\<rparr>"
    obtain T where "OSetGen_Insert ?n (tr_threads t) = Inr T" "keyed th_thread_id thread_ok T"
      "OSetGen_Lookup T = (the_thread t)(k \<mapsto> ?n)" "set (elems T) = insert ?n (set (elems (tr_threads t)))"
      "length (elems T) = Suc (length (elems (tr_threads t)))"
      using keyed_insert [OF kt, of ?n] None by (auto simp: thread_ok_def)
    then show ?thesis using None by (auto simp: create_get_thread_entry_def OSetGen_Contains_def tids_def)
  next
    case (Some th)
    then show ?thesis
      using kt thread_of [OF wf Some] by (auto simp: create_get_thread_entry_def OSetGen_Contains_def tids_def)
  qed
qed

lemma join_tx_ok:
  assumes wf: "tx_wf t" and room: "tx_room (Suc n) t"
  shows "\<exists>t'. join_tx en i t = Inr t' \<and> tx_wf t' \<and> tx_room n t' \<and> tr_transactions t' = tr_transactions t \<and> tx_rest t t' \<and>
    tids t' = (tids t)(en_tid en := insert i (tids t (en_tid en))) \<and> dom (the_thread t') = insert (en_tid en) (dom (the_thread t))"
proof -
  let ?k = "en_tid en"
  obtain th T where T: "create_get_thread_entry ?k (tr_threads t) = Inr (th, T)" "keyed th_thread_id thread_ok T"
    "OSetGen_Lookup T ?k = Some th" "OSetGen_Lookup T = (the_thread t)(?k \<mapsto> th)" "set (elems (th_tx_ids th)) = tids t ?k"
    "set (elems T) \<subseteq> insert th (set (elems (tr_threads t)))" "length (elems T) \<le> Suc (length (elems (tr_threads t)))"
    "th \<in> set (elems (tr_threads t)) \<or> elems (th_tx_ids th) = []"
    using create_get_thread_entry_ok [OF wf] by blast
  have th: "th \<in> set (elems T)" "th_thread_id th = ?k" "word_set (th_tx_ids th)"
    using keyed_lookup_ok [OF T(2,3)] by (simp_all add: thread_ok_def)
  have small: "length (elems (th_tx_ids th)) + Suc n < OSET_ITER_MAX" "length (elems T) + n < OSET_ITER_MAX"
    using T(7,8) room by (auto simp: tx_room_def)
  have ids: "length (elems (th_tx_ids x)) + n < OSET_ITER_MAX" if "x \<in> set (elems T)" for x
  proof -
    have "x = th \<or> x \<in> set (elems (tr_threads t))" using that T(6) by blast
    then have "length (elems (th_tx_ids x)) + Suc n < OSET_ITER_MAX" using small(1) room by (auto simp: tx_room_def)
    then show ?thesis by simp
  qed
  show ?thesis
  proof (cases "i \<in> tids t ?k")
    case True
    then have "join_tx en i t = Inr (t\<lparr>tr_threads := T\<rparr>)"
      using T(1,5) word_set_contains [OF th(3)] by (simp add: join_tx_def)
    moreover have "tids (t\<lparr>tr_threads := T\<rparr>) = (tids t)(?k := insert i (tids t ?k))"
      using T(4,5) True by (auto simp: tids_def fun_eq_iff)
    moreover have "dom (the_thread (t\<lparr>tr_threads := T\<rparr>)) = insert ?k (dom (the_thread t))" using T(4) by (auto simp: dom_def)
    ultimately show ?thesis
      using wf T(2) room small(2) ids by (auto simp: tx_wf_def tx_room_def tx_rest_def)
  next
    case False
    then obtain J where J: "OSetWord_Insert i (th_tx_ids th) = Inr J" "word_set J"
      "set (elems J) = insert i (tids t ?k)" "length (elems J) = Suc (length (elems (th_tx_ids th)))"
      using word_set_insert [OF th(3), of i] T(5) by auto
    define t' where "t' = t\<lparr>tr_threads := os_write th (th\<lparr>th_tx_ids := J\<rparr>) T\<rparr>"
    note w = keyed_map_write [OF T(2) th(1), of "th\<lparr>th_tx_ids := J\<rparr>"]
    have run: "join_tx en i t = Inr t'"
      using T(1,5) False word_set_contains [OF th(3)] J(1) by (simp add: join_tx_def t'_def)
    have "tids t' = (tids t)(?k := insert i (tids t ?k))"
      using w(2) T(4) th(2) J(2,3) by (auto simp: tids_def t'_def thread_ok_def fun_eq_iff)
    moreover have "tx_wf t'" using wf w(1) J(2) by (simp add: tx_wf_def t'_def thread_ok_def)
    moreover have "elems (tr_threads t') = map (\<lambda>x. if x = th then th\<lparr>th_tx_ids := J\<rparr> else x) (elems T)"
      using w(3) J(2) by (simp add: t'_def thread_ok_def del: elems_write)
    then have "tx_room n t'"
      using room small ids J(4) by (auto simp: tx_room_def t'_def simp del: elems_write)
    moreover have "dom (the_thread t') = insert ?k (dom (the_thread t))"
      using w(2) T(4) th(2) J(2) by (auto simp: t'_def thread_ok_def)
    moreover have "tr_transactions t' = tr_transactions t" "tx_rest t t'" by (simp_all add: t'_def tx_rest_def)
    ultimately show ?thesis using run by blast
  qed
qed

section \<open>Start of a transaction\<close>

definition started :: "env \<Rightarrow> uword \<Rightarrow> (uword \<times> uword \<times> exe_context \<times> nat set) option \<Rightarrow> uword \<times> uword \<times> exe_context \<times> nat set" where
  "started en i v = (case v of None \<Rightarrow> (i, 1, en_context en, {}) | Some (j, c, x, B) \<Rightarrow> (j, c + 1, x, B))"

lemma register_new_tx_ok:
  assumes wf: "tx_wf t" and room: "tx_room (Suc (Suc n)) t"
  shows "\<exists>t'. register_new_tx en i t = Inr t' \<and> tx_wf t' \<and> tx_room n t' \<and> tx_rest t t' \<and>
    txs_view t' = (txs_view t)(i \<mapsto> started en i (txs_view t i)) \<and>
    tids t' = (tids t)(en_tid en := insert i (tids t (en_tid en))) \<and> dom (the_thread t') = insert (en_tid en) (dom (the_thread t))"
proof -
  let ?new = "\<lparr>tx_id = i, tx_counter = 0, tx_context = en_context en,
                    tx_regions = OSetGen_Create cmp_pmem_st (\<lambda>x. x), tx_cached_region = zero_st\<rparr>"
  have kt: "keyed tx_id tx_info_ok (tr_transactions t)" using wf by (simp add: tx_wf_def)
  have new: "tx_info_ok ?new" "tx_bytes ?new = {}"
    using oset_inv_Create [of cmp_pmem_st "\<lambda>x. x" rok]
    by (simp_all add: tx_info_ok_def cache_empty_def gapped_def zero_st_def tx_bytes_def bytes_def hi_def sz_def lo_def)
  obtain tx X where X: "(if \<not> OSetGen_Contains (tr_transactions t) i then OSetGen_Insert ?new (tr_transactions t)
      else Inr (tr_transactions t)) = Inr X" "keyed tx_id tx_info_ok X" "OSetGen_Lookup X = (the_tx t)(i \<mapsto> tx)"
    "tx_info_ok tx" "tx_id tx = i" "tx = ?new \<and> the_tx t i = None \<or> the_tx t i = Some tx"
    "set (elems X) \<subseteq> insert tx (set (elems (tr_transactions t)))" "length (elems X) \<le> Suc (length (elems (tr_transactions t)))"
  proof (cases "the_tx t i")
    case None
    then show ?thesis
      using keyed_insert [OF kt new(1)] new(1) that by (fastforce simp: OSetGen_Contains_def)
  next
    case (Some tx)
    then have "the_tx t = (the_tx t)(i \<mapsto> tx)" by (simp add: fun_eq_iff)
    then show ?thesis using Some tx_id_of [OF wf Some] kt that [of "tr_transactions t" tx] by (auto simp: OSetGen_Contains_def)
  qed
  define t0 where "t0 = t\<lparr>tr_transactions := X\<rparr>"
  have wf0: "tx_wf t0" using wf X(2) by (simp add: tx_wf_def t0_def)
  have small: "tx_load x = 0 \<or> x \<in> set (elems (tr_transactions t))" if "x \<in> set (elems X)" for x
    using that X(6,7) tx_id_of [OF wf, of i x] by (auto simp: tx_load_def cache_empty_def zero_st_def)
  have room0: "tx_room (Suc n) t0"
    unfolding tx_room_def
  proof (intro conjI ballI)
    show "2 * (length (elems (tr_transactions t0)) + Suc n) < OSET_ITER_MAX"
      using room X(8) by (simp add: tx_room_def t0_def)
    show "length (elems (tr_threads t0)) + Suc n < OSET_ITER_MAX" using room by (simp add: tx_room_def t0_def)
    show "length (elems (th_tx_ids th)) + Suc n < OSET_ITER_MAX" if "th \<in> set (elems (tr_threads t0))" for th
      using room that by (auto simp: tx_room_def t0_def)
    show "2 * (tx_load x + Suc n) < OSET_ITER_MAX" if "x \<in> set (elems (tr_transactions t0))" for x
      using small [of x] that room by (auto simp: tx_room_def t0_def OSET_ITER_MAX_def)
  qed
  obtain t1 where t1: "join_tx en i t0 = Inr t1" "tx_wf t1" "tx_room n t1" "tr_transactions t1 = X" "tx_rest t0 t1"
    "tids t1 = (tids t0)(en_tid en := insert i (tids t0 (en_tid en)))" "dom (the_thread t1) = insert (en_tid en) (dom (the_thread t0))"
    using join_tx_ok [OF wf0 room0, of en i] by (auto simp: t0_def)
  define tx' where "tx' = tx\<lparr>tx_counter := tx_counter tx + 1\<rparr>"
  define t2 where "t2 = t1\<lparr>tr_transactions := os_write tx tx' (tr_transactions t1)\<rparr>"
  have tx1: "the_tx t1 i = Some tx" using t1(4) X(3) by simp
  have tx': "tx_info_ok tx'" "tx_id tx' = i" using X(4,5) by (simp_all add: tx'_def tx_info_ok_def cache_empty_def)
  note w = put_tx [OF t1(2) tx1 tx' t2_def]
  have "2 * (tx_load tx' + n) < OSET_ITER_MAX"
    using t1(3) tx_id_of [OF t1(2) tx1] by (auto simp: tx_room_def tx'_def)
  then have room2: "tx_room n t2" using w(5) t1(3) by blast
  have v: "tx_view tx' = started en i (txs_view t i)"
  proof (cases "the_tx t i")
    case None
    then have "tx = ?new" using X(6) by simp
    moreover have "tx_bytes tx' = tx_bytes tx" by (simp add: tx'_def tx_bytes_def)
    ultimately show ?thesis using None new(2) by (simp add: started_def txs_view_def tx_view_def tx'_def)
  next
    case (Some y)
    then show ?thesis using X(6) by (simp add: started_def txs_view_def tx_view_def tx'_def tx_bytes_def)
  qed
  have "txs_view t1 = (txs_view t)(i \<mapsto> tx_view tx)" using t1(4) X(3) by (auto simp: txs_view_def)
  then have view2: "txs_view t2 = (txs_view t)(i \<mapsto> started en i (txs_view t i))" using w(3) v by auto
  obtain ms0 where m0: "tr_dmsg ''Starting transaction: %lu, nesting %lu'' [i, tx_counter tx'] t2 = tr_log ms0 t2"
    using tr_dmsg_log by blast
  obtain ms where m: "print_running_transactions (tr_log ms0 t2) = Inr (tr_log ms (tr_log ms0 t2))"
    using print_running_ok [of "tr_log ms0 t2" n] w(1) room2 by auto
  have "register_new_tx en i t = Inr (tr_log (ms0 @ ms) t2)"
    unfolding register_new_tx_def X(1) using t1(1) tx1 m0 m
    by (simp add: t0_def [symmetric] tx'_def [symmetric] t2_def [symmetric] Let_def tr_log_trans)
  moreover have "tids t2 = (tids t)(en_tid en := insert i (tids t (en_tid en)))"
    using t1(6) by (simp add: t2_def t0_def tids_def fun_eq_iff)
  moreover have "tx_rest t t2" using t1(5) by (simp add: tx_rest_def t2_def t0_def)
  moreover have "dom (the_thread t2) = insert (en_tid en) (dom (the_thread t))" using t1(7) by (simp add: t2_def t0_def)
  ultimately show ?thesis
    using w(1) room2 view2 by (intro exI [of _ "tr_log (ms0 @ ms) t2"]) (simp add: tx_rest_def)
qed

lemma is_nest_trans_view: "is_nest_trans i t \<longleftrightarrow> (\<exists>j c x B. txs_view t i = Some (j, c, x, B) \<and> c > 1)"
  by (auto simp: is_nest_trans_def txs_view_def tx_view_def split: option.split)

end
