(* ===== verification/PMC_Tx_End_Laws.thy ===== *)
theory PMC_Tx_End_Laws
  imports PMC_Tx_Ops_Laws
begin

text \<open>
  The end of a transaction (\<open>remove_tx\<close>): the nesting counter, and the loop that takes the transaction out of
  the threads.  The removal of a thread resets the iterator of the set of threads, which ends the loop.
\<close>

definition th_view :: "thread_info \<Rightarrow> uword \<times> uword list" where
  "th_view th = (th_thread_id th, elems (th_tx_ids th))"

text \<open>What the loop does to the threads, in the order of their ids: it stops at the first thread that is left
  without a transaction.\<close>

fun drop_tx :: "uword \<Rightarrow> (uword \<times> uword list) list \<Rightarrow> (uword \<times> uword list) list" where
  "drop_tx i [] = []"
| "drop_tx i ((k, ids) # ths) =
     (let ids' = filter (\<lambda>x. x \<noteq> i) ids in if ids' = [] then ths else (k, ids') # drop_tx i ths)"

lemma keyed_split_distinct:
  assumes "keyed key ok t" "elems t = xs @ e # ys" "x \<in> set xs \<union> set ys"
  shows "key x \<noteq> key e"
proof -
  have "distinct (elems t)" using wo.ordered_distinct assms(1) by (auto simp: oset_inv_def)
  then have "x \<noteq> e" using assms(2,3) by auto
  then show ?thesis using keyed_inj [OF assms(1), of x e] assms(2,3) by auto
qed

lemma remove_tx_body_ok:
  assumes k: "keyed th_thread_id thread_ok T" and el: "elems T = ys @ e # xs" and rest: "rest_of T = xs"
    and ids': "ids' = filter (\<lambda>x. x \<noteq> i) (elems (th_tx_ids e))"
  shows "\<exists>T'. remove_tx_body i e T = Inr T' \<and> keyed th_thread_id thread_ok T' \<and>
    (if ids' = [] then elems T' = ys @ xs \<and> rest_of T' = []
     else (\<exists>e'. th_view e' = (th_thread_id e, ids') \<and> elems T' = ys @ e' # xs) \<and> rest_of T' = xs)"
proof -
  have e: "e \<in> set (elems T)" "thread_ok e" using el keyed_ok [OF k, of e] by simp_all
  obtain J where J: "OSetWord_Remove i (th_tx_ids e) = Inr (i \<in> set (elems (th_tx_ids e)), J)" "word_set J" "elems J = ids'"
    using word_set_remove [of "th_tx_ids e" i] e(2) ids' by (auto simp: thread_ok_def)
  define e' where "e' = e\<lparr>th_tx_ids := J\<rparr>"
  have e': "thread_ok e'" "th_thread_id e' = th_thread_id e" "th_view e' = (th_thread_id e, ids')"
    using J by (simp_all add: e'_def thread_ok_def th_view_def)
  define T1 where "T1 = os_write e e' T"
  note w = keyed_map_write [OF k e(1) e'(2,1), folded T1_def]
  have other: "x \<in> set ys \<union> set xs \<Longrightarrow> th_thread_id x \<noteq> th_thread_id e" for x
    using keyed_split_distinct [OF k el] by blast
  then have "map (\<lambda>x. if x = e then e' else x) ys = ys" "map (\<lambda>x. if x = e then e' else x) xs = xs"
    "map (\<lambda>x. if th_thread_id x = th_thread_id e then e' else x) xs = xs"
    by (intro map_idI; force)+
  then have T1: "elems T1 = ys @ e' # xs" "rest_of T1 = xs" "keyed th_thread_id thread_ok T1"
    using w el rest by simp_all
  have body: "remove_tx_body i e T = (if ids' = [] then remove_thread_entry e' T1 else Inr T1)"
    using J(1,3) word_set_size [OF J(2)] by (simp add: remove_tx_body_def e'_def [symmetric] T1_def [symmetric] Let_def)
  show ?thesis
  proof (cases "ids' = []")
    case False
    then show ?thesis using body T1 e'(3) by auto
  next
    case True
    have lk: "OSetGen_Lookup T1 (th_thread_id e') = Some e'" using keyed_lookup [OF T1(3)] T1(1) by simp
    obtain T2 where T2: "OSetGen_Remove (th_thread_id e') T1 = Inr (Some e', T2)" "keyed th_thread_id thread_ok T2"
      "elems T2 = filter (\<lambda>y. y \<noteq> e') (elems T1)" "rest_of T2 = []" "OSetGen_FreeNode e' T2 = Inr T2"
      using keyed_remove [OF T1(3) lk] by auto
    have "OSetGen_Destroy (th_tx_ids e') = Inr ()"
      using Destroy_correct [OF J(2)] J(3) True by (simp add: e'_def OSET_ITER_MAX_def)
    then have "remove_thread_entry e' T1 = Inr T2"
      using T2(1,5) lk by (simp add: remove_thread_entry_def OSetGen_Contains_def)
    moreover have "filter (\<lambda>y. y \<noteq> e') ys = ys" "filter (\<lambda>y. y \<noteq> e') xs = xs"
      using keyed_split_distinct [OF T1(3,1)] by (force simp: filter_id_conv)+
    ultimately show ?thesis using body True T1(1) T2 by auto
  qed
qed

lemma remove_tx_loop_ok:
  assumes "keyed th_thread_id thread_ok T" "elems T = ys @ rest_of T" "length (rest_of T) < f"
  shows "\<exists>T'. while_next f OSetGen_Next (remove_tx_body i) T = Inr T' \<and> keyed th_thread_id thread_ok T' \<and>
    map th_view (elems T') = map th_view ys @ drop_tx i (map th_view (rest_of T)) \<and> length (elems T') \<le> length (elems T)"
  using assms
proof (induction f arbitrary: T ys)
  case 0
  then show ?case by simp
next
  case (Suc f)
  show ?case
  proof (cases "rest_of T")
    case Nil
    then have "OSetGen_Next T = Inr (None, T\<lparr>os_stack := []\<rparr>)" using Next_None [OF Suc.prems(1)] by simp
    moreover have "keyed th_thread_id thread_ok (T\<lparr>os_stack := []\<rparr>)" "elems (T\<lparr>os_stack := []\<rparr>) = elems T"
      using Suc.prems(1) by (simp_all add: oset_inv_def elems_def)
    ultimately show ?thesis using Nil Suc.prems(2) by auto
  next
    case (Cons e xs)
    obtain T1 where T1: "OSetGen_Next T = Inr (Some e, T1)" "keyed th_thread_id thread_ok T1" "elems T1 = ys @ e # xs"
      "rest_of T1 = xs"
      using Next_Some [OF Suc.prems(1) Cons] Suc.prems(2) Cons by auto
    define ids' where "ids' = filter (\<lambda>x. x \<noteq> i) (elems (th_tx_ids e))"
    obtain T2 where T2: "remove_tx_body i e T1 = Inr T2" "keyed th_thread_id thread_ok T2"
      "if ids' = [] then elems T2 = ys @ xs \<and> rest_of T2 = []
       else (\<exists>e'. th_view e' = (th_thread_id e, ids') \<and> elems T2 = ys @ e' # xs) \<and> rest_of T2 = xs"
      using remove_tx_body_ok [OF T1(2-4) ids'_def] by blast
    have step: "while_next (Suc f) OSetGen_Next (remove_tx_body i) T = while_next f OSetGen_Next (remove_tx_body i) T2"
      using T1(1) T2(1) by simp
    have hd: "th_view e = (th_thread_id e, elems (th_tx_ids e))" by (simp add: th_view_def)
    show ?thesis
    proof (cases "ids' = []")
      case True
      then have "elems T2 = (ys @ xs) @ rest_of T2" "length (rest_of T2) < f" using T2(3) Suc.prems(3) Cons by auto
      from Suc.IH [OF T2(2) this] obtain T' where "while_next f OSetGen_Next (remove_tx_body i) T2 = Inr T'"
        "keyed th_thread_id thread_ok T'" "map th_view (elems T') = map th_view (ys @ xs)" "length (elems T') \<le> length (elems T2)"
        using True T2(3) by auto
      moreover have "drop_tx i (map th_view (e # xs)) = map th_view xs" using True hd by (simp add: ids'_def [symmetric])
      ultimately show ?thesis using step Cons True T2(3) Suc.prems(2) by auto
    next
      case False
      then obtain e' where e': "th_view e' = (th_thread_id e, ids')" "elems T2 = ys @ e' # xs" "rest_of T2 = xs"
        using T2(3) by auto
      then have "elems T2 = (ys @ [e']) @ rest_of T2" "length (rest_of T2) < f" using Suc.prems(3) Cons by auto
      from Suc.IH [OF T2(2) this] obtain T' where "while_next f OSetGen_Next (remove_tx_body i) T2 = Inr T'"
        "keyed th_thread_id thread_ok T'" "map th_view (elems T') = map th_view (ys @ [e']) @ drop_tx i (map th_view xs)"
        "length (elems T') \<le> length (elems T2)"
        using e'(3) by auto
      moreover have "drop_tx i (map th_view (e # xs)) = (th_thread_id e, ids') # drop_tx i (map th_view xs)"
        using False hd by (simp add: ids'_def [symmetric])
      ultimately show ?thesis using step Cons e' Suc.prems(2) by auto
    qed
  qed
qed

lemma length_drop_tx: "ids \<in> snd ` set (drop_tx i ths) \<Longrightarrow> \<exists>ids' \<in> snd ` set ths. length ids \<le> length ids'"
proof (induction ths)
  case (Cons th ths)
  then show ?case by (cases th) (force simp: Let_def split: if_splits)
qed simp

text \<open>The threads of a state, as the loop sees them.\<close>

definition threads_view :: "transaction_ops \<Rightarrow> (uword \<times> uword list) list" where
  "threads_view t = map th_view (elems (tr_threads t))"

lemma remove_tx_none:
  assumes "the_tx t i = None"
  shows "remove_tx i t = Inr (1, tr_log [Umsg ''========remove_tx NULL=========='' []] t)"
  using assms by (simp add: remove_tx_def)

lemma remove_tx_nested:
  assumes wf: "tx_wf t" and room: "tx_room n t" and tx: "the_tx t i = Some tx" and c: "tx_counter tx - 1 > 0"
  shows "\<exists>t'. remove_tx i t = Inr (0, t') \<and> tx_wf t' \<and> tx_room n t' \<and> tx_rest t t' \<and> tr_threads t' = tr_threads t \<and>
    txs_view t' = (txs_view t)(i \<mapsto> (i, tx_counter tx - 1, tx_context tx, tx_bytes tx))"
proof -
  note o = tx_id_of [OF wf tx]
  define tx' where "tx' = tx\<lparr>tx_counter := tx_counter tx - 1\<rparr>"
  define t' where "t' = t\<lparr>tr_transactions := os_write tx tx' (tr_transactions t)\<rparr>"
  have tx': "tx_info_ok tx'" "tx_id tx' = i" using o by (simp_all add: tx'_def tx_info_ok_def cache_empty_def)
  note w = put_tx [OF wf tx tx' t'_def]
  have "remove_tx i t = Inr (0, t')" using tx c by (simp add: remove_tx_def t'_def tx'_def)
  moreover have "tx_view tx' = (i, tx_counter tx - 1, tx_context tx, tx_bytes tx)"
    using o by (simp add: tx_view_def tx'_def tx_bytes_def)
  moreover have "tx_room n t'"
    using o room by (intro w(5)) (auto simp: tx'_def tx_room_def)
  moreover have "tx_rest t t'" "tr_threads t' = tr_threads t" by (simp_all add: t'_def tx_rest_def)
  ultimately show ?thesis using w(1,3) by metis
qed

lemma remove_tx_last:
  assumes wf: "tx_wf t" and room: "tx_room n t" and tx: "the_tx t i = Some tx" and c: "tx_counter tx = 1"
  shows "\<exists>t'. remove_tx i t = Inr (0, t') \<and> tx_wf t' \<and> tx_room n t' \<and> tx_rest t t' \<and>
    txs_view t' = (txs_view t)(i := None) \<and> threads_view t' = drop_tx i (threads_view t)"
proof -
  note o = tx_id_of [OF wf tx]
  have kx: "keyed tx_id tx_info_ok (tr_transactions t)" and kt: "keyed th_thread_id thread_ok (tr_threads t)"
    using wf by (simp_all add: tx_wf_def)
  define tx' where "tx' = tx\<lparr>tx_counter := 0\<rparr>"
  define t1 where "t1 = t\<lparr>tr_transactions := os_write tx tx' (tr_transactions t)\<rparr>"
  have tx': "tx_info_ok tx'" "tx_id tx' = i" using o by (simp_all add: tx'_def tx_info_ok_def cache_empty_def)
  note w = put_tx [OF wf tx tx' t1_def]
  have k1: "keyed tx_id tx_info_ok (tr_transactions t1)" using w(1) by (simp add: tx_wf_def)
  have "the_tx t1 i = Some tx'" using w(2) by simp
  then obtain X where X: "OSetGen_Remove i (tr_transactions t1) = Inr (Some tx', X)" "keyed tx_id tx_info_ok X"
    "OSetGen_Lookup X = (the_tx t1)(i := None)" "elems X = filter (\<lambda>y. y \<noteq> tx') (elems (tr_transactions t1))"
    "OSetGen_FreeNode tx' X = Inr X" "Suc (length (elems X)) = length (elems (tr_transactions t1))"
    using keyed_remove [OF k1] tx'(2) by blast
  have small: "length (elems (tr_threads t)) < OSET_ITER_MAX" using room by (simp add: tx_room_def)
  note it = ResetIter_correct [OF kt small]
  obtain T where T: "while_next (Suc (OSetGen_Size (tr_threads t))) OSetGen_Next (remove_tx_body i)
      (OSetGen_ResetIter (tr_threads t)) = Inr T" "keyed th_thread_id thread_ok T"
    "map th_view (elems T) = drop_tx i (threads_view t)" "length (elems T) \<le> length (elems (tr_threads t))"
    using remove_tx_loop_ok [OF it(1), of "[]" "Suc (OSetGen_Size (tr_threads t))" i] it Size_correct [OF kt]
    by (auto simp: threads_view_def)
  define t' where "t' = t\<lparr>tr_threads := T, tr_transactions := X\<rparr>"
  have "length (elems (tx_regions tx')) < OSET_ITER_MAX" using room o tx_load_regions(1) [of tx] by (auto simp: tx_room_def tx'_def)
  then have "OSetGen_Destroy (tx_regions tx') = Inr ()"
    using tx'(1) by (intro Destroy_correct [of cmp_pmem_st "\<lambda>x. x" rok]) (auto simp: tx_info_ok_def)
  then have "remove_tx i t = Inr (0, t')"
    using tx c T(1) X(1,5) by (simp add: remove_tx_def t'_def t1_def tx'_def)
  moreover have "tx_wf t'" using wf T(2) X(2) by (simp add: tx_wf_def t'_def)
  moreover have "txs_view t' = (txs_view t)(i := None)"
    using X(3) w(2) by (auto simp: txs_view_def t'_def fun_eq_iff)
  moreover have "tx_room n t'"
    unfolding tx_room_def
  proof (intro conjI ballI)
    show "2 * (length (elems (tr_transactions t')) + n) < OSET_ITER_MAX"
      using X(6) w(4) room by (simp add: tx_room_def t'_def)
    show "length (elems (tr_threads t')) + n < OSET_ITER_MAX" using T(4) room by (simp add: tx_room_def t'_def)
    show "length (elems (th_tx_ids th)) + n < OSET_ITER_MAX" if "th \<in> set (elems (tr_threads t'))" for th
    proof -
      have "th_view th \<in> set (map th_view (elems T))" using that by (simp add: t'_def)
      then have "elems (th_tx_ids th) \<in> snd ` set (drop_tx i (threads_view t))"
        unfolding T(3) by (force simp: th_view_def)
      then obtain y where "y \<in> set (elems (tr_threads t))" "length (elems (th_tx_ids th)) \<le> length (elems (th_tx_ids y))"
        using length_drop_tx [of "elems (th_tx_ids th)" i "threads_view t"]
        unfolding threads_view_def by (auto simp: th_view_def)
      moreover from this have "length (elems (th_tx_ids y)) + n < OSET_ITER_MAX" using room by (simp add: tx_room_def)
      ultimately show ?thesis by linarith
    qed
    show "2 * (tx_load x + n) < OSET_ITER_MAX" if "x \<in> set (elems (tr_transactions t'))" for x
    proof -
      have "tx_room n t1" using o room by (intro w(5)) (auto simp: tx'_def tx_room_def)
      then show ?thesis using that X(4) by (simp add: tx_room_def t'_def)
    qed
  qed
  ultimately show ?thesis using T(3) by (auto simp: tx_rest_def t'_def threads_view_def)
qed

end
