(* ===== verification/PMC_Tx_Region_Laws.thy ===== *)
theory PMC_Tx_Region_Laws
  imports PMC_Tx_End_Laws
begin

text \<open>
  Regions of a transaction: \<open>add_obj_to_tx\<close> with its reports of regions that are registered twice,
  \<open>remove_obj_from_tx\<close>, the threads that join and leave, and the global excludes.
\<close>

section \<open>Reports of overlapping regions\<close>

text \<open>The region of a transaction that a range overlaps: the cached one before those of the tree.\<close>

definition found_region :: "pmem_st \<Rightarrow> tx_info \<Rightarrow> pmem_st option" where
  "found_region reg tx =
     (if bytes reg \<inter> bytes (tx_cached_region tx) \<noteq> {} then Some (tx_cached_region tx)
      else OSetGen_Lookup (tx_regions tx) reg)"

definition cross_evs :: "uword \<Rightarrow> pmem_st \<Rightarrow> tx_info list \<Rightarrow> cross_tx_event list" where
  "cross_evs i reg txs = concat (map (\<lambda>tx. case found_region reg tx of
       Some orig \<Rightarrow> if tx_id tx \<noteq> i then [\<lparr>cr_original = orig, cr_orig_tx_id = tx_id tx, cr_duplicate = reg, cr_dup_tx_id = i\<rparr>] else []
     | None \<Rightarrow> []) txs)"

definition log_evs :: "uword \<Rightarrow> pmem_st \<Rightarrow> tx_info list \<Rightarrow> redundant_logging_tx_event list" where
  "log_evs i reg txs = concat (map (\<lambda>tx. case found_region reg tx of
       Some orig \<Rightarrow> if tx_id tx = i then [\<lparr>rl_original = orig, rl_tx_id = i, rl_duplicate = reg\<rparr>] else []
     | None \<Rightarrow> []) txs)"

lemma evs_Cons:
  "cross_evs i reg (tx # txs) = cross_evs i reg [tx] @ cross_evs i reg txs"
  "log_evs i reg (tx # txs) = log_evs i reg [tx] @ log_evs i reg txs"
  by (simp_all add: cross_evs_def log_evs_def)

lemma evs_length: "length (cross_evs i reg txs) \<le> length txs" "length (log_evs i reg txs) \<le> length txs"
  by (induction txs) (auto simp: cross_evs_def log_evs_def split: option.split)

definition with_evs :: "cross_tx_event list \<Rightarrow> redundant_logging_tx_event list \<Rightarrow> transaction_ops \<Rightarrow> transaction_ops" where
  "with_evs cs ls t = t\<lparr>tr_cross_tx_evs := tr_cross_tx_evs t @ cs,
     tr_redundant_logging_tx_evs := tr_redundant_logging_tx_evs t @ (if tr_redundant_logging t then ls else [])\<rparr>"

lemma overlap_events_ok:
  assumes ok: "tx_info_ok tx" and key: "rkey reg"
    and room: "length (tr_cross_tx_evs t) < MAX_CROSS_EVS" "length (tr_redundant_logging_tx_evs t) < MAX_CROSS_EVS"
  shows "overlap_events i reg tx t = Inr (with_evs (cross_evs i reg [tx]) (log_evs i reg [tx]) t)"
proof -
  have rs: "regions_ok (tx_regions tx)" using ok by (simp add: tx_info_ok_def)
  have none: "OSetGen_Lookup (tx_regions tx) reg = None \<longleftrightarrow> is_in_mapping_set reg (tx_regions tx) = 0"
    using is_in_mapping_set_correct(1) [OF rs key] region_contains [OF rs key] by (auto simp: OSetGen_Contains_def)
  have found: "(if cmp_pmem_st reg (tx_cached_region tx) = 0 then Inr (Some (tx_cached_region tx))
      else if is_in_mapping_set reg (tx_regions tx) \<noteq> 0
      then (case OSetGen_Lookup (tx_regions tx) reg of None \<Rightarrow> Inl (NullDeref ''add_obj_to_tx'') | Some r \<Rightarrow> Inr (Some r))
      else Inr None) = Inr (found_region reg tx)"
    using cmp_cached [OF ok key] none
    by (cases "OSetGen_Lookup (tx_regions tx) reg") (auto simp: found_region_def)
  have id: "t\<lparr>tr_cross_tx_evs := tr_cross_tx_evs t, tr_redundant_logging_tx_evs := tr_redundant_logging_tx_evs t\<rparr> = t"
    "t\<lparr>tr_cross_tx_evs := tr_cross_tx_evs t @ cs, tr_redundant_logging_tx_evs := tr_redundant_logging_tx_evs t\<rparr> =
       t\<lparr>tr_cross_tx_evs := tr_cross_tx_evs t @ cs\<rparr>"
    "t\<lparr>tr_cross_tx_evs := tr_cross_tx_evs t, tr_redundant_logging_tx_evs := ls\<rparr> = t\<lparr>tr_redundant_logging_tx_evs := ls\<rparr>" for cs ls
    by simp_all
  show ?thesis
    unfolding overlap_events_def found Let_def
    using room by (cases "found_region reg tx")
      (auto simp: cross_evs_def log_evs_def with_evs_def register_cross_event_def register_redundant_logging_event_def id)
qed

lemma with_evs_trans: "with_evs cs ls (with_evs cs' ls' t) = with_evs (cs' @ cs) (ls' @ ls) t"
  by (simp add: with_evs_def)

lemma fold_events_ok:
  assumes "\<forall>tx \<in> set txs. tx_info_ok tx" "rkey reg"
    and "length (tr_cross_tx_evs t) + length txs \<le> MAX_CROSS_EVS"
    and "length (tr_redundant_logging_tx_evs t) + length txs \<le> MAX_CROSS_EVS"
  shows "foldM (overlap_events i reg) txs t = Inr (with_evs (cross_evs i reg txs) (log_evs i reg txs) t)"
  using assms
proof (induction txs arbitrary: t)
  case Nil
  then show ?case by (simp add: with_evs_def cross_evs_def log_evs_def)
next
  case (Cons tx txs)
  let ?t1 = "with_evs (cross_evs i reg [tx]) (log_evs i reg [tx]) t"
  have one: "overlap_events i reg tx t = Inr ?t1" using Cons.prems by (intro overlap_events_ok) auto
  have "foldM (overlap_events i reg) txs ?t1 = Inr (with_evs (cross_evs i reg txs) (log_evs i reg txs) ?t1)"
    using Cons.prems evs_length [of i reg "[tx]"] by (intro Cons.IH) (auto simp: with_evs_def)
  then show ?case
    unfolding evs_Cons [of i reg tx txs] using one by (simp add: with_evs_trans)
qed

section \<open>Adding a region\<close>

lemma cache_obj_ok:
  assumes ok: "tx_info_ok tx" and reg: "rok reg" and small: "2 * tx_load tx < OSET_ITER_MAX"
  shows "\<exists>tx' idx'. cache_obj reg tx idx = Inr (tx', idx') \<and> tx_info_ok tx' \<and>
    tx_view tx' = (tx_id tx, tx_counter tx, tx_context tx, tx_bytes tx \<union> bytes reg) \<and> tx_cached_region tx' = reg \<and>
    tx_load tx' \<le> Suc (Suc (tx_load tx))"
proof (cases "cache_empty tx")
  case True
  then have "cache_obj reg tx idx = Inr (tx\<lparr>tx_cached_region := reg\<rparr>, idx)"
    by (simp add: cache_obj_def cache_empty_def)
  moreover have "tx_bytes (tx\<lparr>tx_cached_region := reg\<rparr>) = tx_bytes tx \<union> bytes reg"
    using cache_bytes [OF True] by (simp add: tx_bytes_def)
  ultimately show ?thesis using ok reg by (simp add: tx_info_ok_def tx_view_def tx_load_def)
next
  case False
  then have crok: "rok (tx_cached_region tx)" using ok by (simp add: tx_info_ok_def)
  have nz: "st_addr (tx_cached_region tx) \<noteq> 0 \<and> st_size (tx_cached_region tx) \<noteq> 0"
    using False cache_zero [OF ok] by simp
  have ov: "check_overlap (tx_cached_region tx) reg = (if bytes (tx_cached_region tx) \<inter> bytes reg = {} then 0
      else if bytes (tx_cached_region tx) \<subseteq> bytes reg then 1 else 2)"
    by (rule check_overlap_nat [OF rok_rkey [OF crok] rok_rkey [OF reg]])
  obtain tx1 where f: "flush_cache tx = Inr tx1" "tx_info_ok tx1" "tx_view tx1 = tx_view tx"
    "region_bytes (tx_regions tx1) = tx_bytes tx" "length (elems (tx_regions tx1)) \<le> tx_load tx"
    using flush_cache_ok [OF ok] tx_load_regions(1) order_trans by blast
  have rs1: "regions_ok (tx_regions tx1)" "gapped (elems (tx_regions tx1))" using f(2) by (simp_all add: tx_info_ok_def)
  consider (apart) "bytes (tx_cached_region tx) \<inter> bytes reg = {}"
    | (inside) "bytes (tx_cached_region tx) \<inter> bytes reg \<noteq> {}" "bytes (tx_cached_region tx) \<subseteq> bytes reg"
    | (cut) "bytes (tx_cached_region tx) \<inter> bytes reg \<noteq> {}" "\<not> bytes (tx_cached_region tx) \<subseteq> bytes reg" by blast
  then show ?thesis
  proof cases
    case apart
    let ?tx' = "tx1\<lparr>tx_cached_region := reg\<rparr>"
    have "cache_obj reg tx idx = Inr (?tx', idx)" using nz ov apart f(1) by (simp add: cache_obj_def)
    moreover have "tx_info_ok ?tx'" using rs1 reg by (simp add: tx_info_ok_def)
    ultimately show ?thesis using f(3-5) by (simp add: tx_view_def tx_bytes_def [of ?tx'] tx_load_def [of ?tx'])
  next
    case inside
    let ?tx' = "tx\<lparr>tx_cached_region := reg\<rparr>"
    have "cache_obj reg tx idx = Inr (?tx', idx)" using nz ov inside by (simp add: cache_obj_def)
    moreover have "tx_info_ok ?tx'" using ok reg by (simp add: tx_info_ok_def)
    moreover have "tx_bytes ?tx' = tx_bytes tx \<union> bytes reg" using inside by (auto simp: tx_bytes_def)
    ultimately show ?thesis by (simp add: tx_view_def tx_load_def)
  next
    case cut
    have sm: "2 * length (elems (tx_regions tx1)) < OSET_ITER_MAX" using f(5) small by simp
    obtain R idx' where R: "remove_region reg (tx_regions tx1, idx) = Inr (R, idx')" "cut_out reg (tx_regions tx1) R"
      using remove_region_spec [OF rs1(1) rok_rkey [OF reg] sm] by blast
    have R2: "regions_ok R" "region_bytes R = tx_bytes tx - bytes reg" "gapped (elems R)"
      using R(2) f(4) cut_out_gapped [OF rs1 rok_rkey [OF reg] R(2)] by (simp_all add: cut_out_def)
    have len: "length (elems R) \<le> Suc (tx_load tx)"
      using cut_out_length [OF rs1(1) R(2)] f(5) by simp
    let ?tx' = "tx1\<lparr>tx_regions := R, tx_cached_region := reg\<rparr>"
    have "cache_obj reg tx idx = Inr (?tx', idx')" using nz ov cut f(1) R(1) by (simp add: cache_obj_def)
    moreover have "tx_info_ok ?tx'" using R2 reg by (simp add: tx_info_ok_def)
    moreover have "tx_bytes ?tx' = tx_bytes tx \<union> bytes reg" using R2(2) by (auto simp: tx_bytes_def [of ?tx'])
    moreover have "tx_id tx1 = tx_id tx" "tx_counter tx1 = tx_counter tx" "tx_context tx1 = tx_context tx"
      using f(3) by (simp_all add: tx_view_def)
    ultimately show ?thesis using len by (simp add: tx_view_def tx_load_def [of ?tx'])
  qed
qed

abbreviation added_region :: "env \<Rightarrow> uword \<Rightarrow> uword \<Rightarrow> pmem_st" where
  "added_region en base sze \<equiv> (mk_region base sze)\<lparr>st_context := en_context en\<rparr>"

lemma added_region_sel [simp]: "bytes (added_region en b n) = bytes (mk_region b n)" "rok (added_region en b n) = rok (mk_region b n)"
  "rkey (added_region en b n) = rkey (mk_region b n)"
  by (simp_all add: rok_def rkey_def bytes_def hi_def lo_def sz_def)

lemma add_obj_to_tx_ok:
  assumes wf: "tx_wf t" and room: "tx_room (Suc (Suc n)) t" and tx: "the_tx t i = Some tx" and th: "i \<in> tids t (en_tid en)"
    and reg: "rok (mk_region base sze)"
    and evs: "length (tr_cross_tx_evs t) + length (elems (tr_transactions t)) \<le> MAX_CROSS_EVS"
      "length (tr_redundant_logging_tx_evs t) + length (elems (tr_transactions t)) \<le> MAX_CROSS_EVS"
  shows "\<exists>t' idx'. add_obj_to_tx en i base sze (t, idx) = Inr (0, t', idx') \<and> tx_wf t' \<and> tx_room n t' \<and>
    tr_threads t' = tr_threads t \<and> tr_oot_stores t' = tr_oot_stores t \<and> tr_excludes t' = tr_excludes t \<and>
    tr_verbose t' = tr_verbose t \<and> tr_transactions_only t' = tr_transactions_only t \<and>
    tr_redundant_logging t' = tr_redundant_logging t \<and>
    txs_view t' = (txs_view t)(i \<mapsto> (i, tx_counter tx, tx_context tx, tx_bytes tx \<union> bytes (mk_region base sze))) \<and>
    tr_cross_tx_evs t' = tr_cross_tx_evs t @ cross_evs i (added_region en base sze) (elems (tr_transactions t)) \<and>
    tr_redundant_logging_tx_evs t' = tr_redundant_logging_tx_evs t @
      (if tr_redundant_logging t then log_evs i (added_region en base sze) (elems (tr_transactions t)) else [])"
proof -
  note o = tx_id_of [OF wf tx]
  let ?r = "added_region en base sze"
  have kx: "keyed tx_id tx_info_ok (tr_transactions t)" using wf by (simp add: tx_wf_def)
  obtain ms where ms: "is_tx_in_thread en i t = (True, tr_log ms t)" using is_tx_in_thread_ok [OF wf, of True i en] th by auto
  have it: "os_iter (tr_transactions t) = Inr (elems (tr_transactions t))"
    using room by (intro os_iter_correct [OF kx]) (auto simp: tx_room_def)
  have rkey: "rkey ?r" using rok_rkey [OF reg] by simp
  define t2 where "t2 = with_evs (cross_evs i ?r (elems (tr_transactions t))) (log_evs i ?r (elems (tr_transactions t))) (tr_log ms t)"
  have f: "foldM (overlap_events i ?r) (elems (tr_transactions t)) (tr_log ms t) = Inr t2"
    unfolding t2_def using evs keyed_ok [OF kx] by (intro fold_events_ok [OF _ rkey]) auto
  have t2: "tr_transactions t2 = tr_transactions t" "tx_wf t2" "tx_room (Suc (Suc n)) t2" "txs_view t2 = txs_view t"
    using wf room by (simp_all add: t2_def with_evs_def tx_wf_def tx_room_def txs_view_def fun_eq_iff)
  have sm: "2 * (tx_load tx + Suc (Suc n)) < OSET_ITER_MAX" using room o by (simp add: tx_room_def)
  obtain tx' idx' where c: "cache_obj ?r tx idx = Inr (tx', idx')" "tx_info_ok tx'"
    "tx_view tx' = (tx_id tx, tx_counter tx, tx_context tx, tx_bytes tx \<union> bytes ?r)"
    "tx_load tx' \<le> Suc (Suc (tx_load tx))"
    using cache_obj_ok [of tx ?r idx] o reg sm by auto
  have tx2: "the_tx t2 i = Some tx" "tx_id tx' = i" using t2(1) tx c(3) o by (simp_all add: tx_view_def)
  define t' where "t' = t2\<lparr>tr_transactions := os_write tx tx' (tr_transactions t2)\<rparr>"
  note w = put_tx [OF t2(2) tx2(1) c(2) tx2(2) t'_def]
  have "add_obj_to_tx en i base sze (t, idx) = Inr (0, t', idx')"
    using tx ms it f c(1) by (simp add: add_obj_to_tx_def t'_def)
  moreover have "tx_room n t'"
  proof (rule w(5))
    show "tx_room n t2" using t2(3) by (auto simp: tx_room_def)
    show "2 * (tx_load tx' + n) < OSET_ITER_MAX" using c(4) sm by simp
  qed
  moreover have "txs_view t' = (txs_view t)(i \<mapsto> (i, tx_counter tx, tx_context tx, tx_bytes tx \<union> bytes ?r))"
    using w(3) c(3) t2(4) o by simp
  ultimately show ?thesis
    using w(1) by (intro exI [of _ t'] exI [of _ idx']) (simp add: t'_def t2_def with_evs_def)
qed

text \<open>The two answers that leave everything as it is.\<close>

lemma add_obj_to_tx_rejects:
  assumes "tx_wf t" "tx_room n t" "the_tx t i = None \<or> i \<notin> tids t (en_tid en)"
  shows "\<exists>ms. add_obj_to_tx en i base sze (t, idx) = Inr (if the_tx t i = None then 1 else 2, tr_log ms t, idx)"
proof (cases "the_tx t i")
  case None
  then show ?thesis using tr_dmsg_log by (fastforce simp: add_obj_to_tx_def)
next
  case (Some tx)
  then obtain ms where "is_tx_in_thread en i t = (False, tr_log ms t)"
    using is_tx_in_thread_ok [OF assms(1), of False i en] assms(3) by auto
  then show ?thesis
    using Some not_in_thread_ok [of "tr_log ms t" n] assms(1,2) by (auto simp: add_obj_to_tx_def tr_log_trans)
qed

section \<open>Removing a region\<close>

lemma remove_obj_from_tx_ok:
  assumes wf: "tx_wf t" and room: "tx_room (Suc (Suc n)) t" and tx: "the_tx t i = Some tx" and th: "i \<in> tids t (en_tid en)"
    and reg: "rkey (mk_region base sze)"
  shows "\<exists>t' idx'. remove_obj_from_tx en i base sze (t, idx) = Inr (0, t', idx') \<and> tx_wf t' \<and> tx_room n t' \<and> tx_rest t t' \<and>
    tr_threads t' = tr_threads t \<and>
    txs_view t' = (txs_view t)(i \<mapsto> (i, tx_counter tx, tx_context tx,
      if is_in_cache (mk_region base sze) tx then region_bytes (tx_regions tx)
      else (tx_bytes tx - bytes (mk_region base sze)) \<union> bytes (tx_cached_region tx)))"
proof -
  note o = tx_id_of [OF wf tx]
  let ?r = "mk_region base sze"
  obtain ms where ms: "is_tx_in_thread en i t = (True, tr_log ms t)" using is_tx_in_thread_ok [OF wf, of True i en] th by auto
  define t1 where "t1 = tr_log ms t"
  have t1: "tx_wf t1" "tx_room (Suc (Suc n)) t1" "the_tx t1 i = Some tx" "txs_view t1 = txs_view t"
    using wf room tx by (simp_all add: t1_def)
  have rs: "regions_ok (tx_regions tx)" "gapped (elems (tx_regions tx))" using o by (simp_all add: tx_info_ok_def)
  have sm: "2 * (tx_load tx + Suc (Suc n)) < OSET_ITER_MAX" using room o by (simp add: tx_room_def)
  have put: "\<exists>t'. t' = t1\<lparr>tr_transactions := os_write tx tx' (tr_transactions t1)\<rparr> \<and> tx_wf t' \<and> tx_room n t' \<and> tx_rest t t' \<and>
      tr_threads t' = tr_threads t \<and> txs_view t' = (txs_view t)(i \<mapsto> (i, tx_counter tx, tx_context tx, tx_bytes tx'))"
    if "tx_info_ok tx'" "tx_id tx' = i" "tx_counter tx' = tx_counter tx" "tx_context tx' = tx_context tx"
      "tx_load tx' \<le> Suc (Suc (tx_load tx))" for tx'
  proof -
    have "tx_room n t1" using t1(2) by (auto simp: tx_room_def)
    moreover have "2 * (tx_load tx' + n) < OSET_ITER_MAX" using that(5) sm by simp
    ultimately show ?thesis
      using put_tx [OF t1(1,3) that(1,2) refl] that(2-4) t1(4) by (simp add: t1_def tx_rest_def tx_view_def)
  qed
  show ?thesis
  proof (cases "is_in_cache ?r tx")
    case True
    have c: "tx_info_ok (clear_cache tx)" "tx_bytes (clear_cache tx) = region_bytes (tx_regions tx)"
      using rs cache_bytes [of "clear_cache tx"] by (simp_all add: tx_info_ok_def tx_bytes_def)
    have "remove_obj_from_tx en i base sze (t, idx) =
        Inr (0, t1\<lparr>tr_transactions := os_write tx (clear_cache tx) (tr_transactions t1)\<rparr>, idx)"
      using tx ms True by (simp add: remove_obj_from_tx_def t1_def)
    then show ?thesis using put [OF c(1)] c(2) True o by (simp add: tx_load_def)
  next
    case False
    define ov where "ov = (cmp_pmem_st ?r (tx_cached_region tx) = 0)"
    have ov: "ov \<longleftrightarrow> bytes ?r \<inter> bytes (tx_cached_region tx) \<noteq> {}" using cmp_cached [of tx ?r] o reg by (simp add: ov_def)
    obtain R where R: "(if ov then add_region (tx_cached_region tx) (tx_regions tx) else Inr (tx_regions tx)) = Inr R"
      "regions_ok R" "gapped (elems R)" "region_bytes R = region_bytes (tx_regions tx) \<union> (if ov then bytes (tx_cached_region tx) else {})"
      "length (elems R) \<le> Suc (length (elems (tx_regions tx)))"
    proof (cases ov)
      case True
      then have "bytes (tx_cached_region tx) \<noteq> {}" using ov by blast
      then have "rok (tx_cached_region tx)" using o cache_bytes by (auto simp: tx_info_ok_def)
      then show ?thesis using add_region_spec [OF rs(1), of "tx_cached_region tx"] rs(2) True that by auto
    qed (use rs that in auto)
    have smR: "2 * length (elems R) < OSET_ITER_MAX" using R(5) sm tx_load_regions(1) [of tx] by simp
    obtain S idx' where S: "remove_region ?r (R, idx) = Inr (S, idx')" "cut_out ?r R S"
      using remove_region_spec [OF R(2) reg smR] by blast
    let ?tx' = "tx\<lparr>tx_regions := S\<rparr>"
    have "regions_ok S" "region_bytes S = region_bytes R - bytes ?r" "gapped (elems S)"
      using S(2) cut_out_gapped [OF R(2,3) reg S(2)] by (simp_all add: cut_out_def)
    then have c: "tx_info_ok ?tx'" "tx_bytes ?tx' = (tx_bytes tx - bytes ?r) \<union> bytes (tx_cached_region tx)"
      using o R(4) by (auto simp: tx_info_ok_def cache_empty_def tx_bytes_def)
    have len: "tx_load ?tx' \<le> Suc (Suc (tx_load tx))"
      using cut_out_length [OF R(2) S(2)] R(5) by (simp add: tx_load_def cache_empty_def)
    have "remove_obj_from_tx en i base sze (t, idx) =
        Inr (0, t1\<lparr>tr_transactions := os_write tx ?tx' (tr_transactions t1)\<rparr>, idx')"
      using tx ms False R(1) S(1) by (simp add: remove_obj_from_tx_def t1_def ov_def)
    then show ?thesis using put [OF c(1) _ _ _ len] c(2) False o by simp
  qed
qed

section \<open>Global excludes\<close>

lemma add_to_global_excludes_ok:
  assumes "tx_wf t" "rok r"
  shows "\<exists>t'. add_to_global_excludes r t = Inr t' \<and> tx_wf t' \<and>
    region_bytes (tr_excludes t') = region_bytes (tr_excludes t) \<union> bytes r \<and> t' = t\<lparr>tr_excludes := tr_excludes t'\<rparr>"
proof -
  have ex: "regions_ok (tr_excludes t)" "gapped (elems (tr_excludes t))" using assms(1) by (simp_all add: tx_wf_def)
  obtain S where "add_region r (tr_excludes t) = Inr S" "regions_ok S" "gapped (elems S)"
    "region_bytes S = region_bytes (tr_excludes t) \<union> bytes r"
    using add_region_spec [OF ex(1) assms(2)] ex(2) by blast
  then show ?thesis using assms(1) by (auto simp: add_to_global_excludes_def tx_wf_def)
qed

end
