(* ===== verification/PMC_Report_Laws.thy ===== *)
theory PMC_Report_Laws
  imports PMC_Fence_Laws
begin

text \<open>
  The report on outstanding stores: \<open>print_store_stats\<close> counts exactly the outstanding entries and leaves them
  as they are, although it writes the state of flushed snippets back to the array.
\<close>

definition marked_array :: "pmem_ops \<Rightarrow> pmem_ops \<Rightarrow> bool" where
  "marked_array p p' \<longleftrightarrow> (\<exists>A ms. p' = p\<lparr>pm_array := A, pm_out := ms\<rparr> \<and>
     (\<forall>i. A i = pm_array p i \<or> A i = (pm_array p i)\<lparr>st_state := STST_FLUSHED\<rparr> \<and>
        (\<exists>s \<le> pm_snippet_index p. sn_start_index (pm_snippet p s) \<le> i \<and> i < sn_index (pm_snippet p s) \<and>
           sn_flushed_num (pm_snippet p s) = ALL_FLUSHED)))"

lemma marked_array_refl: "marked_array p p"
  unfolding marked_array_def by (intro exI [of _ "pm_array p"] exI [of _ "pm_out p"]) simp

lemma marked_array_log: "marked_array p q \<Longrightarrow> marked_array p (log_out ms q)"
proof -
  assume "marked_array p q"
  then obtain A os where q: "q = p\<lparr>pm_array := A, pm_out := os\<rparr>" and
    A: "\<forall>i. A i = pm_array p i \<or> A i = (pm_array p i)\<lparr>st_state := STST_FLUSHED\<rparr> \<and>
        (\<exists>s \<le> pm_snippet_index p. sn_start_index (pm_snippet p s) \<le> i \<and> i < sn_index (pm_snippet p s) \<and>
           sn_flushed_num (pm_snippet p s) = ALL_FLUSHED)"
    unfolding marked_array_def by blast
  have "log_out ms q = p\<lparr>pm_array := A, pm_out := os @ ms\<rparr>" by (simp add: q log_out_def)
  with A show ?thesis unfolding marked_array_def by blast
qed

lemma marked_array_sel:
  assumes "marked_array p p'"
  shows "pm_snippet p' = pm_snippet p" "pm_snippet_index p' = pm_snippet_index p" "pm_stores p' = pm_stores p"
    "frame2 p p'" "pm_redundant_flushes p' = pm_redundant_flushes p" "pm_superfluous_flushes p' = pm_superfluous_flushes p"
    "pm_min_store p' = pm_min_store p" "pm_max_store p' = pm_max_store p" "pm_db_index p' = pm_db_index p"
  using assms by (auto simp: marked_array_def frame2_def)

lemma stats_entry_marked:
  assumes "marked_array p q" "s \<le> pm_snippet_index p" "sn_start_index (pm_snippet p s) \<le> i" "i < sn_index (pm_snippet p s)"
  shows "marked_array p (fst (stats_entry s i (q, k)))" "snd (stats_entry s i (q, k)) = Suc k"
proof -
  obtain A ms where q: "q = p\<lparr>pm_array := A, pm_out := ms\<rparr>"
    and A: "\<And>j. A j = pm_array p j \<or> A j = (pm_array p j)\<lparr>st_state := STST_FLUSHED\<rparr> \<and>
        (\<exists>s \<le> pm_snippet_index p. sn_start_index (pm_snippet p s) \<le> j \<and> j < sn_index (pm_snippet p s) \<and>
           sn_flushed_num (pm_snippet p s) = ALL_FLUSHED)"
    using assms(1) unfolding marked_array_def by blast
  define e' where "e' = (if sn_flushed_num (pm_snippet p s) = ALL_FLUSHED then (A i)\<lparr>st_state := STST_FLUSHED\<rparr> else A i)"
  have e': "e' = pm_array p i \<or> e' = (pm_array p i)\<lparr>st_state := STST_FLUSHED\<rparr> \<and>
        (\<exists>s \<le> pm_snippet_index p. sn_start_index (pm_snippet p s) \<le> i \<and> i < sn_index (pm_snippet p s) \<and>
           sn_flushed_num (pm_snippet p s) = ALL_FLUSHED)"
    using A [of i] assms(2-4) by (auto simp: e'_def)
  have "marked_array p (set_entry i e' q)"
    unfolding marked_array_def
  proof (intro exI conjI allI)
    show "set_entry i e' q = p\<lparr>pm_array := A(i := e'), pm_out := ms\<rparr>" by (simp add: q set_entry_def)
    show "(A(i := e')) j = pm_array p j \<or> (A(i := e')) j = (pm_array p j)\<lparr>st_state := STST_FLUSHED\<rparr> \<and>
        (\<exists>s \<le> pm_snippet_index p. sn_start_index (pm_snippet p s) \<le> j \<and> j < sn_index (pm_snippet p s) \<and>
           sn_flushed_num (pm_snippet p s) = ALL_FLUSHED)" for j
      using A [of j] e' by auto
  qed
  moreover have "\<exists>out. fst (stats_entry s i (q, k)) = log_out out (set_entry i e' q)"
    by (cases "sn_flushed_num (pm_snippet p s) = ALL_FLUSHED") (auto simp: stats_entry_def q Let_def e'_def)
  ultimately show "marked_array p (fst (stats_entry s i (q, k)))" using marked_array_log by auto
  show "snd (stats_entry s i (q, k)) = Suc k" by (simp add: stats_entry_def Let_def)
qed

lemma stats_entries_marked:
  assumes "marked_array p q" "s \<le> pm_snippet_index p" "\<forall>i \<in> set is. sn_start_index (pm_snippet p s) \<le> i \<and> i < sn_index (pm_snippet p s)"
  shows "marked_array p (fst (fold (stats_entry s) is (q, k))) \<and> snd (fold (stats_entry s) is (q, k)) = k + length is"
  using assms
proof (induction "is" arbitrary: q k)
  case Nil
  then show ?case by simp
next
  case (Cons i "is")
  obtain q' k' where e: "stats_entry s i (q, k) = (q', k')" by (cases "stats_entry s i (q, k)") auto
  then have "marked_array p q'" "k' = Suc k"
    using stats_entry_marked [OF Cons.prems(1,2), of i k] Cons.prems(3) by auto
  then show ?case using Cons.IH [of q' k'] Cons.prems e by simp
qed

lemma stats_snippets_marked:
  assumes "m \<le> Suc (pm_snippet_index p)"
  shows "marked_array p (fst (fold stats_snippet [0..<m] (p, 0)))"
    "snd (fold stats_snippet [0..<m] (p, 0)) = length (prefix_out p m)"
  using assms
proof (induction m)
  case 0
  { case 1 then show ?case by (simp add: marked_array_refl) }
  { case 2 then show ?case by (simp add: prefix_out_def) }
next
  case (Suc m)
  obtain q k where qk: "fold stats_snippet [0..<m] (p, 0) = (q, k)" by fastforce
  have mq: "marked_array p q" "k = length (prefix_out p m)" if "Suc m \<le> Suc (pm_snippet_index p)"
    using Suc.IH that qk by auto
  have st: "fold stats_snippet [0..<Suc m] (p, 0) = fold (stats_entry m)
      [sn_start_index (pm_snippet q m) ..< sn_index (pm_snippet q m)] (q, k)"
    using qk by (simp add: stats_snippet_def)
  have "pm_snippet q = pm_snippet p" if "Suc m \<le> Suc (pm_snippet_index p)"
    using marked_array_sel(1) [OF mq(1) [OF that]] .
  then have all: "marked_array p (fst (fold stats_snippet [0..<Suc m] (p, 0))) \<and>
      snd (fold stats_snippet [0..<Suc m] (p, 0)) = k + (sn_index (pm_snippet p m) - sn_start_index (pm_snippet p m))"
    if "Suc m \<le> Suc (pm_snippet_index p)"
    unfolding st using that stats_entries_marked [OF mq(1) [OF that], of m
        "[sn_start_index (pm_snippet q m) ..< sn_index (pm_snippet q m)]" k] by simp
  { case 1 then show ?case using all by simp }
  { case 2 then show ?case using all mq(2) by (simp add: prefix_out_def snip_out_def) }
qed

lemma marked_array_entries:
  assumes wf: "pmem_wf p" and mk: "marked_array p p'"
  shows "pmem_wf p'" "out_entries p' = out_entries p"
proof -
  note sel = marked_array_sel [OF mk]
  have ok: "array_ok p" using wf by (simp add: pmem_wf_def)
  have same: "pm_array p' i = pm_array p i \<or> sn_flushed_num (pm_snippet p s) = ALL_FLUSHED \<and>
      pm_array p' i = (pm_array p i)\<lparr>st_state := STST_FLUSHED\<rparr>"
    if s: "s \<le> pm_snippet_index p" "sn_start_index (pm_snippet p s) \<le> i" "i < sn_index (pm_snippet p s)" for s i
  proof -
    have "s' = s" if "s' \<le> pm_snippet_index p" "sn_start_index (pm_snippet p s') \<le> i" "i < sn_index (pm_snippet p s')" for s'
      using that s snippets_disjoint [OF ok, of s s'] snippets_disjoint [OF ok, of s' s]
      by (metis le_less_trans linorder_neqE_nat not_le order_trans)
    then show ?thesis using mk by (auto simp: marked_array_def)
  qed
  have snip: "snip_ok p' s" "snip_out p' s = snip_out p s" if "s \<le> pm_snippet_index p" for s
  proof -
    have "snip_ok p s" using ok that by (simp add: array_ok_def)
    then show "snip_ok p' s"
      using same [OF that] unfolding snip_ok_def Let_def sel
      by (fastforce simp: entry_ok_def in_bounds_def)
    have "mark (pm_snippet p s) (pm_array p' i) = mark (pm_snippet p s) (pm_array p i)"
      if "sn_start_index (pm_snippet p s) \<le> i" "i < sn_index (pm_snippet p s)" for i
      using same [OF \<open>s \<le> pm_snippet_index p\<close> that] by (auto simp: mark_def)
    then show "snip_out p' s = snip_out p s"
      unfolding snip_out_def sel by (intro map_cong) auto
  qed
  have "array_ok p'" using ok snip(1) unfolding array_ok_def sel by auto
  moreover have "tree_ok p'" using wf by (simp add: pmem_wf_def tree_ok_def sel)
  ultimately show "pmem_wf p'" using wf by (simp add: pmem_wf_def sel)
  have "map (snip_out p') [0 ..< Suc (pm_snippet_index p)] = map (snip_out p) [0 ..< Suc (pm_snippet_index p)]"
    using snip(2) by (intro map_cong) auto
  then show "out_entries p' = out_entries p" unfolding out_entries_def sel by (simp only:)
qed

lemma stats_tree_marked:
  assumes "marked_array p q"
  shows "marked_array p (fst (fold stats_tree_entry es (q, k)))" "snd (fold stats_tree_entry es (q, k)) = k + length es"
  using assms by (induction es arbitrary: q k) (auto simp: stats_tree_entry_def marked_array_log)

lemma print_store_stats_ok:
  assumes wf: "pmem_wf p" and small: "length (out_entries p) < OSET_ITER_MAX"
  shows "\<exists>p'. print_store_stats p = Inr p' \<and> pm_not_pmem_num p' = length (out_entries p) \<and> pmem_wf p' \<and>
    out_entries p' = out_entries p \<and> frame2 p p' \<and> pm_redundant_flushes p' = pm_redundant_flushes p \<and>
    pm_superfluous_flushes p' = pm_superfluous_flushes p"
proof -
  obtain q k where qk: "fold stats_snippet [0..<Suc (pm_snippet_index p)] (p, 0) = (q, k)" by fastforce
  have q: "marked_array p q" "k = length (prefix_out p (Suc (pm_snippet_index p)))"
    using stats_snippets_marked [of "Suc (pm_snippet_index p)" p] qk by simp_all
  have "index_set (pm_stores p)" using wf by (simp add: pmem_wf_def tree_ok_def)
  moreover have "length (elems (pm_stores p)) < OSET_ITER_MAX" using small by (simp add: out_entries_def)
  ultimately have it: "os_iter (pm_stores q) = Inr (elems (pm_stores p))"
    using os_iter_correct marked_array_sel(3) [OF q(1)] by auto
  obtain r j where rj: "fold stats_tree_entry (elems (pm_stores p)) (q, k) = (r, j)" by fastforce
  have r: "marked_array p r" "j = length (out_entries p)"
    using stats_tree_marked [OF q(1), of "elems (pm_stores p)" k] rj q(2) by (simp_all add: out_entries_prefix)
  let ?p' = "r\<lparr>pm_not_pmem_num := j\<rparr>"
  have run: "print_store_stats p = Inr ?p'" unfolding print_store_stats_def qk using it rj by simp
  have "pmem_wf ?p' = pmem_wf r" "out_entries ?p' = out_entries r" by (rule wf_cong; simp)+
  then show ?thesis
    using run marked_array_entries [OF wf r(1)] marked_array_sel [OF r(1)] r(2) by (auto simp: frame2_def)
qed

end
