(* ===== verification/PMC_Persist.thy ===== *)
theory PMC_Persist
  imports PMC_Tx_Region_Laws PMC_Report_Laws
begin

text \<open>
  What the tool promises about stores, flushes and fences, byte by byte, and the proof that the handlers
  of the tool keep it in the default mode.

  The specification knows for every byte whether it was stored and not flushed since, or flushed and not
  fenced since.  A program trace is a list of such actions; a byte is lost when a store to it is not followed
  by a flush of it and a later fence.  The interface \<open>persistency\<close> says what a tracker of accesses has to do
  for its state to tell exactly the lost bytes; it is interpreted on \<open>trace_pmem_store\<close>, \<open>do_flush\<close> and
  \<open>do_fence\<close>.
\<close>

section \<open>Specification\<close>

record durability =
  du_dirty :: "nat set"
  du_flushed :: "nat set"

datatype action = Act_Store "nat set" | Act_Flush "nat set" | Act_Fence

fun act :: "action \<Rightarrow> durability \<Rightarrow> durability" where
  "act (Act_Store R) s = \<lparr>du_dirty = du_dirty s \<union> R, du_flushed = du_flushed s - R\<rparr>"
| "act (Act_Flush R) s = \<lparr>du_dirty = du_dirty s - R, du_flushed = du_flushed s \<union> (du_dirty s \<inter> R)\<rparr>"
| "act Act_Fence s = s\<lparr>du_flushed := {}\<rparr>"

definition not_durable :: "durability \<Rightarrow> nat set" where
  "not_durable s = du_dirty s \<union> du_flushed s"

definition all_durable :: durability where
  "all_durable = \<lparr>du_dirty = {}, du_flushed = {}\<rparr>"

text \<open>The same on the history: the byte is flushed and a fence follows; a store is never followed by that.\<close>

fun persisted :: "nat \<Rightarrow> action list \<Rightarrow> bool" where
  "persisted b [] = False"
| "persisted b (Act_Flush R # as) = (b \<in> R \<and> Act_Fence \<in> set as \<or> persisted b as)"
| "persisted b (a # as) = persisted b as"

fun lost :: "nat \<Rightarrow> action list \<Rightarrow> bool" where
  "lost b [] = False"
| "lost b (Act_Store R # as) = (b \<in> R \<and> \<not> persisted b as \<or> lost b as)"
| "lost b (a # as) = lost b as"

lemma persisted_fence: "persisted b as \<Longrightarrow> Act_Fence \<in> set as"
  by (induction b as rule: persisted.induct) auto

lemma not_durable_history:
  "b \<in> not_durable (fold act as s) \<longleftrightarrow>
     lost b as \<or> b \<in> du_dirty s \<and> \<not> persisted b as \<or> b \<in> du_flushed s \<and> Act_Fence \<notin> set as"
proof (induction as arbitrary: s)
  case Nil
  then show ?case by (simp add: not_durable_def)
next
  case (Cons a as)
  then show ?case using persisted_fence [of b as] by (cases a) auto
qed

section \<open>Trackers\<close>

locale persistency =
  fixes step :: "'e \<Rightarrow> 's \<Rightarrow> 's res" and inv :: "nat \<Rightarrow> 's \<Rightarrow> bool" and view :: "'s \<Rightarrow> durability"
    and acts :: "'e \<Rightarrow> action list" and good :: "'e \<Rightarrow> bool"
  assumes step_refines: "inv (Suc n) s \<Longrightarrow> good e \<Longrightarrow> \<exists>s'. step e s = Inr s' \<and> inv n s' \<and> view s' = fold act (acts e) (view s)"
begin

lemma run_refines:
  assumes "inv (length es + n) s" "\<forall>e \<in> set es. good e"
  shows "\<exists>s'. foldM step es s = Inr s' \<and> inv n s' \<and> view s' = fold act (concat (map acts es)) (view s)"
  using assms
proof (induction es arbitrary: s)
  case Nil
  then show ?case by simp
next
  case (Cons e es)
  have "inv (Suc (length es + n)) s" using Cons.prems(1) by simp
  then obtain s1 where s1: "step e s = Inr s1" "inv (length es + n) s1" "view s1 = fold act (acts e) (view s)"
    using step_refines [of "length es + n" s e] Cons.prems(2) by auto
  then show ?case using Cons.IH [OF s1(2)] Cons.prems(2) by (auto simp: fold_append)
qed

lemma run_lost:
  assumes "inv (length es + n) s" "\<forall>e \<in> set es. good e" "view s = all_durable"
  shows "\<exists>s'. foldM step es s = Inr s' \<and> inv n s' \<and> not_durable (view s') = {b. lost b (concat (map acts es))}"
  using run_refines [OF assms(1,2)] assms(3) by (auto simp: not_durable_history all_durable_def)

end

section \<open>The view of the tool\<close>

definition in_state :: "store_state \<Rightarrow> pmem_st list \<Rightarrow> nat set" where
  "in_state x es = set_bytes (filter (\<lambda>e. st_state e = x) es)"

text \<open>A byte of a flushed entry that was stored to since is also a byte of a dirty entry.\<close>

definition entries_view :: "pmem_st list \<Rightarrow> durability" where
  "entries_view es = \<lparr>du_dirty = in_state STST_DIRTY es, du_flushed = in_state STST_FLUSHED es - in_state STST_DIRTY es\<rparr>"

lemma in_state_mem: "b \<in> in_state x es \<longleftrightarrow> (\<exists>e \<in> set es. st_state e = x \<and> b \<in> bytes e)"
  by (auto simp: in_state_def set_bytes_def)

lemma in_state_cong: "set es = set es' \<Longrightarrow> in_state x es = in_state x es'"
  by (auto simp: in_state_mem)

lemma view_store:
  assumes "set es' = insert e (set es)" "st_state e = STST_DIRTY"
  shows "entries_view es' = act (Act_Store (bytes e)) (entries_view es)"
  using assms by (auto simp: entries_view_def set_eq_iff in_state_mem)

lemma view_flush:
  assumes "whole fi es"
  shows "entries_view (map (flush_e fi) es) = act (Act_Flush (bytes fi)) (entries_view es)"
proof -
  have dirty: "e \<in> set es \<Longrightarrow> overlaps_e fi e \<Longrightarrow> b \<in> bytes e \<Longrightarrow> b \<in> bytes fi" for e b
    using assms by (auto simp: whole_def)
  have b: "bytes (flush_e fi e) = bytes e" for e by (simp add: flush_e_def)
  have st: "st_state (flush_e fi e) = (if st_state e = STST_DIRTY \<and> overlaps_e fi e then STST_FLUSHED else st_state e)" for e
    by (simp add: flush_e_def)
  have ov: "b \<in> bytes e \<Longrightarrow> b \<in> bytes fi \<Longrightarrow> overlaps_e fi e" for b e by (auto simp: overlaps_e_def)
  have "x \<in> in_state STST_DIRTY (map (flush_e fi) es) \<longleftrightarrow> x \<in> in_state STST_DIRTY es - bytes fi" for x
    using dirty ov by (auto simp: in_state_mem b st)
  moreover have "x \<in> in_state STST_FLUSHED (map (flush_e fi) es) \<longleftrightarrow>
      x \<in> in_state STST_FLUSHED es \<union> (in_state STST_DIRTY es \<inter> bytes fi)" for x
    using dirty ov by (auto simp: in_state_mem b st)
  ultimately have "in_state STST_DIRTY (map (flush_e fi) es) = in_state STST_DIRTY es - bytes fi"
    "in_state STST_FLUSHED (map (flush_e fi) es) = in_state STST_FLUSHED es \<union> (in_state STST_DIRTY es \<inter> bytes fi)" by blast+
  then show ?thesis by (auto simp: entries_view_def)
qed

lemma reindex_view: "in_state x (reindex d es) = in_state x es"
  by (induction es arbitrary: d) (auto simp: set_eq_iff in_state_mem)

lemma in_state_append: "in_state x (xs @ ys) = in_state x xs \<union> in_state x ys"
  by (auto simp: in_state_mem)

lemma in_state_filter: "in_state x (filter unflushed es) = (if x = STST_FLUSHED then {} else in_state x es)"
  by (auto simp: in_state_mem)

lemma view_fence: "entries_view (fenced p) = act Act_Fence (entries_view (out_entries p))"
  by (auto simp: entries_view_def fenced_def in_state_append reindex_view in_state_filter out_entries_prefix)

lemma out_entry_ok:
  assumes "pmem_wf p" "e \<in> set (out_entries p)"
  shows "entry_ok e"
proof -
  have "entry_ok (mark a x)" if "entry_ok x" for a x using that by (simp add: mark_def entry_ok_def)
  then have "\<forall>s \<le> pm_snippet_index p. \<forall>x \<in> set (snip_out p s). entry_ok x"
    using assms(1) by (auto simp: pmem_wf_def array_ok_def snip_ok_def snip_out_def Let_def)
  moreover have "\<forall>x \<in> set (elems (pm_stores p)). entry_ok x"
    using assms(1) by (simp add: pmem_wf_def tree_ok_def)
  moreover have "e \<in> set (elems (pm_stores p)) \<or> (\<exists>s \<le> pm_snippet_index p. e \<in> set (snip_out p s))"
    using assms(2) unfolding out_entries_def by (auto simp: less_Suc_eq_le intro: less_imp_le)
  ultimately show ?thesis by blast
qed

lemma not_durable_empty:
  assumes "pmem_wf p"
  shows "not_durable (entries_view (out_entries p)) = {} \<longleftrightarrow> out_entries p = []"
proof
  assume none: "not_durable (entries_view (out_entries p)) = {}"
  show "out_entries p = []"
  proof (rule ccontr)
    assume "out_entries p \<noteq> []"
    then obtain e where e: "e \<in> set (out_entries p)" by (cases "out_entries p") auto
    have "entry_ok e" by (rule out_entry_ok [OF assms e])
    then have "lo e \<in> bytes e" "st_state e = STST_DIRTY \<or> st_state e = STST_FLUSHED"
      by (auto simp: entry_ok_def rkey_def bytes_def hi_def intro: store_state.exhaust [of "st_state e"])
    then show False using none e by (auto simp: not_durable_def entries_view_def in_state_mem set_eq_iff)
  qed
qed (simp add: not_durable_def entries_view_def in_state_def)

section \<open>Cache lines\<close>

definition in_line :: "nat \<Rightarrow> pmem_st \<Rightarrow> bool" where
  "in_line L e \<longleftrightarrow> lo e div L = (hi e - 1) div L"

definition whole_lines :: "nat \<Rightarrow> pmem_st \<Rightarrow> bool" where
  "whole_lines L r \<longleftrightarrow> L dvd lo r \<and> L dvd hi r"

lemma lines_whole:
  assumes "0 < L" "whole_lines L fi" "\<forall>e \<in> set es. in_line L e"
  shows "whole fi es"
  unfolding whole_def
proof (intro ballI impI)
  fix e assume e: "e \<in> set es" "overlaps_e fi e"
  then obtain b where b: "lo e \<le> b" "b < hi e" "lo fi \<le> b" "b < hi fi" by (auto simp: overlaps_e_def bytes_def ex_in_conv [symmetric] simp del: Int_atLeastLessThan)
  obtain j k where jk: "lo fi = L * j" "hi fi = L * k" using assms(2) by (auto simp: whole_lines_def dvd_def)
  have "lo e div L = (hi e - 1) div L" using assms(3) e(1) by (simp add: in_line_def)
  moreover have "lo e div L \<le> b div L" "b div L \<le> (hi e - 1) div L" using b by (auto intro!: div_le_mono)
  ultimately have line: "lo e div L = b div L" "(hi e - 1) div L = b div L" by auto
  have "j \<le> b div L" using b(3) jk(1) assms(1) by (metis div_le_mono nonzero_mult_div_cancel_left not_gr0)
  moreover have "b div L < k" using b(4) jk(2) assms(1) by (simp add: less_mult_imp_div_less mult.commute)
  ultimately have "L * j \<le> lo e" "hi e - 1 < L * k"
    using line assms(1) by (metis div_le_mono div_mult_self1_is_m less_eq_div_iff_mult_less_eq mult.commute,
      metis div_less_iff_less_mult mult.commute)
  then show "bytes e \<subseteq> bytes fi" using jk by (auto simp: bytes_def)
qed

lemma in_line_cong: "lo e' = lo e \<Longrightarrow> hi e' = hi e \<Longrightarrow> in_line L e' = in_line L e"
  by (simp add: in_line_def)

lemma in_line_flush: "in_line L (flush_e fi e) = in_line L e"
  by (rule in_line_cong) (simp_all add: flush_e_def)

lemma in_line_reindex: "\<forall>e \<in> set es. in_line L e \<Longrightarrow> \<forall>e \<in> set (reindex d es). in_line L e"
  by (induction es arbitrary: d) (auto simp: in_line_def lo_def hi_def sz_def)


section \<open>Accesses of the client program\<close>

datatype access = Store uword uword uword | Flush uword uword | Fence

fun access_step :: "env \<Rightarrow> access \<Rightarrow> tool \<Rightarrow> tool res" where
  "access_step en (Store addr sze val) w =
     rbind (trace_pmem_store en addr sze val (tl_pmem w, tl_trans w)) (\<lambda>(p, t). Inr (w\<lparr>tl_pmem := p, tl_trans := t\<rparr>))"
| "access_step en (Flush addr sze) w =
     rbind (do_flush en (tl_strand_id w) addr sze (tl_pmem w)) (\<lambda>p. Inr (w\<lparr>tl_pmem := p\<rparr>))"
| "access_step en Fence w = rbind (do_fence en (tl_pmem w)) (\<lambda>p. Inr (w\<lparr>tl_pmem := p\<rparr>))"

text \<open>A store that touches no mapping is not tracked; a store that touches one is tracked as a whole.\<close>

fun access_acts :: "nat set \<Rightarrow> access \<Rightarrow> action list" where
  "access_acts M (Store addr sze val) =
     (if bytes (mk_region addr sze) \<inter> M = {} then [] else [Act_Store (bytes (mk_region addr sze))])"
| "access_acts M (Flush addr sze) = [Act_Flush (bytes (mk_region addr sze))]"
| "access_acts M Fence = [Act_Fence]"

text \<open>The discipline of cache lines: no store crosses a line, and lines are flushed as a whole.\<close>

definition fits :: "pmem_st \<Rightarrow> bool" where
  "fits r \<longleftrightarrow> 0 < sz r \<and> hi r < 2 ^ 64 - 1"

fun access_ok :: "nat \<Rightarrow> access \<Rightarrow> bool" where
  "access_ok L (Store addr sze val) = (fits (mk_region addr sze) \<and> in_line L (mk_region addr sze))"
| "access_ok L (Flush addr sze) = (fits (mk_region addr sze) \<and> whole_lines L (mk_region addr sze))"
| "access_ok L Fence = True"

definition warn_room :: "nat \<Rightarrow> pmem_ops \<Rightarrow> bool" where
  "warn_room n p \<longleftrightarrow> (op_check_flush (pm_opts p) \<longrightarrow>
     length (pm_redundant_flushes p) + n * (length (out_entries p) + n) \<le> MAX_FLUSH_ERROR_EVENTS \<and>
     length (pm_superfluous_flushes p) + n \<le> MAX_FLUSH_ERROR_EVENTS)"

definition store_inv :: "nat \<Rightarrow> nat set \<Rightarrow> nat \<Rightarrow> pmem_ops \<Rightarrow> bool" where
  "store_inv L M n p \<longleftrightarrow> pmem_wf p \<and> simple_mode p \<and> \<not> op_force_flush_align (pm_opts p) \<and> maps_ok p \<and> mapped p = M \<and>
     (\<forall>e \<in> set (out_entries p). in_line L e) \<and> length (out_entries p) + n < OSET_ITER_MAX \<and> warn_room n p"

definition trans_inv :: "nat \<Rightarrow> transaction_ops \<Rightarrow> bool" where
  "trans_inv n t \<longleftrightarrow> tx_wf t \<and> tx_room 0 t \<and> \<not> tr_verbose t \<and> length (tr_oot_stores t) + n \<le> MAX_OOT_STORES"

definition tool_inv :: "nat \<Rightarrow> nat set \<Rightarrow> nat \<Rightarrow> tool \<Rightarrow> bool" where
  "tool_inv L M n w \<longleftrightarrow> store_inv L M n (tl_pmem w) \<and> trans_inv n (tl_trans w)"

definition tool_view :: "tool \<Rightarrow> durability" where
  "tool_view w = entries_view (out_entries (tl_pmem w))"

lemma trans_inv_Suc: "trans_inv (Suc n) t \<Longrightarrow> trans_inv n t"
  by (simp add: trans_inv_def)

lemma simple_mode_frame: "frame2 p p' \<Longrightarrow> simple_mode p' = simple_mode p"
  by (simp add: simple_mode_def frame2_def)

lemma store_inv_SucI:
  assumes inv: "store_inv L M (Suc n) p" and fr: "frame2 p p'" and wf: "pmem_wf p'"
    and lines: "\<forall>e \<in> set (out_entries p'). in_line L e" and len: "length (out_entries p') \<le> Suc (length (out_entries p))"
    and warn: "op_check_flush (pm_opts p) \<Longrightarrow> length (pm_redundant_flushes p') \<le> length (pm_redundant_flushes p) + length (out_entries p) \<and>
      length (pm_superfluous_flushes p') \<le> Suc (length (pm_superfluous_flushes p))"
  shows "store_inv L M n p'"
proof -
  have "warn_room n p'"
    unfolding warn_room_def
  proof
    assume "op_check_flush (pm_opts p')"
    then have ch: "op_check_flush (pm_opts p)" using fr by (simp add: frame2_def)
    have r: "length (pm_redundant_flushes p) + Suc n * (length (out_entries p) + Suc n) \<le> MAX_FLUSH_ERROR_EVENTS"
      "length (pm_superfluous_flushes p) + Suc n \<le> MAX_FLUSH_ERROR_EVENTS"
      using inv ch by (simp_all add: store_inv_def warn_room_def)
    have "n * (length (out_entries p') + n) \<le> n * (Suc (length (out_entries p)) + n)" using len by (intro mult_le_mono) auto
    then have "length (pm_redundant_flushes p') + n * (length (out_entries p') + n) \<le>
        length (pm_redundant_flushes p) + Suc n * (length (out_entries p) + Suc n)"
      using warn [OF ch] by (simp add: algebra_simps)
    then show "length (pm_redundant_flushes p') + n * (length (out_entries p') + n) \<le> MAX_FLUSH_ERROR_EVENTS \<and>
        length (pm_superfluous_flushes p') + n \<le> MAX_FLUSH_ERROR_EVENTS"
      using r warn [OF ch] by simp
  qed
  moreover have "maps_ok p'" "mapped p' = M" "simple_mode p'" "\<not> op_force_flush_align (pm_opts p')"
    using inv maps_ok_cong [OF fr] simple_mode_frame [OF fr] fr by (simp_all add: store_inv_def frame2_def)
  ultimately show ?thesis using inv wf lines len by (simp add: store_inv_def)
qed

lemma store_inv_cap:
  assumes "store_inv L M (Suc n) p"
  shows "sn_index (current p) < MAX_ARRAY_NUM" "length (out_entries p) < OSET_ITER_MAX"
  using assms out_count [of p] OSET_ITER_MAX_array by (simp_all add: store_inv_def)

lemma fits_key: "fits r \<Longrightarrow> rkey r" by (simp add: fits_def rkey_def)

text \<open>One lemma per kind of access.\<close>

lemma store_step:
  assumes inv: "tool_inv L M (Suc n) w" and ok: "access_ok L (Store a k v)"
  shows "\<exists>w'. access_step en (Store a k v) w = Inr w' \<and> tool_inv L M n w' \<and>
    tool_view w' = fold act (access_acts M (Store a k v)) (tool_view w) \<and> pm_opts (tl_pmem w') = pm_opts (tl_pmem w)"
proof -
  let ?p = "tl_pmem w" and ?t = "tl_trans w" and ?r = "mk_region a k"
  have sinv: "store_inv L M (Suc n) ?p" and tinv: "trans_inv (Suc n) ?t" using inv by (simp_all add: tool_inv_def)
  have r: "fits ?r" "rkey ?r" "in_line L ?r" using ok fits_key by simp_all
  have acc: "is_pmem_access a k ?p \<longleftrightarrow> bytes ?r \<inter> M \<noteq> {}"
    using is_pmem_access_mapped [OF _ r(2)] sinv by (simp add: store_inv_def)
  show ?thesis
  proof (cases "bytes ?r \<inter> M = {}")
    case True
    have "store_inv L M n ?p" using sinv by (intro store_inv_SucI [OF sinv]) (auto simp: store_inv_def)
    then show ?thesis
      using True acc trans_inv_Suc [OF tinv] by (simp add: trace_pmem_store_def tool_inv_def)
  next
    case False
    have key: "0 < unat k" "unat a + unat k < 2 ^ 64 - 1" using r(1) by (simp_all add: fits_def)
    obtain e p' where e: "track_store en a k v ?p = Inr (e, p')" "pmem_wf p'" "frame2 ?p p'" "st_addr e = a" "st_size e = k"
      "st_state e = STST_DIRTY" "out_entries p' = prefix_out ?p (Suc (pm_snippet_index ?p)) @ e # elems (pm_stores ?p)"
      "pm_redundant_flushes p' = pm_redundant_flushes ?p" "pm_superfluous_flushes p' = pm_superfluous_flushes ?p"
      using track_store_spec [OF _ _ store_inv_cap(1) [OF sinv] key, of en v] sinv by (auto simp: store_inv_def)
    have be: "bytes e = bytes ?r" "lo e = lo ?r" "hi e = hi ?r" "rkey e"
      using e(4,5) r(2) by (simp_all add: bytes_def lo_def hi_def sz_def rkey_def)
    have out: "set (out_entries p') = insert e (set (out_entries ?p))" "length (out_entries p') = Suc (length (out_entries ?p))"
      using e(7) by (auto simp: out_entries_prefix)
    have "store_inv L M n p'"
      using out e r(3) in_line_cong [OF be(2,3)] sinv by (intro store_inv_SucI [OF sinv e(3,2)]) (auto simp: store_inv_def)
    moreover obtain t' where t': "handle_tx_store en e ?t = Inr t'" "tx_wf t'" "tx_same ?t t'" "tx_room 0 t'"
      "length (tr_oot_stores t') \<le> Suc (length (tr_oot_stores ?t))"
      using handle_tx_store_ok [of ?t e 0 en] tinv be(4) by (fastforce simp: trans_inv_def)
    then have "trans_inv n t'" using tinv by (simp add: trans_inv_def tx_same_def)
    moreover have "entries_view (out_entries p') = act (Act_Store (bytes ?r)) (entries_view (out_entries ?p))"
      using view_store [OF out(1) e(6)] be(1) by simp
    ultimately show ?thesis
      using False acc e(1,3) t'(1) by (simp add: trace_pmem_store_def tool_inv_def tool_view_def frame2_def)
  qed
qed

lemma flush_step:
  assumes L: "0 < L" and inv: "tool_inv L M (Suc n) w" and ok: "access_ok L (Flush a k)"
  shows "\<exists>w'. access_step en (Flush a k) w = Inr w' \<and> tool_inv L M n w' \<and>
    tool_view w' = fold act (access_acts M (Flush a k)) (tool_view w) \<and> pm_opts (tl_pmem w') = pm_opts (tl_pmem w)"
proof -
  let ?p = "tl_pmem w" and ?r = "mk_region a k"
  have sinv: "store_inv L M (Suc n) ?p" and tinv: "trans_inv (Suc n) (tl_trans w)" using inv by (simp_all add: tool_inv_def)
  have r: "rkey ?r" "hi ?r < 2 ^ 64 - 1" "whole_lines L ?r" using ok fits_key by (simp_all add: fits_def)
  have wf: "pmem_wf ?p" and off: "strands_off (tl_strand_id w) ?p" and fi: "?r = flush_range a k ?p"
    using sinv by (simp_all add: store_inv_def strands_off_def simple_mode_def flush_range_def)
  have wh: "whole ?r (out_entries ?p)" using lines_whole [OF L r(3)] sinv by (simp add: store_inv_def)
  have rm: "room ?p (length (out_entries ?p))"
    and rs: "op_check_flush (pm_opts ?p) \<longrightarrow> length (pm_superfluous_flushes ?p) < MAX_FLUSH_ERROR_EVENTS"
    using sinv by (auto simp: store_inv_def warn_room_def room_def)
  obtain p' where p': "do_flush en (tl_strand_id w) a k ?p = Inr p'" "pmem_wf p'" "frame2 ?p p'"
    "out_entries p' = map (flush_e ?r) (out_entries ?p)"
    "pm_redundant_flushes p' = pm_redundant_flushes ?p @ warned ?p (again ?r (out_entries ?p))"
    "pm_superfluous_flushes p' = pm_superfluous_flushes ?p @ warned ?p (superfluous en ?r (out_entries ?p))"
    using do_flush_spec [OF wf off fi r(1,2) wh store_inv_cap(2) [OF sinv] rm rs] by blast
  have "store_inv L M n p'"
    using sinv p'(4-6) in_line_flush
    by (intro store_inv_SucI [OF sinv p'(3,2)]) (auto simp: store_inv_def warned_def again_def superfluous_def)
  moreover have "tool_view (w\<lparr>tl_pmem := p'\<rparr>) = act (Act_Flush (bytes ?r)) (tool_view w)"
    using view_flush [OF wh] p'(4) by (simp add: tool_view_def)
  ultimately show ?thesis using p'(1,3) trans_inv_Suc [OF tinv] by (simp add: tool_inv_def frame2_def)
qed

lemma fence_step:
  assumes inv: "tool_inv L M (Suc n) w"
  shows "\<exists>w'. access_step en Fence w = Inr w' \<and> tool_inv L M n w' \<and>
    tool_view w' = fold act (access_acts M Fence) (tool_view w) \<and> pm_opts (tl_pmem w') = pm_opts (tl_pmem w)"
proof -
  let ?p = "tl_pmem w"
  have sinv: "store_inv L M (Suc n) ?p" and tinv: "trans_inv (Suc n) (tl_trans w)" using inv by (simp_all add: tool_inv_def)
  have wf: "pmem_wf ?p" and md: "simple_mode ?p" using sinv by (simp_all add: store_inv_def)
  obtain p' where p': "do_fence en ?p = Inr p'" "pmem_wf p'" "frame2 ?p p'" "out_entries p' = fenced ?p"
    "pm_redundant_flushes p' = pm_redundant_flushes ?p" "pm_superfluous_flushes p' = pm_superfluous_flushes ?p"
    using do_fence_spec [OF wf md store_inv_cap(2) [OF sinv]] by blast
  have all: "\<forall>e \<in> set (out_entries ?p). in_line L e" using sinv unfolding store_inv_def by blast
  have "\<forall>e \<in> set (filter unflushed (prefix_out ?p (Suc (pm_snippet_index ?p)))). in_line L e"
    "\<forall>e \<in> set (filter unflushed (elems (pm_stores ?p))). in_line L e"
    using all unfolding out_entries_prefix by simp_all
  then have lines: "\<forall>e \<in> set (out_entries p'). in_line L e"
    using in_line_reindex unfolding p'(4) fenced_def set_append by blast
  have "length (out_entries p') \<le> length (out_entries ?p)"
    unfolding p'(4) fenced_def out_entries_prefix [of ?p] by (simp, metis add.commute add_mono length_filter_le)
  then have "store_inv L M n p'" using p'(5,6) by (intro store_inv_SucI [OF sinv p'(3,2) lines]) auto
  then show ?thesis
    using p'(1,3,4) trans_inv_Suc [OF tinv] view_fence [of ?p] by (simp add: tool_inv_def tool_view_def frame2_def)
qed

lemma access_step_ok:
  assumes "0 < L" "tool_inv L M (Suc n) w" "access_ok L e"
  shows "\<exists>w'. access_step en e w = Inr w' \<and> tool_inv L M n w' \<and>
    tool_view w' = fold act (access_acts M e) (tool_view w) \<and> pm_opts (tl_pmem w') = pm_opts (tl_pmem w)"
  using assms store_step [of L M n w] flush_step [of L M n w] fence_step [of L M n w] by (cases e) auto

interpretation tracker: persistency "access_step en" "\<lambda>n w. 0 < L \<and> tool_inv L M n w" tool_view "access_acts M" "access_ok L"
  for en L M
proof
  fix n w e assume "0 < L \<and> tool_inv L M (Suc n) w" "access_ok L e"
  then show "\<exists>s'. access_step en e w = Inr s' \<and> (0 < L \<and> tool_inv L M n s') \<and>
      tool_view s' = fold act (access_acts M e) (tool_view w)"
    using access_step_ok [of L M n w e en] by auto
qed

text \<open>The report at the end tells whether a byte is lost.\<close>

lemma run_reports_lost:
  assumes L: "0 < L" and inv: "tool_inv L M (length es) w" and new: "out_entries (tl_pmem w) = []"
    and ok: "\<forall>e \<in> set es. access_ok L e"
  shows "\<exists>w' p'. foldM (access_step en) es w = Inr w' \<and> print_store_stats (tl_pmem w') = Inr p' \<and>
    (pm_not_pmem_num p' = 0 \<longleftrightarrow> (\<forall>b. \<not> lost b (concat (map (access_acts M) es))))"
proof -
  have "tool_view w = all_durable" using new by (simp add: tool_view_def entries_view_def in_state_def all_durable_def)
  then obtain w' where w': "foldM (access_step en) es w = Inr w'" "tool_inv L M 0 w'"
    "not_durable (tool_view w') = {b. lost b (concat (map (access_acts M) es))}"
    using tracker.run_lost [of L M es 0 w en] L inv ok by auto
  have wf: "pmem_wf (tl_pmem w')" "length (out_entries (tl_pmem w')) < OSET_ITER_MAX"
    using w'(2) by (simp_all add: tool_inv_def store_inv_def)
  obtain p' where "print_store_stats (tl_pmem w') = Inr p'" "pm_not_pmem_num p' = length (out_entries (tl_pmem w'))"
    using print_store_stats_ok [OF wf] by blast
  moreover have "out_entries (tl_pmem w') = [] \<longleftrightarrow> (\<forall>b. \<not> lost b (concat (map (access_acts M) es)))"
    using not_durable_empty [OF wf(1)] w'(3) by (simp add: tool_view_def)
  ultimately show ?thesis using w'(1) by auto
qed

end
