(* ===== verification/PMC_Init_Laws.thy ===== *)
theory PMC_Init_Laws
  imports PMC_Persist
begin

text \<open>
  The initialised tool meets the invariant of the trackers, registering mappings keeps it, and so a whole
  session of the tool (initialisation, mappings, accesses, report) finds exactly the lost bytes.
\<close>

section \<open>Initialisation\<close>

text \<open>The options under which stores are kept in arrival order and every fence ends the round of flushes.\<close>

definition plain :: "options \<Rightarrow> bool" where
  "plain op \<longleftrightarrow> \<not> op_tree_reorganization op \<and> \<not> op_track_multiple_stores op \<and> \<not> op_order_guarantee op \<and>
     \<not> op_lack_ordering_trand op \<and> \<not> (op_log_stores op \<and> op_store_traces op) \<and> \<not> op_force_flush_align op"

text \<open>The event registers have room for \<open>n\<close> accesses.\<close>

definition reg_room :: "nat \<Rightarrow> options \<Rightarrow> bool" where
  "reg_room n op \<longleftrightarrow> n \<le> MAX_OOT_STORES \<and> (op_check_flush op \<longrightarrow> n * n \<le> MAX_FLUSH_ERROR_EVENTS)"

lemma init_pmem_wf:
  assumes "plain op" "p = tl_pmem (pmc_post_clo_init en v op)"
  shows "pmem_wf p \<and> out_entries p = [] \<and> simple_mode p \<and> \<not> op_force_flush_align (pm_opts p)"
  using assms oset_inv_Create
  by (auto simp: pmc_post_clo_init_def Let_def pmem_wf_def array_ok_def snip_ok_def tree_ok_def empty_snippet_def
      out_entries_def snip_out_def create_stores_def simple_mode_def plain_def)

lemma init_maps_ok:
  "maps_ok (tl_pmem (pmc_post_clo_init en v op)) \<and> mapped (tl_pmem (pmc_post_clo_init en v op)) = {}"
  by (simp add: pmc_post_clo_init_def Let_def maps_ok_def oset_inv_Create set_bytes_def gapped_def)

lemma init_tx_wf: "tx_wf (init_transactions v a b c d) \<and> tx_room 0 (init_transactions v a b c d)"
  by (simp add: init_transactions_def tx_wf_def tx_room_def oset_inv_Create gapped_def OSET_ITER_MAX_def)

lemma init_tool_inv:
  assumes "plain op" "reg_room n op"
  shows "tool_inv L {} n (pmc_post_clo_init en False op)"
proof -
  let ?w = "pmc_post_clo_init en False op"
  have p: "pm_redundant_flushes (tl_pmem ?w) = []" "pm_superfluous_flushes (tl_pmem ?w) = []"
    "op_check_flush (pm_opts (tl_pmem ?w)) = op_check_flush op"
    by (simp_all add: pmc_post_clo_init_def Let_def)
  have "n < OSET_ITER_MAX" using assms(2) by (simp add: reg_room_def OSET_ITER_MAX_def MAX_OOT_STORES_def)
  moreover have "warn_room n (tl_pmem ?w)"
    using assms init_pmem_wf [OF assms(1) refl, of en False] p
    by (auto simp: warn_room_def reg_room_def MAX_OOT_STORES_def MAX_FLUSH_ERROR_EVENTS_def)
  ultimately have "store_inv L {} n (tl_pmem ?w)"
    using init_pmem_wf [OF assms(1) refl, of en False] init_maps_ok [of en False op] by (simp add: store_inv_def)
  moreover have "trans_inv n (tl_trans ?w)"
    using init_tx_wf assms(2)
    by (simp add: trans_inv_def pmc_post_clo_init_def Let_def reg_room_def) (simp add: init_transactions_def)
  ultimately show ?thesis by (simp add: tool_inv_def)
qed

section \<open>Mappings of a session\<close>

text \<open>The client registers a mapping by the request with the first code, its address and its size.\<close>

definition map_args :: "uword \<Rightarrow> uword \<Rightarrow> nat \<Rightarrow> uword" where
  "map_args a n i = (if i = 1 then a else if i = 2 then n else 0)"

fun map_step :: "env \<Rightarrow> uword \<times> uword \<Rightarrow> tool \<Rightarrow> tool res" where
  "map_step en (a, n) w = rbind (pmc_handle_client_request en PC_BASE (map_args a n) w) (\<lambda>(handled, ret, w'). Inr w')"

declare map_step.simps [simp del]

lemma map_step_register: "map_step en (a, n) w = rbind (register_mapping a n (tl_pmem w)) (\<lambda>p. Inr (w\<lparr>tl_pmem := p\<rparr>))"
  by (cases "register_mapping a n (tl_pmem w)")
    (simp_all add: map_step.simps pmc_handle_client_request_def PC_BASE_def GDB_MONITOR_COMMAND_def request_of_def requests_def
      deprecated_def with_pmem_def map_args_def)

definition all_mapped :: "(uword \<times> uword) list \<Rightarrow> nat set" where
  "all_mapped ms = (\<Union>(a, n) \<in> set ms. bytes (mk_region a n))"

lemma register_mapping_frame:
  assumes "register_mapping a n p = Inr p'"
  shows "\<exists>l h M. p' = p\<lparr>pm_min_map := l, pm_max_map := h, pm_mappings := M\<rparr>"
  using assms by (auto simp: register_mapping_def rbind_eq_Inr Let_def split: prod.splits)

lemma store_inv_maps:
  assumes "store_inv L M n p" "p' = p\<lparr>pm_min_map := l, pm_max_map := h, pm_mappings := ms\<rparr>"
    "maps_ok p'" "mapped p' = M'"
  shows "store_inv L M' n p' \<and> out_entries p' = out_entries p"
proof -
  have "snip_out p' = snip_out p" using assms(2) by (simp add: fun_eq_iff snip_out_def)
  then have same: "out_entries p' = out_entries p" using assms(2) by (simp add: out_entries_def)
  have "pmem_wf p' = pmem_wf p"
    using assms(2) by (simp add: pmem_wf_def array_ok_def snip_ok_def tree_ok_def)
  then show ?thesis
    using assms same by (simp add: store_inv_def simple_mode_def warn_room_def)
qed

lemma map_step_inv:
  assumes "tool_inv L M n w" "rok (mk_region a k)"
  shows "\<exists>w'. map_step en (a, k) w = Inr w' \<and> tool_inv L (M \<union> bytes (mk_region a k)) n w' \<and>
    out_entries (tl_pmem w') = out_entries (tl_pmem w)"
proof -
  let ?p = "tl_pmem w"
  have ok: "store_inv L M n ?p" "trans_inv n (tl_trans w)" "maps_ok ?p" "mapped ?p = M"
    using assms(1) by (simp_all add: tool_inv_def store_inv_def)
  obtain p' where p': "register_mapping a k ?p = Inr p'" "maps_ok p'" "mapped p' = M \<union> bytes (mk_region a k)"
    using register_mapping_ok [OF ok(3) assms(2)] ok(4) by auto
  then show ?thesis
    using register_mapping_frame [OF p'(1)] store_inv_maps [OF ok(1) _ p'(2,3)] ok(2)
    by (auto simp: tool_inv_def map_step_register)
qed

lemma map_steps_inv:
  assumes "tool_inv L M n w" "\<forall>(a, k) \<in> set ms. rok (mk_region a k)"
  shows "\<exists>w'. foldM (map_step en) ms w = Inr w' \<and> tool_inv L (M \<union> all_mapped ms) n w' \<and>
    out_entries (tl_pmem w') = out_entries (tl_pmem w)"
  using assms
proof (induction ms arbitrary: w M)
  case Nil
  then show ?case by (simp add: all_mapped_def)
next
  case (Cons m ms)
  obtain a k where m: "m = (a, k)" by (cases m)
  obtain w1 where w1: "map_step en m w = Inr w1" "tool_inv L (M \<union> bytes (mk_region a k)) n w1"
    "out_entries (tl_pmem w1) = out_entries (tl_pmem w)"
    using map_step_inv [OF Cons.prems(1), of a k en] Cons.prems(2) m by auto
  have "M \<union> bytes (mk_region a k) \<union> all_mapped ms = M \<union> all_mapped (m # ms)"
    by (auto simp: all_mapped_def m)
  then show ?case using Cons.IH [OF w1(2)] Cons.prems(2) w1(1,3) by simp
qed

section \<open>Sessions\<close>

lemma session_inv:
  assumes op: "plain op" "reg_room n op" and maps: "\<forall>(a, k) \<in> set ms. rok (mk_region a k)"
  shows "\<exists>w. foldM (map_step en) ms (pmc_post_clo_init en False op) = Inr w \<and> tool_inv L (all_mapped ms) n w \<and>
    out_entries (tl_pmem w) = []"
  using map_steps_inv [OF init_tool_inv [OF op, of L en] maps, of en] init_pmem_wf [OF op(1) refl, of en False] by simp

text \<open>The entries that are reported cover exactly the bytes that are lost.\<close>

lemma not_durable_bytes:
  assumes "pmem_wf p"
  shows "not_durable (entries_view (out_entries p)) = set_bytes (out_entries p)"
proof -
  have st: "st_state e = STST_DIRTY \<or> st_state e = STST_FLUSHED" if "e \<in> set (out_entries p)" for e
    using out_entry_ok [OF assms that] by (cases "st_state e") (simp_all add: entry_ok_def)
  show ?thesis using st by (fastforce simp: not_durable_def entries_view_def in_state_mem set_bytes_def)
qed

lemma final_report:
  assumes "tool_inv L M 0 w" "not_durable (tool_view w) = B"
  shows "set_bytes (out_entries (tl_pmem w)) = B \<and> (\<exists>p'. print_store_stats (tl_pmem w) = Inr p' \<and>
    pm_not_pmem_num p' = length (out_entries (tl_pmem w)) \<and> (pm_not_pmem_num p' = 0 \<longleftrightarrow> B = {}))"
proof -
  have wf: "pmem_wf (tl_pmem w)" "length (out_entries (tl_pmem w)) < OSET_ITER_MAX"
    using assms(1) by (simp_all add: tool_inv_def store_inv_def)
  obtain p' where p': "print_store_stats (tl_pmem w) = Inr p'" "pm_not_pmem_num p' = length (out_entries (tl_pmem w))"
    using print_store_stats_ok [OF wf] by blast
  have "set_bytes (out_entries (tl_pmem w)) = B"
    using not_durable_bytes [OF wf(1)] assms(2) by (simp add: tool_view_def)
  moreover have "out_entries (tl_pmem w) = [] \<longleftrightarrow> B = {}"
    using not_durable_empty [OF wf(1)] assms(2) by (simp add: tool_view_def)
  ultimately show ?thesis using p' by auto
qed

lemma session_start:
  assumes "plain op" "reg_room n op" "\<forall>(a, k) \<in> set ms. rok (mk_region a k)"
  shows "\<exists>w. foldM (map_step en) ms (pmc_post_clo_init en False op) = Inr w \<and> tool_inv L (all_mapped ms) n w \<and>
    tool_view w = all_durable"
  using session_inv [OF assms, of en L] by (auto simp: tool_view_def entries_view_def in_state_def all_durable_def)

lemma session_reports_lost:
  assumes op: "plain op" "reg_room (length es) op" and maps: "\<forall>(a, k) \<in> set ms. rok (mk_region a k)"
    and L: "0 < L" and ok: "\<forall>e \<in> set es. access_ok L e"
  shows "\<exists>w w' p'. foldM (map_step en) ms (pmc_post_clo_init en False op) = Inr w \<and> foldM (access_step en) es w = Inr w' \<and>
    set_bytes (out_entries (tl_pmem w')) = {b. lost b (concat (map (access_acts (all_mapped ms)) es))} \<and>
    print_store_stats (tl_pmem w') = Inr p' \<and> pm_not_pmem_num p' = length (out_entries (tl_pmem w')) \<and>
    (pm_not_pmem_num p' = 0 \<longleftrightarrow> (\<forall>b. \<not> lost b (concat (map (access_acts (all_mapped ms)) es))))"
proof -
  obtain w where w: "foldM (map_step en) ms (pmc_post_clo_init en False op) = Inr w"
    "tool_inv L (all_mapped ms) (length es) w" "tool_view w = all_durable" using session_start [OF op maps, of en L] by blast
  then obtain w' where w': "foldM (access_step en) es w = Inr w'" "tool_inv L (all_mapped ms) 0 w'"
    "not_durable (tool_view w') = {b. lost b (concat (map (access_acts (all_mapped ms)) es))}"
    using tracker.run_lost [of L "all_mapped ms" es 0 w en] L ok by auto
  show ?thesis using final_report [OF w'(2,3)] w(1) w'(1) by auto
qed

end
