(* ===== verification/PMC_Exit_Laws.thy ===== *)
theory PMC_Exit_Laws
  imports PMC_Init_Laws
begin

text \<open>
  The end of a run: \<open>pmc_fini\<close> prints the summary and its last line counts what all detectors found.
\<close>

lemma print_tx_summary_ok:
  assumes "tx_wf t" "tx_room n t"
  shows "\<exists>ms. print_tx_summary t = Inr ms"
proof -
  have "os_iter (tr_transactions t) = Inr (elems (tr_transactions t))"
    using assms by (intro os_iter_correct [of "fast_cmp tx_id" tx_id tx_info_ok]) (auto simp: tx_wf_def tx_room_def)
  then show ?thesis by (simp add: print_tx_summary_def)
qed

lemma tx_all_err: "tx_wf t \<Longrightarrow> get_tx_all_err t = length (tr_oot_stores t) + length (tr_cross_tx_evs t) +
    length (elems (tr_transactions t)) + length (tr_redundant_logging_tx_evs t)"
  using Size_correct [of "fast_cmp tx_id" tx_id tx_info_ok "tr_transactions t"] by (simp add: get_tx_all_err_def tx_wf_def)

text \<open>All that the detectors found, the outstanding stores included.\<close>

definition found_errors :: "pmem_ops \<Rightarrow> transaction_ops \<Rightarrow> nat" where
  "found_errors p t = length (out_entries p) + length (pm_redundant_flushes p) + length (pm_superfluous_flushes p) +
     length (pm_multiple_stores p) + length (pm_redundant_fence p) + pm_epoch_durability_reg p +
     pm_order_guarantee_reg p + pm_lack_ordering_reg p + length (tr_oot_stores t) + length (tr_cross_tx_evs t) +
     length (elems (tr_transactions t)) + length (tr_redundant_logging_tx_evs t)"

lemma found_errors_log [simp]: "found_errors (log_out ms p) t = found_errors p t"
  by (simp add: found_errors_def) (simp add: log_out_def)

lemma print_pmem_stats_ok:
  assumes wf: "pmem_wf p" "length (out_entries p) < OSET_ITER_MAX" and tx: "tx_wf t" "tx_room n t"
    and op: "\<not> op_print_bug_detail (pm_opts p)" "op_error_summary (pm_opts p)"
  shows "\<exists>p'. print_pmem_stats en False t p = Inr p' \<and> out_entries p' = out_entries p \<and>
    last (pm_out p') = Umsg ''ERROR SUMMARY: %lu errors'' [of_nat (found_errors p t)]"
proof -
  obtain p1 where p1: "print_store_stats p = Inr p1" "pm_not_pmem_num p1 = length (out_entries p)"
    "out_entries p1 = out_entries p" "frame2 p p1" "pm_redundant_flushes p1 = pm_redundant_flushes p"
    "pm_superfluous_flushes p1 = pm_superfluous_flushes p"
    using print_store_stats_ok [OF wf] by blast
  obtain ms where ms: "print_tx_summary t = Inr ms" using print_tx_summary_ok [OF tx] by blast
  have "all_errors p1 t = found_errors p t"
    using p1(2-6) tx_all_err [OF tx(1)] by (simp add: all_errors_def found_errors_def frame2_def)
  moreover have "op_error_summary (pm_opts p1)" using p1(4) op by (simp add: frame2_def)
  ultimately show ?thesis
    using op(1) p1(1,3) ms by (simp add: print_pmem_stats_def print_general_summary_def) (simp add: log_out_def)
qed

lemma pmc_fini_ok:
  assumes inv: "tool_inv L M n w" and op: "op_print_summary (pm_opts (tl_pmem w))"
    "\<not> op_print_bug_detail (pm_opts (tl_pmem w))" "op_error_summary (pm_opts (tl_pmem w))"
  shows "\<exists>w'. pmc_fini en w = Inr w' \<and> out_entries (tl_pmem w') = out_entries (tl_pmem w) \<and>
    last (pm_out (tl_pmem w')) = Umsg ''ERROR SUMMARY: %lu errors'' [of_nat (found_errors (tl_pmem w) (tl_trans w))]"
proof -
  let ?p = "tl_pmem w"
  have wf: "pmem_wf ?p" "length (out_entries ?p) < OSET_ITER_MAX" "\<not> op_order_guarantee (pm_opts ?p)"
    and tx: "tx_wf (tl_trans w)" "tx_room 0 (tl_trans w)"
    using inv by (auto simp: tool_inv_def store_inv_def simple_mode_def trans_inv_def)
  define p2 where "p2 = (if MAX_ARRAY_NUM \<le> pm_snippet_index ?p
    then log_out [Umsg ''pmem.array.snippet_info_index>=MAX_ARRAY_NUM'' []] ?p else ?p)"
  define p3 where "p3 = (if op_log_stores (pm_opts p2) then log_out [Emit ''|STOP'' []] p2 else p2)"
  have p3: "pmem_wf p3" "out_entries p3 = out_entries ?p" "pm_opts p3 = pm_opts ?p" "found_errors p3 t = found_errors ?p t" for t
    using wf(1) by (simp_all add: p3_def p2_def)
  obtain p4 where p4: "print_pmem_stats en False (tl_trans w) p3 = Inr p4" "out_entries p4 = out_entries ?p"
    "last (pm_out p4) = Umsg ''ERROR SUMMARY: %lu errors'' [of_nat (found_errors ?p (tl_trans w))]"
    using print_pmem_stats_ok [of p3 "tl_trans w" 0 en] p3 wf(2) tx op by auto
  have "pmc_fini en w = rbind (if op_print_summary (pm_opts p3) then print_pmem_stats en False (tl_trans w) p3 else Inr p3)
      (\<lambda>p4. Inr (w\<lparr>tl_pmem := p4\<rparr>))"
    by (simp only: pmc_fini_def Let_def wf(3) if_False rbind_Inr p2_def p3_def)
  then show ?thesis using p4 p3(3) op(1) by simp
qed

end
