(* ===== verification/PMC_Tx_Thread_Laws.thy ===== *)
theory PMC_Tx_Thread_Laws
  imports PMC_Tx_Region_Laws
begin

text \<open>
  Threads that join and leave a transaction, and the end of a transaction that a single thread takes part in: the
  loop of \<open>remove_tx\<close> over the threads then removes exactly this transaction from exactly this thread, and
  ending undoes starting.
\<close>

lemma keyed_length_dom:
  assumes "keyed key ok t"
  shows "length (elems t) = card (dom (OSetGen_Lookup t))"
proof -
  have "dom (OSetGen_Lookup t) = key ` set (elems t)" 
    by (simp add: set_eq_iff domIff keyed_lookup_None [OF assms])
  moreover have "inj_on key (set (elems t))" using keyed_inj [OF assms] by (simp add: inj_on_def)
  moreover have "distinct (elems t)" using assms wo.ordered_distinct by (auto simp: oset_inv_def)
  ultimately show ?thesis by (simp add: card_image distinct_card)
qed

lemma txs_view_length:
  assumes "txs_view t' = (txs_view t)(i \<mapsto> v)" "tx_wf t" "txs_view t i = None" "tx_wf t'"
  shows "length (elems (tr_transactions t')) = Suc (length (elems (tr_transactions t)))"
proof -
  have dom: "dom (the_tx x) = dom (txs_view x)" for x by (auto simp: txs_view_def dom_def)
  have k: "keyed tx_id tx_info_ok (tr_transactions t)" "keyed tx_id tx_info_ok (tr_transactions t')"
    using assms(2,4) by (simp_all add: tx_wf_def)
  have "finite (dom (the_tx t))" using keyed_lookup_None [OF k(1)] by (simp add: dom_def finite_image_iff)
  moreover have "i \<notin> dom (the_tx t)" unfolding dom using assms(3) by auto
  moreover have "dom (the_tx t') = insert i (dom (the_tx t))" unfolding dom using assms(1) by simp
  ultimately show ?thesis using keyed_length_dom [OF k(1)] keyed_length_dom [OF k(2)] by simp
qed

lemma threads_view_map:
  assumes "tx_wf t"
  shows "distinct (map fst (threads_view t))" "map_of (threads_view t) k = map_option (\<lambda>th. elems (th_tx_ids th)) (the_thread t k)"
proof -
  have k: "keyed th_thread_id thread_ok (tr_threads t)" using assms by (simp add: tx_wf_def)
  have "distinct (map th_thread_id (elems (tr_threads t)))"
    using k keyed_inj [OF k] wo.ordered_distinct
    by (auto simp: distinct_map inj_on_def oset_inv_def)
  then show d: "distinct (map fst (threads_view t))" by (simp add: threads_view_def th_view_def comp_def)
  show "map_of (threads_view t) k = map_option (\<lambda>th. elems (th_tx_ids th)) (the_thread t k)"
  proof (cases "the_thread t k")
    case None
    then have "k \<notin> th_thread_id ` set (elems (tr_threads t))" using keyed_lookup_None [OF k] by blast
    then show ?thesis using None by (auto simp: map_of_eq_None_iff threads_view_def th_view_def image_image)
  next
    case (Some th)
    then have "th \<in> set (elems (tr_threads t))" "th_thread_id th = k" using keyed_lookup [OF k] by blast+
    then have "(k, elems (th_tx_ids th)) \<in> set (threads_view t)" by (force simp: threads_view_def th_view_def)
    then show ?thesis using Some d by simp
  qed
qed

text \<open>The transactions of a thread without \<open>i\<close>; the entry of the thread goes with its last one.\<close>

definition without :: "uword \<Rightarrow> uword list \<Rightarrow> uword list option" where
  "without i ids = (let ids' = filter (\<lambda>x. x \<noteq> i) ids in if ids' = [] then None else Some ids')"

lemma drop_tx_single:
  assumes "distinct (map fst ths)" "\<forall>(k, ids) \<in> set ths. k \<noteq> tid \<longrightarrow> i \<notin> set ids \<and> ids \<noteq> []"
  shows "map_of (drop_tx i ths) = (map_of ths)(tid := Option.bind (map_of ths tid) (without i))"
  using assms
proof (induction ths)
  case Nil
  then show ?case by simp
next
  case (Cons th ths)
  obtain k ids where th: "th = (k, ids)" by (cases th)
  have "distinct (map fst ths)" "\<forall>(k, ids) \<in> set ths. k \<noteq> tid \<longrightarrow> i \<notin> set ids \<and> ids \<noteq> []" using Cons.prems by simp_all
  note IH = Cons.IH [OF this]
  show ?case
  proof (cases "k = tid")
    case True
    have none: "map_of ths tid = None" using Cons.prems(1) th True by (simp add: map_of_eq_None_iff)
    then have "(map_of ths)(tid := None) = map_of ths" by auto
    then show ?thesis using th True none IH by (auto simp: fun_eq_iff Let_def without_def)
  next
    case False
    then have "filter (\<lambda>x. x \<noteq> i) ids = ids" "ids \<noteq> []" using Cons.prems(2) th by (auto simp: filter_id_conv)
    then show ?thesis using th False IH by (auto simp: fun_eq_iff)
  qed
qed

text \<open>Only thread \<open>tid\<close> may hold transaction \<open>i\<close>, and no thread is kept without a transaction.\<close>

definition lone :: "uword \<Rightarrow> uword \<Rightarrow> transaction_ops \<Rightarrow> bool" where
  "lone i tid t \<longleftrightarrow> (\<forall>k \<in> dom (the_thread t). tids t k \<noteq> {}) \<and> (\<forall>k. k \<noteq> tid \<longrightarrow> i \<notin> tids t k)"

lemma tids_view: "tx_wf t \<Longrightarrow> tids t k = (case map_of (threads_view t) k of None \<Rightarrow> {} | Some ids \<Rightarrow> set ids)"
  using threads_view_map(2) [of t k] by (auto simp: tids_def split: option.splits)

lemma lone_view:
  assumes "tx_wf t" "lone i tid t"
  shows "\<forall>(k, ids) \<in> set (threads_view t). k \<noteq> tid \<longrightarrow> i \<notin> set ids \<and> ids \<noteq> []"
proof -
  have "(k \<noteq> tid \<longrightarrow> i \<notin> set ids) \<and> ids \<noteq> []" if "(k, ids) \<in> set (threads_view t)" for k ids
  proof -
    have m: "map_of (threads_view t) k = Some ids" using that threads_view_map(1) [OF assms(1)] by simp
    have "k \<in> dom (the_thread t)" using threads_view_map(2) [OF assms(1), of k] m by (cases "the_thread t k") auto
    moreover have "tids t k = set ids" using tids_view [OF assms(1), of k] m by simp
    moreover have "tids t k \<noteq> {}" "k \<noteq> tid \<longrightarrow> i \<notin> tids t k" using assms(2) \<open>k \<in> dom (the_thread t)\<close> unfolding lone_def by blast+
    ultimately show ?thesis by simp
  qed
  then show ?thesis by blast
qed

lemma remove_tx_alone:
  assumes wf: "tx_wf t" and room: "tx_room n t" and tx: "the_tx t i = Some tx" "tx_counter tx = 1" and one: "lone i tid t"
  shows "\<exists>t'. remove_tx i t = Inr (0, t') \<and> tx_wf t' \<and> tx_room n t' \<and> tx_rest t t' \<and> txs_view t' = (txs_view t)(i := None) \<and>
    tids t' = (tids t)(tid := tids t tid - {i})"
proof -
  obtain t' where t': "remove_tx i t = Inr (0, t')" "tx_wf t'" "tx_room n t'" "tx_rest t t'" "txs_view t' = (txs_view t)(i := None)"
    "threads_view t' = drop_tx i (threads_view t)"
    using remove_tx_last [OF wf room tx] by blast
  have m: "map_of (threads_view t') = (map_of (threads_view t))(tid := Option.bind (map_of (threads_view t) tid) (without i))"
    unfolding t'(6) by (rule drop_tx_single [OF threads_view_map(1) [OF wf] lone_view [OF wf one]])
  have "tids t' k = ((tids t)(tid := tids t tid - {i})) k" for k
  proof (cases "map_of (threads_view t) tid")
    case None
    then show ?thesis by (simp add: tids_view [OF wf] tids_view [OF t'(2)] m)
  next
    case (Some ids)
    have "set (filter (\<lambda>x. x \<noteq> i) ids) = set ids - {i}" by auto
    then show ?thesis
      using Some by (simp add: tids_view [OF wf] tids_view [OF t'(2)] m without_def Let_def filter_empty_conv split: option.split) blast
  qed
  then show ?thesis using t' by (auto simp: fun_eq_iff)
qed

lemma start_end_tx:
  assumes wf: "tx_wf t" and room: "tx_room (Suc (Suc n)) t" and none: "txs_view t i = None"
    and idle: "\<forall>k. i \<notin> tids t k" "\<forall>k \<in> dom (the_thread t). tids t k \<noteq> {}"
  shows "\<exists>t1 t2. register_new_tx en i t = Inr t1 \<and> remove_tx i t1 = Inr (0, t2) \<and> tx_wf t2 \<and> tx_room n t2 \<and> tx_rest t t2 \<and>
    txs_view t2 = txs_view t \<and> tids t2 = tids t"
proof -
  let ?k = "en_tid en"
  obtain t1 where t1: "register_new_tx en i t = Inr t1" "tx_wf t1" "tx_room n t1" "tx_rest t t1"
    "txs_view t1 = (txs_view t)(i \<mapsto> started en i (txs_view t i))" "tids t1 = (tids t)(?k := insert i (tids t ?k))"
    "dom (the_thread t1) = insert ?k (dom (the_thread t))"
    using register_new_tx_ok [OF wf room] by blast
  have "txs_view t1 i = Some (i, 1, en_context en, {})" using t1(5) none by (simp add: started_def)
  then obtain tx where tx: "the_tx t1 i = Some tx" "tx_counter tx = 1" by (auto simp: txs_view_def tx_view_def)
  have "lone i ?k t1" using idle t1(6,7) by (auto simp: lone_def)
  then obtain t2 where t2: "remove_tx i t1 = Inr (0, t2)" "tx_wf t2" "tx_room n t2" "tx_rest t1 t2"
    "txs_view t2 = (txs_view t1)(i := None)" "tids t2 = (tids t1)(?k := tids t1 ?k - {i})"
    using remove_tx_alone [OF t1(2,3) tx] by blast
  have "txs_view t2 = txs_view t" using t2(5) t1(5) none by (auto simp: fun_eq_iff)
  moreover have "tids t2 = tids t" using t2(6) t1(6) idle(1) by (auto simp: fun_eq_iff)
  ultimately show ?thesis using t1(1) t2 tx_rest_trans [OF t1(4) t2(4)] by blast
qed

section \<open>Joining and leaving\<close>

lemma add_thread_to_tx_ok:
  assumes "tx_wf t" "tx_room (Suc n) t"
  shows "if txs_view t i = None then \<exists>ms. add_thread_to_tx en i t = Inr (1, tr_log ms t)
    else \<exists>t'. add_thread_to_tx en i t = Inr (0, t') \<and> tx_wf t' \<and> tx_room n t' \<and> tx_rest t t' \<and> txs_view t' = txs_view t \<and>
      tids t' = (tids t)(en_tid en := insert i (tids t (en_tid en)))"
proof (cases "txs_view t i = None")
  case True
  then have "\<not> OSetGen_Contains (tr_transactions t) i" by (simp add: OSetGen_Contains_def txs_view_def)
  then show ?thesis using True tr_dmsg_log [of "''no matching transaction found''" "[]" t] by (auto simp: add_thread_to_tx_def)
next
  case False
  then have "OSetGen_Contains (tr_transactions t) i" by (auto simp: OSetGen_Contains_def txs_view_def)
  moreover obtain t' where t': "join_tx en i t = Inr t'" "tx_wf t'" "tx_room n t'" "tr_transactions t' = tr_transactions t" "tx_rest t t'"
    "tids t' = (tids t)(en_tid en := insert i (tids t (en_tid en)))"
    using join_tx_ok [OF assms] by blast
  moreover have "txs_view t' = txs_view t" using t'(4) by (simp add: txs_view_def fun_eq_iff)
  ultimately show ?thesis using False by (simp add: add_thread_to_tx_def)
qed

lemma remove_thread_from_tx_ok:
  assumes wf: "tx_wf t" and room: "tx_room n t" and tx: "txs_view t i \<noteq> None" and th: "i \<in> tids t (en_tid en)"
  shows "\<exists>t'. remove_thread_from_tx en i t = Inr (0, t') \<and> tx_wf t' \<and> tx_rest t t' \<and> txs_view t' = txs_view t \<and>
    tids t' = (tids t)(en_tid en := tids t (en_tid en) - {i})"
proof -
  let ?k = "en_tid en"
  have c: "OSetGen_Contains (tr_transactions t) i" using tx by (auto simp: OSetGen_Contains_def txs_view_def)
  obtain ms where ms: "is_tx_in_thread en i t = (True, tr_log ms t)" using is_tx_in_thread_ok [OF wf, of True i en] th by auto
  obtain x where x: "the_thread t ?k = Some x" "i \<in> set (elems (th_tx_ids x))"
    using th by (auto simp: tids_def split: option.splits)
  have k: "keyed th_thread_id thread_ok (tr_threads t)" using wf by (simp add: tx_wf_def)
  have el: "x \<in> set (elems (tr_threads t))" "th_thread_id x = ?k" "word_set (th_tx_ids x)"
    using thread_of [OF wf x(1)] by simp_all
  obtain b J where J: "OSetWord_Remove i (th_tx_ids x) = Inr (b, J)" "word_set J" "set (elems J) = set (elems (th_tx_ids x)) - {i}"
    using word_set_remove [OF el(3), of i] by (metis set_minus_filter_out)
  define t' where "t' = (tr_log ms t)\<lparr>tr_threads := os_write x (x\<lparr>th_tx_ids := J\<rparr>) (tr_threads t)\<rparr>"
  note w = keyed_map_write [OF k el(1), of "x\<lparr>th_tx_ids := J\<rparr>"]
  have "remove_thread_from_tx en i t = Inr (0, t')"
    using c ms x(1) J(1) by (simp add: remove_thread_from_tx_def t'_def)
  moreover have "tx_wf t'" using wf w(1) J(2) by (simp add: tx_wf_def t'_def thread_ok_def)
  moreover have "tids t' = (tids t)(?k := tids t ?k - {i})"
    using w(2) el(2) J(2,3) x(1) by (auto simp: tids_def t'_def thread_ok_def fun_eq_iff)
  ultimately show ?thesis by (auto simp: t'_def tx_rest_def txs_view_def fun_eq_iff)
qed

end
