(* ===== verification/PMC_Epoch_Laws.thy ===== *)
theory PMC_Epoch_Laws
  imports PMC_Persist
begin

text \<open>
  Epochs: \<open>epoch_end\<close> reports every outstanding store that was made in the epoch once and takes its mark away;
  the fences of an epoch after the first are registered as redundant.
\<close>

definition clear_epoch :: "pmem_st \<Rightarrow> pmem_st" where
  "clear_epoch e = e\<lparr>st_inEpoch := False\<rparr>"

lemma clear_epoch_sel [simp]:
  "st_index (clear_epoch e) = st_index e" "st_state (clear_epoch e) = st_state e" "st_is_delete (clear_epoch e) = st_is_delete e"
  "lo (clear_epoch e) = lo e" "hi (clear_epoch e) = hi e" "bytes (clear_epoch e) = bytes e" "rkey (clear_epoch e) = rkey e"
  "\<not> st_inEpoch (clear_epoch e)"
  by (simp_all add: clear_epoch_def lo_def hi_def sz_def bytes_def rkey_def)

lemma clear_epoch_id: "\<not> st_inEpoch e \<Longrightarrow> clear_epoch e = e"
  by (simp add: clear_epoch_def)

lemma entry_ok_clear [simp]: "entry_ok (clear_epoch e) = entry_ok e" "in_bounds l h (clear_epoch e) = in_bounds l h e"
  by (simp_all add: entry_ok_def in_bounds_def)

lemma mark_clear: "mark a (clear_epoch e) = clear_epoch (mark a e)" "st_inEpoch (mark a e) = st_inEpoch e"
  by (simp_all add: mark_def clear_epoch_def)

lemma report_epoch_def': "\<exists>ms. report_epoch e p = p\<lparr>pm_epoch_durability_reg := Suc (pm_epoch_durability_reg p), pm_out := pm_out p @ ms\<rparr>"
  by (auto simp: report_epoch_def log_out_def)

section \<open>The array\<close>

lemma epoch_entries_ok:
  assumes "distinct js" "\<forall>i \<in> set js. \<not> st_is_delete (pm_array p i)"
  shows "\<exists>ms. fold epoch_entry js p = p\<lparr>pm_array := (\<lambda>i. if i \<in> set js then clear_epoch (pm_array p i) else pm_array p i),
    pm_epoch_durability_reg := pm_epoch_durability_reg p + length (filter (\<lambda>i. st_inEpoch (pm_array p i)) js),
    pm_out := pm_out p @ ms\<rparr>"
  using assms
proof (induction js arbitrary: p)
  case Nil
  show ?case by (intro exI [of _ "[]"]) simp
next
  case (Cons i js)
  obtain ms where q: "epoch_entry i p = p\<lparr>pm_array := (pm_array p)(i := clear_epoch (pm_array p i)),
      pm_epoch_durability_reg := pm_epoch_durability_reg p + of_bool (st_inEpoch (pm_array p i)), pm_out := pm_out p @ ms\<rparr>"
  proof (cases "st_inEpoch (pm_array p i)")
    case True
    obtain ms where "report_epoch (pm_array p i) p =
        p\<lparr>pm_epoch_durability_reg := Suc (pm_epoch_durability_reg p), pm_out := pm_out p @ ms\<rparr>"
      using report_epoch_def' by blast
    then show ?thesis
      using that [of ms] True Cons.prems(2) by (simp add: epoch_entry_def set_entry_def clear_epoch_def)
  next
    case False
    then show ?thesis using that [of "[]"] by (simp add: epoch_entry_def clear_epoch_id)
  qed
  have "\<forall>j \<in> set js. pm_array (epoch_entry i p) j = pm_array p j" using q Cons.prems(1) by auto
  then have f: "filter (\<lambda>j. st_inEpoch (pm_array (epoch_entry i p) j)) js = filter (\<lambda>j. st_inEpoch (pm_array p j)) js"
    by (intro filter_cong) auto
  have A: "(\<lambda>j. if j \<in> set js then clear_epoch (pm_array (epoch_entry i p) j) else pm_array (epoch_entry i p) j) =
      (\<lambda>j. if j \<in> set (i # js) then clear_epoch (pm_array p j) else pm_array p j)"
    using q Cons.prems(1) by (auto simp: fun_eq_iff)
  obtain ms' where "fold epoch_entry js (epoch_entry i p) = (epoch_entry i p)\<lparr>
      pm_array := (\<lambda>j. if j \<in> set js then clear_epoch (pm_array (epoch_entry i p) j) else pm_array (epoch_entry i p) j),
      pm_epoch_durability_reg := pm_epoch_durability_reg (epoch_entry i p) +
        length (filter (\<lambda>j. st_inEpoch (pm_array (epoch_entry i p) j)) js), pm_out := pm_out (epoch_entry i p) @ ms'\<rparr>"
    using Cons.IH [of "epoch_entry i p"] Cons.prems \<open>\<forall>j \<in> set js. pm_array (epoch_entry i p) j = pm_array p j\<close> by auto
  then show ?case unfolding f A by (intro exI [of _ "ms @ ms'"]) (simp add: q)
qed

definition used_range :: "pmem_ops \<Rightarrow> nat \<Rightarrow> nat list" where
  "used_range p s = [sn_start_index (pm_snippet p s) ..< sn_index (pm_snippet p s)]"

lemma used_ranges:
  assumes "array_ok p" "s \<le> pm_snippet_index p"
  shows "concat (map (used_range p) [0 ..< Suc s]) = [0 ..< sn_index (pm_snippet p s)]"
  using assms(2)
proof (induction s)
  case 0
  then show ?case using assms(1) by (simp add: array_ok_def used_range_def)
next
  case (Suc s)
  have "sn_start_index (pm_snippet p (Suc s)) = sn_index (pm_snippet p s)" "sn_index (pm_snippet p s) \<le> sn_index (pm_snippet p (Suc s))"
    using assms(1) Suc.prems by (auto simp: array_ok_def snip_ok_def Let_def)
  moreover have "concat (map (used_range p) [0 ..< Suc (Suc s)]) = [0 ..< sn_index (pm_snippet p s)] @ used_range p (Suc s)"
    using Suc by simp
  ultimately show ?case
    using upt_add_eq_append [of 0 "sn_index (pm_snippet p s)" "sn_index (pm_snippet p (Suc s)) - sn_index (pm_snippet p s)"]
    by (simp add: used_range_def [of p "Suc s"] del: upt_Suc)
qed

lemma epoch_entry_snippet [simp]: "pm_snippet (epoch_entry i p) = pm_snippet p"
  by (simp add: epoch_entry_def set_entry_def report_epoch_def log_out_def Let_def)

lemma fold_epoch_snippet [simp]: "pm_snippet (fold epoch_entry js p) = pm_snippet p"
  by (induction js arbitrary: p) simp_all

lemma epoch_snippets_fold: "fold epoch_snippet ss p = fold epoch_entry (concat (map (used_range p) ss)) p"
proof (induction ss arbitrary: p)
  case Nil
  then show ?case by simp
next
  case (Cons s ss)
  have "used_range (epoch_snippet s p) = used_range p" by (simp add: fun_eq_iff used_range_def epoch_snippet_def)
  then show ?case using Cons [of "epoch_snippet s p"] by (simp add: epoch_snippet_def used_range_def [of p s])
qed

text \<open>The stores of the epoch among the entries.\<close>

definition in_epoch :: "pmem_st list \<Rightarrow> nat" where
  "in_epoch es = length (filter st_inEpoch es)"

lemma in_epoch_append [simp]: "in_epoch (xs @ ys) = in_epoch xs + in_epoch ys" "in_epoch [] = 0"
  by (simp_all add: in_epoch_def)

lemma prefix_in_epoch:
  "in_epoch (prefix_out p m) = length (filter (\<lambda>i. st_inEpoch (pm_array p i)) (concat (map (used_range p) [0 ..< m])))"
proof (induction m)
  case 0
  then show ?case by (simp add: prefix_out_def)
next
  case (Suc m)
  have "in_epoch (snip_out p m) = length (filter (\<lambda>i. st_inEpoch (pm_array p i)) (used_range p m))"
    by (simp add: in_epoch_def snip_out_def used_range_def filter_map comp_def mark_clear)
  then show ?case using Suc by (simp add: prefix_out_def)
qed

lemma epoch_array_ok:
  assumes wf: "pmem_wf p" and k: "k = pm_snippet_index p"
  shows "\<exists>p'. fold epoch_snippet [0 ..< Suc k] p = p' \<and> pmem_wf p' \<and> out_entries p' = map clear_epoch (prefix_out p (Suc k)) @ elems (pm_stores p) \<and>
    pm_epoch_durability_reg p' = pm_epoch_durability_reg p + in_epoch (prefix_out p (Suc k)) \<and>
    pm_epoch p' = pm_epoch p \<and> pm_epoch_fence p' = pm_epoch_fence p \<and> pm_redundant_fence p' = pm_redundant_fence p \<and> pm_opts p' = pm_opts p"
proof -
  let ?N = "sn_index (current p)"
  have ok: "array_ok p" using wf by (simp add: pmem_wf_def)
  have js: "concat (map (used_range p) [0 ..< Suc k]) = [0 ..< ?N]" using used_ranges [OF ok, of k] k by simp
  have un: "(\<Union>s \<in> {0 ..< Suc k}. set (used_range p s)) = {0 ..< ?N}" using arg_cong [OF js, of set] by (simp del: upt_Suc)
  have in_N: "set (used_range p s) \<subseteq> {0 ..< ?N}" if "s \<le> k" for s
    unfolding un [symmetric] using that by (intro UN_upper) simp
  have nodel: "\<not> st_is_delete (pm_array p i)" if "i \<in> {0 ..< ?N}" for i
  proof -
    have "i \<in> (\<Union>s \<in> {0 ..< Suc k}. set (used_range p s))" using that by (simp only: un)
    then obtain s where "s \<le> k" "i \<in> set (used_range p s)" by (auto simp: less_Suc_eq_le)
    then show ?thesis using ok k by (auto simp: array_ok_def snip_ok_def Let_def used_range_def entry_ok_def)
  qed
  obtain ms where p': "fold epoch_entry [0 ..< ?N] p = p\<lparr>pm_array := (\<lambda>i. if i \<in> set [0 ..< ?N] then clear_epoch (pm_array p i) else pm_array p i),
      pm_epoch_durability_reg := pm_epoch_durability_reg p + length (filter (\<lambda>i. st_inEpoch (pm_array p i)) [0 ..< ?N]),
      pm_out := pm_out p @ ms\<rparr>"
    using epoch_entries_ok [of "[0 ..< ?N]" p] nodel by auto
  define q where "q = fold epoch_entry [0 ..< ?N] p"
  have sn: "snip_out q s = map clear_epoch (snip_out p s)" if "s \<le> k" for s
    using in_N [OF that] by (auto simp: q_def p' snip_out_def used_range_def mark_clear subset_iff)
  have "snip_ok q s = snip_ok p s" if "s \<le> k" for s
    using in_N [OF that] by (auto simp: q_def p' snip_ok_def used_range_def Let_def subset_iff)
  then have wfq: "pmem_wf q" using wf k by (auto simp: pmem_wf_def array_ok_def tree_ok_def q_def p')
  have "map (snip_out q) [0 ..< Suc k] = map (map clear_epoch \<circ> snip_out p) [0 ..< Suc k]"
    using sn by (intro map_cong) (auto simp: less_Suc_eq_le)
  then have "prefix_out q (Suc k) = map clear_epoch (prefix_out p (Suc k))"
    unfolding prefix_out_def map_concat map_map by (rule arg_cong)
  then have "out_entries q = map clear_epoch (prefix_out p (Suc k)) @ elems (pm_stores p)"
    using k by (simp add: out_entries_prefix q_def p')
  moreover have "fold epoch_snippet [0 ..< Suc k] p = q" unfolding q_def epoch_snippets_fold js by (rule refl)
  moreover have "pm_epoch_durability_reg q = pm_epoch_durability_reg p + in_epoch (prefix_out p (Suc k))"
    unfolding prefix_in_epoch js by (simp add: q_def p')
  ultimately show ?thesis using wfq by (simp add: q_def p')
qed

section \<open>The tree\<close>

lemma epoch_tree_ok:
  assumes "tree_ok p" "elems (pm_stores p) = map clear_epoch ys @ xs"
  shows "\<exists>p' T ms. foldM epoch_tree_entry xs p = Inr p' \<and>
    p' = p\<lparr>pm_stores := T, pm_epoch_durability_reg := pm_epoch_durability_reg p + in_epoch xs, pm_out := pm_out p @ ms\<rparr> \<and>
    tree_ok p' \<and> elems T = map clear_epoch (ys @ xs)"
  using assms
proof (induction xs arbitrary: p ys)
  case Nil
  then show ?case by (intro exI [of _ p] exI [of _ "pm_stores p"] exI [of _ "[]"]) simp
next
  case (Cons e xs)
  have ix: "index_set (pm_stores p)" using Cons.prems(1) by (simp add: tree_ok_def)
  note w = index_set_write [OF ix Cons.prems(2), of "clear_epoch e"]
  obtain T ms where q: "epoch_tree_entry e p = Inr (p\<lparr>pm_stores := T,
      pm_epoch_durability_reg := pm_epoch_durability_reg p + of_bool (st_inEpoch e), pm_out := pm_out p @ ms\<rparr>)"
    "index_set T" "elems T = map clear_epoch (ys @ [e]) @ xs"
  proof (cases "st_inEpoch e")
    case True
    obtain ms where "report_epoch e p = p\<lparr>pm_epoch_durability_reg := Suc (pm_epoch_durability_reg p), pm_out := pm_out p @ ms\<rparr>"
      using report_epoch_def' by blast
    then show ?thesis
      using that [where T = "os_write e (clear_epoch e) (pm_stores p)" and ms = ms] True w
      by (simp add: epoch_tree_entry_def clear_epoch_def [of e] del: elems_write)
  next
    case False
    then show ?thesis using that [where T = "pm_stores p" and ms = "[]"] ix Cons.prems(2) by (simp add: epoch_tree_entry_def clear_epoch_id)
  qed
  let ?q = "p\<lparr>pm_stores := T, pm_epoch_durability_reg := pm_epoch_durability_reg p + of_bool (st_inEpoch e), pm_out := pm_out p @ ms\<rparr>"
  have tq: "tree_ok ?q" using Cons.prems q(2,3) by (auto simp: tree_ok_def)
  have eq: "elems (pm_stores ?q) = map clear_epoch (ys @ [e]) @ xs" using q(3) by simp
  obtain p' T' ms' where "foldM epoch_tree_entry xs ?q = Inr p'"
    "p' = ?q\<lparr>pm_stores := T', pm_epoch_durability_reg := pm_epoch_durability_reg ?q + in_epoch xs, pm_out := pm_out ?q @ ms'\<rparr>"
    "tree_ok p'" "elems T' = map clear_epoch ((ys @ [e]) @ xs)"
    using Cons.IH [OF tq eq] by blast
  then show ?case
    using q(1) by (intro exI [of _ p'] exI [of _ T'] exI [of _ "ms @ ms'"]) (simp add: in_epoch_def)
qed

section \<open>The end of an epoch\<close>

lemma epoch_end_ok:
  assumes wf: "pmem_wf p" and small: "length (out_entries p) < OSET_ITER_MAX" and ep: "pm_epoch p"
  shows "\<exists>p'. epoch_end txid t p = Inr p' \<and> pmem_wf p' \<and> out_entries p' = map clear_epoch (out_entries p) \<and>
    pm_epoch_durability_reg p' = pm_epoch_durability_reg p + in_epoch (out_entries p) \<and>
    pm_epoch p' = is_nest_trans txid t \<and> pm_epoch_fence p' = 0 \<and> pm_redundant_fence p' = pm_redundant_fence p"
proof -
  let ?p1 = "p\<lparr>pm_epoch := is_nest_trans txid t, pm_epoch_fence := 0\<rparr>" and ?k = "pm_snippet_index p"
  have wf1: "pmem_wf ?p1" "prefix_out ?p1 = prefix_out p" "tree_ok ?p1" "array_ok ?p1"
    using wf wf_cong [of ?p1 p] by (simp_all add: pmem_wf_def)
  have "length (elems (pm_stores p)) < OSET_ITER_MAX" using small out_count(1) [OF wf] by simp
  then have it: "os_iter (pm_stores ?p1) = Inr (elems (pm_stores p))"
    using os_iter_correct [of cmp_pmem_own_st "\<lambda>x. x" "\<lambda>x. True" "pm_stores p"] wf by (simp add: pmem_wf_def tree_ok_def)
  obtain p2 T ms where p2: "foldM epoch_tree_entry (elems (pm_stores p)) ?p1 = Inr p2"
    "p2 = ?p1\<lparr>pm_stores := T, pm_epoch_durability_reg := pm_epoch_durability_reg p + in_epoch (elems (pm_stores p)), pm_out := pm_out p @ ms\<rparr>"
    "tree_ok p2" "elems T = map clear_epoch (elems (pm_stores p))"
    using epoch_tree_ok [OF wf1(3), of "[]" "elems (pm_stores p)"] by auto
  have so: "snip_out p2 = snip_out p" by (simp add: p2(2) snip_out_def fun_eq_iff)
  have pre: "prefix_out p2 = prefix_out p" by (simp add: prefix_out_def fun_eq_iff so)
  have "array_ok p2 = array_ok p" by (simp add: p2(2) array_ok_def snip_ok_def)
  then have wf2: "pmem_wf p2" using wf p2(3) by (simp add: pmem_wf_def p2(2))
  obtain p3 where p3: "fold epoch_snippet [0 ..< Suc ?k] p2 = p3" "pmem_wf p3"
    "out_entries p3 = map clear_epoch (prefix_out p2 (Suc ?k)) @ elems (pm_stores p2)"
    "pm_epoch_durability_reg p3 = pm_epoch_durability_reg p2 + in_epoch (prefix_out p2 (Suc ?k))"
    "pm_epoch p3 = pm_epoch p2" "pm_epoch_fence p3 = pm_epoch_fence p2" "pm_redundant_fence p3 = pm_redundant_fence p2"
    using epoch_array_ok [OF wf2, of ?k] by (auto simp: p2(2))
  have "epoch_end txid t p = Inr p3"
    using ep it p2(1) p3(1) by (simp add: epoch_end_def Let_def p2(2) del: upt_Suc)
  then show ?thesis
    using p3(2-7) pre p2(4) by (simp add: out_entries_prefix p2(2))
qed

text \<open>Fences in an epoch: the first is expected, every other one is registered, as long as the register has room.\<close>

lemma epoch_fences_ok:
  assumes "pm_epoch p" "pm_epoch_fence p = 0" "length (pm_redundant_fence p) + n < MAX_REDUNDANT_FENCE"
  shows "\<exists>p'. foldM (\<lambda>u. mark_epoch_fence en) [0 ..< n] p = Inr p' \<and> pm_epoch p' \<and> pm_epoch_fence p' = n \<and>
    pm_redundant_fence p' = pm_redundant_fence p @ replicate (n - 1) (en_context en)"
  using assms(3)
proof (induction n)
  case 0
  then show ?case using assms(1,2) by simp
next
  case (Suc n)
  then obtain q where q: "foldM (\<lambda>u. mark_epoch_fence en) [0 ..< n] p = Inr q" "pm_epoch q" "pm_epoch_fence q = n"
    "pm_redundant_fence q = pm_redundant_fence p @ replicate (n - 1) (en_context en)"
    by auto
  have r: "replicate n x = replicate (n - 1) x @ [x]" if "0 < n" for x :: exe_context
    using that by (cases n) (simp_all add: replicate_append_same)
  have "foldM (\<lambda>u. mark_epoch_fence en) [0 ..< Suc n] p = mark_epoch_fence en q"
    using q(1) by (simp add: foldM_append) (simp add: rbind_def split: sum.split)
  moreover have "\<exists>p'. mark_epoch_fence en q = Inr p' \<and> pm_epoch p' \<and> pm_epoch_fence p' = Suc n \<and>
      pm_redundant_fence p' = pm_redundant_fence p @ replicate n (en_context en)"
    using q(2-4) Suc.prems r by (cases n) (auto simp: mark_epoch_fence_def Let_def)
  ultimately show ?case by (simp del: upt_Suc)
qed

end
