(* ===== verification/PMC_Option_Laws.thy ===== *)
theory PMC_Option_Laws
  imports PMC_Persist
begin

text \<open>
  The command line: a number written in decimal is read back by \<open>VG_(strtoll10)\<close>, every option is found by
  its own name, and values that are not acceptable end the tool.
\<close>

section \<open>Decimal numbers\<close>

definition digit :: "nat \<Rightarrow> char" where
  "digit d = ''0123456789'' ! d"

fun decimal :: "nat \<Rightarrow> string" where
  "decimal n = (if n < 10 then [digit n] else decimal (n div 10) @ [digit (n mod 10)])"

declare decimal.simps [simp del]

lemma ten_cases: "d < 10 \<Longrightarrow> d \<in> {0, 1, 2, 3, 4, 5, 6, 7, 8, 9 :: nat}"
  by auto

lemma digit_ok:
  assumes "d < 10"
  shows "is_digit (digit d)" "of_char (digit d) - 48 = (of_nat d :: uword)" "\<not> is_space (digit d)"
    "digit d \<noteq> CHR ''-''" "digit d \<noteq> CHR ''+''"
  using ten_cases [OF assms] by (auto simp: digit_def is_digit_def is_space_def)

lemma decimal_digits: "decimal n \<noteq> [] \<and> (\<forall>c \<in> set (decimal n). is_digit c \<and> \<not> is_space c \<and> c \<noteq> CHR ''-'' \<and> c \<noteq> CHR ''+'')"
proof (induction n rule: decimal.induct)
  case (1 n)
  then show ?case using digit_ok by (subst (1 2) decimal.simps) auto
qed

lemma digits_value_snoc: "digits_value (xs @ [c]) = 10 * digits_value xs + (of_char c - 48)"
  by (simp add: digits_value_def)

lemma digits_value_decimal: "digits_value (decimal n) = of_nat n"
proof (induction n rule: decimal.induct)
  case (1 n)
  show ?case
  proof (cases "n < 10")
    case True
    then show ?thesis using digit_ok(2) [OF True] by (subst decimal.simps) (simp add: digits_value_def)
  next
    case False
    have "(of_nat n :: uword) = 10 * of_nat (n div 10) + of_nat (n mod 10)"
      by (metis mult_div_mod_eq of_nat_add of_nat_mult of_nat_numeral)
    then show ?thesis
      using False 1 digit_ok(2) [of "n mod 10"] by (subst decimal.simps) (simp add: digits_value_snoc)
  qed
qed

lemma strtoll10_decimal: "strtoll10 (decimal n) = (of_nat n, [])"
proof -
  have d: "decimal n \<noteq> []" "\<And>c. c \<in> set (decimal n) \<Longrightarrow> is_digit c \<and> \<not> is_space c \<and> c \<noteq> CHR ''-'' \<and> c \<noteq> CHR ''+''"
    using decimal_digits by blast+
  then obtain c cs where cs: "decimal n = c # cs" by (cases "decimal n") auto
  have w: "dropWhile is_space (decimal n) = decimal n" "takeWhile is_digit (decimal n) = decimal n" "dropWhile is_digit (decimal n) = []"
    using d(2) cs by auto
  have "hd (decimal n) \<noteq> CHR ''-''" "hd (decimal n) \<noteq> CHR ''+''" using d by simp_all
  then show ?thesis using d(1) by (simp add: strtoll10_def Let_def w digits_value_decimal)
qed

lemma bint_value_decimal:
  assumes "n < 2 ^ 32" "unat l \<le> n" "w = 32 \<or> w = 64"
  shows "bint_value w (decimal n) l = Inr (of_nat n)"
proof -
  have u: "unat (of_nat n :: uword) = n" using assms(1) by (simp add: unat_of_nat)
  have "take_bit w (of_nat n :: uword) = of_nat n"
  proof -
    have "take_bit w n = n" using assms(1,3) by (auto simp: take_bit_nat_eq_self_iff)
    then show ?thesis by (metis take_bit_of_nat)
  qed
  moreover have "\<not> of_nat n < l" using assms(2) u by (simp add: word_less_nat_alt)
  moreover have "\<not> UINT_MAX < of_nat n" using assms(1) u by (simp add: word_less_nat_alt UINT_MAX_def)
  ultimately show ?thesis by (simp add: bint_value_def strtoll10_decimal Let_def)
qed

section \<open>Options\<close>

lemma clo_value_append: "clo_value (name @ ''='' @ v) name = Some v"
  by (simp add: clo_value_def Let_def)

lemma clo_value_other:
  assumes "CHR ''='' \<notin> set name" "CHR ''='' \<notin> set name'" "name \<noteq> name'"
  shows "clo_value (name @ ''='' @ v) name' = None"
proof (rule ccontr)
  assume "clo_value (name @ ''='' @ v) name' \<noteq> None"
  then have "take (Suc (length name')) (name @ ''='' @ v) = name' @ ''=''" by (simp add: clo_value_def Let_def split: if_splits)
  then obtain v' where eq: "name @ ''='' @ v = name' @ ''='' @ v'" by (metis append_assoc append_take_drop_id)
  have "takeWhile (\<lambda>c. c \<noteq> CHR ''='') (n @ ''='' @ x) = n" if "CHR ''='' \<notin> set n" for n x :: string
    using that by (induction n) auto
  then have "name = name'" using assms(1,2) eq by metis
  then show False using assms(3) by simp
qed

lemma find_bool_opt_named:
  assumes "(name, put) \<in> set os" "distinct (map fst os)" "\<forall>n \<in> fst ` set os. CHR ''='' \<notin> set n"
  shows "find_bool_opt (name @ ''='' @ v) os opts = rbind (bool_value v) (\<lambda>b. Inr (Some (put b opts)))"
  using assms
proof (induction os)
  case Nil
  then show ?case by simp
next
  case (Cons o1 os)
  obtain name1 put1 where o1: "o1 = (name1, put1)" by (cases o1)
  show ?case
  proof (cases "name = name1")
    case True
    then have "put = put1" using Cons.prems(1,2) o1 by force
    then show ?thesis using True o1 by (simp add: clo_value_append [simplified])
  next
    case False
    have "CHR ''='' \<notin> set name" "CHR ''='' \<notin> set name1" using Cons.prems(1,3) o1 by force+
    then have "clo_value (name @ ''='' @ v) name1 = None" using False by (rule clo_value_other)
    then show ?thesis using Cons False o1 by simp
  qed
qed

lemma find_bool_opt_none:
  assumes "CHR ''='' \<notin> set name" "\<forall>n \<in> fst ` set os. CHR ''='' \<notin> set n \<and> n \<noteq> name"
  shows "find_bool_opt (name @ ''='' @ v) os opts = Inr None"
  using assms
proof (induction os)
  case Nil
  then show ?case by simp
next
  case (Cons o1 os)
  obtain name1 put1 where o1: "o1 = (name1, put1)" by (cases o1)
  have "clo_value (name @ ''='' @ v) name1 = None" using Cons.prems o1 by (intro clo_value_other) auto
  then show ?case using Cons o1 by simp
qed

lemma bool_opts_names: "distinct (map fst bool_opts)" "\<forall>n \<in> fst ` set bool_opts. CHR ''='' \<notin> set n"
  by (simp_all add: bool_opts_def)

lemma bool_option:
  assumes "(name, put) \<in> set bool_opts"
  shows "pmc_process_cmd_line_option (name @ ''='' @ v) opts = rbind (bool_value v) (\<lambda>b. Inr (Some (put b opts)))"
  using find_bool_opt_named [OF assms bool_opts_names] by (auto simp: pmc_process_cmd_line_option_def rbind_def split: sum.split)

lemma int_option:
  assumes "(name, w, l, put) \<in> set int_opts" "unat l \<le> n" "n < 2 ^ 32"
  shows "pmc_process_cmd_line_option (name @ ''='' @ decimal n) opts = Inr (Some (put (of_nat n) opts))"
proof -
  have "find_bool_opt (name @ ''='' @ decimal n) bool_opts opts = Inr None"
    using assms(1) by (intro find_bool_opt_none) (auto simp: int_opts_def bool_opts_def)
  moreover have "bint_value w (decimal n) l = Inr (of_nat n)"
    using assms by (intro bint_value_decimal) (auto simp: int_opts_def)
  moreover have "find_int_opt (name @ ''='' @ decimal n) int_opts opts =
      rbind (bint_value w (decimal n) l) (\<lambda>m. Inr (Some (put m opts)))"
    using assms(1) clo_value_append [of name "decimal n"]
      clo_value_other [of "''--log-stores-stacktraces-depth''" "''--indiff''" "decimal n"]
    by (auto simp: int_opts_def)
  ultimately show ?thesis by (simp add: pmc_process_cmd_line_option_def)
qed

end
