(* ===== verification/PMC_Order_Laws.thy ===== *)
theory PMC_Order_Laws
  imports PMC_Persist
begin

text \<open>
  The order checks: \<open>ORDER_GUARANTEE\<close> requests add pairs of ranges whose persistence has to be ordered,
  \<open>check_pmem_order\<close> counts the pairs whose first range is not persistent before the second is written.  The
  sets of time and order records are ordered by a running index.
\<close>

section \<open>Sets ordered by an index\<close>

interpretation no: oset_order "cmp_index key" key ok "\<lambda>k. True"
  for key :: "'e \<Rightarrow> nat" and ok
  by unfold_locales (auto simp: cmp_index_def split: if_splits)

abbreviation indexed :: "('e \<Rightarrow> nat) \<Rightarrow> (nat, 'e) oset \<Rightarrow> bool" where
  "indexed key \<equiv> oset_inv (cmp_index key) key (\<lambda>x. True)"

lemma indexed_insert_last:
  assumes "indexed key s" "\<forall>x \<in> set (elems s). key x < key e"
  shows "\<exists>s'. OSetGen_Insert e s = Inr s' \<and> indexed key s' \<and> elems s' = elems s @ [e]"
proof -
  have "\<forall>y \<in> set (elems s). cmp_index key (key e) y \<noteq> 0" using assms(2) by (auto simp: cmp_index_def)
  moreover have "ins_sorted (cmp_index key) key e (elems s) = elems s @ [e]"
    using assms(2) by (auto simp: ins_sorted_def cmp_index_def filter_id_conv filter_empty_conv dest: less_asym)
  ultimately show ?thesis using no.Insert_correct [OF assms(1), of e] by auto
qed

lemma indexed_lookup:
  assumes "indexed key s" "k \<in> key ` set (elems s)"
  shows "\<exists>e \<in> set (elems s). OSetGen_Lookup s k = Some e \<and> key e = k"
  using assms no.Lookup_elem [OF assms(1)] by auto

section \<open>Pairs of ranges\<close>

definition rec_of :: "time_set \<Rightarrow> nat \<Rightarrow> pmem_st_order" where
  "rec_of recs k = the (OSetGen_Lookup recs k)"

definition orders_in :: "time_set \<Rightarrow> order_set \<Rightarrow> (pmem_st_order \<times> pmem_st_order) list" where
  "orders_in recs os = map (\<lambda>r. (rec_of recs (or_a r), rec_of recs (or_b r))) (elems os)"

definition orders_ok :: "nat \<Rightarrow> time_set \<Rightarrow> order_set \<Rightarrow> bool" where
  "orders_ok k recs os \<longleftrightarrow> indexed od_index recs \<and> indexed or_index os \<and>
     (\<forall>r \<in> set (elems recs). od_index r < k) \<and>
     (\<forall>r \<in> set (elems os). or_index r < k \<and> {or_a r, or_b r} \<subseteq> od_index ` set (elems recs))"

definition range_of :: "pmem_st_order \<Rightarrow> uword \<times> uword" where
  "range_of r = (od_addr r, od_size r)"

definition times_of :: "pmem_st_order \<Rightarrow> uword \<times> uword" where
  "times_of r = (od_timestamp_begin r, od_timestamp_end r)"

definition violated :: "pmem_st_order \<times> pmem_st_order \<Rightarrow> bool" where
  "violated ab \<longleftrightarrow> \<not> od_timestamp_end (fst ab) < od_timestamp_begin (snd ab)"

lemma rec_of_elem: "indexed od_index recs \<Longrightarrow> e \<in> set (elems recs) \<Longrightarrow> rec_of recs (od_index e) = e"
  using no.Lookup_elem [of od_index "\<lambda>x. True" recs e] by (simp add: rec_of_def)

text \<open>The message about a pair names both ranges, with the contexts of their last stores where contexts are kept.\<close>

definition order_report :: "pmem_ops \<Rightarrow> pmem_st_order \<times> pmem_st_order \<Rightarrow> out list" where
  "order_report p = (\<lambda>(a, b). [Umsg ''Not order guarantee: '' []] @ (if show_traces p then [PpExe (od_context a), PpExe (od_context b)] else []) @
     [Umsg ''First Address: 0x%lx First size: %lu Second Address: 0x%lx Second size: %lu'' [od_addr a, od_size a, od_addr b, od_size b]])"

definition order_reports :: "pmem_ops \<Rightarrow> (pmem_st_order \<times> pmem_st_order) list \<Rightarrow> out list" where
  "order_reports p ps = concat (map (order_report p) (filter violated ps))"

lemma check_order_record_ok:
  assumes "orders_ok k recs os" "r \<in> set (elems os)"
  shows "check_order_record recs r p = Inr (
    p\<lparr>pm_order_guarantee_reg := pm_order_guarantee_reg p + length (filter violated [(rec_of recs (or_a r), rec_of recs (or_b r))]),
      pm_out := pm_out p @ order_reports p [(rec_of recs (or_a r), rec_of recs (or_b r))]\<rparr>)"
proof -
  obtain a b where "OSetGen_Lookup recs (or_a r) = Some a" "OSetGen_Lookup recs (or_b r) = Some b"
    using assms indexed_lookup [of od_index recs] by (fastforce simp: orders_ok_def)
  then show ?thesis by (simp add: check_order_record_def rec_of_def violated_def log_out_def order_reports_def order_report_def)
qed

lemma check_records_ok:
  assumes "orders_ok k recs os" "set rs \<subseteq> set (elems os)"
  shows "foldM (check_order_record recs) rs p = Inr (
    p\<lparr>pm_order_guarantee_reg := pm_order_guarantee_reg p + length (filter violated (map (\<lambda>r. (rec_of recs (or_a r), rec_of recs (or_b r))) rs)),
      pm_out := pm_out p @ order_reports p (map (\<lambda>r. (rec_of recs (or_a r), rec_of recs (or_b r))) rs)\<rparr>)"
  using assms(2)
proof (induction rs arbitrary: p)
  case (Cons r rs)
  have same: "order_reports (p\<lparr>pm_order_guarantee_reg := n, pm_out := ms\<rparr>) ps = order_reports p ps" for n ms ps
    by (simp add: order_reports_def order_report_def)
  show ?case using Cons check_order_record_ok [OF assms(1), of r p] by (simp add: same) (simp add: order_reports_def)
qed (simp add: order_reports_def)

lemma check_pmem_order_ok:
  assumes "pm_time_records p = Some recs" "pm_order_records p = Some os" "orders_ok k recs os" "length (elems os) < OSET_ITER_MAX"
  shows "check_pmem_order p = Inr (
    p\<lparr>pm_order_guarantee_reg := pm_order_guarantee_reg p + length (filter violated (orders_in recs os)),
      pm_out := pm_out p @ order_reports p (orders_in recs os)\<rparr>)"
proof -
  have "os_iter os = Inr (elems os)" using assms(3,4) by (intro os_iter_correct [of "cmp_index or_index"]) (auto simp: orders_ok_def)
  then show ?thesis
    using check_records_ok [OF assms(3) subset_refl, of p] assms(1,2) by (simp add: check_pmem_order_def orders_in_def)
qed

section \<open>Time stamps\<close>

text \<open>Stores and fences rewrite some of the records in place, keeping their indices.\<close>

lemma indexed_write:
  assumes "indexed key s" "key new = key old"
  shows "indexed key (os_write old new s)"
proof -
  have ord: "ordered (cmp_index key) key (\<lambda>x. True) (map (\<lambda>x. if key x = key old then new else x) xs)"
    if "ordered (cmp_index key) key (\<lambda>x. True) xs" for xs
    using that assms(2) by (simp add: ordered_def cmp_index_def sorted_wrt_map if_distrib [of key] split: if_splits)
      (erule sorted_wrt_mono_rel [rotated], auto)
  show ?thesis using assms(1) ord by (intro oset_inv_write) (simp_all add: oset_inv_def)
qed

lemma rewrite_records:
  fixes recs :: time_set
  assumes inv: "indexed od_index recs" and key: "\<And>r. od_index (f r) = od_index r"
  shows "\<exists>recs'. foldM (\<lambda>r s. Inr (if c r then os_write r (f r) s else s)) (elems recs) recs = Inr recs' \<and>
    indexed od_index recs' \<and> elems recs' = map (\<lambda>r. if c r then f r else r) (elems recs)"
proof -
  let ?g = "\<lambda>r. if c r then f r else r"
  have dist: "inj_on od_index (set (elems recs))" using rec_of_elem [OF inv] by (metis inj_onI)
  have gen: "\<exists>recs'. foldM (\<lambda>r s. Inr (if c r then os_write r (f r) s else s)) ys s = Inr recs' \<and> indexed od_index recs' \<and>
      elems recs' = map ?g (elems recs)"
    if "elems recs = xs @ ys" "indexed od_index s" "elems s = map ?g xs @ ys" for xs ys s
    using that
  proof (induction ys arbitrary: xs s)
    case (Cons y ys)
    let ?s = "if c y then os_write y (f y) s else s"
    have k: "os_key s = od_index" using Cons.prems(2) by (simp add: oset_inv_def)
    have other: "od_index r \<noteq> od_index y" if "r \<in> set xs \<union> set ys" for r
    proof -
      have "distinct (elems recs)" using inv no.ordered_distinct by (auto simp: oset_inv_def)
      then show ?thesis using that Cons.prems(1) dist by (auto simp: inj_on_def)
    qed
    have "indexed od_index ?s" using Cons.prems(2) by (simp add: indexed_write key)
    moreover have "elems ?s = map ?g (xs @ [y]) @ ys" using Cons.prems(3) other by (auto simp: k key map_idI)
    ultimately show ?case using Cons.IH [of "xs @ [y]" ?s] Cons.prems(1) by simp
  qed simp
  show ?thesis using gen [of "[]" "elems recs" recs] inv by simp
qed

lemma orders_rewritten:
  assumes ok: "orders_ok k recs os" and recs': "indexed od_index recs'" "elems recs' = map g (elems recs)" and key: "\<And>r. od_index (g r) = od_index r"
  shows "orders_ok k recs' os" "orders_in recs' os = map (map_prod g g) (orders_in recs os)"
proof -
  have "rec_of recs' j = g (rec_of recs j)" if j: "j \<in> od_index ` set (elems recs)" for j
  proof -
    obtain r where r: "r \<in> set (elems recs)" "j = od_index r" using j by blast
    then show ?thesis using rec_of_elem [OF recs'(1), of "g r"] rec_of_elem [of recs r] ok recs'(2) by (auto simp: orders_ok_def key)
  qed
  then show "orders_in recs' os = map (map_prod g g) (orders_in recs os)" using ok by (auto simp: orders_in_def orders_ok_def)
  show "orders_ok k recs' os" using ok recs' by (auto simp: orders_ok_def key image_image)
qed

text \<open>A store that overlaps the range of a record: the range is written now and not persistent.\<close>

definition rewritten :: "pmem_ops \<Rightarrow> pmem_st \<Rightarrow> pmem_st_order \<Rightarrow> pmem_st_order" where
  "rewritten p store r =
     (if bytes (mk_region (st_addr store) (st_size store)) \<inter> bytes (mk_region (od_addr r) (od_size r)) = {} then r
      else r\<lparr>od_timestamp_begin := pm_global_time_stamp p, od_timestamp_end := - 1,
             od_context := (if show_traces p then st_context store else od_context r)\<rparr>)"

lemma order_overlap:
  assumes "rkey (mk_region (st_addr store) (st_size store))" "rkey (mk_region (od_addr r) (od_size r))"
  shows "cmp_pmem_st_order (mk_order (st_addr store) (st_size store)) r = 0 \<longleftrightarrow>
    bytes (mk_region (st_addr store) (st_size store)) \<inter> bytes (mk_region (od_addr r) (od_size r)) \<noteq> {}"
proof -
  have "cmp_pmem_st_order (mk_order (st_addr store) (st_size store)) r =
      cmp_pmem_st (mk_region (st_addr store) (st_size store)) (mk_region (od_addr r) (od_size r))"
    by (simp add: cmp_pmem_st_order_def cmp_pmem_st_def mk_order_def mk_region_def)
  then show ?thesis using cmp_pmem_st_eq_0 [OF assms] by simp
qed

lemma restart_records_ok:
  assumes on: "op_order_guarantee (pm_opts p)" and recs: "pm_time_records p = Some recs" and ok: "orders_ok k recs os"
    and few: "length (elems recs) < OSET_ITER_MAX" and st: "rkey (mk_region (st_addr store) (st_size store))"
    and rs: "\<forall>r \<in> set (elems recs). rkey (mk_region (od_addr r) (od_size r))"
  shows "\<exists>recs'. restart_records store p = Inr (p\<lparr>pm_time_records := Some recs'\<rparr>) \<and> orders_ok k recs' os \<and>
    elems recs' = map (rewritten p store) (elems recs) \<and>
    orders_in recs' os = map (map_prod (rewritten p store) (rewritten p store)) (orders_in recs os)"
proof -
  have inv: "indexed od_index recs" using ok by (simp add: orders_ok_def)
  have it: "os_iter recs = Inr (elems recs)" using inv few by (rule os_iter_correct)
  let ?c = "\<lambda>r. cmp_pmem_st_order (mk_order (st_addr store) (st_size store)) r = 0"
  let ?f = "\<lambda>r. r\<lparr>od_timestamp_begin := pm_global_time_stamp p, od_timestamp_end := - 1,
      od_context := (if show_traces p then st_context store else od_context r)\<rparr>"
  obtain recs' where r: "foldM (\<lambda>r s. Inr (if ?c r then os_write r (?f r) s else s)) (elems recs) recs = Inr recs'"
    "indexed od_index recs'" "elems recs' = map (\<lambda>r. if ?c r then ?f r else r) (elems recs)"
    using rewrite_records [OF inv, of ?f ?c] by auto
  have e: "elems recs' = map (rewritten p store) (elems recs)"
    using r(3) order_overlap [OF st] rs by (auto simp: rewritten_def)
  have "foldM (restart_record store p) (elems recs) recs = Inr recs'" using r(1) by (simp add: restart_record_def [abs_def])
  then have "restart_records store p = Inr (p\<lparr>pm_time_records := Some recs'\<rparr>)" using on recs it by (simp add: restart_records_def)
  then show ?thesis using orders_rewritten [OF ok r(2) e] e by (auto simp: rewritten_def)
qed

section \<open>Requests\<close>

lemma order_guarantee_ok:
  assumes "pm_time_records p = Some recs" "pm_order_records p = Some os" and ok: "orders_ok (pm_time_records_index p) recs os"
  shows "\<exists>p' recs' os'. order_guarantee a1 n1 a2 n2 p = Inr p' \<and>
    p' = p\<lparr>pm_time_records := Some recs', pm_order_records := Some os', pm_time_records_index := pm_time_records_index p + 3\<rparr> \<and>
    orders_ok (pm_time_records_index p') recs' os' \<and>
    elems recs' = elems recs @ [(mk_order a1 n1)\<lparr>od_index := pm_time_records_index p\<rparr>, (mk_order a2 n2)\<lparr>od_index := Suc (pm_time_records_index p)\<rparr>] \<and>
    orders_in recs' os' = orders_in recs os @
      [((mk_order a1 n1)\<lparr>od_index := pm_time_records_index p\<rparr>, (mk_order a2 n2)\<lparr>od_index := Suc (pm_time_records_index p)\<rparr>)]"
proof -
  let ?k = "pm_time_records_index p"
  define r1 where "r1 = (mk_order a1 n1)\<lparr>od_index := ?k\<rparr>"
  define r2 where "r2 = (mk_order a2 n2)\<lparr>od_index := Suc ?k\<rparr>"
  define o1 where "o1 = \<lparr>or_index = Suc (Suc ?k), or_a = ?k, or_b = Suc ?k\<rparr>"
  have idx: "od_index r1 = ?k" "od_index r2 = Suc ?k" by (simp_all add: r1_def r2_def)
  have inv: "indexed od_index recs" "\<forall>r \<in> set (elems recs). od_index r < ?k" "indexed or_index os"
    "\<forall>r \<in> set (elems os). or_index r < ?k" using ok by (auto simp: orders_ok_def)
  obtain s1 where s1: "OSetGen_Insert r1 recs = Inr s1" "indexed od_index s1" "elems s1 = elems recs @ [r1]"
    using indexed_insert_last [OF inv(1), of r1] inv(2) idx by auto
  obtain s2 where s2: "OSetGen_Insert r2 s1 = Inr s2" "indexed od_index s2" "elems s2 = elems recs @ [r1, r2]"
    using indexed_insert_last [OF s1(2), of r2] s1(3) inv(2) idx by (auto simp: less_SucI)
  obtain os' where os': "OSetGen_Insert o1 os = Inr os'" "indexed or_index os'" "elems os' = elems os @ [o1]"
    using indexed_insert_last [OF inv(3), of o1] inv(4) by (auto simp: o1_def less_SucI)
  have run: "order_guarantee a1 n1 a2 n2 p = Inr (p\<lparr>pm_time_records := Some s2, pm_order_records := Some os',
      pm_time_records_index := ?k + 3\<rparr>)"
    using assms(1,2) s1(1) s2(1) os'(1) by (simp add: order_guarantee_def Let_def r1_def r2_def o1_def numeral_3_eq_3)
  have same: "rec_of s2 j = rec_of recs j" if "j \<in> od_index ` set (elems recs)" for j
    using that rec_of_elem [OF s2(2)] rec_of_elem [OF inv(1)] s2(3) by auto
  have "orders_in s2 os' = orders_in recs os @ [(r1, r2)]"
    using same ok rec_of_elem [OF s2(2), of r1] rec_of_elem [OF s2(2), of r2] s2(3) idx os'(3)
    by (auto simp: orders_in_def o1_def orders_ok_def)
  moreover have "orders_ok (?k + 3) s2 os'"
    using ok s2(2,3) os'(2,3) idx by (auto simp: orders_ok_def o1_def)
  ultimately show ?thesis using run s2(3) by (auto simp: r1_def r2_def)
qed

end
