(* ===== verification/PMC_Examples.thy ===== *)
theory PMC_Examples
  imports PMC_Exit_Laws PMC_Tx_Thread_Laws PMC_Epoch_Laws PMC_Option_Laws PMC_Order_Laws
begin

text \<open>
  Concrete states at which the properties are applied: the environment \<open>host\<close>, the tool right after its
  start, and \<open>one_store\<close>, in which a page is mapped and one store is outstanding.
\<close>

definition host :: env where
  "host = \<lparr>en_tid = 1, en_context = Some [4198400], en_describe = (\<lambda>a. [''main'']), en_xml = False,
     en_cstring = (\<lambda>a. ''''), en_readlink = (\<lambda>fd. None), en_cpuinfo_opened = False,
     en_cpuinfo_reads = [], en_cpuinfo_stack = (\<lambda>i. CHR 0x00), en_keyword_id = (\<lambda>ks w. - 1),
     en_fresh_stores = (\<lambda>i. zero_st), en_fresh_snippets = empty_snippet\<rparr>"

lemma host_line [simp]: "en_cache_line_size host = 64"
  by (simp add: en_cache_line_size_def read_cache_line_size_def host_def)

definition started_tool :: tool where
  "started_tool = pmc_post_clo_init host False pmc_pre_clo_init"

lemma plain_default: "plain pmc_pre_clo_init" "n \<le> 10000 \<Longrightarrow> reg_room n pmc_pre_clo_init"
  by (simp_all add: plain_def reg_room_def pmc_pre_clo_init_def MAX_OOT_STORES_def)

lemma started_inv: "n \<le> 10000 \<Longrightarrow> tool_inv L {} n started_tool"
  unfolding started_tool_def by (intro init_tool_inv plain_default)

lemma started_empty: "out_entries (tl_pmem started_tool) = []"
  using init_pmem_wf [OF plain_default(1) refl] by (simp add: started_tool_def)

definition one_store :: tool where
  "one_store = (case rbind (foldM (map_step host) [(4096, 4096)] started_tool) (access_step host (Store 4160 8 1)) of
     Inr w \<Rightarrow> w | Inl e \<Rightarrow> started_tool)"

lemma rok_page [simp]: "rok (mk_region 4096 4096)"
  by (simp add: rok_def)

lemma one_store_inv:
  "tool_inv 64 {4096..<8192} 9999 one_store \<and>
   tool_view one_store = \<lparr>du_dirty = {4160..<4168}, du_flushed = {}\<rparr>"
proof -
  have "tool_inv 64 {} (Suc 9999) started_tool" by (rule started_inv) simp
  then obtain w where w: "foldM (map_step host) [(4096, 4096)] started_tool = Inr w" "tool_inv 64 {4096..<8192} (Suc 9999) w"
    "out_entries (tl_pmem w) = []"
    using map_steps_inv [of 64 "{}" "Suc 9999" started_tool "[(4096, 4096)]" host] started_empty by (auto simp: all_mapped_def)
  obtain w' where w': "access_step host (Store 4160 8 1) w = Inr w'" "tool_inv 64 {4096..<8192} 9999 w'"
    "tool_view w' = fold act (access_acts {4096..<8192} (Store 4160 8 1)) (tool_view w)"
    using store_step [OF w(2), of 4160 8 1 host] by (auto simp: fits_def in_line_def)
  have "tool_view w = all_durable" using w(3) by (simp add: tool_view_def entries_view_def in_state_def all_durable_def)
  then show ?thesis using w(1) w' by (simp add: one_store_def all_durable_def)
qed

text \<open>\<open>open_tx\<close>: thread 1 has started transaction 5.\<close>

definition open_tx :: transaction_ops where
  "open_tx = (case register_new_tx host 5 (tl_trans started_tool) of Inr t \<Rightarrow> t | Inl e \<Rightarrow> tl_trans started_tool)"

lemma started_tx:
  "tx_wf (tl_trans started_tool)" "tx_room 1000 (tl_trans started_tool)" "txs_view (tl_trans started_tool) = Map.empty"
  "tids (tl_trans started_tool) = (\<lambda>k. {})" "dom (the_thread (tl_trans started_tool)) = {}"
  "tr_oot_stores (tl_trans started_tool) = []" "tr_cross_tx_evs (tl_trans started_tool) = []"
  "tr_redundant_logging_tx_evs (tl_trans started_tool) = []" "\<not> tr_verbose (tl_trans started_tool)"
  "elems (tr_excludes (tl_trans started_tool)) = []"
proof -
  have t: "tl_trans started_tool = init_transactions False False False False False"
    by (simp add: started_tool_def pmc_post_clo_init_def Let_def pmc_pre_clo_init_def)
  show "tx_wf (tl_trans started_tool)" "tx_room 1000 (tl_trans started_tool)"
    unfolding t using init_tx_wf [of False False False False False]
    by (simp_all add: tx_room_def OSET_ITER_MAX_def) (simp_all add: init_transactions_def)
  have l: "the_tx (tl_trans started_tool) i = None" "the_thread (tl_trans started_tool) i = None" for i
    unfolding t by (simp_all add: init_transactions_def)
  show "txs_view (tl_trans started_tool) = Map.empty" by (rule ext) (simp add: txs_view_def l)
  show "tids (tl_trans started_tool) = (\<lambda>k. {})" by (rule ext) (simp add: tids_def l)
  show "dom (the_thread (tl_trans started_tool)) = {}" by (simp add: l)
  show "tr_oot_stores (tl_trans started_tool) = []" "tr_cross_tx_evs (tl_trans started_tool) = []"
    "tr_redundant_logging_tx_evs (tl_trans started_tool) = []" "\<not> tr_verbose (tl_trans started_tool)"
    "elems (tr_excludes (tl_trans started_tool)) = []"
    unfolding t by (simp_all add: init_transactions_def)
qed

lemma tx_room_mono: "tx_room n t \<Longrightarrow> m \<le> n \<Longrightarrow> tx_room m t"
  by (fastforce simp: tx_room_def)

lemma open_tx_ok:
  "tx_wf open_tx" "tx_room 998 open_tx" "tx_rest (tl_trans started_tool) open_tx"
  "txs_view open_tx = [5 \<mapsto> (5, 1, Some [4198400], {})]" "tids open_tx = (\<lambda>k. {})(1 := {5})" "dom (the_thread open_tx) = {1}"
proof -
  have room: "tx_room (Suc (Suc 998)) (tl_trans started_tool)" using started_tx(2) by simp
  obtain t where "register_new_tx host 5 (tl_trans started_tool) = Inr t" "tx_wf t" "tx_room 998 t" "tx_rest (tl_trans started_tool) t"
    "txs_view t = [5 \<mapsto> (5, 1, Some [4198400], {})]" "tids t = (\<lambda>k. {})(1 := {5})" "dom (the_thread t) = {1}"
    using register_new_tx_ok [OF started_tx(1) room, of host 5] started_tx(3-5) by (auto simp: started_def host_def)
  then show "tx_wf open_tx" "tx_room 998 open_tx" "tx_rest (tl_trans started_tool) open_tx"
    "txs_view open_tx = [5 \<mapsto> (5, 1, Some [4198400], {})]" "tids open_tx = (\<lambda>k. {})(1 := {5})" "dom (the_thread open_tx) = {1}"
    by (simp_all add: open_tx_def)
qed

lemma open_tx_the:
  "\<exists>tx. the_tx open_tx 5 = Some tx \<and> tx_counter tx = 1 \<and> tx_context tx = Some [4198400] \<and> tx_bytes tx = {}"
proof -
  have "map_option tx_view (the_tx open_tx 5) = Some (5, 1, Some [4198400], {})"
    using open_tx_ok(4) by (auto simp: txs_view_def fun_eq_iff dest: spec [of _ 5])
  then show ?thesis by (auto simp: tx_view_def)
qed

lemma open_tx_sel:
  "tr_oot_stores open_tx = []" "tr_cross_tx_evs open_tx = []" "tr_redundant_logging_tx_evs open_tx = []"
  "\<not> tr_verbose open_tx" "elems (tr_excludes open_tx) = []"
  using open_tx_ok(3) started_tx by (simp_all add: tx_rest_def)

lemma open_tx_length: "length (elems (tr_transactions open_tx)) = 1"
proof -
  have "map_option tx_view (the_tx open_tx i) = None" if "i \<noteq> 5" for i
    using open_tx_ok(4) that by (simp add: txs_view_def fun_eq_iff)
  then have "the_tx open_tx i \<noteq> None \<longleftrightarrow> i = 5" for i using open_tx_the by (cases "i = 5") auto
  then have "dom (the_tx open_tx) = {5}" by (auto simp: dom_def)
  then show ?thesis
    using keyed_length_dom [of tx_id tx_info_ok "tr_transactions open_tx"] open_tx_ok(1) by (simp add: tx_wf_def)
qed

end
