(* ===== verification/Durability_Properties.thy ===== *)
theory Durability_Properties
  imports PMC_Examples "HOL-Library.Code_Target_Nat"
begin

text \<open>
  The properties of the tracking of stores: what a whole session reports, the refinement of the durability
  specification by each access, and the exact effect of the handlers of stores, flushes and fences in the
  default mode.
\<close>

section \<open>Sessions\<close>

text \<open>C1.  A session of the tool in the default mode: after initialisation, any number of registered mappings and
  any sequence of stores within cache lines, flushes of whole lines and fences, the tool has not failed, the
  entries it holds cover exactly the bytes whose last store is not followed by a flush and a later fence, and the
  final report counts these entries; it counts none exactly when no byte is lost.\<close>

theorem session_finds_lost_bytes:
  assumes "plain op" "reg_room (length es) op" "\<forall>(a, k) \<in> set ms. rok (mk_region a k)"
    and "0 < L" "\<forall>e \<in> set es. access_ok L e"
  shows "\<exists>w w' p'. foldM (map_step en) ms (pmc_post_clo_init en False op) = Inr w \<and> foldM (access_step en) es w = Inr w' \<and>
    set_bytes (out_entries (tl_pmem w')) = {b. lost b (concat (map (access_acts (all_mapped ms)) es))} \<and>
    print_store_stats (tl_pmem w') = Inr p' \<and> pm_not_pmem_num p' = length (out_entries (tl_pmem w')) \<and>
    (pm_not_pmem_num p' = 0 \<longleftrightarrow> (\<forall>b. \<not> lost b (concat (map (access_acts (all_mapped ms)) es))))"
  by (rule session_reports_lost [OF assms])

theorem session_finds_lost_bytes_witness:
  "\<exists>w w' p'. foldM (map_step host) [(4096, 4096)] (pmc_post_clo_init host False pmc_pre_clo_init) = Inr w \<and>
    foldM (access_step host) [Store 4160 8 1, Store 4224 8 2, Flush 4160 64, Fence] w = Inr w' \<and>
    set_bytes (out_entries (tl_pmem w')) = {4224..<4232} \<and>
    print_store_stats (tl_pmem w') = Inr p' \<and> pm_not_pmem_num p' \<noteq> 0"
proof -
  let ?es = "[Store 4160 8 1, Store 4224 8 2, Flush 4160 64, Fence]"
  have ok: "\<forall>e \<in> set ?es. access_ok 64 e"
    by (simp add: fits_def in_line_def whole_lines_def)
  have m: "all_mapped [(4096, 4096)] = {4096..<8192}" by (simp add: all_mapped_def)
  have lost: "{b. lost b (concat (map (access_acts {4096..<8192}) ?es))} = {4224..<4232}"
    by auto
  show ?thesis
    using session_finds_lost_bytes [OF plain_default(1) plain_default(2) _ _ ok, of "[(4096, 4096)]" host]
    unfolding m lost by (auto simp: set_eq_iff)
qed

text \<open>C9.  Every access refines the durability specification: from a state that meets the invariant the handler
  returns, the invariant holds with one place less in the registers, and the bytes that are dirty and flushed
  change as the specification of a store, flush or fence says.\<close>

theorem access_refines:
  assumes "0 < L" "tool_inv L M (Suc n) w" "access_ok L e"
  shows "\<exists>w'. access_step en e w = Inr w' \<and> tool_inv L M n w' \<and>
    tool_view w' = fold act (access_acts M e) (tool_view w)"
  using tracker.step_refines [of L M n w e en] assms by simp

theorem access_refines_witness:
  "\<exists>w'. access_step host (Flush 4160 64) one_store = Inr w' \<and> tool_inv 64 {4096..<8192} 9998 w' \<and>
    tool_view w' = \<lparr>du_dirty = {}, du_flushed = {4160..<4168}\<rparr>"
proof -
  have "tool_inv 64 {4096..<8192} (Suc 9998) one_store" using one_store_inv by simp
  moreover have "access_ok 64 (Flush 4160 64)" by (simp add: fits_def whole_lines_def)
  ultimately show ?thesis
    using access_refines [of 64 "{4096..<8192}" 9998 one_store "Flush 4160 64" host] one_store_inv by simp
qed

text \<open>C10.  Initialisation establishes the invariant of the stores, mappings and transactions with nothing
  outstanding, and registering mappings keeps it: the mapped bytes are the union of the mappings.\<close>

theorem init_meets_invariant:
  assumes "plain op" "reg_room n op" "\<forall>(a, k) \<in> set ms. rok (mk_region a k)"
  shows "\<exists>w. foldM (map_step en) ms (pmc_post_clo_init en False op) = Inr w \<and> tool_inv L (all_mapped ms) n w \<and>
    out_entries (tl_pmem w) = []"
  by (rule session_inv [OF assms])

theorem init_meets_invariant_witness:
  "\<exists>w. foldM (map_step host) [(4096, 4096), (8192, 64)] (pmc_post_clo_init host False pmc_pre_clo_init) = Inr w \<and>
    tool_inv 64 {4096..<8256} 10000 w \<and> out_entries (tl_pmem w) = []"
proof -
  have "all_mapped [(4096, 4096), (8192, 64)] = {4096..<8256}" by (auto simp: all_mapped_def)
  then show ?thesis
    using init_meets_invariant [OF plain_default(1) plain_default(2), of 10000 "[(4096, 4096), (8192, 64)]" host 64]
    by (simp add: rok_def)
qed

section \<open>Handlers\<close>

text \<open>C11.  \<open>do_flush\<close> on a range that covers every outstanding entry it touches: the touched dirty entries become
  flushed and nothing else changes, the entries that were flushed already are reported as redundant flushes in
  order, and a flush that touches nothing is reported as superfluous, both only with \<open>--flush-check\<close>.\<close>

theorem do_flush_exact:
  assumes "pmem_wf p" "strands_off sid p" "fi = flush_range base sze p" "rkey fi" "hi fi < 2 ^ 64 - 1"
    and "whole fi (out_entries p)" "length (out_entries p) < OSET_ITER_MAX" "room p (length (out_entries p))"
    and "op_check_flush (pm_opts p) \<longrightarrow> length (pm_superfluous_flushes p) < MAX_FLUSH_ERROR_EVENTS"
  shows "\<exists>p'. do_flush en sid base sze p = Inr p' \<and> pmem_wf p' \<and> frame2 p p' \<and>
    out_entries p' = map (flush_e fi) (out_entries p) \<and>
    pm_redundant_flushes p' = pm_redundant_flushes p @ warned p (again fi (out_entries p)) \<and>
    pm_superfluous_flushes p' = pm_superfluous_flushes p @ warned p (superfluous en fi (out_entries p))"
  by (rule do_flush_spec [OF assms])

lemma one_store_ready:
  "pmem_wf (tl_pmem one_store)" "simple_mode (tl_pmem one_store)" "strands_off 0 (tl_pmem one_store)"
  "\<not> op_force_flush_align (pm_opts (tl_pmem one_store))"
  "length (out_entries (tl_pmem one_store)) < OSET_ITER_MAX" "\<forall>e \<in> set (out_entries (tl_pmem one_store)). in_line 64 e"
  "maps_ok (tl_pmem one_store)" "mapped (tl_pmem one_store) = {4096..<8192}" "warn_room 9999 (tl_pmem one_store)"
  using one_store_inv by (simp_all add: tool_inv_def store_inv_def strands_off_def)

lemma one_store_room:
  "room (tl_pmem one_store) (length (out_entries (tl_pmem one_store)))"
  "op_check_flush (pm_opts (tl_pmem one_store)) \<longrightarrow> length (pm_superfluous_flushes (tl_pmem one_store)) < MAX_FLUSH_ERROR_EVENTS"
  using one_store_ready(9) by (auto simp: warn_room_def room_def)

lemma one_store_line:
  "flush_range 4160 64 (tl_pmem one_store) = mk_region 4160 64"
  "whole (mk_region 4160 64) (out_entries (tl_pmem one_store))"
  using one_store_ready(4,6) lines_whole [of 64 "mk_region 4160 64"] by (simp_all add: flush_range_def whole_lines_def)

theorem do_flush_exact_witness:
  "\<exists>p'. do_flush host 0 4160 64 (tl_pmem one_store) = Inr p' \<and> pmem_wf p' \<and> frame2 (tl_pmem one_store) p' \<and>
    out_entries p' = map (flush_e (mk_region 4160 64)) (out_entries (tl_pmem one_store)) \<and>
    pm_redundant_flushes p' = pm_redundant_flushes (tl_pmem one_store) @
      warned (tl_pmem one_store) (again (mk_region 4160 64) (out_entries (tl_pmem one_store))) \<and>
    pm_superfluous_flushes p' = pm_superfluous_flushes (tl_pmem one_store) @
      warned (tl_pmem one_store) (superfluous host (mk_region 4160 64) (out_entries (tl_pmem one_store)))"
  by (rule do_flush_exact [OF one_store_ready(1,3) one_store_line(1) [symmetric] _ _ one_store_line(2)
        one_store_ready(5) one_store_room]) (simp_all add: rkey_def)

text \<open>C12.  \<open>do_fence\<close> drops the flushed entries and keeps the others, which move from the array to the tree in
  order of arrival, behind the ones that are there; the event registers, options and mappings do not change.\<close>

theorem do_fence_exact:
  assumes "pmem_wf p" "simple_mode p" "length (out_entries p) < OSET_ITER_MAX"
  shows "\<exists>p'. do_fence en p = Inr p' \<and> pmem_wf p' \<and> frame2 p p' \<and> out_entries p' = fenced p \<and>
    pm_redundant_flushes p' = pm_redundant_flushes p \<and> pm_superfluous_flushes p' = pm_superfluous_flushes p"
  by (rule do_fence_spec [OF assms])

theorem do_fence_exact_witness:
  "\<exists>p'. do_fence host (tl_pmem one_store) = Inr p' \<and> pmem_wf p' \<and> out_entries p' = fenced (tl_pmem one_store)"
  using do_fence_exact [OF one_store_ready(1,2,5), of host] by blast

text \<open>C13.  \<open>trace_pmem_store\<close>: a store that touches no mapping leaves the tool as it is; any other store becomes the
  last entry of the array, dirty, with its address and size, and is recorded as made outside of a transaction
  exactly when no excluded region covers it and none of the transactions of the running thread does.\<close>

theorem trace_pmem_store_exact:
  assumes "pmem_wf p" "simple_mode p" "maps_ok p" "sn_index (current p) < MAX_ARRAY_NUM"
    and "tx_wf t" "tx_room 0 t" "\<not> tr_verbose t" "length (tr_oot_stores t) < MAX_OOT_STORES"
    and "0 < unat sze" "unat addr + unat sze < 2 ^ 64 - 1"
  shows "if bytes (mk_region addr sze) \<inter> mapped p = {} then trace_pmem_store en addr sze val (p, t) = Inr (p, t)
    else \<exists>e p' t'. trace_pmem_store en addr sze val (p, t) = Inr (p', t') \<and> pmem_wf p' \<and> frame2 p p' \<and>
      st_addr e = addr \<and> st_size e = sze \<and> st_state e = STST_DIRTY \<and>
      out_entries p' = prefix_out p (Suc (pm_snippet_index p)) @ e # elems (pm_stores p) \<and>
      tx_wf t' \<and> tx_same t t' \<and>
      tr_oot_stores t' = tr_oot_stores t @ (if out_of_tx t (en_tid en) e then [e] else [])"
proof -
  have key: "rkey (mk_region addr sze)" using assms(9,10) by (simp add: rkey_def)
  have acc: "is_pmem_access addr sze p \<longleftrightarrow> bytes (mk_region addr sze) \<inter> mapped p \<noteq> {}"
    by (rule is_pmem_access_mapped [OF assms(3) key])
  obtain e p' where e: "track_store en addr sze val p = Inr (e, p')" "pmem_wf p'" "frame2 p p'"
    "st_addr e = addr" "st_size e = sze" "st_state e = STST_DIRTY"
    "out_entries p' = prefix_out p (Suc (pm_snippet_index p)) @ e # elems (pm_stores p)"
    using track_store_spec [OF assms(1,2,4,9,10), of en val] by blast
  have "rkey e" using key e(4,5) by (simp add: rkey_def hi_def lo_def sz_def)
  then obtain t' where "handle_tx_store en e t = Inr t'" "tx_wf t'" "tx_same t t'"
    "tr_oot_stores t' = tr_oot_stores t @ (if out_of_tx t (en_tid en) e then [e] else [])"
    using handle_tx_store_ok [OF assms(5) _ assms(7,6,8)] by blast
  then show ?thesis using acc e by (simp add: trace_pmem_store_def)
qed

theorem trace_pmem_store_exact_witness:
  "\<exists>e p' t'. trace_pmem_store host 4224 8 7 (tl_pmem one_store, tl_trans one_store) = Inr (p', t') \<and> pmem_wf p' \<and>
    st_addr e = 4224 \<and> st_state e = STST_DIRTY \<and>
    out_entries p' = prefix_out (tl_pmem one_store) (Suc (pm_snippet_index (tl_pmem one_store))) @ e # elems (pm_stores (tl_pmem one_store))"
proof -
  have t: "tx_wf (tl_trans one_store)" "tx_room 0 (tl_trans one_store)" "\<not> tr_verbose (tl_trans one_store)"
    "length (tr_oot_stores (tl_trans one_store)) < MAX_OOT_STORES"
    using one_store_inv by (auto simp: tool_inv_def trans_inv_def)
  have "sn_index (current (tl_pmem one_store)) < MAX_ARRAY_NUM"
    by (rule store_inv_cap(1) [of 64 "{4096..<8192}" 9998]) (use one_store_inv in \<open>simp add: tool_inv_def\<close>)
  then show ?thesis
    using trace_pmem_store_exact [OF one_store_ready(1,2,7) _ t, of 8 4224 host 7] one_store_ready(8) by auto
qed

text \<open>C14.  With \<open>--flush-check\<close> the two warnings about a flush are exact byte by byte: a superfluous flush is
  reported if and only if no byte of the range waits for a flush or a fence, a redundant flush if and only if
  some byte of the range is flushed already.\<close>

theorem flush_warnings_exact:
  assumes "pmem_wf p" "strands_off sid p" "fi = flush_range base sze p" "rkey fi" "hi fi < 2 ^ 64 - 1"
    and "whole fi (out_entries p)" "length (out_entries p) < OSET_ITER_MAX" "room p (length (out_entries p))"
    and "op_check_flush (pm_opts p)" "length (pm_superfluous_flushes p) < MAX_FLUSH_ERROR_EVENTS"
  shows "\<exists>p'. do_flush en sid base sze p = Inr p' \<and>
    (pm_superfluous_flushes p' \<noteq> pm_superfluous_flushes p \<longleftrightarrow> bytes fi \<inter> not_durable (entries_view (out_entries p)) = {}) \<and>
    (pm_redundant_flushes p' \<noteq> pm_redundant_flushes p \<longleftrightarrow> bytes fi \<inter> in_state STST_FLUSHED (out_entries p) \<noteq> {})"
proof -
  obtain p' where p': "do_flush en sid base sze p = Inr p'"
    "pm_redundant_flushes p' = pm_redundant_flushes p @ warned p (again fi (out_entries p))"
    "pm_superfluous_flushes p' = pm_superfluous_flushes p @ warned p (superfluous en fi (out_entries p))"
    using do_flush_spec [OF assms(1-8), of en] assms(10) by blast
  have st: "st_state e = STST_FLUSHED \<longleftrightarrow> st_state e \<noteq> STST_DIRTY" if "e \<in> set (out_entries p)" for e
    using out_entry_ok [OF assms(1) that] by (cases "st_state e") (simp_all add: entry_ok_def)
  have "again fi (out_entries p) \<noteq> [] \<longleftrightarrow> (\<exists>e \<in> set (out_entries p). st_state e \<noteq> STST_DIRTY \<and> overlaps_e fi e)"
    by (auto simp: again_def filter_empty_conv)
  also have "\<dots> \<longleftrightarrow> bytes fi \<inter> in_state STST_FLUSHED (out_entries p) \<noteq> {}"
    using st by (auto simp: in_state_mem overlaps_e_def set_eq_iff)
  finally have r: "again fi (out_entries p) \<noteq> [] \<longleftrightarrow> bytes fi \<inter> in_state STST_FLUSHED (out_entries p) \<noteq> {}" .
  have s: "superfluous en fi (out_entries p) \<noteq> [] \<longleftrightarrow> bytes fi \<inter> not_durable (entries_view (out_entries p)) = {}"
    unfolding not_durable_bytes [OF assms(1)] by (auto simp: superfluous_def overlaps_e_def set_bytes_def set_eq_iff)
  show ?thesis using p' r s assms(9) by (simp add: warned_def)
qed

lemma checked_ready:
  assumes "p = tl_pmem (pmc_post_clo_init host False (pmc_pre_clo_init\<lparr>op_check_flush := True\<rparr>))"
  shows "pmem_wf p" "strands_off 0 p" "out_entries p = []" "op_check_flush (pm_opts p)" "\<not> op_force_flush_align (pm_opts p)"
    "pm_redundant_flushes p = []" "pm_superfluous_flushes p = []"
proof -
  have "plain (pmc_pre_clo_init\<lparr>op_check_flush := True\<rparr>)" by (simp add: plain_def pmc_pre_clo_init_def)
  then show "pmem_wf p" "strands_off 0 p" "out_entries p = []" "\<not> op_force_flush_align (pm_opts p)"
    using init_pmem_wf [OF _ assms] by (simp_all add: strands_off_def)
  show "op_check_flush (pm_opts p)" "pm_redundant_flushes p = []" "pm_superfluous_flushes p = []"
    using assms by (simp_all add: pmc_post_clo_init_def Let_def)
qed

theorem flush_warnings_exact_witness:
  "\<exists>p'. do_flush host 0 4160 64 (tl_pmem (pmc_post_clo_init host False (pmc_pre_clo_init\<lparr>op_check_flush := True\<rparr>))) = Inr p' \<and>
    pm_superfluous_flushes p' \<noteq> [] \<and> pm_redundant_flushes p' = []"
proof -
  let ?p = "tl_pmem (pmc_post_clo_init host False (pmc_pre_clo_init\<lparr>op_check_flush := True\<rparr>))"
  note ready = checked_ready [OF refl]
  have fi: "mk_region 4160 64 = flush_range 4160 64 ?p" using ready(5) by (simp add: flush_range_def)
  have "rkey (mk_region 4160 64)" "hi (mk_region 4160 64) < 2 ^ 64 - 1" by (simp_all add: rkey_def)
  then show ?thesis
    using flush_warnings_exact [OF ready(1,2) fi, of host] ready
    by (simp add: whole_def OSET_ITER_MAX_def room_def MAX_FLUSH_ERROR_EVENTS_def entries_view_def in_state_def
        set_bytes_def not_durable_def)
qed

text \<open>C15.  \<open>pmc_fini\<close> returns, and the last line it prints gives the number of errors: the outstanding stores plus
  what every detector has registered, active transactions included.\<close>

theorem fini_counts_errors:
  assumes "tool_inv L M n w" "op_print_summary (pm_opts (tl_pmem w))"
    "\<not> op_print_bug_detail (pm_opts (tl_pmem w))" "op_error_summary (pm_opts (tl_pmem w))"
  shows "\<exists>w'. pmc_fini en w = Inr w' \<and> out_entries (tl_pmem w') = out_entries (tl_pmem w) \<and>
    last (pm_out (tl_pmem w')) = Umsg ''ERROR SUMMARY: %lu errors'' [of_nat (found_errors (tl_pmem w) (tl_trans w))]"
  by (rule pmc_fini_ok [OF assms])

lemma one_store_summary:
  "op_print_summary (pm_opts (tl_pmem one_store)) \<and> \<not> op_print_bug_detail (pm_opts (tl_pmem one_store)) \<and>
    op_error_summary (pm_opts (tl_pmem one_store)) \<and> found_errors (tl_pmem one_store) (tl_trans one_store) = 1"
  by code_simp

theorem fini_counts_errors_witness:
  "\<exists>w'. pmc_fini host one_store = Inr w' \<and> out_entries (tl_pmem w') = out_entries (tl_pmem one_store) \<and>
    last (pm_out (tl_pmem w')) = Umsg ''ERROR SUMMARY: %lu errors'' [1]"
  using fini_counts_errors [of 64 "{4096..<8192}" 9999 one_store host] one_store_inv one_store_summary by simp

end
