(* ===== verification/VEX_Primop.thy ===== *)
theory VEX_Primop
  imports PMC_Prelude
begin

text \<open>
  Types and primitive operations of the intermediate representation in which the core hands the
  client's code to the tool (\<open>VEX/pub/libvex_ir.h\<close>, \<open>VEX/priv/ir_defs.c\<close>): the types, their sizes, the
  enumeration of the operations with the numbers the compiler gives them, and the table
  \<open>typeOfPrimop\<close> of their argument and result types, part by part in the order of the source.
\<close>

section \<open>Types\<close>

datatype IRType =
    Ity_INVALID | Ity_I1 | Ity_I8 | Ity_I16 | Ity_I32 | Ity_I64 | Ity_I128
  | Ity_F16 | Ity_F32 | Ity_F64 | Ity_D32 | Ity_D64 | Ity_D128 | Ity_F128 | Ity_V128 | Ity_V256

text \<open>The value of the enumerator, which a message of the tool prints.\<close>

fun ity_code :: "IRType \<Rightarrow> nat" where
  "ity_code Ity_INVALID = 4352"
| "ity_code Ity_I1 = 4353"
| "ity_code Ity_I8 = 4354"
| "ity_code Ity_I16 = 4355"
| "ity_code Ity_I32 = 4356"
| "ity_code Ity_I64 = 4357"
| "ity_code Ity_I128 = 4358"
| "ity_code Ity_F16 = 4359"
| "ity_code Ity_F32 = 4360"
| "ity_code Ity_F64 = 4361"
| "ity_code Ity_D32 = 4362"
| "ity_code Ity_D64 = 4363"
| "ity_code Ity_D128 = 4364"
| "ity_code Ity_F128 = 4365"
| "ity_code Ity_V128 = 4366"
| "ity_code Ity_V256 = 4367"

fun sizeofIRType :: "IRType \<Rightarrow> nat res" where
  "sizeofIRType Ity_I8 = Inr 1"
| "sizeofIRType Ity_I16 = Inr 2"
| "sizeofIRType Ity_I32 = Inr 4"
| "sizeofIRType Ity_I64 = Inr 8"
| "sizeofIRType Ity_I128 = Inr 16"
| "sizeofIRType Ity_F16 = Inr 2"
| "sizeofIRType Ity_F32 = Inr 4"
| "sizeofIRType Ity_F64 = Inr 8"
| "sizeofIRType Ity_F128 = Inr 16"
| "sizeofIRType Ity_D32 = Inr 4"
| "sizeofIRType Ity_D64 = Inr 8"
| "sizeofIRType Ity_D128 = Inr 16"
| "sizeofIRType Ity_V128 = Inr 16"
| "sizeofIRType Ity_V256 = Inr 32"
| "sizeofIRType Ity_I1 = Inl (Panic ''sizeofIRType'')"
| "sizeofIRType Ity_INVALID = Inl (Panic ''sizeofIRType'')"

section \<open>The enumeration \<open>IROp\<close>\<close>

text \<open>An operation is its number in the enumeration.\<close>

type_synonym IROp = nat

abbreviation (input) Iop_INVALID :: IROp where "Iop_INVALID \<equiv> 5120"
abbreviation (input) Iop_Add8 :: IROp where "Iop_Add8 \<equiv> 5121"
abbreviation (input) Iop_Add16 :: IROp where "Iop_Add16 \<equiv> 5122"
abbreviation (input) Iop_Add32 :: IROp where "Iop_Add32 \<equiv> 5123"
abbreviation (input) Iop_Add64 :: IROp where "Iop_Add64 \<equiv> 5124"
abbreviation (input) Iop_Sub8 :: IROp where "Iop_Sub8 \<equiv> 5125"
abbreviation (input) Iop_Sub16 :: IROp where "Iop_Sub16 \<equiv> 5126"
abbreviation (input) Iop_Sub32 :: IROp where "Iop_Sub32 \<equiv> 5127"
abbreviation (input) Iop_Sub64 :: IROp where "Iop_Sub64 \<equiv> 5128"
abbreviation (input) Iop_Mul8 :: IROp where "Iop_Mul8 \<equiv> 5129"
abbreviation (input) Iop_Mul16 :: IROp where "Iop_Mul16 \<equiv> 5130"
abbreviation (input) Iop_Mul32 :: IROp where "Iop_Mul32 \<equiv> 5131"
abbreviation (input) Iop_Mul64 :: IROp where "Iop_Mul64 \<equiv> 5132"
abbreviation (input) Iop_Or8 :: IROp where "Iop_Or8 \<equiv> 5133"
abbreviation (input) Iop_Or16 :: IROp where "Iop_Or16 \<equiv> 5134"
abbreviation (input) Iop_Or32 :: IROp where "Iop_Or32 \<equiv> 5135"
abbreviation (input) Iop_Or64 :: IROp where "Iop_Or64 \<equiv> 5136"
abbreviation (input) Iop_And8 :: IROp where "Iop_And8 \<equiv> 5137"
abbreviation (input) Iop_And16 :: IROp where "Iop_And16 \<equiv> 5138"
abbreviation (input) Iop_And32 :: IROp where "Iop_And32 \<equiv> 5139"
abbreviation (input) Iop_And64 :: IROp where "Iop_And64 \<equiv> 5140"
abbreviation (input) Iop_Xor8 :: IROp where "Iop_Xor8 \<equiv> 5141"
abbreviation (input) Iop_Xor16 :: IROp where "Iop_Xor16 \<equiv> 5142"
abbreviation (input) Iop_Xor32 :: IROp where "Iop_Xor32 \<equiv> 5143"
abbreviation (input) Iop_Xor64 :: IROp where "Iop_Xor64 \<equiv> 5144"
abbreviation (input) Iop_Shl8 :: IROp where "Iop_Shl8 \<equiv> 5145"
abbreviation (input) Iop_Shl16 :: IROp where "Iop_Shl16 \<equiv> 5146"
abbreviation (input) Iop_Shl32 :: IROp where "Iop_Shl32 \<equiv> 5147"
abbreviation (input) Iop_Shl64 :: IROp where "Iop_Shl64 \<equiv> 5148"
abbreviation (input) Iop_Shr8 :: IROp where "Iop_Shr8 \<equiv> 5149"
abbreviation (input) Iop_Shr16 :: IROp where "Iop_Shr16 \<equiv> 5150"
abbreviation (input) Iop_Shr32 :: IROp where "Iop_Shr32 \<equiv> 5151"
abbreviation (input) Iop_Shr64 :: IROp where "Iop_Shr64 \<equiv> 5152"
abbreviation (input) Iop_Sar8 :: IROp where "Iop_Sar8 \<equiv> 5153"
abbreviation (input) Iop_Sar16 :: IROp where "Iop_Sar16 \<equiv> 5154"
abbreviation (input) Iop_Sar32 :: IROp where "Iop_Sar32 \<equiv> 5155"
abbreviation (input) Iop_Sar64 :: IROp where "Iop_Sar64 \<equiv> 5156"
abbreviation (input) Iop_CmpEQ8 :: IROp where "Iop_CmpEQ8 \<equiv> 5157"
abbreviation (input) Iop_CmpEQ16 :: IROp where "Iop_CmpEQ16 \<equiv> 5158"
abbreviation (input) Iop_CmpEQ32 :: IROp where "Iop_CmpEQ32 \<equiv> 5159"
abbreviation (input) Iop_CmpEQ64 :: IROp where "Iop_CmpEQ64 \<equiv> 5160"
abbreviation (input) Iop_CmpNE8 :: IROp where "Iop_CmpNE8 \<equiv> 5161"
abbreviation (input) Iop_CmpNE16 :: IROp where "Iop_CmpNE16 \<equiv> 5162"
abbreviation (input) Iop_CmpNE32 :: IROp where "Iop_CmpNE32 \<equiv> 5163"
abbreviation (input) Iop_CmpNE64 :: IROp where "Iop_CmpNE64 \<equiv> 5164"
abbreviation (input) Iop_Not8 :: IROp where "Iop_Not8 \<equiv> 5165"
abbreviation (input) Iop_Not16 :: IROp where "Iop_Not16 \<equiv> 5166"
abbreviation (input) Iop_Not32 :: IROp where "Iop_Not32 \<equiv> 5167"
abbreviation (input) Iop_Not64 :: IROp where "Iop_Not64 \<equiv> 5168"
abbreviation (input) Iop_CasCmpEQ8 :: IROp where "Iop_CasCmpEQ8 \<equiv> 5169"
abbreviation (input) Iop_CasCmpEQ16 :: IROp where "Iop_CasCmpEQ16 \<equiv> 5170"
abbreviation (input) Iop_CasCmpEQ32 :: IROp where "Iop_CasCmpEQ32 \<equiv> 5171"
abbreviation (input) Iop_CasCmpEQ64 :: IROp where "Iop_CasCmpEQ64 \<equiv> 5172"
abbreviation (input) Iop_CasCmpNE8 :: IROp where "Iop_CasCmpNE8 \<equiv> 5173"
abbreviation (input) Iop_CasCmpNE16 :: IROp where "Iop_CasCmpNE16 \<equiv> 5174"
abbreviation (input) Iop_CasCmpNE32 :: IROp where "Iop_CasCmpNE32 \<equiv> 5175"
abbreviation (input) Iop_CasCmpNE64 :: IROp where "Iop_CasCmpNE64 \<equiv> 5176"
abbreviation (input) Iop_ExpCmpNE8 :: IROp where "Iop_ExpCmpNE8 \<equiv> 5177"
abbreviation (input) Iop_ExpCmpNE16 :: IROp where "Iop_ExpCmpNE16 \<equiv> 5178"
abbreviation (input) Iop_ExpCmpNE32 :: IROp where "Iop_ExpCmpNE32 \<equiv> 5179"
abbreviation (input) Iop_ExpCmpNE64 :: IROp where "Iop_ExpCmpNE64 \<equiv> 5180"
abbreviation (input) Iop_MullS8 :: IROp where "Iop_MullS8 \<equiv> 5181"
abbreviation (input) Iop_MullS16 :: IROp where "Iop_MullS16 \<equiv> 5182"
abbreviation (input) Iop_MullS32 :: IROp where "Iop_MullS32 \<equiv> 5183"
abbreviation (input) Iop_MullS64 :: IROp where "Iop_MullS64 \<equiv> 5184"
abbreviation (input) Iop_MullU8 :: IROp where "Iop_MullU8 \<equiv> 5185"
abbreviation (input) Iop_MullU16 :: IROp where "Iop_MullU16 \<equiv> 5186"
abbreviation (input) Iop_MullU32 :: IROp where "Iop_MullU32 \<equiv> 5187"
abbreviation (input) Iop_MullU64 :: IROp where "Iop_MullU64 \<equiv> 5188"
abbreviation (input) Iop_Clz64 :: IROp where "Iop_Clz64 \<equiv> 5189"
abbreviation (input) Iop_Clz32 :: IROp where "Iop_Clz32 \<equiv> 5190"
abbreviation (input) Iop_Ctz64 :: IROp where "Iop_Ctz64 \<equiv> 5191"
abbreviation (input) Iop_Ctz32 :: IROp where "Iop_Ctz32 \<equiv> 5192"
abbreviation (input) Iop_ClzNat64 :: IROp where "Iop_ClzNat64 \<equiv> 5193"
abbreviation (input) Iop_ClzNat32 :: IROp where "Iop_ClzNat32 \<equiv> 5194"
abbreviation (input) Iop_CtzNat64 :: IROp where "Iop_CtzNat64 \<equiv> 5195"
abbreviation (input) Iop_CtzNat32 :: IROp where "Iop_CtzNat32 \<equiv> 5196"
abbreviation (input) Iop_PopCount64 :: IROp where "Iop_PopCount64 \<equiv> 5197"
abbreviation (input) Iop_PopCount32 :: IROp where "Iop_PopCount32 \<equiv> 5198"
abbreviation (input) Iop_CmpLT32S :: IROp where "Iop_CmpLT32S \<equiv> 5199"
abbreviation (input) Iop_CmpLT64S :: IROp where "Iop_CmpLT64S \<equiv> 5200"
abbreviation (input) Iop_CmpLE32S :: IROp where "Iop_CmpLE32S \<equiv> 5201"
abbreviation (input) Iop_CmpLE64S :: IROp where "Iop_CmpLE64S \<equiv> 5202"
abbreviation (input) Iop_CmpLT32U :: IROp where "Iop_CmpLT32U \<equiv> 5203"
abbreviation (input) Iop_CmpLT64U :: IROp where "Iop_CmpLT64U \<equiv> 5204"
abbreviation (input) Iop_CmpLE32U :: IROp where "Iop_CmpLE32U \<equiv> 5205"
abbreviation (input) Iop_CmpLE64U :: IROp where "Iop_CmpLE64U \<equiv> 5206"
abbreviation (input) Iop_CmpNEZ8 :: IROp where "Iop_CmpNEZ8 \<equiv> 5207"
abbreviation (input) Iop_CmpNEZ16 :: IROp where "Iop_CmpNEZ16 \<equiv> 5208"
abbreviation (input) Iop_CmpNEZ32 :: IROp where "Iop_CmpNEZ32 \<equiv> 5209"
abbreviation (input) Iop_CmpNEZ64 :: IROp where "Iop_CmpNEZ64 \<equiv> 5210"
abbreviation (input) Iop_CmpwNEZ32 :: IROp where "Iop_CmpwNEZ32 \<equiv> 5211"
abbreviation (input) Iop_CmpwNEZ64 :: IROp where "Iop_CmpwNEZ64 \<equiv> 5212"
abbreviation (input) Iop_Left8 :: IROp where "Iop_Left8 \<equiv> 5213"
abbreviation (input) Iop_Left16 :: IROp where "Iop_Left16 \<equiv> 5214"
abbreviation (input) Iop_Left32 :: IROp where "Iop_Left32 \<equiv> 5215"
abbreviation (input) Iop_Left64 :: IROp where "Iop_Left64 \<equiv> 5216"
abbreviation (input) Iop_Max32U :: IROp where "Iop_Max32U \<equiv> 5217"
abbreviation (input) Iop_CmpORD32U :: IROp where "Iop_CmpORD32U \<equiv> 5218"
abbreviation (input) Iop_CmpORD64U :: IROp where "Iop_CmpORD64U \<equiv> 5219"
abbreviation (input) Iop_CmpORD32S :: IROp where "Iop_CmpORD32S \<equiv> 5220"
abbreviation (input) Iop_CmpORD64S :: IROp where "Iop_CmpORD64S \<equiv> 5221"
abbreviation (input) Iop_DivU32 :: IROp where "Iop_DivU32 \<equiv> 5222"
abbreviation (input) Iop_DivS32 :: IROp where "Iop_DivS32 \<equiv> 5223"
abbreviation (input) Iop_DivU64 :: IROp where "Iop_DivU64 \<equiv> 5224"
abbreviation (input) Iop_DivS64 :: IROp where "Iop_DivS64 \<equiv> 5225"
abbreviation (input) Iop_DivU64E :: IROp where "Iop_DivU64E \<equiv> 5226"
abbreviation (input) Iop_DivS64E :: IROp where "Iop_DivS64E \<equiv> 5227"
abbreviation (input) Iop_DivU32E :: IROp where "Iop_DivU32E \<equiv> 5228"
abbreviation (input) Iop_DivS32E :: IROp where "Iop_DivS32E \<equiv> 5229"
abbreviation (input) Iop_DivModU64to32 :: IROp where "Iop_DivModU64to32 \<equiv> 5230"
abbreviation (input) Iop_DivModS64to32 :: IROp where "Iop_DivModS64to32 \<equiv> 5231"
abbreviation (input) Iop_DivModU128to64 :: IROp where "Iop_DivModU128to64 \<equiv> 5232"
abbreviation (input) Iop_DivModS128to64 :: IROp where "Iop_DivModS128to64 \<equiv> 5233"
abbreviation (input) Iop_DivModS64to64 :: IROp where "Iop_DivModS64to64 \<equiv> 5234"
abbreviation (input) Iop_DivModU64to64 :: IROp where "Iop_DivModU64to64 \<equiv> 5235"
abbreviation (input) Iop_DivModS32to32 :: IROp where "Iop_DivModS32to32 \<equiv> 5236"
abbreviation (input) Iop_DivModU32to32 :: IROp where "Iop_DivModU32to32 \<equiv> 5237"
abbreviation (input) Iop_8Uto16 :: IROp where "Iop_8Uto16 \<equiv> 5238"
abbreviation (input) Iop_8Uto32 :: IROp where "Iop_8Uto32 \<equiv> 5239"
abbreviation (input) Iop_8Uto64 :: IROp where "Iop_8Uto64 \<equiv> 5240"
abbreviation (input) Iop_16Uto32 :: IROp where "Iop_16Uto32 \<equiv> 5241"
abbreviation (input) Iop_16Uto64 :: IROp where "Iop_16Uto64 \<equiv> 5242"
abbreviation (input) Iop_32Uto64 :: IROp where "Iop_32Uto64 \<equiv> 5243"
abbreviation (input) Iop_8Sto16 :: IROp where "Iop_8Sto16 \<equiv> 5244"
abbreviation (input) Iop_8Sto32 :: IROp where "Iop_8Sto32 \<equiv> 5245"
abbreviation (input) Iop_8Sto64 :: IROp where "Iop_8Sto64 \<equiv> 5246"
abbreviation (input) Iop_16Sto32 :: IROp where "Iop_16Sto32 \<equiv> 5247"
abbreviation (input) Iop_16Sto64 :: IROp where "Iop_16Sto64 \<equiv> 5248"
abbreviation (input) Iop_32Sto64 :: IROp where "Iop_32Sto64 \<equiv> 5249"
abbreviation (input) Iop_64to8 :: IROp where "Iop_64to8 \<equiv> 5250"
abbreviation (input) Iop_32to8 :: IROp where "Iop_32to8 \<equiv> 5251"
abbreviation (input) Iop_64to16 :: IROp where "Iop_64to16 \<equiv> 5252"
abbreviation (input) Iop_16to8 :: IROp where "Iop_16to8 \<equiv> 5253"
abbreviation (input) Iop_16HIto8 :: IROp where "Iop_16HIto8 \<equiv> 5254"
abbreviation (input) Iop_8HLto16 :: IROp where "Iop_8HLto16 \<equiv> 5255"
abbreviation (input) Iop_32to16 :: IROp where "Iop_32to16 \<equiv> 5256"
abbreviation (input) Iop_32HIto16 :: IROp where "Iop_32HIto16 \<equiv> 5257"
abbreviation (input) Iop_16HLto32 :: IROp where "Iop_16HLto32 \<equiv> 5258"
abbreviation (input) Iop_64to32 :: IROp where "Iop_64to32 \<equiv> 5259"
abbreviation (input) Iop_64HIto32 :: IROp where "Iop_64HIto32 \<equiv> 5260"
abbreviation (input) Iop_32HLto64 :: IROp where "Iop_32HLto64 \<equiv> 5261"
abbreviation (input) Iop_128to64 :: IROp where "Iop_128to64 \<equiv> 5262"
abbreviation (input) Iop_128HIto64 :: IROp where "Iop_128HIto64 \<equiv> 5263"
abbreviation (input) Iop_64HLto128 :: IROp where "Iop_64HLto128 \<equiv> 5264"
abbreviation (input) Iop_Not1 :: IROp where "Iop_Not1 \<equiv> 5265"
abbreviation (input) Iop_32to1 :: IROp where "Iop_32to1 \<equiv> 5266"
abbreviation (input) Iop_64to1 :: IROp where "Iop_64to1 \<equiv> 5267"
abbreviation (input) Iop_1Uto8 :: IROp where "Iop_1Uto8 \<equiv> 5268"
abbreviation (input) Iop_1Uto32 :: IROp where "Iop_1Uto32 \<equiv> 5269"
abbreviation (input) Iop_1Uto64 :: IROp where "Iop_1Uto64 \<equiv> 5270"
abbreviation (input) Iop_1Sto8 :: IROp where "Iop_1Sto8 \<equiv> 5271"
abbreviation (input) Iop_1Sto16 :: IROp where "Iop_1Sto16 \<equiv> 5272"
abbreviation (input) Iop_1Sto32 :: IROp where "Iop_1Sto32 \<equiv> 5273"
abbreviation (input) Iop_1Sto64 :: IROp where "Iop_1Sto64 \<equiv> 5274"
abbreviation (input) Iop_AddF64 :: IROp where "Iop_AddF64 \<equiv> 5275"
abbreviation (input) Iop_SubF64 :: IROp where "Iop_SubF64 \<equiv> 5276"
abbreviation (input) Iop_MulF64 :: IROp where "Iop_MulF64 \<equiv> 5277"
abbreviation (input) Iop_DivF64 :: IROp where "Iop_DivF64 \<equiv> 5278"
abbreviation (input) Iop_AddF32 :: IROp where "Iop_AddF32 \<equiv> 5279"
abbreviation (input) Iop_SubF32 :: IROp where "Iop_SubF32 \<equiv> 5280"
abbreviation (input) Iop_MulF32 :: IROp where "Iop_MulF32 \<equiv> 5281"
abbreviation (input) Iop_DivF32 :: IROp where "Iop_DivF32 \<equiv> 5282"
abbreviation (input) Iop_AddF64r32 :: IROp where "Iop_AddF64r32 \<equiv> 5283"
abbreviation (input) Iop_SubF64r32 :: IROp where "Iop_SubF64r32 \<equiv> 5284"
abbreviation (input) Iop_MulF64r32 :: IROp where "Iop_MulF64r32 \<equiv> 5285"
abbreviation (input) Iop_DivF64r32 :: IROp where "Iop_DivF64r32 \<equiv> 5286"
abbreviation (input) Iop_NegF64 :: IROp where "Iop_NegF64 \<equiv> 5287"
abbreviation (input) Iop_AbsF64 :: IROp where "Iop_AbsF64 \<equiv> 5288"
abbreviation (input) Iop_NegF32 :: IROp where "Iop_NegF32 \<equiv> 5289"
abbreviation (input) Iop_AbsF32 :: IROp where "Iop_AbsF32 \<equiv> 5290"
abbreviation (input) Iop_SqrtF64 :: IROp where "Iop_SqrtF64 \<equiv> 5291"
abbreviation (input) Iop_SqrtF32 :: IROp where "Iop_SqrtF32 \<equiv> 5292"
abbreviation (input) Iop_CmpF64 :: IROp where "Iop_CmpF64 \<equiv> 5293"
abbreviation (input) Iop_CmpF32 :: IROp where "Iop_CmpF32 \<equiv> 5294"
abbreviation (input) Iop_CmpF128 :: IROp where "Iop_CmpF128 \<equiv> 5295"
abbreviation (input) Iop_F64toI16S :: IROp where "Iop_F64toI16S \<equiv> 5296"
abbreviation (input) Iop_F64toI32S :: IROp where "Iop_F64toI32S \<equiv> 5297"
abbreviation (input) Iop_F64toI64S :: IROp where "Iop_F64toI64S \<equiv> 5298"
abbreviation (input) Iop_F64toI64U :: IROp where "Iop_F64toI64U \<equiv> 5299"
abbreviation (input) Iop_F64toI32U :: IROp where "Iop_F64toI32U \<equiv> 5300"
abbreviation (input) Iop_I32StoF64 :: IROp where "Iop_I32StoF64 \<equiv> 5301"
abbreviation (input) Iop_I64StoF64 :: IROp where "Iop_I64StoF64 \<equiv> 5302"
abbreviation (input) Iop_I64UtoF64 :: IROp where "Iop_I64UtoF64 \<equiv> 5303"
abbreviation (input) Iop_I64UtoF32 :: IROp where "Iop_I64UtoF32 \<equiv> 5304"
abbreviation (input) Iop_I32UtoF32 :: IROp where "Iop_I32UtoF32 \<equiv> 5305"
abbreviation (input) Iop_I32UtoF64 :: IROp where "Iop_I32UtoF64 \<equiv> 5306"
abbreviation (input) Iop_F32toI32S :: IROp where "Iop_F32toI32S \<equiv> 5307"
abbreviation (input) Iop_F32toI64S :: IROp where "Iop_F32toI64S \<equiv> 5308"
abbreviation (input) Iop_F32toI32U :: IROp where "Iop_F32toI32U \<equiv> 5309"
abbreviation (input) Iop_F32toI64U :: IROp where "Iop_F32toI64U \<equiv> 5310"
abbreviation (input) Iop_I32StoF32 :: IROp where "Iop_I32StoF32 \<equiv> 5311"
abbreviation (input) Iop_I64StoF32 :: IROp where "Iop_I64StoF32 \<equiv> 5312"
abbreviation (input) Iop_F32toF64 :: IROp where "Iop_F32toF64 \<equiv> 5313"
abbreviation (input) Iop_F64toF32 :: IROp where "Iop_F64toF32 \<equiv> 5314"
abbreviation (input) Iop_ReinterpF64asI64 :: IROp where "Iop_ReinterpF64asI64 \<equiv> 5315"
abbreviation (input) Iop_ReinterpI64asF64 :: IROp where "Iop_ReinterpI64asF64 \<equiv> 5316"
abbreviation (input) Iop_ReinterpF32asI32 :: IROp where "Iop_ReinterpF32asI32 \<equiv> 5317"
abbreviation (input) Iop_ReinterpI32asF32 :: IROp where "Iop_ReinterpI32asF32 \<equiv> 5318"
abbreviation (input) Iop_F64HLtoF128 :: IROp where "Iop_F64HLtoF128 \<equiv> 5319"
abbreviation (input) Iop_F128HItoF64 :: IROp where "Iop_F128HItoF64 \<equiv> 5320"
abbreviation (input) Iop_F128LOtoF64 :: IROp where "Iop_F128LOtoF64 \<equiv> 5321"
abbreviation (input) Iop_AddF128 :: IROp where "Iop_AddF128 \<equiv> 5322"
abbreviation (input) Iop_SubF128 :: IROp where "Iop_SubF128 \<equiv> 5323"
abbreviation (input) Iop_MulF128 :: IROp where "Iop_MulF128 \<equiv> 5324"
abbreviation (input) Iop_DivF128 :: IROp where "Iop_DivF128 \<equiv> 5325"
abbreviation (input) Iop_MAddF128 :: IROp where "Iop_MAddF128 \<equiv> 5326"
abbreviation (input) Iop_MSubF128 :: IROp where "Iop_MSubF128 \<equiv> 5327"
abbreviation (input) Iop_NegMAddF128 :: IROp where "Iop_NegMAddF128 \<equiv> 5328"
abbreviation (input) Iop_NegMSubF128 :: IROp where "Iop_NegMSubF128 \<equiv> 5329"
abbreviation (input) Iop_NegF128 :: IROp where "Iop_NegF128 \<equiv> 5330"
abbreviation (input) Iop_AbsF128 :: IROp where "Iop_AbsF128 \<equiv> 5331"
abbreviation (input) Iop_SqrtF128 :: IROp where "Iop_SqrtF128 \<equiv> 5332"
abbreviation (input) Iop_I32StoF128 :: IROp where "Iop_I32StoF128 \<equiv> 5333"
abbreviation (input) Iop_I64StoF128 :: IROp where "Iop_I64StoF128 \<equiv> 5334"
abbreviation (input) Iop_I32UtoF128 :: IROp where "Iop_I32UtoF128 \<equiv> 5335"
abbreviation (input) Iop_I64UtoF128 :: IROp where "Iop_I64UtoF128 \<equiv> 5336"
abbreviation (input) Iop_F32toF128 :: IROp where "Iop_F32toF128 \<equiv> 5337"
abbreviation (input) Iop_F64toF128 :: IROp where "Iop_F64toF128 \<equiv> 5338"
abbreviation (input) Iop_F128toI32S :: IROp where "Iop_F128toI32S \<equiv> 5339"
abbreviation (input) Iop_F128toI64S :: IROp where "Iop_F128toI64S \<equiv> 5340"
abbreviation (input) Iop_F128toI32U :: IROp where "Iop_F128toI32U \<equiv> 5341"
abbreviation (input) Iop_F128toI64U :: IROp where "Iop_F128toI64U \<equiv> 5342"
abbreviation (input) Iop_F128toI128S :: IROp where "Iop_F128toI128S \<equiv> 5343"
abbreviation (input) Iop_F128toF64 :: IROp where "Iop_F128toF64 \<equiv> 5344"
abbreviation (input) Iop_F128toF32 :: IROp where "Iop_F128toF32 \<equiv> 5345"
abbreviation (input) Iop_RndF128 :: IROp where "Iop_RndF128 \<equiv> 5346"
abbreviation (input) Iop_TruncF128toI32S :: IROp where "Iop_TruncF128toI32S \<equiv> 5347"
abbreviation (input) Iop_TruncF128toI32U :: IROp where "Iop_TruncF128toI32U \<equiv> 5348"
abbreviation (input) Iop_TruncF128toI64U :: IROp where "Iop_TruncF128toI64U \<equiv> 5349"
abbreviation (input) Iop_TruncF128toI64S :: IROp where "Iop_TruncF128toI64S \<equiv> 5350"
abbreviation (input) Iop_AtanF64 :: IROp where "Iop_AtanF64 \<equiv> 5351"
abbreviation (input) Iop_Yl2xF64 :: IROp where "Iop_Yl2xF64 \<equiv> 5352"
abbreviation (input) Iop_Yl2xp1F64 :: IROp where "Iop_Yl2xp1F64 \<equiv> 5353"
abbreviation (input) Iop_PRemF64 :: IROp where "Iop_PRemF64 \<equiv> 5354"
abbreviation (input) Iop_PRemC3210F64 :: IROp where "Iop_PRemC3210F64 \<equiv> 5355"
abbreviation (input) Iop_PRem1F64 :: IROp where "Iop_PRem1F64 \<equiv> 5356"
abbreviation (input) Iop_PRem1C3210F64 :: IROp where "Iop_PRem1C3210F64 \<equiv> 5357"
abbreviation (input) Iop_ScaleF64 :: IROp where "Iop_ScaleF64 \<equiv> 5358"
abbreviation (input) Iop_SinF64 :: IROp where "Iop_SinF64 \<equiv> 5359"
abbreviation (input) Iop_CosF64 :: IROp where "Iop_CosF64 \<equiv> 5360"
abbreviation (input) Iop_TanF64 :: IROp where "Iop_TanF64 \<equiv> 5361"
abbreviation (input) Iop_2xm1F64 :: IROp where "Iop_2xm1F64 \<equiv> 5362"
abbreviation (input) Iop_RoundF128toInt :: IROp where "Iop_RoundF128toInt \<equiv> 5363"
abbreviation (input) Iop_RoundF64toInt :: IROp where "Iop_RoundF64toInt \<equiv> 5364"
abbreviation (input) Iop_RoundF32toInt :: IROp where "Iop_RoundF32toInt \<equiv> 5365"
abbreviation (input) Iop_MAddF32 :: IROp where "Iop_MAddF32 \<equiv> 5366"
abbreviation (input) Iop_MSubF32 :: IROp where "Iop_MSubF32 \<equiv> 5367"
abbreviation (input) Iop_MAddF64 :: IROp where "Iop_MAddF64 \<equiv> 5368"
abbreviation (input) Iop_MSubF64 :: IROp where "Iop_MSubF64 \<equiv> 5369"
abbreviation (input) Iop_MAddF64r32 :: IROp where "Iop_MAddF64r32 \<equiv> 5370"
abbreviation (input) Iop_MSubF64r32 :: IROp where "Iop_MSubF64r32 \<equiv> 5371"
abbreviation (input) Iop_RSqrtEst5GoodF64 :: IROp where "Iop_RSqrtEst5GoodF64 \<equiv> 5372"
abbreviation (input) Iop_RoundF64toF64_NEAREST :: IROp where "Iop_RoundF64toF64_NEAREST \<equiv> 5373"
abbreviation (input) Iop_RoundF64toF64_NegINF :: IROp where "Iop_RoundF64toF64_NegINF \<equiv> 5374"
abbreviation (input) Iop_RoundF64toF64_PosINF :: IROp where "Iop_RoundF64toF64_PosINF \<equiv> 5375"
abbreviation (input) Iop_RoundF64toF64_ZERO :: IROp where "Iop_RoundF64toF64_ZERO \<equiv> 5376"
abbreviation (input) Iop_TruncF64asF32 :: IROp where "Iop_TruncF64asF32 \<equiv> 5377"
abbreviation (input) Iop_RoundF64toF32 :: IROp where "Iop_RoundF64toF32 \<equiv> 5378"
abbreviation (input) Iop_RecpExpF64 :: IROp where "Iop_RecpExpF64 \<equiv> 5379"
abbreviation (input) Iop_RecpExpF32 :: IROp where "Iop_RecpExpF32 \<equiv> 5380"
abbreviation (input) Iop_MaxNumF64 :: IROp where "Iop_MaxNumF64 \<equiv> 5381"
abbreviation (input) Iop_MinNumF64 :: IROp where "Iop_MinNumF64 \<equiv> 5382"
abbreviation (input) Iop_MaxNumF32 :: IROp where "Iop_MaxNumF32 \<equiv> 5383"
abbreviation (input) Iop_MinNumF32 :: IROp where "Iop_MinNumF32 \<equiv> 5384"
abbreviation (input) Iop_F16toF64 :: IROp where "Iop_F16toF64 \<equiv> 5385"
abbreviation (input) Iop_F64toF16 :: IROp where "Iop_F64toF16 \<equiv> 5386"
abbreviation (input) Iop_F16toF32 :: IROp where "Iop_F16toF32 \<equiv> 5387"
abbreviation (input) Iop_F32toF16 :: IROp where "Iop_F32toF16 \<equiv> 5388"
abbreviation (input) Iop_QAdd32S :: IROp where "Iop_QAdd32S \<equiv> 5389"
abbreviation (input) Iop_QSub32S :: IROp where "Iop_QSub32S \<equiv> 5390"
abbreviation (input) Iop_Add16x2 :: IROp where "Iop_Add16x2 \<equiv> 5391"
abbreviation (input) Iop_Sub16x2 :: IROp where "Iop_Sub16x2 \<equiv> 5392"
abbreviation (input) Iop_QAdd16Sx2 :: IROp where "Iop_QAdd16Sx2 \<equiv> 5393"
abbreviation (input) Iop_QAdd16Ux2 :: IROp where "Iop_QAdd16Ux2 \<equiv> 5394"
abbreviation (input) Iop_QSub16Sx2 :: IROp where "Iop_QSub16Sx2 \<equiv> 5395"
abbreviation (input) Iop_QSub16Ux2 :: IROp where "Iop_QSub16Ux2 \<equiv> 5396"
abbreviation (input) Iop_HAdd16Ux2 :: IROp where "Iop_HAdd16Ux2 \<equiv> 5397"
abbreviation (input) Iop_HAdd16Sx2 :: IROp where "Iop_HAdd16Sx2 \<equiv> 5398"
abbreviation (input) Iop_HSub16Ux2 :: IROp where "Iop_HSub16Ux2 \<equiv> 5399"
abbreviation (input) Iop_HSub16Sx2 :: IROp where "Iop_HSub16Sx2 \<equiv> 5400"
abbreviation (input) Iop_Add8x4 :: IROp where "Iop_Add8x4 \<equiv> 5401"
abbreviation (input) Iop_Sub8x4 :: IROp where "Iop_Sub8x4 \<equiv> 5402"
abbreviation (input) Iop_QAdd8Sx4 :: IROp where "Iop_QAdd8Sx4 \<equiv> 5403"
abbreviation (input) Iop_QAdd8Ux4 :: IROp where "Iop_QAdd8Ux4 \<equiv> 5404"
abbreviation (input) Iop_QSub8Sx4 :: IROp where "Iop_QSub8Sx4 \<equiv> 5405"
abbreviation (input) Iop_QSub8Ux4 :: IROp where "Iop_QSub8Ux4 \<equiv> 5406"
abbreviation (input) Iop_HAdd8Ux4 :: IROp where "Iop_HAdd8Ux4 \<equiv> 5407"
abbreviation (input) Iop_HAdd8Sx4 :: IROp where "Iop_HAdd8Sx4 \<equiv> 5408"
abbreviation (input) Iop_HSub8Ux4 :: IROp where "Iop_HSub8Ux4 \<equiv> 5409"
abbreviation (input) Iop_HSub8Sx4 :: IROp where "Iop_HSub8Sx4 \<equiv> 5410"
abbreviation (input) Iop_Sad8Ux4 :: IROp where "Iop_Sad8Ux4 \<equiv> 5411"
abbreviation (input) Iop_CmpNEZ16x2 :: IROp where "Iop_CmpNEZ16x2 \<equiv> 5412"
abbreviation (input) Iop_CmpNEZ8x4 :: IROp where "Iop_CmpNEZ8x4 \<equiv> 5413"
abbreviation (input) Iop_Reverse8sIn32_x1 :: IROp where "Iop_Reverse8sIn32_x1 \<equiv> 5414"
abbreviation (input) Iop_I32UtoF32x2_DEP :: IROp where "Iop_I32UtoF32x2_DEP \<equiv> 5415"
abbreviation (input) Iop_I32StoF32x2_DEP :: IROp where "Iop_I32StoF32x2_DEP \<equiv> 5416"
abbreviation (input) Iop_F32toI32Ux2_RZ :: IROp where "Iop_F32toI32Ux2_RZ \<equiv> 5417"
abbreviation (input) Iop_F32toI32Sx2_RZ :: IROp where "Iop_F32toI32Sx2_RZ \<equiv> 5418"
abbreviation (input) Iop_F32ToFixed32Ux2_RZ :: IROp where "Iop_F32ToFixed32Ux2_RZ \<equiv> 5419"
abbreviation (input) Iop_F32ToFixed32Sx2_RZ :: IROp where "Iop_F32ToFixed32Sx2_RZ \<equiv> 5420"
abbreviation (input) Iop_Fixed32UToF32x2_RN :: IROp where "Iop_Fixed32UToF32x2_RN \<equiv> 5421"
abbreviation (input) Iop_Fixed32SToF32x2_RN :: IROp where "Iop_Fixed32SToF32x2_RN \<equiv> 5422"
abbreviation (input) Iop_Max32Fx2 :: IROp where "Iop_Max32Fx2 \<equiv> 5423"
abbreviation (input) Iop_Min32Fx2 :: IROp where "Iop_Min32Fx2 \<equiv> 5424"
abbreviation (input) Iop_PwMax32Fx2 :: IROp where "Iop_PwMax32Fx2 \<equiv> 5425"
abbreviation (input) Iop_PwMin32Fx2 :: IROp where "Iop_PwMin32Fx2 \<equiv> 5426"
abbreviation (input) Iop_CmpEQ32Fx2 :: IROp where "Iop_CmpEQ32Fx2 \<equiv> 5427"
abbreviation (input) Iop_CmpGT32Fx2 :: IROp where "Iop_CmpGT32Fx2 \<equiv> 5428"
abbreviation (input) Iop_CmpGE32Fx2 :: IROp where "Iop_CmpGE32Fx2 \<equiv> 5429"
abbreviation (input) Iop_RecipEst32Fx2 :: IROp where "Iop_RecipEst32Fx2 \<equiv> 5430"
abbreviation (input) Iop_RecipStep32Fx2 :: IROp where "Iop_RecipStep32Fx2 \<equiv> 5431"
abbreviation (input) Iop_RSqrtEst32Fx2 :: IROp where "Iop_RSqrtEst32Fx2 \<equiv> 5432"
abbreviation (input) Iop_RSqrtStep32Fx2 :: IROp where "Iop_RSqrtStep32Fx2 \<equiv> 5433"
abbreviation (input) Iop_Neg32Fx2 :: IROp where "Iop_Neg32Fx2 \<equiv> 5434"
abbreviation (input) Iop_Abs32Fx2 :: IROp where "Iop_Abs32Fx2 \<equiv> 5435"
abbreviation (input) Iop_CmpNEZ8x8 :: IROp where "Iop_CmpNEZ8x8 \<equiv> 5436"
abbreviation (input) Iop_CmpNEZ16x4 :: IROp where "Iop_CmpNEZ16x4 \<equiv> 5437"
abbreviation (input) Iop_CmpNEZ32x2 :: IROp where "Iop_CmpNEZ32x2 \<equiv> 5438"
abbreviation (input) Iop_Add8x8 :: IROp where "Iop_Add8x8 \<equiv> 5439"
abbreviation (input) Iop_Add16x4 :: IROp where "Iop_Add16x4 \<equiv> 5440"
abbreviation (input) Iop_Add32x2 :: IROp where "Iop_Add32x2 \<equiv> 5441"
abbreviation (input) Iop_QAdd8Ux8 :: IROp where "Iop_QAdd8Ux8 \<equiv> 5442"
abbreviation (input) Iop_QAdd16Ux4 :: IROp where "Iop_QAdd16Ux4 \<equiv> 5443"
abbreviation (input) Iop_QAdd32Ux2 :: IROp where "Iop_QAdd32Ux2 \<equiv> 5444"
abbreviation (input) Iop_QAdd64Ux1 :: IROp where "Iop_QAdd64Ux1 \<equiv> 5445"
abbreviation (input) Iop_QAdd8Sx8 :: IROp where "Iop_QAdd8Sx8 \<equiv> 5446"
abbreviation (input) Iop_QAdd16Sx4 :: IROp where "Iop_QAdd16Sx4 \<equiv> 5447"
abbreviation (input) Iop_QAdd32Sx2 :: IROp where "Iop_QAdd32Sx2 \<equiv> 5448"
abbreviation (input) Iop_QAdd64Sx1 :: IROp where "Iop_QAdd64Sx1 \<equiv> 5449"
abbreviation (input) Iop_PwAdd8x8 :: IROp where "Iop_PwAdd8x8 \<equiv> 5450"
abbreviation (input) Iop_PwAdd16x4 :: IROp where "Iop_PwAdd16x4 \<equiv> 5451"
abbreviation (input) Iop_PwAdd32x2 :: IROp where "Iop_PwAdd32x2 \<equiv> 5452"
abbreviation (input) Iop_PwMax8Sx8 :: IROp where "Iop_PwMax8Sx8 \<equiv> 5453"
abbreviation (input) Iop_PwMax16Sx4 :: IROp where "Iop_PwMax16Sx4 \<equiv> 5454"
abbreviation (input) Iop_PwMax32Sx2 :: IROp where "Iop_PwMax32Sx2 \<equiv> 5455"
abbreviation (input) Iop_PwMax8Ux8 :: IROp where "Iop_PwMax8Ux8 \<equiv> 5456"
abbreviation (input) Iop_PwMax16Ux4 :: IROp where "Iop_PwMax16Ux4 \<equiv> 5457"
abbreviation (input) Iop_PwMax32Ux2 :: IROp where "Iop_PwMax32Ux2 \<equiv> 5458"
abbreviation (input) Iop_PwMin8Sx8 :: IROp where "Iop_PwMin8Sx8 \<equiv> 5459"
abbreviation (input) Iop_PwMin16Sx4 :: IROp where "Iop_PwMin16Sx4 \<equiv> 5460"
abbreviation (input) Iop_PwMin32Sx2 :: IROp where "Iop_PwMin32Sx2 \<equiv> 5461"
abbreviation (input) Iop_PwMin8Ux8 :: IROp where "Iop_PwMin8Ux8 \<equiv> 5462"
abbreviation (input) Iop_PwMin16Ux4 :: IROp where "Iop_PwMin16Ux4 \<equiv> 5463"
abbreviation (input) Iop_PwMin32Ux2 :: IROp where "Iop_PwMin32Ux2 \<equiv> 5464"
abbreviation (input) Iop_PwAddL8Ux8 :: IROp where "Iop_PwAddL8Ux8 \<equiv> 5465"
abbreviation (input) Iop_PwAddL16Ux4 :: IROp where "Iop_PwAddL16Ux4 \<equiv> 5466"
abbreviation (input) Iop_PwAddL32Ux2 :: IROp where "Iop_PwAddL32Ux2 \<equiv> 5467"
abbreviation (input) Iop_PwAddL8Sx8 :: IROp where "Iop_PwAddL8Sx8 \<equiv> 5468"
abbreviation (input) Iop_PwAddL16Sx4 :: IROp where "Iop_PwAddL16Sx4 \<equiv> 5469"
abbreviation (input) Iop_PwAddL32Sx2 :: IROp where "Iop_PwAddL32Sx2 \<equiv> 5470"
abbreviation (input) Iop_Sub8x8 :: IROp where "Iop_Sub8x8 \<equiv> 5471"
abbreviation (input) Iop_Sub16x4 :: IROp where "Iop_Sub16x4 \<equiv> 5472"
abbreviation (input) Iop_Sub32x2 :: IROp where "Iop_Sub32x2 \<equiv> 5473"
abbreviation (input) Iop_QSub8Ux8 :: IROp where "Iop_QSub8Ux8 \<equiv> 5474"
abbreviation (input) Iop_QSub16Ux4 :: IROp where "Iop_QSub16Ux4 \<equiv> 5475"
abbreviation (input) Iop_QSub32Ux2 :: IROp where "Iop_QSub32Ux2 \<equiv> 5476"
abbreviation (input) Iop_QSub64Ux1 :: IROp where "Iop_QSub64Ux1 \<equiv> 5477"
abbreviation (input) Iop_QSub8Sx8 :: IROp where "Iop_QSub8Sx8 \<equiv> 5478"
abbreviation (input) Iop_QSub16Sx4 :: IROp where "Iop_QSub16Sx4 \<equiv> 5479"
abbreviation (input) Iop_QSub32Sx2 :: IROp where "Iop_QSub32Sx2 \<equiv> 5480"
abbreviation (input) Iop_QSub64Sx1 :: IROp where "Iop_QSub64Sx1 \<equiv> 5481"
abbreviation (input) Iop_Abs8x8 :: IROp where "Iop_Abs8x8 \<equiv> 5482"
abbreviation (input) Iop_Abs16x4 :: IROp where "Iop_Abs16x4 \<equiv> 5483"
abbreviation (input) Iop_Abs32x2 :: IROp where "Iop_Abs32x2 \<equiv> 5484"
abbreviation (input) Iop_Mul8x8 :: IROp where "Iop_Mul8x8 \<equiv> 5485"
abbreviation (input) Iop_Mul16x4 :: IROp where "Iop_Mul16x4 \<equiv> 5486"
abbreviation (input) Iop_Mul32x2 :: IROp where "Iop_Mul32x2 \<equiv> 5487"
abbreviation (input) Iop_Mul32Fx2 :: IROp where "Iop_Mul32Fx2 \<equiv> 5488"
abbreviation (input) Iop_MulHi16Ux4 :: IROp where "Iop_MulHi16Ux4 \<equiv> 5489"
abbreviation (input) Iop_MulHi16Sx4 :: IROp where "Iop_MulHi16Sx4 \<equiv> 5490"
abbreviation (input) Iop_PolynomialMul8x8 :: IROp where "Iop_PolynomialMul8x8 \<equiv> 5491"
abbreviation (input) Iop_QDMulHi16Sx4 :: IROp where "Iop_QDMulHi16Sx4 \<equiv> 5492"
abbreviation (input) Iop_QDMulHi32Sx2 :: IROp where "Iop_QDMulHi32Sx2 \<equiv> 5493"
abbreviation (input) Iop_QRDMulHi16Sx4 :: IROp where "Iop_QRDMulHi16Sx4 \<equiv> 5494"
abbreviation (input) Iop_QRDMulHi32Sx2 :: IROp where "Iop_QRDMulHi32Sx2 \<equiv> 5495"
abbreviation (input) Iop_Avg8Ux8 :: IROp where "Iop_Avg8Ux8 \<equiv> 5496"
abbreviation (input) Iop_Avg16Ux4 :: IROp where "Iop_Avg16Ux4 \<equiv> 5497"
abbreviation (input) Iop_Max8Sx8 :: IROp where "Iop_Max8Sx8 \<equiv> 5498"
abbreviation (input) Iop_Max16Sx4 :: IROp where "Iop_Max16Sx4 \<equiv> 5499"
abbreviation (input) Iop_Max32Sx2 :: IROp where "Iop_Max32Sx2 \<equiv> 5500"
abbreviation (input) Iop_Max8Ux8 :: IROp where "Iop_Max8Ux8 \<equiv> 5501"
abbreviation (input) Iop_Max16Ux4 :: IROp where "Iop_Max16Ux4 \<equiv> 5502"
abbreviation (input) Iop_Max32Ux2 :: IROp where "Iop_Max32Ux2 \<equiv> 5503"
abbreviation (input) Iop_Min8Sx8 :: IROp where "Iop_Min8Sx8 \<equiv> 5504"
abbreviation (input) Iop_Min16Sx4 :: IROp where "Iop_Min16Sx4 \<equiv> 5505"
abbreviation (input) Iop_Min32Sx2 :: IROp where "Iop_Min32Sx2 \<equiv> 5506"
abbreviation (input) Iop_Min8Ux8 :: IROp where "Iop_Min8Ux8 \<equiv> 5507"
abbreviation (input) Iop_Min16Ux4 :: IROp where "Iop_Min16Ux4 \<equiv> 5508"
abbreviation (input) Iop_Min32Ux2 :: IROp where "Iop_Min32Ux2 \<equiv> 5509"
abbreviation (input) Iop_CmpEQ8x8 :: IROp where "Iop_CmpEQ8x8 \<equiv> 5510"
abbreviation (input) Iop_CmpEQ16x4 :: IROp where "Iop_CmpEQ16x4 \<equiv> 5511"
abbreviation (input) Iop_CmpEQ32x2 :: IROp where "Iop_CmpEQ32x2 \<equiv> 5512"
abbreviation (input) Iop_CmpGT8Ux8 :: IROp where "Iop_CmpGT8Ux8 \<equiv> 5513"
abbreviation (input) Iop_CmpGT16Ux4 :: IROp where "Iop_CmpGT16Ux4 \<equiv> 5514"
abbreviation (input) Iop_CmpGT32Ux2 :: IROp where "Iop_CmpGT32Ux2 \<equiv> 5515"
abbreviation (input) Iop_CmpGT8Sx8 :: IROp where "Iop_CmpGT8Sx8 \<equiv> 5516"
abbreviation (input) Iop_CmpGT16Sx4 :: IROp where "Iop_CmpGT16Sx4 \<equiv> 5517"
abbreviation (input) Iop_CmpGT32Sx2 :: IROp where "Iop_CmpGT32Sx2 \<equiv> 5518"
abbreviation (input) Iop_Cnt8x8 :: IROp where "Iop_Cnt8x8 \<equiv> 5519"
abbreviation (input) Iop_Clz8x8 :: IROp where "Iop_Clz8x8 \<equiv> 5520"
abbreviation (input) Iop_Clz16x4 :: IROp where "Iop_Clz16x4 \<equiv> 5521"
abbreviation (input) Iop_Clz32x2 :: IROp where "Iop_Clz32x2 \<equiv> 5522"
abbreviation (input) Iop_Cls8x8 :: IROp where "Iop_Cls8x8 \<equiv> 5523"
abbreviation (input) Iop_Cls16x4 :: IROp where "Iop_Cls16x4 \<equiv> 5524"
abbreviation (input) Iop_Cls32x2 :: IROp where "Iop_Cls32x2 \<equiv> 5525"
abbreviation (input) Iop_Clz64x2 :: IROp where "Iop_Clz64x2 \<equiv> 5526"
abbreviation (input) Iop_Ctz8x16 :: IROp where "Iop_Ctz8x16 \<equiv> 5527"
abbreviation (input) Iop_Ctz16x8 :: IROp where "Iop_Ctz16x8 \<equiv> 5528"
abbreviation (input) Iop_Ctz32x4 :: IROp where "Iop_Ctz32x4 \<equiv> 5529"
abbreviation (input) Iop_Ctz64x2 :: IROp where "Iop_Ctz64x2 \<equiv> 5530"
abbreviation (input) Iop_Shl8x8 :: IROp where "Iop_Shl8x8 \<equiv> 5531"
abbreviation (input) Iop_Shl16x4 :: IROp where "Iop_Shl16x4 \<equiv> 5532"
abbreviation (input) Iop_Shl32x2 :: IROp where "Iop_Shl32x2 \<equiv> 5533"
abbreviation (input) Iop_Shr8x8 :: IROp where "Iop_Shr8x8 \<equiv> 5534"
abbreviation (input) Iop_Shr16x4 :: IROp where "Iop_Shr16x4 \<equiv> 5535"
abbreviation (input) Iop_Shr32x2 :: IROp where "Iop_Shr32x2 \<equiv> 5536"
abbreviation (input) Iop_Sar8x8 :: IROp where "Iop_Sar8x8 \<equiv> 5537"
abbreviation (input) Iop_Sar16x4 :: IROp where "Iop_Sar16x4 \<equiv> 5538"
abbreviation (input) Iop_Sar32x2 :: IROp where "Iop_Sar32x2 \<equiv> 5539"
abbreviation (input) Iop_Sal8x8 :: IROp where "Iop_Sal8x8 \<equiv> 5540"
abbreviation (input) Iop_Sal16x4 :: IROp where "Iop_Sal16x4 \<equiv> 5541"
abbreviation (input) Iop_Sal32x2 :: IROp where "Iop_Sal32x2 \<equiv> 5542"
abbreviation (input) Iop_Sal64x1 :: IROp where "Iop_Sal64x1 \<equiv> 5543"
abbreviation (input) Iop_ShlN8x8 :: IROp where "Iop_ShlN8x8 \<equiv> 5544"
abbreviation (input) Iop_ShlN16x4 :: IROp where "Iop_ShlN16x4 \<equiv> 5545"
abbreviation (input) Iop_ShlN32x2 :: IROp where "Iop_ShlN32x2 \<equiv> 5546"
abbreviation (input) Iop_ShrN8x8 :: IROp where "Iop_ShrN8x8 \<equiv> 5547"
abbreviation (input) Iop_ShrN16x4 :: IROp where "Iop_ShrN16x4 \<equiv> 5548"
abbreviation (input) Iop_ShrN32x2 :: IROp where "Iop_ShrN32x2 \<equiv> 5549"
abbreviation (input) Iop_SarN8x8 :: IROp where "Iop_SarN8x8 \<equiv> 5550"
abbreviation (input) Iop_SarN16x4 :: IROp where "Iop_SarN16x4 \<equiv> 5551"
abbreviation (input) Iop_SarN32x2 :: IROp where "Iop_SarN32x2 \<equiv> 5552"
abbreviation (input) Iop_QShl8x8 :: IROp where "Iop_QShl8x8 \<equiv> 5553"
abbreviation (input) Iop_QShl16x4 :: IROp where "Iop_QShl16x4 \<equiv> 5554"
abbreviation (input) Iop_QShl32x2 :: IROp where "Iop_QShl32x2 \<equiv> 5555"
abbreviation (input) Iop_QShl64x1 :: IROp where "Iop_QShl64x1 \<equiv> 5556"
abbreviation (input) Iop_QSal8x8 :: IROp where "Iop_QSal8x8 \<equiv> 5557"
abbreviation (input) Iop_QSal16x4 :: IROp where "Iop_QSal16x4 \<equiv> 5558"
abbreviation (input) Iop_QSal32x2 :: IROp where "Iop_QSal32x2 \<equiv> 5559"
abbreviation (input) Iop_QSal64x1 :: IROp where "Iop_QSal64x1 \<equiv> 5560"
abbreviation (input) Iop_QShlNsatSU8x8 :: IROp where "Iop_QShlNsatSU8x8 \<equiv> 5561"
abbreviation (input) Iop_QShlNsatSU16x4 :: IROp where "Iop_QShlNsatSU16x4 \<equiv> 5562"
abbreviation (input) Iop_QShlNsatSU32x2 :: IROp where "Iop_QShlNsatSU32x2 \<equiv> 5563"
abbreviation (input) Iop_QShlNsatSU64x1 :: IROp where "Iop_QShlNsatSU64x1 \<equiv> 5564"
abbreviation (input) Iop_QShlNsatUU8x8 :: IROp where "Iop_QShlNsatUU8x8 \<equiv> 5565"
abbreviation (input) Iop_QShlNsatUU16x4 :: IROp where "Iop_QShlNsatUU16x4 \<equiv> 5566"
abbreviation (input) Iop_QShlNsatUU32x2 :: IROp where "Iop_QShlNsatUU32x2 \<equiv> 5567"
abbreviation (input) Iop_QShlNsatUU64x1 :: IROp where "Iop_QShlNsatUU64x1 \<equiv> 5568"
abbreviation (input) Iop_QShlNsatSS8x8 :: IROp where "Iop_QShlNsatSS8x8 \<equiv> 5569"
abbreviation (input) Iop_QShlNsatSS16x4 :: IROp where "Iop_QShlNsatSS16x4 \<equiv> 5570"
abbreviation (input) Iop_QShlNsatSS32x2 :: IROp where "Iop_QShlNsatSS32x2 \<equiv> 5571"
abbreviation (input) Iop_QShlNsatSS64x1 :: IROp where "Iop_QShlNsatSS64x1 \<equiv> 5572"
abbreviation (input) Iop_QNarrowBin16Sto8Ux8 :: IROp where "Iop_QNarrowBin16Sto8Ux8 \<equiv> 5573"
abbreviation (input) Iop_QNarrowBin16Sto8Sx8 :: IROp where "Iop_QNarrowBin16Sto8Sx8 \<equiv> 5574"
abbreviation (input) Iop_QNarrowBin32Sto16Sx4 :: IROp where "Iop_QNarrowBin32Sto16Sx4 \<equiv> 5575"
abbreviation (input) Iop_NarrowBin16to8x8 :: IROp where "Iop_NarrowBin16to8x8 \<equiv> 5576"
abbreviation (input) Iop_NarrowBin32to16x4 :: IROp where "Iop_NarrowBin32to16x4 \<equiv> 5577"
abbreviation (input) Iop_InterleaveHI8x8 :: IROp where "Iop_InterleaveHI8x8 \<equiv> 5578"
abbreviation (input) Iop_InterleaveHI16x4 :: IROp where "Iop_InterleaveHI16x4 \<equiv> 5579"
abbreviation (input) Iop_InterleaveHI32x2 :: IROp where "Iop_InterleaveHI32x2 \<equiv> 5580"
abbreviation (input) Iop_InterleaveLO8x8 :: IROp where "Iop_InterleaveLO8x8 \<equiv> 5581"
abbreviation (input) Iop_InterleaveLO16x4 :: IROp where "Iop_InterleaveLO16x4 \<equiv> 5582"
abbreviation (input) Iop_InterleaveLO32x2 :: IROp where "Iop_InterleaveLO32x2 \<equiv> 5583"
abbreviation (input) Iop_InterleaveOddLanes8x8 :: IROp where "Iop_InterleaveOddLanes8x8 \<equiv> 5584"
abbreviation (input) Iop_InterleaveEvenLanes8x8 :: IROp where "Iop_InterleaveEvenLanes8x8 \<equiv> 5585"
abbreviation (input) Iop_InterleaveOddLanes16x4 :: IROp where "Iop_InterleaveOddLanes16x4 \<equiv> 5586"
abbreviation (input) Iop_InterleaveEvenLanes16x4 :: IROp where "Iop_InterleaveEvenLanes16x4 \<equiv> 5587"
abbreviation (input) Iop_CatOddLanes8x8 :: IROp where "Iop_CatOddLanes8x8 \<equiv> 5588"
abbreviation (input) Iop_CatOddLanes16x4 :: IROp where "Iop_CatOddLanes16x4 \<equiv> 5589"
abbreviation (input) Iop_CatEvenLanes8x8 :: IROp where "Iop_CatEvenLanes8x8 \<equiv> 5590"
abbreviation (input) Iop_CatEvenLanes16x4 :: IROp where "Iop_CatEvenLanes16x4 \<equiv> 5591"
abbreviation (input) Iop_GetElem8x8 :: IROp where "Iop_GetElem8x8 \<equiv> 5592"
abbreviation (input) Iop_GetElem16x4 :: IROp where "Iop_GetElem16x4 \<equiv> 5593"
abbreviation (input) Iop_GetElem32x2 :: IROp where "Iop_GetElem32x2 \<equiv> 5594"
abbreviation (input) Iop_SetElem8x8 :: IROp where "Iop_SetElem8x8 \<equiv> 5595"
abbreviation (input) Iop_SetElem16x4 :: IROp where "Iop_SetElem16x4 \<equiv> 5596"
abbreviation (input) Iop_SetElem32x2 :: IROp where "Iop_SetElem32x2 \<equiv> 5597"
abbreviation (input) Iop_Dup8x8 :: IROp where "Iop_Dup8x8 \<equiv> 5598"
abbreviation (input) Iop_Dup16x4 :: IROp where "Iop_Dup16x4 \<equiv> 5599"
abbreviation (input) Iop_Dup32x2 :: IROp where "Iop_Dup32x2 \<equiv> 5600"
abbreviation (input) Iop_Slice64 :: IROp where "Iop_Slice64 \<equiv> 5601"
abbreviation (input) Iop_Reverse8sIn16_x4 :: IROp where "Iop_Reverse8sIn16_x4 \<equiv> 5602"
abbreviation (input) Iop_Reverse8sIn32_x2 :: IROp where "Iop_Reverse8sIn32_x2 \<equiv> 5603"
abbreviation (input) Iop_Reverse16sIn32_x2 :: IROp where "Iop_Reverse16sIn32_x2 \<equiv> 5604"
abbreviation (input) Iop_Reverse8sIn64_x1 :: IROp where "Iop_Reverse8sIn64_x1 \<equiv> 5605"
abbreviation (input) Iop_Reverse16sIn64_x1 :: IROp where "Iop_Reverse16sIn64_x1 \<equiv> 5606"
abbreviation (input) Iop_Reverse32sIn64_x1 :: IROp where "Iop_Reverse32sIn64_x1 \<equiv> 5607"
abbreviation (input) Iop_Perm8x8 :: IROp where "Iop_Perm8x8 \<equiv> 5608"
abbreviation (input) Iop_PermOrZero8x8 :: IROp where "Iop_PermOrZero8x8 \<equiv> 5609"
abbreviation (input) Iop_GetMSBs8x8 :: IROp where "Iop_GetMSBs8x8 \<equiv> 5610"
abbreviation (input) Iop_RecipEst32Ux2 :: IROp where "Iop_RecipEst32Ux2 \<equiv> 5611"
abbreviation (input) Iop_RSqrtEst32Ux2 :: IROp where "Iop_RSqrtEst32Ux2 \<equiv> 5612"
abbreviation (input) Iop_AddD64 :: IROp where "Iop_AddD64 \<equiv> 5613"
abbreviation (input) Iop_SubD64 :: IROp where "Iop_SubD64 \<equiv> 5614"
abbreviation (input) Iop_MulD64 :: IROp where "Iop_MulD64 \<equiv> 5615"
abbreviation (input) Iop_DivD64 :: IROp where "Iop_DivD64 \<equiv> 5616"
abbreviation (input) Iop_AddD128 :: IROp where "Iop_AddD128 \<equiv> 5617"
abbreviation (input) Iop_SubD128 :: IROp where "Iop_SubD128 \<equiv> 5618"
abbreviation (input) Iop_MulD128 :: IROp where "Iop_MulD128 \<equiv> 5619"
abbreviation (input) Iop_DivD128 :: IROp where "Iop_DivD128 \<equiv> 5620"
abbreviation (input) Iop_ShlD64 :: IROp where "Iop_ShlD64 \<equiv> 5621"
abbreviation (input) Iop_ShrD64 :: IROp where "Iop_ShrD64 \<equiv> 5622"
abbreviation (input) Iop_ShlD128 :: IROp where "Iop_ShlD128 \<equiv> 5623"
abbreviation (input) Iop_ShrD128 :: IROp where "Iop_ShrD128 \<equiv> 5624"
abbreviation (input) Iop_D32toD64 :: IROp where "Iop_D32toD64 \<equiv> 5625"
abbreviation (input) Iop_D64toD128 :: IROp where "Iop_D64toD128 \<equiv> 5626"
abbreviation (input) Iop_I32StoD128 :: IROp where "Iop_I32StoD128 \<equiv> 5627"
abbreviation (input) Iop_I32UtoD128 :: IROp where "Iop_I32UtoD128 \<equiv> 5628"
abbreviation (input) Iop_I64StoD128 :: IROp where "Iop_I64StoD128 \<equiv> 5629"
abbreviation (input) Iop_I64UtoD128 :: IROp where "Iop_I64UtoD128 \<equiv> 5630"
abbreviation (input) Iop_D64toD32 :: IROp where "Iop_D64toD32 \<equiv> 5631"
abbreviation (input) Iop_D128toD64 :: IROp where "Iop_D128toD64 \<equiv> 5632"
abbreviation (input) Iop_I32StoD64 :: IROp where "Iop_I32StoD64 \<equiv> 5633"
abbreviation (input) Iop_I32UtoD64 :: IROp where "Iop_I32UtoD64 \<equiv> 5634"
abbreviation (input) Iop_I64StoD64 :: IROp where "Iop_I64StoD64 \<equiv> 5635"
abbreviation (input) Iop_I64UtoD64 :: IROp where "Iop_I64UtoD64 \<equiv> 5636"
abbreviation (input) Iop_D64toI32S :: IROp where "Iop_D64toI32S \<equiv> 5637"
abbreviation (input) Iop_D64toI32U :: IROp where "Iop_D64toI32U \<equiv> 5638"
abbreviation (input) Iop_D64toI64S :: IROp where "Iop_D64toI64S \<equiv> 5639"
abbreviation (input) Iop_D64toI64U :: IROp where "Iop_D64toI64U \<equiv> 5640"
abbreviation (input) Iop_D128toI32S :: IROp where "Iop_D128toI32S \<equiv> 5641"
abbreviation (input) Iop_D128toI32U :: IROp where "Iop_D128toI32U \<equiv> 5642"
abbreviation (input) Iop_D128toI64S :: IROp where "Iop_D128toI64S \<equiv> 5643"
abbreviation (input) Iop_D128toI64U :: IROp where "Iop_D128toI64U \<equiv> 5644"
abbreviation (input) Iop_F32toD32 :: IROp where "Iop_F32toD32 \<equiv> 5645"
abbreviation (input) Iop_F32toD64 :: IROp where "Iop_F32toD64 \<equiv> 5646"
abbreviation (input) Iop_F32toD128 :: IROp where "Iop_F32toD128 \<equiv> 5647"
abbreviation (input) Iop_F64toD32 :: IROp where "Iop_F64toD32 \<equiv> 5648"
abbreviation (input) Iop_F64toD64 :: IROp where "Iop_F64toD64 \<equiv> 5649"
abbreviation (input) Iop_F64toD128 :: IROp where "Iop_F64toD128 \<equiv> 5650"
abbreviation (input) Iop_F128toD32 :: IROp where "Iop_F128toD32 \<equiv> 5651"
abbreviation (input) Iop_F128toD64 :: IROp where "Iop_F128toD64 \<equiv> 5652"
abbreviation (input) Iop_F128toD128 :: IROp where "Iop_F128toD128 \<equiv> 5653"
abbreviation (input) Iop_D32toF32 :: IROp where "Iop_D32toF32 \<equiv> 5654"
abbreviation (input) Iop_D32toF64 :: IROp where "Iop_D32toF64 \<equiv> 5655"
abbreviation (input) Iop_D32toF128 :: IROp where "Iop_D32toF128 \<equiv> 5656"
abbreviation (input) Iop_D64toF32 :: IROp where "Iop_D64toF32 \<equiv> 5657"
abbreviation (input) Iop_D64toF64 :: IROp where "Iop_D64toF64 \<equiv> 5658"
abbreviation (input) Iop_D64toF128 :: IROp where "Iop_D64toF128 \<equiv> 5659"
abbreviation (input) Iop_D128toF32 :: IROp where "Iop_D128toF32 \<equiv> 5660"
abbreviation (input) Iop_D128toF64 :: IROp where "Iop_D128toF64 \<equiv> 5661"
abbreviation (input) Iop_D128toF128 :: IROp where "Iop_D128toF128 \<equiv> 5662"
abbreviation (input) Iop_RoundD64toInt :: IROp where "Iop_RoundD64toInt \<equiv> 5663"
abbreviation (input) Iop_RoundD128toInt :: IROp where "Iop_RoundD128toInt \<equiv> 5664"
abbreviation (input) Iop_CmpD64 :: IROp where "Iop_CmpD64 \<equiv> 5665"
abbreviation (input) Iop_CmpD128 :: IROp where "Iop_CmpD128 \<equiv> 5666"
abbreviation (input) Iop_CmpExpD64 :: IROp where "Iop_CmpExpD64 \<equiv> 5667"
abbreviation (input) Iop_CmpExpD128 :: IROp where "Iop_CmpExpD128 \<equiv> 5668"
abbreviation (input) Iop_QuantizeD64 :: IROp where "Iop_QuantizeD64 \<equiv> 5669"
abbreviation (input) Iop_QuantizeD128 :: IROp where "Iop_QuantizeD128 \<equiv> 5670"
abbreviation (input) Iop_SignificanceRoundD64 :: IROp where "Iop_SignificanceRoundD64 \<equiv> 5671"
abbreviation (input) Iop_SignificanceRoundD128 :: IROp where "Iop_SignificanceRoundD128 \<equiv> 5672"
abbreviation (input) Iop_ExtractExpD64 :: IROp where "Iop_ExtractExpD64 \<equiv> 5673"
abbreviation (input) Iop_ExtractExpD128 :: IROp where "Iop_ExtractExpD128 \<equiv> 5674"
abbreviation (input) Iop_ExtractSigD64 :: IROp where "Iop_ExtractSigD64 \<equiv> 5675"
abbreviation (input) Iop_ExtractSigD128 :: IROp where "Iop_ExtractSigD128 \<equiv> 5676"
abbreviation (input) Iop_InsertExpD64 :: IROp where "Iop_InsertExpD64 \<equiv> 5677"
abbreviation (input) Iop_InsertExpD128 :: IROp where "Iop_InsertExpD128 \<equiv> 5678"
abbreviation (input) Iop_D64HLtoD128 :: IROp where "Iop_D64HLtoD128 \<equiv> 5679"
abbreviation (input) Iop_D128HItoD64 :: IROp where "Iop_D128HItoD64 \<equiv> 5680"
abbreviation (input) Iop_D128LOtoD64 :: IROp where "Iop_D128LOtoD64 \<equiv> 5681"
abbreviation (input) Iop_DPBtoBCD :: IROp where "Iop_DPBtoBCD \<equiv> 5682"
abbreviation (input) Iop_BCDtoDPB :: IROp where "Iop_BCDtoDPB \<equiv> 5683"
abbreviation (input) Iop_BCDAdd :: IROp where "Iop_BCDAdd \<equiv> 5684"
abbreviation (input) Iop_BCDSub :: IROp where "Iop_BCDSub \<equiv> 5685"
abbreviation (input) Iop_I128StoBCD128 :: IROp where "Iop_I128StoBCD128 \<equiv> 5686"
abbreviation (input) Iop_BCD128toI128S :: IROp where "Iop_BCD128toI128S \<equiv> 5687"
abbreviation (input) Iop_ReinterpI64asD64 :: IROp where "Iop_ReinterpI64asD64 \<equiv> 5688"
abbreviation (input) Iop_ReinterpD64asI64 :: IROp where "Iop_ReinterpD64asI64 \<equiv> 5689"
abbreviation (input) Iop_Add32Fx4 :: IROp where "Iop_Add32Fx4 \<equiv> 5690"
abbreviation (input) Iop_Sub32Fx4 :: IROp where "Iop_Sub32Fx4 \<equiv> 5691"
abbreviation (input) Iop_Mul32Fx4 :: IROp where "Iop_Mul32Fx4 \<equiv> 5692"
abbreviation (input) Iop_Div32Fx4 :: IROp where "Iop_Div32Fx4 \<equiv> 5693"
abbreviation (input) Iop_Max32Fx4 :: IROp where "Iop_Max32Fx4 \<equiv> 5694"
abbreviation (input) Iop_Min32Fx4 :: IROp where "Iop_Min32Fx4 \<equiv> 5695"
abbreviation (input) Iop_Add32Fx2 :: IROp where "Iop_Add32Fx2 \<equiv> 5696"
abbreviation (input) Iop_Sub32Fx2 :: IROp where "Iop_Sub32Fx2 \<equiv> 5697"
abbreviation (input) Iop_CmpEQ32Fx4 :: IROp where "Iop_CmpEQ32Fx4 \<equiv> 5698"
abbreviation (input) Iop_CmpLT32Fx4 :: IROp where "Iop_CmpLT32Fx4 \<equiv> 5699"
abbreviation (input) Iop_CmpLE32Fx4 :: IROp where "Iop_CmpLE32Fx4 \<equiv> 5700"
abbreviation (input) Iop_CmpUN32Fx4 :: IROp where "Iop_CmpUN32Fx4 \<equiv> 5701"
abbreviation (input) Iop_CmpGT32Fx4 :: IROp where "Iop_CmpGT32Fx4 \<equiv> 5702"
abbreviation (input) Iop_CmpGE32Fx4 :: IROp where "Iop_CmpGE32Fx4 \<equiv> 5703"
abbreviation (input) Iop_PwMax32Fx4 :: IROp where "Iop_PwMax32Fx4 \<equiv> 5704"
abbreviation (input) Iop_PwMin32Fx4 :: IROp where "Iop_PwMin32Fx4 \<equiv> 5705"
abbreviation (input) Iop_Abs32Fx4 :: IROp where "Iop_Abs32Fx4 \<equiv> 5706"
abbreviation (input) Iop_Neg32Fx4 :: IROp where "Iop_Neg32Fx4 \<equiv> 5707"
abbreviation (input) Iop_Sqrt32Fx4 :: IROp where "Iop_Sqrt32Fx4 \<equiv> 5708"
abbreviation (input) Iop_RecipEst32Fx4 :: IROp where "Iop_RecipEst32Fx4 \<equiv> 5709"
abbreviation (input) Iop_RecipStep32Fx4 :: IROp where "Iop_RecipStep32Fx4 \<equiv> 5710"
abbreviation (input) Iop_RSqrtEst32Fx4 :: IROp where "Iop_RSqrtEst32Fx4 \<equiv> 5711"
abbreviation (input) Iop_Scale2_32Fx4 :: IROp where "Iop_Scale2_32Fx4 \<equiv> 5712"
abbreviation (input) Iop_Log2_32Fx4 :: IROp where "Iop_Log2_32Fx4 \<equiv> 5713"
abbreviation (input) Iop_RSqrtStep32Fx4 :: IROp where "Iop_RSqrtStep32Fx4 \<equiv> 5714"
abbreviation (input) Iop_I32UtoF32x4_DEP :: IROp where "Iop_I32UtoF32x4_DEP \<equiv> 5715"
abbreviation (input) Iop_I32StoF32x4_DEP :: IROp where "Iop_I32StoF32x4_DEP \<equiv> 5716"
abbreviation (input) Iop_I32StoF32x4 :: IROp where "Iop_I32StoF32x4 \<equiv> 5717"
abbreviation (input) Iop_F32toI32Sx4 :: IROp where "Iop_F32toI32Sx4 \<equiv> 5718"
abbreviation (input) Iop_F32toI32Ux4_RZ :: IROp where "Iop_F32toI32Ux4_RZ \<equiv> 5719"
abbreviation (input) Iop_F32toI32Sx4_RZ :: IROp where "Iop_F32toI32Sx4_RZ \<equiv> 5720"
abbreviation (input) Iop_QF32toI32Ux4_RZ :: IROp where "Iop_QF32toI32Ux4_RZ \<equiv> 5721"
abbreviation (input) Iop_QF32toI32Sx4_RZ :: IROp where "Iop_QF32toI32Sx4_RZ \<equiv> 5722"
abbreviation (input) Iop_RoundF32x4_RM :: IROp where "Iop_RoundF32x4_RM \<equiv> 5723"
abbreviation (input) Iop_RoundF32x4_RP :: IROp where "Iop_RoundF32x4_RP \<equiv> 5724"
abbreviation (input) Iop_RoundF32x4_RN :: IROp where "Iop_RoundF32x4_RN \<equiv> 5725"
abbreviation (input) Iop_RoundF32x4_RZ :: IROp where "Iop_RoundF32x4_RZ \<equiv> 5726"
abbreviation (input) Iop_F32ToFixed32Ux4_RZ :: IROp where "Iop_F32ToFixed32Ux4_RZ \<equiv> 5727"
abbreviation (input) Iop_F32ToFixed32Sx4_RZ :: IROp where "Iop_F32ToFixed32Sx4_RZ \<equiv> 5728"
abbreviation (input) Iop_Fixed32UToF32x4_RN :: IROp where "Iop_Fixed32UToF32x4_RN \<equiv> 5729"
abbreviation (input) Iop_Fixed32SToF32x4_RN :: IROp where "Iop_Fixed32SToF32x4_RN \<equiv> 5730"
abbreviation (input) Iop_F32toF16x4_DEP :: IROp where "Iop_F32toF16x4_DEP \<equiv> 5731"
abbreviation (input) Iop_F32toF16x4 :: IROp where "Iop_F32toF16x4 \<equiv> 5732"
abbreviation (input) Iop_F16toF32x4 :: IROp where "Iop_F16toF32x4 \<equiv> 5733"
abbreviation (input) Iop_F64toF16x2_DEP :: IROp where "Iop_F64toF16x2_DEP \<equiv> 5734"
abbreviation (input) Iop_F16toF64x2 :: IROp where "Iop_F16toF64x2 \<equiv> 5735"
abbreviation (input) Iop_F32x4_2toQ16x8 :: IROp where "Iop_F32x4_2toQ16x8 \<equiv> 5736"
abbreviation (input) Iop_Add32F0x4 :: IROp where "Iop_Add32F0x4 \<equiv> 5737"
abbreviation (input) Iop_Sub32F0x4 :: IROp where "Iop_Sub32F0x4 \<equiv> 5738"
abbreviation (input) Iop_Mul32F0x4 :: IROp where "Iop_Mul32F0x4 \<equiv> 5739"
abbreviation (input) Iop_Div32F0x4 :: IROp where "Iop_Div32F0x4 \<equiv> 5740"
abbreviation (input) Iop_Max32F0x4 :: IROp where "Iop_Max32F0x4 \<equiv> 5741"
abbreviation (input) Iop_Min32F0x4 :: IROp where "Iop_Min32F0x4 \<equiv> 5742"
abbreviation (input) Iop_CmpEQ32F0x4 :: IROp where "Iop_CmpEQ32F0x4 \<equiv> 5743"
abbreviation (input) Iop_CmpLT32F0x4 :: IROp where "Iop_CmpLT32F0x4 \<equiv> 5744"
abbreviation (input) Iop_CmpLE32F0x4 :: IROp where "Iop_CmpLE32F0x4 \<equiv> 5745"
abbreviation (input) Iop_CmpUN32F0x4 :: IROp where "Iop_CmpUN32F0x4 \<equiv> 5746"
abbreviation (input) Iop_RecipEst32F0x4 :: IROp where "Iop_RecipEst32F0x4 \<equiv> 5747"
abbreviation (input) Iop_Sqrt32F0x4 :: IROp where "Iop_Sqrt32F0x4 \<equiv> 5748"
abbreviation (input) Iop_RSqrtEst32F0x4 :: IROp where "Iop_RSqrtEst32F0x4 \<equiv> 5749"
abbreviation (input) Iop_Add64Fx2 :: IROp where "Iop_Add64Fx2 \<equiv> 5750"
abbreviation (input) Iop_Sub64Fx2 :: IROp where "Iop_Sub64Fx2 \<equiv> 5751"
abbreviation (input) Iop_Mul64Fx2 :: IROp where "Iop_Mul64Fx2 \<equiv> 5752"
abbreviation (input) Iop_Div64Fx2 :: IROp where "Iop_Div64Fx2 \<equiv> 5753"
abbreviation (input) Iop_Max64Fx2 :: IROp where "Iop_Max64Fx2 \<equiv> 5754"
abbreviation (input) Iop_Min64Fx2 :: IROp where "Iop_Min64Fx2 \<equiv> 5755"
abbreviation (input) Iop_CmpEQ64Fx2 :: IROp where "Iop_CmpEQ64Fx2 \<equiv> 5756"
abbreviation (input) Iop_CmpLT64Fx2 :: IROp where "Iop_CmpLT64Fx2 \<equiv> 5757"
abbreviation (input) Iop_CmpLE64Fx2 :: IROp where "Iop_CmpLE64Fx2 \<equiv> 5758"
abbreviation (input) Iop_CmpUN64Fx2 :: IROp where "Iop_CmpUN64Fx2 \<equiv> 5759"
abbreviation (input) Iop_Abs64Fx2 :: IROp where "Iop_Abs64Fx2 \<equiv> 5760"
abbreviation (input) Iop_Neg64Fx2 :: IROp where "Iop_Neg64Fx2 \<equiv> 5761"
abbreviation (input) Iop_Sqrt64Fx2 :: IROp where "Iop_Sqrt64Fx2 \<equiv> 5762"
abbreviation (input) Iop_Scale2_64Fx2 :: IROp where "Iop_Scale2_64Fx2 \<equiv> 5763"
abbreviation (input) Iop_Log2_64Fx2 :: IROp where "Iop_Log2_64Fx2 \<equiv> 5764"
abbreviation (input) Iop_RecipEst64Fx2 :: IROp where "Iop_RecipEst64Fx2 \<equiv> 5765"
abbreviation (input) Iop_RecipStep64Fx2 :: IROp where "Iop_RecipStep64Fx2 \<equiv> 5766"
abbreviation (input) Iop_RSqrtEst64Fx2 :: IROp where "Iop_RSqrtEst64Fx2 \<equiv> 5767"
abbreviation (input) Iop_RSqrtStep64Fx2 :: IROp where "Iop_RSqrtStep64Fx2 \<equiv> 5768"
abbreviation (input) Iop_F64x2_2toQ32x4 :: IROp where "Iop_F64x2_2toQ32x4 \<equiv> 5769"
abbreviation (input) Iop_Add64F0x2 :: IROp where "Iop_Add64F0x2 \<equiv> 5770"
abbreviation (input) Iop_Sub64F0x2 :: IROp where "Iop_Sub64F0x2 \<equiv> 5771"
abbreviation (input) Iop_Mul64F0x2 :: IROp where "Iop_Mul64F0x2 \<equiv> 5772"
abbreviation (input) Iop_Div64F0x2 :: IROp where "Iop_Div64F0x2 \<equiv> 5773"
abbreviation (input) Iop_Max64F0x2 :: IROp where "Iop_Max64F0x2 \<equiv> 5774"
abbreviation (input) Iop_Min64F0x2 :: IROp where "Iop_Min64F0x2 \<equiv> 5775"
abbreviation (input) Iop_CmpEQ64F0x2 :: IROp where "Iop_CmpEQ64F0x2 \<equiv> 5776"
abbreviation (input) Iop_CmpLT64F0x2 :: IROp where "Iop_CmpLT64F0x2 \<equiv> 5777"
abbreviation (input) Iop_CmpLE64F0x2 :: IROp where "Iop_CmpLE64F0x2 \<equiv> 5778"
abbreviation (input) Iop_CmpUN64F0x2 :: IROp where "Iop_CmpUN64F0x2 \<equiv> 5779"
abbreviation (input) Iop_Sqrt64F0x2 :: IROp where "Iop_Sqrt64F0x2 \<equiv> 5780"
abbreviation (input) Iop_V128to64 :: IROp where "Iop_V128to64 \<equiv> 5781"
abbreviation (input) Iop_V128HIto64 :: IROp where "Iop_V128HIto64 \<equiv> 5782"
abbreviation (input) Iop_64HLtoV128 :: IROp where "Iop_64HLtoV128 \<equiv> 5783"
abbreviation (input) Iop_64UtoV128 :: IROp where "Iop_64UtoV128 \<equiv> 5784"
abbreviation (input) Iop_SetV128lo64 :: IROp where "Iop_SetV128lo64 \<equiv> 5785"
abbreviation (input) Iop_ZeroHI64ofV128 :: IROp where "Iop_ZeroHI64ofV128 \<equiv> 5786"
abbreviation (input) Iop_ZeroHI96ofV128 :: IROp where "Iop_ZeroHI96ofV128 \<equiv> 5787"
abbreviation (input) Iop_ZeroHI112ofV128 :: IROp where "Iop_ZeroHI112ofV128 \<equiv> 5788"
abbreviation (input) Iop_ZeroHI120ofV128 :: IROp where "Iop_ZeroHI120ofV128 \<equiv> 5789"
abbreviation (input) Iop_32UtoV128 :: IROp where "Iop_32UtoV128 \<equiv> 5790"
abbreviation (input) Iop_V128to32 :: IROp where "Iop_V128to32 \<equiv> 5791"
abbreviation (input) Iop_SetV128lo32 :: IROp where "Iop_SetV128lo32 \<equiv> 5792"
abbreviation (input) Iop_NotV128 :: IROp where "Iop_NotV128 \<equiv> 5793"
abbreviation (input) Iop_AndV128 :: IROp where "Iop_AndV128 \<equiv> 5794"
abbreviation (input) Iop_OrV128 :: IROp where "Iop_OrV128 \<equiv> 5795"
abbreviation (input) Iop_XorV128 :: IROp where "Iop_XorV128 \<equiv> 5796"
abbreviation (input) Iop_ShlV128 :: IROp where "Iop_ShlV128 \<equiv> 5797"
abbreviation (input) Iop_ShrV128 :: IROp where "Iop_ShrV128 \<equiv> 5798"
abbreviation (input) Iop_SarV128 :: IROp where "Iop_SarV128 \<equiv> 5799"
abbreviation (input) Iop_CmpNEZ8x16 :: IROp where "Iop_CmpNEZ8x16 \<equiv> 5800"
abbreviation (input) Iop_CmpNEZ16x8 :: IROp where "Iop_CmpNEZ16x8 \<equiv> 5801"
abbreviation (input) Iop_CmpNEZ32x4 :: IROp where "Iop_CmpNEZ32x4 \<equiv> 5802"
abbreviation (input) Iop_CmpNEZ64x2 :: IROp where "Iop_CmpNEZ64x2 \<equiv> 5803"
abbreviation (input) Iop_CmpNEZ128x1 :: IROp where "Iop_CmpNEZ128x1 \<equiv> 5804"
abbreviation (input) Iop_Add8x16 :: IROp where "Iop_Add8x16 \<equiv> 5805"
abbreviation (input) Iop_Add16x8 :: IROp where "Iop_Add16x8 \<equiv> 5806"
abbreviation (input) Iop_Add32x4 :: IROp where "Iop_Add32x4 \<equiv> 5807"
abbreviation (input) Iop_Add64x2 :: IROp where "Iop_Add64x2 \<equiv> 5808"
abbreviation (input) Iop_Add128x1 :: IROp where "Iop_Add128x1 \<equiv> 5809"
abbreviation (input) Iop_QAdd8Ux16 :: IROp where "Iop_QAdd8Ux16 \<equiv> 5810"
abbreviation (input) Iop_QAdd16Ux8 :: IROp where "Iop_QAdd16Ux8 \<equiv> 5811"
abbreviation (input) Iop_QAdd32Ux4 :: IROp where "Iop_QAdd32Ux4 \<equiv> 5812"
abbreviation (input) Iop_QAdd64Ux2 :: IROp where "Iop_QAdd64Ux2 \<equiv> 5813"
abbreviation (input) Iop_QAdd8Sx16 :: IROp where "Iop_QAdd8Sx16 \<equiv> 5814"
abbreviation (input) Iop_QAdd16Sx8 :: IROp where "Iop_QAdd16Sx8 \<equiv> 5815"
abbreviation (input) Iop_QAdd32Sx4 :: IROp where "Iop_QAdd32Sx4 \<equiv> 5816"
abbreviation (input) Iop_QAdd64Sx2 :: IROp where "Iop_QAdd64Sx2 \<equiv> 5817"
abbreviation (input) Iop_QAddExtUSsatSS8x16 :: IROp where "Iop_QAddExtUSsatSS8x16 \<equiv> 5818"
abbreviation (input) Iop_QAddExtUSsatSS16x8 :: IROp where "Iop_QAddExtUSsatSS16x8 \<equiv> 5819"
abbreviation (input) Iop_QAddExtUSsatSS32x4 :: IROp where "Iop_QAddExtUSsatSS32x4 \<equiv> 5820"
abbreviation (input) Iop_QAddExtUSsatSS64x2 :: IROp where "Iop_QAddExtUSsatSS64x2 \<equiv> 5821"
abbreviation (input) Iop_QAddExtSUsatUU8x16 :: IROp where "Iop_QAddExtSUsatUU8x16 \<equiv> 5822"
abbreviation (input) Iop_QAddExtSUsatUU16x8 :: IROp where "Iop_QAddExtSUsatUU16x8 \<equiv> 5823"
abbreviation (input) Iop_QAddExtSUsatUU32x4 :: IROp where "Iop_QAddExtSUsatUU32x4 \<equiv> 5824"
abbreviation (input) Iop_QAddExtSUsatUU64x2 :: IROp where "Iop_QAddExtSUsatUU64x2 \<equiv> 5825"
abbreviation (input) Iop_Sub8x16 :: IROp where "Iop_Sub8x16 \<equiv> 5826"
abbreviation (input) Iop_Sub16x8 :: IROp where "Iop_Sub16x8 \<equiv> 5827"
abbreviation (input) Iop_Sub32x4 :: IROp where "Iop_Sub32x4 \<equiv> 5828"
abbreviation (input) Iop_Sub64x2 :: IROp where "Iop_Sub64x2 \<equiv> 5829"
abbreviation (input) Iop_Sub128x1 :: IROp where "Iop_Sub128x1 \<equiv> 5830"
abbreviation (input) Iop_QSub8Ux16 :: IROp where "Iop_QSub8Ux16 \<equiv> 5831"
abbreviation (input) Iop_QSub16Ux8 :: IROp where "Iop_QSub16Ux8 \<equiv> 5832"
abbreviation (input) Iop_QSub32Ux4 :: IROp where "Iop_QSub32Ux4 \<equiv> 5833"
abbreviation (input) Iop_QSub64Ux2 :: IROp where "Iop_QSub64Ux2 \<equiv> 5834"
abbreviation (input) Iop_QSub8Sx16 :: IROp where "Iop_QSub8Sx16 \<equiv> 5835"
abbreviation (input) Iop_QSub16Sx8 :: IROp where "Iop_QSub16Sx8 \<equiv> 5836"
abbreviation (input) Iop_QSub32Sx4 :: IROp where "Iop_QSub32Sx4 \<equiv> 5837"
abbreviation (input) Iop_QSub64Sx2 :: IROp where "Iop_QSub64Sx2 \<equiv> 5838"
abbreviation (input) Iop_Mul8x16 :: IROp where "Iop_Mul8x16 \<equiv> 5839"
abbreviation (input) Iop_Mul16x8 :: IROp where "Iop_Mul16x8 \<equiv> 5840"
abbreviation (input) Iop_Mul32x4 :: IROp where "Iop_Mul32x4 \<equiv> 5841"
abbreviation (input) Iop_MulHi8Ux16 :: IROp where "Iop_MulHi8Ux16 \<equiv> 5842"
abbreviation (input) Iop_MulHi16Ux8 :: IROp where "Iop_MulHi16Ux8 \<equiv> 5843"
abbreviation (input) Iop_MulHi32Ux4 :: IROp where "Iop_MulHi32Ux4 \<equiv> 5844"
abbreviation (input) Iop_MulHi8Sx16 :: IROp where "Iop_MulHi8Sx16 \<equiv> 5845"
abbreviation (input) Iop_MulHi16Sx8 :: IROp where "Iop_MulHi16Sx8 \<equiv> 5846"
abbreviation (input) Iop_MulHi32Sx4 :: IROp where "Iop_MulHi32Sx4 \<equiv> 5847"
abbreviation (input) Iop_MullEven8Ux16 :: IROp where "Iop_MullEven8Ux16 \<equiv> 5848"
abbreviation (input) Iop_MullEven16Ux8 :: IROp where "Iop_MullEven16Ux8 \<equiv> 5849"
abbreviation (input) Iop_MullEven32Ux4 :: IROp where "Iop_MullEven32Ux4 \<equiv> 5850"
abbreviation (input) Iop_MullEven8Sx16 :: IROp where "Iop_MullEven8Sx16 \<equiv> 5851"
abbreviation (input) Iop_MullEven16Sx8 :: IROp where "Iop_MullEven16Sx8 \<equiv> 5852"
abbreviation (input) Iop_MullEven32Sx4 :: IROp where "Iop_MullEven32Sx4 \<equiv> 5853"
abbreviation (input) Iop_Mull8Ux8 :: IROp where "Iop_Mull8Ux8 \<equiv> 5854"
abbreviation (input) Iop_Mull8Sx8 :: IROp where "Iop_Mull8Sx8 \<equiv> 5855"
abbreviation (input) Iop_Mull16Ux4 :: IROp where "Iop_Mull16Ux4 \<equiv> 5856"
abbreviation (input) Iop_Mull16Sx4 :: IROp where "Iop_Mull16Sx4 \<equiv> 5857"
abbreviation (input) Iop_Mull32Ux2 :: IROp where "Iop_Mull32Ux2 \<equiv> 5858"
abbreviation (input) Iop_Mull32Sx2 :: IROp where "Iop_Mull32Sx2 \<equiv> 5859"
abbreviation (input) Iop_QDMull16Sx4 :: IROp where "Iop_QDMull16Sx4 \<equiv> 5860"
abbreviation (input) Iop_QDMull32Sx2 :: IROp where "Iop_QDMull32Sx2 \<equiv> 5861"
abbreviation (input) Iop_QDMulHi16Sx8 :: IROp where "Iop_QDMulHi16Sx8 \<equiv> 5862"
abbreviation (input) Iop_QDMulHi32Sx4 :: IROp where "Iop_QDMulHi32Sx4 \<equiv> 5863"
abbreviation (input) Iop_QRDMulHi16Sx8 :: IROp where "Iop_QRDMulHi16Sx8 \<equiv> 5864"
abbreviation (input) Iop_QRDMulHi32Sx4 :: IROp where "Iop_QRDMulHi32Sx4 \<equiv> 5865"
abbreviation (input) Iop_PolynomialMul8x16 :: IROp where "Iop_PolynomialMul8x16 \<equiv> 5866"
abbreviation (input) Iop_PolynomialMull8x8 :: IROp where "Iop_PolynomialMull8x8 \<equiv> 5867"
abbreviation (input) Iop_PolynomialMulAdd8x16 :: IROp where "Iop_PolynomialMulAdd8x16 \<equiv> 5868"
abbreviation (input) Iop_PolynomialMulAdd16x8 :: IROp where "Iop_PolynomialMulAdd16x8 \<equiv> 5869"
abbreviation (input) Iop_PolynomialMulAdd32x4 :: IROp where "Iop_PolynomialMulAdd32x4 \<equiv> 5870"
abbreviation (input) Iop_PolynomialMulAdd64x2 :: IROp where "Iop_PolynomialMulAdd64x2 \<equiv> 5871"
abbreviation (input) Iop_PwAdd8x16 :: IROp where "Iop_PwAdd8x16 \<equiv> 5872"
abbreviation (input) Iop_PwAdd16x8 :: IROp where "Iop_PwAdd16x8 \<equiv> 5873"
abbreviation (input) Iop_PwAdd32x4 :: IROp where "Iop_PwAdd32x4 \<equiv> 5874"
abbreviation (input) Iop_PwAdd32Fx2 :: IROp where "Iop_PwAdd32Fx2 \<equiv> 5875"
abbreviation (input) Iop_PwAddL8Ux16 :: IROp where "Iop_PwAddL8Ux16 \<equiv> 5876"
abbreviation (input) Iop_PwAddL16Ux8 :: IROp where "Iop_PwAddL16Ux8 \<equiv> 5877"
abbreviation (input) Iop_PwAddL32Ux4 :: IROp where "Iop_PwAddL32Ux4 \<equiv> 5878"
abbreviation (input) Iop_PwAddL64Ux2 :: IROp where "Iop_PwAddL64Ux2 \<equiv> 5879"
abbreviation (input) Iop_PwAddL8Sx16 :: IROp where "Iop_PwAddL8Sx16 \<equiv> 5880"
abbreviation (input) Iop_PwAddL16Sx8 :: IROp where "Iop_PwAddL16Sx8 \<equiv> 5881"
abbreviation (input) Iop_PwAddL32Sx4 :: IROp where "Iop_PwAddL32Sx4 \<equiv> 5882"
abbreviation (input) Iop_PwExtUSMulQAdd8x16 :: IROp where "Iop_PwExtUSMulQAdd8x16 \<equiv> 5883"
abbreviation (input) Iop_PwBitMtxXpose64x2 :: IROp where "Iop_PwBitMtxXpose64x2 \<equiv> 5884"
abbreviation (input) Iop_Abs8x16 :: IROp where "Iop_Abs8x16 \<equiv> 5885"
abbreviation (input) Iop_Abs16x8 :: IROp where "Iop_Abs16x8 \<equiv> 5886"
abbreviation (input) Iop_Abs32x4 :: IROp where "Iop_Abs32x4 \<equiv> 5887"
abbreviation (input) Iop_Abs64x2 :: IROp where "Iop_Abs64x2 \<equiv> 5888"
abbreviation (input) Iop_Avg8Ux16 :: IROp where "Iop_Avg8Ux16 \<equiv> 5889"
abbreviation (input) Iop_Avg16Ux8 :: IROp where "Iop_Avg16Ux8 \<equiv> 5890"
abbreviation (input) Iop_Avg32Ux4 :: IROp where "Iop_Avg32Ux4 \<equiv> 5891"
abbreviation (input) Iop_Avg64Ux2 :: IROp where "Iop_Avg64Ux2 \<equiv> 5892"
abbreviation (input) Iop_Avg8Sx16 :: IROp where "Iop_Avg8Sx16 \<equiv> 5893"
abbreviation (input) Iop_Avg16Sx8 :: IROp where "Iop_Avg16Sx8 \<equiv> 5894"
abbreviation (input) Iop_Avg32Sx4 :: IROp where "Iop_Avg32Sx4 \<equiv> 5895"
abbreviation (input) Iop_Avg64Sx2 :: IROp where "Iop_Avg64Sx2 \<equiv> 5896"
abbreviation (input) Iop_Max8Sx16 :: IROp where "Iop_Max8Sx16 \<equiv> 5897"
abbreviation (input) Iop_Max16Sx8 :: IROp where "Iop_Max16Sx8 \<equiv> 5898"
abbreviation (input) Iop_Max32Sx4 :: IROp where "Iop_Max32Sx4 \<equiv> 5899"
abbreviation (input) Iop_Max64Sx2 :: IROp where "Iop_Max64Sx2 \<equiv> 5900"
abbreviation (input) Iop_Max8Ux16 :: IROp where "Iop_Max8Ux16 \<equiv> 5901"
abbreviation (input) Iop_Max16Ux8 :: IROp where "Iop_Max16Ux8 \<equiv> 5902"
abbreviation (input) Iop_Max32Ux4 :: IROp where "Iop_Max32Ux4 \<equiv> 5903"
abbreviation (input) Iop_Max64Ux2 :: IROp where "Iop_Max64Ux2 \<equiv> 5904"
abbreviation (input) Iop_Min8Sx16 :: IROp where "Iop_Min8Sx16 \<equiv> 5905"
abbreviation (input) Iop_Min16Sx8 :: IROp where "Iop_Min16Sx8 \<equiv> 5906"
abbreviation (input) Iop_Min32Sx4 :: IROp where "Iop_Min32Sx4 \<equiv> 5907"
abbreviation (input) Iop_Min64Sx2 :: IROp where "Iop_Min64Sx2 \<equiv> 5908"
abbreviation (input) Iop_Min8Ux16 :: IROp where "Iop_Min8Ux16 \<equiv> 5909"
abbreviation (input) Iop_Min16Ux8 :: IROp where "Iop_Min16Ux8 \<equiv> 5910"
abbreviation (input) Iop_Min32Ux4 :: IROp where "Iop_Min32Ux4 \<equiv> 5911"
abbreviation (input) Iop_Min64Ux2 :: IROp where "Iop_Min64Ux2 \<equiv> 5912"
abbreviation (input) Iop_CmpEQ8x16 :: IROp where "Iop_CmpEQ8x16 \<equiv> 5913"
abbreviation (input) Iop_CmpEQ16x8 :: IROp where "Iop_CmpEQ16x8 \<equiv> 5914"
abbreviation (input) Iop_CmpEQ32x4 :: IROp where "Iop_CmpEQ32x4 \<equiv> 5915"
abbreviation (input) Iop_CmpEQ64x2 :: IROp where "Iop_CmpEQ64x2 \<equiv> 5916"
abbreviation (input) Iop_CmpGT8Sx16 :: IROp where "Iop_CmpGT8Sx16 \<equiv> 5917"
abbreviation (input) Iop_CmpGT16Sx8 :: IROp where "Iop_CmpGT16Sx8 \<equiv> 5918"
abbreviation (input) Iop_CmpGT32Sx4 :: IROp where "Iop_CmpGT32Sx4 \<equiv> 5919"
abbreviation (input) Iop_CmpGT64Sx2 :: IROp where "Iop_CmpGT64Sx2 \<equiv> 5920"
abbreviation (input) Iop_CmpGT8Ux16 :: IROp where "Iop_CmpGT8Ux16 \<equiv> 5921"
abbreviation (input) Iop_CmpGT16Ux8 :: IROp where "Iop_CmpGT16Ux8 \<equiv> 5922"
abbreviation (input) Iop_CmpGT32Ux4 :: IROp where "Iop_CmpGT32Ux4 \<equiv> 5923"
abbreviation (input) Iop_CmpGT64Ux2 :: IROp where "Iop_CmpGT64Ux2 \<equiv> 5924"
abbreviation (input) Iop_Cnt8x16 :: IROp where "Iop_Cnt8x16 \<equiv> 5925"
abbreviation (input) Iop_Clz8x16 :: IROp where "Iop_Clz8x16 \<equiv> 5926"
abbreviation (input) Iop_Clz16x8 :: IROp where "Iop_Clz16x8 \<equiv> 5927"
abbreviation (input) Iop_Clz32x4 :: IROp where "Iop_Clz32x4 \<equiv> 5928"
abbreviation (input) Iop_Cls8x16 :: IROp where "Iop_Cls8x16 \<equiv> 5929"
abbreviation (input) Iop_Cls16x8 :: IROp where "Iop_Cls16x8 \<equiv> 5930"
abbreviation (input) Iop_Cls32x4 :: IROp where "Iop_Cls32x4 \<equiv> 5931"
abbreviation (input) Iop_ShlN8x16 :: IROp where "Iop_ShlN8x16 \<equiv> 5932"
abbreviation (input) Iop_ShlN16x8 :: IROp where "Iop_ShlN16x8 \<equiv> 5933"
abbreviation (input) Iop_ShlN32x4 :: IROp where "Iop_ShlN32x4 \<equiv> 5934"
abbreviation (input) Iop_ShlN64x2 :: IROp where "Iop_ShlN64x2 \<equiv> 5935"
abbreviation (input) Iop_ShrN8x16 :: IROp where "Iop_ShrN8x16 \<equiv> 5936"
abbreviation (input) Iop_ShrN16x8 :: IROp where "Iop_ShrN16x8 \<equiv> 5937"
abbreviation (input) Iop_ShrN32x4 :: IROp where "Iop_ShrN32x4 \<equiv> 5938"
abbreviation (input) Iop_ShrN64x2 :: IROp where "Iop_ShrN64x2 \<equiv> 5939"
abbreviation (input) Iop_SarN8x16 :: IROp where "Iop_SarN8x16 \<equiv> 5940"
abbreviation (input) Iop_SarN16x8 :: IROp where "Iop_SarN16x8 \<equiv> 5941"
abbreviation (input) Iop_SarN32x4 :: IROp where "Iop_SarN32x4 \<equiv> 5942"
abbreviation (input) Iop_SarN64x2 :: IROp where "Iop_SarN64x2 \<equiv> 5943"
abbreviation (input) Iop_Shl8x16 :: IROp where "Iop_Shl8x16 \<equiv> 5944"
abbreviation (input) Iop_Shl16x8 :: IROp where "Iop_Shl16x8 \<equiv> 5945"
abbreviation (input) Iop_Shl32x4 :: IROp where "Iop_Shl32x4 \<equiv> 5946"
abbreviation (input) Iop_Shl64x2 :: IROp where "Iop_Shl64x2 \<equiv> 5947"
abbreviation (input) Iop_Shr8x16 :: IROp where "Iop_Shr8x16 \<equiv> 5948"
abbreviation (input) Iop_Shr16x8 :: IROp where "Iop_Shr16x8 \<equiv> 5949"
abbreviation (input) Iop_Shr32x4 :: IROp where "Iop_Shr32x4 \<equiv> 5950"
abbreviation (input) Iop_Shr64x2 :: IROp where "Iop_Shr64x2 \<equiv> 5951"
abbreviation (input) Iop_Sar8x16 :: IROp where "Iop_Sar8x16 \<equiv> 5952"
abbreviation (input) Iop_Sar16x8 :: IROp where "Iop_Sar16x8 \<equiv> 5953"
abbreviation (input) Iop_Sar32x4 :: IROp where "Iop_Sar32x4 \<equiv> 5954"
abbreviation (input) Iop_Sar64x2 :: IROp where "Iop_Sar64x2 \<equiv> 5955"
abbreviation (input) Iop_Sal8x16 :: IROp where "Iop_Sal8x16 \<equiv> 5956"
abbreviation (input) Iop_Sal16x8 :: IROp where "Iop_Sal16x8 \<equiv> 5957"
abbreviation (input) Iop_Sal32x4 :: IROp where "Iop_Sal32x4 \<equiv> 5958"
abbreviation (input) Iop_Sal64x2 :: IROp where "Iop_Sal64x2 \<equiv> 5959"
abbreviation (input) Iop_Rol8x16 :: IROp where "Iop_Rol8x16 \<equiv> 5960"
abbreviation (input) Iop_Rol16x8 :: IROp where "Iop_Rol16x8 \<equiv> 5961"
abbreviation (input) Iop_Rol32x4 :: IROp where "Iop_Rol32x4 \<equiv> 5962"
abbreviation (input) Iop_Rol64x2 :: IROp where "Iop_Rol64x2 \<equiv> 5963"
abbreviation (input) Iop_QShl8x16 :: IROp where "Iop_QShl8x16 \<equiv> 5964"
abbreviation (input) Iop_QShl16x8 :: IROp where "Iop_QShl16x8 \<equiv> 5965"
abbreviation (input) Iop_QShl32x4 :: IROp where "Iop_QShl32x4 \<equiv> 5966"
abbreviation (input) Iop_QShl64x2 :: IROp where "Iop_QShl64x2 \<equiv> 5967"
abbreviation (input) Iop_QSal8x16 :: IROp where "Iop_QSal8x16 \<equiv> 5968"
abbreviation (input) Iop_QSal16x8 :: IROp where "Iop_QSal16x8 \<equiv> 5969"
abbreviation (input) Iop_QSal32x4 :: IROp where "Iop_QSal32x4 \<equiv> 5970"
abbreviation (input) Iop_QSal64x2 :: IROp where "Iop_QSal64x2 \<equiv> 5971"
abbreviation (input) Iop_QShlNsatSU8x16 :: IROp where "Iop_QShlNsatSU8x16 \<equiv> 5972"
abbreviation (input) Iop_QShlNsatSU16x8 :: IROp where "Iop_QShlNsatSU16x8 \<equiv> 5973"
abbreviation (input) Iop_QShlNsatSU32x4 :: IROp where "Iop_QShlNsatSU32x4 \<equiv> 5974"
abbreviation (input) Iop_QShlNsatSU64x2 :: IROp where "Iop_QShlNsatSU64x2 \<equiv> 5975"
abbreviation (input) Iop_QShlNsatUU8x16 :: IROp where "Iop_QShlNsatUU8x16 \<equiv> 5976"
abbreviation (input) Iop_QShlNsatUU16x8 :: IROp where "Iop_QShlNsatUU16x8 \<equiv> 5977"
abbreviation (input) Iop_QShlNsatUU32x4 :: IROp where "Iop_QShlNsatUU32x4 \<equiv> 5978"
abbreviation (input) Iop_QShlNsatUU64x2 :: IROp where "Iop_QShlNsatUU64x2 \<equiv> 5979"
abbreviation (input) Iop_QShlNsatSS8x16 :: IROp where "Iop_QShlNsatSS8x16 \<equiv> 5980"
abbreviation (input) Iop_QShlNsatSS16x8 :: IROp where "Iop_QShlNsatSS16x8 \<equiv> 5981"
abbreviation (input) Iop_QShlNsatSS32x4 :: IROp where "Iop_QShlNsatSS32x4 \<equiv> 5982"
abbreviation (input) Iop_QShlNsatSS64x2 :: IROp where "Iop_QShlNsatSS64x2 \<equiv> 5983"
abbreviation (input) Iop_QandUQsh8x16 :: IROp where "Iop_QandUQsh8x16 \<equiv> 5984"
abbreviation (input) Iop_QandUQsh16x8 :: IROp where "Iop_QandUQsh16x8 \<equiv> 5985"
abbreviation (input) Iop_QandUQsh32x4 :: IROp where "Iop_QandUQsh32x4 \<equiv> 5986"
abbreviation (input) Iop_QandUQsh64x2 :: IROp where "Iop_QandUQsh64x2 \<equiv> 5987"
abbreviation (input) Iop_QandSQsh8x16 :: IROp where "Iop_QandSQsh8x16 \<equiv> 5988"
abbreviation (input) Iop_QandSQsh16x8 :: IROp where "Iop_QandSQsh16x8 \<equiv> 5989"
abbreviation (input) Iop_QandSQsh32x4 :: IROp where "Iop_QandSQsh32x4 \<equiv> 5990"
abbreviation (input) Iop_QandSQsh64x2 :: IROp where "Iop_QandSQsh64x2 \<equiv> 5991"
abbreviation (input) Iop_QandUQRsh8x16 :: IROp where "Iop_QandUQRsh8x16 \<equiv> 5992"
abbreviation (input) Iop_QandUQRsh16x8 :: IROp where "Iop_QandUQRsh16x8 \<equiv> 5993"
abbreviation (input) Iop_QandUQRsh32x4 :: IROp where "Iop_QandUQRsh32x4 \<equiv> 5994"
abbreviation (input) Iop_QandUQRsh64x2 :: IROp where "Iop_QandUQRsh64x2 \<equiv> 5995"
abbreviation (input) Iop_QandSQRsh8x16 :: IROp where "Iop_QandSQRsh8x16 \<equiv> 5996"
abbreviation (input) Iop_QandSQRsh16x8 :: IROp where "Iop_QandSQRsh16x8 \<equiv> 5997"
abbreviation (input) Iop_QandSQRsh32x4 :: IROp where "Iop_QandSQRsh32x4 \<equiv> 5998"
abbreviation (input) Iop_QandSQRsh64x2 :: IROp where "Iop_QandSQRsh64x2 \<equiv> 5999"
abbreviation (input) Iop_Sh8Sx16 :: IROp where "Iop_Sh8Sx16 \<equiv> 6000"
abbreviation (input) Iop_Sh16Sx8 :: IROp where "Iop_Sh16Sx8 \<equiv> 6001"
abbreviation (input) Iop_Sh32Sx4 :: IROp where "Iop_Sh32Sx4 \<equiv> 6002"
abbreviation (input) Iop_Sh64Sx2 :: IROp where "Iop_Sh64Sx2 \<equiv> 6003"
abbreviation (input) Iop_Sh8Ux16 :: IROp where "Iop_Sh8Ux16 \<equiv> 6004"
abbreviation (input) Iop_Sh16Ux8 :: IROp where "Iop_Sh16Ux8 \<equiv> 6005"
abbreviation (input) Iop_Sh32Ux4 :: IROp where "Iop_Sh32Ux4 \<equiv> 6006"
abbreviation (input) Iop_Sh64Ux2 :: IROp where "Iop_Sh64Ux2 \<equiv> 6007"
abbreviation (input) Iop_Rsh8Sx16 :: IROp where "Iop_Rsh8Sx16 \<equiv> 6008"
abbreviation (input) Iop_Rsh16Sx8 :: IROp where "Iop_Rsh16Sx8 \<equiv> 6009"
abbreviation (input) Iop_Rsh32Sx4 :: IROp where "Iop_Rsh32Sx4 \<equiv> 6010"
abbreviation (input) Iop_Rsh64Sx2 :: IROp where "Iop_Rsh64Sx2 \<equiv> 6011"
abbreviation (input) Iop_Rsh8Ux16 :: IROp where "Iop_Rsh8Ux16 \<equiv> 6012"
abbreviation (input) Iop_Rsh16Ux8 :: IROp where "Iop_Rsh16Ux8 \<equiv> 6013"
abbreviation (input) Iop_Rsh32Ux4 :: IROp where "Iop_Rsh32Ux4 \<equiv> 6014"
abbreviation (input) Iop_Rsh64Ux2 :: IROp where "Iop_Rsh64Ux2 \<equiv> 6015"
abbreviation (input) Iop_QandQShrNnarrow16Uto8Ux8 :: IROp where "Iop_QandQShrNnarrow16Uto8Ux8 \<equiv> 6016"
abbreviation (input) Iop_QandQShrNnarrow32Uto16Ux4 :: IROp where "Iop_QandQShrNnarrow32Uto16Ux4 \<equiv> 6017"
abbreviation (input) Iop_QandQShrNnarrow64Uto32Ux2 :: IROp where "Iop_QandQShrNnarrow64Uto32Ux2 \<equiv> 6018"
abbreviation (input) Iop_QandQSarNnarrow16Sto8Sx8 :: IROp where "Iop_QandQSarNnarrow16Sto8Sx8 \<equiv> 6019"
abbreviation (input) Iop_QandQSarNnarrow32Sto16Sx4 :: IROp where "Iop_QandQSarNnarrow32Sto16Sx4 \<equiv> 6020"
abbreviation (input) Iop_QandQSarNnarrow64Sto32Sx2 :: IROp where "Iop_QandQSarNnarrow64Sto32Sx2 \<equiv> 6021"
abbreviation (input) Iop_QandQSarNnarrow16Sto8Ux8 :: IROp where "Iop_QandQSarNnarrow16Sto8Ux8 \<equiv> 6022"
abbreviation (input) Iop_QandQSarNnarrow32Sto16Ux4 :: IROp where "Iop_QandQSarNnarrow32Sto16Ux4 \<equiv> 6023"
abbreviation (input) Iop_QandQSarNnarrow64Sto32Ux2 :: IROp where "Iop_QandQSarNnarrow64Sto32Ux2 \<equiv> 6024"
abbreviation (input) Iop_QandQRShrNnarrow16Uto8Ux8 :: IROp where "Iop_QandQRShrNnarrow16Uto8Ux8 \<equiv> 6025"
abbreviation (input) Iop_QandQRShrNnarrow32Uto16Ux4 :: IROp where "Iop_QandQRShrNnarrow32Uto16Ux4 \<equiv> 6026"
abbreviation (input) Iop_QandQRShrNnarrow64Uto32Ux2 :: IROp where "Iop_QandQRShrNnarrow64Uto32Ux2 \<equiv> 6027"
abbreviation (input) Iop_QandQRSarNnarrow16Sto8Sx8 :: IROp where "Iop_QandQRSarNnarrow16Sto8Sx8 \<equiv> 6028"
abbreviation (input) Iop_QandQRSarNnarrow32Sto16Sx4 :: IROp where "Iop_QandQRSarNnarrow32Sto16Sx4 \<equiv> 6029"
abbreviation (input) Iop_QandQRSarNnarrow64Sto32Sx2 :: IROp where "Iop_QandQRSarNnarrow64Sto32Sx2 \<equiv> 6030"
abbreviation (input) Iop_QandQRSarNnarrow16Sto8Ux8 :: IROp where "Iop_QandQRSarNnarrow16Sto8Ux8 \<equiv> 6031"
abbreviation (input) Iop_QandQRSarNnarrow32Sto16Ux4 :: IROp where "Iop_QandQRSarNnarrow32Sto16Ux4 \<equiv> 6032"
abbreviation (input) Iop_QandQRSarNnarrow64Sto32Ux2 :: IROp where "Iop_QandQRSarNnarrow64Sto32Ux2 \<equiv> 6033"
abbreviation (input) Iop_QNarrowBin16Sto8Ux16 :: IROp where "Iop_QNarrowBin16Sto8Ux16 \<equiv> 6034"
abbreviation (input) Iop_QNarrowBin32Sto16Ux8 :: IROp where "Iop_QNarrowBin32Sto16Ux8 \<equiv> 6035"
abbreviation (input) Iop_QNarrowBin16Sto8Sx16 :: IROp where "Iop_QNarrowBin16Sto8Sx16 \<equiv> 6036"
abbreviation (input) Iop_QNarrowBin32Sto16Sx8 :: IROp where "Iop_QNarrowBin32Sto16Sx8 \<equiv> 6037"
abbreviation (input) Iop_QNarrowBin16Uto8Ux16 :: IROp where "Iop_QNarrowBin16Uto8Ux16 \<equiv> 6038"
abbreviation (input) Iop_QNarrowBin32Uto16Ux8 :: IROp where "Iop_QNarrowBin32Uto16Ux8 \<equiv> 6039"
abbreviation (input) Iop_NarrowBin16to8x16 :: IROp where "Iop_NarrowBin16to8x16 \<equiv> 6040"
abbreviation (input) Iop_NarrowBin32to16x8 :: IROp where "Iop_NarrowBin32to16x8 \<equiv> 6041"
abbreviation (input) Iop_QNarrowBin64Sto32Sx4 :: IROp where "Iop_QNarrowBin64Sto32Sx4 \<equiv> 6042"
abbreviation (input) Iop_QNarrowBin64Uto32Ux4 :: IROp where "Iop_QNarrowBin64Uto32Ux4 \<equiv> 6043"
abbreviation (input) Iop_NarrowBin64to32x4 :: IROp where "Iop_NarrowBin64to32x4 \<equiv> 6044"
abbreviation (input) Iop_NarrowUn16to8x8 :: IROp where "Iop_NarrowUn16to8x8 \<equiv> 6045"
abbreviation (input) Iop_NarrowUn32to16x4 :: IROp where "Iop_NarrowUn32to16x4 \<equiv> 6046"
abbreviation (input) Iop_NarrowUn64to32x2 :: IROp where "Iop_NarrowUn64to32x2 \<equiv> 6047"
abbreviation (input) Iop_QNarrowUn16Sto8Sx8 :: IROp where "Iop_QNarrowUn16Sto8Sx8 \<equiv> 6048"
abbreviation (input) Iop_QNarrowUn32Sto16Sx4 :: IROp where "Iop_QNarrowUn32Sto16Sx4 \<equiv> 6049"
abbreviation (input) Iop_QNarrowUn64Sto32Sx2 :: IROp where "Iop_QNarrowUn64Sto32Sx2 \<equiv> 6050"
abbreviation (input) Iop_QNarrowUn16Sto8Ux8 :: IROp where "Iop_QNarrowUn16Sto8Ux8 \<equiv> 6051"
abbreviation (input) Iop_QNarrowUn32Sto16Ux4 :: IROp where "Iop_QNarrowUn32Sto16Ux4 \<equiv> 6052"
abbreviation (input) Iop_QNarrowUn64Sto32Ux2 :: IROp where "Iop_QNarrowUn64Sto32Ux2 \<equiv> 6053"
abbreviation (input) Iop_QNarrowUn16Uto8Ux8 :: IROp where "Iop_QNarrowUn16Uto8Ux8 \<equiv> 6054"
abbreviation (input) Iop_QNarrowUn32Uto16Ux4 :: IROp where "Iop_QNarrowUn32Uto16Ux4 \<equiv> 6055"
abbreviation (input) Iop_QNarrowUn64Uto32Ux2 :: IROp where "Iop_QNarrowUn64Uto32Ux2 \<equiv> 6056"
abbreviation (input) Iop_Widen8Uto16x8 :: IROp where "Iop_Widen8Uto16x8 \<equiv> 6057"
abbreviation (input) Iop_Widen16Uto32x4 :: IROp where "Iop_Widen16Uto32x4 \<equiv> 6058"
abbreviation (input) Iop_Widen32Uto64x2 :: IROp where "Iop_Widen32Uto64x2 \<equiv> 6059"
abbreviation (input) Iop_Widen8Sto16x8 :: IROp where "Iop_Widen8Sto16x8 \<equiv> 6060"
abbreviation (input) Iop_Widen16Sto32x4 :: IROp where "Iop_Widen16Sto32x4 \<equiv> 6061"
abbreviation (input) Iop_Widen32Sto64x2 :: IROp where "Iop_Widen32Sto64x2 \<equiv> 6062"
abbreviation (input) Iop_InterleaveHI8x16 :: IROp where "Iop_InterleaveHI8x16 \<equiv> 6063"
abbreviation (input) Iop_InterleaveHI16x8 :: IROp where "Iop_InterleaveHI16x8 \<equiv> 6064"
abbreviation (input) Iop_InterleaveHI32x4 :: IROp where "Iop_InterleaveHI32x4 \<equiv> 6065"
abbreviation (input) Iop_InterleaveHI64x2 :: IROp where "Iop_InterleaveHI64x2 \<equiv> 6066"
abbreviation (input) Iop_InterleaveLO8x16 :: IROp where "Iop_InterleaveLO8x16 \<equiv> 6067"
abbreviation (input) Iop_InterleaveLO16x8 :: IROp where "Iop_InterleaveLO16x8 \<equiv> 6068"
abbreviation (input) Iop_InterleaveLO32x4 :: IROp where "Iop_InterleaveLO32x4 \<equiv> 6069"
abbreviation (input) Iop_InterleaveLO64x2 :: IROp where "Iop_InterleaveLO64x2 \<equiv> 6070"
abbreviation (input) Iop_InterleaveOddLanes8x16 :: IROp where "Iop_InterleaveOddLanes8x16 \<equiv> 6071"
abbreviation (input) Iop_InterleaveEvenLanes8x16 :: IROp where "Iop_InterleaveEvenLanes8x16 \<equiv> 6072"
abbreviation (input) Iop_InterleaveOddLanes16x8 :: IROp where "Iop_InterleaveOddLanes16x8 \<equiv> 6073"
abbreviation (input) Iop_InterleaveEvenLanes16x8 :: IROp where "Iop_InterleaveEvenLanes16x8 \<equiv> 6074"
abbreviation (input) Iop_InterleaveOddLanes32x4 :: IROp where "Iop_InterleaveOddLanes32x4 \<equiv> 6075"
abbreviation (input) Iop_InterleaveEvenLanes32x4 :: IROp where "Iop_InterleaveEvenLanes32x4 \<equiv> 6076"
abbreviation (input) Iop_PackOddLanes8x16 :: IROp where "Iop_PackOddLanes8x16 \<equiv> 6077"
abbreviation (input) Iop_PackEvenLanes8x16 :: IROp where "Iop_PackEvenLanes8x16 \<equiv> 6078"
abbreviation (input) Iop_PackOddLanes16x8 :: IROp where "Iop_PackOddLanes16x8 \<equiv> 6079"
abbreviation (input) Iop_PackEvenLanes16x8 :: IROp where "Iop_PackEvenLanes16x8 \<equiv> 6080"
abbreviation (input) Iop_PackOddLanes32x4 :: IROp where "Iop_PackOddLanes32x4 \<equiv> 6081"
abbreviation (input) Iop_PackEvenLanes32x4 :: IROp where "Iop_PackEvenLanes32x4 \<equiv> 6082"
abbreviation (input) Iop_CatOddLanes8x16 :: IROp where "Iop_CatOddLanes8x16 \<equiv> 6083"
abbreviation (input) Iop_CatOddLanes16x8 :: IROp where "Iop_CatOddLanes16x8 \<equiv> 6084"
abbreviation (input) Iop_CatOddLanes32x4 :: IROp where "Iop_CatOddLanes32x4 \<equiv> 6085"
abbreviation (input) Iop_CatEvenLanes8x16 :: IROp where "Iop_CatEvenLanes8x16 \<equiv> 6086"
abbreviation (input) Iop_CatEvenLanes16x8 :: IROp where "Iop_CatEvenLanes16x8 \<equiv> 6087"
abbreviation (input) Iop_CatEvenLanes32x4 :: IROp where "Iop_CatEvenLanes32x4 \<equiv> 6088"
abbreviation (input) Iop_GetElem8x16 :: IROp where "Iop_GetElem8x16 \<equiv> 6089"
abbreviation (input) Iop_GetElem16x8 :: IROp where "Iop_GetElem16x8 \<equiv> 6090"
abbreviation (input) Iop_GetElem32x4 :: IROp where "Iop_GetElem32x4 \<equiv> 6091"
abbreviation (input) Iop_GetElem64x2 :: IROp where "Iop_GetElem64x2 \<equiv> 6092"
abbreviation (input) Iop_SetElem8x16 :: IROp where "Iop_SetElem8x16 \<equiv> 6093"
abbreviation (input) Iop_SetElem16x8 :: IROp where "Iop_SetElem16x8 \<equiv> 6094"
abbreviation (input) Iop_SetElem32x4 :: IROp where "Iop_SetElem32x4 \<equiv> 6095"
abbreviation (input) Iop_SetElem64x2 :: IROp where "Iop_SetElem64x2 \<equiv> 6096"
abbreviation (input) Iop_Dup8x16 :: IROp where "Iop_Dup8x16 \<equiv> 6097"
abbreviation (input) Iop_Dup16x8 :: IROp where "Iop_Dup16x8 \<equiv> 6098"
abbreviation (input) Iop_Dup32x4 :: IROp where "Iop_Dup32x4 \<equiv> 6099"
abbreviation (input) Iop_SliceV128 :: IROp where "Iop_SliceV128 \<equiv> 6100"
abbreviation (input) Iop_Reverse8sIn16_x8 :: IROp where "Iop_Reverse8sIn16_x8 \<equiv> 6101"
abbreviation (input) Iop_Reverse8sIn32_x4 :: IROp where "Iop_Reverse8sIn32_x4 \<equiv> 6102"
abbreviation (input) Iop_Reverse16sIn32_x4 :: IROp where "Iop_Reverse16sIn32_x4 \<equiv> 6103"
abbreviation (input) Iop_Reverse8sIn64_x2 :: IROp where "Iop_Reverse8sIn64_x2 \<equiv> 6104"
abbreviation (input) Iop_Reverse16sIn64_x2 :: IROp where "Iop_Reverse16sIn64_x2 \<equiv> 6105"
abbreviation (input) Iop_Reverse32sIn64_x2 :: IROp where "Iop_Reverse32sIn64_x2 \<equiv> 6106"
abbreviation (input) Iop_Reverse1sIn8_x16 :: IROp where "Iop_Reverse1sIn8_x16 \<equiv> 6107"
abbreviation (input) Iop_Perm8x16 :: IROp where "Iop_Perm8x16 \<equiv> 6108"
abbreviation (input) Iop_Perm32x4 :: IROp where "Iop_Perm32x4 \<equiv> 6109"
abbreviation (input) Iop_PermOrZero8x16 :: IROp where "Iop_PermOrZero8x16 \<equiv> 6110"
abbreviation (input) Iop_Perm8x16x2 :: IROp where "Iop_Perm8x16x2 \<equiv> 6111"
abbreviation (input) Iop_GetMSBs8x16 :: IROp where "Iop_GetMSBs8x16 \<equiv> 6112"
abbreviation (input) Iop_RecipEst32Ux4 :: IROp where "Iop_RecipEst32Ux4 \<equiv> 6113"
abbreviation (input) Iop_RSqrtEst32Ux4 :: IROp where "Iop_RSqrtEst32Ux4 \<equiv> 6114"
abbreviation (input) Iop_MulI128by10 :: IROp where "Iop_MulI128by10 \<equiv> 6115"
abbreviation (input) Iop_MulI128by10Carry :: IROp where "Iop_MulI128by10Carry \<equiv> 6116"
abbreviation (input) Iop_MulI128by10E :: IROp where "Iop_MulI128by10E \<equiv> 6117"
abbreviation (input) Iop_MulI128by10ECarry :: IROp where "Iop_MulI128by10ECarry \<equiv> 6118"
abbreviation (input) Iop_V256to64_0 :: IROp where "Iop_V256to64_0 \<equiv> 6119"
abbreviation (input) Iop_V256to64_1 :: IROp where "Iop_V256to64_1 \<equiv> 6120"
abbreviation (input) Iop_V256to64_2 :: IROp where "Iop_V256to64_2 \<equiv> 6121"
abbreviation (input) Iop_V256to64_3 :: IROp where "Iop_V256to64_3 \<equiv> 6122"
abbreviation (input) Iop_64x4toV256 :: IROp where "Iop_64x4toV256 \<equiv> 6123"
abbreviation (input) Iop_V256toV128_0 :: IROp where "Iop_V256toV128_0 \<equiv> 6124"
abbreviation (input) Iop_V256toV128_1 :: IROp where "Iop_V256toV128_1 \<equiv> 6125"
abbreviation (input) Iop_V128HLtoV256 :: IROp where "Iop_V128HLtoV256 \<equiv> 6126"
abbreviation (input) Iop_AndV256 :: IROp where "Iop_AndV256 \<equiv> 6127"
abbreviation (input) Iop_OrV256 :: IROp where "Iop_OrV256 \<equiv> 6128"
abbreviation (input) Iop_XorV256 :: IROp where "Iop_XorV256 \<equiv> 6129"
abbreviation (input) Iop_NotV256 :: IROp where "Iop_NotV256 \<equiv> 6130"
abbreviation (input) Iop_CmpNEZ8x32 :: IROp where "Iop_CmpNEZ8x32 \<equiv> 6131"
abbreviation (input) Iop_CmpNEZ16x16 :: IROp where "Iop_CmpNEZ16x16 \<equiv> 6132"
abbreviation (input) Iop_CmpNEZ32x8 :: IROp where "Iop_CmpNEZ32x8 \<equiv> 6133"
abbreviation (input) Iop_CmpNEZ64x4 :: IROp where "Iop_CmpNEZ64x4 \<equiv> 6134"
abbreviation (input) Iop_Add8x32 :: IROp where "Iop_Add8x32 \<equiv> 6135"
abbreviation (input) Iop_Add16x16 :: IROp where "Iop_Add16x16 \<equiv> 6136"
abbreviation (input) Iop_Add32x8 :: IROp where "Iop_Add32x8 \<equiv> 6137"
abbreviation (input) Iop_Add64x4 :: IROp where "Iop_Add64x4 \<equiv> 6138"
abbreviation (input) Iop_Sub8x32 :: IROp where "Iop_Sub8x32 \<equiv> 6139"
abbreviation (input) Iop_Sub16x16 :: IROp where "Iop_Sub16x16 \<equiv> 6140"
abbreviation (input) Iop_Sub32x8 :: IROp where "Iop_Sub32x8 \<equiv> 6141"
abbreviation (input) Iop_Sub64x4 :: IROp where "Iop_Sub64x4 \<equiv> 6142"
abbreviation (input) Iop_CmpEQ8x32 :: IROp where "Iop_CmpEQ8x32 \<equiv> 6143"
abbreviation (input) Iop_CmpEQ16x16 :: IROp where "Iop_CmpEQ16x16 \<equiv> 6144"
abbreviation (input) Iop_CmpEQ32x8 :: IROp where "Iop_CmpEQ32x8 \<equiv> 6145"
abbreviation (input) Iop_CmpEQ64x4 :: IROp where "Iop_CmpEQ64x4 \<equiv> 6146"
abbreviation (input) Iop_CmpGT8Sx32 :: IROp where "Iop_CmpGT8Sx32 \<equiv> 6147"
abbreviation (input) Iop_CmpGT16Sx16 :: IROp where "Iop_CmpGT16Sx16 \<equiv> 6148"
abbreviation (input) Iop_CmpGT32Sx8 :: IROp where "Iop_CmpGT32Sx8 \<equiv> 6149"
abbreviation (input) Iop_CmpGT64Sx4 :: IROp where "Iop_CmpGT64Sx4 \<equiv> 6150"
abbreviation (input) Iop_ShlN16x16 :: IROp where "Iop_ShlN16x16 \<equiv> 6151"
abbreviation (input) Iop_ShlN32x8 :: IROp where "Iop_ShlN32x8 \<equiv> 6152"
abbreviation (input) Iop_ShlN64x4 :: IROp where "Iop_ShlN64x4 \<equiv> 6153"
abbreviation (input) Iop_ShrN16x16 :: IROp where "Iop_ShrN16x16 \<equiv> 6154"
abbreviation (input) Iop_ShrN32x8 :: IROp where "Iop_ShrN32x8 \<equiv> 6155"
abbreviation (input) Iop_ShrN64x4 :: IROp where "Iop_ShrN64x4 \<equiv> 6156"
abbreviation (input) Iop_SarN16x16 :: IROp where "Iop_SarN16x16 \<equiv> 6157"
abbreviation (input) Iop_SarN32x8 :: IROp where "Iop_SarN32x8 \<equiv> 6158"
abbreviation (input) Iop_Max8Sx32 :: IROp where "Iop_Max8Sx32 \<equiv> 6159"
abbreviation (input) Iop_Max16Sx16 :: IROp where "Iop_Max16Sx16 \<equiv> 6160"
abbreviation (input) Iop_Max32Sx8 :: IROp where "Iop_Max32Sx8 \<equiv> 6161"
abbreviation (input) Iop_Max8Ux32 :: IROp where "Iop_Max8Ux32 \<equiv> 6162"
abbreviation (input) Iop_Max16Ux16 :: IROp where "Iop_Max16Ux16 \<equiv> 6163"
abbreviation (input) Iop_Max32Ux8 :: IROp where "Iop_Max32Ux8 \<equiv> 6164"
abbreviation (input) Iop_Min8Sx32 :: IROp where "Iop_Min8Sx32 \<equiv> 6165"
abbreviation (input) Iop_Min16Sx16 :: IROp where "Iop_Min16Sx16 \<equiv> 6166"
abbreviation (input) Iop_Min32Sx8 :: IROp where "Iop_Min32Sx8 \<equiv> 6167"
abbreviation (input) Iop_Min8Ux32 :: IROp where "Iop_Min8Ux32 \<equiv> 6168"
abbreviation (input) Iop_Min16Ux16 :: IROp where "Iop_Min16Ux16 \<equiv> 6169"
abbreviation (input) Iop_Min32Ux8 :: IROp where "Iop_Min32Ux8 \<equiv> 6170"
abbreviation (input) Iop_Mul16x16 :: IROp where "Iop_Mul16x16 \<equiv> 6171"
abbreviation (input) Iop_Mul32x8 :: IROp where "Iop_Mul32x8 \<equiv> 6172"
abbreviation (input) Iop_MulHi16Ux16 :: IROp where "Iop_MulHi16Ux16 \<equiv> 6173"
abbreviation (input) Iop_MulHi16Sx16 :: IROp where "Iop_MulHi16Sx16 \<equiv> 6174"
abbreviation (input) Iop_QAdd8Ux32 :: IROp where "Iop_QAdd8Ux32 \<equiv> 6175"
abbreviation (input) Iop_QAdd16Ux16 :: IROp where "Iop_QAdd16Ux16 \<equiv> 6176"
abbreviation (input) Iop_QAdd8Sx32 :: IROp where "Iop_QAdd8Sx32 \<equiv> 6177"
abbreviation (input) Iop_QAdd16Sx16 :: IROp where "Iop_QAdd16Sx16 \<equiv> 6178"
abbreviation (input) Iop_QSub8Ux32 :: IROp where "Iop_QSub8Ux32 \<equiv> 6179"
abbreviation (input) Iop_QSub16Ux16 :: IROp where "Iop_QSub16Ux16 \<equiv> 6180"
abbreviation (input) Iop_QSub8Sx32 :: IROp where "Iop_QSub8Sx32 \<equiv> 6181"
abbreviation (input) Iop_QSub16Sx16 :: IROp where "Iop_QSub16Sx16 \<equiv> 6182"
abbreviation (input) Iop_Avg8Ux32 :: IROp where "Iop_Avg8Ux32 \<equiv> 6183"
abbreviation (input) Iop_Avg16Ux16 :: IROp where "Iop_Avg16Ux16 \<equiv> 6184"
abbreviation (input) Iop_Perm32x8 :: IROp where "Iop_Perm32x8 \<equiv> 6185"
abbreviation (input) Iop_CipherV128 :: IROp where "Iop_CipherV128 \<equiv> 6186"
abbreviation (input) Iop_CipherLV128 :: IROp where "Iop_CipherLV128 \<equiv> 6187"
abbreviation (input) Iop_CipherSV128 :: IROp where "Iop_CipherSV128 \<equiv> 6188"
abbreviation (input) Iop_NCipherV128 :: IROp where "Iop_NCipherV128 \<equiv> 6189"
abbreviation (input) Iop_NCipherLV128 :: IROp where "Iop_NCipherLV128 \<equiv> 6190"
abbreviation (input) Iop_SHA512 :: IROp where "Iop_SHA512 \<equiv> 6191"
abbreviation (input) Iop_SHA256 :: IROp where "Iop_SHA256 \<equiv> 6192"
abbreviation (input) Iop_Add64Fx4 :: IROp where "Iop_Add64Fx4 \<equiv> 6193"
abbreviation (input) Iop_Sub64Fx4 :: IROp where "Iop_Sub64Fx4 \<equiv> 6194"
abbreviation (input) Iop_Mul64Fx4 :: IROp where "Iop_Mul64Fx4 \<equiv> 6195"
abbreviation (input) Iop_Div64Fx4 :: IROp where "Iop_Div64Fx4 \<equiv> 6196"
abbreviation (input) Iop_Add32Fx8 :: IROp where "Iop_Add32Fx8 \<equiv> 6197"
abbreviation (input) Iop_Sub32Fx8 :: IROp where "Iop_Sub32Fx8 \<equiv> 6198"
abbreviation (input) Iop_Mul32Fx8 :: IROp where "Iop_Mul32Fx8 \<equiv> 6199"
abbreviation (input) Iop_Div32Fx8 :: IROp where "Iop_Div32Fx8 \<equiv> 6200"
abbreviation (input) Iop_I32StoF32x8 :: IROp where "Iop_I32StoF32x8 \<equiv> 6201"
abbreviation (input) Iop_F32toI32Sx8 :: IROp where "Iop_F32toI32Sx8 \<equiv> 6202"
abbreviation (input) Iop_F32toF16x8 :: IROp where "Iop_F32toF16x8 \<equiv> 6203"
abbreviation (input) Iop_F16toF32x8 :: IROp where "Iop_F16toF32x8 \<equiv> 6204"
abbreviation (input) Iop_Sqrt32Fx8 :: IROp where "Iop_Sqrt32Fx8 \<equiv> 6205"
abbreviation (input) Iop_Sqrt64Fx4 :: IROp where "Iop_Sqrt64Fx4 \<equiv> 6206"
abbreviation (input) Iop_RSqrtEst32Fx8 :: IROp where "Iop_RSqrtEst32Fx8 \<equiv> 6207"
abbreviation (input) Iop_RecipEst32Fx8 :: IROp where "Iop_RecipEst32Fx8 \<equiv> 6208"
abbreviation (input) Iop_Max32Fx8 :: IROp where "Iop_Max32Fx8 \<equiv> 6209"
abbreviation (input) Iop_Min32Fx8 :: IROp where "Iop_Min32Fx8 \<equiv> 6210"
abbreviation (input) Iop_Max64Fx4 :: IROp where "Iop_Max64Fx4 \<equiv> 6211"
abbreviation (input) Iop_Min64Fx4 :: IROp where "Iop_Min64Fx4 \<equiv> 6212"
abbreviation (input) Iop_Rotx32 :: IROp where "Iop_Rotx32 \<equiv> 6213"
abbreviation (input) Iop_Rotx64 :: IROp where "Iop_Rotx64 \<equiv> 6214"
abbreviation (input) Iop_LAST :: IROp where "Iop_LAST \<equiv> 6215"

section \<open>Argument and result types\<close>

text \<open>What \<open>typeOfPrimop\<close> writes through its out-parameters; an absent argument is \<open>Ity_INVALID\<close>.\<close>

record primop_type =
  t_dst :: IRType
  t_arg1 :: IRType
  t_arg2 :: IRType
  t_arg3 :: IRType
  t_arg4 :: IRType

definition UNARY :: "IRType \<Rightarrow> IRType \<Rightarrow> primop_type" where
  "UNARY ta1 td = \<lparr>t_dst = td, t_arg1 = ta1, t_arg2 = Ity_INVALID, t_arg3 = Ity_INVALID, t_arg4 = Ity_INVALID\<rparr>"

definition BINARY :: "IRType \<Rightarrow> IRType \<Rightarrow> IRType \<Rightarrow> primop_type" where
  "BINARY ta1 ta2 td = \<lparr>t_dst = td, t_arg1 = ta1, t_arg2 = ta2, t_arg3 = Ity_INVALID, t_arg4 = Ity_INVALID\<rparr>"

definition TERNARY :: "IRType \<Rightarrow> IRType \<Rightarrow> IRType \<Rightarrow> IRType \<Rightarrow> primop_type" where
  "TERNARY ta1 ta2 ta3 td = \<lparr>t_dst = td, t_arg1 = ta1, t_arg2 = ta2, t_arg3 = ta3, t_arg4 = Ity_INVALID\<rparr>"

definition QUATERNARY :: "IRType \<Rightarrow> IRType \<Rightarrow> IRType \<Rightarrow> IRType \<Rightarrow> IRType \<Rightarrow> primop_type" where
  "QUATERNARY ta1 ta2 ta3 ta4 td = \<lparr>t_dst = td, t_arg1 = ta1, t_arg2 = ta2, t_arg3 = ta3, t_arg4 = ta4\<rparr>"

definition COMPARISON :: "IRType \<Rightarrow> primop_type" where
  "COMPARISON ta = BINARY ta ta Ity_I1"

definition UNARY_COMPARISON :: "IRType \<Rightarrow> primop_type" where
  "UNARY_COMPARISON ta = UNARY ta Ity_I1"

text \<open>Rounding modes are values of type \<open>Ity_I32\<close>.\<close>

abbreviation (input) ity_RMode :: IRType where "ity_RMode \<equiv> Ity_I32"

text \<open>The cases of the switch, with the labels of each.\<close>

definition primop_cases_1 :: "IROp \<Rightarrow> primop_type res \<Rightarrow> primop_type res" where
  "primop_cases_1 op other =
   (if op \<in> {Iop_Add8, Iop_Sub8, Iop_Mul8, Iop_Or8, Iop_And8, Iop_Xor8}
      then Inr (BINARY Ity_I8 Ity_I8 Ity_I8)
    else if op \<in> {Iop_Add16, Iop_Sub16, Iop_Mul16, Iop_Or16, Iop_And16, Iop_Xor16}
      then Inr (BINARY Ity_I16 Ity_I16 Ity_I16)
    else if op \<in> {Iop_CmpORD32U, Iop_CmpORD32S, Iop_Add32, Iop_Sub32, Iop_Mul32, Iop_Or32, Iop_And32, Iop_Xor32,
      Iop_Max32U, Iop_QAdd32S, Iop_QSub32S, Iop_Add16x2, Iop_Sub16x2, Iop_QAdd16Sx2, Iop_QAdd16Ux2,
      Iop_QSub16Sx2, Iop_QSub16Ux2, Iop_HAdd16Ux2, Iop_HAdd16Sx2, Iop_HSub16Ux2, Iop_HSub16Sx2,
      Iop_Add8x4, Iop_Sub8x4, Iop_QAdd8Sx4, Iop_QAdd8Ux4, Iop_QSub8Sx4, Iop_QSub8Ux4, Iop_HAdd8Ux4,
      Iop_HAdd8Sx4, Iop_HSub8Ux4, Iop_HSub8Sx4, Iop_Sad8Ux4}
      then Inr (BINARY Ity_I32 Ity_I32 Ity_I32)
    else if op \<in> {Iop_Add64, Iop_Sub64, Iop_Mul64, Iop_Or64, Iop_And64, Iop_Xor64, Iop_CmpORD64U, Iop_CmpORD64S,
      Iop_Avg8Ux8, Iop_Avg16Ux4, Iop_Add8x8, Iop_Add16x4, Iop_Add32x2, Iop_Add32Fx2, Iop_Sub32Fx2,
      Iop_CmpEQ8x8, Iop_CmpEQ16x4, Iop_CmpEQ32x2, Iop_CmpGT8Sx8, Iop_CmpGT16Sx4, Iop_CmpGT32Sx2,
      Iop_CmpGT8Ux8, Iop_CmpGT16Ux4, Iop_CmpGT32Ux2, Iop_CmpGT32Fx2, Iop_CmpEQ32Fx2, Iop_CmpGE32Fx2,
      Iop_InterleaveHI8x8, Iop_InterleaveLO8x8, Iop_InterleaveHI16x4, Iop_InterleaveLO16x4,
      Iop_InterleaveHI32x2, Iop_InterleaveLO32x2, Iop_CatOddLanes8x8, Iop_CatEvenLanes8x8,
      Iop_CatOddLanes16x4, Iop_CatEvenLanes16x4, Iop_InterleaveOddLanes8x8, Iop_InterleaveEvenLanes8x8,
      Iop_InterleaveOddLanes16x4, Iop_InterleaveEvenLanes16x4, Iop_Perm8x8, Iop_PermOrZero8x8,
      Iop_Max8Ux8, Iop_Max16Ux4, Iop_Max32Ux2, Iop_Max8Sx8, Iop_Max16Sx4, Iop_Max32Sx2, Iop_Max32Fx2,
      Iop_Min32Fx2, Iop_PwMax32Fx2, Iop_PwMin32Fx2, Iop_Min8Ux8, Iop_Min16Ux4, Iop_Min32Ux2,
      Iop_Min8Sx8, Iop_Min16Sx4, Iop_Min32Sx2, Iop_PwMax8Ux8, Iop_PwMax16Ux4, Iop_PwMax32Ux2,
      Iop_PwMax8Sx8, Iop_PwMax16Sx4, Iop_PwMax32Sx2, Iop_PwMin8Ux8, Iop_PwMin16Ux4, Iop_PwMin32Ux2,
      Iop_PwMin8Sx8, Iop_PwMin16Sx4, Iop_PwMin32Sx2, Iop_Mul8x8, Iop_Mul16x4, Iop_Mul32x2, Iop_Mul32Fx2,
      Iop_PolynomialMul8x8, Iop_MulHi16Sx4, Iop_MulHi16Ux4, Iop_QDMulHi16Sx4, Iop_QDMulHi32Sx2,
      Iop_QRDMulHi16Sx4, Iop_QRDMulHi32Sx2, Iop_QAdd8Sx8, Iop_QAdd16Sx4, Iop_QAdd32Sx2, Iop_QAdd64Sx1,
      Iop_QAdd8Ux8, Iop_QAdd16Ux4, Iop_QAdd32Ux2, Iop_QAdd64Ux1, Iop_PwAdd8x8, Iop_PwAdd16x4,
      Iop_PwAdd32x2, Iop_PwAdd32Fx2, Iop_QNarrowBin32Sto16Sx4, Iop_QNarrowBin16Sto8Sx8,
      Iop_QNarrowBin16Sto8Ux8, Iop_NarrowBin16to8x8, Iop_NarrowBin32to16x4, Iop_Sub8x8, Iop_Sub16x4,
      Iop_Sub32x2, Iop_QSub8Sx8, Iop_QSub16Sx4, Iop_QSub32Sx2, Iop_QSub64Sx1, Iop_QSub8Ux8,
      Iop_QSub16Ux4, Iop_QSub32Ux2, Iop_QSub64Ux1, Iop_Shl8x8, Iop_Shl16x4, Iop_Shl32x2, Iop_Shr8x8,
      Iop_Shr16x4, Iop_Shr32x2, Iop_Sar8x8, Iop_Sar16x4, Iop_Sar32x2, Iop_Sal8x8, Iop_Sal16x4,
      Iop_Sal32x2, Iop_Sal64x1, Iop_QShl8x8, Iop_QShl16x4, Iop_QShl32x2, Iop_QShl64x1, Iop_QSal8x8,
      Iop_QSal16x4, Iop_QSal32x2, Iop_QSal64x1, Iop_RecipStep32Fx2, Iop_RSqrtStep32Fx2}
      then Inr (BINARY Ity_I64 Ity_I64 Ity_I64)
    else if op \<in> {Iop_ShlN32x2, Iop_ShlN16x4, Iop_ShlN8x8, Iop_ShrN32x2, Iop_ShrN16x4, Iop_ShrN8x8, Iop_SarN32x2,
      Iop_SarN16x4, Iop_SarN8x8, Iop_QShlNsatUU8x8, Iop_QShlNsatUU16x4, Iop_QShlNsatUU32x2,
      Iop_QShlNsatUU64x1, Iop_QShlNsatSU8x8, Iop_QShlNsatSU16x4, Iop_QShlNsatSU32x2, Iop_QShlNsatSU64x1,
      Iop_QShlNsatSS8x8, Iop_QShlNsatSS16x4, Iop_QShlNsatSS32x2, Iop_QShlNsatSS64x1}
      then Inr (BINARY Ity_I64 Ity_I8 Ity_I64)
    else if op \<in> {Iop_Shl8, Iop_Shr8, Iop_Sar8}
      then Inr (BINARY Ity_I8 Ity_I8 Ity_I8)
    else if op \<in> {Iop_Shl16, Iop_Shr16, Iop_Sar16}
      then Inr (BINARY Ity_I16 Ity_I8 Ity_I16)
    else if op \<in> {Iop_Shl32, Iop_Shr32, Iop_Sar32}
      then Inr (BINARY Ity_I32 Ity_I8 Ity_I32)
    else if op \<in> {Iop_Shl64, Iop_Shr64, Iop_Sar64}
      then Inr (BINARY Ity_I64 Ity_I8 Ity_I64)
    else if op \<in> {Iop_Not8}
      then Inr (UNARY Ity_I8 Ity_I8)
    else if op \<in> {Iop_Not16}
      then Inr (UNARY Ity_I16 Ity_I16)
    else if op \<in> {Iop_Not32, Iop_CmpNEZ16x2, Iop_CmpNEZ8x4, Iop_Reverse8sIn32_x1}
      then Inr (UNARY Ity_I32 Ity_I32)
    else if op \<in> {Iop_Not64, Iop_CmpNEZ32x2, Iop_CmpNEZ16x4, Iop_CmpNEZ8x8, Iop_Cnt8x8, Iop_Clz8x8, Iop_Clz16x4,
      Iop_Clz32x2, Iop_Cls8x8, Iop_Cls16x4, Iop_Cls32x2, Iop_PwAddL8Ux8, Iop_PwAddL16Ux4,
      Iop_PwAddL32Ux2, Iop_PwAddL8Sx8, Iop_PwAddL16Sx4, Iop_PwAddL32Sx2, Iop_Reverse8sIn64_x1,
      Iop_Reverse16sIn64_x1, Iop_Reverse32sIn64_x1, Iop_Reverse8sIn32_x2, Iop_Reverse16sIn32_x2,
      Iop_Reverse8sIn16_x4, Iop_F32toI32Sx2_RZ, Iop_F32toI32Ux2_RZ, Iop_I32StoF32x2_DEP,
      Iop_I32UtoF32x2_DEP, Iop_RecipEst32Ux2, Iop_RecipEst32Fx2, Iop_Abs32Fx2, Iop_RSqrtEst32Fx2,
      Iop_RSqrtEst32Ux2, Iop_Neg32Fx2, Iop_Abs8x8, Iop_Abs16x4, Iop_Abs32x2}
      then Inr (UNARY Ity_I64 Ity_I64)
    else if op \<in> {Iop_CmpEQ8, Iop_CmpNE8, Iop_CasCmpEQ8, Iop_CasCmpNE8, Iop_ExpCmpNE8}
      then Inr (COMPARISON Ity_I8)
    else other)"

definition primop_cases_2 :: "IROp \<Rightarrow> primop_type res \<Rightarrow> primop_type res" where
  "primop_cases_2 op other =
   (if op \<in> {Iop_CmpEQ16, Iop_CmpNE16, Iop_CasCmpEQ16, Iop_CasCmpNE16, Iop_ExpCmpNE16}
      then Inr (COMPARISON Ity_I16)
    else if op \<in> {Iop_CmpEQ32, Iop_CmpNE32, Iop_CasCmpEQ32, Iop_CasCmpNE32, Iop_ExpCmpNE32, Iop_CmpLT32S,
      Iop_CmpLE32S, Iop_CmpLT32U, Iop_CmpLE32U}
      then Inr (COMPARISON Ity_I32)
    else if op \<in> {Iop_CmpEQ64, Iop_CmpNE64, Iop_CasCmpEQ64, Iop_CasCmpNE64, Iop_ExpCmpNE64, Iop_CmpLT64S,
      Iop_CmpLE64S, Iop_CmpLT64U, Iop_CmpLE64U}
      then Inr (COMPARISON Ity_I64)
    else if op \<in> {Iop_CmpNEZ8}
      then Inr (UNARY_COMPARISON Ity_I8)
    else if op \<in> {Iop_CmpNEZ16}
      then Inr (UNARY_COMPARISON Ity_I16)
    else if op \<in> {Iop_CmpNEZ32}
      then Inr (UNARY_COMPARISON Ity_I32)
    else if op \<in> {Iop_CmpNEZ64}
      then Inr (UNARY_COMPARISON Ity_I64)
    else if op \<in> {Iop_Left8}
      then Inr (UNARY Ity_I8 Ity_I8)
    else if op \<in> {Iop_Left16}
      then Inr (UNARY Ity_I16 Ity_I16)
    else if op \<in> {Iop_CmpwNEZ32, Iop_Left32}
      then Inr (UNARY Ity_I32 Ity_I32)
    else if op \<in> {Iop_CmpwNEZ64, Iop_Left64}
      then Inr (UNARY Ity_I64 Ity_I64)
    else if op \<in> {Iop_GetMSBs8x8}
      then Inr (UNARY Ity_I64 Ity_I8)
    else if op \<in> {Iop_GetMSBs8x16}
      then Inr (UNARY Ity_V128 Ity_I16)
    else if op \<in> {Iop_MullU8, Iop_MullS8}
      then Inr (BINARY Ity_I8 Ity_I8 Ity_I16)
    else if op \<in> {Iop_MullU16, Iop_MullS16}
      then Inr (BINARY Ity_I16 Ity_I16 Ity_I32)
    else if op \<in> {Iop_MullU32, Iop_MullS32}
      then Inr (BINARY Ity_I32 Ity_I32 Ity_I64)
    else if op \<in> {Iop_MullU64, Iop_MullS64}
      then Inr (BINARY Ity_I64 Ity_I64 Ity_I128)
    else if op \<in> {Iop_Clz32, Iop_Ctz32, Iop_ClzNat32, Iop_CtzNat32, Iop_PopCount32}
      then Inr (UNARY Ity_I32 Ity_I32)
    else if op \<in> {Iop_Clz64, Iop_Ctz64, Iop_ClzNat64, Iop_CtzNat64, Iop_PopCount64}
      then Inr (UNARY Ity_I64 Ity_I64)
    else if op \<in> {Iop_DivU32, Iop_DivS32, Iop_DivU32E, Iop_DivS32E}
      then Inr (BINARY Ity_I32 Ity_I32 Ity_I32)
    else if op \<in> {Iop_DivU64, Iop_DivS64, Iop_DivS64E, Iop_DivU64E}
      then Inr (BINARY Ity_I64 Ity_I64 Ity_I64)
    else if op \<in> {Iop_DivModU64to32, Iop_DivModS64to32}
      then Inr (BINARY Ity_I64 Ity_I32 Ity_I64)
    else if op \<in> {Iop_DivModU32to32, Iop_DivModS32to32}
      then Inr (BINARY Ity_I32 Ity_I32 Ity_I64)
    else if op \<in> {Iop_DivModU128to64, Iop_DivModS128to64}
      then Inr (BINARY Ity_I128 Ity_I64 Ity_I128)
    else if op \<in> {Iop_DivModU64to64, Iop_DivModS64to64}
      then Inr (BINARY Ity_I64 Ity_I64 Ity_I128)
    else if op \<in> {Iop_16HIto8, Iop_16to8}
      then Inr (UNARY Ity_I16 Ity_I8)
    else if op \<in> {Iop_8HLto16}
      then Inr (BINARY Ity_I8 Ity_I8 Ity_I16)
    else if op \<in> {Iop_32HIto16, Iop_32to16}
      then Inr (UNARY Ity_I32 Ity_I16)
    else if op \<in> {Iop_16HLto32}
      then Inr (BINARY Ity_I16 Ity_I16 Ity_I32)
    else if op \<in> {Iop_64HIto32, Iop_64to32}
      then Inr (UNARY Ity_I64 Ity_I32)
    else if op \<in> {Iop_32HLto64}
      then Inr (BINARY Ity_I32 Ity_I32 Ity_I64)
    else if op \<in> {Iop_128HIto64, Iop_128to64}
      then Inr (UNARY Ity_I128 Ity_I64)
    else if op \<in> {Iop_64HLto128}
      then Inr (BINARY Ity_I64 Ity_I64 Ity_I128)
    else if op \<in> {Iop_Not1}
      then Inr (UNARY Ity_I1 Ity_I1)
    else if op \<in> {Iop_1Uto8}
      then Inr (UNARY Ity_I1 Ity_I8)
    else if op \<in> {Iop_1Sto8}
      then Inr (UNARY Ity_I1 Ity_I8)
    else if op \<in> {Iop_1Sto16}
      then Inr (UNARY Ity_I1 Ity_I16)
    else if op \<in> {Iop_1Uto32, Iop_1Sto32}
      then Inr (UNARY Ity_I1 Ity_I32)
    else if op \<in> {Iop_1Sto64, Iop_1Uto64}
      then Inr (UNARY Ity_I1 Ity_I64)
    else if op \<in> {Iop_32to1}
      then Inr (UNARY Ity_I32 Ity_I1)
    else if op \<in> {Iop_64to1}
      then Inr (UNARY Ity_I64 Ity_I1)
    else if op \<in> {Iop_8Uto32, Iop_8Sto32}
      then Inr (UNARY Ity_I8 Ity_I32)
    else if op \<in> {Iop_8Uto16, Iop_8Sto16}
      then Inr (UNARY Ity_I8 Ity_I16)
    else if op \<in> {Iop_16Uto32, Iop_16Sto32}
      then Inr (UNARY Ity_I16 Ity_I32)
    else if op \<in> {Iop_32Sto64, Iop_32Uto64}
      then Inr (UNARY Ity_I32 Ity_I64)
    else if op \<in> {Iop_8Uto64, Iop_8Sto64}
      then Inr (UNARY Ity_I8 Ity_I64)
    else if op \<in> {Iop_16Uto64, Iop_16Sto64}
      then Inr (UNARY Ity_I16 Ity_I64)
    else if op \<in> {Iop_64to16}
      then Inr (UNARY Ity_I64 Ity_I16)
    else if op \<in> {Iop_32to8}
      then Inr (UNARY Ity_I32 Ity_I8)
    else if op \<in> {Iop_64to8}
      then Inr (UNARY Ity_I64 Ity_I8)
    else if op \<in> {Iop_AddF64, Iop_SubF64, Iop_MulF64, Iop_DivF64, Iop_AddF64r32, Iop_SubF64r32, Iop_MulF64r32,
      Iop_DivF64r32}
      then Inr (TERNARY ity_RMode Ity_F64 Ity_F64 Ity_F64)
    else if op \<in> {Iop_AddF32, Iop_SubF32, Iop_MulF32, Iop_DivF32}
      then Inr (TERNARY ity_RMode Ity_F32 Ity_F32 Ity_F32)
    else if op \<in> {Iop_NegF64, Iop_AbsF64}
      then Inr (UNARY Ity_F64 Ity_F64)
    else if op \<in> {Iop_NegF32, Iop_AbsF32}
      then Inr (UNARY Ity_F32 Ity_F32)
    else if op \<in> {Iop_SqrtF64, Iop_RecpExpF64}
      then Inr (BINARY ity_RMode Ity_F64 Ity_F64)
    else if op \<in> {Iop_SqrtF32, Iop_RoundF32toInt, Iop_RecpExpF32}
      then Inr (BINARY ity_RMode Ity_F32 Ity_F32)
    else other)"

definition primop_cases_3 :: "IROp \<Rightarrow> primop_type res \<Rightarrow> primop_type res" where
  "primop_cases_3 op other =
   (if op \<in> {Iop_MaxNumF64, Iop_MinNumF64}
      then Inr (BINARY Ity_F64 Ity_F64 Ity_F64)
    else if op \<in> {Iop_MaxNumF32, Iop_MinNumF32}
      then Inr (BINARY Ity_F32 Ity_F32 Ity_F32)
    else if op \<in> {Iop_CmpF32}
      then Inr (BINARY Ity_F32 Ity_F32 Ity_I32)
    else if op \<in> {Iop_CmpF64}
      then Inr (BINARY Ity_F64 Ity_F64 Ity_I32)
    else if op \<in> {Iop_CmpF128}
      then Inr (BINARY Ity_F128 Ity_F128 Ity_I32)
    else if op \<in> {Iop_F64toI16S}
      then Inr (BINARY ity_RMode Ity_F64 Ity_I16)
    else if op \<in> {Iop_F64toI32S}
      then Inr (BINARY ity_RMode Ity_F64 Ity_I32)
    else if op \<in> {Iop_F64toI64S, Iop_F64toI64U}
      then Inr (BINARY ity_RMode Ity_F64 Ity_I64)
    else if op \<in> {Iop_F64toI32U}
      then Inr (BINARY ity_RMode Ity_F64 Ity_I32)
    else if op \<in> {Iop_I32StoF64}
      then Inr (UNARY Ity_I32 Ity_F64)
    else if op \<in> {Iop_I64StoF64}
      then Inr (BINARY ity_RMode Ity_I64 Ity_F64)
    else if op \<in> {Iop_I64UtoF64}
      then Inr (BINARY ity_RMode Ity_I64 Ity_F64)
    else if op \<in> {Iop_I64UtoF32}
      then Inr (BINARY ity_RMode Ity_I64 Ity_F32)
    else if op \<in> {Iop_I32UtoF64}
      then Inr (UNARY Ity_I32 Ity_F64)
    else if op \<in> {Iop_F32toI32S}
      then Inr (BINARY ity_RMode Ity_F32 Ity_I32)
    else if op \<in> {Iop_F32toI64S}
      then Inr (BINARY ity_RMode Ity_F32 Ity_I64)
    else if op \<in> {Iop_F32toI32U}
      then Inr (BINARY ity_RMode Ity_F32 Ity_I32)
    else if op \<in> {Iop_F32toI64U}
      then Inr (BINARY ity_RMode Ity_F32 Ity_I64)
    else if op \<in> {Iop_I32UtoF32}
      then Inr (BINARY ity_RMode Ity_I32 Ity_F32)
    else if op \<in> {Iop_I32StoF32}
      then Inr (BINARY ity_RMode Ity_I32 Ity_F32)
    else if op \<in> {Iop_I64StoF32}
      then Inr (BINARY ity_RMode Ity_I64 Ity_F32)
    else if op \<in> {Iop_F32toF64}
      then Inr (UNARY Ity_F32 Ity_F64)
    else if op \<in> {Iop_F16toF64}
      then Inr (UNARY Ity_F16 Ity_F64)
    else if op \<in> {Iop_F16toF32}
      then Inr (UNARY Ity_F16 Ity_F32)
    else if op \<in> {Iop_F64toF32}
      then Inr (BINARY ity_RMode Ity_F64 Ity_F32)
    else if op \<in> {Iop_F64toF16}
      then Inr (BINARY ity_RMode Ity_F64 Ity_F16)
    else if op \<in> {Iop_F32toF16}
      then Inr (BINARY ity_RMode Ity_F32 Ity_F16)
    else if op \<in> {Iop_ReinterpI64asF64}
      then Inr (UNARY Ity_I64 Ity_F64)
    else if op \<in> {Iop_ReinterpF64asI64}
      then Inr (UNARY Ity_F64 Ity_I64)
    else if op \<in> {Iop_ReinterpI32asF32}
      then Inr (UNARY Ity_I32 Ity_F32)
    else if op \<in> {Iop_ReinterpF32asI32}
      then Inr (UNARY Ity_F32 Ity_I32)
    else if op \<in> {Iop_AtanF64, Iop_Yl2xF64, Iop_Yl2xp1F64, Iop_ScaleF64, Iop_PRemF64, Iop_PRem1F64}
      then Inr (TERNARY ity_RMode Ity_F64 Ity_F64 Ity_F64)
    else if op \<in> {Iop_PRemC3210F64, Iop_PRem1C3210F64}
      then Inr (TERNARY ity_RMode Ity_F64 Ity_F64 Ity_I32)
    else if op \<in> {Iop_SinF64, Iop_CosF64, Iop_TanF64, Iop_2xm1F64, Iop_RoundF64toInt}
      then Inr (BINARY ity_RMode Ity_F64 Ity_F64)
    else if op \<in> {Iop_MAddF64, Iop_MSubF64, Iop_MAddF64r32, Iop_MSubF64r32}
      then Inr (QUATERNARY ity_RMode Ity_F64 Ity_F64 Ity_F64 Ity_F64)
    else if op \<in> {Iop_RSqrtEst5GoodF64, Iop_RoundF64toF64_NEAREST, Iop_RoundF64toF64_NegINF,
      Iop_RoundF64toF64_PosINF, Iop_RoundF64toF64_ZERO}
      then Inr (UNARY Ity_F64 Ity_F64)
    else if op \<in> {Iop_RoundF64toF32}
      then Inr (BINARY ity_RMode Ity_F64 Ity_F64)
    else if op \<in> {Iop_TruncF64asF32}
      then Inr (UNARY Ity_F64 Ity_F32)
    else if op \<in> {Iop_I32UtoF32x4_DEP, Iop_I32StoF32x4_DEP, Iop_QF32toI32Ux4_RZ, Iop_QF32toI32Sx4_RZ,
      Iop_F32toI32Ux4_RZ, Iop_F32toI32Sx4_RZ, Iop_RoundF32x4_RM, Iop_RoundF32x4_RP, Iop_RoundF32x4_RN,
      Iop_RoundF32x4_RZ, Iop_Abs64Fx2, Iop_Abs32Fx4, Iop_RSqrtEst32Fx4, Iop_RSqrtEst32Ux4}
      then Inr (UNARY Ity_V128 Ity_V128)
    else if op \<in> {Iop_Sqrt64Fx2, Iop_Sqrt32Fx4, Iop_I32StoF32x4, Iop_F32toI32Sx4}
      then Inr (BINARY ity_RMode Ity_V128 Ity_V128)
    else if op \<in> {Iop_F32toF16x4}
      then Inr (BINARY ity_RMode Ity_V128 Ity_I64)
    else if op \<in> {Iop_64HLtoV128}
      then Inr (BINARY Ity_I64 Ity_I64 Ity_V128)
    else if op \<in> {Iop_Scale2_32Fx4, Iop_Scale2_64Fx2}
      then Inr (TERNARY ity_RMode Ity_V128 Ity_V128 Ity_V128)
    else if op \<in> {Iop_Log2_32Fx4, Iop_Log2_64Fx2}
      then Inr (UNARY Ity_V128 Ity_V128)
    else if op \<in> {Iop_V128to64, Iop_V128HIto64, Iop_NarrowUn16to8x8, Iop_NarrowUn32to16x4, Iop_NarrowUn64to32x2,
      Iop_QNarrowUn16Uto8Ux8, Iop_QNarrowUn32Uto16Ux4, Iop_QNarrowUn64Uto32Ux2, Iop_QNarrowUn16Sto8Sx8,
      Iop_QNarrowUn32Sto16Sx4, Iop_QNarrowUn64Sto32Sx2, Iop_QNarrowUn16Sto8Ux8, Iop_QNarrowUn32Sto16Ux4,
      Iop_QNarrowUn64Sto32Ux2, Iop_F32toF16x4_DEP}
      then Inr (UNARY Ity_V128 Ity_I64)
    else if op \<in> {Iop_Widen8Uto16x8, Iop_Widen16Uto32x4, Iop_Widen32Uto64x2, Iop_Widen8Sto16x8, Iop_Widen16Sto32x4,
      Iop_Widen32Sto64x2, Iop_F16toF32x4}
      then Inr (UNARY Ity_I64 Ity_V128)
    else if op \<in> {Iop_V128to32}
      then Inr (UNARY Ity_V128 Ity_I32)
    else if op \<in> {Iop_32UtoV128}
      then Inr (UNARY Ity_I32 Ity_V128)
    else if op \<in> {Iop_64UtoV128}
      then Inr (UNARY Ity_I64 Ity_V128)
    else if op \<in> {Iop_SetV128lo32}
      then Inr (BINARY Ity_V128 Ity_I32 Ity_V128)
    else if op \<in> {Iop_SetV128lo64}
      then Inr (BINARY Ity_V128 Ity_I64 Ity_V128)
    else other)"

definition primop_cases_4 :: "IROp \<Rightarrow> primop_type res \<Rightarrow> primop_type res" where
  "primop_cases_4 op other =
   (if op \<in> {Iop_Dup8x16}
      then Inr (UNARY Ity_I8 Ity_V128)
    else if op \<in> {Iop_Dup16x8}
      then Inr (UNARY Ity_I16 Ity_V128)
    else if op \<in> {Iop_Dup32x4}
      then Inr (UNARY Ity_I32 Ity_V128)
    else if op \<in> {Iop_Dup8x8}
      then Inr (UNARY Ity_I8 Ity_I64)
    else if op \<in> {Iop_Dup16x4}
      then Inr (UNARY Ity_I16 Ity_I64)
    else if op \<in> {Iop_Dup32x2}
      then Inr (UNARY Ity_I32 Ity_I64)
    else if op \<in> {Iop_CmpEQ32Fx4, Iop_CmpLT32Fx4, Iop_CmpEQ64Fx2, Iop_CmpLT64Fx2, Iop_CmpLE32Fx4, Iop_CmpUN32Fx4,
      Iop_CmpLE64Fx2, Iop_CmpUN64Fx2, Iop_CmpGT32Fx4, Iop_CmpGE32Fx4, Iop_CmpEQ32F0x4, Iop_CmpLT32F0x4,
      Iop_CmpEQ64F0x2, Iop_CmpLT64F0x2, Iop_CmpLE32F0x4, Iop_CmpUN32F0x4, Iop_CmpLE64F0x2,
      Iop_CmpUN64F0x2, Iop_Add32F0x4, Iop_Add64F0x2, Iop_Div32F0x4, Iop_Div64F0x2, Iop_Max32Fx4,
      Iop_Max32F0x4, Iop_PwMax32Fx4, Iop_PwMin32Fx4, Iop_Max64Fx2, Iop_Max64F0x2, Iop_Min32Fx4,
      Iop_Min32F0x4, Iop_Min64Fx2, Iop_Min64F0x2, Iop_Mul32F0x4, Iop_Mul64F0x2, Iop_Sub32F0x4,
      Iop_Sub64F0x2, Iop_AndV128, Iop_OrV128, Iop_XorV128, Iop_Add8x16, Iop_Add16x8, Iop_Add32x4,
      Iop_Add64x2, Iop_Add128x1, Iop_QAdd8Ux16, Iop_QAdd16Ux8, Iop_QAdd32Ux4, Iop_QAdd64Ux2,
      Iop_QAdd8Sx16, Iop_QAdd16Sx8, Iop_QAdd32Sx4, Iop_QAdd64Sx2, Iop_QAddExtUSsatSS8x16,
      Iop_QAddExtUSsatSS16x8, Iop_QAddExtUSsatSS32x4, Iop_QAddExtUSsatSS64x2, Iop_QAddExtSUsatUU8x16,
      Iop_QAddExtSUsatUU16x8, Iop_QAddExtSUsatUU32x4, Iop_QAddExtSUsatUU64x2, Iop_PwAdd8x16,
      Iop_PwAdd16x8, Iop_PwAdd32x4, Iop_Sub8x16, Iop_Sub16x8, Iop_Sub32x4, Iop_Sub64x2, Iop_Sub128x1,
      Iop_QSub8Ux16, Iop_QSub16Ux8, Iop_QSub32Ux4, Iop_QSub64Ux2, Iop_QSub8Sx16, Iop_QSub16Sx8,
      Iop_QSub32Sx4, Iop_QSub64Sx2, Iop_Mul8x16, Iop_Mul16x8, Iop_Mul32x4, Iop_PolynomialMul8x16,
      Iop_PolynomialMulAdd8x16, Iop_PolynomialMulAdd16x8, Iop_PolynomialMulAdd32x4,
      Iop_PolynomialMulAdd64x2, Iop_MulHi8Ux16, Iop_MulHi16Ux8, Iop_MulHi32Ux4, Iop_MulHi8Sx16,
      Iop_MulHi16Sx8, Iop_MulHi32Sx4, Iop_QDMulHi16Sx8, Iop_QDMulHi32Sx4, Iop_QRDMulHi16Sx8,
      Iop_QRDMulHi32Sx4, Iop_MullEven8Ux16, Iop_MullEven16Ux8, Iop_MullEven32Ux4, Iop_MullEven8Sx16,
      Iop_MullEven16Sx8, Iop_MullEven32Sx4, Iop_Avg8Ux16, Iop_Avg16Ux8, Iop_Avg32Ux4, Iop_Avg64Ux2,
      Iop_Avg8Sx16, Iop_Avg16Sx8, Iop_Avg32Sx4, Iop_Avg64Sx2, Iop_Max8Sx16, Iop_Max16Sx8, Iop_Max32Sx4,
      Iop_Max64Sx2, Iop_Max8Ux16, Iop_Max16Ux8, Iop_Max32Ux4, Iop_Max64Ux2, Iop_Min8Sx16, Iop_Min16Sx8,
      Iop_Min32Sx4, Iop_Min64Sx2, Iop_Min8Ux16, Iop_Min16Ux8, Iop_Min32Ux4, Iop_Min64Ux2, Iop_CmpEQ8x16,
      Iop_CmpEQ16x8, Iop_CmpEQ32x4, Iop_CmpEQ64x2, Iop_CmpGT8Sx16, Iop_CmpGT16Sx8, Iop_CmpGT32Sx4,
      Iop_CmpGT64Sx2, Iop_CmpGT8Ux16, Iop_CmpGT16Ux8, Iop_CmpGT32Ux4, Iop_CmpGT64Ux2, Iop_Shl8x16,
      Iop_Shl16x8, Iop_Shl32x4, Iop_Shl64x2, Iop_QShl8x16, Iop_QShl16x8, Iop_QShl32x4, Iop_QShl64x2,
      Iop_QSal8x16, Iop_QSal16x8, Iop_QSal32x4, Iop_QSal64x2, Iop_Shr8x16, Iop_Shr16x8, Iop_Shr32x4,
      Iop_Shr64x2, Iop_Sar8x16, Iop_Sar16x8, Iop_Sar32x4, Iop_Sar64x2, Iop_Sal8x16, Iop_Sal16x8,
      Iop_Sal32x4, Iop_Sal64x2, Iop_Rol8x16, Iop_Rol16x8, Iop_Rol32x4, Iop_Rol64x2,
      Iop_QNarrowBin16Sto8Ux16, Iop_QNarrowBin32Sto16Ux8, Iop_QNarrowBin16Sto8Sx16,
      Iop_QNarrowBin32Sto16Sx8, Iop_QNarrowBin16Uto8Ux16, Iop_QNarrowBin32Uto16Ux8,
      Iop_QNarrowBin64Sto32Sx4, Iop_QNarrowBin64Uto32Ux4, Iop_NarrowBin16to8x16, Iop_NarrowBin32to16x8,
      Iop_NarrowBin64to32x4, Iop_InterleaveHI8x16, Iop_InterleaveHI16x8, Iop_InterleaveHI32x4,
      Iop_InterleaveHI64x2, Iop_InterleaveLO8x16, Iop_InterleaveLO16x8, Iop_InterleaveLO32x4,
      Iop_InterleaveLO64x2, Iop_CatOddLanes8x16, Iop_CatEvenLanes8x16, Iop_CatOddLanes16x8,
      Iop_CatEvenLanes16x8, Iop_CatOddLanes32x4, Iop_CatEvenLanes32x4, Iop_InterleaveOddLanes8x16,
      Iop_InterleaveEvenLanes8x16, Iop_InterleaveOddLanes16x8, Iop_InterleaveEvenLanes16x8,
      Iop_InterleaveOddLanes32x4, Iop_InterleaveEvenLanes32x4, Iop_PackOddLanes8x16,
      Iop_PackEvenLanes8x16, Iop_PackOddLanes16x8, Iop_PackEvenLanes16x8, Iop_PackOddLanes32x4,
      Iop_PackEvenLanes32x4, Iop_Perm8x16, Iop_PermOrZero8x16, Iop_Perm32x4, Iop_RecipStep32Fx4,
      Iop_RecipStep64Fx2, Iop_RSqrtStep32Fx4, Iop_RSqrtStep64Fx2, Iop_CipherV128, Iop_CipherLV128,
      Iop_NCipherV128, Iop_NCipherLV128, Iop_Sh8Sx16, Iop_Sh16Sx8, Iop_Sh32Sx4, Iop_Sh64Sx2,
      Iop_Sh8Ux16, Iop_Sh16Ux8, Iop_Sh32Ux4, Iop_Sh64Ux2, Iop_Rsh8Sx16, Iop_Rsh16Sx8, Iop_Rsh32Sx4,
      Iop_Rsh64Sx2, Iop_Rsh8Ux16, Iop_Rsh16Ux8, Iop_Rsh32Ux4, Iop_Rsh64Ux2, Iop_MulI128by10E,
      Iop_MulI128by10ECarry, Iop_PwExtUSMulQAdd8x16}
      then Inr (BINARY Ity_V128 Ity_V128 Ity_V128)
    else if op \<in> {Iop_Perm8x16x2}
      then Inr (TERNARY Ity_V128 Ity_V128 Ity_V128 Ity_V128)
    else if op \<in> {Iop_PolynomialMull8x8, Iop_Mull8Ux8, Iop_Mull8Sx8, Iop_Mull16Ux4, Iop_Mull16Sx4, Iop_Mull32Ux2,
      Iop_Mull32Sx2}
      then Inr (BINARY Ity_I64 Ity_I64 Ity_V128)
    else other)"

definition primop_cases_5 :: "IROp \<Rightarrow> primop_type res \<Rightarrow> primop_type res" where
  "primop_cases_5 op other =
   (if op \<in> {Iop_NotV128, Iop_RecipEst32Fx4, Iop_RecipEst32F0x4, Iop_RecipEst64Fx2, Iop_RSqrtEst64Fx2,
      Iop_RecipEst32Ux4, Iop_RSqrtEst32F0x4, Iop_Sqrt32F0x4, Iop_Sqrt64F0x2, Iop_CmpNEZ8x16,
      Iop_CmpNEZ16x8, Iop_CmpNEZ32x4, Iop_CmpNEZ64x2, Iop_CmpNEZ128x1, Iop_Cnt8x16, Iop_Clz8x16,
      Iop_Clz16x8, Iop_Clz32x4, Iop_Clz64x2, Iop_Cls8x16, Iop_Cls16x8, Iop_Cls32x4, Iop_PwAddL8Ux16,
      Iop_PwAddL16Ux8, Iop_PwAddL32Ux4, Iop_PwAddL64Ux2, Iop_PwAddL8Sx16, Iop_PwAddL16Sx8,
      Iop_PwAddL32Sx4, Iop_Reverse8sIn64_x2, Iop_Reverse16sIn64_x2, Iop_Reverse32sIn64_x2,
      Iop_Reverse8sIn32_x4, Iop_Reverse16sIn32_x4, Iop_Reverse8sIn16_x8, Iop_Reverse1sIn8_x16,
      Iop_Neg64Fx2, Iop_Neg32Fx4, Iop_Abs8x16, Iop_Abs16x8, Iop_Abs32x4, Iop_Abs64x2, Iop_CipherSV128,
      Iop_PwBitMtxXpose64x2, Iop_ZeroHI64ofV128, Iop_ZeroHI96ofV128, Iop_ZeroHI112ofV128,
      Iop_ZeroHI120ofV128, Iop_F16toF64x2, Iop_F64toF16x2_DEP, Iop_MulI128by10, Iop_MulI128by10Carry,
      Iop_Ctz8x16, Iop_Ctz16x8, Iop_Ctz32x4, Iop_Ctz64x2, Iop_BCD128toI128S}
      then Inr (UNARY Ity_V128 Ity_V128)
    else if op \<in> {Iop_ShlV128, Iop_ShrV128, Iop_SarV128, Iop_ShlN8x16, Iop_ShlN16x8, Iop_ShlN32x4, Iop_ShlN64x2,
      Iop_ShrN8x16, Iop_ShrN16x8, Iop_ShrN32x4, Iop_ShrN64x2, Iop_SarN8x16, Iop_SarN16x8, Iop_SarN32x4,
      Iop_SarN64x2, Iop_QShlNsatUU8x16, Iop_QShlNsatUU16x8, Iop_QShlNsatUU32x4, Iop_QShlNsatUU64x2,
      Iop_QShlNsatSU8x16, Iop_QShlNsatSU16x8, Iop_QShlNsatSU32x4, Iop_QShlNsatSU64x2,
      Iop_QShlNsatSS8x16, Iop_QShlNsatSS16x8, Iop_QShlNsatSS32x4, Iop_QShlNsatSS64x2, Iop_SHA256,
      Iop_SHA512, Iop_QandQShrNnarrow16Uto8Ux8, Iop_QandQShrNnarrow32Uto16Ux4,
      Iop_QandQShrNnarrow64Uto32Ux2, Iop_QandQSarNnarrow16Sto8Sx8, Iop_QandQSarNnarrow32Sto16Sx4,
      Iop_QandQSarNnarrow64Sto32Sx2, Iop_QandQSarNnarrow16Sto8Ux8, Iop_QandQSarNnarrow32Sto16Ux4,
      Iop_QandQSarNnarrow64Sto32Ux2, Iop_QandQRShrNnarrow16Uto8Ux8, Iop_QandQRShrNnarrow32Uto16Ux4,
      Iop_QandQRShrNnarrow64Uto32Ux2, Iop_QandQRSarNnarrow16Sto8Sx8, Iop_QandQRSarNnarrow32Sto16Sx4,
      Iop_QandQRSarNnarrow64Sto32Sx2, Iop_QandQRSarNnarrow16Sto8Ux8, Iop_QandQRSarNnarrow32Sto16Ux4,
      Iop_QandQRSarNnarrow64Sto32Ux2, Iop_I128StoBCD128}
      then Inr (BINARY Ity_V128 Ity_I8 Ity_V128)
    else if op \<in> {Iop_F32ToFixed32Ux4_RZ, Iop_F32ToFixed32Sx4_RZ, Iop_Fixed32UToF32x4_RN, Iop_Fixed32SToF32x4_RN}
      then Inr (BINARY Ity_V128 Ity_I8 Ity_V128)
    else if op \<in> {Iop_F32ToFixed32Ux2_RZ, Iop_F32ToFixed32Sx2_RZ, Iop_Fixed32UToF32x2_RN, Iop_Fixed32SToF32x2_RN}
      then Inr (BINARY Ity_I64 Ity_I8 Ity_I64)
    else if op \<in> {Iop_GetElem8x16}
      then Inr (BINARY Ity_V128 Ity_I8 Ity_I8)
    else if op \<in> {Iop_GetElem16x8}
      then Inr (BINARY Ity_V128 Ity_I8 Ity_I16)
    else if op \<in> {Iop_GetElem32x4}
      then Inr (BINARY Ity_V128 Ity_I8 Ity_I32)
    else if op \<in> {Iop_GetElem64x2}
      then Inr (BINARY Ity_V128 Ity_I8 Ity_I64)
    else if op \<in> {Iop_SetElem8x16}
      then Inr (TERNARY Ity_V128 Ity_I8 Ity_I8 Ity_V128)
    else if op \<in> {Iop_SetElem16x8}
      then Inr (TERNARY Ity_V128 Ity_I8 Ity_I16 Ity_V128)
    else if op \<in> {Iop_SetElem32x4}
      then Inr (TERNARY Ity_V128 Ity_I8 Ity_I32 Ity_V128)
    else if op \<in> {Iop_SetElem64x2}
      then Inr (TERNARY Ity_V128 Ity_I8 Ity_I64 Ity_V128)
    else if op \<in> {Iop_GetElem8x8}
      then Inr (BINARY Ity_I64 Ity_I8 Ity_I8)
    else if op \<in> {Iop_GetElem16x4}
      then Inr (BINARY Ity_I64 Ity_I8 Ity_I16)
    else if op \<in> {Iop_GetElem32x2}
      then Inr (BINARY Ity_I64 Ity_I8 Ity_I32)
    else if op \<in> {Iop_SetElem8x8}
      then Inr (TERNARY Ity_I64 Ity_I8 Ity_I8 Ity_I64)
    else if op \<in> {Iop_SetElem16x4}
      then Inr (TERNARY Ity_I64 Ity_I8 Ity_I16 Ity_I64)
    else if op \<in> {Iop_SetElem32x2}
      then Inr (TERNARY Ity_I64 Ity_I8 Ity_I32 Ity_I64)
    else if op \<in> {Iop_Slice64}
      then Inr (TERNARY Ity_I64 Ity_I64 Ity_I8 Ity_I64)
    else if op \<in> {Iop_SliceV128}
      then Inr (TERNARY Ity_V128 Ity_V128 Ity_I8 Ity_V128)
    else if op \<in> {Iop_BCDAdd, Iop_BCDSub}
      then Inr (BINARY Ity_V128 Ity_V128 Ity_V128)
    else if op \<in> {Iop_QDMull16Sx4, Iop_QDMull32Sx2}
      then Inr (BINARY Ity_I64 Ity_I64 Ity_V128)
    else if op \<in> {Iop_MAddF32, Iop_MSubF32}
      then Inr (QUATERNARY ity_RMode Ity_F32 Ity_F32 Ity_F32 Ity_F32)
    else if op \<in> {Iop_F64HLtoF128}
      then Inr (BINARY Ity_F64 Ity_F64 Ity_F128)
    else if op \<in> {Iop_F128HItoF64, Iop_F128LOtoF64}
      then Inr (UNARY Ity_F128 Ity_F64)
    else if op \<in> {Iop_AddF128, Iop_SubF128, Iop_MulF128, Iop_DivF128}
      then Inr (TERNARY ity_RMode Ity_F128 Ity_F128 Ity_F128)
    else other)"

definition primop_cases_6 :: "IROp \<Rightarrow> primop_type res \<Rightarrow> primop_type res" where
  "primop_cases_6 op other =
   (if op \<in> {Iop_MAddF128, Iop_MSubF128, Iop_NegMAddF128, Iop_NegMSubF128}
      then Inr (QUATERNARY ity_RMode Ity_F128 Ity_F128 Ity_F128 Ity_F128)
    else if op \<in> {Iop_Add64Fx2, Iop_Sub64Fx2, Iop_Mul64Fx2, Iop_Div64Fx2, Iop_Add32Fx4, Iop_Sub32Fx4, Iop_Mul32Fx4,
      Iop_Div32Fx4, Iop_F64x2_2toQ32x4, Iop_F32x4_2toQ16x8}
      then Inr (TERNARY ity_RMode Ity_V128 Ity_V128 Ity_V128)
    else if op \<in> {Iop_Add64Fx4, Iop_Sub64Fx4, Iop_Mul64Fx4, Iop_Div64Fx4, Iop_Add32Fx8, Iop_Sub32Fx8, Iop_Mul32Fx8,
      Iop_Div32Fx8}
      then Inr (TERNARY ity_RMode Ity_V256 Ity_V256 Ity_V256)
    else if op \<in> {Iop_NegF128, Iop_AbsF128}
      then Inr (UNARY Ity_F128 Ity_F128)
    else if op \<in> {Iop_SqrtF128, Iop_RoundF128toInt}
      then Inr (BINARY ity_RMode Ity_F128 Ity_F128)
    else if op \<in> {Iop_I32StoF128}
      then Inr (UNARY Ity_I32 Ity_F128)
    else if op \<in> {Iop_I64StoF128}
      then Inr (UNARY Ity_I64 Ity_F128)
    else if op \<in> {Iop_I32UtoF128}
      then Inr (UNARY Ity_I32 Ity_F128)
    else if op \<in> {Iop_I64UtoF128}
      then Inr (UNARY Ity_I64 Ity_F128)
    else if op \<in> {Iop_F128toI32S}
      then Inr (BINARY ity_RMode Ity_F128 Ity_I32)
    else if op \<in> {Iop_F128toI64S}
      then Inr (BINARY ity_RMode Ity_F128 Ity_I64)
    else if op \<in> {Iop_F128toI32U}
      then Inr (BINARY ity_RMode Ity_F128 Ity_I32)
    else if op \<in> {Iop_F128toI64U}
      then Inr (BINARY ity_RMode Ity_F128 Ity_I64)
    else if op \<in> {Iop_F32toF128}
      then Inr (UNARY Ity_F32 Ity_F128)
    else if op \<in> {Iop_F64toF128}
      then Inr (UNARY Ity_F64 Ity_F128)
    else if op \<in> {Iop_F128toF32}
      then Inr (BINARY ity_RMode Ity_F128 Ity_F32)
    else if op \<in> {Iop_F128toF64}
      then Inr (BINARY ity_RMode Ity_F128 Ity_F64)
    else if op \<in> {Iop_TruncF128toI32S, Iop_TruncF128toI64S, Iop_TruncF128toI32U, Iop_TruncF128toI64U}
      then Inr (UNARY Ity_F128 Ity_F128)
    else if op \<in> {Iop_F128toI128S, Iop_RndF128}
      then Inr (BINARY ity_RMode Ity_F128 Ity_F128)
    else if op \<in> {Iop_D32toD64}
      then Inr (UNARY Ity_D32 Ity_D64)
    else if op \<in> {Iop_ExtractExpD64}
      then Inr (UNARY Ity_D64 Ity_I64)
    else if op \<in> {Iop_ExtractSigD64}
      then Inr (UNARY Ity_D64 Ity_I64)
    else if op \<in> {Iop_InsertExpD64}
      then Inr (BINARY Ity_I64 Ity_D64 Ity_D64)
    else if op \<in> {Iop_ExtractExpD128}
      then Inr (UNARY Ity_D128 Ity_I64)
    else if op \<in> {Iop_ExtractSigD128}
      then Inr (UNARY Ity_D128 Ity_I64)
    else if op \<in> {Iop_InsertExpD128}
      then Inr (BINARY Ity_I64 Ity_D128 Ity_D128)
    else if op \<in> {Iop_D64toD128}
      then Inr (UNARY Ity_D64 Ity_D128)
    else if op \<in> {Iop_ReinterpD64asI64}
      then Inr (UNARY Ity_D64 Ity_I64)
    else if op \<in> {Iop_ReinterpI64asD64}
      then Inr (UNARY Ity_I64 Ity_D64)
    else if op \<in> {Iop_RoundD64toInt}
      then Inr (BINARY ity_RMode Ity_D64 Ity_D64)
    else if op \<in> {Iop_RoundD128toInt}
      then Inr (BINARY ity_RMode Ity_D128 Ity_D128)
    else if op \<in> {Iop_I32StoD128, Iop_I32UtoD128}
      then Inr (UNARY Ity_I32 Ity_D128)
    else if op \<in> {Iop_I64StoD128}
      then Inr (UNARY Ity_I64 Ity_D128)
    else if op \<in> {Iop_I64UtoD128}
      then Inr (UNARY Ity_I64 Ity_D128)
    else if op \<in> {Iop_DPBtoBCD, Iop_BCDtoDPB}
      then Inr (UNARY Ity_I64 Ity_I64)
    else if op \<in> {Iop_D128HItoD64, Iop_D128LOtoD64}
      then Inr (UNARY Ity_D128 Ity_D64)
    else if op \<in> {Iop_D128toI64S}
      then Inr (BINARY ity_RMode Ity_D128 Ity_I64)
    else if op \<in> {Iop_D128toI64U}
      then Inr (BINARY ity_RMode Ity_D128 Ity_I64)
    else if op \<in> {Iop_D128toI32S, Iop_D128toI32U}
      then Inr (BINARY ity_RMode Ity_D128 Ity_I32)
    else if op \<in> {Iop_D64HLtoD128}
      then Inr (BINARY Ity_D64 Ity_D64 Ity_D128)
    else if op \<in> {Iop_ShlD64, Iop_ShrD64}
      then Inr (BINARY Ity_D64 Ity_I8 Ity_D64)
    else if op \<in> {Iop_D64toD32}
      then Inr (BINARY ity_RMode Ity_D64 Ity_D32)
    else if op \<in> {Iop_D64toI32S, Iop_D64toI32U}
      then Inr (BINARY ity_RMode Ity_D64 Ity_I32)
    else if op \<in> {Iop_D64toI64S}
      then Inr (BINARY ity_RMode Ity_D64 Ity_I64)
    else if op \<in> {Iop_D64toI64U}
      then Inr (BINARY ity_RMode Ity_D64 Ity_I64)
    else other)"

definition primop_cases_7 :: "IROp \<Rightarrow> primop_type res \<Rightarrow> primop_type res" where
  "primop_cases_7 op other =
   (if op \<in> {Iop_I32StoD64, Iop_I32UtoD64}
      then Inr (UNARY Ity_I32 Ity_D64)
    else if op \<in> {Iop_I64StoD64}
      then Inr (BINARY ity_RMode Ity_I64 Ity_D64)
    else if op \<in> {Iop_I64UtoD64}
      then Inr (BINARY ity_RMode Ity_I64 Ity_D64)
    else if op \<in> {Iop_F32toD32}
      then Inr (BINARY ity_RMode Ity_F32 Ity_D32)
    else if op \<in> {Iop_F32toD64}
      then Inr (BINARY ity_RMode Ity_F32 Ity_D64)
    else if op \<in> {Iop_F32toD128}
      then Inr (BINARY ity_RMode Ity_F32 Ity_D128)
    else if op \<in> {Iop_F64toD32}
      then Inr (BINARY ity_RMode Ity_F64 Ity_D32)
    else if op \<in> {Iop_F64toD64}
      then Inr (BINARY ity_RMode Ity_F64 Ity_D64)
    else if op \<in> {Iop_F64toD128}
      then Inr (BINARY ity_RMode Ity_F64 Ity_D128)
    else if op \<in> {Iop_F128toD32}
      then Inr (BINARY ity_RMode Ity_F128 Ity_D32)
    else if op \<in> {Iop_F128toD64}
      then Inr (BINARY ity_RMode Ity_F128 Ity_D64)
    else if op \<in> {Iop_F128toD128}
      then Inr (BINARY ity_RMode Ity_F128 Ity_D128)
    else if op \<in> {Iop_D32toF32}
      then Inr (BINARY ity_RMode Ity_D32 Ity_F32)
    else if op \<in> {Iop_D32toF64}
      then Inr (BINARY ity_RMode Ity_D32 Ity_F64)
    else if op \<in> {Iop_D32toF128}
      then Inr (BINARY ity_RMode Ity_D32 Ity_F128)
    else if op \<in> {Iop_D64toF32}
      then Inr (BINARY ity_RMode Ity_D64 Ity_F32)
    else if op \<in> {Iop_D64toF64}
      then Inr (BINARY ity_RMode Ity_D64 Ity_F64)
    else if op \<in> {Iop_D64toF128}
      then Inr (BINARY ity_RMode Ity_D64 Ity_F128)
    else if op \<in> {Iop_D128toF32}
      then Inr (BINARY ity_RMode Ity_D128 Ity_F32)
    else if op \<in> {Iop_D128toF64}
      then Inr (BINARY ity_RMode Ity_D128 Ity_F64)
    else if op \<in> {Iop_D128toF128}
      then Inr (BINARY ity_RMode Ity_D128 Ity_F128)
    else if op \<in> {Iop_CmpD64, Iop_CmpExpD64}
      then Inr (BINARY Ity_D64 Ity_D64 Ity_I32)
    else if op \<in> {Iop_CmpD128, Iop_CmpExpD128}
      then Inr (BINARY Ity_D128 Ity_D128 Ity_I32)
    else if op \<in> {Iop_QuantizeD64}
      then Inr (TERNARY ity_RMode Ity_D64 Ity_D64 Ity_D64)
    else if op \<in> {Iop_SignificanceRoundD64}
      then Inr (TERNARY ity_RMode Ity_I8 Ity_D64 Ity_D64)
    else if op \<in> {Iop_QuantizeD128}
      then Inr (TERNARY ity_RMode Ity_D128 Ity_D128 Ity_D128)
    else if op \<in> {Iop_SignificanceRoundD128}
      then Inr (TERNARY ity_RMode Ity_I8 Ity_D128 Ity_D128)
    else if op \<in> {Iop_ShlD128, Iop_ShrD128}
      then Inr (BINARY Ity_D128 Ity_I8 Ity_D128)
    else if op \<in> {Iop_AddD64, Iop_SubD64, Iop_MulD64, Iop_DivD64}
      then Inr (TERNARY ity_RMode Ity_D64 Ity_D64 Ity_D64)
    else if op \<in> {Iop_D128toD64}
      then Inr (BINARY ity_RMode Ity_D128 Ity_D64)
    else if op \<in> {Iop_AddD128, Iop_SubD128, Iop_MulD128, Iop_DivD128}
      then Inr (TERNARY ity_RMode Ity_D128 Ity_D128 Ity_D128)
    else if op \<in> {Iop_V256to64_0, Iop_V256to64_1, Iop_V256to64_2, Iop_V256to64_3}
      then Inr (UNARY Ity_V256 Ity_I64)
    else if op \<in> {Iop_64x4toV256}
      then Inr (QUATERNARY Ity_I64 Ity_I64 Ity_I64 Ity_I64 Ity_V256)
    else if op \<in> {Iop_AndV256, Iop_OrV256, Iop_XorV256, Iop_Max32Fx8, Iop_Min32Fx8, Iop_Max64Fx4, Iop_Min64Fx4,
      Iop_Add8x32, Iop_Add16x16, Iop_Add32x8, Iop_Add64x4, Iop_Sub8x32, Iop_Sub16x16, Iop_Sub32x8,
      Iop_Sub64x4, Iop_Mul16x16, Iop_Mul32x8, Iop_MulHi16Ux16, Iop_MulHi16Sx16, Iop_Avg8Ux32,
      Iop_Avg16Ux16, Iop_Max8Sx32, Iop_Max16Sx16, Iop_Max32Sx8, Iop_Max8Ux32, Iop_Max16Ux16,
      Iop_Max32Ux8, Iop_Min8Sx32, Iop_Min16Sx16, Iop_Min32Sx8, Iop_Min8Ux32, Iop_Min16Ux16,
      Iop_Min32Ux8, Iop_CmpEQ8x32, Iop_CmpEQ16x16, Iop_CmpEQ32x8, Iop_CmpEQ64x4, Iop_CmpGT8Sx32,
      Iop_CmpGT16Sx16, Iop_CmpGT32Sx8, Iop_CmpGT64Sx4, Iop_QAdd8Ux32, Iop_QAdd16Ux16, Iop_QAdd8Sx32,
      Iop_QAdd16Sx16, Iop_QSub8Ux32, Iop_QSub16Ux16, Iop_QSub8Sx32, Iop_QSub16Sx16, Iop_Perm32x8}
      then Inr (BINARY Ity_V256 Ity_V256 Ity_V256)
    else if op \<in> {Iop_I32StoF32x8, Iop_F32toI32Sx8}
      then Inr (BINARY ity_RMode Ity_V256 Ity_V256)
    else other)"

definition primop_cases_8 :: "IROp \<Rightarrow> primop_type res \<Rightarrow> primop_type res" where
  "primop_cases_8 op other =
   (if op \<in> {Iop_F32toF16x8}
      then Inr (BINARY ity_RMode Ity_V256 Ity_V128)
    else if op \<in> {Iop_V256toV128_1, Iop_V256toV128_0}
      then Inr (UNARY Ity_V256 Ity_V128)
    else if op \<in> {Iop_F16toF32x8}
      then Inr (UNARY Ity_V128 Ity_V256)
    else if op \<in> {Iop_QandUQsh8x16, Iop_QandUQsh16x8, Iop_QandUQsh32x4, Iop_QandUQsh64x2, Iop_QandSQsh8x16,
      Iop_QandSQsh16x8, Iop_QandSQsh32x4, Iop_QandSQsh64x2, Iop_QandUQRsh8x16, Iop_QandUQRsh16x8,
      Iop_QandUQRsh32x4, Iop_QandUQRsh64x2, Iop_QandSQRsh8x16, Iop_QandSQRsh16x8, Iop_QandSQRsh32x4,
      Iop_QandSQRsh64x2, Iop_V128HLtoV256}
      then Inr (BINARY Ity_V128 Ity_V128 Ity_V256)
    else if op \<in> {Iop_NotV256, Iop_RSqrtEst32Fx8, Iop_Sqrt32Fx8, Iop_Sqrt64Fx4, Iop_RecipEst32Fx8, Iop_CmpNEZ8x32,
      Iop_CmpNEZ16x16, Iop_CmpNEZ64x4, Iop_CmpNEZ32x8}
      then Inr (UNARY Ity_V256 Ity_V256)
    else if op \<in> {Iop_ShlN16x16, Iop_ShlN32x8, Iop_ShlN64x4, Iop_ShrN16x16, Iop_ShrN32x8, Iop_ShrN64x4,
      Iop_SarN16x16, Iop_SarN32x8}
      then Inr (BINARY Ity_V256 Ity_I8 Ity_V256)
    else if op \<in> {Iop_Rotx32}
      then Inr (QUATERNARY Ity_I32 Ity_I8 Ity_I8 Ity_I8 Ity_I32)
    else if op \<in> {Iop_Rotx64}
      then Inr (QUATERNARY Ity_I64 Ity_I8 Ity_I8 Ity_I8 Ity_I64)
    else other)"

definition typeOfPrimop :: "IROp \<Rightarrow> primop_type res" where
  "typeOfPrimop op =
     primop_cases_1 op (
     primop_cases_2 op (
     primop_cases_3 op (
     primop_cases_4 op (
     primop_cases_5 op (
     primop_cases_6 op (
     primop_cases_7 op (
     primop_cases_8 op (Inl (Panic ''typeOfPrimop'')))))))))"

text \<open>The operations that the tool puts into a block.\<close>

lemmas typeOfPrimop_defs = typeOfPrimop_def primop_cases_1_def primop_cases_2_def primop_cases_3_def primop_cases_4_def primop_cases_5_def primop_cases_6_def primop_cases_7_def primop_cases_8_def

lemma typeOfPrimop_used [simp]:
  "typeOfPrimop Iop_Add32 = Inr (BINARY Ity_I32 Ity_I32 Ity_I32)"
  "typeOfPrimop Iop_Add64 = Inr (BINARY Ity_I64 Ity_I64 Ity_I64)"
  "typeOfPrimop Iop_Or8 = Inr (BINARY Ity_I8 Ity_I8 Ity_I8)"
  "typeOfPrimop Iop_Or16 = Inr (BINARY Ity_I16 Ity_I16 Ity_I16)"
  "typeOfPrimop Iop_Or32 = Inr (BINARY Ity_I32 Ity_I32 Ity_I32)"
  "typeOfPrimop Iop_Or64 = Inr (BINARY Ity_I64 Ity_I64 Ity_I64)"
  "typeOfPrimop Iop_Xor8 = Inr (BINARY Ity_I8 Ity_I8 Ity_I8)"
  "typeOfPrimop Iop_Xor16 = Inr (BINARY Ity_I16 Ity_I16 Ity_I16)"
  "typeOfPrimop Iop_Xor32 = Inr (BINARY Ity_I32 Ity_I32 Ity_I32)"
  "typeOfPrimop Iop_Xor64 = Inr (BINARY Ity_I64 Ity_I64 Ity_I64)"
  "typeOfPrimop Iop_CasCmpEQ8 = Inr (COMPARISON Ity_I8)"
  "typeOfPrimop Iop_CasCmpEQ16 = Inr (COMPARISON Ity_I16)"
  "typeOfPrimop Iop_CasCmpEQ32 = Inr (COMPARISON Ity_I32)"
  "typeOfPrimop Iop_CasCmpEQ64 = Inr (COMPARISON Ity_I64)"
  "typeOfPrimop Iop_1Uto64 = Inr (UNARY Ity_I1 Ity_I64)"
  "typeOfPrimop Iop_8Uto64 = Inr (UNARY Ity_I8 Ity_I64)"
  "typeOfPrimop Iop_16Uto64 = Inr (UNARY Ity_I16 Ity_I64)"
  "typeOfPrimop Iop_32Uto64 = Inr (UNARY Ity_I32 Ity_I64)"
  "typeOfPrimop Iop_ReinterpF64asI64 = Inr (UNARY Ity_F64 Ity_I64)"
  "typeOfPrimop Iop_V128to64 = Inr (UNARY Ity_V128 Ity_I64)"
  "typeOfPrimop Iop_V128HIto64 = Inr (UNARY Ity_V128 Ity_I64)"
  "typeOfPrimop Iop_V256to64_0 = Inr (UNARY Ity_V256 Ity_I64)"
  "typeOfPrimop Iop_V256to64_1 = Inr (UNARY Ity_V256 Ity_I64)"
  "typeOfPrimop Iop_V256to64_2 = Inr (UNARY Ity_V256 Ity_I64)"
  "typeOfPrimop Iop_V256to64_3 = Inr (UNARY Ity_V256 Ity_I64)"
  by (simp_all add: typeOfPrimop_defs)

end
