(* ===== verification/VEX_IR.thy ===== *)
theory VEX_IR
  imports VEX_Primop
begin

text \<open>
  The intermediate representation of the client's code (\<open>VEX/pub/libvex_ir.h\<close>) and the helpers of
  \<open>VEX/priv/ir_defs.c\<close> that the instrumentation of the tool calls: constructors, the copy of a block
  without its statements, appending a statement, a new temporary, and the type of an expression.

  A null pointer where the source allows one is the constructor \<open>Iex_NULL\<close> or \<open>Ist_NULL\<close>, and following
  it is the failure \<open>NullDeref\<close>.  A null-terminated vector of arguments is the list of what stands before
  its end.  A pointer to a C function is the name of the function, or \<open>None\<close> for null.  Numbers of
  temporaries and lengths of arrays, which the source keeps in 32 bits, are natural numbers.
\<close>

section \<open>Constants and expressions\<close>

datatype IREndness = Iend_LE | Iend_BE

text \<open>Floating point constants are given by their bit patterns; \<open>Bool\<close> is a byte.\<close>

datatype IRConst =
    Ico_U1 "8 word" | Ico_U8 "8 word" | Ico_U16 "16 word" | Ico_U32 "32 word" | Ico_U64 "64 word"
  | Ico_F32 "32 word" | Ico_F32i "32 word" | Ico_F64 "64 word" | Ico_F64i "64 word"
  | Ico_V128 "16 word" | Ico_V256 "32 word"

record IRCallee =
  ce_regparms :: int
  ce_name :: "string option"
  ce_addr :: "string option"
  ce_mcx_mask :: "32 word"

record IRRegArray =
  ra_base :: int
  ra_elemTy :: IRType
  ra_nElems :: int

type_synonym IRTemp = nat

definition IRTemp_INVALID :: IRTemp where
  "IRTemp_INVALID = 0xFFFFFFFF"

datatype IRExpr =
    Iex_NULL
  | Iex_Binder int
  | Iex_Get int IRType
  | Iex_GetI IRRegArray IRExpr int
  | Iex_RdTmp IRTemp
  | Iex_Qop IROp IRExpr IRExpr IRExpr IRExpr
  | Iex_Triop IROp IRExpr IRExpr IRExpr
  | Iex_Binop IROp IRExpr IRExpr
  | Iex_Unop IROp IRExpr
  | Iex_Load IREndness IRType IRExpr
  | Iex_Const IRConst
  | Iex_ITE IRExpr IRExpr IRExpr
  | Iex_CCall IRCallee IRType "IRExpr list"
  | Iex_VECRET
  | Iex_GSPTR

text \<open>The value of the tag, which a message of the tool prints.\<close>

fun iex_tag :: "IRExpr \<Rightarrow> nat res" where
  "iex_tag Iex_NULL = Inl (NullDeref ''e->tag'')"
| "iex_tag (Iex_Binder b) = Inr 0x1900"
| "iex_tag (Iex_Get off ty) = Inr 0x1901"
| "iex_tag (Iex_GetI d ix bias) = Inr 0x1902"
| "iex_tag (Iex_RdTmp t) = Inr 0x1903"
| "iex_tag (Iex_Qop op a1 a2 a3 a4) = Inr 0x1904"
| "iex_tag (Iex_Triop op a1 a2 a3) = Inr 0x1905"
| "iex_tag (Iex_Binop op a1 a2) = Inr 0x1906"
| "iex_tag (Iex_Unop op a) = Inr 0x1907"
| "iex_tag (Iex_Load en ty a) = Inr 0x1908"
| "iex_tag (Iex_Const c) = Inr 0x1909"
| "iex_tag (Iex_ITE c t f) = Inr 0x190A"
| "iex_tag (Iex_CCall ce ty as) = Inr 0x190B"
| "iex_tag Iex_VECRET = Inr 0x190C"
| "iex_tag Iex_GSPTR = Inr 0x190D"

fun isIRAtom :: "IRExpr \<Rightarrow> bool res" where
  "isIRAtom Iex_NULL = Inl (NullDeref ''isIRAtom'')"
| "isIRAtom (Iex_RdTmp t) = Inr True"
| "isIRAtom (Iex_Const c) = Inr True"
| "isIRAtom e = Inr False"

definition is_IRExpr_VECRET_or_GSPTR :: "IRExpr \<Rightarrow> bool res" where
  "is_IRExpr_VECRET_or_GSPTR e =
     rbind (iex_tag e) (\<lambda>tag. Inr (e = Iex_VECRET \<or> e = Iex_GSPTR))"

section \<open>Statements and blocks\<close>

datatype IRJumpKind =
    Ijk_INVALID | Ijk_Boring | Ijk_Call | Ijk_Ret | Ijk_ClientReq | Ijk_Yield | Ijk_EmWarn | Ijk_EmFail
  | Ijk_NoDecode | Ijk_MapFail | Ijk_InvalICache | Ijk_FlushDCache | Ijk_NoRedir | Ijk_SigILL
  | Ijk_SigTRAP | Ijk_SigSEGV | Ijk_SigBUS | Ijk_SigFPE | Ijk_SigFPE_IntDiv | Ijk_SigFPE_IntOvf
  | Ijk_Sys_syscall | Ijk_Sys_int32 | Ijk_Sys_int128 | Ijk_Sys_int129 | Ijk_Sys_int130 | Ijk_Sys_int145
  | Ijk_Sys_int210 | Ijk_Sys_sysenter

datatype IREffect = Ifx_None | Ifx_Read | Ifx_Write | Ifx_Modify

record fx_state =
  fx_fx :: IREffect
  fx_offset :: nat
  fx_size :: nat
  fx_nRepeats :: nat
  fx_repeatLen :: nat

text \<open>The list \<open>di_fxState\<close> holds the first \<open>nFxState\<close> entries of the array of the source.\<close>

record IRDirty =
  di_cee :: "IRCallee option"
  di_guard :: IRExpr
  di_args :: "IRExpr list"
  di_tmp :: IRTemp
  di_mFx :: IREffect
  di_mAddr :: IRExpr
  di_mSize :: int
  di_fxState :: "fx_state list"

datatype IRMBusEvent = Imbe_Fence | Imbe_CancelReservation | Imbe_SFence | Imbe_LFence

record IRCAS =
  cas_oldHi :: IRTemp
  cas_oldLo :: IRTemp
  cas_end :: IREndness
  cas_addr :: IRExpr
  cas_expdHi :: IRExpr
  cas_expdLo :: IRExpr
  cas_dataHi :: IRExpr
  cas_dataLo :: IRExpr

record IRPutI =
  pi_descr :: IRRegArray
  pi_ix :: IRExpr
  pi_bias :: int
  pi_data :: IRExpr

datatype IRFlushKind = Ifk_flush | Ifk_flushopt | Ifk_clwb

record IRStoreG =
  sg_end :: IREndness
  sg_addr :: IRExpr
  sg_data :: IRExpr
  sg_guard :: IRExpr

datatype IRLoadGOp =
    ILGop_INVALID | ILGop_IdentV128 | ILGop_Ident64 | ILGop_Ident32 | ILGop_16Uto32 | ILGop_16Sto32
  | ILGop_8Uto32 | ILGop_8Sto32

record IRLoadG =
  lg_end :: IREndness
  lg_cvt :: IRLoadGOp
  lg_dst :: IRTemp
  lg_addr :: IRExpr
  lg_alt :: IRExpr
  lg_guard :: IRExpr

datatype IRStmt =
    Ist_NULL
  | Ist_NoOp
  | Ist_IMark uword nat nat
  | Ist_AbiHint IRExpr int IRExpr
  | Ist_Put int IRExpr
  | Ist_PutI IRPutI
  | Ist_WrTmp IRTemp IRExpr
  | Ist_Store IREndness IRExpr IRExpr
  | Ist_LoadG IRLoadG
  | Ist_StoreG IRStoreG
  | Ist_CAS IRCAS
  | Ist_LLSC IREndness IRTemp IRExpr IRExpr
  | Ist_Dirty IRDirty
  | Ist_MBE IRMBusEvent
  | Ist_Exit IRExpr IRConst IRJumpKind int
  | Ist_Flush IRExpr IRFlushKind

text \<open>The lists hold the used parts of the growing arrays; \<open>types_used\<close> and \<open>stmts_used\<close> are their
  lengths.\<close>

record IRTypeEnv =
  te_types :: "IRType list"
  te_types_size :: nat

record IRSB =
  sb_tyenv :: IRTypeEnv
  sb_stmts :: "IRStmt list"
  sb_stmts_size :: nat
  sb_next :: IRExpr
  sb_jumpkind :: IRJumpKind
  sb_offsIP :: int

section \<open>Constructors\<close>

definition IRConst_U1 :: "8 word \<Rightarrow> IRConst res" where
  "IRConst_U1 b = rassert ''bit == False || bit == True'' (b = 0 \<or> b = 1) (Inr (Ico_U1 b))"

definition mkIRCallee :: "int \<Rightarrow> string option \<Rightarrow> string option \<Rightarrow> IRCallee res" where
  "mkIRCallee regparms name addr =
     rassert ''regparms >= 0 && regparms <= 3'' (0 \<le> regparms \<and> regparms \<le> 3)
    (rassert ''name != NULL'' (name \<noteq> None)
    (rassert ''addr != 0'' (addr \<noteq> None)
       (Inr \<lparr>ce_regparms = regparms, ce_name = name, ce_addr = addr, ce_mcx_mask = 0\<rparr>)))"

definition mkIRRegArray :: "int \<Rightarrow> IRType \<Rightarrow> int \<Rightarrow> IRRegArray res" where
  "mkIRRegArray base elemTy nElems =
     rassert ''arr->base'' (\<not> (base < 0 \<or> base > 10000))
    (rassert ''arr->elemTy'' (elemTy \<noteq> Ity_I1)
    (rassert ''arr->nElems'' (\<not> (nElems \<le> 0 \<or> nElems > 500))
       (Inr \<lparr>ra_base = base, ra_elemTy = elemTy, ra_nElems = nElems\<rparr>)))"

definition mkIRExprVec_0 :: "IRExpr list" where
  "mkIRExprVec_0 = []"

definition mkIRExprVec_1 :: "IRExpr \<Rightarrow> IRExpr list" where
  "mkIRExprVec_1 arg1 = [arg1]"

definition mkIRExprVec_3 :: "IRExpr \<Rightarrow> IRExpr \<Rightarrow> IRExpr \<Rightarrow> IRExpr list" where
  "mkIRExprVec_3 arg1 arg2 arg3 = [arg1, arg2, arg3]"

definition emptyIRDirty :: IRDirty where
  "emptyIRDirty = \<lparr>di_cee = None, di_guard = Iex_NULL, di_args = [], di_tmp = IRTemp_INVALID,
     di_mFx = Ifx_None, di_mAddr = Iex_NULL, di_mSize = 0, di_fxState = []\<rparr>"

definition emptyIRTypeEnv :: IRTypeEnv where
  "emptyIRTypeEnv = \<lparr>te_types = [], te_types_size = 8\<rparr>"

definition emptyIRSB :: IRSB where
  "emptyIRSB = \<lparr>sb_tyenv = emptyIRTypeEnv, sb_stmts = [], sb_stmts_size = 8, sb_next = Iex_NULL,
     sb_jumpkind = Ijk_Boring, sb_offsIP = 0\<rparr>"

text \<open>The host is a 64-bit machine: \<open>sizeof(RegWord)\<close> is 8.\<close>

definition mkIRExpr_HWord :: "uword \<Rightarrow> IRExpr" where
  "mkIRExpr_HWord hw = Iex_Const (Ico_U64 hw)"

definition unsafeIRDirty_0_N :: "int \<Rightarrow> string option \<Rightarrow> string option \<Rightarrow> IRExpr list \<Rightarrow> IRDirty res" where
  "unsafeIRDirty_0_N regparms name addr args =
     rbind (mkIRCallee regparms name addr) (\<lambda>cee.
     rbind (IRConst_U1 1) (\<lambda>c.
       Inr (emptyIRDirty\<lparr>di_cee := Some cee, di_guard := Iex_Const c, di_args := args\<rparr>)))"

section \<open>Copies\<close>

fun deepCopyIRConst :: "IRConst \<Rightarrow> IRConst res" where
  "deepCopyIRConst (Ico_U1 b) = IRConst_U1 b"
| "deepCopyIRConst c = Inr c"

definition deepCopyIRCallee :: "IRCallee \<Rightarrow> IRCallee res" where
  "deepCopyIRCallee ce = rbind (mkIRCallee (ce_regparms ce) (ce_name ce) (ce_addr ce)) (\<lambda>ce2.
     Inr (ce2\<lparr>ce_mcx_mask := ce_mcx_mask ce\<rparr>))"

definition deepCopyIRRegArray :: "IRRegArray \<Rightarrow> IRRegArray res" where
  "deepCopyIRRegArray d = mkIRRegArray (ra_base d) (ra_elemTy d) (ra_nElems d)"

fun deepCopyIRExpr :: "IRExpr \<Rightarrow> IRExpr res"
  and deepCopyIRExprVec :: "IRExpr list \<Rightarrow> IRExpr list res" where
  "deepCopyIRExpr (Iex_Get off ty) = Inr (Iex_Get off ty)"
| "deepCopyIRExpr (Iex_GetI descr ix bias) =
     rbind (deepCopyIRRegArray descr) (\<lambda>d. rbind (deepCopyIRExpr ix) (\<lambda>i. Inr (Iex_GetI d i bias)))"
| "deepCopyIRExpr (Iex_RdTmp tmp) = Inr (Iex_RdTmp tmp)"
| "deepCopyIRExpr (Iex_Qop op arg1 arg2 arg3 arg4) =
     rbind (deepCopyIRExpr arg1) (\<lambda>a1. rbind (deepCopyIRExpr arg2) (\<lambda>a2.
     rbind (deepCopyIRExpr arg3) (\<lambda>a3. rbind (deepCopyIRExpr arg4) (\<lambda>a4. Inr (Iex_Qop op a1 a2 a3 a4)))))"
| "deepCopyIRExpr (Iex_Triop op arg1 arg2 arg3) =
     rbind (deepCopyIRExpr arg1) (\<lambda>a1. rbind (deepCopyIRExpr arg2) (\<lambda>a2.
     rbind (deepCopyIRExpr arg3) (\<lambda>a3. Inr (Iex_Triop op a1 a2 a3))))"
| "deepCopyIRExpr (Iex_Binop op arg1 arg2) =
     rbind (deepCopyIRExpr arg1) (\<lambda>a1. rbind (deepCopyIRExpr arg2) (\<lambda>a2. Inr (Iex_Binop op a1 a2)))"
| "deepCopyIRExpr (Iex_Unop op arg) = rbind (deepCopyIRExpr arg) (\<lambda>a. Inr (Iex_Unop op a))"
| "deepCopyIRExpr (Iex_Load en ty addr) = rbind (deepCopyIRExpr addr) (\<lambda>a. Inr (Iex_Load en ty a))"
| "deepCopyIRExpr (Iex_Const con) = rbind (deepCopyIRConst con) (\<lambda>c. Inr (Iex_Const c))"
| "deepCopyIRExpr (Iex_CCall cee retty args) =
     rbind (deepCopyIRCallee cee) (\<lambda>ce. rbind (deepCopyIRExprVec args) (\<lambda>as. Inr (Iex_CCall ce retty as)))"
| "deepCopyIRExpr (Iex_ITE cond iftrue iffalse) =
     rbind (deepCopyIRExpr cond) (\<lambda>c. rbind (deepCopyIRExpr iftrue) (\<lambda>t.
     rbind (deepCopyIRExpr iffalse) (\<lambda>f. Inr (Iex_ITE c t f))))"
| "deepCopyIRExpr Iex_VECRET = Inr Iex_VECRET"
| "deepCopyIRExpr Iex_GSPTR = Inr Iex_GSPTR"
| "deepCopyIRExpr (Iex_Binder binder) = Inr (Iex_Binder binder)"
| "deepCopyIRExpr Iex_NULL = Inl (NullDeref ''deepCopyIRExpr'')"
| "deepCopyIRExprVec [] = Inr []"
| "deepCopyIRExprVec (e # es) =
     rbind (deepCopyIRExpr e) (\<lambda>e2. rbind (deepCopyIRExprVec es) (\<lambda>es2. Inr (e2 # es2)))"

definition deepCopyIRTypeEnv :: "IRTypeEnv \<Rightarrow> IRTypeEnv" where
  "deepCopyIRTypeEnv src = \<lparr>te_types = te_types src, te_types_size = te_types_size src\<rparr>"

definition deepCopyIRSBExceptStmts :: "IRSB \<Rightarrow> IRSB res" where
  "deepCopyIRSBExceptStmts bb =
     rbind (deepCopyIRExpr (sb_next bb)) (\<lambda>nxt.
       Inr (emptyIRSB\<lparr>sb_tyenv := deepCopyIRTypeEnv (sb_tyenv bb), sb_next := nxt,
         sb_jumpkind := sb_jumpkind bb, sb_offsIP := sb_offsIP bb\<rparr>))"

section \<open>Growing a block\<close>

definition addStmtToIRSB :: "IRSB \<Rightarrow> IRStmt \<Rightarrow> IRSB res" where
  "addStmtToIRSB bb st =
     (let bb = (if length (sb_stmts bb) = sb_stmts_size bb then bb\<lparr>sb_stmts_size := 2 * sb_stmts_size bb\<rparr> else bb)
      in rassert ''bb->stmts_used < bb->stmts_size'' (length (sb_stmts bb) < sb_stmts_size bb)
           (Inr (bb\<lparr>sb_stmts := sb_stmts bb @ [st]\<rparr>)))"

function newIRTemp :: "IRTypeEnv \<Rightarrow> IRType \<Rightarrow> (IRTemp \<times> IRTypeEnv) res" where
  "newIRTemp env ty =
     (if \<not> length (te_types env) \<le> te_types_size env
      then Inl (AssertFail ''env->types_used <= env->types_size'')
      else if length (te_types env) < te_types_size env
      then Inr (length (te_types env), env\<lparr>te_types := te_types env @ [ty]\<rparr>)
      else newIRTemp (env\<lparr>te_types_size := (if te_types_size env = 0 then 8 else 2 * te_types_size env)\<rparr>) ty)"
  by pat_completeness auto
termination
  by (relation "measure (\<lambda>(env, ty). Suc (length (te_types env)) - te_types_size env)") (auto split: if_splits)

declare newIRTemp.simps [simp del]

section \<open>Types of expressions\<close>

definition typeOfIRTemp :: "IRTypeEnv \<Rightarrow> IRTemp \<Rightarrow> IRType res" where
  "typeOfIRTemp env tmp =
     rassert ''tmp < env->types_used'' (tmp < length (te_types env)) (Inr (te_types env ! tmp))"

fun typeOfIRConst :: "IRConst \<Rightarrow> IRType" where
  "typeOfIRConst (Ico_U1 c) = Ity_I1"
| "typeOfIRConst (Ico_U8 c) = Ity_I8"
| "typeOfIRConst (Ico_U16 c) = Ity_I16"
| "typeOfIRConst (Ico_U32 c) = Ity_I32"
| "typeOfIRConst (Ico_U64 c) = Ity_I64"
| "typeOfIRConst (Ico_F32 c) = Ity_F32"
| "typeOfIRConst (Ico_F32i c) = Ity_F32"
| "typeOfIRConst (Ico_F64 c) = Ity_F64"
| "typeOfIRConst (Ico_F64i c) = Ity_F64"
| "typeOfIRConst (Ico_V128 c) = Ity_V128"
| "typeOfIRConst (Ico_V256 c) = Ity_V256"

fun typeOfIRLoadGOp :: "IRLoadGOp \<Rightarrow> (IRType \<times> IRType) res" where
  "typeOfIRLoadGOp ILGop_IdentV128 = Inr (Ity_V128, Ity_V128)"
| "typeOfIRLoadGOp ILGop_Ident64 = Inr (Ity_I64, Ity_I64)"
| "typeOfIRLoadGOp ILGop_Ident32 = Inr (Ity_I32, Ity_I32)"
| "typeOfIRLoadGOp ILGop_16Uto32 = Inr (Ity_I32, Ity_I16)"
| "typeOfIRLoadGOp ILGop_16Sto32 = Inr (Ity_I32, Ity_I16)"
| "typeOfIRLoadGOp ILGop_8Uto32 = Inr (Ity_I32, Ity_I8)"
| "typeOfIRLoadGOp ILGop_8Sto32 = Inr (Ity_I32, Ity_I8)"
| "typeOfIRLoadGOp ILGop_INVALID = Inl (Panic ''typeOfIRLoadGOp'')"

fun typeOfIRExpr :: "IRTypeEnv \<Rightarrow> IRExpr \<Rightarrow> IRType res" where
  "typeOfIRExpr tyenv (Iex_Load en ty addr) = Inr ty"
| "typeOfIRExpr tyenv (Iex_Get off ty) = Inr ty"
| "typeOfIRExpr tyenv (Iex_GetI descr ix bias) = Inr (ra_elemTy descr)"
| "typeOfIRExpr tyenv (Iex_RdTmp tmp) = typeOfIRTemp tyenv tmp"
| "typeOfIRExpr tyenv (Iex_Const con) = Inr (typeOfIRConst con)"
| "typeOfIRExpr tyenv (Iex_Qop op a1 a2 a3 a4) = rbind (typeOfPrimop op) (\<lambda>s. Inr (t_dst s))"
| "typeOfIRExpr tyenv (Iex_Triop op a1 a2 a3) = rbind (typeOfPrimop op) (\<lambda>s. Inr (t_dst s))"
| "typeOfIRExpr tyenv (Iex_Binop op a1 a2) = rbind (typeOfPrimop op) (\<lambda>s. Inr (t_dst s))"
| "typeOfIRExpr tyenv (Iex_Unop op a) = rbind (typeOfPrimop op) (\<lambda>s. Inr (t_dst s))"
| "typeOfIRExpr tyenv (Iex_CCall cee retty args) = Inr retty"
| "typeOfIRExpr tyenv (Iex_ITE cond iftrue iffalse) = typeOfIRExpr tyenv iffalse"
| "typeOfIRExpr tyenv (Iex_Binder b) = Inl (Panic ''typeOfIRExpr: Binder is not a valid expression'')"
| "typeOfIRExpr tyenv Iex_VECRET = Inl (Panic ''typeOfIRExpr: VECRET is not a valid expression'')"
| "typeOfIRExpr tyenv Iex_GSPTR = Inl (Panic ''typeOfIRExpr: GSPTR is not a valid expression'')"
| "typeOfIRExpr tyenv Iex_NULL = Inl (NullDeref ''typeOfIRExpr'')"

end
