(* ===== verification/VEX_Sanity.thy ===== *)
theory VEX_Sanity
  imports VEX_IR
begin

text \<open>
  The checker that the core runs on a block (\<open>sanityCheckIRSB\<close> in \<open>VEX/priv/ir_defs.c\<close>): every
  statement is flat, each temporary is assigned once and before its uses, and everything is well typed.
  A block that does not pass ends the run with a panic that carries the message of the check.

  An \<open>IRType\<close> here is a value of the enumeration, so each of them is plausible; likewise an endianness is one of
  the two.  The array \<open>def_counts\<close> is a function; its index is checked before each use.
\<close>

section \<open>Sequencing of checks\<close>

definition rseq :: "unit res \<Rightarrow> 'a res \<Rightarrow> 'a res" where
  "rseq m k = rbind m (\<lambda>_. k)"

definition sane :: "string \<Rightarrow> bool \<Rightarrow> 'a res \<Rightarrow> 'a res" where
  "sane what b k = (if b then k else Inl (Panic what))"

declare rseq_def [code_unfold] sane_def [code_unfold]

lemma rseq_simps [simp]: "rseq (Inr u) k = k" "rseq (Inl e) k = Inl e"
  by (simp_all add: rseq_def)

lemma rseq_eq_Inr: "rseq m k = Inr y \<longleftrightarrow> m = Inr () \<and> k = Inr y"
  by (cases m) (simp_all add: rseq_def)

lemma sane_simps [simp]: "sane what True k = k" "sane what False k = Inl (Panic what)"
  by (simp_all add: sane_def)

lemma sane_eq_Inr: "sane what b k = Inr y \<longleftrightarrow> b \<and> k = Inr y"
  by (simp add: sane_def)

section \<open>Flatness\<close>

text \<open>A conjunction of \<open>isIRAtom\<close> tests, from the left.\<close>

fun all_atoms :: "IRExpr list \<Rightarrow> bool res" where
  "all_atoms [] = Inr True"
| "all_atoms (e # es) = rbind (isIRAtom e) (\<lambda>b. if b then all_atoms es else Inr False)"

definition isIRAtom_or_NULL :: "IRExpr \<Rightarrow> IRExpr list" where
  "isIRAtom_or_NULL e = (if e = Iex_NULL then [] else [e])"

definition isIRAtom_or_VECRET_or_GSPTR :: "IRExpr \<Rightarrow> bool res" where
  "isIRAtom_or_VECRET_or_GSPTR e =
     rbind (isIRAtom e) (\<lambda>b. if b then Inr True else is_IRExpr_VECRET_or_GSPTR e)"

fun flat_args :: "IRExpr list \<Rightarrow> bool res" where
  "flat_args [] = Inr True"
| "flat_args (e # es) = rbind (isIRAtom_or_VECRET_or_GSPTR e) (\<lambda>b. if b then flat_args es else Inr False)"

fun isFlatRHS :: "IRExpr \<Rightarrow> bool res" where
  "isFlatRHS (Iex_Binder b) = Inr True"
| "isFlatRHS (Iex_Get off ty) = Inr True"
| "isFlatRHS (Iex_GetI descr ix bias) = isIRAtom ix"
| "isFlatRHS (Iex_RdTmp t) = Inr True"
| "isFlatRHS (Iex_Qop op a1 a2 a3 a4) = all_atoms [a1, a2, a3, a4]"
| "isFlatRHS (Iex_Triop op a1 a2 a3) = all_atoms [a1, a2, a3]"
| "isFlatRHS (Iex_Binop op a1 a2) = all_atoms [a1, a2]"
| "isFlatRHS (Iex_Unop op a) = isIRAtom a"
| "isFlatRHS (Iex_Load en ty addr) = isIRAtom addr"
| "isFlatRHS (Iex_Const c) = Inr True"
| "isFlatRHS (Iex_CCall cee retty args) = all_atoms args"
| "isFlatRHS (Iex_ITE c t f) = all_atoms [c, t, f]"
| "isFlatRHS Iex_VECRET = Inl (Panic ''isFlatIRStmt(e)'')"
| "isFlatRHS Iex_GSPTR = Inl (Panic ''isFlatIRStmt(e)'')"
| "isFlatRHS Iex_NULL = Inl (NullDeref ''isFlatIRStmt(e)'')"

fun isFlatIRStmt :: "IRStmt \<Rightarrow> bool res" where
  "isFlatIRStmt (Ist_AbiHint base len nia) = all_atoms [base, nia]"
| "isFlatIRStmt (Ist_Put off data) = isIRAtom data"
| "isFlatIRStmt (Ist_PutI puti) = all_atoms [pi_ix puti, pi_data puti]"
| "isFlatIRStmt (Ist_WrTmp tmp e) = isFlatRHS e"
| "isFlatIRStmt (Ist_Store en addr data) = all_atoms [addr, data]"
| "isFlatIRStmt (Ist_StoreG sg) = all_atoms [sg_addr sg, sg_data sg, sg_guard sg]"
| "isFlatIRStmt (Ist_LoadG lg) = all_atoms [lg_addr lg, lg_alt lg, lg_guard lg]"
| "isFlatIRStmt (Ist_CAS cas) =
     all_atoms ([cas_addr cas] @ isIRAtom_or_NULL (cas_expdHi cas) @ [cas_expdLo cas] @
       isIRAtom_or_NULL (cas_dataHi cas) @ [cas_dataLo cas])"
| "isFlatIRStmt (Ist_LLSC en result addr storedata) = all_atoms ([addr] @ isIRAtom_or_NULL storedata)"
| "isFlatIRStmt (Ist_Dirty di) =
     rbind (isIRAtom (di_guard di)) (\<lambda>b. if \<not> b then Inr False
       else rbind (flat_args (di_args di)) (\<lambda>b. if \<not> b then Inr False
         else all_atoms (isIRAtom_or_NULL (di_mAddr di))))"
| "isFlatIRStmt Ist_NoOp = Inr True"
| "isFlatIRStmt (Ist_IMark addr len delta) = Inr True"
| "isFlatIRStmt (Ist_MBE ev) = Inr True"
| "isFlatIRStmt (Ist_Exit guard dst jk offsIP) = isIRAtom guard"
| "isFlatIRStmt (Ist_Flush addr fk) = isIRAtom addr"
| "isFlatIRStmt Ist_NULL = Inl (NullDeref ''isFlatIRStmt(st)'')"

section \<open>Sane parts\<close>

definition saneIRRegArray :: "IRRegArray \<Rightarrow> bool" where
  "saneIRRegArray arr = (\<not> (ra_base arr < 0 \<or> ra_base arr > 10000) \<and> ra_elemTy arr \<noteq> Ity_I1 \<and>
     \<not> (ra_nElems arr \<le> 0 \<or> ra_nElems arr > 500))"

definition saneIRCallee :: "IRCallee \<Rightarrow> bool" where
  "saneIRCallee cee = (ce_name cee \<noteq> None \<and> ce_addr cee \<noteq> None \<and> \<not> (ce_regparms cee < 0 \<or> ce_regparms cee > 3))"

fun saneIRConst :: "IRConst \<Rightarrow> bool" where
  "saneIRConst (Ico_U1 b) = (b = 1 \<or> b = 0)"
| "saneIRConst c = True"

section \<open>Definitions and uses of temporaries\<close>

type_synonym def_counts = "IRTemp \<Rightarrow> nat"

definition useBeforeDef_Temp :: "IRSB \<Rightarrow> def_counts \<Rightarrow> IRTemp \<Rightarrow> unit res" where
  "useBeforeDef_Temp bb def_counts tmp =
     sane ''out of range Temp in IRExpr'' (tmp < length (te_types (sb_tyenv bb)))
    (sane ''IRTemp use before def in IRExpr'' (\<not> def_counts tmp < 1) (Inr ()))"

definition assignedOnce_Temp :: "IRTemp \<Rightarrow> nat \<Rightarrow> string \<Rightarrow> string \<Rightarrow> def_counts \<Rightarrow> def_counts res" where
  "assignedOnce_Temp tmp n_def_counts err_msg_out_of_range err_msg_assigned_more_than_once def_counts =
     sane err_msg_out_of_range (tmp < n_def_counts)
    (sane err_msg_assigned_more_than_once (\<not> Suc (def_counts tmp) > 1)
       (Inr (def_counts(tmp := Suc (def_counts tmp)))))"

fun useBeforeDef_Expr :: "IRSB \<Rightarrow> def_counts \<Rightarrow> IRExpr \<Rightarrow> unit res"
  and useBeforeDef_Args :: "IRSB \<Rightarrow> def_counts \<Rightarrow> IRExpr list \<Rightarrow> unit res" where
  "useBeforeDef_Expr bb ds (Iex_Get off ty) = Inr ()"
| "useBeforeDef_Expr bb ds (Iex_GetI descr ix bias) = useBeforeDef_Expr bb ds ix"
| "useBeforeDef_Expr bb ds (Iex_RdTmp tmp) = useBeforeDef_Temp bb ds tmp"
| "useBeforeDef_Expr bb ds (Iex_Qop op a1 a2 a3 a4) =
     rseq (useBeforeDef_Expr bb ds a1) (rseq (useBeforeDef_Expr bb ds a2)
    (rseq (useBeforeDef_Expr bb ds a3) (useBeforeDef_Expr bb ds a4)))"
| "useBeforeDef_Expr bb ds (Iex_Triop op a1 a2 a3) =
     rseq (useBeforeDef_Expr bb ds a1) (rseq (useBeforeDef_Expr bb ds a2) (useBeforeDef_Expr bb ds a3))"
| "useBeforeDef_Expr bb ds (Iex_Binop op a1 a2) = rseq (useBeforeDef_Expr bb ds a1) (useBeforeDef_Expr bb ds a2)"
| "useBeforeDef_Expr bb ds (Iex_Unop op a) = useBeforeDef_Expr bb ds a"
| "useBeforeDef_Expr bb ds (Iex_Load en ty addr) = useBeforeDef_Expr bb ds addr"
| "useBeforeDef_Expr bb ds (Iex_Const c) = Inr ()"
| "useBeforeDef_Expr bb ds (Iex_CCall cee retty args) = useBeforeDef_Args bb ds args"
| "useBeforeDef_Expr bb ds (Iex_ITE c t f) =
     rseq (useBeforeDef_Expr bb ds c) (rseq (useBeforeDef_Expr bb ds t) (useBeforeDef_Expr bb ds f))"
| "useBeforeDef_Expr bb ds (Iex_Binder b) = Inl (Panic ''useBeforeDef_Expr'')"
| "useBeforeDef_Expr bb ds Iex_VECRET = Inl (Panic ''useBeforeDef_Expr'')"
| "useBeforeDef_Expr bb ds Iex_GSPTR = Inl (Panic ''useBeforeDef_Expr'')"
| "useBeforeDef_Expr bb ds Iex_NULL = Inl (NullDeref ''useBeforeDef_Expr'')"
| "useBeforeDef_Args bb ds [] = Inr ()"
| "useBeforeDef_Args bb ds (arg # args) =
     rbind (is_IRExpr_VECRET_or_GSPTR arg) (\<lambda>b.
       sane ''IRExprP__* value in CCall arg list'' (\<not> b)
         (rseq (useBeforeDef_Expr bb ds arg) (useBeforeDef_Args bb ds args)))"

fun useBeforeDef_DirtyArgs :: "IRSB \<Rightarrow> def_counts \<Rightarrow> IRExpr list \<Rightarrow> unit res" where
  "useBeforeDef_DirtyArgs bb ds [] = Inr ()"
| "useBeforeDef_DirtyArgs bb ds (arg # args) =
     rbind (is_IRExpr_VECRET_or_GSPTR arg) (\<lambda>b.
       rseq (if b then Inr () else useBeforeDef_Expr bb ds arg) (useBeforeDef_DirtyArgs bb ds args))"

definition use_if_given :: "IRSB \<Rightarrow> def_counts \<Rightarrow> IRExpr \<Rightarrow> unit res" where
  "use_if_given bb ds e = (if e = Iex_NULL then Inr () else useBeforeDef_Expr bb ds e)"

fun useBeforeDef_Stmt :: "IRSB \<Rightarrow> IRStmt \<Rightarrow> def_counts \<Rightarrow> unit res" where
  "useBeforeDef_Stmt bb (Ist_IMark addr len delta) ds = Inr ()"
| "useBeforeDef_Stmt bb (Ist_AbiHint base len nia) ds =
     rseq (useBeforeDef_Expr bb ds base) (useBeforeDef_Expr bb ds nia)"
| "useBeforeDef_Stmt bb (Ist_Put off data) ds = useBeforeDef_Expr bb ds data"
| "useBeforeDef_Stmt bb (Ist_PutI puti) ds =
     rseq (useBeforeDef_Expr bb ds (pi_ix puti)) (useBeforeDef_Expr bb ds (pi_data puti))"
| "useBeforeDef_Stmt bb (Ist_WrTmp tmp data) ds = useBeforeDef_Expr bb ds data"
| "useBeforeDef_Stmt bb (Ist_Store en addr data) ds =
     rseq (useBeforeDef_Expr bb ds addr) (useBeforeDef_Expr bb ds data)"
| "useBeforeDef_Stmt bb (Ist_StoreG sg) ds =
     rseq (useBeforeDef_Expr bb ds (sg_addr sg)) (rseq (useBeforeDef_Expr bb ds (sg_data sg))
       (useBeforeDef_Expr bb ds (sg_guard sg)))"
| "useBeforeDef_Stmt bb (Ist_LoadG lg) ds =
     rseq (useBeforeDef_Expr bb ds (lg_addr lg)) (rseq (useBeforeDef_Expr bb ds (lg_alt lg))
       (useBeforeDef_Expr bb ds (lg_guard lg)))"
| "useBeforeDef_Stmt bb (Ist_CAS cas) ds =
     rseq (useBeforeDef_Expr bb ds (cas_addr cas)) (rseq (use_if_given bb ds (cas_expdHi cas))
    (rseq (useBeforeDef_Expr bb ds (cas_expdLo cas)) (rseq (use_if_given bb ds (cas_dataHi cas))
       (useBeforeDef_Expr bb ds (cas_dataLo cas)))))"
| "useBeforeDef_Stmt bb (Ist_LLSC en result addr storedata) ds =
     rseq (useBeforeDef_Expr bb ds addr) (use_if_given bb ds storedata)"
| "useBeforeDef_Stmt bb (Ist_Dirty d) ds =
     rseq (useBeforeDef_DirtyArgs bb ds (di_args d))
       (if di_mFx d \<noteq> Ifx_None then useBeforeDef_Expr bb ds (di_mAddr d) else Inr ())"
| "useBeforeDef_Stmt bb Ist_NoOp ds = Inr ()"
| "useBeforeDef_Stmt bb (Ist_MBE ev) ds = Inr ()"
| "useBeforeDef_Stmt bb (Ist_Exit guard dst jk offsIP) ds = useBeforeDef_Expr bb ds guard"
| "useBeforeDef_Stmt bb (Ist_Flush addr fk) ds = useBeforeDef_Expr bb ds addr"
| "useBeforeDef_Stmt bb Ist_NULL ds = Inl (NullDeref ''useBeforeDef_Stmt'')"

fun assignedOnce_Stmt :: "IRStmt \<Rightarrow> nat \<Rightarrow> def_counts \<Rightarrow> def_counts res" where
  "assignedOnce_Stmt (Ist_WrTmp tmp data) n ds =
     assignedOnce_Temp tmp n ''IRStmt.Tmp: destination tmp is out of range''
       ''IRStmt.Tmp: destination tmp is assigned more than once'' ds"
| "assignedOnce_Stmt (Ist_LoadG lg) n ds =
     assignedOnce_Temp (lg_dst lg) n ''IRStmt.LoadG: destination tmp is out of range''
       ''IRStmt.LoadG: destination tmp is assigned more than once'' ds"
| "assignedOnce_Stmt (Ist_Dirty d) n ds =
     (if di_tmp d \<noteq> IRTemp_INVALID
      then assignedOnce_Temp (di_tmp d) n ''IRStmt.Dirty: destination tmp is out of range''
             ''IRStmt.Dirty: destination tmp is assigned more than once'' ds
      else Inr ds)"
| "assignedOnce_Stmt (Ist_CAS cas) n ds =
     rbind (if cas_oldHi cas \<noteq> IRTemp_INVALID
            then assignedOnce_Temp (cas_oldHi cas) n ''IRStmt.CAS: destination tmpHi is out of range''
                   ''IRStmt.CAS: destination tmpHi is assigned more than once'' ds
            else Inr ds)
       (assignedOnce_Temp (cas_oldLo cas) n ''IRStmt.CAS: destination tmpLo is out of range''
          ''IRStmt.CAS: destination tmpLo is assigned more than once'')"
| "assignedOnce_Stmt (Ist_LLSC en result addr storedata) n ds =
     assignedOnce_Temp result n ''IRStmt.LLSC: destination tmp is out of range''
       ''IRStmt.LLSC: destination tmp is assigned more than once'' ds"
| "assignedOnce_Stmt Ist_NULL n ds = Inl (NullDeref ''assignedOnce_Stmt'')"
| "assignedOnce_Stmt st n ds = Inr ds"

section \<open>Type checking\<close>

text \<open>The type of an expression is computed and tested.\<close>

definition typed :: "string \<Rightarrow> IRTypeEnv \<Rightarrow> IRExpr \<Rightarrow> (IRType \<Rightarrow> bool) \<Rightarrow> 'a res \<Rightarrow> 'a res" where
  "typed what tyenv e P k = rbind (typeOfIRExpr tyenv e) (\<lambda>ty. sane what (P ty) k)"

lemma typed_eq_Inr: "typed what tyenv e P k = Inr y \<longleftrightarrow> (\<exists>ty. typeOfIRExpr tyenv e = Inr ty \<and> P ty \<and> k = Inr y)"
  by (auto simp: typed_def rbind_eq_Inr sane_eq_Inr)

fun tc_types :: "string \<Rightarrow> IRTypeEnv \<Rightarrow> (IRExpr \<times> IRType) list \<Rightarrow> bool \<Rightarrow> unit res" where
  "tc_types what tyenv [] ok = sane what ok (Inr ())"
| "tc_types what tyenv ((e, t) # es) ok = rbind (typeOfIRExpr tyenv e) (\<lambda>ty. tc_types what tyenv es (ok \<and> t = ty))"

fun no_I1_args :: "IRTypeEnv \<Rightarrow> IRExpr list \<Rightarrow> unit res" where
  "no_I1_args tyenv [] = Inr ()"
| "no_I1_args tyenv (arg # args) = typed ''Iex.CCall.arg: arg :: Ity_I1'' tyenv arg (\<lambda>ty. ty \<noteq> Ity_I1) (no_I1_args tyenv args)"

fun tcExpr :: "IRTypeEnv \<Rightarrow> IRType \<Rightarrow> IRExpr \<Rightarrow> unit res"
  and tcArgs :: "IRTypeEnv \<Rightarrow> IRType \<Rightarrow> nat \<Rightarrow> IRExpr list \<Rightarrow> unit res" where
  "tcExpr tyenv gWordTy (Iex_Get off ty) = Inr ()"
| "tcExpr tyenv gWordTy (Iex_RdTmp tmp) = Inr ()"
| "tcExpr tyenv gWordTy (Iex_GetI descr ix bias) =
     rseq (tcExpr tyenv gWordTy ix)
    (typed ''IRExpr.GetI.ix: not :: Ity_I32'' tyenv ix (\<lambda>ty. ty = Ity_I32)
    (sane ''IRExpr.GetI.descr: invalid descr'' (saneIRRegArray descr) (Inr ())))"
| "tcExpr tyenv gWordTy (Iex_Qop op a1 a2 a3 a4) =
     rseq (tcExpr tyenv gWordTy a1) (rseq (tcExpr tyenv gWordTy a2)
    (rseq (tcExpr tyenv gWordTy a3) (rseq (tcExpr tyenv gWordTy a4)
    (rbind (typeOfPrimop op) (\<lambda>s.
       sane ''Iex.Qop: wrong arity op'' (t_arg1 s \<noteq> Ity_INVALID \<and> t_arg2 s \<noteq> Ity_INVALID \<and>
         t_arg3 s \<noteq> Ity_INVALID \<and> t_arg4 s \<noteq> Ity_INVALID)
      (tc_types ''Iex.Qop: arg tys don't match op tys'' tyenv
         [(a1, t_arg1 s), (a2, t_arg2 s), (a3, t_arg3 s), (a4, t_arg4 s)] True))))))"
| "tcExpr tyenv gWordTy (Iex_Triop op a1 a2 a3) =
     rseq (tcExpr tyenv gWordTy a1) (rseq (tcExpr tyenv gWordTy a2) (rseq (tcExpr tyenv gWordTy a3)
    (rbind (typeOfPrimop op) (\<lambda>s.
       sane ''Iex.Triop: wrong arity op'' (t_arg1 s \<noteq> Ity_INVALID \<and> t_arg2 s \<noteq> Ity_INVALID \<and>
         t_arg3 s \<noteq> Ity_INVALID \<and> t_arg4 s = Ity_INVALID)
      (tc_types ''Iex.Triop: arg tys don't match op tys'' tyenv
         [(a1, t_arg1 s), (a2, t_arg2 s), (a3, t_arg3 s)] True)))))"
| "tcExpr tyenv gWordTy (Iex_Binop op a1 a2) =
     rseq (tcExpr tyenv gWordTy a1) (rseq (tcExpr tyenv gWordTy a2)
    (rbind (typeOfPrimop op) (\<lambda>s.
       sane ''Iex.Binop: wrong arity op'' (t_arg1 s \<noteq> Ity_INVALID \<and> t_arg2 s \<noteq> Ity_INVALID \<and>
         t_arg3 s = Ity_INVALID \<and> t_arg4 s = Ity_INVALID)
      (tc_types ''Iex.Binop: arg tys don't match op tys'' tyenv [(a1, t_arg1 s), (a2, t_arg2 s)] True))))"
| "tcExpr tyenv gWordTy (Iex_Unop op a) =
     rseq (tcExpr tyenv gWordTy a)
    (rbind (typeOfPrimop op) (\<lambda>s.
       sane ''Iex.Unop: wrong arity op'' (t_arg1 s \<noteq> Ity_INVALID \<and> t_arg2 s = Ity_INVALID \<and>
         t_arg3 s = Ity_INVALID \<and> t_arg4 s = Ity_INVALID)
      (tc_types ''Iex.Unop: arg ty doesn't match op ty'' tyenv [(a, t_arg1 s)] True)))"
| "tcExpr tyenv gWordTy (Iex_Load en ty addr) =
     rseq (tcExpr tyenv gWordTy addr)
    (typed ''Iex.Load.addr: not :: guest word type'' tyenv addr (\<lambda>t. t = gWordTy) (Inr ()))"
| "tcExpr tyenv gWordTy (Iex_CCall cee retty args) =
     sane ''Iex.CCall.cee: bad IRCallee'' (saneIRCallee cee)
    (sane ''Iex.CCall.cee: #regparms > #args'' (ce_regparms cee \<le> int (length args))
    (rseq (tcArgs tyenv gWordTy 0 args)
    (sane ''Iex.CCall.retty: cannot return :: Ity_I1'' (retty \<noteq> Ity_I1)
       (no_I1_args tyenv args))))"
| "tcExpr tyenv gWordTy (Iex_Const con) = sane ''Iex.Const.con: invalid const'' (saneIRConst con) (Inr ())"
| "tcExpr tyenv gWordTy (Iex_ITE cond iftrue iffalse) =
     rseq (tcExpr tyenv gWordTy cond) (rseq (tcExpr tyenv gWordTy iftrue) (rseq (tcExpr tyenv gWordTy iffalse)
    (typed ''Iex.ITE.cond: cond :: Ity_I1'' tyenv cond (\<lambda>t. t = Ity_I1)
    (rbind (typeOfIRExpr tyenv iftrue) (\<lambda>tt. rbind (typeOfIRExpr tyenv iffalse) (\<lambda>tf.
       sane ''Iex.ITE: iftrue/iffalse mismatch'' (tt = tf) (Inr ())))))))"
| "tcExpr tyenv gWordTy (Iex_Binder b) = Inl (Panic ''tcExpr'')"
| "tcExpr tyenv gWordTy Iex_VECRET = Inl (Panic ''tcExpr'')"
| "tcExpr tyenv gWordTy Iex_GSPTR = Inl (Panic ''tcExpr'')"
| "tcExpr tyenv gWordTy Iex_NULL = Inl (NullDeref ''tcExpr'')"
| "tcArgs tyenv gWordTy i [] = Inr ()"
| "tcArgs tyenv gWordTy i (arg # args) =
     sane ''Iex.CCall: > 32 args'' (\<not> i \<ge> 32)
    (rbind (is_IRExpr_VECRET_or_GSPTR arg) (\<lambda>b. sane ''Iex.CCall.args: is VECRET/GSPTR'' (\<not> b)
    (rseq (tcExpr tyenv gWordTy arg) (tcArgs tyenv gWordTy (Suc i) args))))"

text \<open>A compare-and-swap has either no high half or all three parts of one.\<close>

definition tcCAS :: "IRTypeEnv \<Rightarrow> IRType \<Rightarrow> IRCAS \<Rightarrow> unit res" where
  "tcCAS tyenv gWordTy cas =
     (let bad = ''IRStmt.CAS: ill-formed'' in
      sane bad (cas_oldHi cas = IRTemp_INVALID \<and> cas_expdHi cas = Iex_NULL \<and> cas_dataHi cas = Iex_NULL \<or>
                cas_oldHi cas \<noteq> IRTemp_INVALID \<and> cas_expdHi cas \<noteq> Iex_NULL \<and> cas_dataHi cas \<noteq> Iex_NULL)
     (rseq (tcExpr tyenv gWordTy (cas_addr cas))
     (typed bad tyenv (cas_addr cas) (\<lambda>t. t = gWordTy)
     (rbind (typeOfIRExpr tyenv (cas_expdLo cas)) (\<lambda>tyExpd.
      rbind (typeOfIRExpr tyenv (cas_dataLo cas)) (\<lambda>tyData.
      sane bad (tyExpd = tyData)
     (rbind (typeOfIRTemp tyenv (cas_oldLo cas)) (\<lambda>tyOld.
      sane bad (tyExpd = tyOld)
     (sane bad (tyExpd = Ity_I8 \<or> tyExpd = Ity_I16 \<or> tyExpd = Ity_I32 \<or> gWordTy = Ity_I64 \<and> tyExpd = Ity_I64)
     (if cas_oldHi cas \<noteq> IRTemp_INVALID
      then rbind (typeOfIRExpr tyenv (cas_expdHi cas)) (\<lambda>tyExpd.
           rbind (typeOfIRExpr tyenv (cas_dataHi cas)) (\<lambda>tyData.
           sane bad (tyExpd = tyData)
          (rbind (typeOfIRTemp tyenv (cas_oldHi cas)) (\<lambda>tyOldHi.
           sane bad (tyExpd = tyOldHi)
          (sane bad (tyOldHi = tyOld) (Inr ()))))))
      else Inr ()))))))))))"

definition tcLLSC :: "IRTypeEnv \<Rightarrow> IRType \<Rightarrow> IRTemp \<Rightarrow> IRExpr \<Rightarrow> IRExpr \<Rightarrow> unit res" where
  "tcLLSC tyenv gWordTy result addr storedata =
     typed ''IRStmt.LLSC.addr: not :: guest word type'' tyenv addr (\<lambda>t. t = gWordTy)
    (rbind (typeOfIRTemp tyenv result) (\<lambda>tyRes.
       if storedata = Iex_NULL
       then sane ''Ist.LLSC(LL).result :: bogus'' (tyRes \<in> {Ity_I64, Ity_I32, Ity_I16, Ity_I8}) (Inr ())
       else sane ''Ist.LLSC(SC).result: not :: Ity_I1'' (tyRes = Ity_I1)
           (typed ''Ist.LLSC(SC).result :: storedata bogus'' tyenv storedata
              (\<lambda>tyData. tyData \<in> {Ity_I64, Ity_I32, Ity_I16, Ity_I8}) (Inr ()))))"

definition fx_ok :: "fx_state \<Rightarrow> bool" where
  "fx_ok f = (fx_fx f \<noteq> Ifx_None \<and> fx_size f > 0 \<and>
     (if fx_nRepeats f = 0 then fx_repeatLen f = 0
      else fx_repeatLen f > fx_size f \<and> fx_repeatLen f mod fx_size f = 0))"

definition vecret_ok :: "IRType \<Rightarrow> nat \<Rightarrow> unit res \<Rightarrow> unit res" where
  "vecret_ok retTy nVECRETs k =
     (if nVECRETs = 1
      then sane ''IRStmt.Dirty.args: VECRET present, but fn does not return V128 or V256''
             (retTy = Ity_V128 \<or> retTy = Ity_V256) k
      else if nVECRETs = 0
      then sane ''IRStmt.Dirty.args: VECRET not present, but fn returns V128 or V256''
             (\<not> (retTy = Ity_V128 \<or> retTy = Ity_V256)) k
      else Inl (Panic ''IRStmt.Dirty.args: > 1 VECRET present''))"

text \<open>The loop over the arguments of a helper call, followed by the tests on the pointer to the guest
  state.\<close>

fun tcDirtyArgs :: "IRTypeEnv \<Rightarrow> IRType \<Rightarrow> bool \<Rightarrow> nat \<Rightarrow> nat \<Rightarrow> nat \<Rightarrow> IRExpr list \<Rightarrow> unit res" where
  "tcDirtyArgs tyenv retTy noFx i nVECRETs nGSPTRs [] =
     sane ''IRStmt.Dirty.args: > 1 GSPTR present'' (\<not> nGSPTRs > 1)
    (sane ''IRStmt.Dirty.args: GSPTR requested, but no fxState declared'' (\<not> (noFx \<and> nGSPTRs \<noteq> 0)) (Inr ()))"
| "tcDirtyArgs tyenv retTy noFx i nVECRETs nGSPTRs (arg # args) =
     sane ''IRStmt.Dirty: > 32 args'' (\<not> i \<ge> 32)
    (rbind (iex_tag arg) (\<lambda>tag.
       let nV = (if arg = Iex_VECRET then Suc nVECRETs else nVECRETs);
           nG = (if arg = Iex_GSPTR then Suc nGSPTRs else nGSPTRs);
           rest = sane ''IRStmt.Dirty.args: > 1 GSPTR arg'' (\<not> nG > 1)
                 (vecret_ok retTy nV (tcDirtyArgs tyenv retTy noFx (Suc i) nV nG args))
       in if arg = Iex_VECRET \<or> arg = Iex_GSPTR then rest
          else typed ''IRStmt.Dirty.arg[i] :: Ity_I1'' tyenv arg (\<lambda>t. t \<noteq> Ity_I1) rest))"

definition VEX_N_FXSTATE :: nat where
  "VEX_N_FXSTATE = 7"

definition tcDirty :: "IRTypeEnv \<Rightarrow> IRType \<Rightarrow> IRDirty \<Rightarrow> unit res" where
  "tcDirty tyenv gWordTy d =
     (let bad = ''IRStmt.Dirty: ill-formed'' in
      case di_cee d of None \<Rightarrow> Inl (Panic bad) | Some cee \<Rightarrow>
      sane bad (saneIRCallee cee)
     (sane bad (ce_regparms cee \<le> int (length (di_args d)))
     (sane bad (if di_mFx d = Ifx_None then \<not> (di_mAddr d \<noteq> Iex_NULL \<or> di_mSize d \<noteq> 0)
                else \<not> (di_mAddr d = Iex_NULL \<or> di_mSize d = 0))
     (sane bad (\<not> length (di_fxState d) > VEX_N_FXSTATE)
     (sane bad (list_all fx_ok (di_fxState d))
     (sane bad (di_guard d \<noteq> Iex_NULL)
     (rseq (tcExpr tyenv gWordTy (di_guard d))
     (typed ''IRStmt.Dirty.guard not :: Ity_I1'' tyenv (di_guard d) (\<lambda>t. t = Ity_I1)
     (rbind (if di_tmp d \<noteq> IRTemp_INVALID then typeOfIRTemp tyenv (di_tmp d) else Inr Ity_INVALID) (\<lambda>retTy.
      sane ''IRStmt.Dirty.dst :: Ity_I1'' (\<not> (di_tmp d \<noteq> IRTemp_INVALID \<and> retTy = Ity_I1))
        (tcDirtyArgs tyenv retTy (di_fxState d = []) 0 0 0 (di_args d))))))))))))"

fun tcStmt :: "IRTypeEnv \<Rightarrow> IRType \<Rightarrow> IRStmt \<Rightarrow> unit res" where
  "tcStmt tyenv gWordTy (Ist_IMark addr len delta) =
     sane ''IRStmt.IMark.len: implausible'' (\<not> len > 24)
    (sane ''IRStmt.IMark.delta: implausible'' (\<not> delta > 1) (Inr ()))"
| "tcStmt tyenv gWordTy (Ist_AbiHint base len nia) =
     typed ''IRStmt.AbiHint.base: not :: guest word type'' tyenv base (\<lambda>t. t = gWordTy)
    (typed ''IRStmt.AbiHint.nia: not :: guest word type'' tyenv nia (\<lambda>t. t = gWordTy) (Inr ()))"
| "tcStmt tyenv gWordTy (Ist_Put off data) =
     rseq (tcExpr tyenv gWordTy data)
    (typed ''IRStmt.Put.data: cannot Put :: Ity_I1'' tyenv data (\<lambda>t. t \<noteq> Ity_I1) (Inr ()))"
| "tcStmt tyenv gWordTy (Ist_PutI puti) =
     rseq (tcExpr tyenv gWordTy (pi_data puti)) (rseq (tcExpr tyenv gWordTy (pi_ix puti))
    (typed ''IRStmt.PutI.data: cannot PutI :: Ity_I1'' tyenv (pi_data puti) (\<lambda>t. t \<noteq> Ity_I1)
    (typed ''IRStmt.PutI.data: data ty != elem ty'' tyenv (pi_data puti) (\<lambda>t. t = ra_elemTy (pi_descr puti))
    (typed ''IRStmt.PutI.ix: not :: Ity_I32'' tyenv (pi_ix puti) (\<lambda>t. t = Ity_I32)
    (sane ''IRStmt.PutI.descr: invalid descr'' (saneIRRegArray (pi_descr puti)) (Inr ()))))))"
| "tcStmt tyenv gWordTy (Ist_WrTmp tmp data) =
     rseq (tcExpr tyenv gWordTy data)
    (rbind (typeOfIRTemp tyenv tmp) (\<lambda>ty.
       typed ''IRStmt.Put.Tmp: tmp and expr do not match'' tyenv data (\<lambda>t. ty = t) (Inr ())))"
| "tcStmt tyenv gWordTy (Ist_Store en addr data) =
     rseq (tcExpr tyenv gWordTy addr) (rseq (tcExpr tyenv gWordTy data)
    (typed ''IRStmt.Store.addr: not :: guest word type'' tyenv addr (\<lambda>t. t = gWordTy)
    (typed ''IRStmt.Store.data: cannot Store :: Ity_I1'' tyenv data (\<lambda>t. t \<noteq> Ity_I1) (Inr ()))))"
| "tcStmt tyenv gWordTy (Ist_StoreG sg) =
     rseq (tcExpr tyenv gWordTy (sg_addr sg)) (rseq (tcExpr tyenv gWordTy (sg_data sg))
    (rseq (tcExpr tyenv gWordTy (sg_guard sg))
    (typed ''IRStmtG...addr: not :: guest word type'' tyenv (sg_addr sg) (\<lambda>t. t = gWordTy)
    (typed ''IRStmtG...data: cannot Store :: Ity_I1'' tyenv (sg_data sg) (\<lambda>t. t \<noteq> Ity_I1)
    (typed ''IRStmtG...guard: not :: Ity_I1'' tyenv (sg_guard sg) (\<lambda>t. t = Ity_I1) (Inr ()))))))"
| "tcStmt tyenv gWordTy (Ist_LoadG lg) =
     rseq (tcExpr tyenv gWordTy (lg_addr lg)) (rseq (tcExpr tyenv gWordTy (lg_alt lg))
    (rseq (tcExpr tyenv gWordTy (lg_guard lg))
    (typed ''IRStmt.LoadG.guard: not :: Ity_I1'' tyenv (lg_guard lg) (\<lambda>t. t = Ity_I1)
    (typed ''IRStmt.LoadG.addr: not :: guest word type'' tyenv (lg_addr lg) (\<lambda>t. t = gWordTy)
    (rbind (typeOfIRExpr tyenv (lg_alt lg)) (\<lambda>tyAlt. rbind (typeOfIRTemp tyenv (lg_dst lg)) (\<lambda>tyDst.
       sane ''IRStmt.LoadG: dst/alt type mismatch'' (tyAlt = tyDst)
      (rbind (typeOfIRLoadGOp (lg_cvt lg)) (\<lambda>(cvtRes, cvtArg).
         sane ''IRStmt.LoadG: dst/loaded type mismatch'' (cvtRes = tyDst) (Inr ()))))))))))"
| "tcStmt tyenv gWordTy (Ist_CAS cas) = tcCAS tyenv gWordTy cas"
| "tcStmt tyenv gWordTy (Ist_LLSC en result addr storedata) = tcLLSC tyenv gWordTy result addr storedata"
| "tcStmt tyenv gWordTy (Ist_Dirty d) = tcDirty tyenv gWordTy d"
| "tcStmt tyenv gWordTy Ist_NoOp = Inr ()"
| "tcStmt tyenv gWordTy (Ist_MBE ev) = Inr ()"
| "tcStmt tyenv gWordTy (Ist_Exit guard dst jk offsIP) =
     rseq (tcExpr tyenv gWordTy guard)
    (typed ''IRStmt.Exit.guard: not :: Ity_I1'' tyenv guard (\<lambda>t. t = Ity_I1)
    (sane ''IRStmt.Exit.dst: bad dst'' (saneIRConst dst)
    (sane ''IRStmt.Exit.dst: not :: guest word type'' (typeOfIRConst dst = gWordTy)
    (sane ''IRStmt.Exit.offsIP: too low'' (\<not> offsIP < 16) (Inr ())))))"
| "tcStmt tyenv gWordTy (Ist_Flush addr fk) =
     rseq (tcExpr tyenv gWordTy addr)
    (typed ''IRStmt.Flush.addr: not :: guest word type'' tyenv addr (\<lambda>t. t = gWordTy) (Inr ()))"
| "tcStmt tyenv gWordTy Ist_NULL = Inl (NullDeref ''tcStmt'')"

section \<open>The check of a block\<close>

fun check_flat :: "IRStmt list \<Rightarrow> unit res" where
  "check_flat [] = Inr ()"
| "check_flat (st # sts) =
     sane ''IRStmt: is NULL'' (st \<noteq> Ist_NULL)
    (rbind (isFlatIRStmt st) (\<lambda>b. sane ''IRStmt: is not flat'' b (check_flat sts)))"

fun check_defs :: "IRSB \<Rightarrow> IRStmt list \<Rightarrow> def_counts \<Rightarrow> def_counts res" where
  "check_defs bb [] ds = Inr ds"
| "check_defs bb (st # sts) ds =
     rseq (useBeforeDef_Stmt bb st ds)
    (rbind (assignedOnce_Stmt st (length (te_types (sb_tyenv bb))) ds) (check_defs bb sts))"

fun check_types :: "IRTypeEnv \<Rightarrow> IRType \<Rightarrow> IRStmt list \<Rightarrow> unit res" where
  "check_types tyenv gWordTy [] = Inr ()"
| "check_types tyenv gWordTy (st # sts) = rseq (tcStmt tyenv gWordTy st) (check_types tyenv gWordTy sts)"

fun isPlausibleIRType :: "IRType \<Rightarrow> bool" where
  "isPlausibleIRType Ity_INVALID = True"
| "isPlausibleIRType Ity_I1 = True"
| "isPlausibleIRType Ity_I8 = True"
| "isPlausibleIRType Ity_I16 = True"
| "isPlausibleIRType Ity_I32 = True"
| "isPlausibleIRType Ity_I64 = True"
| "isPlausibleIRType Ity_I128 = True"
| "isPlausibleIRType Ity_F16 = True"
| "isPlausibleIRType Ity_F32 = True"
| "isPlausibleIRType Ity_F64 = True"
| "isPlausibleIRType Ity_F128 = True"
| "isPlausibleIRType Ity_D32 = True"
| "isPlausibleIRType Ity_D64 = True"
| "isPlausibleIRType Ity_D128 = True"
| "isPlausibleIRType Ity_V128 = True"
| "isPlausibleIRType Ity_V256 = True"

lemma plausible [simp]: "isPlausibleIRType ty" "list_all isPlausibleIRType tys"
proof -
  have p: "isPlausibleIRType t" for t by (cases t) simp_all
  show "isPlausibleIRType ty" "list_all isPlausibleIRType tys" by (simp_all add: p list_all_iff)
qed

definition sanityCheckIRSB :: "IRSB \<Rightarrow> bool \<Rightarrow> IRType \<Rightarrow> unit res" where
  "sanityCheckIRSB bb require_flat guest_word_size =
     rassert ''guest_word_size'' (guest_word_size = Ity_I32 \<or> guest_word_size = Ity_I64)
    (sane ''sanityCheckIRSB: stmts array limits wierd''
       (\<not> (sb_stmts_size bb < 8 \<or> length (sb_stmts bb) > sb_stmts_size bb))
    (sane ''Temp declared with implausible type'' (list_all isPlausibleIRType (te_types (sb_tyenv bb)))
    (rseq (if require_flat
           then rseq (check_flat (sb_stmts bb))
               (rbind (isIRAtom (sb_next bb)) (\<lambda>b. sane ''bb->next is not an atom'' b (Inr ())))
           else Inr ())
    (rbind (check_defs bb (sb_stmts bb) (\<lambda>tmp. 0)) (\<lambda>def_counts.
     rseq (check_types (sb_tyenv bb) guest_word_size (sb_stmts bb))
    (typed ''bb->next field has wrong type'' (sb_tyenv bb) (sb_next bb) (\<lambda>t. t = guest_word_size)
    (sane ''bb->offsIP: too low'' (\<not> sb_offsIP bb < 16) (Inr ()))))))))"

end
