(* ===== verification/VEX_Sanity_Laws.thy ===== *)
theory VEX_Sanity_Laws
  imports VEX_Sanity
begin

text \<open>
  Facts on the checker of blocks: copies are equal to what they copy, a check that passes also passes
  after the block has got more temporaries, and the checks of a list of statements are those of its
  parts.
\<close>

lemmas check_eq_Inr = rseq_eq_Inr sane_eq_Inr typed_eq_Inr rbind_eq_Inr rassert_eq_Inr

section \<open>Copies\<close>

lemma mkIRCallee_eq: "mkIRCallee r n a = Inr ce \<longleftrightarrow>
    0 \<le> r \<and> r \<le> 3 \<and> n \<noteq> None \<and> a \<noteq> None \<and> ce = \<lparr>ce_regparms = r, ce_name = n, ce_addr = a, ce_mcx_mask = 0\<rparr>"
  by (auto simp: mkIRCallee_def rassert_eq_Inr)

lemma deepCopyIRConst_same: "deepCopyIRConst c = Inr c' \<Longrightarrow> c' = c"
  by (cases c) (auto simp: IRConst_U1_def rassert_eq_Inr)

lemma deepCopyIRCallee_same: "deepCopyIRCallee ce = Inr ce' \<Longrightarrow> ce' = ce"
  by (auto simp: deepCopyIRCallee_def rbind_eq_Inr mkIRCallee_eq)

lemma deepCopyIRRegArray_same: "deepCopyIRRegArray d = Inr d' \<Longrightarrow> d' = d"
  by (auto simp: deepCopyIRRegArray_def mkIRRegArray_def rassert_eq_Inr)

lemma deepCopyIRExpr_same:
  "deepCopyIRExpr e = Inr e' \<Longrightarrow> e' = e"
  "deepCopyIRExprVec es = Inr es' \<Longrightarrow> es' = es"
  by (induction e and es arbitrary: e' and es' rule: deepCopyIRExpr_deepCopyIRExprVec.induct)
    (auto simp: rbind_eq_Inr dest: deepCopyIRConst_same deepCopyIRCallee_same deepCopyIRRegArray_same)

section \<open>More temporaries\<close>

definition env_le :: "IRTypeEnv \<Rightarrow> IRTypeEnv \<Rightarrow> bool" where
  "env_le E E' \<longleftrightarrow> (\<exists>tys. te_types E' = te_types E @ tys)"

lemma env_le_refl [simp]: "env_le E E"
  by (simp add: env_le_def)

lemma typeOfIRTemp_eq: "typeOfIRTemp E t = Inr ty \<longleftrightarrow> t < length (te_types E) \<and> te_types E ! t = ty"
  by (auto simp: typeOfIRTemp_def rassert_eq_Inr)

lemma typeOfIRTemp_mono: "env_le E E' \<Longrightarrow> typeOfIRTemp E t = Inr ty \<Longrightarrow> typeOfIRTemp E' t = Inr ty"
  by (auto simp: typeOfIRTemp_eq env_le_def nth_append)

lemma typeOfIRExpr_mono: "env_le E E' \<Longrightarrow> typeOfIRExpr E e = Inr ty \<Longrightarrow> typeOfIRExpr E' e = Inr ty"
  by (induction E e rule: typeOfIRExpr.induct) (auto simp: typeOfIRTemp_mono)

lemma typed_mono:
  "env_le E E' \<Longrightarrow> typed what E e P k = Inr y \<Longrightarrow> (k = Inr y \<Longrightarrow> k' = Inr y) \<Longrightarrow> typed what E' e P k' = Inr y"
  by (auto simp: typed_eq_Inr dest: typeOfIRExpr_mono)

lemma tc_types_mono: "env_le E E' \<Longrightarrow> tc_types what E es ok = Inr () \<Longrightarrow> tc_types what E' es ok = Inr ()"
  by (induction what E es ok rule: tc_types.induct) (auto simp: rbind_eq_Inr dest!: typeOfIRExpr_mono)

lemma no_I1_args_mono: "env_le E E' \<Longrightarrow> no_I1_args E args = Inr () \<Longrightarrow> no_I1_args E' args = Inr ()"
  by (induction args) (auto elim!: typed_mono)

lemma tcExpr_mono:
  "env_le E E' \<Longrightarrow> tcExpr E w e = Inr () \<Longrightarrow> tcExpr E' w e = Inr ()"
  "env_le E E' \<Longrightarrow> tcArgs E w i es = Inr () \<Longrightarrow> tcArgs E' w i es = Inr ()"
proof (induction E w e and E w i es rule: tcExpr_tcArgs.induct)
qed (auto simp: check_eq_Inr dest: typeOfIRExpr_mono intro: tc_types_mono no_I1_args_mono)

lemma tcDirtyArgs_mono:
  "env_le E E' \<Longrightarrow> tcDirtyArgs E retTy noFx i nV nG args = Inr () \<Longrightarrow> tcDirtyArgs E' retTy noFx i nV nG args = Inr ()"
  by (induction E retTy noFx i nV nG args rule: tcDirtyArgs.induct)
    (auto simp: check_eq_Inr Let_def vecret_ok_def dest: typeOfIRExpr_mono split: if_splits)

lemma tcStmt_mono: "env_le E E' \<Longrightarrow> tcStmt E w st = Inr () \<Longrightarrow> tcStmt E' w st = Inr ()"
proof (cases st)
  case (Ist_Dirty d)
  assume "env_le E E'" "tcStmt E w st = Inr ()"
  with Ist_Dirty show ?thesis
    by (auto simp: tcDirty_def check_eq_Inr Let_def split: option.splits if_splits
        dest: typeOfIRExpr_mono typeOfIRTemp_mono intro: tcDirtyArgs_mono tcExpr_mono)
next
  case (Ist_CAS cas)
  assume "env_le E E'" "tcStmt E w st = Inr ()"
  with Ist_CAS show ?thesis
    by (auto simp: tcCAS_def check_eq_Inr Let_def split: if_splits
        dest: typeOfIRExpr_mono typeOfIRTemp_mono intro: tcExpr_mono)
qed (auto simp: check_eq_Inr tcLLSC_def split: if_splits dest: typeOfIRExpr_mono typeOfIRTemp_mono intro: tcExpr_mono)

lemma check_types_mono: "env_le E E' \<Longrightarrow> check_types E w sts = Inr () \<Longrightarrow> check_types E' w sts = Inr ()"
  by (induction sts) (auto simp: rseq_eq_Inr intro: tcStmt_mono)

text \<open>Uses of temporaries only get easier when there are more temporaries and more of them are assigned.\<close>

definition defs_le :: "def_counts \<Rightarrow> def_counts \<Rightarrow> bool" where
  "defs_le ds ds' \<longleftrightarrow> (\<forall>t. 0 < ds t \<longrightarrow> 0 < ds' t)"

lemma useBeforeDef_Temp_mono:
  "env_le (sb_tyenv bb) (sb_tyenv bb') \<Longrightarrow> defs_le ds ds' \<Longrightarrow>
   useBeforeDef_Temp bb ds t = Inr () \<Longrightarrow> useBeforeDef_Temp bb' ds' t = Inr ()"
  by (auto simp: useBeforeDef_Temp_def sane_eq_Inr env_le_def defs_le_def not_less)

lemma useBeforeDef_Expr_mono:
  "env_le (sb_tyenv bb) (sb_tyenv bb') \<Longrightarrow> defs_le ds ds' \<Longrightarrow>
   useBeforeDef_Expr bb ds e = Inr () \<Longrightarrow> useBeforeDef_Expr bb' ds' e = Inr ()"
  "env_le (sb_tyenv bb) (sb_tyenv bb') \<Longrightarrow> defs_le ds ds' \<Longrightarrow>
   useBeforeDef_Args bb ds es = Inr () \<Longrightarrow> useBeforeDef_Args bb' ds' es = Inr ()"
  by (induction bb ds e and bb ds es rule: useBeforeDef_Expr_useBeforeDef_Args.induct)
    (auto simp: check_eq_Inr intro: useBeforeDef_Temp_mono)

lemma useBeforeDef_DirtyArgs_mono:
  assumes le: "env_le (sb_tyenv bb) (sb_tyenv bb')" "defs_le ds ds'"
  shows "useBeforeDef_DirtyArgs bb ds es = Inr () \<Longrightarrow> useBeforeDef_DirtyArgs bb' ds' es = Inr ()"
proof (induction es)
  case (Cons e es)
  then obtain b where b: "is_IRExpr_VECRET_or_GSPTR e = Inr b" by (auto simp: rbind_eq_Inr)
  show ?case using Cons b useBeforeDef_Expr_mono(1) [OF le, of e] by (cases b) (simp_all add: rseq_eq_Inr)
qed simp

lemma useBeforeDef_Stmt_mono:
  assumes le: "env_le (sb_tyenv bb) (sb_tyenv bb')" "defs_le ds ds'"
  shows "useBeforeDef_Stmt bb st ds = Inr () \<Longrightarrow> useBeforeDef_Stmt bb' st ds' = Inr ()"
  by (cases st) (auto simp: check_eq_Inr use_if_given_def split: if_splits
      dest: useBeforeDef_Expr_mono(1) [OF le] useBeforeDef_DirtyArgs_mono [OF le])

section \<open>Lists of statements\<close>

lemma check_flat_append: "check_flat (xs @ ys) = Inr () \<longleftrightarrow> check_flat xs = Inr () \<and> check_flat ys = Inr ()"
  by (induction xs) (auto simp: check_eq_Inr)

lemma check_types_append: "check_types E w (xs @ ys) = Inr () \<longleftrightarrow> check_types E w xs = Inr () \<and> check_types E w ys = Inr ()"
  by (induction xs) (auto simp: check_eq_Inr)

lemma check_defs_append: "check_defs bb (xs @ ys) ds = rbind (check_defs bb xs ds) (check_defs bb ys)"
proof (induction xs arbitrary: ds)
  case Nil
  then show ?case by simp
next
  case (Cons st xs)
  then show ?case
    by (cases "useBeforeDef_Stmt bb st ds"; cases "assignedOnce_Stmt st (length (te_types (sb_tyenv bb))) ds") simp_all
qed

end
