(* ===== verification/PMC_Instrument.thy ===== *)
theory PMC_Instrument
  imports VEX_IR PMC_State
begin

text \<open>
  The instrumentation of the client's code (\<open>pmc_instrument\<close> and its helpers in
  \<open>pmdebugger/pmc_main.c\<close>): a block of intermediate code is copied statement by statement, and calls of
  the handlers of the tool are put after every store, flush and fence.

  The block under construction is passed through; messages to the user are collected.  A failed
  assertion and a type that VEX does not know are failures, as is the use of a pointer that was moved off the
  expression it points to.
\<close>

section \<open>Atoms and widening\<close>

definition make_expr :: "IRSB \<Rightarrow> IRType \<Rightarrow> IRExpr \<Rightarrow> (IRExpr \<times> IRSB) res" where
  "make_expr sb ty e =
     rbind (typeOfIRExpr (sb_tyenv sb) e) (\<lambda>tyE.
     rassert ''tyE == ty'' (tyE = ty)
    (rbind (newIRTemp (sb_tyenv sb) tyE) (\<lambda>(t, env).
     rbind (addStmtToIRSB (sb\<lparr>sb_tyenv := env\<rparr>) (Ist_WrTmp t e)) (\<lambda>sb.
       Inr (Iex_RdTmp t, sb)))))"

definition tmp_needs_widen :: "IRType \<Rightarrow> bool" where
  "tmp_needs_widen type = (type \<in> {Ity_I1, Ity_I8, Ity_I16, Ity_I32})"

fun const_needs_widen :: "IRExpr \<Rightarrow> bool res" where
  "const_needs_widen (Iex_Const (Ico_U1 u)) = Inr True"
| "const_needs_widen (Iex_Const (Ico_U8 u)) = Inr True"
| "const_needs_widen (Iex_Const (Ico_U16 u)) = Inr True"
| "const_needs_widen (Iex_Const (Ico_U32 u)) = Inr True"
| "const_needs_widen (Iex_Const (Ico_U64 u)) = Inr True"
| "const_needs_widen (Iex_Const c) = Inr False"
| "const_needs_widen e = Inl (AssertFail ''e->tag == Iex_Const'')"

text \<open>Each value passes through the type \<open>UInt\<close> of 32 bits.\<close>

fun widen_const :: "IRExpr \<Rightarrow> IRExpr res" where
  "widen_const (Iex_Const (Ico_U1 u)) = Inr (mkIRExpr_HWord (ucast (ucast u :: 32 word)))"
| "widen_const (Iex_Const (Ico_U8 u)) = Inr (mkIRExpr_HWord (ucast (ucast u :: 32 word)))"
| "widen_const (Iex_Const (Ico_U16 u)) = Inr (mkIRExpr_HWord (ucast (ucast u :: 32 word)))"
| "widen_const (Iex_Const (Ico_U32 u)) = Inr (mkIRExpr_HWord (ucast u))"
| "widen_const (Iex_Const (Ico_U64 u)) = Inr (mkIRExpr_HWord (ucast (ucast u :: 32 word)))"
| "widen_const (Iex_Const c) = Inl (AssertFail ''False'')"
| "widen_const e = Inl (AssertFail ''e->tag == Iex_Const'')"

definition widen_operation :: "IRSB \<Rightarrow> IRExpr \<Rightarrow> IROp res" where
  "widen_operation sb e =
     rbind (typeOfIRExpr (sb_tyenv sb) e) (\<lambda>ty.
       if ty = Ity_I1 then Inr Iop_1Uto64
       else if ty = Ity_I8 then Inr Iop_8Uto64
       else if ty = Ity_I16 then Inr Iop_16Uto64
       else if ty = Ity_I32 then Inr Iop_32Uto64
       else Inl (AssertFail ''False''))"

section \<open>Events\<close>

text \<open>The call of \<open>trace_pmem_store\<close> with its three arguments and the guard, if there is one.\<close>

definition add_store_call :: "IRSB \<Rightarrow> IRExpr \<Rightarrow> IRExpr list \<Rightarrow> IRSB res" where
  "add_store_call sb guard argv =
     rbind (unsafeIRDirty_0_N 3 (Some ''trace_pmem_store'') (Some ''trace_pmem_store'') argv) (\<lambda>di.
       addStmtToIRSB sb (Ist_Dirty (if guard \<noteq> Iex_NULL then di\<lparr>di_guard := guard\<rparr> else di)))"

definition wide_parts :: "IRType \<Rightarrow> IREndness \<Rightarrow> (IROp \<times> nat) list" where
  "wide_parts ty en =
     (if ty = Ity_V256
      then zip [Iop_V256to64_0, Iop_V256to64_1, Iop_V256to64_2, Iop_V256to64_3]
             (if en = Iend_LE then [0, 8, 16, 24] else [24, 16, 8, 0])
      else if ty = Ity_V128
      then zip [Iop_V128to64, Iop_V128HIto64] (if en = Iend_LE then [0, 8] else [8, 0])
      else [])"

definition wide_part :: "IRType \<Rightarrow> IRExpr \<Rightarrow> IRExpr \<Rightarrow> IRExpr \<Rightarrow> uword \<Rightarrow> IROp \<times> nat \<Rightarrow> IRSB \<Rightarrow> IRSB res" where
  "wide_part tyAddr addr data guard part_size = (\<lambda>(op, off) sb.
     let mkAdd = (if tyAddr = Ity_I32 then Iop_Add32 else Iop_Add64);
         eBias = Iex_Const (if tyAddr = Ity_I32 then Ico_U32 (of_nat off) else Ico_U64 (of_nat off))
     in rbind (make_expr sb tyAddr (Iex_Binop mkAdd addr eBias)) (\<lambda>(a, sb).
        rbind (make_expr sb Ity_I64 (Iex_Unop op data)) (\<lambda>(d, sb).
          add_store_call sb guard (mkIRExprVec_3 a (mkIRExpr_HWord part_size) d))))"

definition handle_wide_expr :: "IRSB \<Rightarrow> IREndness \<Rightarrow> IRExpr \<Rightarrow> IRExpr \<Rightarrow> IRExpr \<Rightarrow> uword \<Rightarrow> IRSB res" where
  "handle_wide_expr sb en addr data guard sze =
     rbind (typeOfIRExpr (sb_tyenv sb) data) (\<lambda>ty.
     rbind (typeOfIRExpr (sb_tyenv sb) addr) (\<lambda>tyAddr.
     rassert ''tyAddr == Ity_I32 || tyAddr == Ity_I64'' (tyAddr = Ity_I32 \<or> tyAddr = Ity_I64)
       (let parts = wide_parts ty en
        in foldM (wide_part tyAddr addr data guard (sze div of_nat (length parts))) parts sb)))"

text \<open>A step that prints nothing.\<close>

definition silently :: "IRSB res \<Rightarrow> (IRSB \<times> out list) res" where
  "silently m = rbind m (\<lambda>sb. Inr (sb, []))"

definition MAX_DSIZE :: nat where
  "MAX_DSIZE = 256"

definition add_event_dw_guarded :: "IRSB \<Rightarrow> IRExpr \<Rightarrow> nat \<Rightarrow> IRExpr \<Rightarrow> IRExpr \<Rightarrow> (IRSB \<times> out list) res" where
  "add_event_dw_guarded sb daddr dsize guard val =
     rbind (isIRAtom daddr) (\<lambda>b. rassert ''isIRAtom(daddr)'' b
    (rbind (isIRAtom val) (\<lambda>b. rassert ''isIRAtom(value)'' b
    (rassert ''dsize >= 1 && dsize <= MAX_DSIZE'' (1 \<le> dsize \<and> dsize \<le> MAX_DSIZE)
    (rbind (typeOfIRExpr (sb_tyenv sb) val) (\<lambda>type.
       let is_tmp = (case val of Iex_RdTmp t \<Rightarrow> True | _ \<Rightarrow> False);
           is_const = (case val of Iex_Const c \<Rightarrow> True | _ \<Rightarrow> False);
           event = (\<lambda>sb d. silently (add_store_call sb guard (mkIRExprVec_3 daddr (mkIRExpr_HWord (of_nat dsize)) d)))
       in if is_tmp \<and> type = Ity_I64 then event sb val
          else if is_tmp \<and> type = Ity_F64
          then rbind (make_expr sb Ity_I64 (Iex_Unop Iop_ReinterpF64asI64 val)) (\<lambda>(d, sb). event sb d)
          else if is_tmp \<and> tmp_needs_widen type
          then rbind (widen_operation sb val) (\<lambda>op.
               rbind (make_expr sb Ity_I64 (Iex_Unop op val)) (\<lambda>(d, sb). event sb d))
          else
            rbind (if is_const then const_needs_widen val else Inr False) (\<lambda>const_widens.
              if const_widens then rbind (widen_const val) (\<lambda>d. event sb d)
              else if type = Ity_V128 \<or> type = Ity_V256
              then silently (handle_wide_expr sb Iend_LE daddr val guard (of_nat dsize))
              else rbind (iex_tag val) (\<lambda>tag.
                Inr (sb, [Umsg ''Unable to trace store - unsupported type of store 0x%x 0x%x''
                  [of_nat tag, of_nat (ity_code type)]])))))))))"

definition add_event_dw :: "IRSB \<Rightarrow> IRExpr \<Rightarrow> nat \<Rightarrow> IRExpr \<Rightarrow> (IRSB \<times> out list) res" where
  "add_event_dw sb daddr dsize val = add_event_dw_guarded sb daddr dsize Iex_NULL val"

definition add_flush_event :: "IRSB \<Rightarrow> IRExpr \<Rightarrow> IRSB res" where
  "add_flush_event sb daddr =
     rbind (isIRAtom daddr) (\<lambda>b. rassert ''isIRAtom(daddr)'' b
    (rbind (unsafeIRDirty_0_N 1 (Some ''trace_pmem_flush'') (Some ''trace_pmem_flush'') (mkIRExprVec_1 daddr)) (\<lambda>di.
       addStmtToIRSB sb (Ist_Dirty di))))"

definition add_simple_event :: "IRSB \<Rightarrow> string \<Rightarrow> string \<Rightarrow> IRSB res" where
  "add_simple_event sb helperAddr helperName =
     rbind (unsafeIRDirty_0_N 0 (Some helperName) (Some helperAddr) mkIRExprVec_0) (\<lambda>di.
       addStmtToIRSB sb (Ist_Dirty di))"

section \<open>Statements\<close>

text \<open>The choice of operations for a compare-and-swap: comparison, disjunction and exclusive disjunction.\<close>

fun cas_ops :: "IRType \<Rightarrow> (IROp \<times> IROp \<times> IROp) res" where
  "cas_ops Ity_I8 = Inr (Iop_CasCmpEQ8, Iop_Or8, Iop_Xor8)"
| "cas_ops Ity_I16 = Inr (Iop_CasCmpEQ16, Iop_Or16, Iop_Xor16)"
| "cas_ops Ity_I32 = Inr (Iop_CasCmpEQ32, Iop_Or32, Iop_Xor32)"
| "cas_ops Ity_I64 = Inr (Iop_CasCmpEQ64, Iop_Or64, Iop_Xor64)"
| "cas_ops ty = Inl (AssertFail ''0'')"

text \<open>\<open>cas->addr + dataSize\<close> moves a pointer to one expression by that many expressions: only the pointer that is not moved
  still points to an expression.\<close>

definition moved_pointer :: "string \<Rightarrow> IRExpr \<Rightarrow> nat \<Rightarrow> IRExpr res" where
  "moved_pointer what e n = (if n < 1 then Inr e else Inl (OutOfBounds what))"

definition instrument_cas :: "IRTypeEnv \<Rightarrow> IRCAS \<Rightarrow> IRSB \<Rightarrow> (IRSB \<times> out list) res" where
  "instrument_cas tyenv cas sbOut =
     rassert ''cas->addr != NULL'' (cas_addr cas \<noteq> Iex_NULL)
    (rassert ''cas->dataLo != NULL'' (cas_dataLo cas \<noteq> Iex_NULL)
    (rbind (typeOfIRExpr tyenv (cas_dataLo cas)) (\<lambda>dataTy.
     rbind (sizeofIRType dataTy) (\<lambda>dataSize.
     rbind (addStmtToIRSB sbOut (Ist_CAS cas)) (\<lambda>sbOut.
     rbind (typeOfIRExpr tyenv (cas_expdLo cas)) (\<lambda>loType.
     rbind (cas_ops loType) (\<lambda>(opCasCmpEQ, opOr, opXor).
       if cas_dataHi cas \<noteq> Iex_NULL
       then
         rbind (make_expr sbOut loType (Iex_Binop opXor (cas_expdHi cas) (Iex_RdTmp (cas_oldHi cas)))) (\<lambda>(xHi, sbOut).
         rbind (make_expr sbOut loType (Iex_Binop opXor (cas_expdLo cas) (Iex_RdTmp (cas_oldLo cas)))) (\<lambda>(xLo, sbOut).
         rbind (make_expr sbOut loType (Iex_Binop opOr xHi xLo)) (\<lambda>(xHL, sbOut).
         rbind (make_expr sbOut Ity_I1 (Iex_Binop opCasCmpEQ xHL Iex_NULL)) (\<lambda>(guard, sbOut).
         rbind (add_event_dw_guarded sbOut (cas_addr cas) dataSize guard (cas_dataLo cas)) (\<lambda>(sbOut, msgs).
         rbind (moved_pointer ''cas->addr + dataSize'' (cas_addr cas) dataSize) (\<lambda>addrHi.
         rbind (add_event_dw_guarded sbOut addrHi dataSize guard (cas_dataHi cas)) (\<lambda>(sbOut, more).
           Inr (sbOut, msgs @ more))))))))
       else
         rbind (make_expr sbOut Ity_I1 (Iex_Binop opCasCmpEQ (cas_expdLo cas) (Iex_RdTmp (cas_oldLo cas)))) (\<lambda>(guard, sbOut).
           add_event_dw_guarded sbOut (cas_addr cas) dataSize guard (cas_dataLo cas)))))))))"

text \<open>A statement followed by the event for the data it stores.\<close>

definition instrument_store :: "IRTypeEnv \<Rightarrow> IRStmt \<Rightarrow> IRExpr \<Rightarrow> IRExpr \<Rightarrow> IRExpr \<Rightarrow> IRSB \<Rightarrow> (IRSB \<times> out list) res" where
  "instrument_store tyenv st addr data guard sbOut =
     rbind (addStmtToIRSB sbOut st) (\<lambda>sbOut.
     rbind (typeOfIRExpr tyenv data) (\<lambda>type.
     rassert ''type != Ity_INVALID'' (type \<noteq> Ity_INVALID)
    (rbind (sizeofIRType type) (\<lambda>dsize.
       add_event_dw_guarded sbOut addr dsize guard data))))"

fun instrument_stmt :: "options \<Rightarrow> IRTypeEnv \<Rightarrow> IRStmt \<Rightarrow> IRSB \<Rightarrow> (IRSB \<times> out list) res" where
  "instrument_stmt opts tyenv Ist_NULL sbOut = Inr (sbOut, [])"
| "instrument_stmt opts tyenv Ist_NoOp sbOut = Inr (sbOut, [])"
| "instrument_stmt opts tyenv (Ist_Flush addr fk) sbOut = silently (
     rbind (addStmtToIRSB sbOut (Ist_Flush addr fk)) (\<lambda>sbOut.
       if op_automatic_isa_rec opts
       then rbind (typeOfIRExpr tyenv addr) (\<lambda>type.
            rassert ''type != Ity_INVALID'' (type \<noteq> Ity_INVALID)
           (rbind (add_flush_event sbOut addr) (\<lambda>sbOut.
              if fk = Ifk_flush \<and> \<not> op_weak_clflush opts
              then add_simple_event sbOut ''do_fence'' ''do_fence''
              else Inr sbOut)))
       else Inr sbOut))"
| "instrument_stmt opts tyenv (Ist_MBE ev) sbOut = silently (
     rbind (addStmtToIRSB sbOut (Ist_MBE ev)) (\<lambda>sbOut.
       if op_automatic_isa_rec opts
       then if ev = Imbe_Fence \<or> ev = Imbe_SFence
            then add_simple_event sbOut ''do_fence'' ''do_fence''
            else Inr sbOut
       else Inr sbOut))"
| "instrument_stmt opts tyenv (Ist_Store en addr data) sbOut =
     instrument_store tyenv (Ist_Store en addr data) addr data Iex_NULL sbOut"
| "instrument_stmt opts tyenv (Ist_StoreG sg) sbOut =
     instrument_store tyenv (Ist_StoreG sg) (sg_addr sg) (sg_data sg) (sg_guard sg) sbOut"
| "instrument_stmt opts tyenv (Ist_CAS cas) sbOut = instrument_cas tyenv cas sbOut"
| "instrument_stmt opts tyenv (Ist_LLSC en result addr storedata) sbOut =
     rbind (addStmtToIRSB sbOut (Ist_LLSC en result addr storedata)) (\<lambda>sbOut.
       if storedata \<noteq> Iex_NULL
       then rbind (typeOfIRExpr tyenv storedata) (\<lambda>dataTy.
            rbind (sizeofIRType dataTy) (\<lambda>dsize. add_event_dw sbOut addr dsize storedata))
       else Inr (sbOut, []))"
| "instrument_stmt opts tyenv st sbOut = silently (addStmtToIRSB sbOut st)"

fun copy_preamble :: "IRStmt list \<Rightarrow> IRSB \<Rightarrow> (IRStmt list \<times> IRSB) res" where
  "copy_preamble [] sbOut = Inr ([], sbOut)"
| "copy_preamble (Ist_NULL # sts) sbOut = Inl (NullDeref ''bb->stmts[i]->tag'')"
| "copy_preamble (Ist_IMark addr len delta # sts) sbOut = Inr (Ist_IMark addr len delta # sts, sbOut)"
| "copy_preamble (st # sts) sbOut = rbind (addStmtToIRSB sbOut st) (copy_preamble sts)"

definition instrument_next :: "options \<Rightarrow> IRTypeEnv \<Rightarrow> IRStmt \<Rightarrow> IRSB \<times> out list \<Rightarrow> (IRSB \<times> out list) res" where
  "instrument_next opts tyenv st = (\<lambda>(sbOut, msgs).
     rbind (instrument_stmt opts tyenv st sbOut) (\<lambda>(sbOut, more). Inr (sbOut, msgs @ more)))"

definition pmc_instrument :: "options \<Rightarrow> IRSB \<Rightarrow> IRType \<Rightarrow> IRType \<Rightarrow> (IRSB \<times> out list) res" where
  "pmc_instrument opts bb gWordTy hWordTy =
     (if gWordTy \<noteq> hWordTy then Inl (Panic ''host/guest word size mismatch'')
      else
        rbind (deepCopyIRSBExceptStmts bb) (\<lambda>sbOut.
        rbind (copy_preamble (sb_stmts bb) sbOut) (\<lambda>(sts, sbOut).
        rbind (unsafeIRDirty_0_N 0 (Some ''add_one_SB_entered'') (Some ''add_one_SB_entered'') mkIRExprVec_0) (\<lambda>di.
        rbind (addStmtToIRSB sbOut (Ist_Dirty di)) (\<lambda>sbOut.
          foldM (instrument_next opts (sb_tyenv bb)) sts (sbOut, []))))))"

end
