(* ===== verification/PMC_Instrument_Laws.thy ===== *)
theory PMC_Instrument_Laws
  imports VEX_Sanity_Laws PMC_Instrument
begin

text \<open>
  What the instrumentation puts into a block.  A block grows by statements and temporaries; every
  helper of the tool grows it by a list that is described here without the block, and on a block that
  passes the checker of the core the instrumentation does not fail.
\<close>

section \<open>Growth of a block\<close>

definition sb_ok :: "IRSB \<Rightarrow> bool" where
  "sb_ok sb \<longleftrightarrow> 8 \<le> sb_stmts_size sb \<and> length (sb_stmts sb) \<le> sb_stmts_size sb \<and>
     length (te_types (sb_tyenv sb)) \<le> te_types_size (sb_tyenv sb)"

definition n_temps :: "IRSB \<Rightarrow> nat" where
  "n_temps sb = length (te_types (sb_tyenv sb))"

definition grow :: "IRSB \<Rightarrow> IRStmt list \<times> IRType list \<Rightarrow> IRSB \<Rightarrow> bool" where
  "grow sb new sb' \<longleftrightarrow> sb_ok sb' \<and> sb_stmts sb' = sb_stmts sb @ fst new \<and>
     te_types (sb_tyenv sb') = te_types (sb_tyenv sb) @ snd new \<and>
     sb_next sb' = sb_next sb \<and> sb_jumpkind sb' = sb_jumpkind sb \<and> sb_offsIP sb' = sb_offsIP sb"

definition join :: "IRStmt list \<times> IRType list \<Rightarrow> IRStmt list \<times> IRType list \<Rightarrow> IRStmt list \<times> IRType list" where
  "join a b = (fst a @ fst b, snd a @ snd b)"

lemma join_simps [simp]: "fst (join a b) = fst a @ fst b" "snd (join a b) = snd a @ snd b"
  by (simp_all add: join_def)

lemma grow_trans: "grow sb a sb1 \<Longrightarrow> grow sb1 b sb2 \<Longrightarrow> grow sb (join a b) sb2"
  by (simp add: grow_def)

lemma grow_refl: "sb_ok sb \<Longrightarrow> grow sb ([], []) sb"
  by (simp add: grow_def)

lemma grow_ok: "grow sb a sb' \<Longrightarrow> sb_ok sb'"
  by (simp add: grow_def)

lemma grow_env_le: "grow sb a sb' \<Longrightarrow> env_le (sb_tyenv sb) (sb_tyenv sb')"
  by (auto simp: grow_def env_le_def)

lemma env_le_grow: "env_le E (sb_tyenv sb) \<Longrightarrow> grow sb a sb' \<Longrightarrow> env_le E (sb_tyenv sb')"
  by (auto simp: grow_def env_le_def)

lemma grow_temps: "grow sb a sb' \<Longrightarrow> n_temps sb' = n_temps sb + length (snd a)"
  by (simp add: grow_def n_temps_def)

lemma addStmt_grow: "sb_ok sb \<Longrightarrow> \<exists>sb'. addStmtToIRSB sb st = Inr sb' \<and> grow sb ([st], []) sb'"
  by (auto simp: addStmtToIRSB_def Let_def sb_ok_def grow_def rassert_def)

lemma newIRTemp_grow:
  "length (te_types env) \<le> te_types_size env \<Longrightarrow> \<exists>env'. newIRTemp env ty = Inr (length (te_types env), env') \<and>
     te_types env' = te_types env @ [ty] \<and> length (te_types env') \<le> te_types_size env'"
proof (induction env ty rule: newIRTemp.induct)
  case (1 env ty)
  show ?case
  proof (cases "length (te_types env) < te_types_size env")
    case True
    then show ?thesis by (simp add: newIRTemp.simps [of env])
  next
    case False
    let ?env = "env\<lparr>te_types_size := (if te_types_size env = 0 then 8 else 2 * te_types_size env)\<rparr>"
    have "\<exists>env'. newIRTemp ?env ty = Inr (length (te_types ?env), env') \<and>
      te_types env' = te_types ?env @ [ty] \<and> length (te_types env') \<le> te_types_size env'"
      using 1 False by (intro 1(1)) auto
    then show ?thesis using 1(2) False by (simp add: newIRTemp.simps [of env])
  qed
qed

lemma make_expr_grow:
  assumes "sb_ok sb" "typeOfIRExpr (sb_tyenv sb) e = Inr ty"
  shows "\<exists>sb'. make_expr sb ty e = Inr (Iex_RdTmp (n_temps sb), sb') \<and> grow sb ([Ist_WrTmp (n_temps sb) e], [ty]) sb'"
proof -
  obtain env where env: "newIRTemp (sb_tyenv sb) ty = Inr (n_temps sb, env)" "te_types env = te_types (sb_tyenv sb) @ [ty]"
    "length (te_types env) \<le> te_types_size env"
    using newIRTemp_grow [of "sb_tyenv sb" ty] assms(1) by (auto simp: sb_ok_def n_temps_def)
  have "sb_ok (sb\<lparr>sb_tyenv := env\<rparr>)" using assms(1) env(3) by (simp add: sb_ok_def)
  from addStmt_grow [OF this] obtain sb' where "addStmtToIRSB (sb\<lparr>sb_tyenv := env\<rparr>) (Ist_WrTmp (n_temps sb) e) = Inr sb'"
    "grow (sb\<lparr>sb_tyenv := env\<rparr>) ([Ist_WrTmp (n_temps sb) e], []) sb'" by blast
  then show ?thesis using assms(2) env by (simp add: make_expr_def grow_def)
qed

section \<open>Calls of the handlers\<close>

definition tool_call :: "int \<Rightarrow> string \<Rightarrow> IRExpr \<Rightarrow> IRExpr list \<Rightarrow> IRStmt" where
  "tool_call regparms name guard args =
     Ist_Dirty (emptyIRDirty\<lparr>di_cee := Some \<lparr>ce_regparms = regparms, ce_name = Some name, ce_addr = Some name, ce_mcx_mask = 0\<rparr>,
       di_guard := (if guard = Iex_NULL then Iex_Const (Ico_U1 1) else guard), di_args := args\<rparr>)"

definition store_call :: "IRExpr \<Rightarrow> IRExpr \<Rightarrow> uword \<Rightarrow> IRExpr \<Rightarrow> IRStmt" where
  "store_call guard addr sze val = tool_call 3 ''trace_pmem_store'' guard [addr, mkIRExpr_HWord sze, val]"

abbreviation fence_call :: IRStmt where
  "fence_call \<equiv> tool_call 0 ''do_fence'' Iex_NULL []"

abbreviation flush_call :: "IRExpr \<Rightarrow> IRStmt" where
  "flush_call addr \<equiv> tool_call 1 ''trace_pmem_flush'' Iex_NULL [addr]"

abbreviation entered_call :: IRStmt where
  "entered_call \<equiv> tool_call 0 ''add_one_SB_entered'' Iex_NULL []"

lemma dirty_tool_call:
  "0 \<le> r \<Longrightarrow> r \<le> 3 \<Longrightarrow> \<exists>di. unsafeIRDirty_0_N r (Some nm) (Some nm) args = Inr di \<and>
     Ist_Dirty di = tool_call r nm Iex_NULL args \<and>
     (g \<noteq> Iex_NULL \<longrightarrow> Ist_Dirty (di\<lparr>di_guard := g\<rparr>) = tool_call r nm g args)"
  by (simp add: unsafeIRDirty_0_N_def mkIRCallee_def IRConst_U1_def tool_call_def)

lemma add_store_call_grow:
  assumes "sb_ok sb"
  shows "\<exists>sb'. add_store_call sb g (mkIRExprVec_3 a (mkIRExpr_HWord k) d) = Inr sb' \<and> grow sb ([store_call g a k d], []) sb'"
proof -
  obtain di where "unsafeIRDirty_0_N 3 (Some ''trace_pmem_store'') (Some ''trace_pmem_store'') [a, mkIRExpr_HWord k, d] = Inr di"
    "Ist_Dirty (if g \<noteq> Iex_NULL then di\<lparr>di_guard := g\<rparr> else di) = store_call g a k d"
    using dirty_tool_call [of 3 "''trace_pmem_store''" "[a, mkIRExpr_HWord k, d]" g] by (auto simp: store_call_def)
  then show ?thesis using addStmt_grow [OF assms, of "store_call g a k d"]
    by (simp add: add_store_call_def mkIRExprVec_3_def)
qed

lemma add_flush_event_grow:
  assumes "sb_ok sb" "isIRAtom addr = Inr True"
  shows "\<exists>sb'. add_flush_event sb addr = Inr sb' \<and> grow sb ([flush_call addr], []) sb'"
  using dirty_tool_call [of 1 "''trace_pmem_flush''" "[addr]" Iex_NULL] addStmt_grow [OF assms(1), of "flush_call addr"] assms(2)
  by (auto simp: add_flush_event_def mkIRExprVec_1_def)

lemma add_simple_event_grow:
  assumes "sb_ok sb"
  shows "\<exists>sb'. add_simple_event sb nm nm = Inr sb' \<and> grow sb ([tool_call 0 nm Iex_NULL []], []) sb'"
  using dirty_tool_call [of 0 nm "[]" Iex_NULL] addStmt_grow [OF assms, of "tool_call 0 nm Iex_NULL []"]
  by (auto simp: add_simple_event_def mkIRExprVec_0_def)

section \<open>Events of stores\<close>

definition part_shape :: "nat \<Rightarrow> IRType \<Rightarrow> IRExpr \<Rightarrow> IRExpr \<Rightarrow> IRExpr \<Rightarrow> uword \<Rightarrow> IROp \<times> nat \<Rightarrow> IRStmt list \<times> IRType list" where
  "part_shape n tyAddr addr data guard k = (\<lambda>(op, off).
     ([Ist_WrTmp n (if tyAddr = Ity_I32 then Iex_Binop Iop_Add32 addr (Iex_Const (Ico_U32 (of_nat off)))
                    else Iex_Binop Iop_Add64 addr (Iex_Const (Ico_U64 (of_nat off)))),
       Ist_WrTmp (Suc n) (Iex_Unop op data),
       store_call guard (Iex_RdTmp n) k (Iex_RdTmp (Suc n))],
      [tyAddr, Ity_I64]))"

fun parts_shape :: "nat \<Rightarrow> IRType \<Rightarrow> IRExpr \<Rightarrow> IRExpr \<Rightarrow> IRExpr \<Rightarrow> uword \<Rightarrow> (IROp \<times> nat) list \<Rightarrow> IRStmt list \<times> IRType list" where
  "parts_shape n tyAddr addr data guard k [] = ([], [])"
| "parts_shape n tyAddr addr data guard k (p # ps) =
     join (part_shape n tyAddr addr data guard k p) (parts_shape (n + 2) tyAddr addr data guard k ps)"

lemma wide_part_grow:
  assumes ok: "sb_ok sb" and ty: "tyAddr = Ity_I32 \<or> tyAddr = Ity_I64" and op: "typeOfPrimop op = Inr (UNARY td Ity_I64)"
  shows "\<exists>sb'. wide_part tyAddr addr data guard k (op, off) sb = Inr sb' \<and>
    grow sb (part_shape (n_temps sb) tyAddr addr data guard k (op, off)) sb'"
proof -
  let ?n = "n_temps sb"
  let ?a = "if tyAddr = Ity_I32 then Iex_Binop Iop_Add32 addr (Iex_Const (Ico_U32 (of_nat off)))
    else Iex_Binop Iop_Add64 addr (Iex_Const (Ico_U64 (of_nat off)))"
  have "typeOfIRExpr (sb_tyenv sb) ?a = Inr tyAddr" using ty by (auto simp: BINARY_def)
  from make_expr_grow [OF ok this] obtain sb1 where 1: "make_expr sb tyAddr ?a = Inr (Iex_RdTmp ?n, sb1)"
    "grow sb ([Ist_WrTmp ?n ?a], [tyAddr]) sb1" by blast
  have n1: "n_temps sb1 = Suc ?n" using grow_temps [OF 1(2)] by simp
  have "typeOfIRExpr (sb_tyenv sb1) (Iex_Unop op data) = Inr Ity_I64" using op by (simp add: UNARY_def)
  from make_expr_grow [OF grow_ok [OF 1(2)] this] obtain sb2 where 2: "make_expr sb1 Ity_I64 (Iex_Unop op data) = Inr (Iex_RdTmp (Suc ?n), sb2)"
    "grow sb1 ([Ist_WrTmp (Suc ?n) (Iex_Unop op data)], [Ity_I64]) sb2" by (auto simp: n1)
  obtain sb3 where 3: "add_store_call sb2 guard (mkIRExprVec_3 (Iex_RdTmp ?n) (mkIRExpr_HWord k) (Iex_RdTmp (Suc ?n))) = Inr sb3"
    "grow sb2 ([store_call guard (Iex_RdTmp ?n) k (Iex_RdTmp (Suc ?n))], []) sb3"
    using add_store_call_grow [OF grow_ok [OF 2(2)]] by blast
  have "wide_part tyAddr addr data guard k (op, off) sb = Inr sb3"
    using 1(1) 2(1) 3(1) by (auto simp: wide_part_def Let_def split: if_splits)
  moreover have "grow sb (part_shape ?n tyAddr addr data guard k (op, off)) sb3"
    using grow_trans [OF grow_trans [OF 1(2) 2(2)] 3(2)] by (simp add: part_shape_def join_def)
  ultimately show ?thesis by blast
qed

lemma wide_parts_grow:
  assumes "sb_ok sb" "tyAddr = Ity_I32 \<or> tyAddr = Ity_I64" "\<forall>(op, off) \<in> set ps. \<exists>td. typeOfPrimop op = Inr (UNARY td Ity_I64)"
  shows "\<exists>sb'. foldM (wide_part tyAddr addr data guard k) ps sb = Inr sb' \<and>
    grow sb (parts_shape (n_temps sb) tyAddr addr data guard k ps) sb'"
  using assms(1,3)
proof (induction ps arbitrary: sb)
  case Nil
  then show ?case by (simp add: grow_refl)
next
  case (Cons p ps)
  obtain op off where p: "p = (op, off)" by (cases p)
  obtain td where "typeOfPrimop op = Inr (UNARY td Ity_I64)" using Cons.prems(2) p by auto
  from wide_part_grow [OF Cons.prems(1) assms(2) this] obtain sb1 where 1: "wide_part tyAddr addr data guard k p sb = Inr sb1"
    "grow sb (part_shape (n_temps sb) tyAddr addr data guard k p) sb1" unfolding p by blast
  have n1: "n_temps sb1 = n_temps sb + 2" using grow_temps [OF 1(2)] by (simp add: part_shape_def p)
  have "\<forall>(op, off) \<in> set ps. \<exists>td. typeOfPrimop op = Inr (UNARY td Ity_I64)" using Cons.prems(2) by auto
  from Cons.IH [OF grow_ok [OF 1(2)] this] obtain sb2 where "foldM (wide_part tyAddr addr data guard k) ps sb1 = Inr sb2"
    "grow sb1 (parts_shape (n_temps sb + 2) tyAddr addr data guard k ps) sb2" by (auto simp: n1)
  then show ?case using 1(1) grow_trans [OF 1(2)] by auto
qed

lemma wide_parts_ops: "\<forall>(op, off) \<in> set (wide_parts ty en). \<exists>td. typeOfPrimop op = Inr (UNARY td Ity_I64)"
  by (auto simp: wide_parts_def)

text \<open>The operation that makes a 64-bit integer of a temporary, and the constant that stands for one.\<close>

fun conv_op :: "IRType \<Rightarrow> IROp" where
  "conv_op Ity_I1 = Iop_1Uto64"
| "conv_op Ity_I8 = Iop_8Uto64"
| "conv_op Ity_I16 = Iop_16Uto64"
| "conv_op Ity_I32 = Iop_32Uto64"
| "conv_op ty = Iop_ReinterpF64asI64"

fun const_bits :: "IRConst \<Rightarrow> uword option" where
  "const_bits (Ico_U1 u) = Some (ucast u)"
| "const_bits (Ico_U8 u) = Some (ucast u)"
| "const_bits (Ico_U16 u) = Some (ucast u)"
| "const_bits (Ico_U32 u) = Some (ucast u)"
| "const_bits (Ico_U64 u) = Some (ucast (ucast u :: 32 word))"
| "const_bits c = None"

definition wide_shape :: "nat \<Rightarrow> IRType \<Rightarrow> IRExpr \<Rightarrow> nat \<Rightarrow> IRExpr \<Rightarrow> IRExpr \<Rightarrow> IRType \<Rightarrow> IRStmt list \<times> IRType list" where
  "wide_shape n tyAddr addr dsize guard val ty =
     parts_shape n tyAddr addr val guard (of_nat dsize div of_nat (length (wide_parts ty Iend_LE))) (wide_parts ty Iend_LE)"

fun event_shape :: "nat \<Rightarrow> IRType \<Rightarrow> IRExpr \<Rightarrow> nat \<Rightarrow> IRExpr \<Rightarrow> IRExpr \<Rightarrow> IRType \<Rightarrow> IRStmt list \<times> IRType list" where
  "event_shape n tyAddr addr dsize guard (Iex_Const c) ty =
     (case const_bits c of Some u \<Rightarrow> ([store_call guard addr (of_nat dsize) (mkIRExpr_HWord u)], [])
      | None \<Rightarrow> if ty = Ity_V128 \<or> ty = Ity_V256 then wide_shape n tyAddr addr dsize guard (Iex_Const c) ty else ([], []))"
| "event_shape n tyAddr addr dsize guard val ty =
     (if ty = Ity_I64 then ([store_call guard addr (of_nat dsize) val], [])
      else if ty = Ity_F64 \<or> tmp_needs_widen ty
      then ([Ist_WrTmp n (Iex_Unop (conv_op ty) val), store_call guard addr (of_nat dsize) (Iex_RdTmp n)], [Ity_I64])
      else if ty = Ity_V128 \<or> ty = Ity_V256 then wide_shape n tyAddr addr dsize guard val ty else ([], []))"

lemma ucast_through_32 [simp]:
  "ucast (ucast (u :: 8 word) :: 32 word) = (ucast u :: uword)" "ucast (ucast (v :: 16 word) :: 32 word) = (ucast v :: uword)"
  by (rule bit_word_eqI; auto simp: bit_unsigned_iff dest: bit_imp_le_length)+

lemma const_event:
  "const_needs_widen (Iex_Const c) = Inr (const_bits c \<noteq> None)"
  "const_bits c = Some u \<Longrightarrow> widen_const (Iex_Const c) = Inr (mkIRExpr_HWord u)"
  by (cases c; simp)+

lemma isIRAtom_cases:
  assumes "isIRAtom e = Inr True"
  obtains t where "e = Iex_RdTmp t" | c where "e = Iex_Const c"
  using assms by (cases e) auto

lemma silently_grow:
  "\<exists>sb'. m = Inr sb' \<and> grow sb a sb' \<Longrightarrow> \<exists>sb' msgs. silently m = Inr (sb', msgs) \<and> grow sb a sb'"
  by (auto simp: silently_def)

lemma handle_wide_expr_grow:
  assumes "sb_ok sb" "typeOfIRExpr (sb_tyenv sb) val = Inr ty" "typeOfIRExpr (sb_tyenv sb) addr = Inr tyAddr"
    "tyAddr = Ity_I32 \<or> tyAddr = Ity_I64"
  shows "\<exists>sb'. handle_wide_expr sb Iend_LE addr val guard (of_nat dsize) = Inr sb' \<and>
    grow sb (wide_shape (n_temps sb) tyAddr addr dsize guard val ty) sb'"
  using wide_parts_grow [OF assms(1,4) wide_parts_ops] assms
  by (auto simp: handle_wide_expr_def wide_shape_def Let_def)

lemma converted_grow:
  assumes ok: "sb_ok sb" and op: "typeOfPrimop op = Inr (UNARY ty Ity_I64)"
  shows "\<exists>sb' msgs. rbind (make_expr sb Ity_I64 (Iex_Unop op val)) (\<lambda>(d, sb). silently (add_store_call sb guard
      (mkIRExprVec_3 addr (mkIRExpr_HWord k) d))) = Inr (sb', msgs) \<and>
    grow sb ([Ist_WrTmp (n_temps sb) (Iex_Unop op val), store_call guard addr k (Iex_RdTmp (n_temps sb))], [Ity_I64]) sb'"
proof -
  have "typeOfIRExpr (sb_tyenv sb) (Iex_Unop op val) = Inr Ity_I64" using op by (simp add: UNARY_def)
  from make_expr_grow [OF ok this] obtain sb1 where 1: "make_expr sb Ity_I64 (Iex_Unop op val) = Inr (Iex_RdTmp (n_temps sb), sb1)"
    "grow sb ([Ist_WrTmp (n_temps sb) (Iex_Unop op val)], [Ity_I64]) sb1" by blast
  obtain sb2 where "add_store_call sb1 guard (mkIRExprVec_3 addr (mkIRExpr_HWord k) (Iex_RdTmp (n_temps sb))) = Inr sb2"
    "grow sb1 ([store_call guard addr k (Iex_RdTmp (n_temps sb))], []) sb2"
    using add_store_call_grow [OF grow_ok [OF 1(2)]] by blast
  then show ?thesis using 1(1) grow_trans [OF 1(2)] by (fastforce simp: silently_def join_def)
qed

lemma add_event_tmp_grow:
  assumes ok: "sb_ok sb" and atom: "isIRAtom addr = Inr True" and size: "1 \<le> dsize" "dsize \<le> MAX_DSIZE"
    and ty: "typeOfIRExpr (sb_tyenv sb) (Iex_RdTmp t) = Inr ty"
    and tyAddr: "typeOfIRExpr (sb_tyenv sb) addr = Inr tyAddr" "tyAddr = Ity_I32 \<or> tyAddr = Ity_I64"
  shows "\<exists>sb' msgs. add_event_dw_guarded sb addr dsize guard (Iex_RdTmp t) = Inr (sb', msgs) \<and>
    grow sb (event_shape (n_temps sb) tyAddr addr dsize guard (Iex_RdTmp t) ty) sb'"
proof -
  note wide = silently_grow [OF handle_wide_expr_grow [OF ok ty tyAddr, of guard dsize]]
  note direct = silently_grow [OF add_store_call_grow [OF ok, of guard addr "of_nat dsize" "Iex_RdTmp t"]]
  note conv = converted_grow [OF ok, of _ _ "Iex_RdTmp t" guard addr "of_nat dsize"]
  have t: "typeOfIRTemp (sb_tyenv sb) t = Inr ty" using ty by simp
  have pos: "Suc 0 \<le> dsize" using size(1) by simp
  note start = add_event_dw_guarded_def Let_def atom pos size(2) t
  consider "ty = Ity_I64" | "ty = Ity_F64" | "tmp_needs_widen ty" "ty \<noteq> Ity_I64" "ty \<noteq> Ity_F64" | "ty = Ity_V128 \<or> ty = Ity_V256"
    | "ty \<notin> {Ity_I64, Ity_F64, Ity_V128, Ity_V256}" "\<not> tmp_needs_widen ty" by blast
  then show ?thesis
  proof cases
    case 3
    then have "widen_operation sb (Iex_RdTmp t) = Inr (conv_op ty)" "typeOfPrimop (conv_op ty) = Inr (UNARY ty Ity_I64)"
      using t by (auto simp: widen_operation_def tmp_needs_widen_def)
    then show ?thesis using conv [of "conv_op ty" ty] 3 by (simp add: start)
  next
    case 4
    then have "\<not> tmp_needs_widen ty" "ty \<noteq> Ity_I64" "ty \<noteq> Ity_F64" by (auto simp: tmp_needs_widen_def)
    then show ?thesis using wide 4 by (simp add: start)
  qed (use direct conv [of Iop_ReinterpF64asI64 Ity_F64] grow_refl [OF ok] in \<open>simp_all add: start\<close>)
qed

lemma add_event_const_grow:
  assumes ok: "sb_ok sb" and atom: "isIRAtom addr = Inr True" and size: "1 \<le> dsize" "dsize \<le> MAX_DSIZE"
    and tyAddr: "typeOfIRExpr (sb_tyenv sb) addr = Inr tyAddr" "tyAddr = Ity_I32 \<or> tyAddr = Ity_I64"
  shows "\<exists>sb' msgs. add_event_dw_guarded sb addr dsize guard (Iex_Const c) = Inr (sb', msgs) \<and>
    grow sb (event_shape (n_temps sb) tyAddr addr dsize guard (Iex_Const c) (typeOfIRConst c)) sb'"
proof -
  note wide = silently_grow [OF handle_wide_expr_grow [OF ok _ tyAddr, of "Iex_Const c" "typeOfIRConst c" guard dsize]]
  note direct = silently_grow [OF add_store_call_grow [OF ok, of guard addr "of_nat dsize"]]
  have pos: "Suc 0 \<le> dsize" using size(1) by simp
  note start = add_event_dw_guarded_def Let_def atom pos size(2)
  show ?thesis
  proof (cases "const_bits c")
    case None
    then show ?thesis using wide grow_refl [OF ok] by (simp add: start const_event)
  next
    case (Some u)
    then show ?thesis using direct [of "mkIRExpr_HWord u"] by (simp add: start const_event)
  qed
qed

lemma add_event_grow:
  assumes "sb_ok sb" "isIRAtom addr = Inr True" "isIRAtom val = Inr True" "1 \<le> dsize" "dsize \<le> MAX_DSIZE"
    "typeOfIRExpr (sb_tyenv sb) val = Inr ty"
    "typeOfIRExpr (sb_tyenv sb) addr = Inr tyAddr" "tyAddr = Ity_I32 \<or> tyAddr = Ity_I64"
  shows "\<exists>sb' msgs. add_event_dw_guarded sb addr dsize guard val = Inr (sb', msgs) \<and>
    grow sb (event_shape (n_temps sb) tyAddr addr dsize guard val ty) sb'"
  using isIRAtom_cases [OF assms(3)] add_event_tmp_grow [OF assms(1,2,4,5) _ assms(7,8)]
    add_event_const_grow [OF assms(1,2,4,5,7,8)] assms(6) by (metis Inr_inject typeOfIRExpr.simps(5))

end
