(* ===== verification/PMC_Instrument_Block_Laws.thy ===== *)
theory PMC_Instrument_Block_Laws
  imports PMC_Instrument_Laws
begin

text \<open>
  The instrumentation of a whole block: on a block that passes the checker, has no double
  compare-and-swap and no temporary of invalid type, it returns, and the block that it returns is
  described statement by statement.
\<close>

section \<open>Statements\<close>

definition typeof :: "IRTypeEnv \<Rightarrow> IRExpr \<Rightarrow> IRType" where
  "typeof E e = (case typeOfIRExpr E e of Inl err \<Rightarrow> Ity_INVALID | Inr ty \<Rightarrow> ty)"

definition width :: "IRType \<Rightarrow> nat" where
  "width ty = (case sizeofIRType ty of Inl err \<Rightarrow> 0 | Inr k \<Rightarrow> k)"

lemma typeof_eq [simp]: "typeOfIRExpr E e = Inr ty \<Longrightarrow> typeof E e = ty"
  by (simp add: typeof_def)

lemma width_bounds: "ty \<noteq> Ity_INVALID \<Longrightarrow> ty \<noteq> Ity_I1 \<Longrightarrow> sizeofIRType ty = Inr (width ty) \<and> 1 \<le> width ty \<and> width ty \<le> MAX_DSIZE"
  by (cases ty) (simp_all add: width_def MAX_DSIZE_def)

lemma all_atoms_eq: "all_atoms es = Inr True \<longleftrightarrow> (\<forall>e \<in> set es. isIRAtom e = Inr True)"
  by (induction es) (auto simp: rbind_eq_Inr split: if_splits)

lemma atom_type_valid:
  "isIRAtom e = Inr True \<Longrightarrow> typeOfIRExpr E e = Inr ty \<Longrightarrow> Ity_INVALID \<notin> set (te_types E) \<Longrightarrow> ty \<noteq> Ity_INVALID"
  by (erule isIRAtom_cases) (auto simp: typeOfIRTemp_eq dest: nth_mem elim: typeOfIRConst.elims)

definition data_shape :: "nat \<Rightarrow> IRTypeEnv \<Rightarrow> IRExpr \<Rightarrow> IRExpr \<Rightarrow> IRExpr \<Rightarrow> IRStmt list \<times> IRType list" where
  "data_shape n E addr guard data =
     event_shape n (typeof E addr) addr (width (typeof E data)) guard data (typeof E data)"

definition cas_guard :: "IRTypeEnv \<Rightarrow> IRCAS \<Rightarrow> IRExpr" where
  "cas_guard E cas = Iex_Binop
     (case cas_ops (typeof E (cas_expdLo cas)) of Inl err \<Rightarrow> 0 | Inr (opCasCmpEQ, opOr, opXor) \<Rightarrow> opCasCmpEQ)
     (cas_expdLo cas) (Iex_RdTmp (cas_oldLo cas))"

fun added_shape :: "options \<Rightarrow> IRTypeEnv \<Rightarrow> nat \<Rightarrow> IRStmt \<Rightarrow> IRStmt list \<times> IRType list" where
  "added_shape opts E n (Ist_Flush addr fk) =
     (if op_automatic_isa_rec opts
      then (flush_call addr # (if fk = Ifk_flush \<and> \<not> op_weak_clflush opts then [fence_call] else []), [])
      else ([], []))"
| "added_shape opts E n (Ist_MBE ev) =
     (if op_automatic_isa_rec opts \<and> (ev = Imbe_Fence \<or> ev = Imbe_SFence) then ([fence_call], []) else ([], []))"
| "added_shape opts E n (Ist_Store en addr data) = data_shape n E addr Iex_NULL data"
| "added_shape opts E n (Ist_StoreG sg) = data_shape n E (sg_addr sg) (sg_guard sg) (sg_data sg)"
| "added_shape opts E n (Ist_CAS cas) =
     join ([Ist_WrTmp n (cas_guard E cas)], [Ity_I1]) (data_shape (Suc n) E (cas_addr cas) (Iex_RdTmp n) (cas_dataLo cas))"
| "added_shape opts E n (Ist_LLSC en result addr storedata) =
     (if storedata = Iex_NULL then ([], []) else data_shape n E addr Iex_NULL storedata)"
| "added_shape opts E n st = ([], [])"

definition kept :: "IRStmt \<Rightarrow> bool" where
  "kept st \<longleftrightarrow> st \<noteq> Ist_NULL \<and> st \<noteq> Ist_NoOp"

definition stmt_shape :: "options \<Rightarrow> IRTypeEnv \<Rightarrow> nat \<Rightarrow> IRStmt \<Rightarrow> IRStmt list \<times> IRType list" where
  "stmt_shape opts E n st = (if kept st then join ([st], []) (added_shape opts E n st) else ([], []))"

definition single_cas :: "IRStmt \<Rightarrow> bool" where
  "single_cas st = (case st of Ist_CAS cas \<Rightarrow> cas_dataHi cas = Iex_NULL | _ \<Rightarrow> True)"

lemma stored_event_grow:
  assumes ok: "sb_ok sb" and le: "env_le E (sb_tyenv sb)" and at: "isIRAtom addr = Inr True" "isIRAtom data = Inr True"
    and ty: "typeOfIRExpr E data = Inr ty" "ty \<noteq> Ity_INVALID" "ty \<noteq> Ity_I1"
    and tyA: "typeOfIRExpr E addr = Inr tyA" "tyA = Ity_I32 \<or> tyA = Ity_I64"
  shows "\<exists>sb' msgs. add_event_dw_guarded sb addr (width ty) guard data = Inr (sb', msgs) \<and>
    grow sb (data_shape (n_temps sb) E addr guard data) sb'"
  using add_event_grow [OF ok at _ _ typeOfIRExpr_mono [OF le ty(1)] typeOfIRExpr_mono [OF le tyA(1)] tyA(2)]
    width_bounds [OF ty(2,3)] ty(1) tyA(1) by (simp add: data_shape_def)

lemma instrument_store_grow:
  assumes ok: "sb_ok sb" and le: "env_le E (sb_tyenv sb)" and at: "isIRAtom addr = Inr True" "isIRAtom data = Inr True"
    and ty: "typeOfIRExpr E data = Inr ty" "ty \<noteq> Ity_INVALID" "ty \<noteq> Ity_I1"
    and tyA: "typeOfIRExpr E addr = Inr tyA" "tyA = Ity_I32 \<or> tyA = Ity_I64"
  shows "\<exists>sb' msgs. instrument_store E st addr data guard sb = Inr (sb', msgs) \<and>
    grow sb (join ([st], []) (data_shape (n_temps sb) E addr guard data)) sb'"
proof -
  obtain sb1 where 1: "addStmtToIRSB sb st = Inr sb1" "grow sb ([st], []) sb1" using addStmt_grow [OF ok] by blast
  obtain sb2 msgs where "add_event_dw_guarded sb1 addr (width ty) guard data = Inr (sb2, msgs)"
    "grow sb1 (data_shape (n_temps sb1) E addr guard data) sb2"
    using stored_event_grow [OF grow_ok [OF 1(2)] env_le_grow [OF le 1(2)] at ty tyA] by blast
  then show ?thesis using 1 ty width_bounds [OF ty(2,3)] grow_trans [OF 1(2)] grow_temps [OF 1(2)]
    by (auto simp: instrument_store_def)
qed

lemma instrument_cas_grow:
  assumes ok: "sb_ok sb" and le: "env_le E (sb_tyenv sb)" and fl: "isFlatIRStmt (Ist_CAS cas) = Inr True"
    and tc: "tcStmt E w (Ist_CAS cas) = Inr ()" and w: "w = Ity_I32 \<or> w = Ity_I64" and single: "cas_dataHi cas = Iex_NULL"
  shows "\<exists>sb' msgs. instrument_cas E cas sb = Inr (sb', msgs) \<and>
    grow sb (join ([Ist_CAS cas], []) (added_shape opts E (n_temps sb) (Ist_CAS cas))) sb'"
proof -
  obtain ty where ty: "typeOfIRExpr E (cas_expdLo cas) = Inr ty" "typeOfIRExpr E (cas_dataLo cas) = Inr ty"
    "ty \<in> {Ity_I8, Ity_I16, Ity_I32, Ity_I64}" "typeOfIRExpr E (cas_addr cas) = Inr w"
    using tc by (auto simp: tcCAS_def check_eq_Inr Let_def split: if_splits)
  have at: "isIRAtom (cas_addr cas) = Inr True" "isIRAtom (cas_dataLo cas) = Inr True"
    using fl by (auto simp: all_atoms_eq isIRAtom_or_NULL_def simp del: all_atoms.simps split: if_splits)
  obtain eq ors xor where ops: "cas_ops ty = Inr (eq, ors, xor)" "typeOfPrimop eq = Inr (COMPARISON ty)" using ty(3) by auto
  have valid: "ty \<noteq> Ity_INVALID" "ty \<noteq> Ity_I1" using ty(3) by auto
  have nn: "cas_addr cas \<noteq> Iex_NULL" "cas_dataLo cas \<noteq> Iex_NULL" using at by auto
  obtain sb1 where 1: "addStmtToIRSB sb (Ist_CAS cas) = Inr sb1" "grow sb ([Ist_CAS cas], []) sb1" using addStmt_grow [OF ok] by blast
  have n1: "n_temps sb1 = n_temps sb" using grow_temps [OF 1(2)] by simp
  let ?g = "Iex_Binop eq (cas_expdLo cas) (Iex_RdTmp (cas_oldLo cas))"
  have "typeOfIRExpr (sb_tyenv sb1) ?g = Inr Ity_I1" using ops(2) by (simp add: COMPARISON_def BINARY_def)
  from make_expr_grow [OF grow_ok [OF 1(2)] this] obtain sb2 where 2: "make_expr sb1 Ity_I1 ?g = Inr (Iex_RdTmp (n_temps sb), sb2)"
    "grow sb1 ([Ist_WrTmp (n_temps sb) ?g], [Ity_I1]) sb2" by (auto simp: n1)
  have n2: "n_temps sb2 = Suc (n_temps sb)" using grow_temps [OF 2(2)] n1 by simp
  obtain sb3 msgs where 3: "add_event_dw_guarded sb2 (cas_addr cas) (width ty) (Iex_RdTmp (n_temps sb)) (cas_dataLo cas) = Inr (sb3, msgs)"
    "grow sb2 (data_shape (Suc (n_temps sb)) E (cas_addr cas) (Iex_RdTmp (n_temps sb)) (cas_dataLo cas)) sb3"
    using stored_event_grow [OF grow_ok [OF 2(2)] env_le_grow [OF env_le_grow [OF le 1(2)] 2(2)] at ty(2) valid ty(4) w, of "Iex_RdTmp (n_temps sb)"]
    by (auto simp: n2)
  have "instrument_cas E cas sb = Inr (sb3, msgs)"
    using nn ty ops 1(1) 2(1) 3(1) single width_bounds [of ty] by (auto simp: instrument_cas_def)
  moreover have "cas_guard E cas = ?g" using ty(1) ops(1) by (simp add: cas_guard_def)
  ultimately show ?thesis using grow_trans [OF grow_trans [OF 1(2) 2(2)] 3(2)] by (simp add: join_def)
qed

lemma copied_grow:
  assumes "sb_ok sb" "kept st" "added_shape opts E (n_temps sb) st = ([], [])" "instrument_stmt opts E st sb = silently (addStmtToIRSB sb st)"
  shows "\<exists>sb' msgs. instrument_stmt opts E st sb = Inr (sb', msgs) \<and> grow sb (stmt_shape opts E (n_temps sb) st) sb'"
  using silently_grow [OF addStmt_grow [OF assms(1), of st]] assms(2-4) by (simp add: stmt_shape_def join_def)

lemma instrument_stmt_grow:
  assumes ok: "sb_ok sb" and le: "env_le E (sb_tyenv sb)" and fl: "isFlatIRStmt st = Inr True" and tc: "tcStmt E w st = Inr ()"
    and w: "w = Ity_I32 \<or> w = Ity_I64" and valid: "Ity_INVALID \<notin> set (te_types E)" and single: "single_cas st"
  shows "\<exists>sb' msgs. instrument_stmt opts E st sb = Inr (sb', msgs) \<and> grow sb (stmt_shape opts E (n_temps sb) st) sb'"
proof (cases st)
  case (Ist_Store en addr data)
  have at: "isIRAtom addr = Inr True" "isIRAtom data = Inr True" using fl Ist_Store by (auto simp: all_atoms_eq simp del: all_atoms.simps)
  obtain ty where "typeOfIRExpr E data = Inr ty" "ty \<noteq> Ity_I1" "typeOfIRExpr E addr = Inr w"
    using tc Ist_Store by (auto simp: check_eq_Inr)
  then show ?thesis using instrument_store_grow [OF ok le at] atom_type_valid [OF at(2) _ valid] w
    by (simp add: Ist_Store stmt_shape_def kept_def)
next
  case (Ist_StoreG sg)
  have at: "isIRAtom (sg_addr sg) = Inr True" "isIRAtom (sg_data sg) = Inr True"
    using fl Ist_StoreG by (auto simp: all_atoms_eq simp del: all_atoms.simps)
  obtain ty where "typeOfIRExpr E (sg_data sg) = Inr ty" "ty \<noteq> Ity_I1" "typeOfIRExpr E (sg_addr sg) = Inr w"
    using tc Ist_StoreG by (auto simp: check_eq_Inr)
  then show ?thesis using instrument_store_grow [OF ok le at] atom_type_valid [OF at(2) _ valid] w
    by (simp add: Ist_StoreG stmt_shape_def kept_def)
next
  case (Ist_CAS cas)
  have "cas_dataHi cas = Iex_NULL" using single by (simp add: Ist_CAS single_cas_def)
  from instrument_cas_grow [OF ok le fl [unfolded Ist_CAS] tc [unfolded Ist_CAS] w this, of opts] show ?thesis
    by (simp add: Ist_CAS stmt_shape_def kept_def)
next
  case (Ist_LLSC en result addr data)
  obtain sb1 where 1: "addStmtToIRSB sb st = Inr sb1" "grow sb ([st], []) sb1" using addStmt_grow [OF ok] by blast
  show ?thesis
  proof (cases "data = Iex_NULL")
    case True
    then show ?thesis using 1 Ist_LLSC by (simp add: stmt_shape_def kept_def join_def)
  next
    case False
    then have at: "isIRAtom addr = Inr True" "isIRAtom data = Inr True"
      using fl Ist_LLSC by (auto simp: all_atoms_eq isIRAtom_or_NULL_def simp del: all_atoms.simps)
    obtain ty where ty: "typeOfIRExpr E data = Inr ty" "ty \<noteq> Ity_I1" "ty \<noteq> Ity_INVALID" "typeOfIRExpr E addr = Inr w"
      using tc Ist_LLSC False by (auto simp: check_eq_Inr tcLLSC_def)
    obtain sb2 msgs where "add_event_dw_guarded sb1 addr (width ty) Iex_NULL data = Inr (sb2, msgs)"
      "grow sb1 (data_shape (n_temps sb) E addr Iex_NULL data) sb2"
      using stored_event_grow [OF grow_ok [OF 1(2)] env_le_grow [OF le 1(2)] at ty(1,3,2,4) w, of Iex_NULL] grow_temps [OF 1(2)] by auto
    then show ?thesis using 1 False ty width_bounds [OF ty(3,2)] grow_trans [OF 1(2)] Ist_LLSC
      by (auto simp: stmt_shape_def kept_def add_event_dw_def)
  qed
next
  case (Ist_Flush addr fk)
  obtain sb1 where 1: "addStmtToIRSB sb st = Inr sb1" "grow sb ([st], []) sb1" using addStmt_grow [OF ok] by blast
  have at: "isIRAtom addr = Inr True" using fl Ist_Flush by simp
  obtain sb2 where 2: "add_flush_event sb1 addr = Inr sb2" "grow sb1 ([flush_call addr], []) sb2"
    using add_flush_event_grow [OF grow_ok [OF 1(2)] at] by blast
  obtain sb3 where 3: "add_simple_event sb2 ''do_fence'' ''do_fence'' = Inr sb3" "grow sb2 ([fence_call], []) sb3"
    using add_simple_event_grow [OF grow_ok [OF 2(2)]] by blast
  have ty: "typeOfIRExpr E addr = Inr w" "w \<noteq> Ity_INVALID" using tc w Ist_Flush by (auto simp: check_eq_Inr)
  show ?thesis
    using 1 2 3 ty grow_trans [OF 1(2) 2(2)] grow_trans [OF grow_trans [OF 1(2) 2(2)] 3(2)] Ist_Flush
    by (auto simp: silently_def stmt_shape_def kept_def join_def)
next
  case (Ist_MBE ev)
  obtain sb1 where 1: "addStmtToIRSB sb st = Inr sb1" "grow sb ([st], []) sb1" using addStmt_grow [OF ok] by blast
  obtain sb2 where 2: "add_simple_event sb1 ''do_fence'' ''do_fence'' = Inr sb2" "grow sb1 ([fence_call], []) sb2"
    using add_simple_event_grow [OF grow_ok [OF 1(2)]] by blast
  show ?thesis using 1 2 grow_trans [OF 1(2) 2(2)] Ist_MBE by (auto simp: silently_def stmt_shape_def kept_def join_def)
qed (use grow_refl [OF ok] copied_grow [OF ok, of st opts E] in \<open>simp_all add: stmt_shape_def kept_def\<close>)

section \<open>Blocks\<close>

fun body_shape :: "options \<Rightarrow> IRTypeEnv \<Rightarrow> nat \<Rightarrow> IRStmt list \<Rightarrow> IRStmt list \<times> IRType list" where
  "body_shape opts E n [] = ([], [])"
| "body_shape opts E n (st # sts) =
     (let new = stmt_shape opts E n st in join new (body_shape opts E (n + length (snd new)) sts))"

definition is_mark :: "IRStmt \<Rightarrow> bool" where
  "is_mark st = (case st of Ist_IMark addr len delta \<Rightarrow> True | _ \<Rightarrow> False)"

definition preamble :: "IRStmt list \<Rightarrow> IRStmt list" where
  "preamble sts = takeWhile (\<lambda>st. \<not> is_mark st) sts"

definition marked :: "IRStmt list \<Rightarrow> IRStmt list" where
  "marked sts = dropWhile (\<lambda>st. \<not> is_mark st) sts"

definition instrumented :: "options \<Rightarrow> IRSB \<Rightarrow> IRStmt list \<times> IRType list" where
  "instrumented opts bb = (let body = body_shape opts (sb_tyenv bb) (n_temps bb) (marked (sb_stmts bb))
     in (preamble (sb_stmts bb) @ entered_call # fst body, snd body))"

text \<open>What the instrumentation needs of a block beyond the checks of the core.\<close>

definition traceable :: "IRSB \<Rightarrow> bool" where
  "traceable bb \<longleftrightarrow> list_all single_cas (sb_stmts bb) \<and> Ity_INVALID \<notin> set (te_types (sb_tyenv bb)) \<and>
     length (te_types (sb_tyenv bb)) \<le> te_types_size (sb_tyenv bb)"

lemma copy_preamble_next:
  "Ist_NULL \<noteq> st \<Longrightarrow> \<not> is_mark st \<Longrightarrow> copy_preamble (st # sts) sb = rbind (addStmtToIRSB sb st) (copy_preamble sts)"
  "is_mark st \<Longrightarrow> copy_preamble (st # sts) sb = Inr (st # sts, sb)"
  by (cases st; simp add: is_mark_def)+

lemma copy_preamble_grow:
  "sb_ok sb \<Longrightarrow> Ist_NULL \<notin> set sts \<Longrightarrow>
   \<exists>sb'. copy_preamble sts sb = Inr (marked sts, sb') \<and> grow sb (preamble sts, []) sb'"
proof (induction sts arbitrary: sb)
  case Nil
  then show ?case by (simp add: marked_def preamble_def grow_refl)
next
  case (Cons st sts)
  show ?case
  proof (cases "is_mark st")
    case True
    then show ?thesis using Cons.prems(1) by (simp add: copy_preamble_next marked_def preamble_def grow_refl)
  next
    case False
    obtain sb1 where 1: "addStmtToIRSB sb st = Inr sb1" "grow sb ([st], []) sb1" using addStmt_grow [OF Cons.prems(1)] by blast
    obtain sb2 where "copy_preamble sts sb1 = Inr (marked sts, sb2)" "grow sb1 (preamble sts, []) sb2"
      using Cons.IH [OF grow_ok [OF 1(2)]] Cons.prems(2) by auto
    then show ?thesis using False Cons.prems(2) 1(1) grow_trans [OF 1(2), of "(preamble sts, [])" sb2]
      by (simp add: copy_preamble_next marked_def preamble_def join_def)
  qed
qed

lemma instrument_body_grow:
  assumes "sb_ok sb" "env_le E (sb_tyenv sb)" "w = Ity_I32 \<or> w = Ity_I64" "Ity_INVALID \<notin> set (te_types E)"
    "check_flat sts = Inr ()" "check_types E w sts = Inr ()" "list_all single_cas sts"
  shows "\<exists>sb' msgs'. foldM (instrument_next opts E) sts (sb, msgs) = Inr (sb', msgs') \<and> grow sb (body_shape opts E (n_temps sb) sts) sb'"
  using assms
proof (induction sts arbitrary: sb msgs)
  case Nil
  then show ?case by (simp add: grow_refl)
next
  case (Cons st sts)
  have st: "isFlatIRStmt st = Inr True" "tcStmt E w st = Inr ()" "single_cas st"
    and sts: "check_flat sts = Inr ()" "check_types E w sts = Inr ()" "list_all single_cas sts"
    using Cons.prems by (auto simp: check_eq_Inr)
  obtain sb1 more where 1: "instrument_stmt opts E st sb = Inr (sb1, more)" "grow sb (stmt_shape opts E (n_temps sb) st) sb1"
    using instrument_stmt_grow [OF Cons.prems(1,2) st(1,2) Cons.prems(3,4) st(3)] by blast
  obtain sb2 msgs' where 2: "foldM (instrument_next opts E) sts (sb1, msgs @ more) = Inr (sb2, msgs')"
    "grow sb1 (body_shape opts E (n_temps sb1) sts) sb2"
    using Cons.IH [OF grow_ok [OF 1(2)] env_le_grow [OF Cons.prems(2) 1(2)] Cons.prems(3,4) sts] by blast
  have "instrument_next opts E st (sb, msgs) = Inr (sb1, msgs @ more)" using 1(1) by (simp add: instrument_next_def)
  then show ?case using 2(1) grow_trans [OF 1(2) 2(2)] by (simp add: Let_def grow_temps [OF 1(2)])
qed

lemma sanity_parts:
  assumes "sanityCheckIRSB bb True w = Inr ()"
  obtains ds where "w = Ity_I32 \<or> w = Ity_I64" "8 \<le> sb_stmts_size bb" "length (sb_stmts bb) \<le> sb_stmts_size bb"
    "check_flat (sb_stmts bb) = Inr ()" "isIRAtom (sb_next bb) = Inr True" "check_defs bb (sb_stmts bb) (\<lambda>tmp. 0) = Inr ds"
    "check_types (sb_tyenv bb) w (sb_stmts bb) = Inr ()" "typeOfIRExpr (sb_tyenv bb) (sb_next bb) = Inr w" "16 \<le> sb_offsIP bb"
  using assms by (auto simp: sanityCheckIRSB_def check_eq_Inr)

lemma check_flat_not_NULL: "check_flat sts = Inr () \<Longrightarrow> Ist_NULL \<notin> set sts"
  by (induction sts) (auto simp: check_eq_Inr)

lemma atom_copy: "isIRAtom e = Inr True \<Longrightarrow> typeOfIRExpr E e = Inr ty \<Longrightarrow> ty \<noteq> Ity_I1 \<Longrightarrow> deepCopyIRExpr e = Inr e"
  by (erule isIRAtom_cases) (auto elim!: typeOfIRConst.elims [OF sym])

lemma split_marked: "preamble sts @ marked sts = sts"
  by (simp add: preamble_def marked_def)

text \<open>The start of the translation: the copy of the preamble and the count of the block.\<close>

lemma instrument_start:
  assumes sane: "sanityCheckIRSB bb True w = Inr ()" and room: "length (te_types (sb_tyenv bb)) \<le> te_types_size (sb_tyenv bb)"
  obtains sb where "pmc_instrument opts bb w w = foldM (instrument_next opts (sb_tyenv bb)) (marked (sb_stmts bb)) (sb, [])"
    "sb_ok sb" "sb_stmts sb = preamble (sb_stmts bb) @ [entered_call]" "te_types (sb_tyenv sb) = te_types (sb_tyenv bb)"
    "sb_next sb = sb_next bb" "sb_jumpkind sb = sb_jumpkind bb" "sb_offsIP sb = sb_offsIP bb"
proof -
  obtain ds where p: "w = Ity_I32 \<or> w = Ity_I64" "check_flat (sb_stmts bb) = Inr ()" "isIRAtom (sb_next bb) = Inr True"
    "typeOfIRExpr (sb_tyenv bb) (sb_next bb) = Inr w" by (rule sanity_parts [OF sane]) blast
  let ?sb0 = "emptyIRSB\<lparr>sb_tyenv := deepCopyIRTypeEnv (sb_tyenv bb), sb_next := sb_next bb,
    sb_jumpkind := sb_jumpkind bb, sb_offsIP := sb_offsIP bb\<rparr>"
  have "deepCopyIRExpr (sb_next bb) = Inr (sb_next bb)" using atom_copy [OF p(3,4)] p(1) by auto
  then have 0: "deepCopyIRSBExceptStmts bb = Inr ?sb0" by (simp add: deepCopyIRSBExceptStmts_def)
  have ok0: "sb_ok ?sb0" using room by (simp add: sb_ok_def emptyIRSB_def deepCopyIRTypeEnv_def)
  obtain sb1 where 1: "copy_preamble (sb_stmts bb) ?sb0 = Inr (marked (sb_stmts bb), sb1)" "grow ?sb0 (preamble (sb_stmts bb), []) sb1"
    using copy_preamble_grow [OF ok0 check_flat_not_NULL [OF p(2)]] by blast
  obtain di where di: "unsafeIRDirty_0_N 0 (Some ''add_one_SB_entered'') (Some ''add_one_SB_entered'') [] = Inr di"
    "Ist_Dirty di = entered_call" using dirty_tool_call [of 0 "''add_one_SB_entered''" "[]" Iex_NULL] by auto
  obtain sb2 where 2: "addStmtToIRSB sb1 entered_call = Inr sb2" "grow sb1 ([entered_call], []) sb2"
    using addStmt_grow [OF grow_ok [OF 1(2)]] by blast
  have "pmc_instrument opts bb w w = foldM (instrument_next opts (sb_tyenv bb)) (marked (sb_stmts bb)) (sb2, [])"
    using 0 1(1) di 2(1) by (simp add: pmc_instrument_def mkIRExprVec_0_def)
  then show ?thesis using that grow_trans [OF 1(2) 2(2)] by (simp add: grow_def emptyIRSB_def deepCopyIRTypeEnv_def)
qed

text \<open>The statements of the rest of the block pass the checks, as those of the whole block do.\<close>

lemma marked_checks:
  assumes "sanityCheckIRSB bb True w = Inr ()"
  shows "w = Ity_I32 \<or> w = Ity_I64" "check_flat (marked (sb_stmts bb)) = Inr ()" "check_types (sb_tyenv bb) w (marked (sb_stmts bb)) = Inr ()"
    "check_flat (preamble (sb_stmts bb)) = Inr ()" "check_types (sb_tyenv bb) w (preamble (sb_stmts bb)) = Inr ()"
  using assms check_flat_append [of "preamble (sb_stmts bb)" "marked (sb_stmts bb)"]
    check_types_append [of _ _ "preamble (sb_stmts bb)" "marked (sb_stmts bb)"]
  by (auto simp: split_marked elim!: sanity_parts)

theorem pmc_instrument_grow:
  assumes sane: "sanityCheckIRSB bb True w = Inr ()" and tr: "traceable bb"
  shows "\<exists>out msgs. pmc_instrument opts bb w w = Inr (out, msgs) \<and> sb_ok out \<and> sb_stmts out = fst (instrumented opts bb) \<and>
    te_types (sb_tyenv out) = te_types (sb_tyenv bb) @ snd (instrumented opts bb) \<and>
    sb_next out = sb_next bb \<and> sb_jumpkind out = sb_jumpkind bb \<and> sb_offsIP out = sb_offsIP bb"
proof -
  have tr': "length (te_types (sb_tyenv bb)) \<le> te_types_size (sb_tyenv bb)" "Ity_INVALID \<notin> set (te_types (sb_tyenv bb))"
    "list_all single_cas (marked (sb_stmts bb))"
    using tr split_marked [of "sb_stmts bb"] by (auto simp: traceable_def) (metis list_all_append)
  obtain sb where sb: "pmc_instrument opts bb w w = foldM (instrument_next opts (sb_tyenv bb)) (marked (sb_stmts bb)) (sb, [])"
    "sb_ok sb" "sb_stmts sb = preamble (sb_stmts bb) @ [entered_call]" "te_types (sb_tyenv sb) = te_types (sb_tyenv bb)"
    "sb_next sb = sb_next bb" "sb_jumpkind sb = sb_jumpkind bb" "sb_offsIP sb = sb_offsIP bb"
    by (rule instrument_start [OF sane tr'(1)])
  have le: "env_le (sb_tyenv bb) (sb_tyenv sb)" and n: "n_temps sb = n_temps bb" using sb(4) by (simp_all add: env_le_def n_temps_def)
  obtain out msgs where "foldM (instrument_next opts (sb_tyenv bb)) (marked (sb_stmts bb)) (sb, []) = Inr (out, msgs)"
    "grow sb (body_shape opts (sb_tyenv bb) (n_temps bb) (marked (sb_stmts bb))) out"
    using instrument_body_grow [OF sb(2) le marked_checks(1) [OF sane] tr'(2) marked_checks(2,3) [OF sane] tr'(3), of opts "[]"]
    unfolding n by blast
  then show ?thesis using sb by (simp add: grow_def instrumented_def Let_def)
qed

end
