(* ===== verification/VEX_Run.thy ===== *)
theory VEX_Run
  imports PMC_Instrument_Block_Laws
begin

text \<open>
  Runs of a block.  Temporaries are assigned once, so a run of a block is given by the values of its
  temporaries: a bit pattern for each.  The values of the operations that the tool uses are what
  \<open>VEX/pub/libvex_ir.h\<close> says of them; an assignment by any other expression may give any value.  A run
  ends at the first side exit whose guard holds.  What counts of a run here are the calls of C helpers it
  makes.
\<close>

section \<open>Values\<close>

type_synonym valuation = "IRTemp \<Rightarrow> nat"

text \<open>In a vector constant each bit stands for a byte of eight such bits.\<close>

definition lanes :: "nat \<Rightarrow> nat \<Rightarrow> nat" where
  "lanes n u = sum_list (map (\<lambda>i. if odd (u div 2 ^ i) then 0xFF * 2 ^ (8 * i) else 0) [0 ..< n])"

fun const_value :: "IRConst \<Rightarrow> nat" where
  "const_value (Ico_U1 u) = unat u"
| "const_value (Ico_U8 u) = unat u"
| "const_value (Ico_U16 u) = unat u"
| "const_value (Ico_U32 u) = unat u"
| "const_value (Ico_U64 u) = unat u"
| "const_value (Ico_F32 u) = unat u"
| "const_value (Ico_F32i u) = unat u"
| "const_value (Ico_F64 u) = unat u"
| "const_value (Ico_F64i u) = unat u"
| "const_value (Ico_V128 u) = lanes 16 (unat u)"
| "const_value (Ico_V256 u) = lanes 32 (unat u)"

fun atom_value :: "valuation \<Rightarrow> IRExpr \<Rightarrow> nat" where
  "atom_value \<rho> (Iex_RdTmp t) = \<rho> t"
| "atom_value \<rho> (Iex_Const c) = const_value c"
| "atom_value \<rho> e = 0"

definition unop_value :: "IROp \<Rightarrow> nat \<Rightarrow> nat option" where
  "unop_value op v =
     (if op = Iop_1Uto64 then Some (v mod 2)
      else if op = Iop_8Uto64 then Some (v mod 2 ^ 8)
      else if op = Iop_16Uto64 then Some (v mod 2 ^ 16)
      else if op = Iop_32Uto64 then Some (v mod 2 ^ 32)
      else if op = Iop_ReinterpF64asI64 \<or> op = Iop_V128to64 \<or> op = Iop_V256to64_0 then Some (v mod 2 ^ 64)
      else if op = Iop_V128HIto64 \<or> op = Iop_V256to64_1 then Some (v div 2 ^ 64 mod 2 ^ 64)
      else if op = Iop_V256to64_2 then Some (v div 2 ^ 128 mod 2 ^ 64)
      else if op = Iop_V256to64_3 then Some (v div 2 ^ 192 mod 2 ^ 64)
      else None)"

definition binop_value :: "IROp \<Rightarrow> nat \<Rightarrow> nat \<Rightarrow> nat option" where
  "binop_value op u v =
     (if op = Iop_Add32 then Some ((u + v) mod 2 ^ 32)
      else if op = Iop_Add64 then Some ((u + v) mod 2 ^ 64)
      else if op = Iop_CasCmpEQ8 then Some (if u mod 2 ^ 8 = v mod 2 ^ 8 then 1 else 0)
      else if op = Iop_CasCmpEQ16 then Some (if u mod 2 ^ 16 = v mod 2 ^ 16 then 1 else 0)
      else if op = Iop_CasCmpEQ32 then Some (if u mod 2 ^ 32 = v mod 2 ^ 32 then 1 else 0)
      else if op = Iop_CasCmpEQ64 then Some (if u mod 2 ^ 64 = v mod 2 ^ 64 then 1 else 0)
      else None)"

fun rhs_value :: "valuation \<Rightarrow> IRExpr \<Rightarrow> nat option" where
  "rhs_value \<rho> (Iex_RdTmp t) = Some (\<rho> t)"
| "rhs_value \<rho> (Iex_Const c) = Some (const_value c)"
| "rhs_value \<rho> (Iex_Unop op a) = unop_value op (atom_value \<rho> a)"
| "rhs_value \<rho> (Iex_Binop op a b) = binop_value op (atom_value \<rho> a) (atom_value \<rho> b)"
| "rhs_value \<rho> e = None"

text \<open>The valuation agrees with an assignment.\<close>

fun assigns :: "valuation \<Rightarrow> IRStmt \<Rightarrow> bool" where
  "assigns \<rho> (Ist_WrTmp t e) = (rhs_value \<rho> e \<in> {None, Some (\<rho> t)})"
| "assigns \<rho> st = True"

text \<open>Bits of a type; the temporaries of a block hold values of their types.\<close>

definition bits :: "IRType \<Rightarrow> nat" where
  "bits ty = (if ty = Ity_I1 then 1 else 8 * width ty)"

definition well_typed :: "IRTypeEnv \<Rightarrow> valuation \<Rightarrow> bool" where
  "well_typed E \<rho> \<longleftrightarrow> (\<forall>t < length (te_types E). \<rho> t < 2 ^ bits (te_types E ! t))"

section \<open>Runs\<close>

fun exits :: "valuation \<Rightarrow> IRStmt \<Rightarrow> bool" where
  "exits \<rho> (Ist_Exit guard dst jk offsIP) = (atom_value \<rho> guard \<noteq> 0)"
| "exits \<rho> st = False"

fun executed :: "valuation \<Rightarrow> IRStmt list \<Rightarrow> IRStmt list" where
  "executed \<rho> [] = []"
| "executed \<rho> (st # sts) = st # (if exits \<rho> st then [] else executed \<rho> sts)"

type_synonym call = "string \<times> nat list"

fun stmt_calls :: "valuation \<Rightarrow> IRStmt \<Rightarrow> call list" where
  "stmt_calls \<rho> (Ist_Dirty d) =
     (if atom_value \<rho> (di_guard d) = 0 then []
      else case di_cee d of
          Some cee \<Rightarrow> (case ce_addr cee of Some f \<Rightarrow> [(f, map (atom_value \<rho>) (di_args d))] | None \<Rightarrow> [])
        | None \<Rightarrow> [])"
| "stmt_calls \<rho> st = []"

definition run_calls :: "valuation \<Rightarrow> IRStmt list \<Rightarrow> call list" where
  "run_calls \<rho> sts = concat (map (stmt_calls \<rho>) (executed \<rho> sts))"

text \<open>A run of a block: its values have the types of the temporaries and agree with the assignments that
  are executed.\<close>

definition is_run :: "IRSB \<Rightarrow> valuation \<Rightarrow> bool" where
  "is_run bb \<rho> \<longleftrightarrow> well_typed (sb_tyenv bb) \<rho> \<and> list_all (assigns \<rho>) (executed \<rho> (sb_stmts bb))"

lemma executed_append:
  "executed \<rho> (xs @ ys) = executed \<rho> xs @ (if list_ex (exits \<rho>) xs then [] else executed \<rho> ys)"
  by (induction xs) auto

lemma executed_no_exit: "\<not> list_ex (exits \<rho>) xs \<Longrightarrow> executed \<rho> xs = xs"
  by (induction xs) auto

end
