(* ===== verification/VEX_Effects.thy ===== *)
theory VEX_Effects
  imports VEX_Run
begin

text \<open>
  What a block of intermediate code does to memory, as \<open>VEX/pub/libvex_ir.h\<close> defines its statements, independently of
  the tool: the bytes that are written, with their values, the cache lines that are written back, and the fences.
\<close>

section \<open>Effects\<close>

text \<open>A byte written at an address (\<open>None\<close>: the block does not tell the value), the cache line of an address written back,
  and a fence for stores.\<close>

datatype effect = Eff_Byte uword "nat option" | Eff_Line uword | Eff_Fence

definition byte_at :: "nat \<Rightarrow> nat \<Rightarrow> nat" where
  "byte_at v i = v div 2 ^ (8 * i) mod 2 ^ 8"

text \<open>A value of \<open>k\<close> bytes in memory, from the lowest address on.\<close>

definition value_effects :: "IREndness \<Rightarrow> uword \<Rightarrow> nat \<Rightarrow> nat \<Rightarrow> effect list" where
  "value_effects en a k v =
     map (\<lambda>i. Eff_Byte (a + of_nat i) (Some (byte_at v (if en = Iend_LE then i else k - 1 - i)))) [0 ..< k]"

definition data_effects :: "IREndness \<Rightarrow> valuation \<Rightarrow> IRTypeEnv \<Rightarrow> uword \<Rightarrow> IRExpr \<Rightarrow> effect list" where
  "data_effects en \<rho> E a data = value_effects en a (width (typeof E data)) (atom_value \<rho> data)"

text \<open>A double compare-and-swap has the low half at the lower address in little-endian order, at the higher one otherwise.\<close>

definition cas_effects :: "valuation \<Rightarrow> IRTypeEnv \<Rightarrow> IRCAS \<Rightarrow> effect list" where
  "cas_effects \<rho> E cas =
     (let a = of_nat (atom_value \<rho> (cas_addr cas)); b = a + of_nat (width (typeof E (cas_dataLo cas)));
          half = data_effects (cas_end cas) \<rho> E
      in if cas_dataHi cas = Iex_NULL then half a (cas_dataLo cas)
         else if cas_end cas = Iend_LE then half a (cas_dataLo cas) @ half b (cas_dataHi cas)
         else half a (cas_dataHi cas) @ half b (cas_dataLo cas))"

definition cas_succeeds :: "valuation \<Rightarrow> IRCAS \<Rightarrow> bool" where
  "cas_succeeds \<rho> cas \<longleftrightarrow> atom_value \<rho> (cas_expdLo cas) = \<rho> (cas_oldLo cas) \<and>
     (cas_dataHi cas \<noteq> Iex_NULL \<longrightarrow> atom_value \<rho> (cas_expdHi cas) = \<rho> (cas_oldHi cas))"

text \<open>A store-conditional writes 1 to its result when it stores.  A helper writes the range that it declares.  \<open>CLFLUSH\<close> is
  ordered with the stores around it, unless \<open>weak\<close> says that it is not to be relied on.\<close>

fun stmt_effects :: "bool \<Rightarrow> valuation \<Rightarrow> IRTypeEnv \<Rightarrow> IRStmt \<Rightarrow> effect list" where
  "stmt_effects weak \<rho> E (Ist_Store en addr data) = data_effects en \<rho> E (of_nat (atom_value \<rho> addr)) data"
| "stmt_effects weak \<rho> E (Ist_StoreG sg) =
     (if atom_value \<rho> (sg_guard sg) = 0 then []
      else data_effects (sg_end sg) \<rho> E (of_nat (atom_value \<rho> (sg_addr sg))) (sg_data sg))"
| "stmt_effects weak \<rho> E (Ist_CAS cas) = (if cas_succeeds \<rho> cas then cas_effects \<rho> E cas else [])"
| "stmt_effects weak \<rho> E (Ist_LLSC en result addr storedata) =
     (if storedata = Iex_NULL \<or> \<rho> result = 0 then [] else data_effects en \<rho> E (of_nat (atom_value \<rho> addr)) storedata)"
| "stmt_effects weak \<rho> E (Ist_Dirty d) =
     (if atom_value \<rho> (di_guard d) \<noteq> 0 \<and> (di_mFx d = Ifx_Write \<or> di_mFx d = Ifx_Modify)
      then map (\<lambda>i. Eff_Byte (of_nat (atom_value \<rho> (di_mAddr d)) + of_nat i) None) [0 ..< nat (di_mSize d)] else [])"
| "stmt_effects weak \<rho> E (Ist_Flush addr fk) =
     Eff_Line (of_nat (atom_value \<rho> addr)) # (if fk = Ifk_flush \<and> \<not> weak then [Eff_Fence] else [])"
| "stmt_effects weak \<rho> E (Ist_MBE ev) = (if ev = Imbe_Fence \<or> ev = Imbe_SFence then [Eff_Fence] else [])"
| "stmt_effects weak \<rho> E st = []"

definition block_effects :: "bool \<Rightarrow> IRSB \<Rightarrow> valuation \<Rightarrow> effect list" where
  "block_effects weak bb \<rho> = concat (map (stmt_effects weak \<rho> (sb_tyenv bb)) (executed \<rho> (sb_stmts bb)))"

definition runs_effects :: "bool \<Rightarrow> (IRSB \<times> valuation) list \<Rightarrow> effect list" where
  "runs_effects weak runs = concat (map (\<lambda>(bb, \<rho>). block_effects weak bb \<rho>) runs)"

section \<open>Bytes of values\<close>

lemma byte_at_bits: "byte_at v i = take_bit 8 (drop_bit (8 * i) v)"
  by (simp add: byte_at_def take_bit_eq_mod drop_bit_eq_div)

lemma byte_at_word: "i < 8 \<Longrightarrow> byte_at (unat (of_nat v :: uword)) i = byte_at v i"
  by (simp add: byte_at_bits unsigned_of_nat drop_bit_take_bit min.absorb1)

lemma byte_at_div: "byte_at (v div 2 ^ (8 * j)) i = byte_at v (j + i)"
  by (simp add: byte_at_def div_mult2_eq power_add distrib_left)

lemma value_effects_word: "k \<le> 8 \<Longrightarrow> value_effects Iend_LE a k (unat (of_nat v :: uword)) = value_effects Iend_LE a k v"
  by (auto simp: value_effects_def byte_at_word)

lemma value_effects_append:
  "value_effects Iend_LE a (j + k) v = value_effects Iend_LE a j v @ value_effects Iend_LE (a + of_nat j) k (v div 2 ^ (8 * j))"
proof -
  have "[0 ..< j + k] = [0 ..< j] @ map (\<lambda>i. i + j) [0 ..< k]" using upt_add_eq_append [of 0 j k] map_add_upt [of j k] by (simp add: add.commute)
  then show ?thesis by (simp add: value_effects_def byte_at_div add.assoc add.commute)
qed

text \<open>Where a byte is written, without its value.\<close>

fun place :: "effect \<Rightarrow> effect" where
  "place (Eff_Byte a v) = Eff_Byte a None"
| "place e = e"

lemma place_value: "map place (value_effects en a k v) = map (\<lambda>i. Eff_Byte (a + of_nat i) None) [0 ..< k]"
  by (simp add: value_effects_def)

end
