(* ===== verification/PMC_Trace.thy ===== *)
theory PMC_Trace
  imports VEX_Run PMC_Init_Laws
begin

text \<open>
  From the instrumented code to the handlers of the tool: which accesses a run of an instrumented block reports to the
  tool, computed from the statements of the client with all that the tracing leaves out or changes.  How these reports
  relate to what the client does to memory is the matter of \<open>PMC_Effect_Laws\<close>.
\<close>

section \<open>Calls of the handlers\<close>

definition handlers :: "string list" where
  "handlers = [''trace_pmem_store'', ''trace_pmem_flush'', ''do_fence'', ''add_one_SB_entered'']"

text \<open>The access that a call reports; a flush covers a line of the configured size.\<close>

definition call_accesses :: "uword \<Rightarrow> call \<Rightarrow> access list" where
  "call_accesses line = (\<lambda>(f, vs).
     if f = ''trace_pmem_store'' then (case vs of [a, k, v] \<Rightarrow> [Store (of_nat a) (of_nat k) (of_nat v)] | _ \<Rightarrow> [])
     else if f = ''trace_pmem_flush'' then (case vs of [a] \<Rightarrow> [Flush (of_nat a) line] | _ \<Rightarrow> [])
     else if f = ''do_fence'' then [Fence]
     else [])"

definition accesses :: "uword \<Rightarrow> call list \<Rightarrow> access list" where
  "accesses line cs = concat (map (call_accesses line) cs)"

lemma accesses_simps [simp]:
  "accesses line [] = []" "accesses line (c # cs) = call_accesses line c @ accesses line cs"
  "accesses line (cs @ ds) = accesses line cs @ accesses line ds"
  by (simp_all add: accesses_def)

text \<open>A statement of the client does not call the handlers itself.\<close>

definition foreign :: "IRStmt \<Rightarrow> bool" where
  "foreign st = (case st of Ist_Dirty d \<Rightarrow>
     (case di_cee d of Some cee \<Rightarrow> (case ce_addr cee of Some f \<Rightarrow> f \<notin> set handlers | None \<Rightarrow> True) | None \<Rightarrow> True)
   | _ \<Rightarrow> True)"

lemma other_call: "f \<notin> set handlers \<Longrightarrow> call_accesses line (f, vs) = []"
  unfolding handlers_def by (simp only: call_accesses_def prod.case list.set insert_iff de_Morgan_disj if_False)

lemma foreign_silent: "foreign st \<Longrightarrow> accesses line (stmt_calls \<rho> st) = []"
  by (cases st) (auto simp: foreign_def other_call split: option.splits)

section \<open>Accesses that are reported for a statement\<close>

text \<open>Data of other types than these is not traced.\<close>

fun value_stores :: "uword \<Rightarrow> nat \<Rightarrow> IRType \<Rightarrow> access list" where
  "value_stores a v Ity_V128 = [Store a 8 (of_nat v), Store (a + 8) 8 (of_nat (v div 2 ^ 64))]"
| "value_stores a v Ity_V256 = [Store a 8 (of_nat v), Store (a + 8) 8 (of_nat (v div 2 ^ 64)),
     Store (a + 16) 8 (of_nat (v div 2 ^ 128)), Store (a + 24) 8 (of_nat (v div 2 ^ 192))]"
| "value_stores a v ty =
     (if ty \<in> {Ity_I1, Ity_I8, Ity_I16, Ity_I32, Ity_I64, Ity_F64} then [Store a (of_nat (width ty)) (of_nat v)] else [])"

text \<open>A constant is traced by the low half of its value, and no constant of a floating point type is traced.\<close>

fun data_stores :: "valuation \<Rightarrow> IRTypeEnv \<Rightarrow> IRExpr \<Rightarrow> IRExpr \<Rightarrow> access list" where
  "data_stores \<rho> E addr (Iex_Const c) =
     (if typeOfIRConst c = Ity_F64 then []
      else value_stores (of_nat (atom_value \<rho> addr)) (if typeOfIRConst c = Ity_I64 then const_value c mod 2 ^ 32 else const_value c)
        (typeOfIRConst c))"
| "data_stores \<rho> E addr data = value_stores (of_nat (atom_value \<rho> addr)) (atom_value \<rho> data) (typeof E data)"

text \<open>A store-conditional is reported without regard to its result.\<close>

fun stmt_accesses :: "uword \<Rightarrow> options \<Rightarrow> valuation \<Rightarrow> IRTypeEnv \<Rightarrow> IRStmt \<Rightarrow> access list" where
  "stmt_accesses line opts \<rho> E (Ist_Store en addr data) = data_stores \<rho> E addr data"
| "stmt_accesses line opts \<rho> E (Ist_StoreG sg) =
     (if atom_value \<rho> (sg_guard sg) = 0 then [] else data_stores \<rho> E (sg_addr sg) (sg_data sg))"
| "stmt_accesses line opts \<rho> E (Ist_CAS cas) =
     (if atom_value \<rho> (cas_expdLo cas) = \<rho> (cas_oldLo cas) then data_stores \<rho> E (cas_addr cas) (cas_dataLo cas) else [])"
| "stmt_accesses line opts \<rho> E (Ist_LLSC en result addr storedata) =
     (if storedata = Iex_NULL then [] else data_stores \<rho> E addr storedata)"
| "stmt_accesses line opts \<rho> E (Ist_Flush addr fk) =
     (if op_automatic_isa_rec opts
      then Flush (of_nat (atom_value \<rho> addr)) line # (if fk = Ifk_flush \<and> \<not> op_weak_clflush opts then [Fence] else [])
      else [])"
| "stmt_accesses line opts \<rho> E (Ist_MBE ev) =
     (if op_automatic_isa_rec opts \<and> (ev = Imbe_Fence \<or> ev = Imbe_SFence) then [Fence] else [])"
| "stmt_accesses line opts \<rho> E st = []"

definition block_accesses :: "uword \<Rightarrow> options \<Rightarrow> IRSB \<Rightarrow> valuation \<Rightarrow> access list" where
  "block_accesses line opts bb \<rho> =
     (if list_ex (exits \<rho>) (preamble (sb_stmts bb)) then []
      else concat (map (stmt_accesses line opts \<rho> (sb_tyenv bb)) (executed \<rho> (marked (sb_stmts bb)))))"

section \<open>The added statements\<close>

lemma of_nat_mod64 [simp]: "(of_nat (v mod 2 ^ 64) :: uword) = of_nat v"
  by (simp add: word_of_nat_eq_iff take_bit_eq_mod)

lemmas of_nat_low = of_nat_mod64 [simplified]

definition guard_on :: "valuation \<Rightarrow> IRExpr \<Rightarrow> bool" where
  "guard_on \<rho> g \<longleftrightarrow> g = Iex_NULL \<or> atom_value \<rho> g \<noteq> 0"

lemma tool_call_calls:
  "stmt_calls \<rho> (tool_call r nm g args) = (if guard_on \<rho> g then [(nm, map (atom_value \<rho>) args)] else [])"
  by (simp add: tool_call_def guard_on_def)

lemma store_call_accesses:
  "accesses line (stmt_calls \<rho> (store_call g a k d)) =
     (if guard_on \<rho> g then [Store (of_nat (atom_value \<rho> a)) k (of_nat (atom_value \<rho> d))] else [])"
  by (simp add: store_call_def tool_call_calls call_accesses_def mkIRExpr_HWord_def)

definition list_accesses :: "uword \<Rightarrow> valuation \<Rightarrow> IRStmt list \<Rightarrow> access list" where
  "list_accesses line \<rho> sts = accesses line (concat (map (stmt_calls \<rho>) sts))"

lemma list_accesses_simps [simp]:
  "list_accesses line \<rho> [] = []"
  "list_accesses line \<rho> (st # sts) = accesses line (stmt_calls \<rho> st) @ list_accesses line \<rho> sts"
  "list_accesses line \<rho> (sts @ sts') = list_accesses line \<rho> sts @ list_accesses line \<rho> sts'"
  by (simp_all add: list_accesses_def)

lemma part_accesses:
  assumes "list_all (assigns \<rho>) (fst (part_shape n Ity_I64 addr data g k (op, off)))" "unop_value op (atom_value \<rho> data) = Some v"
  shows "list_accesses line \<rho> (fst (part_shape n Ity_I64 addr data g k (op, off))) =
    (if guard_on \<rho> g then [Store (of_nat (atom_value \<rho> addr) + of_nat off) k (of_nat v)] else [])"
proof -
  have r: "\<rho> n = (atom_value \<rho> addr + unat (of_nat off :: uword)) mod 2 ^ 64" "\<rho> (Suc n) = v"
    using assms by (simp_all add: part_shape_def binop_value_def)
  have "(of_nat (\<rho> n) :: uword) = of_nat (atom_value \<rho> addr) + of_nat off" unfolding r(1) of_nat_mod64 by simp
  then show ?thesis using r(2) by (simp add: part_shape_def store_call_accesses)
qed

lemma wide_accesses:
  assumes "list_all (assigns \<rho>) (fst (wide_shape n Ity_I64 addr (width ty) g data ty))" "ty = Ity_V128 \<or> ty = Ity_V256"
  shows "list_accesses line \<rho> (fst (wide_shape n Ity_I64 addr (width ty) g data ty)) =
    (if guard_on \<rho> g then value_stores (of_nat (atom_value \<rho> addr)) (atom_value \<rho> data) ty else [])"
proof (cases "ty = Ity_V128")
  case True
  then show ?thesis using assms(1)
    by (simp add: wide_shape_def wide_parts_def width_def part_accesses unop_value_def of_nat_low)
next
  case False
  then have "ty = Ity_V256" using assms(2) by simp
  then show ?thesis using assms(1)
    by (simp add: wide_shape_def wide_parts_def width_def part_accesses unop_value_def of_nat_low)
qed

lemma const_bits_value:
  assumes "const_bits c = Some u"
  shows "typeOfIRConst c \<in> {Ity_I1, Ity_I8, Ity_I16, Ity_I32, Ity_I64}"
    "u = of_nat (if typeOfIRConst c = Ity_I64 then const_value c mod 2 ^ 32 else const_value c)"
proof -
  have low: "ucast (ucast w :: 32 word) = (of_nat (unat w mod 2 ^ 32) :: uword)" for w :: uword
  proof -
    have "unat (ucast w :: 32 word) = unat w mod 2 ^ 32" by (simp add: unsigned_ucast_eq take_bit_eq_mod)
    then show ?thesis using of_nat_unat [of "ucast w :: 32 word"] by metis
  qed
  show "typeOfIRConst c \<in> {Ity_I1, Ity_I8, Ity_I16, Ity_I32, Ity_I64}" using assms by (cases c) auto
  show "u = of_nat (if typeOfIRConst c = Ity_I64 then const_value c mod 2 ^ 32 else const_value c)"
    using assms low by (cases c) (auto simp del: of_nat_mod64)
qed

lemma conv_value: "ty = Ity_F64 \<or> tmp_needs_widen ty \<Longrightarrow> v < 2 ^ bits ty \<Longrightarrow> unop_value (conv_op ty) v = Some v"
  by (auto simp: tmp_needs_widen_def unop_value_def bits_def width_def)

lemma event_accesses:
  assumes sts: "list_all (assigns \<rho>) (fst (event_shape n Ity_I64 addr (width ty) g data ty))"
    and at: "isIRAtom data = Inr True" and ty: "typeOfIRExpr E data = Inr ty" "ty \<noteq> Ity_I1" and wt: "well_typed E \<rho>"
  shows "list_accesses line \<rho> (fst (event_shape n Ity_I64 addr (width ty) g data ty)) =
    (if guard_on \<rho> g then data_stores \<rho> E addr data else [])"
proof (cases rule: isIRAtom_cases [OF at])
  case (1 t)
  have v: "\<rho> t < 2 ^ bits ty" using ty(1) wt by (auto simp: 1 typeOfIRTemp_eq well_typed_def)
  consider "ty = Ity_I64" | "ty = Ity_F64 \<or> tmp_needs_widen ty" "ty \<noteq> Ity_I64" | "ty = Ity_V128 \<or> ty = Ity_V256"
    | "ty \<notin> {Ity_I64, Ity_F64, Ity_V128, Ity_V256}" "\<not> tmp_needs_widen ty" by blast
  then show ?thesis
  proof cases
    case 1
    then show ?thesis using ty(1) by (simp add: \<open>data = Iex_RdTmp t\<close> store_call_accesses)
  next
    case 2
    then have "\<rho> n = \<rho> t" using sts conv_value [OF _ v] by (simp add: 1)
    moreover have "value_stores (of_nat (atom_value \<rho> addr)) (\<rho> t) ty = [Store (of_nat (atom_value \<rho> addr)) (of_nat (width ty)) (of_nat (\<rho> t))]"
      using 2 by (auto simp: tmp_needs_widen_def)
    ultimately show ?thesis using 2 ty(1) by (simp add: 1 store_call_accesses)
  next
    case 3
    then have "event_shape n Ity_I64 addr (width ty) g data ty = wide_shape n Ity_I64 addr (width ty) g data ty"
      by (auto simp: 1 tmp_needs_widen_def)
    then show ?thesis using 3 sts ty(1) wide_accesses [of \<rho> n addr ty g data line] by (simp add: 1)
  next
    case 4
    then have "value_stores a v ty = []" for a v using ty(2) by (cases ty) (auto simp: tmp_needs_widen_def)
    then show ?thesis using 4 ty(1) by (simp add: 1)
  qed
next
  case (2 c)
  have c: "typeOfIRConst c = ty" using ty(1) by (simp add: 2)
  show ?thesis
  proof (cases "const_bits c")
    case None
    then have "ty \<in> {Ity_F32, Ity_F64, Ity_V128, Ity_V256}" using c by (cases c) auto
    then show ?thesis using None sts wide_accesses [of \<rho> n addr ty g data line] by (auto simp: 2 c)
  next
    case (Some u)
    then show ?thesis using const_bits_value [OF Some] c ty(2) by (auto simp: 2 store_call_accesses mkIRExpr_HWord_def)
  qed
qed

section \<open>Runs of the instrumented block\<close>

lemma atom_value_bound:
  assumes "isIRAtom e = Inr True" "typeOfIRExpr E e = Inr ty" "well_typed E \<rho>" "ty \<in> {Ity_I8, Ity_I16, Ity_I32, Ity_I64}"
  shows "atom_value \<rho> e < 2 ^ bits ty"
proof (cases rule: isIRAtom_cases [OF assms(1)])
  case (1 t)
  then show ?thesis using assms(2,3) by (auto simp: typeOfIRTemp_eq well_typed_def)
next
  case (2 c)
  have "unat (u :: 8 word) < 2 ^ 8" "unat (v :: 16 word) < 2 ^ 16" "unat (x :: 32 word) < 2 ^ 32" "unat (y :: 64 word) < 2 ^ 64" for u v x y
    using unsigned_less [of u, where ?'a = nat] unsigned_less [of v, where ?'a = nat] unsigned_less [of x, where ?'a = nat]
      unsigned_less [of y, where ?'a = nat] by simp_all
  then show ?thesis using assms(2,4) by (cases c) (auto simp: 2 bits_def width_def)
qed

lemma data_accesses:
  assumes "list_all (assigns \<rho>) (fst (data_shape n E addr g data))" "isIRAtom data = Inr True" "typeOfIRExpr E data = Inr ty" "ty \<noteq> Ity_I1"
    "typeOfIRExpr E addr = Inr Ity_I64" "well_typed E \<rho>"
  shows "list_accesses line \<rho> (fst (data_shape n E addr g data)) = (if guard_on \<rho> g then data_stores \<rho> E addr data else [])"
  using event_accesses [OF _ assms(2,3,4,6)] assms(1,3,5) by (simp add: data_shape_def)

lemma cas_value:
  assumes "cas_ops ty = Inr (eq, ors, xr)" "u < 2 ^ bits ty" "v < 2 ^ bits ty"
  shows "binop_value eq u v = Some (if u = v then 1 else 0)"
  using assms by (cases ty) (auto simp: binop_value_def bits_def width_def)

lemma cas_accesses:
  assumes sts: "list_all (assigns \<rho>) (fst (added_shape opts E n (Ist_CAS cas)))" and fl: "isFlatIRStmt (Ist_CAS cas) = Inr True"
    and tc: "tcStmt E Ity_I64 (Ist_CAS cas) = Inr ()" and wt: "well_typed E \<rho>"
  shows "list_accesses line \<rho> (fst (added_shape opts E n (Ist_CAS cas))) = stmt_accesses line opts \<rho> E (Ist_CAS cas)"
proof -
  obtain ty where ty: "typeOfIRExpr E (cas_expdLo cas) = Inr ty" "typeOfIRExpr E (cas_dataLo cas) = Inr ty"
    "typeOfIRTemp E (cas_oldLo cas) = Inr ty" "ty \<in> {Ity_I8, Ity_I16, Ity_I32, Ity_I64}" "typeOfIRExpr E (cas_addr cas) = Inr Ity_I64"
    using tc by (auto simp: tcCAS_def check_eq_Inr Let_def split: if_splits)
  have at: "isIRAtom (cas_dataLo cas) = Inr True" "isIRAtom (cas_expdLo cas) = Inr True"
    using fl by (auto simp: all_atoms_eq isIRAtom_or_NULL_def simp del: all_atoms.simps split: if_splits)
  obtain eq ors xr where ops: "cas_ops ty = Inr (eq, ors, xr)" using ty(4) by auto
  have b: "atom_value \<rho> (cas_expdLo cas) < 2 ^ bits ty" "\<rho> (cas_oldLo cas) < 2 ^ bits ty"
    using atom_value_bound [OF at(2) ty(1) wt ty(4)] ty(3) wt by (auto simp: typeOfIRTemp_eq well_typed_def)
  have "\<rho> n = (if atom_value \<rho> (cas_expdLo cas) = \<rho> (cas_oldLo cas) then 1 else 0)"
    using sts ty(1) ops cas_value [OF ops b] by (simp add: cas_guard_def)
  then have "guard_on \<rho> (Iex_RdTmp n) \<longleftrightarrow> atom_value \<rho> (cas_expdLo cas) = \<rho> (cas_oldLo cas)" by (simp add: guard_on_def)
  then show ?thesis using data_accesses [OF _ at(1) ty(2) _ ty(5) wt, of "Suc n"] ty(4) sts by auto
qed

lemma added_accesses:
  assumes sts: "list_all (assigns \<rho>) (fst (added_shape opts E n st))" and fl: "isFlatIRStmt st = Inr True"
    and tc: "tcStmt E Ity_I64 st = Inr ()" and wt: "well_typed E \<rho>"
  shows "list_accesses line \<rho> (fst (added_shape opts E n st)) = stmt_accesses line opts \<rho> E st"
proof (cases st)
  case (Ist_Store en addr data)
  have "isIRAtom data = Inr True" using fl Ist_Store by (auto simp: all_atoms_eq simp del: all_atoms.simps)
  moreover obtain ty where "typeOfIRExpr E data = Inr ty" "ty \<noteq> Ity_I1" "typeOfIRExpr E addr = Inr Ity_I64"
    using tc Ist_Store by (auto simp: check_eq_Inr)
  ultimately show ?thesis using data_accesses [OF _ _ _ _ _ wt] sts by (simp add: Ist_Store guard_on_def)
next
  case (Ist_StoreG sg)
  have "isIRAtom (sg_data sg) = Inr True" "sg_guard sg \<noteq> Iex_NULL" using fl Ist_StoreG by (auto simp: all_atoms_eq simp del: all_atoms.simps)
  moreover obtain ty where "typeOfIRExpr E (sg_data sg) = Inr ty" "ty \<noteq> Ity_I1" "typeOfIRExpr E (sg_addr sg) = Inr Ity_I64"
    using tc Ist_StoreG by (auto simp: check_eq_Inr)
  ultimately show ?thesis using data_accesses [OF _ _ _ _ _ wt] sts by (simp add: Ist_StoreG guard_on_def)
next
  case (Ist_CAS cas)
  then show ?thesis using cas_accesses sts fl tc wt by metis
next
  case (Ist_LLSC en result addr data)
  show ?thesis
  proof (cases "data = Iex_NULL")
    case False
    then have "isIRAtom data = Inr True" using fl Ist_LLSC by (auto simp: all_atoms_eq isIRAtom_or_NULL_def simp del: all_atoms.simps)
    moreover obtain ty where "typeOfIRExpr E data = Inr ty" "ty \<noteq> Ity_I1" "typeOfIRExpr E addr = Inr Ity_I64"
      using tc Ist_LLSC False by (auto simp: check_eq_Inr tcLLSC_def)
    ultimately show ?thesis using data_accesses [OF _ _ _ _ _ wt] sts False by (simp add: Ist_LLSC guard_on_def)
  qed (simp add: Ist_LLSC)
qed (simp_all add: tool_call_calls guard_on_def call_accesses_def)

lemma added_no_exit: "\<not> list_ex (exits \<rho>) (fst (added_shape opts E n st))"
proof -
  have call: "\<not> exits \<rho> (tool_call r nm g args)" for r nm g args by (simp add: tool_call_def)
  have parts: "\<not> list_ex (exits \<rho>) (fst (parts_shape n ty a d g k ps))" for n ty a d g k ps
    by (induction ps arbitrary: n) (auto simp: part_shape_def store_call_def call)
  have ev: "\<not> list_ex (exits \<rho>) (fst (data_shape n E a g d))" for n a g d
    by (cases d) (auto simp: data_shape_def wide_shape_def parts store_call_def call split: option.splits)
  show ?thesis by (cases st) (auto simp: ev call)
qed

lemma body_accesses:
  assumes "check_flat sts = Inr ()" "check_types E Ity_I64 sts = Inr ()" "list_all foreign sts" "well_typed E \<rho>"
    "list_all (assigns \<rho>) (executed \<rho> (fst (body_shape opts E n sts)))"
  shows "list_accesses line \<rho> (executed \<rho> (fst (body_shape opts E n sts))) =
    concat (map (stmt_accesses line opts \<rho> E) (executed \<rho> sts))"
  using assms(1-3,5)
proof (induction sts arbitrary: n)
  case (Cons st sts)
  have st: "isFlatIRStmt st = Inr True" "tcStmt E Ity_I64 st = Inr ()" "foreign st"
    and sts: "check_flat sts = Inr ()" "check_types E Ity_I64 sts = Inr ()" "list_all foreign sts" using Cons.prems by (auto simp: check_eq_Inr)
  let ?a = "added_shape opts E n st"
  show ?case
  proof (cases "kept st")
    case True
    have ex: "executed \<rho> (fst ?a @ rest) = fst ?a @ executed \<rho> rest" for rest
      using added_no_exit by (simp add: executed_append executed_no_exit)
    have none: "exits \<rho> st \<Longrightarrow> stmt_accesses line opts \<rho> E st = []" by (cases st) auto
    show ?thesis using Cons.prems(4) True Cons.IH [OF sts] foreign_silent [OF st(3), of line \<rho>] none
        added_accesses [OF _ st(1,2) assms(4)]
      by (auto simp: Let_def stmt_shape_def ex)
  next
    case False
    then have "stmt_accesses line opts \<rho> E st = []" "\<not> exits \<rho> st" by (auto simp: kept_def)
    then show ?thesis using Cons.prems(4) False Cons.IH [OF sts] by (simp add: Let_def stmt_shape_def)
  qed
qed simp

lemma silent_list: "list_all foreign sts \<Longrightarrow> list_accesses line \<rho> (executed \<rho> sts) = []"
  by (induction sts) (auto simp: foreign_silent)

lemma instrumented_run_accesses:
  assumes sane: "sanityCheckIRSB bb True Ity_I64 = Inr ()" and tr: "traceable bb" and fo: "list_all foreign (sb_stmts bb)"
    and out: "pmc_instrument opts bb Ity_I64 Ity_I64 = Inr (out, msgs)" and run: "is_run out \<rho>"
  shows "accesses line (run_calls \<rho> (sb_stmts out)) = block_accesses line opts bb \<rho>"
proof -
  let ?E = "sb_tyenv bb" and ?pre = "preamble (sb_stmts bb)" and ?rest = "marked (sb_stmts bb)"
  let ?body = "body_shape opts ?E (n_temps bb) ?rest"
  have o: "sb_stmts out = ?pre @ entered_call # fst ?body" "te_types (sb_tyenv out) = te_types ?E @ snd ?body"
    using pmc_instrument_grow [OF sane tr, of opts] out by (auto simp: instrumented_def Let_def)
  note rest = marked_checks(2,3) [OF sane]
  have f: "list_all foreign ?pre" "list_all foreign ?rest" using fo list_all_append [of foreign ?pre ?rest] by (simp_all add: split_marked)
  have wt: "well_typed ?E \<rho>" using run o(2) by (auto simp: is_run_def well_typed_def nth_append split: if_splits)
  have e: "executed \<rho> (sb_stmts out) = executed \<rho> ?pre @ (if list_ex (exits \<rho>) ?pre then [] else entered_call # executed \<rho> (fst ?body))"
    by (simp add: o(1) executed_append tool_call_def)
  have entered: "accesses line (stmt_calls \<rho> entered_call) = []" by (simp add: tool_call_calls call_accesses_def)
  have body: "list_accesses line \<rho> (executed \<rho> (fst ?body)) = concat (map (stmt_accesses line opts \<rho> ?E) (executed \<rho> ?rest))"
    if "\<not> list_ex (exits \<rho>) ?pre"
    using body_accesses [OF rest f(2) wt, of opts "n_temps bb" line] run that by (simp add: is_run_def e)
  have "accesses line (run_calls \<rho> (sb_stmts out)) = list_accesses line \<rho> (executed \<rho> (sb_stmts out))"
    by (simp add: run_calls_def list_accesses_def)
  then show ?thesis using silent_list [OF f(1), of line \<rho>] entered body by (simp add: e block_accesses_def)
qed

end
