(* ===== verification/PMC_Session.thy ===== *)
theory PMC_Session
  imports PMC_Trace
begin

text \<open>
  Sessions of instrumented code: the blocks of the client are translated with \<open>pmc_instrument\<close>, run, and
  their calls go to the handlers.  The report at the end is about the stores, flushes and fences of the
  client's own statements.
\<close>

section \<open>Running blocks\<close>

text \<open>The calls go to the handlers for stores, flushes, fences and entered blocks by their names; a call of a helper that
  is not a handler does not touch the tool.\<close>

definition route ::
    "(uword \<Rightarrow> uword \<Rightarrow> uword \<Rightarrow> 's \<Rightarrow> 's res) \<Rightarrow> (uword \<Rightarrow> 's \<Rightarrow> 's res) \<Rightarrow> ('s \<Rightarrow> 's res) \<Rightarrow> ('s \<Rightarrow> 's res) \<Rightarrow> call \<Rightarrow> 's \<Rightarrow> 's res" where
  "route store flush fence sblock = (\<lambda>(f, vs) w.
     if f = ''trace_pmem_store'' then
       (case vs of [a, k, v] \<Rightarrow> store (of_nat a) (of_nat k) (of_nat v) w | _ \<Rightarrow> Inr w)
     else if f = ''trace_pmem_flush'' then (case vs of [a] \<Rightarrow> flush (of_nat a) w | _ \<Rightarrow> Inr w)
     else if f = ''do_fence'' then fence w
     else if f = ''add_one_SB_entered'' then sblock w
     else Inr w)"

definition on_store :: "env \<Rightarrow> uword \<Rightarrow> uword \<Rightarrow> uword \<Rightarrow> tool \<Rightarrow> tool res" where
  "on_store en a k v w = rbind (trace_pmem_store en a k v (tl_pmem w, tl_trans w)) (\<lambda>(p, t). Inr (w\<lparr>tl_pmem := p, tl_trans := t\<rparr>))"

definition on_flush :: "env \<Rightarrow> uword \<Rightarrow> tool \<Rightarrow> tool res" where
  "on_flush en a w = rbind (trace_pmem_flush en (tl_strand_id w) a (tl_pmem w)) (\<lambda>p. Inr (w\<lparr>tl_pmem := p\<rparr>))"

definition on_fence :: "env \<Rightarrow> tool \<Rightarrow> tool res" where
  "on_fence en w = rbind (do_fence en (tl_pmem w)) (\<lambda>p. Inr (w\<lparr>tl_pmem := p\<rparr>))"

definition on_sblock :: "tool \<Rightarrow> tool res" where
  "on_sblock w = Inr (w\<lparr>tl_pmem := add_one_SB_entered (tl_pmem w)\<rparr>)"

definition dispatch :: "env \<Rightarrow> call \<Rightarrow> tool \<Rightarrow> tool res" where
  "dispatch en = route (on_store en) (on_flush en) (on_fence en) on_sblock"

text \<open>The block is instrumented and run, and its calls go to \<open>disp\<close>.\<close>

definition run_with :: "(call \<Rightarrow> 's \<Rightarrow> 's res) \<Rightarrow> options \<Rightarrow> IRSB \<times> valuation \<Rightarrow> 's \<Rightarrow> 's res" where
  "run_with disp opts = (\<lambda>(bb, \<rho>) w.
     rbind (pmc_instrument opts bb Ity_I64 Ity_I64) (\<lambda>(out, msgs). foldM disp (run_calls \<rho> (sb_stmts out)) w))"

definition run_block :: "env \<Rightarrow> options \<Rightarrow> IRSB \<times> valuation \<Rightarrow> tool \<Rightarrow> tool res" where
  "run_block en = run_with (dispatch en)"

text \<open>A block that the core hands over, with a run of its translation.\<close>

definition good_run :: "options \<Rightarrow> IRSB \<times> valuation \<Rightarrow> bool" where
  "good_run opts = (\<lambda>(bb, \<rho>).
     sanityCheckIRSB bb True Ity_I64 = Inr () \<and> traceable bb \<and> list_all foreign (sb_stmts bb) \<and>
     (\<forall>out msgs. pmc_instrument opts bb Ity_I64 Ity_I64 = Inr (out, msgs) \<longrightarrow> is_run out \<rho>))"

definition runs_accesses :: "uword \<Rightarrow> options \<Rightarrow> (IRSB \<times> valuation) list \<Rightarrow> access list" where
  "runs_accesses line opts runs = concat (map (\<lambda>(bb, \<rho>). block_accesses line opts bb \<rho>) runs)"

lemma run_with_calls:
  assumes "good_run opts (bb, \<rho>)"
  obtains cs where "\<And>w. run_with disp opts (bb, \<rho>) w = foldM disp cs w" "accesses line cs = block_accesses line opts bb \<rho>"
proof -
  have g: "sanityCheckIRSB bb True Ity_I64 = Inr ()" "traceable bb" "list_all foreign (sb_stmts bb)"
    using assms by (simp_all add: good_run_def)
  obtain out msgs where out: "pmc_instrument opts bb Ity_I64 Ity_I64 = Inr (out, msgs)" using pmc_instrument_grow [OF g(1,2)] by blast
  have "is_run out \<rho>" using assms out by (simp add: good_run_def)
  from instrumented_run_accesses [OF g out this, of line] show ?thesis
    using that [of "run_calls \<rho> (sb_stmts out)"] out by (simp add: run_with_def)
qed

lemma route_cases:
  obtains (access) e where "call_accesses line c = [e]" "\<And>a k. e = Flush a k \<Longrightarrow> k = line"
      "route store flush fence sblock c w = (case e of Store a k v \<Rightarrow> store a k v w | Flush a k \<Rightarrow> flush a w | Fence \<Rightarrow> fence w)"
  | (silent) "call_accesses line c = []" "route store flush fence sblock c w = Inr w"
  | (sblock) "call_accesses line c = []" "route store flush fence sblock c w = sblock w"
proof -
  obtain f vs where c: "c = (f, vs)" by (cases c)
  consider "f = ''trace_pmem_store''" | "f = ''trace_pmem_flush''" | "f = ''do_fence''" | "f = ''add_one_SB_entered''" | "f \<notin> set handlers"
    unfolding handlers_def by auto
  then show ?thesis
  proof cases
    case 1
    show ?thesis
    proof (cases "\<exists>a k v. vs = [a, k, v]")
      case True
      then obtain a k v where "vs = [a, k, v]" by blast
      then show ?thesis using 1 by (intro access [of "Store (of_nat a) (of_nat k) (of_nat v)"]) (simp_all add: c call_accesses_def route_def)
    next
      case False
      then show ?thesis using 1 by (intro silent) (auto simp: c call_accesses_def route_def split: list.splits)
    qed
  next
    case 2
    show ?thesis
    proof (cases "\<exists>a. vs = [a]")
      case True
      then obtain a where "vs = [a]" by blast
      then show ?thesis using 2 by (intro access [of "Flush (of_nat a) line"]) (simp_all add: c call_accesses_def route_def)
    next
      case False
      then show ?thesis using 2 by (intro silent) (auto simp: c call_accesses_def route_def split: list.splits)
    qed
  next
    case 3
    then show ?thesis by (intro access [of Fence]) (simp_all add: c call_accesses_def route_def)
  next
    case 4
    then show ?thesis by (intro sblock) (simp_all add: c call_accesses_def route_def)
  next
    case 5
    then have "route store flush fence sblock c w = Inr w" unfolding handlers_def
      by (simp only: c route_def prod.case list.set insert_iff de_Morgan_disj if_False)
    then show ?thesis using 5 other_call by (intro silent) (simp_all add: c)
  qed
qed

section \<open>Tools that take the calls\<close>

text \<open>A tool whose handlers refine the specification call by call does so block by block.\<close>

locale call_tracker =
  fixes disp :: "call \<Rightarrow> 's \<Rightarrow> 's res" and inv :: "nat \<Rightarrow> 's \<Rightarrow> bool" and view :: "'s \<Rightarrow> durability"
    and acts :: "access \<Rightarrow> action list" and good :: "access \<Rightarrow> bool" and line :: uword
  assumes call_refines: "inv (length (call_accesses line c) + n) w \<Longrightarrow> \<forall>e \<in> set (call_accesses line c). good e \<Longrightarrow>
    \<exists>w'. disp c w = Inr w' \<and> inv n w' \<and> view w' = fold act (concat (map acts (call_accesses line c))) (view w)"
begin

lemma calls_refine:
  assumes "inv (length (accesses line cs) + n) w" "\<forall>e \<in> set (accesses line cs). good e"
  shows "\<exists>w'. foldM disp cs w = Inr w' \<and> inv n w' \<and> view w' = fold act (concat (map acts (accesses line cs))) (view w)"
  using assms
proof (induction cs arbitrary: w)
  case (Cons c cs)
  obtain w1 where 1: "disp c w = Inr w1" "inv (length (accesses line cs) + n) w1"
    "view w1 = fold act (concat (map acts (call_accesses line c))) (view w)"
    using call_refines [of c "length (accesses line cs) + n" w] Cons.prems by (auto simp: add.assoc)
  then show ?case using Cons.IH [OF 1(2)] Cons.prems(2) by (auto simp: fold_append)
qed simp

lemma blocks_refine:
  assumes "inv (length (runs_accesses line opts runs) + n) w" "\<forall>e \<in> set (runs_accesses line opts runs). good e"
    "\<forall>r \<in> set runs. good_run opts r"
  shows "\<exists>w'. foldM (run_with disp opts) runs w = Inr w' \<and> inv n w' \<and>
    view w' = fold act (concat (map acts (runs_accesses line opts runs))) (view w)"
  using assms
proof (induction runs arbitrary: w)
  case Nil
  then show ?case by (simp add: runs_accesses_def)
next
  case (Cons r runs)
  obtain bb \<rho> where r: "r = (bb, \<rho>)" by (cases r)
  obtain cs where cs: "run_with disp opts r w = foldM disp cs w" "accesses line cs = block_accesses line opts bb \<rho>"
    using run_with_calls [of opts bb \<rho> disp line] Cons.prems(3) r by (metis list.set_intros(1))
  have a: "runs_accesses line opts (r # runs) = accesses line cs @ runs_accesses line opts runs" by (simp add: runs_accesses_def r cs(2))
  obtain w1 where 1: "foldM disp cs w = Inr w1" "inv (length (runs_accesses line opts runs) + n) w1"
    "view w1 = fold act (concat (map acts (accesses line cs))) (view w)"
    using calls_refine [of cs "length (runs_accesses line opts runs) + n" w] Cons.prems(1,2) by (auto simp: a add.assoc)
  then show ?case using Cons.IH [OF 1(2)] Cons.prems(2,3) cs(1) by (auto simp: a fold_append)
qed

end

section \<open>The handlers of PMDebugger\<close>

lemma tool_inv_sblocks:
  assumes "tool_inv L M n w"
  shows "tool_inv L M n (w\<lparr>tl_pmem := add_one_SB_entered (tl_pmem w)\<rparr>) \<and>
    tool_view (w\<lparr>tl_pmem := add_one_SB_entered (tl_pmem w)\<rparr>) = tool_view w"
proof -
  let ?p = "tl_pmem w" and ?p' = "add_one_SB_entered (tl_pmem w)"
  have p: "?p' = ?p\<lparr>pm_sblocks := pm_sblocks ?p + 1\<rparr>" by (simp add: add_one_SB_entered_def)
  have "snip_out ?p' = snip_out ?p" by (simp add: p fun_eq_iff snip_out_def)
  then have same: "out_entries ?p' = out_entries ?p" by (simp add: p out_entries_def)
  have "pmem_wf ?p' = pmem_wf ?p" by (simp add: p pmem_wf_def array_ok_def snip_ok_def tree_ok_def)
  moreover have "maps_ok ?p' = maps_ok ?p" "mapped ?p' = mapped ?p" by (simp_all add: p maps_ok_def)
  ultimately show ?thesis using assms same
    by (simp add: tool_inv_def store_inv_def tool_view_def simple_mode_def warn_room_def p)
qed

lemma dispatch_refines:
  assumes L: "0 < L" and inv: "tool_inv L M (length (call_accesses line c) + n) w" and line: "op_flush_align_size (pm_opts (tl_pmem w)) = line"
    and ok: "\<forall>e \<in> set (call_accesses line c). access_ok L e"
  shows "\<exists>w'. dispatch en c w = Inr w' \<and> tool_inv L M n w' \<and> op_flush_align_size (pm_opts (tl_pmem w')) = line \<and>
    tool_view w' = fold act (concat (map (access_acts M) (call_accesses line c))) (tool_view w)"
  unfolding dispatch_def
proof (cases rule: route_cases [of line c "on_store en" "on_flush en" "on_fence en" on_sblock w])
  case (access e)
  have "(case e of Store a k v \<Rightarrow> on_store en a k v w | Flush a k \<Rightarrow> on_flush en a w | Fence \<Rightarrow> on_fence en w) = access_step en e w"
    using access(2) line by (cases e) (simp_all add: on_store_def on_flush_def on_fence_def trace_pmem_flush_def)
  then show "\<exists>w'. route (on_store en) (on_flush en) (on_fence en) on_sblock c w = Inr w' \<and> tool_inv L M n w' \<and>
      op_flush_align_size (pm_opts (tl_pmem w')) = line \<and>
      tool_view w' = fold act (concat (map (access_acts M) (call_accesses line c))) (tool_view w)"
    using access_step_ok [OF L, of M n w e en] inv ok line access(1,3) by auto
qed (use tool_inv_sblocks [of L M n w] inv line in \<open>simp_all add: on_sblock_def add_one_SB_entered_def\<close>)

interpretation debugger: call_tracker "dispatch en"
    "\<lambda>n w. 0 < L \<and> tool_inv L M n w \<and> op_flush_align_size (pm_opts (tl_pmem w)) = line" tool_view "access_acts M" "access_ok L" line
  for en L M line
proof
  fix c n w assume "0 < L \<and> tool_inv L M (length (call_accesses line c) + n) w \<and> op_flush_align_size (pm_opts (tl_pmem w)) = line"
    and "\<forall>e \<in> set (call_accesses line c). access_ok L e"
  then show "\<exists>w'. dispatch en c w = Inr w' \<and> (0 < L \<and> tool_inv L M n w' \<and> op_flush_align_size (pm_opts (tl_pmem w')) = line) \<and>
      tool_view w' = fold act (concat (map (access_acts M) (call_accesses line c))) (tool_view w)"
    using dispatch_refines [of L M line c n w en] by blast
qed

section \<open>Sessions\<close>

lemma map_steps_opts: "foldM (map_step en) ms w = Inr w' \<Longrightarrow> pm_opts (tl_pmem w') = pm_opts (tl_pmem w)"
proof (induction ms arbitrary: w)
  case (Cons m ms)
  obtain a k where m: "m = (a, k)" by (cases m)
  obtain w1 where 1: "map_step en m w = Inr w1" "foldM (map_step en) ms w1 = Inr w'" using Cons.prems by (auto simp: rbind_eq_Inr)
  have "pm_opts (tl_pmem w1) = pm_opts (tl_pmem w)"
    using 1(1) by (auto simp: m map_step_register rbind_eq_Inr dest!: register_mapping_frame)
  then show ?case using Cons.IH [OF 1(2)] by simp
qed simp

lemma init_opts: "pm_opts (tl_pmem (pmc_post_clo_init en v op)) = op\<lparr>op_flush_align_size := en_cache_line_size en\<rparr>"
  by (simp add: pmc_post_clo_init_def Let_def)

lemma instrumented_session:
  fixes en op runs ms
  defines "opts \<equiv> pm_opts (tl_pmem (pmc_post_clo_init en False op))"
  defines "es \<equiv> runs_accesses (en_cache_line_size en) opts runs"
  assumes op: "plain op" "reg_room (length es) op" and maps: "\<forall>(a, k) \<in> set ms. rok (mk_region a k)"
    and L: "0 < L" and ok: "\<forall>e \<in> set es. access_ok L e" and good: "\<forall>r \<in> set runs. good_run opts r"
  shows "\<exists>w w' p'. foldM (map_step en) ms (pmc_post_clo_init en False op) = Inr w \<and> foldM (run_block en opts) runs w = Inr w' \<and>
    set_bytes (out_entries (tl_pmem w')) = {b. lost b (concat (map (access_acts (all_mapped ms)) es))} \<and>
    print_store_stats (tl_pmem w') = Inr p' \<and> pm_not_pmem_num p' = length (out_entries (tl_pmem w')) \<and>
    (pm_not_pmem_num p' = 0 \<longleftrightarrow> (\<forall>b. \<not> lost b (concat (map (access_acts (all_mapped ms)) es))))"
proof -
  obtain w where w: "foldM (map_step en) ms (pmc_post_clo_init en False op) = Inr w"
    "tool_inv L (all_mapped ms) (length es) w" "tool_view w = all_durable" using session_start [OF op maps, of en L] by blast
  have line: "op_flush_align_size (pm_opts (tl_pmem w)) = en_cache_line_size en" using map_steps_opts [OF w(1)] by (simp add: init_opts)
  obtain w' where w': "foldM (run_block en opts) runs w = Inr w'" "tool_inv L (all_mapped ms) 0 w'"
    "tool_view w' = fold act (concat (map (access_acts (all_mapped ms)) es)) (tool_view w)"
    using debugger.blocks_refine [of L "all_mapped ms" "en_cache_line_size en" opts runs 0 w en] L line w(2) ok good
    by (auto simp: es_def run_block_def)
  have "not_durable (tool_view w') = {b. lost b (concat (map (access_acts (all_mapped ms)) es))}"
    using w'(3) w(3) by (auto simp: not_durable_history all_durable_def)
  from final_report [OF w'(2) this] show ?thesis using w(1) w'(1) by auto
qed

end
