(* ===== verification/PMC_Effect_Laws.thy ===== *)
theory PMC_Effect_Laws
  imports VEX_Effects PMC_Session
begin

text \<open>
  What the tool is told of a run, compared with what the client's code does to memory.  A statement is \<open>seen\<close> when the
  instrumentation reports it: the data has a type that is traced, a store-conditional succeeds, no helper writes to
  memory, and the recognition of flush and fence instructions is on.  On runs of such statements the calls report the
  same bytes, lines and fences as the client's code, and the bytes that are lost are the same.
\<close>

section \<open>Statements that are seen\<close>

definition traced_types :: "IRType list" where
  "traced_types = [Ity_I8, Ity_I16, Ity_I32, Ity_I64, Ity_F64, Ity_V128, Ity_V256]"

lemma invalid_untraced [simp]: "Ity_INVALID \<notin> set traced_types"
  by (simp add: traced_types_def)

text \<open>Single precision, 128-bit integer and decimal data are not traced, nor are floating point constants.\<close>

definition seen_data :: "IRTypeEnv \<Rightarrow> IRExpr \<Rightarrow> bool" where
  "seen_data E data \<longleftrightarrow> typeof E data \<in> set traced_types \<and>
     (case data of Iex_Const c \<Rightarrow> typeOfIRConst c \<noteq> Ity_F64 | _ \<Rightarrow> True)"

fun seen :: "options \<Rightarrow> valuation \<Rightarrow> IRTypeEnv \<Rightarrow> IRStmt \<Rightarrow> bool" where
  "seen opts \<rho> E (Ist_Store en addr data) = seen_data E data"
| "seen opts \<rho> E (Ist_StoreG sg) = seen_data E (sg_data sg)"
| "seen opts \<rho> E (Ist_CAS cas) = (cas_dataHi cas = Iex_NULL \<and> seen_data E (cas_dataLo cas))"
| "seen opts \<rho> E (Ist_LLSC en result addr storedata) = (storedata = Iex_NULL \<or> \<rho> result \<noteq> 0 \<and> seen_data E storedata)"
| "seen opts \<rho> E (Ist_Dirty d) = (atom_value \<rho> (di_guard d) = 0 \<or> di_mFx d = Ifx_None \<or> di_mFx d = Ifx_Read)"
| "seen opts \<rho> E (Ist_Flush addr fk) = op_automatic_isa_rec opts"
| "seen opts \<rho> E (Ist_MBE ev) = op_automatic_isa_rec opts"
| "seen opts \<rho> E st = True"

text \<open>The code in front of the first instruction mark is not instrumented; it must not touch memory.\<close>

definition block_seen :: "options \<Rightarrow> IRSB \<Rightarrow> valuation \<Rightarrow> bool" where
  "block_seen opts bb \<rho> \<longleftrightarrow> list_all (seen opts \<rho> (sb_tyenv bb)) (executed \<rho> (sb_stmts bb)) \<and>
     list_all (\<lambda>st. stmt_effects (op_weak_clflush opts) \<rho> (sb_tyenv bb) st = []) (preamble (sb_stmts bb))"

text \<open>The value is reported as well: the order of bytes is little-endian, and a constant of 64 bits has 32 significant ones.\<close>

definition valued_data :: "IREndness \<Rightarrow> IRExpr \<Rightarrow> bool" where
  "valued_data en data \<longleftrightarrow> en = Iend_LE \<and> (case data of Iex_Const c \<Rightarrow> const_value c < 2 ^ 32 \<or> typeOfIRConst c \<noteq> Ity_I64 | _ \<Rightarrow> True)"

fun valued :: "IRStmt \<Rightarrow> bool" where
  "valued (Ist_Store en addr data) = valued_data en data"
| "valued (Ist_StoreG sg) = valued_data (sg_end sg) (sg_data sg)"
| "valued (Ist_CAS cas) = valued_data (cas_end cas) (cas_dataLo cas)"
| "valued (Ist_LLSC en result addr storedata) = (storedata = Iex_NULL \<or> valued_data en storedata)"
| "valued st = True"

section \<open>Effects of what is reported\<close>

fun access_effects :: "access \<Rightarrow> effect list" where
  "access_effects (Store a k v) = value_effects Iend_LE a (unat k) (unat v)"
| "access_effects (Flush a k) = [Eff_Line a]"
| "access_effects Fence = [Eff_Fence]"

definition reported_effects :: "access list \<Rightarrow> effect list" where
  "reported_effects es = concat (map access_effects es)"

lemma reported_simps [simp]:
  "reported_effects [] = []" "reported_effects (e # es) = access_effects e @ reported_effects es"
  "reported_effects (es @ fs) = reported_effects es @ reported_effects fs"
  by (simp_all add: reported_effects_def)

lemma reported_concat: "reported_effects (concat (map f xs)) = concat (map (\<lambda>x. reported_effects (f x)) xs)"
  by (induction xs) simp_all

lemma reported_store: "k \<le> 8 \<Longrightarrow> access_effects (Store a (of_nat k) (of_nat v)) = value_effects Iend_LE a k v"
  using value_effects_word [of k a v] by (simp add: unsigned_of_nat take_bit_nat_eq_self)

lemma reported_value:
  assumes "ty \<in> set traced_types"
  shows "reported_effects (value_stores a v ty) = value_effects Iend_LE a (width ty) v"
proof -
  have 8: "access_effects (Store b 8 (of_nat u)) = value_effects Iend_LE b 8 u" for b u using reported_store [of 8 b u] by simp
  consider "ty = Ity_V128" | "ty = Ity_V256" | "ty \<in> {Ity_I8, Ity_I16, Ity_I32, Ity_I64, Ity_F64}"
    using assms by (auto simp: traced_types_def)
  then show ?thesis
  proof cases
    case 1
    then show ?thesis using value_effects_append [of a 8 8 v] by (simp add: 8 width_def del: access_effects.simps)
  next
    case 2
    have "value_effects Iend_LE a 32 v = value_effects Iend_LE a 8 v @ value_effects Iend_LE (a + 8) 8 (v div 2 ^ 64) @
        value_effects Iend_LE (a + 16) 8 (v div 2 ^ 128) @ value_effects Iend_LE (a + 24) 8 (v div 2 ^ 192)"
      using value_effects_append [of a 8 24 v] value_effects_append [of "a + 8" 8 16 "v div 2 ^ 64"]
        value_effects_append [of "a + 16" 8 8 "v div 2 ^ 128"] by (simp add: div_mult2_eq [symmetric] add.commute)
    then show ?thesis using 2 by (simp add: 8 width_def del: access_effects.simps)
  next
    case 3
    then show ?thesis using reported_store [of "width ty" a v] by (auto simp: width_def simp del: access_effects.simps)
  qed
qed

lemma reported_data_places:
  assumes "seen_data E data"
  shows "map place (reported_effects (data_stores \<rho> E addr data)) = map place (data_effects en \<rho> E (of_nat (atom_value \<rho> addr)) data)"
  using assms by (cases data) (auto simp: seen_data_def data_effects_def reported_value place_value typeof_def)

lemma reported_data:
  assumes "seen_data E data" "valued_data en data"
  shows "reported_effects (data_stores \<rho> E addr data) = data_effects en \<rho> E (of_nat (atom_value \<rho> addr)) data"
  using assms by (cases data) (auto simp: seen_data_def valued_data_def data_effects_def reported_value typeof_def)

text \<open>Statement by statement, in a view \<open>f\<close> of the effects in which the data of a store agree.\<close>

lemma reported_stmt:
  assumes "seen opts \<rho> E st" and empty: "f [] = []"
    and data: "\<And>en addr data. seen_data E data \<Longrightarrow> (P \<Longrightarrow> valued_data en data) \<Longrightarrow>
      f (reported_effects (data_stores \<rho> E addr data)) = f (data_effects en \<rho> E (of_nat (atom_value \<rho> addr)) data)"
    and "P \<Longrightarrow> valued st"
  shows "f (reported_effects (stmt_accesses line opts \<rho> E st)) = f (stmt_effects (op_weak_clflush opts) \<rho> E st)"
  using assms(1,4) empty by (cases st) (auto simp: data cas_succeeds_def cas_effects_def Let_def)

section \<open>Blocks\<close>

lemma block_split:
  "block_seen opts bb \<rho> \<Longrightarrow> block_effects (op_weak_clflush opts) bb \<rho> =
     (if list_ex (exits \<rho>) (preamble (sb_stmts bb)) then []
      else concat (map (stmt_effects (op_weak_clflush opts) \<rho> (sb_tyenv bb)) (executed \<rho> (marked (sb_stmts bb)))))"
proof -
  have sub: "set (executed \<rho> xs) \<subseteq> set xs" for xs by (induction xs) auto
  assume "block_seen opts bb \<rho>"
  then have "concat (map (stmt_effects (op_weak_clflush opts) \<rho> (sb_tyenv bb)) (executed \<rho> (preamble (sb_stmts bb)))) = []"
    using sub [of "preamble (sb_stmts bb)"] by (auto simp: block_seen_def list_all_iff)
  then show ?thesis
    using executed_append [of \<rho> "preamble (sb_stmts bb)" "marked (sb_stmts bb)"] by (simp add: block_effects_def split_marked)
qed

lemma seen_marked:
  assumes "block_seen opts bb \<rho>" "\<not> list_ex (exits \<rho>) (preamble (sb_stmts bb))" "st \<in> set (executed \<rho> (marked (sb_stmts bb)))"
  shows "seen opts \<rho> (sb_tyenv bb) st" "st \<in> set (executed \<rho> (sb_stmts bb))"
  using assms executed_append [of \<rho> "preamble (sb_stmts bb)" "marked (sb_stmts bb)"]
  by (auto simp: block_seen_def list_all_iff split_marked)

lemma reported_block:
  assumes "block_seen opts bb \<rho>" "list_all valued (executed \<rho> (sb_stmts bb))"
  shows "reported_effects (block_accesses line opts bb \<rho>) = block_effects (op_weak_clflush opts) bb \<rho>"
proof (cases "list_ex (exits \<rho>) (preamble (sb_stmts bb))")
  case False
  have "reported_effects (stmt_accesses line opts \<rho> (sb_tyenv bb) st) = stmt_effects (op_weak_clflush opts) \<rho> (sb_tyenv bb) st"
    if "st \<in> set (executed \<rho> (marked (sb_stmts bb)))" for st
    using seen_marked [OF assms(1) False that] assms(2) reported_data
    by (intro reported_stmt [where f = "\<lambda>x. x" and P = True]) (auto simp: list_all_iff)
  then show ?thesis using False by (simp add: block_split [OF assms(1)] block_accesses_def reported_concat cong: map_cong)
qed (simp add: block_split [OF assms(1)] block_accesses_def)

lemma reported_block_places:
  assumes "block_seen opts bb \<rho>"
  shows "map place (reported_effects (block_accesses line opts bb \<rho>)) = map place (block_effects (op_weak_clflush opts) bb \<rho>)"
proof (cases "list_ex (exits \<rho>) (preamble (sb_stmts bb))")
  case False
  have "map place (reported_effects (stmt_accesses line opts \<rho> (sb_tyenv bb) st)) =
      map place (stmt_effects (op_weak_clflush opts) \<rho> (sb_tyenv bb) st)"
    if "st \<in> set (executed \<rho> (marked (sb_stmts bb)))" for st
    using seen_marked [OF assms False that] reported_data_places by (intro reported_stmt [where P = False]) auto
  then show ?thesis using False by (simp add: block_split [OF assms] block_accesses_def reported_concat map_concat comp_def cong: map_cong)
qed (simp add: block_split [OF assms] block_accesses_def)

lemma reported_runs_places:
  assumes "\<forall>(bb, \<rho>) \<in> set runs. block_seen opts bb \<rho>"
  shows "map place (reported_effects (runs_accesses line opts runs)) = map place (runs_effects (op_weak_clflush opts) runs)"
  using assms by (induction runs) (auto simp: runs_accesses_def runs_effects_def reported_block_places)

section \<open>Lost bytes\<close>

text \<open>What an effect means for durability, with the bytes \<open>M\<close> mapped and lines of \<open>L\<close> bytes.\<close>

fun effect_acts :: "nat set \<Rightarrow> nat \<Rightarrow> effect \<Rightarrow> action list" where
  "effect_acts M L (Eff_Byte a v) = (if unat a \<in> M then [Act_Store {unat a}] else [])"
| "effect_acts M L (Eff_Line a) = [Act_Flush {b. b div L = unat a div L}]"
| "effect_acts M L Eff_Fence = [Act_Fence]"

lemma effect_acts_place [simp]: "effect_acts M L (place e) = effect_acts M L e"
  by (cases e) simp_all

text \<open>The tool tracks a store as a whole when it touches a mapping, and takes a flush to cover one line from its address on.\<close>

fun on_lines :: "nat set \<Rightarrow> nat \<Rightarrow> access \<Rightarrow> bool" where
  "on_lines M L (Store a k v) \<longleftrightarrow> unat a + unat k < 2 ^ 64 \<and> (bytes (mk_region a k) \<subseteq> M \<or> bytes (mk_region a k) \<inter> M = {})"
| "on_lines M L (Flush a k) \<longleftrightarrow> L dvd unat a \<and> unat k = L"
| "on_lines M L Fence \<longleftrightarrow> True"

text \<open>The part of an action that concerns one byte.\<close>

fun at_byte :: "nat \<Rightarrow> action \<Rightarrow> action list" where
  "at_byte b (Act_Store R) = (if b \<in> R then [Act_Store {b}] else [])"
| "at_byte b (Act_Flush R) = (if b \<in> R then [Act_Flush {b}] else [])"
| "at_byte b Act_Fence = [Act_Fence]"

lemma fence_at_byte: "Act_Fence \<in> set (concat (map (at_byte b) as)) \<longleftrightarrow> Act_Fence \<in> set as"
proof (induction as)
  case (Cons a as)
  then show ?case by (cases a) auto
qed simp

lemma persisted_at_byte: "persisted b (concat (map (at_byte b) as)) = persisted b as"
proof (induction as)
  case (Cons a as)
  then show ?case using fence_at_byte [of b as] by (cases a) (auto simp: persisted_fence)
qed simp

lemma lost_at_byte: "lost b (concat (map (at_byte b) as)) = lost b as"
proof (induction as)
  case (Cons a as)
  then show ?case using persisted_at_byte [of b as] by (cases a) auto
qed simp

lemma store_bytes_at_byte:
  assumes "unat a + k < 2 ^ 64"
  shows "concat (map (at_byte b) (concat (map (effect_acts M L) (value_effects en a k v)))) =
    (if b \<in> {unat a ..< unat a + k} \<and> b \<in> M then [Act_Store {b}] else [])"
proof -
  have "concat (map (at_byte b) (concat (map (effect_acts M L) (map (\<lambda>i. Eff_Byte (a + of_nat i) (f i)) [0 ..< k])))) =
      (if b \<in> {unat a ..< unat a + k} \<and> b \<in> M then [Act_Store {b}] else [])" for f
    using assms
  proof (induction k)
    case (Suc k)
    have "unat (a + of_nat k) = unat a + k" using Suc.prems unat_plus_nowrap [of a "of_nat k"] by (simp add: unsigned_of_nat take_bit_nat_eq_self)
    then show ?case using Suc by auto
  qed simp
  then show ?thesis by (simp add: value_effects_def)
qed

lemma access_at_byte:
  assumes "on_lines M L e" "0 < L"
  shows "concat (map (at_byte b) (access_acts M e)) = concat (map (at_byte b) (concat (map (effect_acts M L) (access_effects e))))"
proof (cases e)
  case (Store a k v)
  then show ?thesis using assms(1) store_bytes_at_byte [of a "unat k" b M L Iend_LE "unat v"] by (auto simp: bytes_def lo_def hi_def sz_def)
next
  case (Flush a k)
  then obtain q where q: "unat a = L * q" "unat k = L" using assms(1) by auto
  have "b div L = q \<longleftrightarrow> L * q \<le> b \<and> b < L * q + L"
    using assms(2) div_nat_eqI [of L q b] dividend_less_times_div [of L b] times_div_less_eq_dividend [of L b]
    by (auto simp: mult.commute add.commute)
  then show ?thesis using q assms(2) by (simp add: Flush bytes_def lo_def hi_def sz_def)
qed simp

lemma lost_reported:
  assumes "\<forall>e \<in> set es. on_lines M L e" "0 < L"
  shows "lost b (concat (map (access_acts M) es)) = lost b (concat (map (effect_acts M L) (reported_effects es)))"
proof -
  have "concat (map (at_byte b) (concat (map (access_acts M) es))) =
      concat (map (at_byte b) (concat (map (effect_acts M L) (reported_effects es))))"
    using assms(1) by (induction es) (auto simp: access_at_byte [OF _ assms(2)])
  then show ?thesis by (metis lost_at_byte)
qed

lemma lost_places: "map place xs = map place ys \<Longrightarrow> concat (map (effect_acts M L) xs) = concat (map (effect_acts M L) ys)"
proof -
  have "map (effect_acts M L) (map place xs) = map (effect_acts M L) xs" for xs by (simp add: comp_def)
  then show "map place xs = map place ys \<Longrightarrow> ?thesis" by metis
qed

text \<open>The bytes lost by the client's code are those lost according to what the tool is told.\<close>

lemma lost_client:
  assumes "\<forall>(bb, \<rho>) \<in> set runs. block_seen opts bb \<rho>" "\<forall>e \<in> set (runs_accesses line opts runs). on_lines M L e" "0 < L"
  shows "lost b (concat (map (access_acts M) (runs_accesses line opts runs))) =
    lost b (concat (map (effect_acts M L) (runs_effects (op_weak_clflush opts) runs)))"
  using lost_reported [OF assms(2,3)] lost_places [OF reported_runs_places [OF assms(1), of line]] by simp

end
