(* ===== verification/PMC_Erase_Laws.thy ===== *)
theory PMC_Erase_Laws
  imports PMC_Trace
begin

text \<open>
  The client's code inside the instrumented block, the tiling of wide stores, and the failure on a double
  compare-and-swap.
\<close>

section \<open>Erasing what the tool added\<close>

text \<open>A statement of the tool assigns a temporary that the client's block does not have, or calls a handler.\<close>

definition by_tool :: "nat \<Rightarrow> IRStmt \<Rightarrow> bool" where
  "by_tool N st = (case st of Ist_WrTmp t e \<Rightarrow> N \<le> t | Ist_Dirty d \<Rightarrow> \<not> foreign st | _ \<Rightarrow> False)"

lemma by_tool_simps [simp]:
  "by_tool N (Ist_WrTmp t e) \<longleftrightarrow> N \<le> t"
  "nm \<in> set handlers \<Longrightarrow> by_tool N (tool_call r nm g args)"
  by (simp_all add: by_tool_def tool_call_def foreign_def)

lemma handlers_simps [simp]:
  "''trace_pmem_store'' \<in> set handlers" "''trace_pmem_flush'' \<in> set handlers" "''do_fence'' \<in> set handlers"
  "''add_one_SB_entered'' \<in> set handlers"
  by (simp_all add: handlers_def)

lemma parts_by_tool: "N \<le> n \<Longrightarrow> list_all (by_tool N) (fst (parts_shape n ty a d g k ps))"
  by (induction ps arbitrary: n) (auto simp: part_shape_def store_call_def)

lemma data_by_tool: "N \<le> n \<Longrightarrow> list_all (by_tool N) (fst (data_shape n E a g d))"
  by (cases d) (auto simp: data_shape_def wide_shape_def parts_by_tool store_call_def split: option.splits)

lemma added_by_tool: "N \<le> n \<Longrightarrow> list_all (by_tool N) (fst (added_shape opts E n st))"
  using data_by_tool [of N] by (cases st) (auto simp: le_Suc_eq)

lemma client_not_by_tool:
  assumes "foreign st" "tcStmt E w st = Inr ()"
  shows "\<not> by_tool (length (te_types E)) st"
  using assms by (cases st) (auto simp: by_tool_def check_eq_Inr typeOfIRTemp_eq)

lemma client_list:
  "list_all foreign sts \<Longrightarrow> check_types E w sts = Inr () \<Longrightarrow> filter (\<lambda>st. \<not> by_tool (length (te_types E)) st) sts = sts"
  by (induction sts) (auto simp: check_eq_Inr client_not_by_tool)

lemma erase_body:
  assumes "check_types E w sts = Inr ()" "list_all foreign sts" "length (te_types E) \<le> n"
  shows "filter (\<lambda>st. \<not> by_tool (length (te_types E)) st) (fst (body_shape opts E n sts)) = filter kept sts"
  using assms
proof (induction sts arbitrary: n)
  case (Cons st sts)
  have "filter (\<lambda>st. \<not> by_tool (length (te_types E)) st) (fst (added_shape opts E n st)) = []"
    using added_by_tool [OF Cons.prems(3), of opts E st] by (auto simp: filter_empty_conv list_all_iff)
  moreover have "\<not> by_tool (length (te_types E)) st" using Cons.prems client_not_by_tool by (auto simp: check_eq_Inr)
  ultimately show ?case using Cons.IH [of "n + k" for k] Cons.prems by (auto simp: Let_def stmt_shape_def check_eq_Inr)
qed simp

lemma instrument_erase:
  assumes sane: "sanityCheckIRSB bb True w = Inr ()" and tr: "traceable bb" and fo: "list_all foreign (sb_stmts bb)"
    and out: "pmc_instrument opts bb w w = Inr (out, msgs)"
  shows "filter (\<lambda>st. \<not> by_tool (n_temps bb) st) (sb_stmts out) = preamble (sb_stmts bb) @ filter kept (marked (sb_stmts bb))"
proof -
  let ?pre = "preamble (sb_stmts bb)" and ?rest = "marked (sb_stmts bb)"
  have o: "sb_stmts out = ?pre @ entered_call # fst (body_shape opts (sb_tyenv bb) (n_temps bb) ?rest)"
    using pmc_instrument_grow [OF sane tr, of opts] out by (auto simp: instrumented_def Let_def)
  have "list_all foreign ?pre" "list_all foreign ?rest" using fo list_all_append [of foreign ?pre ?rest] by (simp_all add: split_marked)
  then show ?thesis using client_list erase_body marked_checks(3,5) [OF sane] by (simp add: o n_temps_def)
qed

section \<open>Double compare-and-swap\<close>

lemma double_cas_fails:
  assumes ok: "sb_ok sb" and le: "env_le E (sb_tyenv sb)" and fl: "isFlatIRStmt (Ist_CAS cas) = Inr True"
    and tc: "tcStmt E w (Ist_CAS cas) = Inr ()" and w: "w = Ity_I32 \<or> w = Ity_I64" and double: "cas_dataHi cas \<noteq> Iex_NULL"
  shows "instrument_cas E cas sb = Inl (OutOfBounds ''cas->addr + dataSize'')"
proof -
  obtain ty where ty: "typeOfIRExpr E (cas_expdLo cas) = Inr ty" "typeOfIRExpr E (cas_dataLo cas) = Inr ty"
    "ty \<in> {Ity_I8, Ity_I16, Ity_I32, Ity_I64}" "typeOfIRExpr E (cas_addr cas) = Inr w"
    using tc by (auto simp: tcCAS_def check_eq_Inr Let_def split: if_splits)
  have at: "isIRAtom (cas_addr cas) = Inr True" "isIRAtom (cas_dataLo cas) = Inr True"
    using fl by (auto simp: all_atoms_eq isIRAtom_or_NULL_def simp del: all_atoms.simps split: if_splits)
  obtain eq ors xr where ops: "cas_ops ty = Inr (eq, ors, xr)" "typeOfPrimop eq = Inr (COMPARISON ty)"
    "typeOfPrimop ors = Inr (BINARY ty ty ty)" "typeOfPrimop xr = Inr (BINARY ty ty ty)" using ty(3) by auto
  have nn: "cas_addr cas \<noteq> Iex_NULL" "cas_dataLo cas \<noteq> Iex_NULL" using at by auto
  have valid: "ty \<noteq> Ity_INVALID" "ty \<noteq> Ity_I1" using ty(3) by auto
  have step: "\<exists>a sb'. make_expr sb t (Iex_Binop op l r) = Inr (a, sb') \<and> sb_ok sb' \<and> env_le E (sb_tyenv sb')"
    if "sb_ok sb" "env_le E (sb_tyenv sb)" "typeOfPrimop op = Inr (BINARY ta tb t)" for sb t op l r ta tb
    using make_expr_grow [of sb "Iex_Binop op l r" t] that grow_ok env_le_grow by (fastforce simp: BINARY_def)
  obtain sb1 where 1: "addStmtToIRSB sb (Ist_CAS cas) = Inr sb1" "sb_ok sb1" "env_le E (sb_tyenv sb1)"
    using addStmt_grow [OF ok] grow_ok env_le_grow [OF le] by blast
  obtain x2 sb2 where 2: "make_expr sb1 ty (Iex_Binop xr (cas_expdHi cas) (Iex_RdTmp (cas_oldHi cas))) = Inr (x2, sb2)" "sb_ok sb2" "env_le E (sb_tyenv sb2)"
    using step [OF 1(2,3) ops(4)] by blast
  obtain x3 sb3 where 3: "make_expr sb2 ty (Iex_Binop xr (cas_expdLo cas) (Iex_RdTmp (cas_oldLo cas))) = Inr (x3, sb3)" "sb_ok sb3" "env_le E (sb_tyenv sb3)"
    using step [OF 2(2,3) ops(4)] by blast
  obtain x4 sb4 where 4: "make_expr sb3 ty (Iex_Binop ors x2 x3) = Inr (x4, sb4)" "sb_ok sb4" "env_le E (sb_tyenv sb4)"
    using step [OF 3(2,3) ops(3)] by blast
  obtain g sb5 where 5: "make_expr sb4 Ity_I1 (Iex_Binop eq x4 Iex_NULL) = Inr (g, sb5)" "sb_ok sb5" "env_le E (sb_tyenv sb5)"
    using step [OF 4(2,3) ops(2) [unfolded COMPARISON_def]] by blast
  obtain sb6 msgs where "add_event_dw_guarded sb5 (cas_addr cas) (width ty) g (cas_dataLo cas) = Inr (sb6, msgs)"
    using stored_event_grow [OF 5(2,3) at ty(2) valid ty(4) w] by blast
  then show ?thesis using nn ty ops(1) 1(1) 2(1) 3(1) 4(1) 5(1) double width_bounds [OF valid] by (simp add: instrument_cas_def moved_pointer_def)
qed

lemma instrument_double_cas:
  assumes sane: "sanityCheckIRSB bb True w = Inr ()" and valid: "Ity_INVALID \<notin> set (te_types (sb_tyenv bb))"
    and room: "length (te_types (sb_tyenv bb)) \<le> te_types_size (sb_tyenv bb)" and double: "\<not> list_all single_cas (marked (sb_stmts bb))"
  shows "pmc_instrument opts bb w w = Inl (OutOfBounds ''cas->addr + dataSize'')"
proof -
  let ?E = "sb_tyenv bb" and ?rest = "marked (sb_stmts bb)"
  obtain xs st ys where s: "?rest = xs @ st # ys" "list_all single_cas xs" "\<not> single_cas st"
    using split_list_first_prop [of ?rest "\<lambda>st. \<not> single_cas st"] double by (auto simp: list_all_iff)
  then obtain cas where cas: "st = Ist_CAS cas" "cas_dataHi cas \<noteq> Iex_NULL" by (auto simp: single_cas_def split: IRStmt.splits)
  note m = marked_checks [OF sane]
  have parts: "check_flat xs = Inr ()" "check_types ?E w xs = Inr ()" "isFlatIRStmt st = Inr True" "tcStmt ?E w st = Inr ()"
    using m(2,3) by (auto simp: s(1) check_flat_append check_types_append check_eq_Inr)
  obtain sb where sb: "pmc_instrument opts bb w w = foldM (instrument_next opts ?E) ?rest (sb, [])" "sb_ok sb"
    "te_types (sb_tyenv sb) = te_types ?E" by (rule instrument_start [OF sane room])
  have le: "env_le ?E (sb_tyenv sb)" using sb(3) by (simp add: env_le_def)
  obtain sb3 msgs where 3: "foldM (instrument_next opts ?E) xs (sb, []) = Inr (sb3, msgs)" "grow sb (body_shape opts ?E (n_temps sb) xs) sb3"
    using instrument_body_grow [OF sb(2) le m(1) valid parts(1,2) s(2), of opts "[]"] by blast
  have "instrument_next opts ?E st (sb3, msgs) = Inl (OutOfBounds ''cas->addr + dataSize'')"
    using double_cas_fails [OF grow_ok [OF 3(2)] env_le_grow [OF le 3(2)] parts(3,4) [unfolded cas(1)] m(1) cas(2)]
    by (simp add: instrument_next_def cas(1))
  then show ?thesis using sb(1) 3(1) by (simp add: s(1) foldM_append)
qed

end
