(* ===== verification/PMC_Instrument_Type_Laws.thy ===== *)
theory PMC_Instrument_Type_Laws
  imports PMC_Instrument_Block_Laws
begin

text \<open>
  The instrumented block passes the checker of the core: the statements that the tool adds are flat,
  assign fresh temporaries once and before their uses, and are well typed.
\<close>

section \<open>Atoms at hand\<close>

definition ready :: "IRTypeEnv \<Rightarrow> def_counts \<Rightarrow> IRExpr \<Rightarrow> bool" where
  "ready F ds e \<longleftrightarrow> (case e of Iex_RdTmp t \<Rightarrow> t < length (te_types F) \<and> 0 < ds t | Iex_Const c \<Rightarrow> True | _ \<Rightarrow> False)"

definition ready_as :: "IRTypeEnv \<Rightarrow> def_counts \<Rightarrow> IRExpr \<Rightarrow> IRType \<Rightarrow> bool" where
  "ready_as F ds e ty \<longleftrightarrow> ready F ds e \<and> typeOfIRExpr F e = Inr ty"

lemma ready_atom [simp]: "ready F ds e \<Longrightarrow> isIRAtom e = Inr True"
  by (cases e) (auto simp: ready_def)

lemma ready_not_special [simp]: "ready F ds e \<Longrightarrow> is_IRExpr_VECRET_or_GSPTR e = Inr False"
  by (cases e) (auto simp: ready_def is_IRExpr_VECRET_or_GSPTR_def)

lemma ready_used [simp]: "ready (sb_tyenv bb) ds e \<Longrightarrow> useBeforeDef_Expr bb ds e = Inr ()"
  by (cases e) (auto simp: ready_def useBeforeDef_Temp_def)

lemma saneIRConst_typed: "typeOfIRConst c \<noteq> Ity_I1 \<Longrightarrow> saneIRConst c"
  by (cases c) auto

lemma ready_checked: "ready_as F ds e ty \<Longrightarrow> ty \<noteq> Ity_I1 \<Longrightarrow> tcExpr F w e = Inr ()"
  by (cases e) (auto simp: ready_as_def ready_def sane_def saneIRConst_typed)

lemma used_ready:
  assumes "isIRAtom e = Inr True" "useBeforeDef_Expr bb ds e = Inr ()" "env_le (sb_tyenv bb) F" "defs_le ds ds'"
  shows "ready F ds' e"
  using assms by (auto elim!: isIRAtom_cases simp: ready_def useBeforeDef_Temp_def sane_eq_Inr env_le_def defs_le_def)

lemma ready_const [simp]: "ready F ds (Iex_Const c)" by (simp add: ready_def)

lemma ready_mono: "ready F ds e \<Longrightarrow> defs_le ds ds' \<Longrightarrow> ready F ds' e"
  by (cases e) (auto simp: ready_def defs_le_def)

lemma ready_as_mono: "ready_as F ds e ty \<Longrightarrow> defs_le ds ds' \<Longrightarrow> ready_as F ds' e ty"
  by (auto simp: ready_as_def intro: ready_mono)

section \<open>Calls and assignments\<close>

definition guard_ok :: "IRTypeEnv \<Rightarrow> IRType \<Rightarrow> IRExpr \<Rightarrow> bool" where
  "guard_ok F w g \<longleftrightarrow> g = Iex_NULL \<or>
     isIRAtom g = Inr True \<and> tcExpr F w g = Inr () \<and> typeOfIRExpr F g = Inr Ity_I1"

text \<open>A list of statements passes all checks and leaves the counters as given.\<close>

definition passes :: "IRSB \<Rightarrow> IRType \<Rightarrow> IRStmt list \<Rightarrow> def_counts \<Rightarrow> def_counts \<Rightarrow> bool" where
  "passes bb w sts ds ds' \<longleftrightarrow> check_flat sts = Inr () \<and> check_types (sb_tyenv bb) w sts = Inr () \<and> check_defs bb sts ds = Inr ds'"

lemma passes_Nil [simp]: "passes bb w [] ds ds' \<longleftrightarrow> ds' = ds"
  by (auto simp: passes_def)

lemma passes_append: "passes bb w xs ds ds1 \<Longrightarrow> passes bb w ys ds1 ds2 \<Longrightarrow> passes bb w (xs @ ys) ds ds2"
  by (simp add: passes_def check_flat_append check_types_append check_defs_append)

lemma passes_Cons: "passes bb w [x] ds ds1 \<Longrightarrow> passes bb w ys ds1 ds2 \<Longrightarrow> passes bb w (x # ys) ds ds2"
  using passes_append [of bb w "[x]"] by simp

lemma dirty_args:
  assumes "\<forall>a \<in> set args. \<exists>ty. ready_as (sb_tyenv bb) ds a ty \<and> ty \<noteq> Ity_I1" "i + length args \<le> 32"
  shows "flat_args args = Inr True" "useBeforeDef_DirtyArgs bb ds args = Inr ()"
    "tcDirtyArgs (sb_tyenv bb) Ity_INVALID True i 0 0 args = Inr ()"
proof -
  have at: "iex_tag a = Inr tag \<Longrightarrow> a \<noteq> Iex_VECRET \<and> a \<noteq> Iex_GSPTR" if "isIRAtom a = Inr True" for a tag
    using that by (cases a) auto
  have tag: "\<exists>tag. iex_tag a = Inr tag" if "isIRAtom a = Inr True" for a using that by (cases a) auto
  show "flat_args args = Inr True" using assms(1)
    by (induction args) (auto simp: isIRAtom_or_VECRET_or_GSPTR_def ready_as_def)
  show "useBeforeDef_DirtyArgs bb ds args = Inr ()" using assms(1) by (induction args) (auto simp: ready_as_def)
  show "tcDirtyArgs (sb_tyenv bb) Ity_INVALID True i 0 0 args = Inr ()" using assms
  proof (induction args arbitrary: i)
    case (Cons a args)
    obtain ty where a: "ready_as (sb_tyenv bb) ds a ty" "ty \<noteq> Ity_I1" using Cons.prems(1) by auto
    then obtain tag where "iex_tag a = Inr tag" "a \<noteq> Iex_VECRET" "a \<noteq> Iex_GSPTR" using at tag by (fastforce simp: ready_as_def)
    then show ?case using a Cons by (simp add: typed_def ready_as_def vecret_ok_def Let_def)
  qed simp
qed

lemma tool_call_passes:
  assumes args: "\<forall>a \<in> set args. \<exists>ty. ready_as (sb_tyenv bb) ds a ty \<and> ty \<noteq> Ity_I1" and n: "length args \<le> 32"
    and r: "0 \<le> r" "r \<le> 3" "r \<le> int (length args)" and g: "guard_ok (sb_tyenv bb) w g"
  shows "passes bb w [tool_call r nm g args] ds ds"
proof -
  note a = dirty_args [OF args, of 0, simplified, OF n]
  show ?thesis using a r g
    by (auto simp: passes_def tool_call_def emptyIRDirty_def tcDirty_def saneIRCallee_def Let_def isIRAtom_or_NULL_def
        guard_ok_def typed_def VEX_N_FXSTATE_def)
qed

text \<open>Counters after \<open>k\<close> fresh temporaries from \<open>n\<close> on have been assigned.\<close>

definition bump :: "nat \<Rightarrow> nat \<Rightarrow> def_counts \<Rightarrow> def_counts" where
  "bump n k ds = (\<lambda>t. if n \<le> t \<and> t < n + k then 1 else ds t)"

lemma bump_0 [simp]: "bump n 0 ds = ds" by (auto simp: bump_def)

lemma bump_bump: "m = n + k \<Longrightarrow> bump m l (bump n k ds) = bump n (k + l) ds"
  by (auto simp: bump_def)

lemma bump_le: "defs_le ds (bump n k ds)" by (simp add: defs_le_def bump_def)

definition fresh_from :: "nat \<Rightarrow> def_counts \<Rightarrow> bool" where
  "fresh_from n ds \<longleftrightarrow> (\<forall>t \<ge> n. ds t = 0)"

lemma fresh_bump: "fresh_from n ds \<Longrightarrow> fresh_from (n + k) (bump n k ds)"
  by (simp add: fresh_from_def bump_def)

lemma assign_passes:
  assumes "typeOfIRTemp (sb_tyenv bb) n = Inr ty" "typeOfIRExpr (sb_tyenv bb) e = Inr ty" "tcExpr (sb_tyenv bb) w e = Inr ()"
    "isFlatRHS e = Inr True" "useBeforeDef_Expr bb ds e = Inr ()" "fresh_from n ds"
  shows "passes bb w [Ist_WrTmp n e] ds (bump n 1 ds)"
proof -
  have "ds(n := Suc (ds n)) = bump n 1 ds" using assms(6) by (auto simp: bump_def fresh_from_def)
  moreover have "n < length (te_types (sb_tyenv bb))" using assms(1) by (simp add: typeOfIRTemp_eq)
  ultimately show ?thesis using assms by (auto simp: passes_def typed_def assignedOnce_Temp_def fresh_from_def)
qed

lemma bumped_ready: "typeOfIRTemp F t = Inr ty \<Longrightarrow> n \<le> t \<Longrightarrow> t < n + k \<Longrightarrow> ready_as F (bump n k ds) (Iex_RdTmp t) ty"
  by (simp add: ready_as_def ready_def bump_def typeOfIRTemp_eq)

lemma unop_passes:
  assumes "typeOfIRTemp (sb_tyenv bb) n = Inr td" "typeOfPrimop op = Inr (UNARY ta td)" "ready_as (sb_tyenv bb) ds a ta"
    "ta \<noteq> Ity_I1" "ta \<noteq> Ity_INVALID" "fresh_from n ds"
  shows "passes bb w [Ist_WrTmp n (Iex_Unop op a)] ds (bump n 1 ds)"
  using assms ready_checked [OF assms(3,4)] by (intro assign_passes) (auto simp: UNARY_def ready_as_def)

lemma binop_passes:
  assumes "typeOfIRTemp (sb_tyenv bb) n = Inr td" "typeOfPrimop op = Inr (BINARY ta tb td)" "ready_as (sb_tyenv bb) ds a ta"
    "ready_as (sb_tyenv bb) ds b tb" "ta \<notin> {Ity_I1, Ity_INVALID}" "tb \<notin> {Ity_I1, Ity_INVALID}" "fresh_from n ds"
  shows "passes bb w [Ist_WrTmp n (Iex_Binop op a b)] ds (bump n 1 ds)"
  using assms ready_checked [OF assms(3)] ready_checked [OF assms(4)] by (intro assign_passes) (auto simp: BINARY_def ready_as_def)

section \<open>Events\<close>

definition types_at :: "IRTypeEnv \<Rightarrow> nat \<Rightarrow> IRType list \<Rightarrow> bool" where
  "types_at F n tys \<longleftrightarrow> (\<forall>i < length tys. typeOfIRTemp F (n + i) = Inr (tys ! i))"

lemma types_at_Cons: "types_at F n (ty # tys) \<longleftrightarrow> typeOfIRTemp F n = Inr ty \<and> types_at F (Suc n) tys"
  by (auto simp: types_at_def less_Suc_eq_0_disj nth_Cons split: nat.splits)

lemma types_at_Nil [simp]: "types_at F n []"
  by (simp add: types_at_def)

lemma types_at_append: "types_at F n (xs @ ys) \<longleftrightarrow> types_at F n xs \<and> types_at F (n + length xs) ys"
  by (induction xs arbitrary: n) (simp_all add: types_at_Cons)

lemma store_call_passes:
  assumes "ready_as (sb_tyenv bb) ds a tyA" "ready_as (sb_tyenv bb) ds d Ity_I64" "tyA = Ity_I32 \<or> tyA = Ity_I64" "guard_ok (sb_tyenv bb) w g"
  shows "passes bb w [store_call g a k d] ds ds"
proof -
  have "ready_as (sb_tyenv bb) ds (mkIRExpr_HWord k) Ity_I64" by (simp add: ready_as_def mkIRExpr_HWord_def)
  then show ?thesis unfolding store_call_def using assms by (intro tool_call_passes) auto
qed

lemma part_passes:
  assumes a: "ready_as (sb_tyenv bb) ds addr tyA" "tyA = Ity_I32 \<or> tyA = Ity_I64" and d: "ready_as (sb_tyenv bb) ds data ty" "ty \<notin> {Ity_I1, Ity_INVALID}"
    and op: "typeOfPrimop op = Inr (UNARY ty Ity_I64)" and g: "guard_ok (sb_tyenv bb) w g"
    and fr: "fresh_from n ds" and ty: "types_at (sb_tyenv bb) n [tyA, Ity_I64]"
  shows "passes bb w (fst (part_shape n tyA addr data g k (op, off))) ds (bump n 2 ds)"
proof -
  let ?e = "if tyA = Ity_I32 then Iex_Binop Iop_Add32 addr (Iex_Const (Ico_U32 (of_nat off)))
    else Iex_Binop Iop_Add64 addr (Iex_Const (Ico_U64 (of_nat off)))"
  have t: "typeOfIRTemp (sb_tyenv bb) n = Inr tyA" "typeOfIRTemp (sb_tyenv bb) (Suc n) = Inr Ity_I64"
    using ty by (simp_all add: types_at_Cons)
  have c: "ready_as (sb_tyenv bb) ds (Iex_Const c) (typeOfIRConst c)" for c by (simp add: ready_as_def)
  have "passes bb w [Ist_WrTmp n ?e] ds (bump n 1 ds)"
    using a(2) binop_passes [OF t(1) _ a(1) _ _ _ fr, of Iop_Add32 Ity_I32] binop_passes [OF t(1) _ a(1) _ _ _ fr, of Iop_Add64 Ity_I64]
      c [of "Ico_U32 (of_nat off)"] c [of "Ico_U64 (of_nat off)"] by auto
  moreover have "passes bb w [Ist_WrTmp (Suc n) (Iex_Unop op data)] (bump n 1 ds) (bump (Suc n) 1 (bump n 1 ds))"
    using fresh_bump [OF fr, of 1] ready_as_mono [OF d(1) bump_le] d(2) by (intro unop_passes [OF t(2) op]) auto
  moreover have "bump (Suc n) 1 (bump n 1 ds) = bump n 2 ds" by (subst bump_bump) (simp_all add: numeral_2_eq_2)
  moreover have "passes bb w [store_call g (Iex_RdTmp n) k (Iex_RdTmp (Suc n))] (bump n 2 ds) (bump n 2 ds)"
    using store_call_passes [OF bumped_ready [OF t(1)] bumped_ready [OF t(2)] a(2) g, of n 2] by simp
  ultimately show ?thesis by (auto simp: part_shape_def intro: passes_Cons)
qed

lemma parts_passes:
  assumes a: "ready_as (sb_tyenv bb) ds addr tyA" "tyA = Ity_I32 \<or> tyA = Ity_I64" and d: "ready_as (sb_tyenv bb) ds data ty" "ty \<notin> {Ity_I1, Ity_INVALID}"
    and g: "guard_ok (sb_tyenv bb) w g" and ops: "\<forall>(op, off) \<in> set ps. typeOfPrimop op = Inr (UNARY ty Ity_I64)"
    and fr: "fresh_from n ds" and ty: "types_at (sb_tyenv bb) n (snd (parts_shape n tyA addr data g k ps))"
  shows "passes bb w (fst (parts_shape n tyA addr data g k ps)) ds (bump n (length (snd (parts_shape n tyA addr data g k ps))) ds)"
  using a(1) d(1) ops fr ty
proof (induction ps arbitrary: n ds)
  case (Cons p ps)
  obtain op off where p: "p = (op, off)" by (cases p)
  have s: "snd (part_shape n tyA addr data g k p) = [tyA, Ity_I64]" by (simp add: p part_shape_def)
  have t: "types_at (sb_tyenv bb) n [tyA, Ity_I64]" "types_at (sb_tyenv bb) (n + 2) (snd (parts_shape (n + 2) tyA addr data g k ps))"
    using Cons.prems(5) unfolding parts_shape.simps join_simps s types_at_append by simp_all
  have "passes bb w (fst (part_shape n tyA addr data g k (op, off))) ds (bump n 2 ds)"
    using part_passes [OF Cons.prems(1) a(2) Cons.prems(2) d(2) _ g Cons.prems(4) t(1), of op] Cons.prems(3) p by auto
  moreover have "passes bb w (fst (parts_shape (n + 2) tyA addr data g k ps)) (bump n 2 ds)
      (bump (n + 2) (length (snd (parts_shape (n + 2) tyA addr data g k ps))) (bump n 2 ds))"
    using Cons.prems ready_as_mono [OF _ bump_le] fresh_bump [OF Cons.prems(4), of 2] t(2) by (intro Cons.IH) auto
  ultimately show ?case using passes_append s by (fastforce simp: p bump_bump)
qed simp

lemma wide_ops: "ty = Ity_V128 \<or> ty = Ity_V256 \<Longrightarrow> \<forall>(op, off) \<in> set (wide_parts ty en). typeOfPrimop op = Inr (UNARY ty Ity_I64)"
  by (auto simp: wide_parts_def)

lemma event_passes:
  assumes a: "ready_as (sb_tyenv bb) ds addr tyA" "tyA = Ity_I32 \<or> tyA = Ity_I64" and d: "ready_as (sb_tyenv bb) ds data ty" "ty \<notin> {Ity_I1, Ity_INVALID}"
    and g: "guard_ok (sb_tyenv bb) w g" and fr: "fresh_from n ds" and ty: "types_at (sb_tyenv bb) n (snd (event_shape n tyA addr k g data ty))"
  shows "passes bb w (fst (event_shape n tyA addr k g data ty)) ds (bump n (length (snd (event_shape n tyA addr k g data ty))) ds)"
proof -
  have wide: "passes bb w (fst (wide_shape n tyA addr k g data ty)) ds (bump n (length (snd (wide_shape n tyA addr k g data ty))) ds)"
    if "ty = Ity_V128 \<or> ty = Ity_V256" "types_at (sb_tyenv bb) n (snd (wide_shape n tyA addr k g data ty))"
    using parts_passes [OF a d g wide_ops [OF that(1)] fr that(2) [unfolded wide_shape_def]] by (simp add: wide_shape_def)
  have at: "isIRAtom data = Inr True" using d(1) ready_atom by (auto simp: ready_as_def)
  show ?thesis
  proof (cases rule: isIRAtom_cases [OF at])
    case (1 t)
    have conv: "passes bb w [Ist_WrTmp n (Iex_Unop (conv_op ty) data), store_call g addr (of_nat k) (Iex_RdTmp n)] ds (bump n 1 ds)"
      if "ty = Ity_F64 \<or> tmp_needs_widen ty" "typeOfIRTemp (sb_tyenv bb) n = Inr Ity_I64"
    proof (rule passes_Cons)
      have "typeOfPrimop (conv_op ty) = Inr (UNARY ty Ity_I64)" using that(1) by (auto simp: tmp_needs_widen_def)
      then show "passes bb w [Ist_WrTmp n (Iex_Unop (conv_op ty) data)] ds (bump n 1 ds)"
        using unop_passes [OF that(2) _ d(1) _ _ fr] d(2) by simp
      show "passes bb w [store_call g addr (of_nat k) (Iex_RdTmp n)] (bump n 1 ds) (bump n 1 ds)"
        using store_call_passes [OF ready_as_mono [OF a(1) bump_le] bumped_ready [OF that(2)] a(2) g, of n 1] by simp
    qed
    show ?thesis using wide conv ty d(1) [unfolded 1] store_call_passes [OF a(1) _ a(2) g, of "Iex_RdTmp t"]
      by (auto simp: 1 types_at_Cons split: if_splits)
  next
    case (2 c)
    have "ready_as (sb_tyenv bb) ds (mkIRExpr_HWord u) Ity_I64" for u by (simp add: ready_as_def mkIRExpr_HWord_def)
    then show ?thesis using wide ty store_call_passes [OF a(1) _ a(2) g] by (auto simp: 2 split: if_splits option.splits)
  qed
qed

section \<open>Statements of the client\<close>

text \<open>The counters of the instrumented block: as for the client's temporaries, one for the temporaries
  added so far.\<close>

definition counts :: "nat \<Rightarrow> nat \<Rightarrow> def_counts \<Rightarrow> def_counts \<Rightarrow> bool" where
  "counts N n ds0 ds \<longleftrightarrow> N \<le> n \<and> fresh_from N ds0 \<and> ds = bump N (n - N) ds0"

lemma counts_le: "counts N n ds0 ds \<Longrightarrow> defs_le ds0 ds"
  by (simp add: counts_def bump_le)

lemma counts_fresh: "counts N n ds0 ds \<Longrightarrow> fresh_from n ds"
  using fresh_bump [of N ds0 "n - N"] by (simp add: counts_def)

lemma counts_bump: "counts N n ds0 ds \<Longrightarrow> counts N (n + k) ds0 (bump n k ds)"
  by (auto simp: counts_def bump_bump)

lemma counts_assign:
  assumes "counts N n ds0 ds" "assignedOnce_Temp t N m1 m2 ds0 = Inr ds0'" "N \<le> M"
  shows "\<exists>ds'. assignedOnce_Temp t M m1 m2 ds = Inr ds' \<and> counts N n ds0' ds' \<and> 0 < ds' t"
proof -
  have t: "t < N" "ds0 t = 0" "ds0' = ds0(t := 1)" using assms(2) by (auto simp: assignedOnce_Temp_def sane_eq_Inr)
  have ds: "ds t = 0" using t assms(1) by (simp add: counts_def bump_def)
  have "counts N n ds0' (ds(t := 1))" using assms(1) t by (auto simp: counts_def fresh_from_def bump_def)
  then show ?thesis using t ds assms(3) by (simp add: assignedOnce_Temp_def)
qed

lemma counts_stmt:
  assumes "counts N n ds0 ds" "assignedOnce_Stmt st N ds0 = Inr ds0'" "N \<le> M"
  shows "\<exists>ds'. assignedOnce_Stmt st M ds = Inr ds' \<and> counts N n ds0' ds'"
proof (cases st)
  case (Ist_CAS cas)
  obtain ds1 where 1: "(if cas_oldHi cas \<noteq> IRTemp_INVALID then assignedOnce_Temp (cas_oldHi cas) N ''IRStmt.CAS: destination tmpHi is out of range''
      ''IRStmt.CAS: destination tmpHi is assigned more than once'' ds0 else Inr ds0) = Inr ds1"
    "assignedOnce_Temp (cas_oldLo cas) N ''IRStmt.CAS: destination tmpLo is out of range''
       ''IRStmt.CAS: destination tmpLo is assigned more than once'' ds1 = Inr ds0'"
    using assms(2) unfolding Ist_CAS assignedOnce_Stmt.simps rbind_eq_Inr by blast
  obtain ds' where "(if cas_oldHi cas \<noteq> IRTemp_INVALID then assignedOnce_Temp (cas_oldHi cas) M ''IRStmt.CAS: destination tmpHi is out of range''
      ''IRStmt.CAS: destination tmpHi is assigned more than once'' ds else Inr ds) = Inr ds'" "counts N n ds1 ds'"
    using 1(1) counts_assign [OF assms(1) _ assms(3)] assms(1) by (cases "cas_oldHi cas = IRTemp_INVALID") (simp_all, blast)
  then show ?thesis using counts_assign [OF _ 1(2) assms(3)] by (auto simp: Ist_CAS)
next
  case (Ist_WrTmp t e)
  then show ?thesis using assms counts_assign [OF assms(1) _ assms(3)] by (simp, blast)
next
  case (Ist_LoadG lg)
  then show ?thesis using assms counts_assign [OF assms(1) _ assms(3)] by (simp, blast)
next
  case (Ist_LLSC en t addr data)
  then show ?thesis using assms counts_assign [OF assms(1) _ assms(3)] by (simp, blast)
next
  case (Ist_Dirty d)
  then show ?thesis using assms counts_assign [OF assms(1) _ assms(3)] by (cases "di_tmp d = IRTemp_INVALID") (simp_all, blast)
qed (use assms in auto)

lemma assign_le: "assignedOnce_Temp t M m1 m2 ds = Inr ds' \<Longrightarrow> defs_le ds ds' \<and> 0 < ds' t"
  by (auto simp: assignedOnce_Temp_def sane_eq_Inr defs_le_def)

lemma defs_le_trans: "defs_le a b \<Longrightarrow> defs_le b c \<Longrightarrow> defs_le a c"
  by (simp add: defs_le_def)

lemma assigned_le:
  assumes "assignedOnce_Stmt st M ds = Inr ds'"
  shows "defs_le ds ds'"
proof -
  have refl: "defs_le ds ds" for ds by (simp add: defs_le_def)
  show ?thesis using assms refl
    by (cases st) (auto simp: rbind_eq_Inr dest!: assign_le split: if_splits intro: defs_le_trans)
qed

lemma assigned_cas: "assignedOnce_Stmt (Ist_CAS cas) M ds = Inr ds' \<Longrightarrow> 0 < ds' (cas_oldLo cas)"
  by (auto simp: rbind_eq_Inr dest: assign_le)

lemma data_passes:
  assumes E: "env_le (sb_tyenv bb) (sb_tyenv bb')" and at: "isIRAtom addr = Inr True" "isIRAtom data = Inr True"
    and use: "useBeforeDef_Expr bb ds0 addr = Inr ()" "useBeforeDef_Expr bb ds0 data = Inr ()" "defs_le ds0 ds"
    and ty: "typeOfIRExpr (sb_tyenv bb) addr = Inr w" "w = Ity_I32 \<or> w = Ity_I64" "typeOfIRExpr (sb_tyenv bb) data = Inr ty" "ty \<notin> {Ity_I1, Ity_INVALID}"
    and g: "guard_ok (sb_tyenv bb') w g" and fr: "fresh_from n ds" and tys: "types_at (sb_tyenv bb') n (snd (data_shape n (sb_tyenv bb) addr g data))"
  shows "passes bb' w (fst (data_shape n (sb_tyenv bb) addr g data)) ds (bump n (length (snd (data_shape n (sb_tyenv bb) addr g data))) ds)"
proof -
  have "ready_as (sb_tyenv bb') ds addr w" "ready_as (sb_tyenv bb') ds data ty"
    using used_ready [OF at(1) use(1) E use(3)] used_ready [OF at(2) use(2) E use(3)] typeOfIRExpr_mono [OF E] ty
    by (simp_all add: ready_as_def)
  then show ?thesis using event_passes [OF _ ty(2) _ ty(4) g fr] tys ty(1,3) by (simp add: data_shape_def)
qed

lemma guard_ok_mono: "env_le E F \<Longrightarrow> isIRAtom g = Inr True \<Longrightarrow> tcExpr E w g = Inr () \<Longrightarrow> typeOfIRExpr E g = Inr Ity_I1 \<Longrightarrow> guard_ok F w g"
  by (auto simp: guard_ok_def dest: typeOfIRExpr_mono tcExpr_mono)

lemma guard_ok_NULL [simp]: "guard_ok F w Iex_NULL"
  by (simp add: guard_ok_def)

lemma cas_passes:
  assumes E: "env_le (sb_tyenv bb) (sb_tyenv bb')" and fl: "isFlatIRStmt (Ist_CAS cas) = Inr True" and tc: "tcStmt (sb_tyenv bb) w (Ist_CAS cas) = Inr ()"
    and use: "useBeforeDef_Stmt bb (Ist_CAS cas) ds0 = Inr ()" "defs_le ds0 ds" "0 < ds (cas_oldLo cas)" and w: "w = Ity_I32 \<or> w = Ity_I64"
    and fr: "fresh_from n ds" and tys: "types_at (sb_tyenv bb') n (snd (added_shape opts (sb_tyenv bb) n (Ist_CAS cas)))"
  shows "passes bb' w (fst (added_shape opts (sb_tyenv bb) n (Ist_CAS cas))) ds
    (bump n (length (snd (added_shape opts (sb_tyenv bb) n (Ist_CAS cas)))) ds)"
proof -
  let ?E = "sb_tyenv bb" and ?F = "sb_tyenv bb'" and ?g = "Iex_RdTmp n"
  let ?d = "data_shape (Suc n) ?E (cas_addr cas) ?g (cas_dataLo cas)"
  obtain ty where ty: "typeOfIRExpr ?E (cas_expdLo cas) = Inr ty" "typeOfIRExpr ?E (cas_dataLo cas) = Inr ty"
    "typeOfIRTemp ?E (cas_oldLo cas) = Inr ty" "ty \<in> {Ity_I8, Ity_I16, Ity_I32, Ity_I64}" "typeOfIRExpr ?E (cas_addr cas) = Inr w"
    using tc by (auto simp: tcCAS_def check_eq_Inr Let_def split: if_splits)
  have at: "isIRAtom (cas_addr cas) = Inr True" "isIRAtom (cas_dataLo cas) = Inr True" "isIRAtom (cas_expdLo cas) = Inr True"
    using fl by (auto simp: all_atoms_eq isIRAtom_or_NULL_def simp del: all_atoms.simps split: if_splits)
  have us: "useBeforeDef_Expr bb ds0 (cas_addr cas) = Inr ()" "useBeforeDef_Expr bb ds0 (cas_dataLo cas) = Inr ()"
    "useBeforeDef_Expr bb ds0 (cas_expdLo cas) = Inr ()" using use(1) by (auto simp: check_eq_Inr)
  obtain eq where g: "cas_guard ?E cas = Iex_Binop eq (cas_expdLo cas) (Iex_RdTmp (cas_oldLo cas))" "typeOfPrimop eq = Inr (BINARY ty ty Ity_I1)"
    using ty(1,4) by (auto simp: cas_guard_def COMPARISON_def)
  have t: "typeOfIRTemp ?F n = Inr Ity_I1" "types_at ?F (Suc n) (snd ?d)" using tys by (simp_all add: types_at_Cons)
  have r: "ready_as ?F ds (cas_expdLo cas) ty" "ready_as ?F ds (Iex_RdTmp (cas_oldLo cas)) ty"
    using used_ready [OF at(3) us(3) E use(2)] typeOfIRExpr_mono [OF E ty(1)] typeOfIRTemp_mono [OF E ty(3)] use(3)
    by (simp_all add: ready_as_def ready_def typeOfIRTemp_eq)
  have "passes bb' w [Ist_WrTmp n (cas_guard ?E cas)] ds (bump n 1 ds)"
    unfolding g(1) using ty(4) by (intro binop_passes [OF t(1) g(2) r _ _ fr]) auto
  moreover have "guard_ok ?F w ?g" using t(1) by (simp add: guard_ok_def)
  then have "passes bb' w (fst ?d) (bump n 1 ds) (bump (Suc n) (length (snd ?d)) (bump n 1 ds))"
    using data_passes [OF E at(1,2) us(1,2) defs_le_trans [OF use(2) bump_le] ty(5) w ty(2) _ _ _ t(2)] ty(4) fresh_bump [OF fr, of 1]
    by auto
  ultimately show ?thesis using passes_Cons [of bb' w _ ds "bump n 1 ds"] by (simp add: bump_bump)
qed

lemma flush_call_passes: "ready_as (sb_tyenv bb) ds addr ty \<Longrightarrow> ty \<noteq> Ity_I1 \<Longrightarrow> passes bb w [flush_call addr] ds ds"
  by (rule tool_call_passes) auto

lemma plain_call_passes: "passes bb w [tool_call 0 nm Iex_NULL []] ds ds"
  by (rule tool_call_passes) auto

lemma added_passes:
  assumes E: "env_le (sb_tyenv bb) (sb_tyenv bb')" and fl: "isFlatIRStmt st = Inr True" and tc: "tcStmt (sb_tyenv bb) w st = Inr ()"
    and use: "useBeforeDef_Stmt bb st ds0 = Inr ()" "defs_le ds0 ds" "\<And>cas. st = Ist_CAS cas \<Longrightarrow> 0 < ds (cas_oldLo cas)"
    and w: "w = Ity_I32 \<or> w = Ity_I64" and valid: "Ity_INVALID \<notin> set (te_types (sb_tyenv bb))"
    and fr: "fresh_from n ds" and tys: "types_at (sb_tyenv bb') n (snd (added_shape opts (sb_tyenv bb) n st))"
  shows "passes bb' w (fst (added_shape opts (sb_tyenv bb) n st)) ds (bump n (length (snd (added_shape opts (sb_tyenv bb) n st))) ds)"
proof (cases st)
  case (Ist_Store en addr data)
  have at: "isIRAtom addr = Inr True" "isIRAtom data = Inr True" using fl Ist_Store by (auto simp: all_atoms_eq simp del: all_atoms.simps)
  obtain ty where "typeOfIRExpr (sb_tyenv bb) data = Inr ty" "ty \<noteq> Ity_I1" "typeOfIRExpr (sb_tyenv bb) addr = Inr w"
    using tc Ist_Store by (auto simp: check_eq_Inr)
  moreover have "useBeforeDef_Expr bb ds0 addr = Inr ()" "useBeforeDef_Expr bb ds0 data = Inr ()"
    using use(1) Ist_Store by (auto simp: check_eq_Inr)
  ultimately show ?thesis using data_passes [OF E at _ _ use(2) _ w _ _ guard_ok_NULL fr] atom_type_valid [OF at(2) _ valid] tys
    by (simp add: Ist_Store)
next
  case (Ist_StoreG sg)
  have at: "isIRAtom (sg_addr sg) = Inr True" "isIRAtom (sg_data sg) = Inr True" "isIRAtom (sg_guard sg) = Inr True"
    using fl Ist_StoreG by (auto simp: all_atoms_eq simp del: all_atoms.simps)
  obtain ty where ty: "typeOfIRExpr (sb_tyenv bb) (sg_data sg) = Inr ty" "ty \<noteq> Ity_I1" "typeOfIRExpr (sb_tyenv bb) (sg_addr sg) = Inr w"
    "guard_ok (sb_tyenv bb') w (sg_guard sg)" using tc Ist_StoreG guard_ok_mono [OF E at(3)] by (auto simp: check_eq_Inr)
  moreover have "useBeforeDef_Expr bb ds0 (sg_addr sg) = Inr ()" "useBeforeDef_Expr bb ds0 (sg_data sg) = Inr ()"
    using use(1) Ist_StoreG by (auto simp: check_eq_Inr)
  ultimately show ?thesis using data_passes [OF E at(1,2) _ _ use(2) _ w _ _ ty(4) fr] atom_type_valid [OF at(2) _ valid] tys
    by (simp add: Ist_StoreG)
next
  case (Ist_CAS cas)
  then show ?thesis using cas_passes [OF E _ _ _ use(2) use(3) w fr, of cas opts] fl tc use(1) tys by metis
next
  case (Ist_LLSC en result addr data)
  show ?thesis
  proof (cases "data = Iex_NULL")
    case False
    then have at: "isIRAtom addr = Inr True" "isIRAtom data = Inr True"
      using fl Ist_LLSC by (auto simp: all_atoms_eq isIRAtom_or_NULL_def simp del: all_atoms.simps)
    obtain ty where "typeOfIRExpr (sb_tyenv bb) data = Inr ty" "ty \<notin> {Ity_I1, Ity_INVALID}" "typeOfIRExpr (sb_tyenv bb) addr = Inr w"
      using tc Ist_LLSC False by (auto simp: check_eq_Inr tcLLSC_def)
    moreover have "useBeforeDef_Expr bb ds0 addr = Inr ()" "useBeforeDef_Expr bb ds0 data = Inr ()"
      using use(1) Ist_LLSC False by (auto simp: check_eq_Inr use_if_given_def)
    ultimately show ?thesis using data_passes [OF E at _ _ use(2) _ w _ _ guard_ok_NULL fr] tys False by (simp add: Ist_LLSC)
  qed (simp add: Ist_LLSC)
next
  case (Ist_Flush addr fk)
  have "isIRAtom addr = Inr True" "useBeforeDef_Expr bb ds0 addr = Inr ()" "typeOfIRExpr (sb_tyenv bb) addr = Inr w"
    using fl use(1) tc Ist_Flush by (auto simp: check_eq_Inr)
  then have "ready_as (sb_tyenv bb') ds addr w" using used_ready [OF _ _ E use(2)] typeOfIRExpr_mono [OF E] by (simp add: ready_as_def)
  then have "passes bb' w [flush_call addr] ds ds" using flush_call_passes w by blast
  then show ?thesis using passes_Cons plain_call_passes by (auto simp: Ist_Flush)
next
  case (Ist_MBE ev)
  then show ?thesis using plain_call_passes by simp
qed simp_all

lemma stmt_passes:
  assumes E: "env_le (sb_tyenv bb) (sb_tyenv bb')" and fl: "st \<noteq> Ist_NULL" "isFlatIRStmt st = Inr True" and tc: "tcStmt (sb_tyenv bb) w st = Inr ()"
    and use: "useBeforeDef_Stmt bb st ds0 = Inr ()" and asg: "assignedOnce_Stmt st (n_temps bb) ds0 = Inr ds0'"
    and w: "w = Ity_I32 \<or> w = Ity_I64" and valid: "Ity_INVALID \<notin> set (te_types (sb_tyenv bb))" and c: "counts (n_temps bb) n ds0 ds"
    and tys: "types_at (sb_tyenv bb') n (snd (stmt_shape opts (sb_tyenv bb) n st))"
  shows "\<exists>ds'. passes bb' w (fst (stmt_shape opts (sb_tyenv bb) n st)) ds ds' \<and>
    counts (n_temps bb) (n + length (snd (stmt_shape opts (sb_tyenv bb) n st))) ds0' ds'"
proof -
  have "n_temps bb \<le> length (te_types (sb_tyenv bb'))" using E by (auto simp: n_temps_def env_le_def)
  from counts_stmt [OF c asg this] obtain ds1 where 1: "assignedOnce_Stmt st (length (te_types (sb_tyenv bb'))) ds = Inr ds1" "counts (n_temps bb) n ds0' ds1"
    by blast
  have p: "passes bb' w [st] ds ds1"
    using fl tcStmt_mono [OF E tc] useBeforeDef_Stmt_mono [OF E counts_le [OF c] use] 1(1) by (simp add: passes_def)
  have le: "defs_le ds0 ds1" using defs_le_trans [OF counts_le [OF c] assigned_le [OF 1(1)]] .
  show ?thesis
  proof (cases "kept st")
    case True
    have t: "types_at (sb_tyenv bb') n (snd (added_shape opts (sb_tyenv bb) n st))" using tys True by (simp add: stmt_shape_def)
    have "passes bb' w (fst (added_shape opts (sb_tyenv bb) n st)) ds1 (bump n (length (snd (added_shape opts (sb_tyenv bb) n st))) ds1)"
      using assigned_cas 1(1) by (intro added_passes [OF E fl(2) tc use le _ w valid counts_fresh [OF 1(2)] t]) auto
    then show ?thesis using True passes_append [OF p] counts_bump [OF 1(2)] by (auto simp: stmt_shape_def)
  next
    case False
    then have "st = Ist_NoOp" using fl(1) by (simp add: kept_def)
    then show ?thesis using False c asg by (auto simp: stmt_shape_def)
  qed
qed

lemma preamble_passes:
  assumes E: "env_le (sb_tyenv bb) (sb_tyenv bb')" and c: "check_flat sts = Inr ()" "check_types (sb_tyenv bb) w sts = Inr ()"
    "check_defs bb sts ds0 = Inr ds0'" "counts (n_temps bb) n ds0 ds"
  shows "\<exists>ds'. passes bb' w sts ds ds' \<and> counts (n_temps bb) n ds0' ds'"
  using c
proof (induction sts arbitrary: ds0 ds)
  case (Cons st sts)
  obtain ds1 where 1: "useBeforeDef_Stmt bb st ds0 = Inr ()" "assignedOnce_Stmt st (n_temps bb) ds0 = Inr ds1" "check_defs bb sts ds1 = Inr ds0'"
    using Cons.prems(3) by (auto simp: check_eq_Inr n_temps_def)
  have st: "st \<noteq> Ist_NULL" "isFlatIRStmt st = Inr True" "tcStmt (sb_tyenv bb) w st = Inr ()" "check_flat sts = Inr ()" "check_types (sb_tyenv bb) w sts = Inr ()"
    using Cons.prems(1,2) by (auto simp: check_eq_Inr)
  have "n_temps bb \<le> length (te_types (sb_tyenv bb'))" using E by (auto simp: n_temps_def env_le_def)
  from counts_stmt [OF Cons.prems(4) 1(2) this] obtain ds2 where 2: "assignedOnce_Stmt st (length (te_types (sb_tyenv bb'))) ds = Inr ds2"
    "counts (n_temps bb) n ds1 ds2" by blast
  have "passes bb' w [st] ds ds2"
    using st tcStmt_mono [OF E st(3)] useBeforeDef_Stmt_mono [OF E counts_le [OF Cons.prems(4)] 1(1)] 2(1) by (simp add: passes_def)
  then show ?case using Cons.IH [OF st(4,5) 1(3) 2(2)] passes_Cons by blast
qed simp

lemma body_passes:
  assumes E: "env_le (sb_tyenv bb) (sb_tyenv bb')" and w: "w = Ity_I32 \<or> w = Ity_I64" and valid: "Ity_INVALID \<notin> set (te_types (sb_tyenv bb))"
    and c: "check_flat sts = Inr ()" "check_types (sb_tyenv bb) w sts = Inr ()" "check_defs bb sts ds0 = Inr ds0'" "counts (n_temps bb) n ds0 ds"
    "types_at (sb_tyenv bb') n (snd (body_shape opts (sb_tyenv bb) n sts))"
  shows "\<exists>ds'. passes bb' w (fst (body_shape opts (sb_tyenv bb) n sts)) ds ds'"
  using c
proof (induction sts arbitrary: ds0 ds n)
  case (Cons st sts)
  let ?new = "stmt_shape opts (sb_tyenv bb) n st"
  obtain ds1 where 1: "useBeforeDef_Stmt bb st ds0 = Inr ()" "assignedOnce_Stmt st (n_temps bb) ds0 = Inr ds1" "check_defs bb sts ds1 = Inr ds0'"
    using Cons.prems(3) by (auto simp: check_eq_Inr n_temps_def)
  have st: "st \<noteq> Ist_NULL" "isFlatIRStmt st = Inr True" "tcStmt (sb_tyenv bb) w st = Inr ()" "check_flat sts = Inr ()" "check_types (sb_tyenv bb) w sts = Inr ()"
    using Cons.prems(1,2) by (auto simp: check_eq_Inr)
  have t: "types_at (sb_tyenv bb') n (snd ?new)" "types_at (sb_tyenv bb') (n + length (snd ?new)) (snd (body_shape opts (sb_tyenv bb) (n + length (snd ?new)) sts))"
    using Cons.prems(5) by (simp_all add: Let_def types_at_append)
  obtain ds2 where 2: "passes bb' w (fst ?new) ds ds2" "counts (n_temps bb) (n + length (snd ?new)) ds1 ds2"
    using stmt_passes [OF E st(1-3) 1(1,2) w valid Cons.prems(4) t(1)] by blast
  show ?case using Cons.IH [OF st(4,5) 1(3) 2(2) t(2)] passes_append [OF 2(1)] by (auto simp: Let_def)
qed (metis body_shape.simps(1) fst_conv passes_Nil)

lemma pmc_instrument_sane:
  assumes sane: "sanityCheckIRSB bb True w = Inr ()" and tr: "traceable bb" and out: "pmc_instrument opts bb w w = Inr (out, msgs)"
  shows "sanityCheckIRSB out True w = Inr ()"
proof -
  obtain ds where p: "w = Ity_I32 \<or> w = Ity_I64" "check_flat (sb_stmts bb) = Inr ()" "isIRAtom (sb_next bb) = Inr True"
    "check_defs bb (sb_stmts bb) (\<lambda>tmp. 0) = Inr ds" "check_types (sb_tyenv bb) w (sb_stmts bb) = Inr ()"
    "typeOfIRExpr (sb_tyenv bb) (sb_next bb) = Inr w" "16 \<le> sb_offsIP bb" by (rule sanity_parts [OF sane])
  let ?new = "instrumented opts bb" and ?pre = "preamble (sb_stmts bb)" and ?rest = "marked (sb_stmts bb)"
  let ?body = "body_shape opts (sb_tyenv bb) (n_temps bb) ?rest"
  have o: "sb_ok out" "sb_stmts out = ?pre @ entered_call # fst ?body" "te_types (sb_tyenv out) = te_types (sb_tyenv bb) @ snd ?body"
    "sb_next out = sb_next bb" "sb_offsIP out = sb_offsIP bb"
    using pmc_instrument_grow [OF sane tr, of opts] out by (auto simp: instrumented_def Let_def)
  have E: "env_le (sb_tyenv bb) (sb_tyenv out)" using o(3) by (auto simp: env_le_def)
  have valid: "Ity_INVALID \<notin> set (te_types (sb_tyenv bb))" using tr by (simp add: traceable_def)
  note parts = marked_checks(4,2,5,3) [OF sane]
  have "rbind (check_defs bb ?pre (\<lambda>tmp. 0)) (check_defs bb ?rest) = Inr ds"
    using p(4) unfolding check_defs_append [symmetric] split_marked .
  then obtain ds1 where d: "check_defs bb ?pre (\<lambda>tmp. 0) = Inr ds1" "check_defs bb ?rest ds1 = Inr ds"
    unfolding rbind_eq_Inr by blast
  have "counts (n_temps bb) (n_temps bb) (\<lambda>tmp. 0) (\<lambda>tmp. 0)" by (simp add: counts_def fresh_from_def)
  from preamble_passes [OF E parts(1,3) d(1) this] obtain ds2 where 2: "passes out w ?pre (\<lambda>tmp. 0) ds2" "counts (n_temps bb) (n_temps bb) ds1 ds2" by blast
  have "types_at (sb_tyenv out) (n_temps bb) (snd ?body)" using o(3) by (simp add: types_at_def typeOfIRTemp_eq n_temps_def nth_append)
  from body_passes [OF E p(1) valid parts(2,4) d(2) 2(2) this] obtain ds3 where "passes out w (fst ?body) ds2 ds3" by blast
  then have "passes out w (sb_stmts out) (\<lambda>tmp. 0) ds3"
    unfolding o(2) using passes_append [OF 2(1)] passes_Cons [OF plain_call_passes] by blast
  then show ?thesis using o p(1,3,7) typeOfIRExpr_mono [OF E p(6)] by (simp add: sanityCheckIRSB_def passes_def sb_ok_def typed_def)
qed

end
