(* ===== verification/PMC_Cpuinfo_Laws.thy ===== *)
theory PMC_Cpuinfo_Laws
  imports PMC_Option_Laws
begin

text \<open>
  The search of \<open>read_cache_line_size\<close> finds the number in the line of the file that a chunk holds as a
  whole, and falls back to 64 bytes where no chunk holds it.
\<close>

lemma strstr_found:
  "\<forall>i < length pre. take (length needle) (drop i (pre @ needle @ aft)) \<noteq> needle \<Longrightarrow> needle \<noteq> [] \<Longrightarrow>
   strstr (pre @ needle @ aft) needle = Some (needle @ aft)"
proof (induction pre)
  case Nil
  then obtain x xs where "needle = x # xs" by (cases needle) auto
  then show ?case by simp
next
  case (Cons c pre)
  have "take (length needle) (c # pre @ needle @ aft) \<noteq> needle" using Cons.prems(1) by force
  moreover have "\<forall>i < length pre. take (length needle) (drop i (pre @ needle @ aft)) \<noteq> needle"
  proof (intro allI impI)
    fix i assume "i < length pre"
    then show "take (length needle) (drop i (pre @ needle @ aft)) \<noteq> needle" using Cons.prems(1) [rule_format, of "Suc i"] by simp
  qed
  ultimately show ?case using Cons.IH Cons.prems(2) by simp
qed

text \<open>A chunk without null bytes that stops short of the end of the buffer is the start of the string.\<close>

lemma c_string_piece:
  assumes "length chunk \<le> proc_read_size" "CHR 0x00 \<notin> set chunk"
  shows "\<exists>aft. c_string ((fill chunk buf)(proc_read_size := CHR 0x00)) = chunk @ aft"
proof -
  let ?b = "(fill chunk buf)(proc_read_size := CHR 0x00)"
  have "map ?b [0 ..< length chunk] = chunk" using assms(1) by (intro nth_equalityI) (auto simp: fill_def)
  moreover have "[0 ..< Suc proc_read_size] = [0 ..< length chunk] @ [length chunk ..< Suc proc_read_size]"
    using assms(1) upt_add_eq_append [of 0 "length chunk" "Suc proc_read_size - length chunk"] by simp
  ultimately have "map ?b [0 ..< Suc proc_read_size] = chunk @ map ?b [length chunk ..< Suc proc_read_size]" by (metis map_append)
  moreover have "takeWhile (\<lambda>c. c \<noteq> CHR 0x00) chunk = chunk" using assms(2) by (auto simp: takeWhile_eq_all_conv)
  ultimately show ?thesis unfolding c_string_def using assms(2) by (auto simp: takeWhile_append)
qed

lemma strtoll10_line:
  assumes "\<not> is_digit c"
  shows "fst (strtoll10 (decimal n @ c # aft)) = of_nat n"
proof -
  have d: "decimal n \<noteq> []" "\<And>x. x \<in> set (decimal n) \<Longrightarrow> is_digit x \<and> \<not> is_space x \<and> x \<noteq> CHR ''-'' \<and> x \<noteq> CHR ''+''"
    using decimal_digits by blast+
  then obtain x xs where xs: "decimal n = x # xs" by (cases "decimal n") auto
  have "takeWhile is_digit (decimal n @ c # aft) = decimal n" using d(2) assms by (auto simp: takeWhile_append)
  then show ?thesis using d(2) [of x] xs digits_value_decimal [of n] by (simp add: strtoll10_def)
qed

lemma read_loop_found:
  assumes chunk: "length chunk \<le> proc_read_size" "CHR 0x00 \<notin> set chunk" "chunk = pre @ clflush @ decimal n @ [CHR 0x0A] @ aft"
    and first: "\<forall>i < length pre. take (length clflush) (drop i chunk) \<noteq> clflush" and n: "0 < n" "n < 2 ^ 31"
  shows "read_loop (chunk # chunks) buf = of_nat n"
proof -
  obtain tail where t: "c_string ((fill chunk buf)(proc_read_size := CHR 0x00)) = chunk @ tail" using c_string_piece [OF chunk(1,2)] by blast
  have "take (length clflush) (drop i (pre @ clflush @ decimal n @ [CHR 0x0A] @ aft @ tail)) \<noteq> clflush" if "i < length pre" for i
  proof -
    have eq: "pre @ clflush @ decimal n @ [CHR 0x0A] @ aft @ tail = chunk @ tail" using chunk(3) by simp
    have "length clflush \<le> length (drop i chunk)" "i \<le> length chunk" using that chunk(3) by auto
    then show ?thesis unfolding eq using first that by simp
  qed
  then have "strstr (pre @ clflush @ (decimal n @ [CHR 0x0A] @ aft @ tail)) clflush = Some (clflush @ decimal n @ [CHR 0x0A] @ aft @ tail)"
    by (intro strstr_found) (auto simp: clflush_def)
  moreover have "fst (strtoll10 (decimal n @ CHR 0x0A # aft @ tail)) = of_nat n" by (rule strtoll10_line) (simp add: is_digit_def)
  moreover have "(of_nat n :: uword) \<noteq> 0" using n by (simp add: word_of_nat_eq_0_iff nat_dvd_not_less)
  moreover have "ucast (of_nat n :: uword) = (of_nat n :: 32 word)" using n(2) by (simp add: unsigned_of_nat take_bit_nat_eq_self)
  ultimately show ?thesis using chunk(3) t by (auto simp: Let_def line_size_def)
qed

text \<open>The buffer after a number of reads; what an earlier read left behind a shorter one stays.\<close>

definition loaded :: "buffer \<Rightarrow> string list \<Rightarrow> buffer" where
  "loaded = foldl (\<lambda>buf chunk. (fill chunk buf)(proc_read_size := CHR 0x00))"

definition unseen :: "buffer \<Rightarrow> string list \<Rightarrow> bool" where
  "unseen buf chunks \<longleftrightarrow> (\<forall>k < length chunks. strstr (c_string (loaded buf (take (Suc k) chunks))) clflush = None)"

lemma unseen_Cons:
  "unseen buf (p # ps) \<longleftrightarrow> strstr (c_string ((fill p buf)(proc_read_size := CHR 0x00))) clflush = None \<and>
     unseen ((fill p buf)(proc_read_size := CHR 0x00)) ps"
  unfolding unseen_def loaded_def by (auto simp: less_Suc_eq_0_disj)

lemma read_loop_skip:
  "[] \<notin> set skipped \<Longrightarrow> unseen buf skipped \<Longrightarrow> read_loop (skipped @ chunks) buf = read_loop chunks (loaded buf skipped)"
  by (induction skipped arbitrary: buf) (auto simp: unseen_Cons Let_def loaded_def)

lemma read_loop_default: "unseen buf chunks \<Longrightarrow> read_loop chunks buf = 64"
  by (induction chunks arbitrary: buf) (auto simp: unseen_Cons Let_def)

end
