(* ===== verification/PMC_Block_Examples.thy ===== *)
theory PMC_Block_Examples
  imports PMC_Examples PMC_Effect_Laws PMC_Erase_Laws PMC_Instrument_Type_Laws PMC_Cpuinfo_Laws
begin

text \<open>
  Concrete blocks of intermediate code at which the properties of the instrumentation are applied:
  \<open>writer\<close> stores a word and a vector, writes the line of the vector back and fences; \<open>swapper\<close> swaps a
  word; \<open>double_swapper\<close> swaps two.
\<close>

definition writer :: IRSB where
  "writer = \<lparr>sb_tyenv = \<lparr>te_types = [Ity_I64, Ity_V128, Ity_I8], te_types_size = 8\<rparr>,
     sb_stmts = [
       Ist_NoOp,
       Ist_IMark 0x400000 4 0,
       Ist_WrTmp 0 (Iex_Get 16 Ity_I64),
       Ist_WrTmp 1 (Iex_Get 224 Ity_V128),
       Ist_WrTmp 2 (Iex_Get 24 Ity_I8),
       Ist_Store Iend_LE (Iex_RdTmp 0) (Iex_RdTmp 1),
       Ist_Store Iend_LE (Iex_Const (Ico_U64 4224)) (Iex_RdTmp 2),
       Ist_Flush (Iex_RdTmp 0) Ifk_clwb,
       Ist_MBE Imbe_SFence],
     sb_stmts_size = 16, sb_next = Iex_Const (Ico_U64 0x400004), sb_jumpkind = Ijk_Boring, sb_offsIP = 184\<rparr>"

definition swapper :: IRSB where
  "swapper = writer\<lparr>sb_tyenv := \<lparr>te_types = [Ity_I64, Ity_I64], te_types_size = 8\<rparr>,
     sb_stmts := [
       Ist_IMark 0x400000 4 0,
       Ist_WrTmp 0 (Iex_Get 16 Ity_I64),
       Ist_CAS \<lparr>cas_oldHi = IRTemp_INVALID, cas_oldLo = 1, cas_end = Iend_LE, cas_addr = Iex_RdTmp 0,
         cas_expdHi = Iex_NULL, cas_expdLo = Iex_Const (Ico_U64 7), cas_dataHi = Iex_NULL, cas_dataLo = Iex_RdTmp 0\<rparr>]\<rparr>"

definition double_swapper :: IRSB where
  "double_swapper = writer\<lparr>sb_tyenv := \<lparr>te_types = [Ity_I64, Ity_I64, Ity_I64], te_types_size = 8\<rparr>,
     sb_stmts := [
       Ist_IMark 0x400000 4 0,
       Ist_WrTmp 0 (Iex_Get 16 Ity_I64),
       Ist_CAS \<lparr>cas_oldHi = 1, cas_oldLo = 2, cas_end = Iend_LE, cas_addr = Iex_RdTmp 0,
         cas_expdHi = Iex_Const (Ico_U64 7), cas_expdLo = Iex_Const (Ico_U64 8),
         cas_dataHi = Iex_RdTmp 0, cas_dataLo = Iex_RdTmp 0\<rparr>]\<rparr>"

text \<open>A run of each: the temporaries of the block, then those of the tool.\<close>

definition values_of :: "nat list \<Rightarrow> valuation" where
  "values_of vs t = (if t < length vs then vs ! t else 0)"

definition writer_run :: valuation where
  "writer_run = values_of [4160, 3 * 2 ^ 64 + 5, 9, 4160, 5, 4168, 3, 9]"

definition swapper_run :: valuation where
  "swapper_run = values_of [4160, 7, 1]"

lemmas sanity_evals = sanityCheckIRSB_def traceable_def single_cas_def foreign_def typed_def typeOfIRTemp_def
  assignedOnce_Temp_def useBeforeDef_Temp_def use_if_given_def tcCAS_def isIRAtom_or_NULL_def IRTemp_INVALID_def Let_def

lemma writer_ok:
  "sanityCheckIRSB writer True Ity_I64 = Inr ()" "traceable writer" "list_all foreign (sb_stmts writer)"
  by (simp_all add: writer_def sanity_evals)

lemma swapper_ok:
  "sanityCheckIRSB swapper True Ity_I64 = Inr ()" "traceable swapper" "list_all foreign (sb_stmts swapper)"
  by (simp_all add: swapper_def writer_def sanity_evals)

lemma double_swapper_ok:
  "sanityCheckIRSB double_swapper True Ity_I64 = Inr ()" "\<not> list_all single_cas (marked (sb_stmts double_swapper))"
  by (simp_all add: double_swapper_def writer_def sanity_evals marked_def is_mark_def)

text \<open>Whether a valuation is a run of the instrumented block is decided on the statements that the block is known to have.\<close>

lemma good_runI:
  assumes "sanityCheckIRSB bb True Ity_I64 = Inr ()" "traceable bb" "list_all foreign (sb_stmts bb)"
    and "\<forall>(ty, v) \<in> set (zip (te_types (sb_tyenv bb) @ snd (instrumented opts bb)) vs). v < 2 ^ bits ty"
    and "length (te_types (sb_tyenv bb) @ snd (instrumented opts bb)) \<le> length vs"
    and "list_all (assigns (values_of vs)) (executed (values_of vs) (fst (instrumented opts bb)))"
  shows "good_run opts (bb, values_of vs)"
proof -
  have "is_run out (values_of vs)" if "pmc_instrument opts bb Ity_I64 Ity_I64 = Inr (out, msgs)" for out msgs
  proof -
    have o: "sb_stmts out = fst (instrumented opts bb)" "te_types (sb_tyenv out) = te_types (sb_tyenv bb) @ snd (instrumented opts bb)"
      using pmc_instrument_grow [OF assms(1,2), of opts] that by auto
    have "vs ! t < 2 ^ bits (te_types (sb_tyenv out) ! t)" if "t < length (te_types (sb_tyenv out))" for t
      using that assms(4,5) unfolding o(2) set_zip by (fastforce simp del: length_append)
    then have "well_typed (sb_tyenv out) (values_of vs)" using assms(5) by (auto simp: well_typed_def values_of_def o(2))
    then show ?thesis using assms(6) by (simp add: is_run_def o(1))
  qed
  then show ?thesis using assms(1-3) by (auto simp: good_run_def)
qed

lemmas shape_evals = instrumented_def marked_def preamble_def is_mark_def stmt_shape_def kept_def join_def data_shape_def typeof_def
  typeOfIRTemp_def n_temps_def tmp_needs_widen_def wide_shape_def wide_parts_def part_shape_def width_def cas_guard_def
  store_call_def tool_call_def bits_def values_of_def unop_value_def binop_value_def

lemma writer_good: "op_automatic_isa_rec opts \<Longrightarrow> good_run opts (writer, writer_run)"
  unfolding writer_run_def using writer_ok by (intro good_runI) (simp_all add: writer_def shape_evals)

lemma swapper_good: "good_run opts (swapper, swapper_run)"
  unfolding swapper_run_def using swapper_ok by (intro good_runI) (simp_all add: swapper_def writer_def shape_evals)

lemma example_accesses:
  "op_automatic_isa_rec opts \<Longrightarrow>
   block_accesses 64 opts writer writer_run = [Store 4160 8 5, Store 4168 8 3, Store 4224 1 9, Flush 4160 64, Fence]"
  "block_accesses 64 opts swapper swapper_run = [Store 4160 8 4160]"
  by (simp_all add: block_accesses_def writer_def swapper_def writer_run_def swapper_run_def shape_evals)

text \<open>What the blocks do to memory; all of it is seen by the tool.\<close>

lemmas effect_evals = stmt_effects.simps data_effects_def value_effects_def cas_succeeds_def cas_effects_def Let_def typeof_def typeOfIRTemp_def
  width_def values_of_def upt_rec byte_at_def

lemma example_seen:
  "op_automatic_isa_rec opts \<Longrightarrow> block_seen opts writer writer_run" "block_seen opts swapper swapper_run"
  by (simp_all add: block_seen_def writer_def swapper_def seen_data_def traced_types_def preamble_def is_mark_def typeof_def typeOfIRTemp_def)

lemma example_valued:
  "list_all valued (executed writer_run (sb_stmts writer))" "list_all valued (executed swapper_run (sb_stmts swapper))"
  by (simp_all add: writer_def swapper_def valued_data_def)

text \<open>The bytes of the vector, the byte of the second store, the line and the fence.\<close>

definition bytes_from :: "uword \<Rightarrow> nat list \<Rightarrow> effect list" where
  "bytes_from a bs = map (\<lambda>i. Eff_Byte (a + of_nat i) (Some (bs ! i))) [0 ..< length bs]"

lemma writer_effects:
  "block_effects weak writer writer_run =
     bytes_from 4160 [5, 0, 0, 0, 0, 0, 0, 0, 3, 0, 0, 0, 0, 0, 0, 0] @ bytes_from 4224 [9] @ [Eff_Line 4160, Eff_Fence]"
  by (simp add: block_effects_def writer_def writer_run_def effect_evals bytes_from_def)

lemma swapper_effects:
  "block_effects weak swapper swapper_run = bytes_from 4160 [0x40, 0x10, 0, 0, 0, 0, 0, 0]"
  by (simp add: block_effects_def swapper_def writer_def swapper_run_def effect_evals bytes_from_def)

lemma example_lost:
  "{b. lost b (concat (map (effect_acts {4096..<8192} 64)
     (runs_effects weak [(swapper, swapper_run), (writer, writer_run)])))} = {4224}"
proof -
  have line: "b div 64 = 65 \<longleftrightarrow> b \<in> {4160..<4224}" for b :: nat by auto
  have "4224 div 64 \<noteq> (65 :: nat)" by simp
  then show ?thesis by (auto simp: runs_effects_def writer_effects swapper_effects bytes_from_def upt_rec line)
qed

text \<open>A read into a buffer of null bytes.\<close>

lemma c_string_zeros:
  assumes "length chunk \<le> proc_read_size" "CHR 0x00 \<notin> set chunk"
  shows "c_string ((fill chunk (\<lambda>i. CHR 0x00))(proc_read_size := CHR 0x00)) = chunk"
proof -
  let ?b = "(fill chunk (\<lambda>i. CHR 0x00))(proc_read_size := CHR 0x00)"
  have "map ?b [0 ..< Suc proc_read_size] = chunk @ CHR 0x00 # replicate (proc_read_size - length chunk) (CHR 0x00)"
    using assms(1) by (intro nth_equalityI) (auto simp: fill_def nth_append nth_Cons' simp del: upt_Suc)
  moreover have "takeWhile (\<lambda>c. c \<noteq> CHR 0x00) chunk = chunk" using assms(2) by (auto simp: takeWhile_eq_all_conv)
  ultimately show ?thesis unfolding c_string_def using assms(2) by (simp add: takeWhile_append del: upt_Suc)
qed

end
