(* ===== verification/Instrument_Properties.thy ===== *)
theory Instrument_Properties
  imports PMC_Block_Examples
begin

text \<open>
  The properties of the instrumentation: what a session of instrumented code reports, that the translated
  blocks pass the checker of the core and keep the client's code, that their runs report what the client does to
  memory, and the failure on a double compare-and-swap; and of the detection of the size of a cache line.
\<close>

section \<open>Sessions of instrumented code\<close>

text \<open>C2.  A session of instrumented code in the default mode: after initialisation and any number of registered
  mappings, blocks that pass the checker are instrumented and run, and the calls they make go to the handlers.  The
  reference is what the client's code itself does to memory (\<open>runs_effects\<close>): the bytes it writes, the cache lines it writes back
  and its fences.  Where every executed statement is one that the tool can see (\<open>block_seen\<close>: a traced type of data, no
  failing store-conditional, no helper that writes to memory) and accesses keep to cache lines and to one side of the border
  of the mappings, the tool does not fail, the entries it holds cover exactly the mapped bytes whose last write is not
  followed by a write-back and a later fence, and the final report counts these entries.\<close>

theorem instrumented_session_finds_lost_bytes:
  fixes en op runs ms
  defines "opts \<equiv> pm_opts (tl_pmem (pmc_post_clo_init en False op))"
  defines "es \<equiv> runs_accesses (en_cache_line_size en) opts runs"
  defines "L \<equiv> unat (en_cache_line_size en)"
  defines "history \<equiv> concat (map (effect_acts (all_mapped ms) L) (runs_effects (op_weak_clflush op) runs))"
  assumes "plain op" "reg_room (length es) op" "\<forall>(a, k) \<in> set ms. rok (mk_region a k)" "0 < L"
    and "\<forall>e \<in> set es. access_ok L e" "\<forall>e \<in> set es. on_lines (all_mapped ms) L e"
    and "\<forall>r \<in> set runs. good_run opts r" "\<forall>(bb, \<rho>) \<in> set runs. block_seen opts bb \<rho>"
  shows "\<exists>w w' p'. foldM (map_step en) ms (pmc_post_clo_init en False op) = Inr w \<and> foldM (run_block en opts) runs w = Inr w' \<and>
    set_bytes (out_entries (tl_pmem w')) = {b. lost b history} \<and>
    print_store_stats (tl_pmem w') = Inr p' \<and> pm_not_pmem_num p' = length (out_entries (tl_pmem w')) \<and>
    (pm_not_pmem_num p' = 0 \<longleftrightarrow> (\<forall>b. \<not> lost b history))"
proof -
  have weak: "op_weak_clflush opts = op_weak_clflush op" by (simp add: opts_def init_opts)
  have "lost b (concat (map (access_acts (all_mapped ms)) es)) = lost b history" for b
    using lost_client [OF assms(12) assms(10) [unfolded es_def] assms(8)] by (simp add: es_def history_def weak)
  then show ?thesis
    using instrumented_session [OF assms(5,6) [unfolded es_def opts_def] assms(7,8) assms(9,11) [unfolded es_def opts_def]]
    unfolding es_def opts_def by presburger
qed

theorem instrumented_session_finds_lost_bytes_witness:
  "\<exists>w w' p'. foldM (map_step host) [(4096, 4096)] (pmc_post_clo_init host False pmc_pre_clo_init) = Inr w \<and>
    foldM (run_block host (pm_opts (tl_pmem started_tool))) [(swapper, swapper_run), (writer, writer_run)] w = Inr w' \<and>
    set_bytes (out_entries (tl_pmem w')) = {4224} \<and> print_store_stats (tl_pmem w') = Inr p' \<and> pm_not_pmem_num p' \<noteq> 0"
proof -
  let ?runs = "[(swapper, swapper_run), (writer, writer_run)]" and ?opts = "pm_opts (tl_pmem started_tool)"
  let ?es = "[Store 4160 8 4160, Store 4160 8 5, Store 4168 8 3, Store 4224 1 9, Flush 4160 64, Fence]"
  have isa: "op_automatic_isa_rec ?opts" by (simp add: started_tool_def init_opts pmc_pre_clo_init_def)
  have es: "runs_accesses 64 ?opts ?runs = ?es"
    using isa by (simp add: runs_accesses_def example_accesses)
  have m: "all_mapped [(4096, 4096)] = {4096..<8192}" by (simp add: all_mapped_def)
  have ok: "\<forall>e \<in> set ?es. access_ok 64 e" by (simp add: fits_def in_line_def whole_lines_def)
  have lines: "\<forall>e \<in> set ?es. on_lines {4096..<8192} 64 e" by (auto simp: bytes_def lo_def hi_def sz_def)
  have good: "\<forall>r \<in> set ?runs. good_run ?opts r" using swapper_good writer_good [OF isa] by simp
  have seen: "\<forall>(bb, \<rho>) \<in> set ?runs. block_seen ?opts bb \<rho>" using example_seen isa by simp
  have lost: "lost b (concat (map (effect_acts {4096..<8192} 64) (runs_effects (op_weak_clflush pmc_pre_clo_init) ?runs))) \<longleftrightarrow> b = 4224" for b
    using example_lost by blast
  show ?thesis
    using instrumented_session_finds_lost_bytes [of pmc_pre_clo_init host ?runs "[(4096, 4096)]", unfolded host_line] ok lines good seen
    unfolding started_tool_def [symmetric] es m by (auto simp: plain_default lost)
qed

section \<open>Instrumented blocks\<close>

text \<open>C6.  Instrumentation keeps blocks well formed: for a block that passes the checker of the core, has no double
  compare-and-swap and no temporary of invalid type, \<open>pmc_instrument\<close> returns a block that passes the checker as
  well (flat, temporaries assigned once and before their use, all statements well typed), with the same successor
  and the same temporaries in front of the added ones.\<close>

theorem instrumented_block_well_typed:
  assumes "sanityCheckIRSB bb True w = Inr ()" "traceable bb"
  shows "\<exists>out msgs. pmc_instrument opts bb w w = Inr (out, msgs) \<and> sanityCheckIRSB out True w = Inr () \<and>
    sb_next out = sb_next bb \<and> sb_jumpkind out = sb_jumpkind bb \<and> sb_offsIP out = sb_offsIP bb \<and>
    (\<exists>new. te_types (sb_tyenv out) = te_types (sb_tyenv bb) @ new)"
proof -
  obtain out msgs where o: "pmc_instrument opts bb w w = Inr (out, msgs)" "sb_next out = sb_next bb"
    "sb_jumpkind out = sb_jumpkind bb" "sb_offsIP out = sb_offsIP bb" "\<exists>new. te_types (sb_tyenv out) = te_types (sb_tyenv bb) @ new"
    using pmc_instrument_grow [OF assms, of opts] by blast
  then show ?thesis using pmc_instrument_sane [OF assms o(1)] by blast
qed

theorem instrumented_block_well_typed_witness:
  "\<exists>out msgs. pmc_instrument pmc_pre_clo_init writer Ity_I64 Ity_I64 = Inr (out, msgs) \<and> sanityCheckIRSB out True Ity_I64 = Inr () \<and>
    sb_next out = Iex_Const (Ico_U64 0x400004) \<and> sb_jumpkind out = Ijk_Boring \<and> sb_offsIP out = 184 \<and>
    (\<exists>new. te_types (sb_tyenv out) = [Ity_I64, Ity_V128, Ity_I8] @ new)"
  using instrumented_block_well_typed [OF writer_ok(1,2), of pmc_pre_clo_init] by (simp add: writer_def)

text \<open>C7.  The client's code is kept: taking out of the instrumented block the statements that assign new
  temporaries or call a handler of the tool leaves the statements of the client in their order, without the empty
  ones behind the first instruction mark.\<close>

theorem client_code_kept:
  assumes "sanityCheckIRSB bb True w = Inr ()" "traceable bb" "list_all foreign (sb_stmts bb)"
  shows "\<exists>out msgs. pmc_instrument opts bb w w = Inr (out, msgs) \<and>
    filter (\<lambda>st. \<not> by_tool (n_temps bb) st) (sb_stmts out) = preamble (sb_stmts bb) @ filter kept (marked (sb_stmts bb))"
  using pmc_instrument_grow [OF assms(1,2), of opts] instrument_erase [OF assms] by blast

theorem client_code_kept_witness:
  "\<exists>out msgs. pmc_instrument pmc_pre_clo_init writer Ity_I64 Ity_I64 = Inr (out, msgs) \<and>
    filter (\<lambda>st. \<not> by_tool 3 st) (sb_stmts out) = sb_stmts writer"
  using client_code_kept [OF writer_ok, of pmc_pre_clo_init]
  by (simp add: writer_def n_temps_def preamble_def marked_def is_mark_def kept_def numeral_3_eq_3)

text \<open>C8.  The runs of an instrumented block report what the client does to memory, byte by byte: whatever values the
  temporaries of the run have, as long as every executed statement is one that the tool can see (\<open>block_seen\<close>), the order of
  bytes is little-endian and no constant needs more than 32 bits (\<open>valued\<close>), the calls of the handlers spell out exactly the
  bytes that the client writes, with their values, the lines it writes back and its fences, in order: guarded stores when
  the guard holds, compare-and-swap when it succeeds, wide stores as a whole, and nothing behind a side exit that is taken.\<close>

theorem instrumented_run_reports:
  assumes "sanityCheckIRSB bb True Ity_I64 = Inr ()" "traceable bb" "list_all foreign (sb_stmts bb)"
  shows "\<exists>out msgs. pmc_instrument opts bb Ity_I64 Ity_I64 = Inr (out, msgs) \<and>
    (\<forall>\<rho>. is_run out \<rho> \<and> block_seen opts bb \<rho> \<and> list_all valued (executed \<rho> (sb_stmts bb)) \<longrightarrow>
      reported_effects (accesses line (run_calls \<rho> (sb_stmts out))) = block_effects (op_weak_clflush opts) bb \<rho>)"
  using pmc_instrument_grow [OF assms(1,2), of opts] instrumented_run_accesses [OF assms] reported_block by metis

theorem instrumented_run_reports_witness:
  "\<exists>out msgs. pmc_instrument pmc_pre_clo_init writer Ity_I64 Ity_I64 = Inr (out, msgs) \<and>
    reported_effects (accesses 64 (run_calls writer_run (sb_stmts out))) =
      bytes_from 4160 [5, 0, 0, 0, 0, 0, 0, 0, 3, 0, 0, 0, 0, 0, 0, 0] @ bytes_from 4224 [9] @ [Eff_Line 4160, Eff_Fence]"
proof -
  have isa: "op_automatic_isa_rec pmc_pre_clo_init" by (simp add: pmc_pre_clo_init_def)
  obtain out msgs where o: "pmc_instrument pmc_pre_clo_init writer Ity_I64 Ity_I64 = Inr (out, msgs)"
    "\<And>\<rho>. is_run out \<rho> \<and> block_seen pmc_pre_clo_init writer \<rho> \<and> list_all valued (executed \<rho> (sb_stmts writer)) \<Longrightarrow>
      reported_effects (accesses 64 (run_calls \<rho> (sb_stmts out))) = block_effects (op_weak_clflush pmc_pre_clo_init) writer \<rho>"
    using instrumented_run_reports [OF writer_ok, of pmc_pre_clo_init 64] by blast
  have "is_run out writer_run" using writer_good [OF isa] o(1) by (auto simp: good_run_def)
  then show ?thesis using o(1) o(2) [of writer_run] example_seen(1) [OF isa] example_valued(1) writer_effects by simp
qed

section \<open>Double compare-and-swap\<close>

text \<open>A double compare-and-swap breaks the instrumentation: on a block that passes the checker and has one behind
  its first instruction mark, \<open>pmc_instrument\<close> reports the low half and then moves the pointer to the address expression
  by the size of the data, outside of the expression, where it should build the sum of the address and that size.\<close>

lemma double_cas_out_of_bounds:
  assumes "sanityCheckIRSB bb True w = Inr ()" "Ity_INVALID \<notin> set (te_types (sb_tyenv bb))"
    "length (te_types (sb_tyenv bb)) \<le> te_types_size (sb_tyenv bb)" "\<not> list_all single_cas (marked (sb_stmts bb))"
  shows "pmc_instrument opts bb w w = Inl (OutOfBounds ''cas->addr + dataSize'')"
  by (rule instrument_double_cas [OF assms])

lemma double_cas_out_of_bounds_witness:
  "pmc_instrument pmc_pre_clo_init double_swapper Ity_I64 Ity_I64 = Inl (OutOfBounds ''cas->addr + dataSize'')"
  by (rule double_cas_out_of_bounds [OF double_swapper_ok(1) _ _ double_swapper_ok(2)]) (simp_all add: double_swapper_def)

section \<open>The size of a cache line\<close>

text \<open>C40.  The size of a cache line: reads in which the buffer does not hold the text of the line are skipped, and the
  number behind the first text in the next read is the result, whatever the stack and the earlier reads left in the
  buffer; when no read shows the text, or the file cannot be opened, the size is 64.\<close>

theorem read_cache_line_size_exact:
  assumes "chunk = pre @ clflush @ decimal n @ [CHR 0x0A] @ aft" "length chunk \<le> proc_read_size" "CHR 0x00 \<notin> set chunk"
    and "\<forall>i < length pre. take (length clflush) (drop i chunk) \<noteq> clflush" "0 < n" "n < 2 ^ 31"
    and "[] \<notin> set skipped" "unseen buf skipped" "unseen buf' others"
  shows "read_cache_line_size True (skipped @ chunk # chunks) buf = of_nat n \<and>
    read_cache_line_size True others buf' = 64 \<and> read_cache_line_size False chunks buf = 64"
  using read_loop_found [OF assms(2,3,1,4-6)] read_loop_skip [OF assms(7,8)] read_loop_default [OF assms(9)]
  by (simp only: read_cache_line_size_def if_True if_False not_True_eq_False not_False_eq_True simp_thms)

theorem read_cache_line_size_exact_witness:
  "read_cache_line_size True [''cpu'', ''x'' @ clflush @ ''128'' @ [CHR 0x0A]] (\<lambda>i. CHR 0x00) = 128 \<and>
    read_cache_line_size True [''cpu''] (\<lambda>i. CHR 0x00) = 64"
proof -
  have cpu: "unseen (\<lambda>i. CHR 0x00) [''cpu'']"
    using c_string_zeros [of "''cpu''"] by (simp add: unseen_Cons proc_read_size_def) (simp add: unseen_def clflush_def)
  have "decimal 128 = ''128''" by (simp add: decimal.simps digit_def)
  then show ?thesis
    using read_cache_line_size_exact [of "''x'' @ clflush @ ''128'' @ [CHR 0x0A]" "''x''" 128 "[]" "[''cpu'']" "\<lambda>i. CHR 0x00"
        "\<lambda>i. CHR 0x00" "[''cpu'']" "[]"] cpu
    by (simp add: proc_read_size_def) (simp add: clflush_def)
qed

section \<open>Gaps of the tracing\<close>

text \<open>A store of a single precision value from a temporary is not traced; the user gets a message when the block is
  translated.\<close>

lemma float_store_untraced:
  assumes "isIRAtom addr = Inr True" "typeOfIRTemp (sb_tyenv sb) t = Inr Ity_F32"
  shows "add_event_dw_guarded sb addr 4 guard (Iex_RdTmp t) =
    Inr (sb, [Umsg ''Unable to trace store - unsupported type of store 0x%x 0x%x'' [of_nat 0x1903, of_nat (ity_code Ity_F32)]])"
  using assms by (simp add: add_event_dw_guarded_def MAX_DSIZE_def tmp_needs_widen_def)

text \<open>A constant of 64 bits is reported by its low half.\<close>

lemma wide_constant_truncated: "widen_const (Iex_Const (Ico_U64 0x100000005)) = Inr (mkIRExpr_HWord 5)"
  by simp

text \<open>A line of the file that is divided between two reads is not found.\<close>

lemma divided_line_missed:
  "read_cache_line_size True [''clflush'', drop 7 (clflush @ ''128'' @ [CHR 0x0A])] (\<lambda>i. CHR 0x00) = 64"
proof -
  let ?z = "\<lambda>i::nat. CHR 0x00" and ?c = "drop 7 (clflush @ ''128'' @ [CHR 0x0A])"
  have "(fill ?c ((fill ''clflush'' ?z)(proc_read_size := CHR 0x00)))(proc_read_size := CHR 0x00) = (fill ?c ?z)(proc_read_size := CHR 0x00)"
    by (auto simp: fun_eq_iff fill_def clflush_def)
  moreover have "c_string ((fill ''clflush'' ?z)(proc_read_size := CHR 0x00)) = ''clflush''"
    "c_string ((fill ?c ?z)(proc_read_size := CHR 0x00)) = ?c"
    by (rule c_string_zeros; simp add: proc_read_size_def clflush_def)+
  ultimately have "unseen ?z [''clflush'', ?c]" by (simp only: unseen_Cons) (simp add: unseen_def clflush_def)
  then show ?thesis using read_loop_default by (simp only: read_cache_line_size_def simp_thms if_False)
qed

end
