(* ===== verification/Pmemcheck.thy ===== *)
theory Pmemcheck
  imports PMC_Store PMC_Cpuinfo
begin

text \<open>
  The tool \<open>pmemcheck\<close> that the repository keeps beside PMDebugger (\<open>pmemcheck/pmc_main.c\<close>,
  \<open>pmemcheck/pmc_common.c\<close>): the tracking of stores, flushes and fences in one set ordered by address, the
  registered mappings and the report on the stores that are not durable.  PMDebugger replaces this set by an
  array of recent stores with bounds and a tree of older ones.

  What both tools have word for word is shared: \<open>cmp_pmem_st\<close>, the comparison of stack traces, the merging of
  two stores, the event registers, and \<open>remove_region\<close>, which is \<open>remove_region_mapping\<close> there.  The struct \<open>pmem_st\<close>
  of \<open>pmemcheck\<close> has no index, no mark of deletion and no epoch; these fields of the record stay at their initial values.
  Its options are those of \<open>options\<close> up to \<open>op_weak_clflush\<close>.  The check of a store against the transactions,
  \<open>handle_tx_store\<close>, and the summary of transactions are the same text in both tools, with traces always shown and
  the detector of repeated objects absent; the requests that change transactions are not modelled for \<open>pmemcheck\<close>.
\<close>

section \<open>State\<close>

record pk_ops =
  pk_stores :: region_set
  pk_mappings :: region_set
  pk_multiple_stores :: "pmem_st list"
  pk_redundant_flushes :: "pmem_st list"
  pk_superfluous_flushes :: "pmem_st list"
  pk_opts :: options
  pk_sblocks :: uword
  pk_out :: "out list"

definition pk_log :: "out list \<Rightarrow> pk_ops \<Rightarrow> pk_ops" where
  "pk_log ms p = p\<lparr>pk_out := pk_out p @ ms\<rparr>"

definition pk_post_clo_init :: "env \<Rightarrow> bool \<Rightarrow> options \<Rightarrow> pk_ops \<times> transaction_ops" where
  "pk_post_clo_init en verbose op =
     (\<lparr>pk_stores = OSetGen_Create cmp_pmem_st (\<lambda>x. x), pk_mappings = OSetGen_Create cmp_pmem_st (\<lambda>x. x),
      pk_multiple_stores = [], pk_redundant_flushes = [], pk_superfluous_flushes = [],
      pk_opts = op\<lparr>op_flush_align_size := en_cache_line_size en\<rparr>, pk_sblocks = 0,
      pk_out = (if op_log_stores op then [Emit ''START'' []] else [])\<rparr>,
      init_transactions verbose (op_transactions_only op) False False True)"

section \<open>Mappings\<close>

text \<open>\<open>add_region\<close> takes overlapping and neighbouring entries out by the key of the search.  Each turn takes one
  entry out, so one turn per entry and a last one are enough.\<close>

fun pk_add_region_loop :: "nat \<Rightarrow> pmem_st \<Rightarrow> pmem_st \<Rightarrow> region_set \<Rightarrow> (pmem_st \<times> region_set) res" where
  "pk_add_region_loop 0 search_entry entry region_set = Inl (Diverge ''add_region'')"
| "pk_add_region_loop (Suc f) search_entry entry region_set =
     rbind (OSetGen_Remove search_entry region_set) (\<lambda>(n, set1).
       case n of None \<Rightarrow> Inr (entry, set1)
       | Some old_entry \<Rightarrow>
           (let max_addr = max (st_addr entry + st_size entry) (st_addr old_entry + st_size old_entry);
                lo_addr = min (st_addr entry) (st_addr old_entry)
            in rbind (OSetGen_FreeNode old_entry set1) (\<lambda>set2.
                 pk_add_region_loop f search_entry (entry\<lparr>st_addr := lo_addr, st_size := max_addr - lo_addr\<rparr>) set2)))"

definition pk_add_region :: "pmem_st \<Rightarrow> region_set \<Rightarrow> region_set res" where
  "pk_add_region region region_set =
     (let entry = region\<lparr>st_state := STST_CLEAN\<rparr>;
          search_entry = entry\<lparr>st_addr := st_addr entry - 1, st_size := st_size entry + 2\<rparr>
      in rbind (pk_add_region_loop (Suc (OSetGen_Size region_set)) search_entry entry region_set)
           (\<lambda>(entry', set'). OSetGen_Insert entry' set'))"

definition pk_remove_region :: "pmem_st \<Rightarrow> region_set \<Rightarrow> region_set res" where
  "pk_remove_region region region_set = remove_region_mapping region region_set"

text \<open>The client requests on mappings and \<open>SET_CLEAN\<close>.\<close>

definition pk_register_mapping :: "uword \<Rightarrow> uword \<Rightarrow> pk_ops \<Rightarrow> pk_ops res" where
  "pk_register_mapping addr sze p =
     rbind (pk_add_region (mk_region addr sze) (pk_mappings p)) (\<lambda>s. Inr (p\<lparr>pk_mappings := s\<rparr>))"

definition pk_remove_mapping :: "uword \<Rightarrow> uword \<Rightarrow> pk_ops \<Rightarrow> pk_ops res" where
  "pk_remove_mapping addr sze p =
     rbind (pk_remove_region (mk_region addr sze) (pk_mappings p)) (\<lambda>s. Inr (p\<lparr>pk_mappings := s\<rparr>))"

definition pk_set_clean :: "uword \<Rightarrow> uword \<Rightarrow> pk_ops \<Rightarrow> pk_ops res" where
  "pk_set_clean addr sze p =
     rbind (pk_remove_region (mk_region addr sze) (pk_stores p)) (\<lambda>s. Inr (p\<lparr>pk_stores := s\<rparr>))"

definition pk_is_pmem_access :: "uword \<Rightarrow> uword \<Rightarrow> pk_ops \<Rightarrow> bool" where
  "pk_is_pmem_access addr sze p = OSetGen_Contains (pk_mappings p) (mk_region addr sze)"

section \<open>Reports on the event registers\<close>

definition pk_numbered :: "(pmem_st \<Rightarrow> out list) \<Rightarrow> pmem_st list \<Rightarrow> out list" where
  "pk_numbered line evs =
     concat (map (\<lambda>(i, s). [Umsg ''[%d] '' [of_nat i], PpExe (st_context s)] @ line s) (enumerate 0 evs))"

definition pk_print_redundant_flushes :: "pk_ops \<Rightarrow> out list" where
  "pk_print_redundant_flushes p =
     [Umsg ''Number of redundantly flushed stores: %lu'' [of_nat (length (pk_redundant_flushes p))],
      Umsg ''Stores flushed multiple times:'' []] @ pk_numbered print_store_line (pk_redundant_flushes p)"

definition pk_print_superfluous_flushes :: "pk_ops \<Rightarrow> out list" where
  "pk_print_superfluous_flushes p =
     [Umsg ''Number of unnecessary flushes: %lu'' [of_nat (length (pk_superfluous_flushes p))]] @
     pk_numbered (\<lambda>s. [Umsg ''Address: 0x%lx size: %llu'' [st_addr s, st_size s]]) (pk_superfluous_flushes p)"

definition pk_print_multiple_stores :: "pk_ops \<Rightarrow> out list" where
  "pk_print_multiple_stores p =
     [Umsg ''Number of overwritten stores: %lu'' [of_nat (length (pk_multiple_stores p))],
      Umsg ''Overwritten stores before they were made persistent:'' []] @ pk_numbered print_store_line (pk_multiple_stores p)"

definition pk_print_max_poss_overwrites_error :: "pk_ops \<Rightarrow> nat \<Rightarrow> out list" where
  "pk_print_max_poss_overwrites_error p limit =
     [Umsg ''The number of overwritten stores exceeded %lu'' [of_nat limit],
      Umsg ''This either means there is something fundamentally wrong with your program, or you are using your persistent memory as volatile memory.'' []] @
     pk_print_multiple_stores p"

definition pk_print_superfluous_flush_error :: "pk_ops \<Rightarrow> nat \<Rightarrow> out list" where
  "pk_print_superfluous_flush_error p limit =
     [Umsg ''The number of superfluous flushes exceeded %lu'' [of_nat limit],
      Umsg ''This means your program is constantly flushing regions of memory, where no stores were made. This is a performance issue.'' []] @
     pk_print_superfluous_flushes p"

definition pk_print_redundant_flush_error :: "pk_ops \<Rightarrow> nat \<Rightarrow> out list" where
  "pk_print_redundant_flush_error p limit =
     [Umsg ''The number of redundant flushes exceeded %lu'' [of_nat limit],
      Umsg ''This means your program is constantly flushing regions of memory, which have already been flushed. This is a performance issue.'' []] @
     pk_print_redundant_flushes p"

text \<open>The report on outstanding stores: their number, and with at least one of them the list and the number of
  bytes.\<close>

definition pk_print_store_stats :: "pk_ops \<Rightarrow> pk_ops res" where
  "pk_print_store_stats p =
     (let n = OSetGen_Size (pk_stores p);
          p1 = pk_log [Umsg ''Number of stores not made persistent: %u'' [of_nat n]] p
      in if n = 0 then Inr p1
         else rbind (os_iter (pk_stores p)) (\<lambda>es.
           Inr (pk_log (Umsg ''Stores not made persistent properly:'' [] # pk_numbered print_store_line es @
             [Umsg ''Total memory not made persistent: %lu'' [sum_list (map st_size es)]]) p1)))"

section \<open>Stores\<close>

text \<open>The callbacks of \<open>split_stores\<close>: the first frees a node that was taken out of the set, the second registers the
  store, a copy of it when it is not a node.\<close>

definition pk_clb :: "split_clb \<Rightarrow> pmem_st \<Rightarrow> bool \<Rightarrow> region_set \<times> pk_ops \<Rightarrow> (region_set \<times> pk_ops) res" where
  "pk_clb clb store preallocated = (\<lambda>(ss, p).
     case clb of
       Free_Clb \<Rightarrow> if preallocated then rbind (OSetGen_FreeNode store ss) (\<lambda>ss'. Inr (ss', p)) else Inr (ss, p)
     | Add_Mult_Overwrite_Warn \<Rightarrow>
         rbind (add_warning_event (pk_print_max_poss_overwrites_error p) MAX_MULT_OVERWRITES store (pk_multiple_stores p))
           (\<lambda>evs. Inr (ss, p\<lparr>pk_multiple_stores := evs\<rparr>)))"

definition pk_split_stores :: "split_clb \<Rightarrow> pmem_st \<Rightarrow> pmem_st \<Rightarrow> region_set \<times> pk_ops \<Rightarrow> (region_set \<times> pk_ops) res" where
  "pk_split_stores clb old new = (\<lambda>(ss, p).
     let new_max = st_addr new + st_size new;
         old_max = st_addr old + st_size old
     in if st_addr old \<ge> st_addr new \<and> old_max \<le> new_max
        then rbind (OSetGen_Remove old ss) (\<lambda>(n, ss1). pk_clb clb old True (ss1, p))
        else if st_addr old < st_addr new
        then (let old' = old\<lparr>st_value := shift_right (st_value old) (old_max - st_addr new), st_size := st_addr new - st_addr old\<rparr>
              in if old_max > new_max
                 then (let after = mask_value (old\<lparr>st_addr := new_max, st_size := old_max - new_max\<rparr>)
                       in rbind (OSetGen_Insert after (os_write old old' ss)) (\<lambda>ss1.
                            pk_clb clb (new\<lparr>st_context := st_context old\<rparr>) False (ss1, p)))
                 else rbind (pk_clb clb (old\<lparr>st_addr := st_addr new, st_size := old_max - st_addr new\<rparr>) False (ss, p)) (\<lambda>(ss1, p1).
                        Inr (os_write old old' ss1, p1)))
        else if old_max > new_max
        then rbind (pk_clb clb (old\<lparr>st_size := st_size old - (old_max - new_max)\<rparr>) False (ss, p)) (\<lambda>(ss1, p1).
               Inr (os_write old (mask_value (old\<lparr>st_addr := new_max, st_size := old_max - new_max\<rparr>)) ss1, p1))
        else Inl (AssertFail ''split_stores''))"

text \<open>The loop that cuts overlapping entries; each turn leaves one of them less.\<close>

fun pk_cut_overlaps :: "nat \<Rightarrow> pmem_st \<Rightarrow> region_set \<times> pk_ops \<Rightarrow> (region_set \<times> pk_ops) res" where
  "pk_cut_overlaps 0 region sp = Inl (Diverge ''add_and_merge_store'')"
| "pk_cut_overlaps (Suc f) region sp =
     (case OSetGen_Lookup (fst sp) region of
        None \<Rightarrow> Inr sp
      | Some old_entry \<Rightarrow> rbind (pk_split_stores Free_Clb old_entry region sp) (pk_cut_overlaps f region))"

text \<open>\<open>merge_stores\<close> changes the region in place, and \<open>trace_pmem_store\<close> goes on to use it: the changed region is
  returned.  The two turns of the loop over the neighbours are \<open>merge_neighbour\<close>, as in PMDebugger.\<close>

definition pk_add_and_merge_store :: "env \<Rightarrow> pmem_st \<Rightarrow> pk_ops \<Rightarrow> (pmem_st \<times> pk_ops) res" where
  "pk_add_and_merge_store en region p =
     rbind (pk_cut_overlaps (Suc (OSetGen_Size (pk_stores p))) region (pk_stores p, p)) (\<lambda>(ss1, p1).
       (let ahead = region\<lparr>st_addr := st_addr region - 1\<rparr>;
            behind = ahead\<lparr>st_addr := st_addr ahead + 2\<rparr>
        in rbind (merge_neighbour en ahead (region, ss1)) (\<lambda>rs.
           rbind (merge_neighbour en behind rs) (\<lambda>(region', ss2).
           rbind (OSetGen_Insert region' ss2) (\<lambda>ss3. Inr (region', p1\<lparr>pk_stores := ss3\<rparr>))))))"

definition pk_same_store :: "pmem_st \<Rightarrow> pmem_st \<Rightarrow> pk_ops \<Rightarrow> bool" where
  "pk_same_store store existing p \<longleftrightarrow>
     st_block_num store - st_block_num existing < op_store_sb_indiff (pk_opts p) \<and>
     st_addr existing = st_addr store \<and> st_size existing = st_size store \<and> st_value existing = st_value store"

fun pk_mult_loop :: "nat \<Rightarrow> pmem_st \<Rightarrow> region_set \<times> pk_ops \<Rightarrow> (region_set \<times> pk_ops) res" where
  "pk_mult_loop 0 store sp = Inl (Diverge ''handle_with_mult_stores'')"
| "pk_mult_loop (Suc f) store sp =
     (case OSetGen_Lookup (fst sp) store of
        None \<Rightarrow> Inr sp
      | Some existing \<Rightarrow>
          if pk_same_store store existing (snd sp)
          then rbind (OSetGen_Remove store (fst sp)) (\<lambda>(n, ss1).
                 rbind (OSetGen_FreeNode existing ss1) (\<lambda>ss2. pk_mult_loop f store (ss2, snd sp)))
          else rbind (pk_split_stores Add_Mult_Overwrite_Warn existing store sp) (pk_mult_loop f store))"

definition pk_handle_with_mult_stores :: "pmem_st \<Rightarrow> pk_ops \<Rightarrow> pk_ops res" where
  "pk_handle_with_mult_stores store p =
     rbind (pk_mult_loop (Suc (OSetGen_Size (pk_stores p))) store (pk_stores p, p)) (\<lambda>(ss1, p1).
     rbind (OSetGen_Insert store ss1) (\<lambda>ss2. Inr (p1\<lparr>pk_stores := ss2\<rparr>)))"

definition pk_log_store :: "env \<Rightarrow> pmem_st \<Rightarrow> pk_ops \<Rightarrow> pk_ops res" where
  "pk_log_store en store p =
     (if \<not> op_log_stores (pk_opts p) then Inr p
      else (let p1 = pk_log [Emit ''|STORE;0x%lx;0x%lx;0x%lx'' [st_addr store, st_value store, st_size store]] p
            in if op_store_traces (pk_opts p)
               then rbind (pp_store_trace en store (op_store_traces_depth (pk_opts p))) (\<lambda>ms. Inr (pk_log ms p1))
               else Inr p1))"

text \<open>\<open>trace_pmem_store\<close> up to the call of \<open>handle_tx_store\<close>, with the store for that call.\<close>

definition pk_track_store :: "env \<Rightarrow> uword \<Rightarrow> uword \<Rightarrow> uword \<Rightarrow> pk_ops \<Rightarrow> (pmem_st option \<times> pk_ops) res" where
  "pk_track_store en addr sze val p =
     (if \<not> pk_is_pmem_access addr sze p then Inr (None, p)
      else (let store = zero_st\<lparr>st_addr := addr, st_size := sze, st_state := STST_DIRTY, st_block_num := pk_sblocks p,
                  st_value := val, st_context := en_context en\<rparr>
            in rbind (pk_log_store en store p) (\<lambda>p1.
               if op_track_multiple_stores (pk_opts p1)
               then rbind (pk_handle_with_mult_stores store p1) (\<lambda>p2. Inr (Some store, p2))
               else rbind (pk_add_and_merge_store en store p1) (\<lambda>(store', p2). Inr (Some store', p2)))))"

definition pk_trace_pmem_store ::
    "env \<Rightarrow> uword \<Rightarrow> uword \<Rightarrow> uword \<Rightarrow> pk_ops \<times> transaction_ops \<Rightarrow> (pk_ops \<times> transaction_ops) res" where
  "pk_trace_pmem_store en addr sze val = (\<lambda>(p, t).
     rbind (pk_track_store en addr sze val p) (\<lambda>(store, p').
       case store of None \<Rightarrow> Inr (p', t)
       | Some st \<Rightarrow> rbind (handle_tx_store en st t) (\<lambda>t'. Inr (p', t'))))"

definition pk_add_one_SB_entered :: "pk_ops \<Rightarrow> pk_ops" where
  "pk_add_one_SB_entered p = p\<lparr>pk_sblocks := pk_sblocks p + 1\<rparr>"

section \<open>Fences\<close>

definition pk_next :: "pk_ops \<Rightarrow> (pmem_st option \<times> pk_ops) res" where
  "pk_next p = rbind (OSetGen_Next (pk_stores p)) (\<lambda>(e, s). Inr (e, p\<lparr>pk_stores := s\<rparr>))"

definition pk_fence_entry :: "pmem_st \<Rightarrow> pk_ops \<Rightarrow> pk_ops res" where
  "pk_fence_entry e p =
     (if st_state e = STST_FLUSHED
      then rbind (OSetGen_Remove e (pk_stores p)) (\<lambda>(n, s1).
           rbind (OSetGen_FreeNode e s1) (\<lambda>s2.
           rbind (OSetGen_ResetIterAt e s2) (\<lambda>s3. Inr (p\<lparr>pk_stores := s3\<rparr>))))
      else Inr p)"

definition pk_do_fence :: "pk_ops \<Rightarrow> pk_ops res" where
  "pk_do_fence p =
     (let p0 = (if op_log_stores (pk_opts p) then pk_log [Emit ''|FENCE'' []] p else p)
      in while_next (Suc (OSetGen_Size (pk_stores p0))) pk_next pk_fence_entry
           (p0\<lparr>pk_stores := OSetGen_ResetIter (pk_stores p0)\<rparr>))"

section \<open>Flushes\<close>

definition pk_flush_range :: "uword \<Rightarrow> uword \<Rightarrow> pk_ops \<Rightarrow> pmem_st" where
  "pk_flush_range base sze p =
     (let al = op_flush_align_size (pk_opts p) in
      if \<not> op_force_flush_align (pk_opts p) then mk_region base sze
      else mk_region (and base (not (al - 1))) (((sze + (al - 1)) div al) * al))"

definition pk_add_redundant_flush :: "pmem_st \<Rightarrow> pk_ops \<Rightarrow> pk_ops res" where
  "pk_add_redundant_flush e p =
     (if \<not> op_check_flush (pk_opts p) then Inr p
      else rbind (add_warning_event (pk_print_redundant_flush_error p) MAX_FLUSH_ERROR_EVENTS e (pk_redundant_flushes p)) (\<lambda>evs.
        Inr (p\<lparr>pk_redundant_flushes := evs\<rparr>)))"

definition pk_add_superfluous_flush :: "env \<Rightarrow> pmem_st \<Rightarrow> pk_ops \<Rightarrow> pk_ops res" where
  "pk_add_superfluous_flush en fi p =
     (if \<not> op_check_flush (pk_opts p) then Inr p
      else rbind (add_warning_event (pk_print_superfluous_flush_error p) MAX_FLUSH_ERROR_EVENTS (fi\<lparr>st_context := en_context en\<rparr>)
             (pk_superfluous_flushes p)) (\<lambda>evs. Inr (p\<lparr>pk_superfluous_flushes := evs\<rparr>)))"

text \<open>The entry is taken out, cut, and put back with the other part; the iterator goes on at one of the two.\<close>

definition pk_reinsert :: "pmem_st \<Rightarrow> pmem_st \<Rightarrow> pmem_st \<Rightarrow> pmem_st \<Rightarrow> region_set \<Rightarrow> region_set res" where
  "pk_reinsert old split being_flushed at ss =
     rbind (OSetGen_Remove old ss) (\<lambda>(n, s1).
     rbind (OSetGen_Insert split s1) (\<lambda>s2.
     rbind (OSetGen_Insert being_flushed s2) (OSetGen_ResetIterAt at)))"

definition pk_split_before :: "pmem_st \<Rightarrow> pmem_st \<times> region_set \<Rightarrow> (pmem_st \<times> region_set) res" where
  "pk_split_before fi = (\<lambda>(e, ss).
     if st_addr e < st_addr fi
     then (let split = e\<lparr>st_size := st_addr fi - st_addr e, st_state := STST_DIRTY\<rparr>;
               e' = e\<lparr>st_addr := st_addr fi, st_size := st_size e - st_size split\<rparr>
           in rbind (pk_reinsert e split e' e' ss) (\<lambda>s'. Inr (e', s')))
     else Inr (e, ss))"

definition pk_split_behind :: "pmem_st \<Rightarrow> pmem_st \<times> region_set \<Rightarrow> region_set res" where
  "pk_split_behind fi = (\<lambda>(e, ss).
     let flush_max = st_addr fi + st_size fi
     in if st_addr e + st_size e > flush_max
        then (let split = e\<lparr>st_addr := flush_max, st_size := st_addr e + st_size e - flush_max, st_state := STST_DIRTY\<rparr>;
                  e' = e\<lparr>st_size := st_size e - st_size split\<rparr>
              in pk_reinsert e split e' split ss)
        else Inr ss)"

definition pk_flush_entry :: "pmem_st \<Rightarrow> pmem_st \<Rightarrow> pk_ops \<times> bool \<Rightarrow> (pk_ops \<times> bool) res" where
  "pk_flush_entry fi e = (\<lambda>(p, valid_flush).
     if cmp_pmem_st fi e \<noteq> 0 then Inr (p, valid_flush)
     else if st_state e \<noteq> STST_DIRTY then rbind (pk_add_redundant_flush e p) (\<lambda>p'. Inr (p', True))
     else (let e' = e\<lparr>st_state := STST_FLUSHED\<rparr>
           in rbind (pk_split_before fi (e', os_write e e' (pk_stores p))) (\<lambda>es.
              rbind (pk_split_behind fi es) (\<lambda>ss. Inr (p\<lparr>pk_stores := ss\<rparr>, True)))))"

text \<open>An entry that is cut at its start is visited once more: two turns per entry and a last one are enough.\<close>

definition pk_do_flush :: "env \<Rightarrow> uword \<Rightarrow> uword \<Rightarrow> pk_ops \<Rightarrow> pk_ops res" where
  "pk_do_flush en base sze p =
     (let fi = pk_flush_range base sze p;
          p0 = (if op_log_stores (pk_opts p) then pk_log [Emit ''|FLUSH;0x%lx;0x%llx'' [st_addr fi, st_size fi]] p else p)
      in rbind (while_next (2 * OSetGen_Size (pk_stores p0) + 1)
                  (\<lambda>(p, v). rbind (pk_next p) (\<lambda>(e, p'). Inr (e, (p', v)))) (pk_flush_entry fi)
                  (p0\<lparr>pk_stores := OSetGen_ResetIter (pk_stores p0)\<rparr>, False)) (\<lambda>(p1, valid_flush).
           if valid_flush then Inr p1 else pk_add_superfluous_flush en fi p1))"

definition pk_trace_pmem_flush :: "env \<Rightarrow> uword \<Rightarrow> pk_ops \<Rightarrow> pk_ops res" where
  "pk_trace_pmem_flush en addr p = pk_do_flush en addr (op_flush_align_size (pk_opts p)) p"

section \<open>Summary and exit\<close>

definition pk_print_general_summary :: "pk_ops \<Rightarrow> transaction_ops \<Rightarrow> out list" where
  "pk_print_general_summary p t =
     [Umsg ''ERROR SUMMARY: %lu errors''
       [of_nat (length (pk_redundant_flushes p) + length (pk_superfluous_flushes p) + length (pk_multiple_stores p) +
          OSetGen_Size (pk_stores p) + get_tx_all_err t)]]"

definition pk_print_pmem_stats :: "bool \<Rightarrow> transaction_ops \<Rightarrow> pk_ops \<Rightarrow> pk_ops res" where
  "pk_print_pmem_stats append_blank_line t p =
     rbind (pk_print_store_stats p) (\<lambda>p1.
     rbind (print_tx_summary t) (\<lambda>txs.
       Inr (pk_log (txs @
         (if pk_redundant_flushes p1 \<noteq> [] then pk_print_redundant_flushes p1 else []) @
         (if pk_superfluous_flushes p1 \<noteq> [] then pk_print_superfluous_flushes p1 else []) @
         (if op_track_multiple_stores (pk_opts p1) \<and> pk_multiple_stores p1 \<noteq> [] then pk_print_multiple_stores p1 else []) @
         (if op_error_summary (pk_opts p1) then pk_print_general_summary p1 t else []) @
         (if append_blank_line then [Umsg '''' []] else [])) p1)))"

definition pk_print_persistent_mappings :: "pk_ops \<Rightarrow> pk_ops res" where
  "pk_print_persistent_mappings p =
     rbind (os_iter (pk_mappings p)) (\<lambda>ms.
       Inr (pk_log (map (\<lambda>(i, m). Umsg ''[%d] Mapping base: 0x%lx size: %llu'' [of_nat i, st_addr m, st_size m])
              (enumerate 0 ms)) p))"

definition pk_fini :: "pk_ops \<times> transaction_ops \<Rightarrow> (pk_ops \<times> transaction_ops) res" where
  "pk_fini = (\<lambda>(p, t).
     let p1 = (if op_log_stores (pk_opts p) then pk_log [Emit ''|STOP'' []] p else p)
     in rbind (if op_print_summary (pk_opts p1) then pk_print_pmem_stats False t p1 else Inr p1) (\<lambda>p2. Inr (p2, t)))"

end
