(* ===== verification/Pmemcheck_Store_Laws.thy ===== *)
theory Pmemcheck_Store_Laws
  imports Pmemcheck PMC_Persist
begin

text \<open>
  What \<open>pmemcheck\<close> does with mappings and stores.  Its set of stores is a partial function from bytes to the
  state and the context of the last store; \<open>tags\<close> reads it.  A store first cuts its range out of the set, which
  leaves the tags of the other bytes, and then merges with neighbours of the same state.
\<close>

section \<open>Mappings\<close>

text \<open>An entry is taken out by any key that finds it.\<close>

lemma Remove_found: "OSetGen_Lookup s k = Some e \<Longrightarrow> OSetGen_Lookup s e = Some e \<Longrightarrow> OSetGen_Remove k s = OSetGen_Remove e s"
  by (simp add: OSetGen_Remove_def OSetGen_Lookup_def)

lemma pk_add_region_loop_eq:
  "regions_ok s \<Longrightarrow> rkey k \<Longrightarrow> pk_add_region_loop f k e s = add_region_loop f k e s"
proof (induction f arbitrary: e s)
  case 0
  then show ?case by simp
next
  case (Suc f)
  show ?case
  proof (cases "OSetGen_Lookup s k")
    case None
    then show ?thesis using ro.Remove_None [OF None] by simp
  next
    case (Some old)
    note old = region_lookup_Some [OF Suc.prems Some]
    have self: "OSetGen_Lookup s old = Some old" using ro.Lookup_elem [OF Suc.prems(1) old(1)] by simp
    obtain s1 where s1: "OSetGen_Remove old s = Inr (Some old, s1)" "regions_ok s1" "elems s1 = filter (\<lambda>y. y \<noteq> old) (elems s)"
      using ro.Remove_correct [OF Suc.prems(1) self] by auto
    have "OSetGen_FreeNode old s1 = Inr s1" using FreeNode_ok [OF s1(2), of old] s1(3) by simp
    then show ?thesis using Some s1 Remove_found [OF Some self] Suc.IH [OF s1(2) Suc.prems(2)] by (simp add: Let_def)
  qed
qed

theorem pk_add_region_eq:
  assumes "regions_ok s" "rok r"
  shows "pk_add_region r s = add_region r s"
proof -
  have "rok (r\<lparr>st_state := STST_CLEAN\<rparr>)" using assms(2) by (simp add: rok_def hi_def lo_def sz_def)
  then have "rkey (r\<lparr>st_state := STST_CLEAN, st_addr := st_addr r - 1, st_size := st_size r + 2\<rparr>)"
    using search_entry_bounds(3) [OF _ refl] by fastforce
  then show ?thesis
    using pk_add_region_loop_eq [OF assms(1)] by (simp add: pk_add_region_def add_region_def Let_def del: pk_add_region_loop.simps add_region_loop.simps)
qed

section \<open>Cutting a range out of the set\<close>

definition tags :: "pmem_st list \<Rightarrow> nat \<Rightarrow> (store_state \<times> exe_context) set" where
  "tags es b = {(st_state e, st_context e) | e. e \<in> set es \<and> b \<in> bytes e}"

lemma tags_mem: "t \<in> tags es b \<longleftrightarrow> (\<exists>e \<in> set es. b \<in> bytes e \<and> t = (st_state e, st_context e))"
  by (auto simp: tags_def)

lemma in_state_tags: "in_state x es = {b. \<exists>c. (x, c) \<in> tags es b}"
  by (simp add: set_eq_iff in_state_mem tags_mem) blast

lemma tags_all:
  assumes "regions_ok s" "\<And>b t. t \<in> tags (elems s) b \<Longrightarrow> Q t"
  shows "\<forall>e \<in> set (elems s). Q (st_state e, st_context e)"
proof
  fix e assume e: "e \<in> set (elems s)"
  have "lo e \<in> bytes e" using regions_rok [OF assms(1) e] by (simp add: rok_def bytes_def hi_def)
  then show "Q (st_state e, st_context e)" using assms(2) [of _ "lo e"] e by (auto simp: tags_mem)
qed

text \<open>What is left of a store that was cut keeps its state and its context.\<close>

definition same_tag :: "pmem_st \<Rightarrow> pmem_st \<Rightarrow> bool" where
  "same_tag e x \<longleftrightarrow> st_state x = st_state e \<and> st_context x = st_context e"

lemma tags_one:
  assumes "\<And>e. e \<in> set es \<Longrightarrow> b \<in> bytes e \<Longrightarrow> same_tag old e" "x \<in> set es" "b \<in> bytes x"
  shows "tags es b = {(st_state old, st_context old)}"
proof -
  have "t \<in> tags es b \<longleftrightarrow> t = (st_state old, st_context old)" for t
    using assms unfolding tags_mem same_tag_def by metis
  then show ?thesis by blast
qed

lemma tags_replace:
  assumes "regions_ok s" "old \<in> set (elems s)" "set (elems s') = set (elems s) - {old} \<union> P"
    and "\<forall>x \<in> P. same_tag old x" "(\<Union>x \<in> P. bytes x) = bytes old - bytes r"
  shows "b \<in> bytes r \<and> b \<in> bytes old \<Longrightarrow> tags (elems s') b = {}" "b \<notin> bytes r \<or> b \<notin> bytes old \<Longrightarrow> tags (elems s') b = tags (elems s) b"
proof -
  have only: "e = old" if "e \<in> set (elems s)" "b \<in> bytes e" "b \<in> bytes old" for e
    using disjoint_list_disj [OF regions_okD [OF assms(1)] that(1) assms(2)] that(2,3) by blast
  show "tags (elems s') b = {}" if "b \<in> bytes r \<and> b \<in> bytes old"
    using that only assms(3,5) by (auto simp: tags_def)
  show "tags (elems s') b = tags (elems s) b" if b: "b \<notin> bytes r \<or> b \<notin> bytes old"
  proof (cases "b \<in> bytes old")
    case True
    then obtain x where x: "x \<in> P" "b \<in> bytes x" using b assms(5) by blast
    have "tags (elems s) b = {(st_state old, st_context old)}"
      by (rule tags_one [OF _ assms(2) True]) (auto dest: only [OF _ _ True] simp: same_tag_def)
    moreover have "tags (elems s') b = {(st_state old, st_context old)}"
    proof (rule tags_one)
      show "x \<in> set (elems s')" using x assms(3) by blast
      show "same_tag old e" if "e \<in> set (elems s')" "b \<in> bytes e" for e
        using that only [OF _ _ True] assms(3,4) by blast
    qed (rule x(2))
    ultimately show ?thesis by simp
  next
    case False
    then have "e \<in> set (elems s') \<longleftrightarrow> e \<in> set (elems s)" if "b \<in> bytes e" for e using that assms(3,5) by blast
    then show ?thesis unfolding tags_def by blast
  qed
qed

lemma same_range:
  assumes "st_addr x = st_addr y" "st_size x = st_size y"
  shows "lo x = lo y" "hi x = hi y" "bytes x = bytes y" "rok x = rok y" "rkey x = rkey y"
  using assms by (simp_all add: lo_def sz_def hi_def bytes_def rok_def rkey_def)

lemma mask_value_sel [simp]:
  "st_addr (mask_value x) = st_addr x" "st_size (mask_value x) = st_size x" "st_state (mask_value x) = st_state x"
  "st_context (mask_value x) = st_context x"
  by (simp_all add: mask_value_def)

lemma write_part:
  assumes "regions_ok s" "e \<in> set (elems s)" "rok x" "lo e \<le> lo x" "hi x \<le> hi e"
  shows "regions_ok (os_write e x s)" "set (elems (os_write e x s)) = set (elems s) - {e} \<union> {x}"
    "length (elems (os_write e x s)) = length (elems s)"
proof -
  obtain xs ys where el: "elems s = xs @ e # ys" using assms(2) by (meson split_list)
  have d: "disjoint_list (xs @ e # ys)" using regions_okD [OF assms(1)] el by simp
  have "lo e < hi e" using d by (auto simp: rok_def hi_def)
  with d have n: "e \<notin> set xs" "e \<notin> set ys" by force+
  have "disjoint_list (xs @ x # ys)" using d assms(3-5) by force
  then show "regions_ok (os_write e x s)"
    by (intro oset_inv_write [OF assms(1)]) (simp only: ordered_regions el map_write_split [OF n])
  have "elems (os_write e x s) = xs @ x # ys" using el regions_key [OF assms(1)] map_write_split [OF n, of x] by simp
  then show "set (elems (os_write e x s)) = set (elems s) - {e} \<union> {x}" "length (elems (os_write e x s)) = length (elems s)"
    using el n by auto
qed

lemma region_bytes_less:
  assumes "regions_ok s" "e \<in> set (elems s)" "set (elems s') = set (elems s) - {e} \<union> P"
  shows "region_bytes s' = region_bytes s - bytes e \<union> (\<Union>x \<in> P. bytes x)"
proof -
  have "x = e" if "x \<in> set (elems s)" "b \<in> bytes x" "b \<in> bytes e" for x b
    using disjoint_list_disj [OF regions_okD [OF assms(1)] that(1) assms(2)] that(2,3) by blast
  then show ?thesis using assms(3) unfolding set_bytes_def by blast
qed

text \<open>The four cases of \<open>split_stores\<close>: \<open>P\<close> holds what is left of the old store and \<open>ev\<close> is what the callback gets.\<close>

definition split_to :: "pmem_st \<Rightarrow> pmem_st \<Rightarrow> region_set \<Rightarrow> pmem_st set \<Rightarrow> pmem_st \<Rightarrow> region_set \<Rightarrow> bool" where
  "split_to old new s P ev s' \<longleftrightarrow> regions_ok s' \<and> set (elems s') = set (elems s) - {old} \<union> P \<and>
     (\<forall>x \<in> P. same_tag old x) \<and> (\<Union>x \<in> P. bytes x) = bytes old - bytes new \<and>
     length (elems s') \<le> length (elems s) + of_bool (overlaps new s = {old}) \<and>
     bytes ev = bytes old \<inter> bytes new \<and> st_context ev = st_context old"

definition warn_overwrite :: "pmem_st \<Rightarrow> region_set \<Rightarrow> pk_ops \<Rightarrow> (region_set \<times> pk_ops) res" where
  "warn_overwrite ev s p =
     rbind (add_warning_event (pk_print_max_poss_overwrites_error p) MAX_MULT_OVERWRITES ev (pk_multiple_stores p))
       (\<lambda>evs. Inr (s, p\<lparr>pk_multiple_stores := evs\<rparr>))"

definition after_split :: "split_clb \<Rightarrow> pmem_st \<Rightarrow> region_set \<Rightarrow> pk_ops \<Rightarrow> (region_set \<times> pk_ops) res" where
  "after_split clb ev s p = (case clb of Free_Clb \<Rightarrow> Inr (s, p) | Add_Mult_Overwrite_Warn \<Rightarrow> warn_overwrite ev s p)"

lemma pk_clb_copy: "pk_clb clb ev False (s, p) = after_split clb ev s p"
  by (simp add: pk_clb_def after_split_def warn_overwrite_def split: split_clb.split)

lemma after_split_write: "rbind (after_split clb ev s p) (\<lambda>(s1, p1). Inr (g s1, p1)) = after_split clb ev (g s) p"
  by (cases "length (pk_multiple_stores p) = MAX_MULT_OVERWRITES")
     (simp_all add: after_split_def warn_overwrite_def add_warning_event_def split: split_clb.split)

lemma split_covered:
  assumes s: "regions_ok s" "old \<in> set (elems s)" and new: "rkey new" and c: "lo new \<le> lo old" "hi old \<le> hi new"
  shows "\<exists>s' P ev. pk_split_stores clb old new (s, p) = after_split clb ev s' p \<and> split_to old new s P ev s'"
proof -
  note old = regions_rok [OF s]
  obtain s1 where s1: "OSetGen_Remove old s = Inr (Some old, s1)" "regions_ok s1" "elems s1 = filter (\<lambda>y. y \<noteq> old) (elems s)"
    using ro.Remove_correct [OF s(1) ro.Lookup_elem [OF s]] by auto
  have "OSetGen_FreeNode old s1 = Inr s1" using FreeNode_ok [OF s1(2), of old] s1(3) by simp
  then have "pk_clb clb old True (s1, p) = after_split clb old s1 p"
    by (simp add: pk_clb_def after_split_def warn_overwrite_def split: split_clb.split)
  moreover have "split_to old new s {} old s1"
    using s1(2,3) c le_trans [OF length_filter_le [of "\<lambda>y. y \<noteq> old" "elems s"]] by (auto simp: split_to_def bytes_def)
  ultimately show ?thesis
    using s1(1) cut_cmp [OF old new] c
    by (intro exI [of _ s1] exI [of _ "{}"] exI [of _ old]) (simp add: pk_split_stores_def Let_def)
qed

lemma split_inside:
  assumes s: "regions_ok s" "old \<in> set (elems s)" and new: "rkey new" and c: "lo old < lo new" "hi new < hi old"
  shows "\<exists>s' P ev. pk_split_stores clb old new (s, p) = after_split clb ev s' p \<and> split_to old new s P ev s'"
proof -
  note old = regions_rok [OF s]
  have ne: "lo new < hi new" using new by (simp add: rkey_def hi_def)
  define x where "x = old\<lparr>st_value := shift_right (st_value old) (st_addr old + st_size old - st_addr new), st_size := st_addr new - st_addr old\<rparr>"
  define y where "y = mask_value (old\<lparr>st_addr := st_addr new + st_size new, st_size := st_addr old + st_size old - (st_addr new + st_size new)\<rparr>)"
  have "lo new < hi old" using c ne by simp
  then have x: "lo x = lo old" "hi x = lo new" "rok x"
    using left_part [OF old c(1)] same_range [of x "old\<lparr>st_size := st_addr new - st_addr old\<rparr>"] by (simp_all add: x_def)
  have y: "lo y = hi new" "hi y = hi old" "rok y" using right_part [OF old new c(2), of y] by (simp_all add: y_def)
  have w: "regions_ok (os_write old x s)" "set (elems (os_write old x s)) = set (elems s) - {old} \<union> {x}"
    "length (elems (os_write old x s)) = length (elems s)"
    using write_part [OF s x(3)] x c ne by auto
  have "bytes y \<inter> region_bytes (os_write old x s) = {}"
    unfolding region_bytes_less [OF s w(2)] using x y c ne by (auto simp: bytes_def)
  then obtain s' where s': "OSetGen_Insert y (os_write old x s) = Inr s'" "regions_ok s'"
    "set (elems s') = insert y (set (elems (os_write old x s)))" "length (elems s') = Suc (length (elems (os_write old x s)))"
    using region_insert [OF w(1) y(3)] by metis
  have "e = old" if "e \<in> set (elems s)" "bytes e \<inter> bytes new \<noteq> {}" for e
    using disjoint_list_disj [OF regions_okD [OF s(1)] that(1) s(2)] that(2) c by (fastforce simp: bytes_def)
  moreover have "bytes old \<inter> bytes new \<noteq> {}" using c ne by (auto simp: bytes_def)
  ultimately have "overlaps new s = {old}" using s(2) unfolding overlaps_def by blast
  moreover have "bytes x \<union> bytes y = bytes old - bytes new" "bytes old \<inter> bytes new = bytes new"
    using x y c ne by (auto simp: bytes_def)
  moreover have tag: "same_tag old x" "same_tag old y" by (simp_all add: same_tag_def x_def y_def)
  ultimately have "split_to old new s {x, y} (new\<lparr>st_context := st_context old\<rparr>) s'"
    using s'(2-4) w(2,3) same_range(3) [of "new\<lparr>st_context := st_context old\<rparr>" new] tag
    unfolding split_to_def by (simp del: elems_write) blast
  moreover have "pk_split_stores clb old new (s, p) = after_split clb (new\<lparr>st_context := st_context old\<rparr>) s' p"
    using cut_cmp [OF old new] c s'(1) pk_clb_copy
    unfolding pk_split_stores_def Let_def prod.case x_def [symmetric] y_def [symmetric] by simp
  ultimately show ?thesis by blast
qed

lemma split_start:
  assumes s: "regions_ok s" "old \<in> set (elems s)" and new: "rkey new" and c: "lo old < lo new" "lo new < hi old" "hi old \<le> hi new"
  shows "\<exists>s' P ev. pk_split_stores clb old new (s, p) = after_split clb ev s' p \<and> split_to old new s P ev s'"
proof -
  note old = regions_rok [OF s]
  define x where "x = old\<lparr>st_value := shift_right (st_value old) (st_addr old + st_size old - st_addr new), st_size := st_addr new - st_addr old\<rparr>"
  define ev where "ev = old\<lparr>st_addr := st_addr new, st_size := st_addr old + st_size old - st_addr new\<rparr>"
  have x: "lo x = lo old" "hi x = lo new" "rok x"
    using left_part [OF old c(1,2)] same_range [of x "old\<lparr>st_size := st_addr new - st_addr old\<rparr>"] by (simp_all add: x_def)
  have "unat (st_addr old + st_size old - st_addr new) = hi old - lo new"
    using unat_minus_nowrap [of "st_addr new" "st_addr old + st_size old"] rkey_hi [OF rok_rkey [OF old]] c(2) by (simp add: lo_def)
  then have "bytes ev = {lo new ..< hi old}" using c(2) unfolding bytes_def hi_def [of ev] by (simp add: ev_def lo_def sz_def)
  then have ev: "bytes ev = bytes old \<inter> bytes new" using c by (auto simp: bytes_def)
  have w: "regions_ok (os_write old x s)" "set (elems (os_write old x s)) = set (elems s) - {old} \<union> {x}"
    "length (elems (os_write old x s)) = length (elems s)"
    using write_part [OF s x(3)] x c by auto
  have "bytes x = bytes old - bytes new" using x c by (auto simp: bytes_def)
  then have "split_to old new s {x} ev (os_write old x s)"
    using w ev unfolding split_to_def by (simp add: same_tag_def x_def ev_def del: elems_write)
  moreover have "pk_split_stores clb old new (s, p) = after_split clb ev (os_write old x s) p"
    using cut_cmp [OF old new] c pk_clb_copy after_split_write [of clb ev s p "os_write old x"]
    unfolding pk_split_stores_def Let_def prod.case x_def [symmetric] ev_def [symmetric] by simp
  ultimately show ?thesis by blast
qed

lemma split_end:
  assumes s: "regions_ok s" "old \<in> set (elems s)" and new: "rkey new" and c: "lo new \<le> lo old" "lo old < hi new" "hi new < hi old"
  shows "\<exists>s' P ev. pk_split_stores clb old new (s, p) = after_split clb ev s' p \<and> split_to old new s P ev s'"
proof -
  note old = regions_rok [OF s]
  define y where "y = mask_value (old\<lparr>st_addr := st_addr new + st_size new, st_size := st_addr old + st_size old - (st_addr new + st_size new)\<rparr>)"
  define ev where "ev = old\<lparr>st_size := st_size old - (st_addr old + st_size old - (st_addr new + st_size new))\<rparr>"
  have y: "lo y = hi new" "hi y = hi old" "rok y" using right_part [OF old new c(3), of y] by (simp_all add: y_def)
  have d: "unat (st_addr old + st_size old - (st_addr new + st_size new)) = hi old - hi new"
    using unat_minus_nowrap [of "st_addr new + st_size new" "st_addr old + st_size old"] rkey_hi [OF rok_rkey [OF old]]
      rkey_hi [OF new] c(3) by simp
  then have "unat (st_size old - (st_addr old + st_size old - (st_addr new + st_size new))) = sz old - (hi old - hi new)"
    using c by (subst unat_minus_nowrap) (simp_all add: sz_def hi_def [of old])
  then have "bytes ev = {lo old ..< hi new}" using c unfolding bytes_def hi_def [of ev] by (simp add: ev_def lo_def sz_def) (simp add: hi_def lo_def sz_def)
  then have ev: "bytes ev = bytes old \<inter> bytes new" using c by (auto simp: bytes_def)
  have w: "regions_ok (os_write old y s)" "set (elems (os_write old y s)) = set (elems s) - {old} \<union> {y}"
    "length (elems (os_write old y s)) = length (elems s)"
    using write_part [OF s y(3)] y c by auto
  have "bytes y = bytes old - bytes new" using y c by (auto simp: bytes_def)
  then have "split_to old new s {y} ev (os_write old y s)"
    using w ev unfolding split_to_def by (simp add: same_tag_def y_def ev_def del: elems_write)
  moreover have "pk_split_stores clb old new (s, p) = after_split clb ev (os_write old y s) p"
    using cut_cmp [OF old new] c pk_clb_copy after_split_write [of clb ev s p "os_write old y"]
    unfolding pk_split_stores_def Let_def prod.case y_def [symmetric] ev_def [symmetric] by simp
  ultimately show ?thesis by blast
qed

theorem pk_split_stores_spec:
  assumes s: "regions_ok s" "old \<in> set (elems s)" and new: "rkey new" and ov: "bytes old \<inter> bytes new \<noteq> {}"
  shows "\<exists>s' P ev. pk_split_stores clb old new (s, p) = after_split clb ev s' p \<and> split_to old new s P ev s'"
proof -
  have "lo new < hi old" "lo old < hi new"
    using ov bytes_disjoint_iff [OF rok_rkey [OF regions_rok [OF s]] new] by auto
  then show ?thesis
    using split_covered [OF s new] split_inside [OF s new] split_start [OF s new] split_end [OF s new]
    by (metis linorder_not_less)
qed

lemma split_to_overlaps:
  assumes "split_to old new s P ev s'" "old \<in> overlaps new s"
  shows "overlaps new s' = overlaps new s - {old}" "card (overlaps new s) = Suc (card (overlaps new s'))"
proof -
  show o: "overlaps new s' = overlaps new s - {old}" using assms(1) unfolding split_to_def overlaps_def by blast
  have "finite (overlaps new s)" by (simp add: overlaps_def)
  then show "card (overlaps new s) = Suc (card (overlaps new s'))" using assms(2) o by (metis card.remove)
qed

text \<open>The set after the range of a store was cut out.\<close>

definition cut_store :: "pmem_st \<Rightarrow> region_set \<Rightarrow> region_set \<Rightarrow> bool" where
  "cut_store r s s' \<longleftrightarrow> regions_ok s' \<and> (\<forall>b. tags (elems s') b = (if b \<in> bytes r then {} else tags (elems s) b)) \<and>
     length (elems s') \<le> length (elems s) + of_bool (overlaps r s \<noteq> {})"

lemma region_bytes_tags: "region_bytes s = {b. tags (elems s) b \<noteq> {}}"
  unfolding set_bytes_def tags_def by blast

lemma cut_store_free: "cut_store r s s' \<Longrightarrow> bytes r \<inter> region_bytes s' = {}"
  by (auto simp: cut_store_def region_bytes_tags split: if_splits)

lemma cut_store_refl:
  assumes "regions_ok s" "bytes r \<inter> region_bytes s = {}"
  shows "cut_store r s s"
  using assms by (auto simp: cut_store_def region_bytes_tags)

lemma cut_store_step:
  assumes "regions_ok s" "old \<in> overlaps r s" "split_to old r s P ev s1" "cut_store r s1 s2"
  shows "cut_store r s s2"
proof -
  have sp: "set (elems s1) = set (elems s) - {old} \<union> P" "\<forall>x \<in> P. same_tag old x" "(\<Union>x \<in> P. bytes x) = bytes old - bytes r"
    "length (elems s1) \<le> length (elems s) + of_bool (overlaps r s = {old})"
    using assms(3) by (simp_all add: split_to_def)
  have "old \<in> set (elems s)" using assms(2) by (simp add: overlaps_def)
  note t = tags_replace [OF assms(1) this sp(1-3)]
  have "tags (elems s2) b = (if b \<in> bytes r then {} else tags (elems s) b)" for b
    using t [of b] assms(4) by (auto simp: cut_store_def)
  moreover have "length (elems s2) \<le> Suc (length (elems s))"
  proof (cases "overlaps r s = {old}")
    case True
    then have "overlaps r s1 = {}" using split_to_overlaps(1) [OF assms(3,2)] by simp
    then show ?thesis using sp(4) True assms(4) by (simp add: cut_store_def)
  next
    case False
    then have "length (elems s1) \<le> length (elems s)" using sp(4) by simp
    moreover have "length (elems s2) \<le> Suc (length (elems s1))" using assms(4) by (auto simp: cut_store_def of_bool_def split: if_splits)
    ultimately show ?thesis by simp
  qed
  ultimately show ?thesis using assms(2,4) by (auto simp: cut_store_def)
qed

lemma lookup_overlaps:
  assumes "regions_ok s" "rkey r" "OSetGen_Lookup s r = Some e"
  shows "e \<in> overlaps r s" "e \<in> set (elems s)" "bytes e \<inter> bytes r \<noteq> {}" "rok e"
  using region_lookup_Some [OF assms] by (auto simp: overlaps_def)

lemma pk_cut_overlaps_spec:
  assumes "regions_ok s" "rkey r" "card (overlaps r s) < f"
  shows "\<exists>s'. pk_cut_overlaps f r (s, p) = Inr (s', p) \<and> cut_store r s s'"
  using assms
proof (induction f arbitrary: s)
  case 0
  then show ?case by simp
next
  case (Suc f)
  show ?case
  proof (cases "OSetGen_Lookup s r")
    case None
    then show ?thesis using cut_store_refl [OF Suc.prems(1) region_lookup_None [OF Suc.prems(1,2) None]] by simp
  next
    case (Some old)
    note old = lookup_overlaps [OF Suc.prems(1,2) Some]
    obtain s1 P ev where s1: "pk_split_stores Free_Clb old r (s, p) = Inr (s1, p)" "split_to old r s P ev s1"
      using pk_split_stores_spec [OF Suc.prems(1) old(2) Suc.prems(2) old(3), of Free_Clb p] by (auto simp: after_split_def)
    then have "regions_ok s1" "card (overlaps r s1) < f"
      using Suc.prems(3) split_to_overlaps(2) [OF s1(2) old(1)] by (simp_all add: split_to_def)
    then obtain s2 where "pk_cut_overlaps f r (s1, p) = Inr (s2, p)" "cut_store r s1 s2"
      using Suc.IH [of s1] Suc.prems(2) by blast
    then show ?thesis using Some s1(1) cut_store_step [OF Suc.prems(1) old(1) s1(2)] by auto
  qed
qed

section \<open>Merging with the neighbours\<close>

lemma merge_stores_hull: "merge_stores x y = hull x y"
  by (simp add: merge_stores_def hull_def Let_def)

definition traced :: "exe_context \<Rightarrow> bool" where
  "traced c \<longleftrightarrow> c \<noteq> Some []"

lemma mergeable_total:
  assumes "traced (st_context x)" "traced (st_context y)"
  shows "\<exists>b. is_store_mergeable en x y = Inr b \<and> (b \<longrightarrow> st_state x = st_state y)"
  using assms by (auto simp: is_store_mergeable_def cmp_exe_context_def traced_def split: option.splits)

text \<open>\<open>k\<close> finds only entries that touch the store, none of which overlap it.\<close>

definition beside :: "pmem_st \<Rightarrow> pmem_st \<Rightarrow> bool" where
  "beside k r \<longleftrightarrow> (\<forall>e. rok e \<longrightarrow> bytes e \<inter> bytes r = {} \<longrightarrow> bytes e \<inter> bytes k \<noteq> {} \<longrightarrow> hi e = lo r \<or> lo e = hi r)"

lemma hull_sel: "st_state (hull x y) = st_state x" "st_context (hull x y) = st_context x"
  by (simp_all add: hull_def)

lemma merge_neighbour_spec:
  assumes s: "regions_ok s" "rok r" "bytes r \<inter> region_bytes s = {}" and k: "rkey k" "beside k r"
    and c: "traced (st_context r)" "\<forall>e \<in> set (elems s). traced (st_context e)"
  shows "\<exists>r' s'. merge_neighbour en k (r, s) = Inr (r', s') \<and> regions_ok s' \<and> rok r' \<and> bytes r' \<inter> region_bytes s' = {} \<and>
    st_state r' = st_state r \<and> st_context r' = st_context r \<and> set (elems s') \<subseteq> set (elems s) \<and> length (elems s') \<le> length (elems s) \<and>
    (\<forall>x. in_state x (r' # elems s') = in_state x (r # elems s)) \<and>
    (r' = r \<or> (\<exists>e \<in> overlaps k s. r' = hull r e))"
proof (cases "OSetGen_Lookup s k")
  case None
  then show ?thesis using s by (auto simp: merge_neighbour_def)
next
  case (Some e)
  note e = lookup_overlaps [OF s(1) k(1) Some]
  have dj: "bytes e \<inter> bytes r = {}" using s(3) e(2) by (auto simp: set_bytes_def)
  have "hi e = lo r \<or> lo e = hi r" using k(2) e(3,4) dj unfolding beside_def by blast
  then have touch: "lo r \<le> hi e" "lo e \<le> hi r" by (auto simp: hi_def)
  obtain b where b: "is_store_mergeable en r e = Inr b" "b \<longrightarrow> st_state r = st_state e"
    using mergeable_total [OF c(1)] c(2) e(2) by blast
  show ?thesis
  proof (cases b)
    case False
    then show ?thesis using Some b s by (auto simp: merge_neighbour_def)
  next
    case True
    obtain s1 where s1: "OSetGen_Remove k s = Inr (Some e, s1)" "regions_ok s1" "elems s1 = filter (\<lambda>y. y \<noteq> e) (elems s)"
      using ro.Remove_correct [OF s(1) Some] by auto
    have fr: "OSetGen_FreeNode e s1 = Inr s1" using FreeNode_ok [OF s1(2), of e] s1(3) by simp
    have h: "bytes (hull r e) = bytes r \<union> bytes e" "rok (hull r e)" using bytes_hull hull_bounds s(2) e(4) touch by auto
    have "region_bytes s1 = region_bytes s - bytes e"
      using s1(3) set_bytes_filter_neq [OF regions_okD [OF s(1)] e(2)] by simp
    then have "bytes (hull r e) \<inter> region_bytes s1 = {}" using h(1) s(3) by auto
    moreover have "y \<in> in_state x (hull r e # elems s1) \<longleftrightarrow> y \<in> in_state x (r # elems s)" for x y
      using h(1) s1(3) e(2) b(2) True by (auto simp: in_state_mem hull_sel)
    then have "in_state x (hull r e # elems s1) = in_state x (r # elems s)" for x by blast
    moreover have "merge_neighbour en k (r, s) = Inr (hull r e, s1)"
      using Some b(1) True s1(1) fr by (simp add: merge_neighbour_def merge_stores_hull)
    ultimately show ?thesis using s1(2,3) h(2) e(1) by (intro exI [of _ "hull r e"] exI [of _ s1]) (auto simp: hull_sel)
  qed
qed

lemma ahead_bounds:
  assumes "rok r"
  shows "lo (r\<lparr>st_addr := st_addr r - 1\<rparr>) = lo r - 1" "hi (r\<lparr>st_addr := st_addr r - 1\<rparr>) = hi r - 1" "rkey (r\<lparr>st_addr := st_addr r - 1\<rparr>)"
    "beside (r\<lparr>st_addr := st_addr r - 1\<rparr>) r"
proof -
  let ?k = "r\<lparr>st_addr := st_addr r - 1\<rparr>"
  have "unat (st_addr r - 1) = unat (st_addr r) - 1" using assms by (subst unat_minus_nowrap) (simp_all add: rok_def lo_def)
  then show b: "lo ?k = lo r - 1" "hi ?k = hi r - 1" "rkey ?k"
    using assms by (auto simp: rok_def rkey_def hi_def lo_def sz_def)
  show "beside ?k r"
    unfolding beside_def
  proof (intro allI impI)
    fix e assume e: "rok e" "bytes e \<inter> bytes r = {}" "bytes e \<inter> bytes ?k \<noteq> {}"
    then show "hi e = lo r \<or> lo e = hi r"
      using bytes_disjoint_iff [OF rok_rkey [OF e(1)] rok_rkey [OF assms]] bytes_disjoint_iff [OF rok_rkey [OF e(1)] b(3)] b(1,2)
      by auto
  qed
qed

lemma behind_bounds:
  assumes "rok r" "rok r1" "hi r1 = hi r" "lo r1 \<le> lo r"
  shows "rkey (r\<lparr>st_addr := st_addr r - 1 + 2\<rparr>)" "beside (r\<lparr>st_addr := st_addr r - 1 + 2\<rparr>) r1"
proof -
  let ?k = "r\<lparr>st_addr := st_addr r - 1 + 2\<rparr>"
  have "unat (st_addr r + 1) = unat (st_addr r) + 1" using assms(1) by (subst unat_plus_nowrap) (simp_all add: rok_def hi_def lo_def)
  moreover have "st_addr r - 1 + 2 = st_addr r + 1" by simp
  ultimately have "unat (st_addr r - 1 + 2) = unat (st_addr r) + 1" by (simp only:)
  then have b: "lo ?k = lo r + 1" "hi ?k = hi r + 1" unfolding hi_def lo_def sz_def by simp_all
  then show k: "rkey ?k" using assms(1) by (simp add: rok_def rkey_def sz_def)
  show "beside ?k r1"
    unfolding beside_def
  proof (intro allI impI)
    fix e assume e: "rok e" "bytes e \<inter> bytes r1 = {}" "bytes e \<inter> bytes ?k \<noteq> {}"
    then show "hi e = lo r1 \<or> lo e = hi r1"
      using bytes_disjoint_iff [OF rok_rkey [OF e(1)] rok_rkey [OF assms(2)]] bytes_disjoint_iff [OF rok_rkey [OF e(1)] k] b assms(3,4)
      by auto
  qed
qed

definition all_traced :: "region_set \<Rightarrow> bool" where
  "all_traced s \<longleftrightarrow> (\<forall>e \<in> set (elems s). traced (st_context e))"

lemma cut_store_traced:
  assumes "cut_store r s s'" "all_traced s"
  shows "all_traced s'"
proof -
  have "regions_ok s'" "\<And>b. tags (elems s') b \<subseteq> tags (elems s) b" using assms(1) by (auto simp: cut_store_def split: if_splits)
  moreover have "traced (snd t)" if "t \<in> tags (elems s) b" for b t
    using that assms(2) by (auto simp: all_traced_def tags_mem)
  ultimately show ?thesis using tags_all [of s' "\<lambda>t. traced (snd t)"] unfolding all_traced_def snd_conv by blast
qed

lemma cut_store_in_state: "cut_store r s s' \<Longrightarrow> in_state x (elems s') = in_state x (elems s) - bytes r"
  by (auto simp: cut_store_def in_state_tags split: if_splits)

lemma in_state_insert:
  assumes "set es' = insert e (set es)"
  shows "in_state x es' = in_state x (e # es)"
  using assms by (intro in_state_cong) simp

theorem pk_add_and_merge_store_spec:
  assumes s: "regions_ok (pk_stores p)" "all_traced (pk_stores p)" and r: "rok r" "traced (st_context r)"
  shows "\<exists>r' s'. pk_add_and_merge_store en r p = Inr (r', p\<lparr>pk_stores := s'\<rparr>) \<and> rok r' \<and> regions_ok s' \<and> all_traced s' \<and>
    (\<forall>x. in_state x (elems s') = in_state x (elems (pk_stores p)) - bytes r \<union> (if x = st_state r then bytes r else {})) \<and>
    length (elems s') \<le> length (elems (pk_stores p)) + 2"
proof -
  let ?ahead = "r\<lparr>st_addr := st_addr r - 1\<rparr>" and ?behind = "r\<lparr>st_addr := st_addr r - 1 + 2\<rparr>"
  note k = rok_rkey [OF r(1)]
  obtain s1 where s1: "pk_cut_overlaps (Suc (OSetGen_Size (pk_stores p))) r (pk_stores p, p) = Inr (s1, p)" "cut_store r (pk_stores p) s1"
    using pk_cut_overlaps_spec [OF s(1) k, of "Suc (OSetGen_Size (pk_stores p))"] card_overlaps [OF s(1)] by (auto simp: less_Suc_eq_le)
  have ok1: "regions_ok s1" "bytes r \<inter> region_bytes s1 = {}" "\<forall>e \<in> set (elems s1). traced (st_context e)"
    "length (elems s1) \<le> Suc (length (elems (pk_stores p)))"
    using s1(2) cut_store_free [OF s1(2)] cut_store_traced [OF s1(2) s(2)] by (auto simp: cut_store_def all_traced_def of_bool_def split: if_splits)
  note ah = ahead_bounds [OF r(1)]
  obtain r2 s2 where s2: "merge_neighbour en ?ahead (r, s1) = Inr (r2, s2)" "regions_ok s2" "rok r2" "bytes r2 \<inter> region_bytes s2 = {}"
    "st_state r2 = st_state r" "st_context r2 = st_context r" "set (elems s2) \<subseteq> set (elems s1)" "length (elems s2) \<le> length (elems s1)"
    "\<forall>x. in_state x (r2 # elems s2) = in_state x (r # elems s1)" "r2 = r \<or> (\<exists>e \<in> overlaps ?ahead s1. r2 = hull r e)"
    using merge_neighbour_spec [OF ok1(1) r(1) ok1(2) ah(3,4) r(2) ok1(3), of en] by blast
  have "hi r2 = hi r \<and> lo r2 \<le> lo r"
  proof (cases "r2 = r")
    case False
    then obtain e where e: "e \<in> set (elems s1)" "bytes e \<inter> bytes ?ahead \<noteq> {}" "r2 = hull r e" using s2(10) by (auto simp: overlaps_def)
    have rok: "rok e" and "bytes e \<inter> bytes r = {}" using regions_rok [OF ok1(1) e(1)] ok1(2) e(1) by (auto simp: set_bytes_def)
    then have "hi e = lo r \<or> lo e = hi r" using ah(4) e(2) unfolding beside_def by blast
    moreover have "lo e < hi ?ahead" using e(2) bytes_disjoint_iff [OF rok_rkey [OF rok] ah(3)] by simp
    ultimately show ?thesis using hull_bounds [OF r(1) rok] e(3) ah(2) by (auto simp: hi_def)
  qed simp
  then have bh: "rkey ?behind" "beside ?behind r2" using behind_bounds [OF r(1) s2(3)] by auto
  have "\<forall>e \<in> set (elems s2). traced (st_context e)" "traced (st_context r2)" using ok1(3) s2(6,7) r(2) by auto
  then obtain r3 s3 where s3: "merge_neighbour en ?behind (r2, s2) = Inr (r3, s3)" "regions_ok s3" "rok r3" "bytes r3 \<inter> region_bytes s3 = {}"
    "st_context r3 = st_context r2" "set (elems s3) \<subseteq> set (elems s2)" "length (elems s3) \<le> length (elems s2)"
    "\<forall>x. in_state x (r3 # elems s3) = in_state x (r2 # elems s2)"
    using merge_neighbour_spec [OF s2(2-4) bh, of en] by blast
  obtain s4 where s4: "OSetGen_Insert r3 s3 = Inr s4" "regions_ok s4" "set (elems s4) = insert r3 (set (elems s3))"
    "length (elems s4) = Suc (length (elems s3))"
    using region_insert [OF s3(2-4)] by metis
  have "in_state x (elems s4) = in_state x (r # elems s1)" for x using in_state_insert [OF s4(3)] s3(8) s2(9) by simp
  moreover have "in_state x (r # elems s1) = (if x = st_state r then bytes r else {}) \<union> in_state x (elems s1)" for x
    by (auto simp: in_state_def)
  ultimately have "in_state x (elems s4) = in_state x (elems (pk_stores p)) - bytes r \<union> (if x = st_state r then bytes r else {})" for x
    using cut_store_in_state [OF s1(2)] by (simp add: Un_commute)
  moreover have "all_traced s4"
    using s4(3) s3(5,6) s2(6,7) ok1(3) r(2) by (auto simp: all_traced_def)
  moreover have "pk_add_and_merge_store en r p = Inr (r3, p\<lparr>pk_stores := s4\<rparr>)"
    using s1(1) s2(1) s3(1) s4(1) by (simp add: pk_add_and_merge_store_def Let_def del: pk_cut_overlaps.simps)
  ultimately show ?thesis using s3(3) s4(2,4) s3(7) s2(8) ok1(4) by (intro exI [of _ r3] exI [of _ s4]) simp
qed

section \<open>Overwritten stores\<close>

lemma warn_overwrite_room:
  "length (pk_multiple_stores p) < MAX_MULT_OVERWRITES \<Longrightarrow>
     warn_overwrite ev s p = Inr (s, p\<lparr>pk_multiple_stores := pk_multiple_stores p @ [ev]\<rparr>)"
  by (simp add: warn_overwrite_def add_warning_event_def)

text \<open>The contexts of the stores that hold a byte.\<close>

definition writers :: "pmem_st list \<Rightarrow> nat \<Rightarrow> exe_context set" where
  "writers es b = {st_context e | e. e \<in> set es \<and> b \<in> bytes e}"

lemma writers_simps [simp]: "writers [] b = {}"
  "writers (e # es) b = (if b \<in> bytes e then {st_context e} else {}) \<union> writers es b"
  by (auto simp: writers_def)

lemma writers_tags: "writers es b = snd ` tags es b"
  unfolding writers_def tags_def by force

definition repeated :: "pmem_st \<Rightarrow> pk_ops \<Rightarrow> region_set \<Rightarrow> bool" where
  "repeated store p s \<longleftrightarrow> (\<exists>e \<in> set (elems s). pk_same_store store e p)"

lemma pk_same_store_bytes: "pk_same_store r e p \<Longrightarrow> bytes e = bytes r"
  by (rule same_range(3)) (simp_all add: pk_same_store_def)

lemma pk_same_store_cong: "pk_opts p' = pk_opts p \<Longrightarrow> pk_same_store r e p' = pk_same_store r e p"
  by (simp add: pk_same_store_def)

text \<open>The loop of \<open>handle_with_mult_stores\<close>: the registered events are what is overwritten, with the contexts of the
  old stores; nothing is registered when the same store is repeated.\<close>

lemma pk_mult_loop_spec:
  assumes "regions_ok s" "rkey r" "card (overlaps r s) < f" "length (pk_multiple_stores p) + card (overlaps r s) \<le> MAX_MULT_OVERWRITES"
  shows "\<exists>s' evs. pk_mult_loop f r (s, p) = Inr (s', p\<lparr>pk_multiple_stores := pk_multiple_stores p @ evs\<rparr>) \<and> cut_store r s s' \<and>
    (\<forall>b. writers evs b = (if b \<in> bytes r \<and> \<not> repeated r p s then writers (elems s) b else {})) \<and> length evs \<le> card (overlaps r s)"
  using assms
proof (induction f arbitrary: s p)
  case 0
  then show ?case by simp
next
  case (Suc f)
  show ?case
  proof (cases "OSetGen_Lookup s r")
    case None
    note free = region_lookup_None [OF Suc.prems(1,2) None]
    then have "b \<in> bytes r \<Longrightarrow> writers (elems s) b = {}" for b by (auto simp: writers_tags region_bytes_tags)
    then show ?thesis using None cut_store_refl [OF Suc.prems(1) free] by (intro exI [of _ s] exI [of _ "[]"]) simp
  next
    case (Some old)
    note old = lookup_overlaps [OF Suc.prems(1,2) Some]
    show ?thesis
    proof (cases "pk_same_store r old p")
      case True
      obtain s1 where s1: "OSetGen_Remove r s = Inr (Some old, s1)" "regions_ok s1" "elems s1 = filter (\<lambda>y. y \<noteq> old) (elems s)"
        using ro.Remove_correct [OF Suc.prems(1) Some] by auto
      have fr: "OSetGen_FreeNode old s1 = Inr s1" using FreeNode_ok [OF s1(2), of old] s1(3) by simp
      have sp: "split_to old r s {} old s1"
        using s1(2,3) pk_same_store_bytes [OF True] le_trans [OF length_filter_le [of "\<lambda>y. y \<noteq> old" "elems s"]] by (auto simp: split_to_def)
      have free: "bytes r \<inter> region_bytes s1 = {}"
        using s1(3) set_bytes_filter_neq [OF regions_okD [OF Suc.prems(1)] old(2)] pk_same_store_bytes [OF True] by auto
      have "OSetGen_Lookup s1 r = None" using region_lookup_Some [OF s1(2) Suc.prems(2)] free by (cases "OSetGen_Lookup s1 r") (auto simp: set_bytes_def)
      moreover have "f \<noteq> 0" using Suc.prems(3) split_to_overlaps(2) [OF sp old(1)] by (cases f) simp_all
      ultimately have "pk_mult_loop f r (s1, p) = Inr (s1, p)" by (cases f) simp_all
      moreover have "repeated r p s" using True old(2) by (auto simp: repeated_def)
      ultimately show ?thesis
        using Some True s1(1) fr cut_store_step [OF Suc.prems(1) old(1) sp cut_store_refl [OF s1(2) free]]
        by (intro exI [of _ s1] exI [of _ "[]"]) simp
    next
      case False
      have room: "length (pk_multiple_stores p) < MAX_MULT_OVERWRITES"
        using Suc.prems(4) old(1) card_gt_0_iff [of "overlaps r s"] by (auto simp: overlaps_def)
      obtain s1 P ev where s1: "pk_split_stores Add_Mult_Overwrite_Warn old r (s, p) = Inr (s1, p\<lparr>pk_multiple_stores := pk_multiple_stores p @ [ev]\<rparr>)"
        "split_to old r s P ev s1"
        using pk_split_stores_spec [OF Suc.prems(1) old(2) Suc.prems(2) old(3), of Add_Mult_Overwrite_Warn p] warn_overwrite_room [OF room]
        by (auto simp: after_split_def)
      let ?p = "p\<lparr>pk_multiple_stores := pk_multiple_stores p @ [ev]\<rparr>"
      note c = split_to_overlaps(2) [OF s1(2) old(1)]
      have sp: "regions_ok s1" "set (elems s1) = set (elems s) - {old} \<union> P" "\<forall>x \<in> P. same_tag old x"
        "(\<Union>x \<in> P. bytes x) = bytes old - bytes r" "bytes ev = bytes old \<inter> bytes r" "st_context ev = st_context old"
        using s1(2) by (simp_all add: split_to_def)
      have ne: "bytes r \<noteq> {}" using old(3) by blast
      have "e \<notin> P" if "pk_same_store r e p" for e using pk_same_store_bytes [OF that] sp(4) ne by blast
      then have rp: "repeated r ?p s1 = repeated r p s"
        using False unfolding repeated_def sp(2) pk_same_store_cong [of ?p p, simplified] by blast
      have "e = old" if "e \<in> set (elems s)" "bytes e \<inter> bytes old \<noteq> {}" for e
        using disjoint_list_disj [OF regions_okD [OF Suc.prems(1)] that(1) old(2)] that(2) by blast
      then have nr: "\<not> repeated r p s" using old(3) False pk_same_store_bytes unfolding repeated_def by (metis inf_commute)
      obtain s2 evs where s2: "pk_mult_loop f r (s1, ?p) = Inr (s2, ?p\<lparr>pk_multiple_stores := pk_multiple_stores ?p @ evs\<rparr>)" "cut_store r s1 s2"
        "\<forall>b. writers evs b = (if b \<in> bytes r \<and> \<not> repeated r ?p s1 then writers (elems s1) b else {})" "length evs \<le> card (overlaps r s1)"
        using Suc.IH [OF sp(1) Suc.prems(2), of ?p] Suc.prems(3,4) c by auto
      have "writers (ev # evs) b = (if b \<in> bytes r then writers (elems s) b else {})" for b
      proof (cases "b \<in> bytes old")
        case True
        have "tags (elems s) b = {(st_state old, st_context old)}"
          using disjoint_list_disj [OF regions_okD [OF Suc.prems(1)] _ old(2)] True
          by (intro tags_one [OF _ old(2) True]) (auto simp: same_tag_def)
        then show ?thesis
          using True tags_replace(1) [OF Suc.prems(1) old(2) sp(2-4)] s2(3) sp(5,6) rp nr by (simp add: writers_tags [of "elems s"] writers_tags [of "elems s1"])
      next
        case False
        then show ?thesis
          using tags_replace(2) [OF Suc.prems(1) old(2) sp(2-4)] s2(3) sp(5) rp nr by (simp add: writers_tags [of "elems s"] writers_tags [of "elems s1"])
      qed
      moreover have "pk_mult_loop (Suc f) r (s, p) = Inr (s2, p\<lparr>pk_multiple_stores := pk_multiple_stores p @ ev # evs\<rparr>)"
        using Some False s1(1) s2(1) by simp
      ultimately show ?thesis
        using cut_store_step [OF Suc.prems(1) old(1) s1(2) s2(2)] s2(4) c nr by (intro exI [of _ s2] exI [of _ "ev # evs"]) (simp del: writers_simps)
    qed
  qed
qed

theorem pk_handle_with_mult_stores_spec:
  assumes s: "regions_ok (pk_stores p)" and r: "rok r" and room: "length (pk_multiple_stores p) + card (overlaps r (pk_stores p)) \<le> MAX_MULT_OVERWRITES"
  shows "\<exists>s' evs. pk_handle_with_mult_stores r p =
      Inr (p\<lparr>pk_multiple_stores := pk_multiple_stores p @ evs, pk_stores := s'\<rparr>) \<and> regions_ok s' \<and>
    (\<forall>b. tags (elems s') b = (if b \<in> bytes r then {(st_state r, st_context r)} else tags (elems (pk_stores p)) b)) \<and>
    (\<forall>b. writers evs b = (if b \<in> bytes r \<and> \<not> repeated r p (pk_stores p) then writers (elems (pk_stores p)) b else {}))"
proof -
  note k = rok_rkey [OF r]
  have "card (overlaps r (pk_stores p)) < Suc (OSetGen_Size (pk_stores p))" using card_overlaps [OF s, of r] by simp
  then obtain s1 evs where s1: "pk_mult_loop (Suc (OSetGen_Size (pk_stores p))) r (pk_stores p, p) =
      Inr (s1, p\<lparr>pk_multiple_stores := pk_multiple_stores p @ evs\<rparr>)" "cut_store r (pk_stores p) s1"
    "\<forall>b. writers evs b = (if b \<in> bytes r \<and> \<not> repeated r p (pk_stores p) then writers (elems (pk_stores p)) b else {})"
    using pk_mult_loop_spec [OF s k _ room] by blast
  have "regions_ok s1" using s1(2) by (simp add: cut_store_def)
  then obtain s2 where s2: "OSetGen_Insert r s1 = Inr s2" "regions_ok s2" "set (elems s2) = insert r (set (elems s1))"
    using region_insert [OF _ r cut_store_free [OF s1(2)]] by metis
  have "tags (elems s2) b = (if b \<in> bytes r then {(st_state r, st_context r)} else {}) \<union> tags (elems s1) b" for b
    unfolding tags_def s2(3) by auto
  then have "tags (elems s2) b = (if b \<in> bytes r then {(st_state r, st_context r)} else tags (elems (pk_stores p)) b)" for b
    using s1(2) by (simp add: cut_store_def)
  moreover have "pk_handle_with_mult_stores r p = Inr (p\<lparr>pk_multiple_stores := pk_multiple_stores p @ evs, pk_stores := s2\<rparr>)"
    using s1(1) s2(1) by (simp add: pk_handle_with_mult_stores_def del: pk_mult_loop.simps)
  ultimately show ?thesis using s2(2) s1(3) by blast
qed

end
