(* ===== verification/Pmemcheck_Flush_Laws.thy ===== *)
theory Pmemcheck_Flush_Laws
  imports Pmemcheck_Store_Laws
begin

text \<open>
  Fences and flushes of \<open>pmemcheck\<close>.  Both walk the set with its iterator while they change it: a fence drops the
  flushed entries, and a flush marks the dirty entries that it overlaps and cuts those that it overlaps in part.
  A flush changes the tag of every byte in its range and of no other; the entries it registers as flushed twice
  include one that it has just cut at its start, which the iterator visits again.
\<close>

section \<open>Fences\<close>

lemma drop_at:
  assumes s: "regions_ok s" "elems s = ys @ e # xs" and len: "length (elems s) < OSET_ITER_MAX"
  shows "\<exists>s'. remove_region_drop e s = Inr s' \<and> regions_ok s' \<and> elems s' = ys @ xs \<and> rest_of s' = xs"
proof -
  have e: "e \<in> set (elems s)" using s(2) by simp
  have d: "disjoint_list (ys @ e # xs)" using regions_okD [OF s(1)] s(2) by simp
  have "lo e < hi e" using regions_rok [OF s(1) e] by (auto simp: rok_def hi_def)
  with d have n: "e \<notin> set ys" "e \<notin> set xs" by force+
  obtain s1 where s1: "OSetGen_Remove e s = Inr (Some e, s1)" "regions_ok s1" "elems s1 = filter (\<lambda>y. y \<noteq> e) (elems s)"
    using ro.Remove_correct [OF s(1) ro.Lookup_elem [OF s(1) e]] by auto
  have el: "elems s1 = ys @ xs" using s1(3) s(2) n by (simp add: ro.filter_remove_neq)
  have "OSetGen_FreeNode e s1 = Inr s1" using FreeNode_ok [OF s1(2), of e] s1(3) by simp
  moreover obtain s2 where "OSetGen_ResetIterAt e s1 = Inr s2" "regions_ok s2" "elems s2 = elems s1" "rest_of s2 = xs"
    using region_ResetIterAt [OF s1(2) regions_rok [OF s(1) e] _ el] len s(2) el d by auto
  ultimately show ?thesis using s1(1) el by (simp add: remove_region_drop_def)
qed

lemma pk_fence_entry_drop:
  "pk_fence_entry e p = (if st_state e = STST_FLUSHED then rbind (remove_region_drop e (pk_stores p)) (\<lambda>s. Inr (p\<lparr>pk_stores := s\<rparr>)) else Inr p)"
  by (cases "OSetGen_Remove e (pk_stores p)") (auto simp: pk_fence_entry_def remove_region_drop_def rbind_assoc)

lemma pk_next_eq: "OSetGen_Next (pk_stores p) = Inr (e, s) \<Longrightarrow> pk_next p = Inr (e, p\<lparr>pk_stores := s\<rparr>)"
  by (simp add: pk_next_def)

lemma pk_fence_loop:
  assumes "regions_ok (pk_stores p)" "elems (pk_stores p) = ys @ rest_of (pk_stores p)" "length (elems (pk_stores p)) < OSET_ITER_MAX"
    and "length (rest_of (pk_stores p)) < f"
  shows "\<exists>s'. while_next f pk_next pk_fence_entry p = Inr (p\<lparr>pk_stores := s'\<rparr>) \<and> regions_ok s' \<and>
    elems s' = ys @ filter unflushed (rest_of (pk_stores p))"
  using assms
proof (induction f arbitrary: p ys)
  case 0
  then show ?case by simp
next
  case (Suc f)
  let ?s = "pk_stores p"
  show ?case
  proof (cases "rest_of ?s")
    case Nil
    then have "OSetGen_Next ?s = Inr (None, ?s\<lparr>os_stack := []\<rparr>)" using Next_None [OF Suc.prems(1)] by simp
    moreover have "regions_ok (?s\<lparr>os_stack := []\<rparr>)" "elems (?s\<lparr>os_stack := []\<rparr>) = elems ?s" using Suc.prems(1) by (simp_all add: oset_defs)
    ultimately show ?thesis using Nil Suc.prems(2) by (intro exI [of _ "?s\<lparr>os_stack := []\<rparr>"]) (simp add: pk_next_def)
  next
    case (Cons e xs)
    obtain s1 where s1: "OSetGen_Next ?s = Inr (Some e, s1)" "regions_ok s1" "elems s1 = ys @ e # xs" "rest_of s1 = xs"
      using Next_Some [OF Suc.prems(1) Cons] Suc.prems(2) Cons by auto
    obtain s2 zs where s2: "pk_fence_entry e (p\<lparr>pk_stores := s1\<rparr>) = Inr (p\<lparr>pk_stores := s2\<rparr>)" "regions_ok s2" "elems s2 = ys @ zs @ xs"
      "rest_of s2 = xs" "zs = filter unflushed [e]"
    proof (cases "unflushed e")
      case True
      then show ?thesis using that [of s1 "[e]"] s1 by (simp add: pk_fence_entry_drop)
    next
      case False
      obtain s2 where "remove_region_drop e s1 = Inr s2" "regions_ok s2" "elems s2 = ys @ xs" "rest_of s2 = xs"
        using drop_at [OF s1(2,3)] Suc.prems(2,3) Cons s1(3) by auto
      then show ?thesis using that [of s2 "[]"] False by (simp add: pk_fence_entry_drop)
    qed
    have "length (elems s2) < OSET_ITER_MAX" using Suc.prems(2,3) Cons s2(3,5) by (simp split: if_splits)
    then obtain s3 where "while_next f pk_next pk_fence_entry (p\<lparr>pk_stores := s2\<rparr>) = Inr (p\<lparr>pk_stores := s3\<rparr>)" "regions_ok s3"
      "elems s3 = (ys @ zs) @ filter unflushed xs"
      using Suc.IH [of "p\<lparr>pk_stores := s2\<rparr>" "ys @ zs"] s2(2-4) Suc.prems(4) Cons by auto
    then show ?thesis using pk_next_eq [OF s1(1)] s2(1,5) Cons by (intro exI [of _ s3]) simp
  qed
qed

theorem pk_do_fence_spec:
  assumes s: "regions_ok (pk_stores p)" and len: "length (elems (pk_stores p)) < OSET_ITER_MAX"
  shows "\<exists>s'. pk_do_fence p = Inr ((if op_log_stores (pk_opts p) then pk_log [Emit ''|FENCE'' []] p else p)\<lparr>pk_stores := s'\<rparr>) \<and>
    regions_ok s' \<and> elems s' = filter unflushed (elems (pk_stores p))"
proof -
  define p0 where "p0 = (if op_log_stores (pk_opts p) then pk_log [Emit ''|FENCE'' []] p else p)"
  have p0: "pk_stores p0 = pk_stores p" by (simp add: p0_def pk_log_def)
  note i = ResetIter_correct [OF s len]
  have "\<exists>s'. while_next (Suc (OSetGen_Size (pk_stores p0))) pk_next pk_fence_entry (p0\<lparr>pk_stores := OSetGen_ResetIter (pk_stores p0)\<rparr>) =
      Inr (p0\<lparr>pk_stores := OSetGen_ResetIter (pk_stores p0), pk_stores := s'\<rparr>) \<and> regions_ok s' \<and>
      elems s' = [] @ filter unflushed (rest_of (pk_stores (p0\<lparr>pk_stores := OSetGen_ResetIter (pk_stores p0)\<rparr>)))"
    using i len Size_correct [OF s] p0 by (intro pk_fence_loop) simp_all
  then show ?thesis using i p0 unfolding pk_do_fence_def Let_def p0_def [symmetric] by (simp del: while_next.simps)
qed

section \<open>Flushes: one entry\<close>

lemma insert_between:
  assumes "regions_ok s" "elems s = ys @ xs" "rok x" "\<forall>y \<in> set ys. hi y \<le> lo x" "\<forall>y \<in> set xs. hi x \<le> lo y"
  shows "\<exists>s'. OSetGen_Insert x s = Inr s' \<and> regions_ok s' \<and> elems s' = ys @ x # xs"
proof -
  have d: "disjoint_list ys" "disjoint_list xs"
    using regions_okD [OF assms(1)] assms(2) by (auto simp: disjoint_list_def sorted_wrt_append)
  have "bytes x \<inter> region_bytes s = {}" using assms(2,4,5) by (force simp: set_bytes_def bytes_def)
  then obtain s' where "OSetGen_Insert x s = Inr s'" "regions_ok s'" "elems s' = ins_sorted cmp_pmem_st (\<lambda>x. x) x (elems s)"
    using region_insert [OF assms(1,3)] by metis
  then show ?thesis using filter_cmp_split [OF d assms(3-5)] assms(2) by (simp add: ins_sorted_def)
qed

lemma pk_reinsert_ok:
  assumes s: "regions_ok s" "elems s = ys @ e # xs" and len: "Suc (length (elems s)) < OSET_ITER_MAX"
    and x: "rok x" "rok y" "lo e \<le> lo x" "hi x \<le> lo y" "hi y \<le> hi e" and o: "a = x \<and> b = y \<or> a = y \<and> b = x"
  shows "\<exists>s'. pk_reinsert e a b y s = Inr s' \<and> regions_ok s' \<and> elems s' = ys @ x # y # xs \<and> rest_of s' = y # xs"
proof -
  have e: "e \<in> set (elems s)" using s(2) by simp
  have d: "disjoint_list (ys @ e # xs)" using regions_okD [OF s(1)] s(2) by simp
  have ne: "lo e < hi e" "lo x < hi x" "lo y < hi y" using regions_rok [OF s(1) e] x(1,2) by (auto simp: rok_def hi_def)
  with d have n: "e \<notin> set ys" "e \<notin> set xs" by force+
  obtain s1 where s1: "OSetGen_Remove e s = Inr (Some e, s1)" "regions_ok s1" "elems s1 = ys @ xs"
    using ro.Remove_correct [OF s(1) ro.Lookup_elem [OF s(1) e]] s(2) n by (auto simp: ro.filter_remove_neq)
  have yx: "\<forall>z \<in> set ys. hi z \<le> lo x \<and> hi z \<le> lo y" "\<forall>z \<in> set xs. hi x \<le> lo z \<and> hi y \<le> lo z"
    using d x(3-5) ne by fastforce+
  obtain s3 where s3: "rbind (OSetGen_Insert a s1) (OSetGen_Insert b) = Inr s3" "regions_ok s3" "elems s3 = ys @ x # y # xs"
  proof (cases "a = x \<and> b = y")
    case True
    obtain s2 where s2: "OSetGen_Insert x s1 = Inr s2" "regions_ok s2" "elems s2 = ys @ x # xs"
      using insert_between [OF s1(2,3) x(1)] yx by blast
    have "\<exists>s3. OSetGen_Insert y s2 = Inr s3 \<and> regions_ok s3 \<and> elems s3 = (ys @ [x]) @ y # xs"
      using s2(3) x(4) yx by (intro insert_between [OF s2(2) _ x(2)]) auto
    then show ?thesis using that True s2(1) by auto
  next
    case False
    obtain s2 where s2: "OSetGen_Insert y s1 = Inr s2" "regions_ok s2" "elems s2 = ys @ y # xs"
      using insert_between [OF s1(2,3) x(2)] yx by blast
    have "\<exists>s3. OSetGen_Insert x s2 = Inr s3 \<and> regions_ok s3 \<and> elems s3 = ys @ x # y # xs"
      using x(4) yx by (intro insert_between [OF s2(2,3) x(1)]) auto
    then show ?thesis using that False o s2(1) by auto
  qed
  have "\<exists>s4. OSetGen_ResetIterAt y s3 = Inr s4 \<and> regions_ok s4 \<and> elems s4 = elems s3 \<and> rest_of s4 = y # xs"
    using s3(3) len s(2) x(4) yx by (intro region_ResetIterAt [OF s3(2) x(2), where xs = "ys @ [x]"]) auto
  then show ?thesis using s1(1) s3 by (auto simp: pk_reinsert_def rbind_assoc [symmetric])
qed

text \<open>What is left of an entry when its start lies before the flushed range, and when its end lies behind it.\<close>

definition cut_before :: "pmem_st \<Rightarrow> pmem_st \<Rightarrow> pmem_st \<times> pmem_st" where
  "cut_before fi e = (e\<lparr>st_size := st_addr fi - st_addr e, st_state := STST_DIRTY\<rparr>,
     e\<lparr>st_addr := st_addr fi, st_size := st_size e - (st_addr fi - st_addr e)\<rparr>)"

definition cut_behind :: "pmem_st \<Rightarrow> pmem_st \<Rightarrow> pmem_st \<times> pmem_st" where
  "cut_behind fi e = (e\<lparr>st_size := st_size e - (st_addr e + st_size e - (st_addr fi + st_size fi))\<rparr>,
     e\<lparr>st_addr := st_addr fi + st_size fi, st_size := st_addr e + st_size e - (st_addr fi + st_size fi), st_state := STST_DIRTY\<rparr>)"

lemma cut_before_bounds:
  assumes "rok e" "lo e < lo fi" "lo fi < hi e" "cut_before fi e = (x, y)"
  shows "lo x = lo e" "hi x = lo fi" "rok x" "lo y = lo fi" "hi y = hi e" "rok y"
proof -
  have xy: "x = e\<lparr>st_size := st_addr fi - st_addr e, st_state := STST_DIRTY\<rparr>"
    "y = e\<lparr>st_addr := st_addr fi, st_size := st_size e - (st_addr fi - st_addr e)\<rparr>"
    using assms(4) by (simp_all add: cut_before_def)
  show "lo x = lo e" "hi x = lo fi" "rok x"
    using left_part [OF assms(1-3)] same_range [of x "e\<lparr>st_size := st_addr fi - st_addr e\<rparr>"] by (simp_all add: xy(1))
  have d: "unat (st_addr fi - st_addr e) = lo fi - lo e" using assms(2) by (simp add: lo_def unat_minus_nowrap)
  then have "unat (st_size e - (st_addr fi - st_addr e)) = sz e - (lo fi - lo e)"
    using assms(3) by (subst unat_minus_nowrap) (auto simp: sz_def hi_def)
  then have "lo y = lo fi" "sz y = sz e - (lo fi - lo e)" by (simp_all add: xy(2) lo_def sz_def)
  then show "lo y = lo fi" "hi y = hi e" "rok y" using assms(1-3) by (auto simp: hi_def rok_def)
qed

lemma cut_behind_bounds:
  assumes "rok e" "rkey fi" "lo e < hi fi" "hi fi < hi e" "cut_behind fi e = (x, y)"
  shows "lo x = lo e" "hi x = hi fi" "rok x" "lo y = hi fi" "hi y = hi e" "rok y"
proof -
  have xy: "x = e\<lparr>st_size := st_size e - (st_addr e + st_size e - (st_addr fi + st_size fi))\<rparr>"
    "y = e\<lparr>st_addr := st_addr fi + st_size fi, st_size := st_addr e + st_size e - (st_addr fi + st_size fi), st_state := STST_DIRTY\<rparr>"
    using assms(5) by (simp_all add: cut_behind_def)
  show "lo y = hi fi" "hi y = hi e" "rok y" using right_part [OF assms(1,2,4), of y] by (simp_all add: xy(2))
  have d: "unat (st_addr e + st_size e - (st_addr fi + st_size fi)) = hi e - hi fi"
    using unat_minus_nowrap [of "st_addr fi + st_size fi" "st_addr e + st_size e"] rkey_hi [OF rok_rkey [OF assms(1)]] rkey_hi [OF assms(2)] assms(4)
    by simp
  then have "unat (st_size e - (st_addr e + st_size e - (st_addr fi + st_size fi))) = sz e - (hi e - hi fi)"
    using assms(3,4) by (subst unat_minus_nowrap) (auto simp: sz_def hi_def)
  then have "lo x = lo e" "sz x = sz e - (hi e - hi fi)" by (simp_all add: xy(1) lo_def sz_def)
  then show "lo x = lo e" "hi x = hi fi" "rok x" using assms(1,3,4) by (auto simp: hi_def rok_def)
qed

lemma pk_split_before_ok:
  assumes s: "regions_ok s" "elems s = ys @ e # xs" and len: "Suc (length (elems s)) < OSET_ITER_MAX" and c: "lo e < lo fi" "lo fi < hi e"
    and xy: "cut_before fi e = (x, y)"
  shows "\<exists>s'. pk_split_before fi (e, s) = Inr (y, s') \<and> regions_ok s' \<and> elems s' = ys @ x # y # xs \<and> rest_of s' = y # xs"
proof -
  have e: "rok e" using regions_rok [OF s(1)] s(2) by simp
  note b = cut_before_bounds [OF e c xy]
  obtain s' where "pk_reinsert e x y y s = Inr s'" "regions_ok s'" "elems s' = ys @ x # y # xs" "rest_of s' = y # xs"
    using pk_reinsert_ok [OF s len b(3,6), of x y] b by auto
  moreover have "st_addr e < st_addr fi" using c(1) by (simp add: lo_def word_less_nat_alt)
  ultimately show ?thesis using xy by (auto simp: pk_split_before_def cut_before_def Let_def)
qed

lemma pk_split_behind_ok:
  assumes s: "regions_ok s" "elems s = ys @ e # xs" and len: "Suc (length (elems s)) < OSET_ITER_MAX" and fi: "rkey fi"
    and c: "lo e < hi fi" "hi fi < hi e" and xy: "cut_behind fi e = (x, y)"
  shows "\<exists>s'. pk_split_behind fi (e, s) = Inr s' \<and> regions_ok s' \<and> elems s' = ys @ x # y # xs \<and> rest_of s' = y # xs"
proof -
  have e: "rok e" using regions_rok [OF s(1)] s(2) by simp
  note b = cut_behind_bounds [OF e fi c xy]
  obtain s' where "pk_reinsert e y x y s = Inr s'" "regions_ok s'" "elems s' = ys @ x # y # xs" "rest_of s' = y # xs"
    using pk_reinsert_ok [OF s len b(3,6), of y x] b by auto
  moreover have "st_addr fi + st_size fi < st_addr e + st_size e" using cut_cmp [OF e fi] c(2) by simp
  ultimately show ?thesis using xy by (auto simp: pk_split_behind_def cut_behind_def Let_def)
qed

text \<open>A flush changes the tags of the bytes in its range.\<close>

definition flush_tag :: "pmem_st \<Rightarrow> nat \<Rightarrow> store_state \<times> exe_context \<Rightarrow> store_state \<times> exe_context" where
  "flush_tag fi b = (\<lambda>(x, c). (if b \<in> bytes fi \<and> x = STST_DIRTY then STST_FLUSHED else x, c))"

text \<open>\<open>pieces fi e ps zs\<close>: the entry \<open>e\<close> becomes \<open>ps\<close>, and the iterator goes on at \<open>zs\<close>, the last of them or none; \<open>cuts\<close>
  counts the new entries.\<close>

definition hit :: "pmem_st \<Rightarrow> pmem_st \<Rightarrow> bool" where
  "hit fi e \<longleftrightarrow> overlaps_e fi e \<and> st_state e = STST_DIRTY"

definition cuts :: "pmem_st \<Rightarrow> pmem_st \<Rightarrow> nat" where
  "cuts fi e = (if hit fi e then of_bool (lo e < lo fi) + of_bool (hi fi < hi e) else 0)"

text \<open>What the flush registers as flushed twice: an entry that is not dirty, and what is left of an entry that
  begins before the range and ends in it.\<close>

definition revisited :: "pmem_st \<Rightarrow> pmem_st \<Rightarrow> pmem_st list" where
  "revisited fi e =
     (if overlaps_e fi e \<and> st_state e \<noteq> STST_DIRTY then [e]
      else if hit fi e \<and> lo e < lo fi \<and> hi e \<le> hi fi then [snd (cut_before fi (e\<lparr>st_state := STST_FLUSHED\<rparr>))]
      else [])"

definition pieces :: "pmem_st \<Rightarrow> pmem_st \<Rightarrow> pmem_st list \<Rightarrow> pmem_st list \<Rightarrow> bool" where
  "pieces fi e ps zs \<longleftrightarrow> length ps = Suc (cuts fi e) \<and> (\<exists>ws. ps = ws @ zs) \<and> (\<forall>b. tags ps b = flush_tag fi b ` tags [e] b) \<and>
     length zs = of_bool (0 < cuts fi e) \<and> (\<forall>z \<in> set zs. \<not> hit fi z) \<and> (hit fi e \<longrightarrow> concat (map (revisited fi) zs) = revisited fi e)"

lemma tags_simps [simp]: "tags [] b = {}" "tags (e # es) b = (if b \<in> bytes e then {(st_state e, st_context e)} else {}) \<union> tags es b"
  "tags (es @ es') b = tags es b \<union> tags es' b"
  unfolding tags_def by auto

lemma cut_sel:
  "cut_before fi e = (x, y) \<Longrightarrow> st_state x = STST_DIRTY \<and> st_context x = st_context e \<and> st_state y = st_state e \<and> st_context y = st_context e"
  "cut_behind fi e = (x, y) \<Longrightarrow> st_state x = st_state e \<and> st_context x = st_context e \<and> st_state y = STST_DIRTY \<and> st_context y = st_context e"
  by (auto simp: cut_before_def cut_behind_def)

lemma hit_split:
  assumes s: "regions_ok s" "elems s = ys @ e # xs" "rest_of s = xs" and fi: "rkey fi" and h: "hit fi e"
    and len: "length (elems s) + cuts fi e < OSET_ITER_MAX"
  shows "\<exists>s' ps zs. rbind (pk_split_before fi (e\<lparr>st_state := STST_FLUSHED\<rparr>, os_write e (e\<lparr>st_state := STST_FLUSHED\<rparr>) s)) (pk_split_behind fi) = Inr s' \<and>
    regions_ok s' \<and> elems s' = ys @ ps @ xs \<and> rest_of s' = zs @ xs \<and> pieces fi e ps zs"
proof -
  let ?e = "e\<lparr>st_state := STST_FLUSHED\<rparr>"
  have e: "rok e" using regions_rok [OF s(1)] s(2) by simp
  have ov: "lo fi < hi e" "lo e < hi fi"
    using h bytes_disjoint_iff [OF rok_rkey [OF e] fi] by (auto simp: hit_def overlaps_e_def)
  have e': "lo ?e = lo e" "hi ?e = hi e" "bytes ?e = bytes e" "rok ?e" using e same_range [of ?e e] by simp_all
  have w: "regions_ok (os_write e ?e s)" "elems (os_write e ?e s) = ys @ ?e # xs" "rest_of (os_write e ?e s) = xs"
    using region_write [OF s e'(4)] e' by simp_all
  have nb: "\<not> st_addr x < st_addr fi" if "lo fi \<le> lo x" for x using that by (simp add: lo_def word_less_nat_alt)
  have nh: "\<not> st_addr fi + st_size fi < st_addr x + st_size x" if "hi x \<le> hi fi" "rok x" for x using that cut_cmp [OF that(2) fi] by simp
  obtain x y where xy: "cut_before fi ?e = (x, y)" by (cases "cut_before fi ?e")
  have cx: "st_state x = STST_DIRTY" "st_context x = st_context e" "st_state y = STST_FLUSHED" "st_context y = st_context e"
    using cut_sel(1) [OF xy] by simp_all
  consider (none) "lo fi \<le> lo e" "hi e \<le> hi fi" | (before) "lo e < lo fi" "hi e \<le> hi fi"
    | (behind) "lo fi \<le> lo e" "hi fi < hi e" | (both) "lo e < lo fi" "hi fi < hi e" by linarith
  then show ?thesis
  proof cases
    case none
    then have "pieces fi e [?e] []" using h e'(3) by (auto simp: pieces_def cuts_def hit_def revisited_def flush_tag_def bytes_def)
    moreover have "pk_split_before fi (?e, os_write e ?e s) = Inr (?e, os_write e ?e s)" "pk_split_behind fi (?e, os_write e ?e s) = Inr (os_write e ?e s)"
      using nb [of ?e] nh [of ?e] none e' by (simp_all add: pk_split_before_def pk_split_behind_def Let_def)
    ultimately show ?thesis using w by (intro exI [of _ "os_write e ?e s"] exI [of _ "[?e]"] exI [of _ "[]"]) (simp del: elems_write rest_of_write)
  next
    case before
    note b = cut_before_bounds [OF e'(4), of fi x y, unfolded e'(1,2), OF before(1) ov(1) xy]
    have "Suc (length (elems (os_write e ?e s))) < OSET_ITER_MAX" using len h before w(2) s(2) by (simp add: cuts_def del: elems_write)
    then obtain s1 where s1: "pk_split_before fi (?e, os_write e ?e s) = Inr (y, s1)" "regions_ok s1" "elems s1 = ys @ x # y # xs" "rest_of s1 = y # xs"
      using pk_split_before_ok [OF w(1,2) _ _ _ xy] before(1) ov(1) e' by auto
    have "pk_split_behind fi (y, s1) = Inr s1" using nh [OF _ b(6)] b(5) before(2) by (simp add: pk_split_behind_def Let_def)
    moreover have "pieces fi e [x, y] [y]"
      using h before b cx ov xy e by (auto simp: pieces_def cuts_def hit_def revisited_def flush_tag_def bytes_def overlaps_e_def)
    ultimately show ?thesis using s1 by (intro exI [of _ s1] exI [of _ "[x, y]"] exI [of _ "[y]"]) simp
  next
    case behind
    obtain u v where uv: "cut_behind fi ?e = (u, v)" by (cases "cut_behind fi ?e")
    have cu: "st_state u = STST_FLUSHED" "st_context u = st_context e" "st_state v = STST_DIRTY" "st_context v = st_context e"
      using cut_sel(2) [OF uv] by simp_all
    note b = cut_behind_bounds [OF e'(4) fi, of u v, unfolded e'(1,2), OF ov(2) behind(2) uv]
    have "Suc (length (elems (os_write e ?e s))) < OSET_ITER_MAX" using len h behind w(2) s(2) by (simp add: cuts_def del: elems_write)
    then obtain s1 where s1: "pk_split_behind fi (?e, os_write e ?e s) = Inr s1" "regions_ok s1" "elems s1 = ys @ u # v # xs" "rest_of s1 = v # xs"
      using pk_split_behind_ok [OF w(1,2) _ fi _ _ uv] behind(2) ov(2) e' by auto
    have "pk_split_before fi (?e, os_write e ?e s) = Inr (?e, os_write e ?e s)" using nb [of ?e] behind(1) e'(1) by (simp add: pk_split_before_def Let_def)
    moreover have "pieces fi e [u, v] [v]"
      using h behind b cu ov by (auto simp: pieces_def cuts_def hit_def revisited_def flush_tag_def bytes_def overlaps_e_def)
    ultimately show ?thesis using s1 by (intro exI [of _ s1] exI [of _ "[u, v]"] exI [of _ "[v]"]) simp
  next
    case both
    note b = cut_before_bounds [OF e'(4), of fi x y, unfolded e'(1,2), OF both(1) ov(1) xy]
    obtain u v where uv: "cut_behind fi y = (u, v)" by (cases "cut_behind fi y")
    have cu: "st_state u = STST_FLUSHED" "st_context u = st_context e" "st_state v = STST_DIRTY" "st_context v = st_context e"
      using cut_sel(2) [OF uv] cx by simp_all
    have "lo fi < hi fi" using fi by (simp add: rkey_def hi_def)
    note d = cut_behind_bounds [OF b(6) fi, of u v, unfolded b(4,5), OF this both(2) uv]
    have l: "Suc (Suc (length (elems (os_write e ?e s)))) < OSET_ITER_MAX" using len h both w(2) s(2) by (simp add: cuts_def del: elems_write)
    then obtain s1 where s1: "pk_split_before fi (?e, os_write e ?e s) = Inr (y, s1)" "regions_ok s1" "elems s1 = ys @ x # y # xs" "rest_of s1 = y # xs"
      using pk_split_before_ok [OF w(1,2) _ _ _ xy] both(1) ov(1) e' by auto
    have "elems s1 = (ys @ [x]) @ y # xs" "Suc (length (elems s1)) < OSET_ITER_MAX" using s1(3) l w(2) by (simp_all del: elems_write)
    then obtain s2 where s2: "pk_split_behind fi (y, s1) = Inr s2" "regions_ok s2" "elems s2 = (ys @ [x]) @ u # v # xs" "rest_of s2 = v # xs"
      using pk_split_behind_ok [OF s1(2) _ _ fi _ _ uv] both(2) b(4,5) \<open>lo fi < hi fi\<close> by metis
    moreover have "pieces fi e [x, u, v] [v]"
      using h both b d cx cu ov by (auto simp: pieces_def cuts_def hit_def revisited_def flush_tag_def bytes_def overlaps_e_def)
    ultimately show ?thesis using s1(1) by (intro exI [of _ s2] exI [of _ "[x, u, v]"] exI [of _ "[v]"]) simp
  qed
qed

definition pk_room :: "nat \<Rightarrow> pk_ops \<Rightarrow> bool" where
  "pk_room n p \<longleftrightarrow> (op_check_flush (pk_opts p) \<longrightarrow> length (pk_redundant_flushes p) + n \<le> MAX_FLUSH_ERROR_EVENTS)"

definition pk_warned :: "pk_ops \<Rightarrow> pmem_st list \<Rightarrow> pmem_st list" where
  "pk_warned p es = (if op_check_flush (pk_opts p) then es else [])"

definition with_flush :: "region_set \<Rightarrow> pmem_st list \<Rightarrow> pk_ops \<Rightarrow> pk_ops" where
  "with_flush s evs p = p\<lparr>pk_stores := s, pk_redundant_flushes := pk_redundant_flushes p @ pk_warned p evs\<rparr>"

lemma with_flush_sel [simp]: "pk_stores (with_flush s evs p) = s" "pk_opts (with_flush s evs p) = pk_opts p"
  "with_flush s' evs' (with_flush s evs p) = with_flush s' (evs @ evs') p"
  "with_flush s (evs) (p\<lparr>pk_stores := s'\<rparr>) = with_flush s evs p"
  by (simp_all add: with_flush_def pk_warned_def)

lemma pk_room_with: "pk_room (length evs + n) p \<Longrightarrow> pk_room n (with_flush s evs p)"
  by (auto simp: pk_room_def with_flush_def pk_warned_def)

text \<open>One turn of the loop.\<close>

lemma pk_flush_entry_ok:
  assumes s: "regions_ok (pk_stores p)" "elems (pk_stores p) = ys @ e # xs" "rest_of (pk_stores p) = xs" and fi: "rkey fi"
    and len: "length (elems (pk_stores p)) + cuts fi e < OSET_ITER_MAX" and rm: "pk_room (length (revisited fi e)) p"
  shows "\<exists>s' ps zs. pk_flush_entry fi e (p, v) = Inr (with_flush s' (if hit fi e then [] else revisited fi e) p, v \<or> overlaps_e fi e) \<and>
    regions_ok s' \<and> elems s' = ys @ ps @ xs \<and> rest_of s' = zs @ xs \<and> pieces fi e ps zs"
proof -
  have e: "rok e" using regions_rok [OF s(1)] s(2) by simp
  have c0: "cmp_pmem_st fi e = 0 \<longleftrightarrow> overlaps_e fi e" using cmp_pmem_st_eq_0 [OF fi rok_rkey [OF e]] by (auto simp: overlaps_e_def)
  show ?thesis
  proof (cases "hit fi e")
    case True
    obtain s' ps zs where s': "rbind (pk_split_before fi (e\<lparr>st_state := STST_FLUSHED\<rparr>, os_write e (e\<lparr>st_state := STST_FLUSHED\<rparr>) (pk_stores p))) (pk_split_behind fi) = Inr s'"
      "regions_ok s'" "elems s' = ys @ ps @ xs" "rest_of s' = zs @ xs" "pieces fi e ps zs"
      using hit_split [OF s fi True len] by blast
    have "with_flush s' [] p = p\<lparr>pk_stores := s'\<rparr>" by (simp add: with_flush_def pk_warned_def)
    then have "pk_flush_entry fi e (p, v) = Inr (with_flush s' [] p, v \<or> overlaps_e fi e)"
      using True c0 s'(1) by (auto simp: pk_flush_entry_def hit_def Let_def rbind_eq_Inr)
    then show ?thesis using True s'(2-5) by auto
  next
    case False
    have pc: "pieces fi e [e] []"
      using False by (auto simp: pieces_def cuts_def hit_def overlaps_e_def flush_tag_def)
    have "pk_flush_entry fi e (p, v) = Inr (with_flush (pk_stores p) (revisited fi e) p, v \<or> overlaps_e fi e)"
      using False c0 rm by (auto simp: pk_flush_entry_def hit_def revisited_def with_flush_def pk_warned_def pk_add_redundant_flush_def pk_room_def add_warning_event_def)
    then show ?thesis using pc s False by (intro exI [of _ "pk_stores p"] exI [of _ "[e]"] exI [of _ "[]"]) simp
  qed
qed

section \<open>Flushes: the loop\<close>

definition all_cuts :: "pmem_st \<Rightarrow> pmem_st list \<Rightarrow> nat" where
  "all_cuts fi es = sum_list (map (cuts fi) es)"

definition all_revisited :: "pmem_st \<Rightarrow> pmem_st list \<Rightarrow> pmem_st list" where
  "all_revisited fi es = concat (map (revisited fi) es)"

definition visits :: "pmem_st \<Rightarrow> pmem_st list \<Rightarrow> nat" where
  "visits fi es = sum_list (map (\<lambda>e. Suc (of_bool (0 < cuts fi e))) es)"

lemma flush_sums [simp]:
  "all_cuts fi [] = 0" "all_cuts fi (e # es) = cuts fi e + all_cuts fi es" "all_cuts fi (es @ es') = all_cuts fi es + all_cuts fi es'"
  "all_revisited fi [] = []" "all_revisited fi (e # es) = revisited fi e @ all_revisited fi es"
  "all_revisited fi (es @ es') = all_revisited fi es @ all_revisited fi es'"
  "visits fi [] = 0" "visits fi (e # es) = Suc (of_bool (0 < cuts fi e)) + visits fi es" "visits fi (es @ es') = visits fi es + visits fi es'"
  by (simp_all add: all_cuts_def all_revisited_def visits_def)

lemma visits_le: "visits fi es \<le> 2 * length es"
  by (induction es) auto

lemma missed_simps:
  assumes "\<forall>z \<in> set zs. \<not> hit fi z"
  shows "all_cuts fi zs = 0" "visits fi zs = length zs" "flush_tag fi b ` tags zs b = tags zs b"
proof -
  show "all_cuts fi zs = 0" "visits fi zs = length zs" using assms by (induction zs) (simp_all add: cuts_def)
  show "flush_tag fi b ` tags zs b = tags zs b"
    using assms by (induction zs) (auto simp: flush_tag_def hit_def overlaps_e_def image_Un)
qed

text \<open>At most one entry contains a given address in its inside.\<close>

lemma across_one:
  "disjoint_list es \<Longrightarrow> sum_list (map (\<lambda>e. of_bool (lo e < a \<and> a < hi e)) es) \<le> (1 :: nat)"
proof (induction es)
  case (Cons e es)
  then have d: "disjoint_list es" "\<forall>x \<in> set es. hi e \<le> lo x" by (simp_all add: disjoint_list_def)
  show ?case
  proof (cases "lo e < a \<and> a < hi e")
    case True
    then have "sum_list (map (\<lambda>e. of_bool (lo e < a \<and> a < hi e)) es) = (0 :: nat)" using d(2) by (induction es) auto
    then show ?thesis using True by simp
  next
    case False
    then show ?thesis using Cons.IH [OF d(1)] by (simp only: list.map sum_list.Cons of_bool_eq add_0 simp_thms)
  qed
qed simp

lemma all_cuts_le:
  assumes "disjoint_list es" "rkey fi"
  shows "all_cuts fi es \<le> 2"
proof -
  have "cuts fi e \<le> of_bool (lo e < lo fi \<and> lo fi < hi e) + of_bool (lo e < hi fi \<and> hi fi < hi e)" if "e \<in> set es" for e
    using that assms bytes_disjoint_iff [OF rok_rkey assms(2), of e] by (auto simp: cuts_def hit_def overlaps_e_def disjoint_list_def)
  then have "all_cuts fi es \<le> sum_list (map (\<lambda>e. of_bool (lo e < lo fi \<and> lo fi < hi e) + of_bool (lo e < hi fi \<and> hi fi < hi e)) es)"
    unfolding all_cuts_def by (rule sum_list_mono)
  also have "\<dots> \<le> 1 + 1" unfolding sum_list_addf using across_one [OF assms(1)] by (intro add_mono) simp_all
  finally show ?thesis by simp
qed

abbreviation pk_flush_next :: "pk_ops \<times> bool \<Rightarrow> (pmem_st option \<times> (pk_ops \<times> bool)) res" where
  "pk_flush_next \<equiv> \<lambda>(p, v). rbind (pk_next p) (\<lambda>(e, p'). Inr (e, (p', v)))"

lemma pk_flush_loop:
  assumes "regions_ok (pk_stores p)" "elems (pk_stores p) = ys @ rest_of (pk_stores p)" "rkey fi"
    and "length (elems (pk_stores p)) + all_cuts fi (rest_of (pk_stores p)) < OSET_ITER_MAX"
    and "pk_room (length (all_revisited fi (rest_of (pk_stores p)))) p" "visits fi (rest_of (pk_stores p)) < f"
  shows "\<exists>s'. while_next f pk_flush_next (pk_flush_entry fi) (p, v) =
      Inr (with_flush s' (all_revisited fi (rest_of (pk_stores p))) p, v \<or> (\<exists>e \<in> set (rest_of (pk_stores p)). overlaps_e fi e)) \<and>
    regions_ok s' \<and> length (elems s') = length (elems (pk_stores p)) + all_cuts fi (rest_of (pk_stores p)) \<and>
    (\<forall>b. tags (elems s') b = tags ys b \<union> flush_tag fi b ` tags (rest_of (pk_stores p)) b)"
  using assms
proof (induction f arbitrary: p ys v)
  case 0
  then show ?case by simp
next
  case (Suc f)
  let ?s = "pk_stores p"
  show ?case
  proof (cases "rest_of ?s")
    case Nil
    then have "pk_next p = Inr (None, p\<lparr>pk_stores := ?s\<lparr>os_stack := []\<rparr>\<rparr>)" using Next_None [OF Suc.prems(1)] by (simp add: pk_next_eq)
    moreover have "regions_ok (?s\<lparr>os_stack := []\<rparr>)" "elems (?s\<lparr>os_stack := []\<rparr>) = elems ?s" using Suc.prems(1) by (simp_all add: oset_defs)
    ultimately show ?thesis using Nil Suc.prems(2)
      by (intro exI [of _ "?s\<lparr>os_stack := []\<rparr>"]) (simp add: with_flush_def pk_warned_def)
  next
    case (Cons e xs)
    obtain s1 where s1: "OSetGen_Next ?s = Inr (Some e, s1)" "regions_ok s1" "elems s1 = ys @ e # xs" "rest_of s1 = xs"
      using Next_Some [OF Suc.prems(1) Cons] Suc.prems(2) Cons by auto
    let ?p = "p\<lparr>pk_stores := s1\<rparr>" and ?now = "if hit fi e then [] else revisited fi e"
    have rm: "pk_room (length (revisited fi e) + length (all_revisited fi xs)) p" using Suc.prems(5) Cons by simp
    then have "pk_room (length (revisited fi e)) ?p" by (auto simp: pk_room_def)
    then obtain s2 ps zs where s2: "pk_flush_entry fi e (?p, v) = Inr (with_flush s2 ?now p, v \<or> overlaps_e fi e)"
      "regions_ok s2" "elems s2 = ys @ ps @ xs" "rest_of s2 = zs @ xs" "pieces fi e ps zs"
      using pk_flush_entry_ok [of ?p ys e xs fi v] s1 Suc.prems(2-4) Cons by auto
    obtain ws where ps: "length ps = Suc (cuts fi e)" "ps = ws @ zs" "\<forall>b. tags ps b = flush_tag fi b ` tags [e] b"
      "length zs = of_bool (0 < cuts fi e)" "\<forall>z \<in> set zs. \<not> hit fi z" "hit fi e \<longrightarrow> all_revisited fi zs = revisited fi e"
      using s2(5) by (auto simp: pieces_def all_revisited_def)
    have zs: "zs = [] \<or> hit fi e" using ps(4) by (auto simp: cuts_def split: if_splits)
    then have now: "?now @ all_revisited fi zs = revisited fi e" using ps(6) ps(4) by (auto simp: cuts_def)
    have "length ?now + length (all_revisited fi (zs @ xs)) = length (revisited fi e) + length (all_revisited fi xs)"
      using arg_cong [OF now, of length] by simp
    then have rm2: "pk_room (length (all_revisited fi (zs @ xs))) (with_flush s2 ?now p)"
      using rm by (intro pk_room_with) (simp only:)
    note m = missed_simps [OF ps(5)]
    have "visits fi (zs @ xs) < f" "length (elems s2) + all_cuts fi (zs @ xs) < OSET_ITER_MAX"
      using Suc.prems(2,4,6) Cons m(1,2) ps(1,4) s2(3) by auto
    then obtain s3 where s3: "while_next f pk_flush_next (pk_flush_entry fi) (with_flush s2 ?now p, v \<or> overlaps_e fi e) =
        Inr (with_flush s3 (all_revisited fi (zs @ xs)) (with_flush s2 ?now p), (v \<or> overlaps_e fi e) \<or> (\<exists>e \<in> set (zs @ xs). overlaps_e fi e))"
      "regions_ok s3" "length (elems s3) = length (elems s2) + all_cuts fi (zs @ xs)"
      "\<forall>b. tags (elems s3) b = tags (ys @ ws) b \<union> flush_tag fi b ` tags (zs @ xs) b"
      using Suc.IH [of "with_flush s2 ?now p" "ys @ ws" "v \<or> overlaps_e fi e"] s2(2-4) ps(2) Suc.prems(3) rm2 by auto
    have "tags (elems s3) b = tags ys b \<union> flush_tag fi b ` tags (e # xs) b" for b
    proof -
      have "tags ws b \<union> tags zs b = flush_tag fi b ` tags [e] b" using ps(3) unfolding ps(2) tags_simps(3) by blast
      moreover have "tags (e # xs) b = tags [e] b \<union> tags xs b" by simp
      ultimately show ?thesis using s3(4) m(3) by (simp only: tags_simps(3) image_Un) blast
    qed
    moreover have "((v \<or> overlaps_e fi e) \<or> (\<exists>e \<in> set (zs @ xs). overlaps_e fi e)) = (v \<or> (\<exists>x \<in> set (e # xs). overlaps_e fi x))"
      using zs by (auto simp: hit_def)
    moreover have "with_flush s3 (all_revisited fi (zs @ xs)) (with_flush s2 ?now p) = with_flush s3 (all_revisited fi (e # xs)) p"
      unfolding with_flush_sel(3) flush_sums(5,6) append_assoc [symmetric] now by (rule refl)
    moreover have "length (elems s3) = length (elems ?s) + all_cuts fi (e # xs)"
      using s3(3) s2(3) m(1) ps(1) Suc.prems(2) Cons by simp
    ultimately show ?thesis
      using pk_next_eq [OF s1(1)] s2(1) s3(1,2) Cons by (intro exI [of _ s3]) (simp del: flush_sums with_flush_sel(3) with_flush_sel(4) tags_simps)
  qed
qed

theorem pk_do_flush_spec:
  assumes s: "regions_ok (pk_stores p)" and fi: "fi = pk_flush_range base sze p" "rkey fi"
    and len: "length (elems (pk_stores p)) + 2 < OSET_ITER_MAX" and rm: "pk_room (length (all_revisited fi (elems (pk_stores p)))) p"
    and rs: "op_check_flush (pk_opts p) \<longrightarrow> length (pk_superfluous_flushes p) < MAX_FLUSH_ERROR_EVENTS"
  shows "\<exists>p'. pk_do_flush en base sze p = Inr p' \<and> regions_ok (pk_stores p') \<and>
    (\<forall>b. tags (elems (pk_stores p')) b = flush_tag fi b ` tags (elems (pk_stores p)) b) \<and>
    length (elems (pk_stores p')) \<le> length (elems (pk_stores p)) + 2 \<and>
    pk_redundant_flushes p' = pk_redundant_flushes p @ pk_warned p (all_revisited fi (elems (pk_stores p))) \<and>
    pk_superfluous_flushes p' = pk_superfluous_flushes p @ pk_warned p (superfluous en fi (elems (pk_stores p))) \<and>
    pk_mappings p' = pk_mappings p \<and> pk_opts p' = pk_opts p"
proof -
  define p0 where "p0 = (if op_log_stores (pk_opts p) then pk_log [Emit ''|FLUSH;0x%lx;0x%llx'' [st_addr fi, st_size fi]] p else p)"
  define p1 where "p1 = p0\<lparr>pk_stores := OSetGen_ResetIter (pk_stores p0)\<rparr>"
  have p0: "pk_stores p0 = pk_stores p" "pk_opts p0 = pk_opts p" "pk_mappings p0 = pk_mappings p"
    "pk_redundant_flushes p0 = pk_redundant_flushes p" "pk_superfluous_flushes p0 = pk_superfluous_flushes p"
    by (simp_all add: p0_def pk_log_def)
  let ?s = "pk_stores p"
  have l: "length (elems ?s) < OSET_ITER_MAX" using len by simp
  note i = ResetIter_correct [OF s l]
  have p1: "pk_stores p1 = OSetGen_ResetIter ?s" "rest_of (pk_stores p1) = elems ?s" "elems (pk_stores p1) = elems ?s"
    using i by (simp_all add: p1_def p0)
  have c: "all_cuts fi (elems ?s) \<le> 2" by (rule all_cuts_le [OF regions_okD [OF s] fi(2)])
  have "\<exists>s'. while_next (2 * OSetGen_Size (pk_stores p0) + 1) pk_flush_next (pk_flush_entry fi) (p1, False) =
      Inr (with_flush s' (all_revisited fi (rest_of (pk_stores p1))) p1, False \<or> (\<exists>e \<in> set (rest_of (pk_stores p1)). overlaps_e fi e)) \<and>
    regions_ok s' \<and> length (elems s') = length (elems (pk_stores p1)) + all_cuts fi (rest_of (pk_stores p1)) \<and>
    (\<forall>b. tags (elems s') b = tags [] b \<union> flush_tag fi b ` tags (rest_of (pk_stores p1)) b)"
    using i p1 c len rm visits_le [of fi "elems ?s"] Size_correct [OF s] fi(2) p0
    by (intro pk_flush_loop) (simp_all add: pk_room_def p1_def)
  then obtain s' where s': "while_next (2 * OSetGen_Size (pk_stores p0) + 1) pk_flush_next (pk_flush_entry fi) (p1, False) =
      Inr (with_flush s' (all_revisited fi (elems ?s)) p1, \<exists>e \<in> set (elems ?s). overlaps_e fi e)"
    "regions_ok s'" "length (elems s') = length (elems ?s) + all_cuts fi (elems ?s)"
    "\<forall>b. tags (elems s') b = flush_tag fi b ` tags (elems ?s) b"
    unfolding p1(2,3) by auto
  define p2 where "p2 = with_flush s' (all_revisited fi (elems ?s)) p1"
  have p2: "pk_stores p2 = s'" "pk_opts p2 = pk_opts p" "pk_mappings p2 = pk_mappings p" "pk_superfluous_flushes p2 = pk_superfluous_flushes p"
    "pk_redundant_flushes p2 = pk_redundant_flushes p @ pk_warned p (all_revisited fi (elems ?s))"
    by (simp_all add: p2_def p1_def p0 with_flush_def pk_warned_def)
  have run: "pk_do_flush en base sze p = (if \<exists>e \<in> set (elems ?s). overlaps_e fi e then Inr p2 else pk_add_superfluous_flush en fi p2)"
    using s'(1) unfolding pk_do_flush_def Let_def fi(1) [symmetric] p0_def [symmetric] p1_def [symmetric] p2_def by simp
  show ?thesis
  proof (cases "\<exists>e \<in> set (elems ?s). overlaps_e fi e")
    case True
    then show ?thesis using run p2 s'(2-4) c by (simp add: superfluous_def pk_warned_def)
  next
    case False
    then have "pk_do_flush en base sze p = Inr (p2\<lparr>pk_superfluous_flushes := pk_superfluous_flushes p @ pk_warned p (superfluous en fi (elems ?s))\<rparr>)"
      using run rs p2(2,4) by (auto simp: pk_add_superfluous_flush_def add_warning_event_def pk_warned_def superfluous_def)
    then show ?thesis using p2 s'(2-4) c by simp
  qed
qed

end
