(* ===== verification/Pmemcheck_Persist.thy ===== *)
theory Pmemcheck_Persist
  imports Pmemcheck_Flush_Laws PMC_Init_Laws
begin

text \<open>
  \<open>pmemcheck\<close> as a second tracker of the durability specification.  Its set holds every byte at most once, so that
  it needs no discipline of cache lines: the interface \<open>persistency\<close> is interpreted on its handlers with any
  store and any flush, and on the handlers of PMDebugger with an environment per access.  From both follows
  what a session reports and that the two tools agree.
\<close>

section \<open>States of the bytes\<close>

definition pk_view :: "pk_ops \<Rightarrow> durability" where
  "pk_view p = entries_view (elems (pk_stores p))"

lemma flush_in_state:
  assumes "\<forall>b. tags es' b = flush_tag fi b ` tags es b"
  shows "in_state STST_DIRTY es' = in_state STST_DIRTY es - bytes fi"
    "in_state STST_FLUSHED es' = in_state STST_FLUSHED es \<union> (in_state STST_DIRTY es \<inter> bytes fi)"
    "in_state STST_CLEAN es' = in_state STST_CLEAN es"
proof -
  have m: "(x, c) \<in> tags es' b \<longleftrightarrow> (\<exists>y. (y, c) \<in> tags es b \<and> x = (if b \<in> bytes fi \<and> y = STST_DIRTY then STST_FLUSHED else y))" for x c b
    using assms by (force simp: flush_tag_def)
  have "b \<in> in_state STST_DIRTY es' \<longleftrightarrow> b \<in> in_state STST_DIRTY es - bytes fi" for b unfolding in_state_tags by (auto simp: m split: if_splits)
  then show "in_state STST_DIRTY es' = in_state STST_DIRTY es - bytes fi" by blast
  have "b \<in> in_state STST_FLUSHED es' \<longleftrightarrow> b \<in> in_state STST_FLUSHED es \<union> (in_state STST_DIRTY es \<inter> bytes fi)" for b
    unfolding in_state_tags by (auto simp: m split: if_splits)
  then show "in_state STST_FLUSHED es' = in_state STST_FLUSHED es \<union> (in_state STST_DIRTY es \<inter> bytes fi)" by blast
  have "b \<in> in_state STST_CLEAN es' \<longleftrightarrow> b \<in> in_state STST_CLEAN es" for b unfolding in_state_tags by (auto simp: m split: if_splits)
  then show "in_state STST_CLEAN es' = in_state STST_CLEAN es" by blast
qed

text \<open>The entries are disjoint, so a byte is in one state.\<close>

lemma one_state:
  assumes "regions_ok s" "x \<noteq> y"
  shows "in_state x (elems s) \<inter> in_state y (elems s) = {}"
  using disjoint_list_disj [OF regions_okD [OF assms(1)]] assms(2) by (fastforce simp: in_state_mem)

lemma pk_view_states:
  assumes "regions_ok (pk_stores p)"
  shows "pk_view p = \<lparr>du_dirty = in_state STST_DIRTY (elems (pk_stores p)), du_flushed = in_state STST_FLUSHED (elems (pk_stores p))\<rparr>"
  using one_state [OF assms, of STST_FLUSHED STST_DIRTY] by (auto simp: pk_view_def entries_view_def)

section \<open>Invariant\<close>

definition pk_warn_room :: "nat \<Rightarrow> pk_ops \<Rightarrow> bool" where
  "pk_warn_room n p \<longleftrightarrow> (op_check_flush (pk_opts p) \<longrightarrow>
     length (pk_redundant_flushes p) + n * (length (elems (pk_stores p)) + 2 * n) \<le> MAX_FLUSH_ERROR_EVENTS \<and>
     length (pk_superfluous_flushes p) + n \<le> MAX_FLUSH_ERROR_EVENTS)"

definition pk_plain :: "options \<Rightarrow> bool" where
  "pk_plain op \<longleftrightarrow> \<not> op_track_multiple_stores op \<and> \<not> (op_log_stores op \<and> op_store_traces op) \<and> \<not> op_force_flush_align op"

definition pk_ok :: "pk_ops \<Rightarrow> bool" where
  "pk_ok p \<longleftrightarrow> regions_ok (pk_stores p) \<and> all_traced (pk_stores p) \<and> in_state STST_CLEAN (elems (pk_stores p)) = {} \<and>
     regions_ok (pk_mappings p)"

definition pk_inv :: "nat set \<Rightarrow> nat \<Rightarrow> pk_ops \<times> transaction_ops \<Rightarrow> bool" where
  "pk_inv M n = (\<lambda>(p, t). pk_ok p \<and> region_bytes (pk_mappings p) = M \<and> pk_plain (pk_opts p) \<and>
     length (elems (pk_stores p)) + 2 * n < OSET_ITER_MAX \<and> pk_warn_room n p \<and> trans_inv n t)"

lemma pk_inv_SucI:
  assumes inv: "pk_inv M (Suc n) (p, t)" and ok: "pk_ok p'" and fr: "pk_mappings p' = pk_mappings p" "pk_opts p' = pk_opts p"
    and len: "length (elems (pk_stores p')) \<le> length (elems (pk_stores p)) + 2"
    and red: "length (pk_redundant_flushes p') \<le> length (pk_redundant_flushes p) + length (elems (pk_stores p))"
    and sup: "length (pk_superfluous_flushes p') \<le> Suc (length (pk_superfluous_flushes p))" and t: "trans_inv n t'"
  shows "pk_inv M n (p', t')"
proof -
  have "n * (length (elems (pk_stores p')) + 2 * n) \<le> n * (length (elems (pk_stores p)) + 2 + 2 * n)"
    using len by (intro mult_le_mono) simp_all
  then have "pk_warn_room n p'"
    using inv fr(2) red sup by (auto simp: pk_inv_def pk_warn_room_def algebra_simps)
  then show ?thesis using inv ok fr len t by (simp add: pk_inv_def)
qed

section \<open>Accesses\<close>

fun pk_access_step :: "env \<times> access \<Rightarrow> pk_ops \<times> transaction_ops \<Rightarrow> (pk_ops \<times> transaction_ops) res" where
  "pk_access_step (en, Store addr sze val) w = pk_trace_pmem_store en addr sze val w"
| "pk_access_step (en, Flush addr sze) w = rbind (pk_do_flush en addr sze (fst w)) (\<lambda>p. Inr (p, snd w))"
| "pk_access_step (en, Fence) w = rbind (pk_do_fence (fst w)) (\<lambda>p. Inr (p, snd w))"

fun pk_access_ok :: "env \<times> access \<Rightarrow> bool" where
  "pk_access_ok (en, Store addr sze val) = (rok (mk_region addr sze) \<and> traced (en_context en))"
| "pk_access_ok (en, Flush addr sze) = rkey (mk_region addr sze)"
| "pk_access_ok (en, Fence) = True"

lemma pk_is_pmem_access_mapped:
  "regions_ok (pk_mappings p) \<Longrightarrow> rkey (mk_region a k) \<Longrightarrow>
     pk_is_pmem_access a k p \<longleftrightarrow> bytes (mk_region a k) \<inter> region_bytes (pk_mappings p) \<noteq> {}"
  by (simp add: pk_is_pmem_access_def region_contains)

definition pk_new_store :: "env \<Rightarrow> uword \<Rightarrow> uword \<Rightarrow> uword \<Rightarrow> pk_ops \<Rightarrow> pmem_st" where
  "pk_new_store en a k v p = zero_st\<lparr>st_addr := a, st_size := k, st_state := STST_DIRTY, st_block_num := pk_sblocks p,
     st_value := v, st_context := en_context en\<rparr>"

lemma pk_log_store_ok:
  assumes "\<not> (op_log_stores (pk_opts p) \<and> op_store_traces (pk_opts p))"
  shows "\<exists>p'. pk_log_store en s p = Inr p' \<and> pk_stores p' = pk_stores p \<and> pk_mappings p' = pk_mappings p \<and> pk_opts p' = pk_opts p \<and>
    pk_redundant_flushes p' = pk_redundant_flushes p \<and> pk_superfluous_flushes p' = pk_superfluous_flushes p \<and> pk_multiple_stores p' = pk_multiple_stores p"
  using assms by (auto simp: pk_log_store_def pk_log_def Let_def)

lemma pk_store_step:
  assumes inv: "pk_inv M (Suc n) w" and ok: "pk_access_ok (en, Store a k v)"
  shows "\<exists>w'. pk_access_step (en, Store a k v) w = Inr w' \<and> pk_inv M n w' \<and>
    pk_view (fst w') = fold act (access_acts M (Store a k v)) (pk_view (fst w)) \<and> pk_opts (fst w') = pk_opts (fst w)"
proof -
  obtain p t where w: "w = (p, t)" by (cases w)
  let ?r = "mk_region a k" and ?s = "pk_new_store en a k v p"
  have i: "pk_ok p" "region_bytes (pk_mappings p) = M" "pk_plain (pk_opts p)" "trans_inv (Suc n) t" using inv w by (simp_all add: pk_inv_def)
  have r: "rok ?r" "traced (en_context en)" using ok by simp_all
  have acc: "pk_is_pmem_access a k p \<longleftrightarrow> bytes ?r \<inter> M \<noteq> {}"
    using pk_is_pmem_access_mapped [OF _ rok_rkey [OF r(1)]] i(1,2) by (simp add: pk_ok_def)
  show ?thesis
  proof (cases "bytes ?r \<inter> M = {}")
    case True
    have "pk_inv M n (p, t)" using inv i(1,4) trans_inv_Suc w by (intro pk_inv_SucI [of M n p t]) auto
    then show ?thesis using True acc w by (simp add: pk_trace_pmem_store_def pk_track_store_def)
  next
    case False
    obtain p1 where p1: "pk_log_store en ?s p = Inr p1" "pk_stores p1 = pk_stores p" "pk_mappings p1 = pk_mappings p" "pk_opts p1 = pk_opts p"
      "pk_redundant_flushes p1 = pk_redundant_flushes p" "pk_superfluous_flushes p1 = pk_superfluous_flushes p"
      using pk_log_store_ok [of p en ?s] i(3) by (auto simp: pk_plain_def)
    have b: "bytes ?s = bytes ?r" "rok ?s" "traced (st_context ?s)" "st_state ?s = STST_DIRTY"
      using r same_range [of ?s ?r] by (simp_all add: pk_new_store_def mk_region_def)
    obtain r' s' where s': "pk_add_and_merge_store en ?s p1 = Inr (r', p1\<lparr>pk_stores := s'\<rparr>)" "rok r'" "regions_ok s'" "all_traced s'"
      "\<forall>x. in_state x (elems s') = in_state x (elems (pk_stores p)) - bytes ?r \<union> (if x = STST_DIRTY then bytes ?r else {})"
      "length (elems s') \<le> length (elems (pk_stores p)) + 2"
      using pk_add_and_merge_store_spec [of p1 ?s en] i(1) b p1(2) by (auto simp: pk_ok_def)
    obtain t' where t': "handle_tx_store en r' t = Inr t'" "tx_wf t'" "tx_same t t'" "tx_room 0 t'"
      "length (tr_oot_stores t') \<le> Suc (length (tr_oot_stores t))"
      using handle_tx_store_ok [of t r' 0 en] i(4) rok_rkey [OF s'(2)] by (fastforce simp: trans_inv_def)
    then have t2: "trans_inv n t'" using i(4) by (simp add: trans_inv_def tx_same_def)
    let ?p = "p1\<lparr>pk_stores := s'\<rparr>"
    have "pk_ok ?p" using s'(3-5) i(1) p1(3) by (simp add: pk_ok_def)
    then have inv': "pk_inv M n (?p, t')" using inv w p1 s'(6) t2 by (intro pk_inv_SucI [of M n p t]) simp_all
    have step: "pk_access_step (en, Store a k v) w = Inr (?p, t')"
      using w False acc p1(1,4) s'(1) t'(1) i(3) by (simp add: pk_trace_pmem_store_def pk_track_store_def pk_new_store_def [symmetric] pk_plain_def)
    have "pk_view ?p = act (Act_Store (bytes ?r)) (pk_view p)"
      using pk_view_states [of ?p] pk_view_states [of p] s'(3,5) i(1) by (auto simp: pk_ok_def)
    then show ?thesis using step inv' False w p1(4) by (intro exI [of _ "(?p, t')"]) simp
  qed
qed

lemma pk_flush_step:
  assumes inv: "pk_inv M (Suc n) w" and ok: "pk_access_ok (en, Flush a k)"
  shows "\<exists>w'. pk_access_step (en, Flush a k) w = Inr w' \<and> pk_inv M n w' \<and>
    pk_view (fst w') = fold act (access_acts M (Flush a k)) (pk_view (fst w)) \<and> pk_opts (fst w') = pk_opts (fst w)"
proof -
  obtain p t where w: "w = (p, t)" by (cases w)
  let ?fi = "mk_region a k"
  have i: "pk_ok p" "pk_plain (pk_opts p)" "trans_inv (Suc n) t" "length (elems (pk_stores p)) + 2 < OSET_ITER_MAX" "pk_warn_room (Suc n) p"
    using inv w by (simp_all add: pk_inv_def)
  have fi: "?fi = pk_flush_range a k p" using i(2) by (simp add: pk_flush_range_def pk_plain_def)
  have short: "length (all_revisited ?fi es) \<le> length es" for es by (induction es) (auto simp: revisited_def)
  have rm: "pk_room (length (all_revisited ?fi (elems (pk_stores p)))) p"
    using i(5) short [of "elems (pk_stores p)"] by (auto simp: pk_room_def pk_warn_room_def)
  obtain p' where p': "pk_do_flush en a k p = Inr p'" "regions_ok (pk_stores p')"
    "\<forall>b. tags (elems (pk_stores p')) b = flush_tag ?fi b ` tags (elems (pk_stores p)) b"
    "length (elems (pk_stores p')) \<le> length (elems (pk_stores p)) + 2"
    "pk_redundant_flushes p' = pk_redundant_flushes p @ pk_warned p (all_revisited ?fi (elems (pk_stores p)))"
    "pk_superfluous_flushes p' = pk_superfluous_flushes p @ pk_warned p (superfluous en ?fi (elems (pk_stores p)))"
    "pk_mappings p' = pk_mappings p" "pk_opts p' = pk_opts p"
    using pk_do_flush_spec [OF _ fi _ i(4) rm, of en] i(1,5) ok by (auto simp: pk_ok_def pk_warn_room_def)
  note st = flush_in_state [OF p'(3)]
  have "traced (snd u)" if "u \<in> tags (elems (pk_stores p')) b" for b u
    using that p'(3) i(1) by (auto simp: pk_ok_def all_traced_def tags_mem flush_tag_def)
  then have "all_traced (pk_stores p')" using tags_all [OF p'(2), of "\<lambda>u. traced (snd u)"] by (simp add: all_traced_def)
  then have ok': "pk_ok p'" using i(1) p'(2,7) st(3) by (simp add: pk_ok_def)
  have "pk_inv M n (p', t)"
    using inv w p'(4-8) short [of "elems (pk_stores p)"] trans_inv_Suc [OF i(3)]
    by (intro pk_inv_SucI [OF _ ok']) (auto simp: pk_warned_def superfluous_def)
  moreover have "pk_view p' = act (Act_Flush (bytes ?fi)) (pk_view p)"
    using pk_view_states [OF p'(2)] pk_view_states [of p] i(1) st by (simp add: pk_ok_def)
  ultimately show ?thesis using p'(1,8) w by simp
qed

lemma pk_fence_step:
  assumes inv: "pk_inv M (Suc n) w"
  shows "\<exists>w'. pk_access_step (en, Fence) w = Inr w' \<and> pk_inv M n w' \<and>
    pk_view (fst w') = fold act (access_acts M Fence) (pk_view (fst w)) \<and> pk_opts (fst w') = pk_opts (fst w)"
proof -
  obtain p t where w: "w = (p, t)" by (cases w)
  have i: "pk_ok p" "trans_inv (Suc n) t" "length (elems (pk_stores p)) < OSET_ITER_MAX" using inv w by (simp_all add: pk_inv_def)
  define p0 where "p0 = (if op_log_stores (pk_opts p) then pk_log [Emit ''|FENCE'' []] p else p)"
  obtain s' where s': "pk_do_fence p = Inr (p0\<lparr>pk_stores := s'\<rparr>)" "regions_ok s'" "elems s' = filter unflushed (elems (pk_stores p))"
    using pk_do_fence_spec [of p] i(1,3) by (auto simp: pk_ok_def p0_def)
  let ?p = "p0\<lparr>pk_stores := s'\<rparr>"
  have p0: "pk_mappings p0 = pk_mappings p" "pk_opts p0 = pk_opts p" "pk_redundant_flushes p0 = pk_redundant_flushes p"
    "pk_superfluous_flushes p0 = pk_superfluous_flushes p" by (simp_all add: p0_def pk_log_def)
  have ok': "pk_ok ?p" using i(1) s'(2,3) p0(1) by (simp add: pk_ok_def all_traced_def in_state_filter)
  have "pk_inv M n (?p, t)"
    using inv w p0 s'(3) trans_inv_Suc [OF i(2)] le_trans [OF length_filter_le [of unflushed "elems (pk_stores p)"]]
    by (intro pk_inv_SucI [OF _ ok']) auto
  moreover have "pk_view ?p = act Act_Fence (pk_view p)"
    using pk_view_states [of ?p] pk_view_states [of p] i(1) s'(2,3) by (simp add: pk_ok_def in_state_filter)
  ultimately show ?thesis using s'(1) w p0(2) by simp
qed

lemma pk_access_step_ok:
  assumes "pk_inv M (Suc n) w" "pk_access_ok (en, a)"
  shows "\<exists>w'. pk_access_step (en, a) w = Inr w' \<and> pk_inv M n w' \<and> pk_view (fst w') = fold act (access_acts M a) (pk_view (fst w)) \<and>
    pk_opts (fst w') = pk_opts (fst w)"
proof (cases a)
  case (Store b k v)
  show ?thesis unfolding Store by (rule pk_store_step [OF assms [unfolded Store]])
next
  case (Flush b k)
  show ?thesis unfolding Flush by (rule pk_flush_step [OF assms [unfolded Flush]])
next
  case Fence
  show ?thesis unfolding Fence by (rule pk_fence_step [OF assms(1)])
qed

text \<open>The two interpretations.\<close>

interpretation pk_tracker: persistency pk_access_step "pk_inv M" "\<lambda>w. pk_view (fst w)" "\<lambda>(en, a). access_acts M a" pk_access_ok
  for M
proof
  fix n w and e :: "env \<times> access" assume "pk_inv M (Suc n) w" "pk_access_ok e"
  then show "\<exists>w'. pk_access_step e w = Inr w' \<and> pk_inv M n w' \<and>
      pk_view (fst w') = fold act (case e of (en, a) \<Rightarrow> access_acts M a) (pk_view (fst w))"
    using pk_access_step_ok [of M n w "fst e" "snd e"] by (simp only: prod.collapse case_prod_beta) blast
qed

interpretation env_tracker: persistency "\<lambda>(en, a). access_step en a" "\<lambda>n w. 0 < L \<and> tool_inv L M n w" tool_view
    "\<lambda>(en, a). access_acts M a" "\<lambda>(en, a). access_ok L a"
  for L M
proof
  fix n w and e :: "env \<times> access" assume "0 < L \<and> tool_inv L M (Suc n) w" "case e of (en, a) \<Rightarrow> access_ok L a"
  then show "\<exists>s'. (case e of (en, a) \<Rightarrow> access_step en a) w = Inr s' \<and> (0 < L \<and> tool_inv L M n s') \<and>
      tool_view s' = fold act (case e of (en, a) \<Rightarrow> access_acts M a) (tool_view w)"
    using access_step_ok [of L M n w "snd e" "fst e"] by (auto split: prod.splits)
qed

end
