(* ===== verification/Pmemcheck_Session.thy ===== *)
theory Pmemcheck_Session
  imports Pmemcheck_Persist PMC_Exit_Laws
begin

text \<open>
  Whole sessions of \<open>pmemcheck\<close>: initialisation, mappings, accesses, the report and the exit; and the same session under
  both tools.
\<close>

section \<open>Start\<close>

fun pk_map_step :: "uword \<times> uword \<Rightarrow> pk_ops \<times> transaction_ops \<Rightarrow> (pk_ops \<times> transaction_ops) res" where
  "pk_map_step (a, k) (p, t) = rbind (pk_register_mapping a k p) (\<lambda>p'. Inr (p', t))"

definition pk_reg_room :: "nat \<Rightarrow> options \<Rightarrow> bool" where
  "pk_reg_room n op \<longleftrightarrow> n \<le> MAX_OOT_STORES \<and> (op_check_flush op \<longrightarrow> 2 * n * n \<le> MAX_FLUSH_ERROR_EVENTS)"

lemma pk_init_inv:
  assumes "pk_plain op" "pk_reg_room n op"
  shows "pk_inv {} n (pk_post_clo_init en False op)" "pk_view (fst (pk_post_clo_init en False op)) = all_durable"
proof -
  let ?w = "pk_post_clo_init en False op"
  have p: "elems (pk_stores (fst ?w)) = []" "elems (pk_mappings (fst ?w)) = []" "regions_ok (pk_stores (fst ?w))" "regions_ok (pk_mappings (fst ?w))"
    "pk_redundant_flushes (fst ?w) = []" "pk_superfluous_flushes (fst ?w) = []" "op_check_flush (pk_opts (fst ?w)) = op_check_flush op"
    "pk_plain (pk_opts (fst ?w))"
    using assms(1) by (simp_all add: pk_post_clo_init_def oset_inv_Create pk_plain_def)
  have t: "trans_inv n (snd ?w)"
    using init_tx_wf assms(2) by (simp add: trans_inv_def pk_post_clo_init_def pk_reg_room_def) (simp add: init_transactions_def)
  have "2 * n < OSET_ITER_MAX" using assms(2) by (simp add: pk_reg_room_def OSET_ITER_MAX_def MAX_OOT_STORES_def)
  moreover have "pk_warn_room n (fst ?w)"
    using assms(2) p by (auto simp: pk_warn_room_def pk_reg_room_def MAX_FLUSH_ERROR_EVENTS_def MAX_OOT_STORES_def algebra_simps)
  ultimately show "pk_inv {} n ?w"
    using p t unfolding pk_inv_def by (simp add: case_prod_beta pk_ok_def all_traced_def in_state_def)
  show "pk_view (fst ?w) = all_durable" using p(1) by (simp add: pk_view_def entries_view_def in_state_def all_durable_def)
qed

lemma pk_map_step_inv:
  assumes "pk_inv M n w" "rok (mk_region a k)"
  shows "\<exists>w'. pk_map_step (a, k) w = Inr w' \<and> pk_inv (M \<union> bytes (mk_region a k)) n w' \<and> pk_view (fst w') = pk_view (fst w)"
proof -
  obtain p t where w: "w = (p, t)" by (cases w)
  have m: "regions_ok (pk_mappings p)" "region_bytes (pk_mappings p) = M" using assms(1) w by (simp_all add: pk_inv_def pk_ok_def)
  obtain s where s: "add_region (mk_region a k) (pk_mappings p) = Inr s" "regions_ok s" "region_bytes s = M \<union> bytes (mk_region a k)"
    using add_region_spec [OF m(1) assms(2)] m(2) by auto
  then have "pk_map_step (a, k) w = Inr (p\<lparr>pk_mappings := s\<rparr>, t)"
    using w pk_add_region_eq [OF m(1) assms(2)] by (simp add: pk_register_mapping_def)
  then show ?thesis using assms(1) w s(2,3) by (auto simp: pk_inv_def pk_ok_def pk_view_def pk_warn_room_def)
qed

lemma pk_map_steps_inv:
  assumes "pk_inv M n w" "\<forall>(a, k) \<in> set ms. rok (mk_region a k)"
  shows "\<exists>w'. foldM pk_map_step ms w = Inr w' \<and> pk_inv (M \<union> all_mapped ms) n w' \<and> pk_view (fst w') = pk_view (fst w)"
  using assms
proof (induction ms arbitrary: w M)
  case Nil
  then show ?case by (simp add: all_mapped_def)
next
  case (Cons m ms)
  obtain a k where m: "m = (a, k)" by (cases m)
  obtain w1 where w1: "pk_map_step m w = Inr w1" "pk_inv (M \<union> bytes (mk_region a k)) n w1" "pk_view (fst w1) = pk_view (fst w)"
    using pk_map_step_inv [OF Cons.prems(1), of a k] Cons.prems(2) m by auto
  have "M \<union> bytes (mk_region a k) \<union> all_mapped ms = M \<union> all_mapped (m # ms)" by (auto simp: all_mapped_def m)
  then show ?case using Cons.IH [OF w1(2)] Cons.prems(2) w1(1,3) by simp
qed

section \<open>Report\<close>

lemma card_set_bytes: "disjoint_list es \<Longrightarrow> card (set_bytes es) = sum_list (map sz es)"
proof (induction es)
  case Nil
  then show ?case by simp
next
  case (Cons e es)
  then have d: "disjoint_list es" "\<forall>x \<in> set es. hi e \<le> lo x" by (simp_all add: disjoint_list_def)
  then have "bytes e \<inter> set_bytes es = {}" by (force simp: set_bytes_def bytes_def)
  moreover have "finite (set_bytes es)" "card (bytes e) = sz e" by (simp_all add: set_bytes_def bytes_def hi_def)
  ultimately show ?case using Cons.IH [OF d(1)] by (simp add: card_Un_disjoint bytes_def)
qed

lemma total_size: "sum_list (map st_size es) = of_nat (sum_list (map sz es))"
  by (induction es) (simp_all add: sz_def)

text \<open>What the report prints on the entries \<open>es\<close>, whose bytes are \<open>B\<close>.\<close>

definition report_on :: "pmem_st list \<Rightarrow> nat set \<Rightarrow> out list" where
  "report_on es B = Umsg ''Number of stores not made persistent: %u'' [of_nat (length es)] #
     (if B = {} then []
      else Umsg ''Stores not made persistent properly:'' [] # pk_numbered print_store_line es @
        [Umsg ''Total memory not made persistent: %lu'' [of_nat (card B)]])"

lemma pk_lost_bytes:
  assumes "pk_inv M n w"
  shows "not_durable (pk_view (fst w)) = region_bytes (pk_stores (fst w))"
proof -
  have ok: "regions_ok (pk_stores (fst w))" "in_state STST_CLEAN (elems (pk_stores (fst w))) = {}"
    using assms by (auto simp: pk_inv_def pk_ok_def)
  have "b \<in> region_bytes (pk_stores (fst w)) \<longleftrightarrow> (\<exists>x. b \<in> in_state x (elems (pk_stores (fst w))))" for b
    by (auto simp: set_bytes_def in_state_mem)
  then have "b \<in> region_bytes (pk_stores (fst w)) \<longleftrightarrow> b \<in> not_durable (pk_view (fst w))" for b
    using ok(2) unfolding pk_view_states [OF ok(1)] not_durable_def by (metis (full_types) Un_iff durability.select_convs empty_iff store_state.exhaust)
  then show ?thesis by blast
qed

lemma pk_print_store_stats_spec:
  assumes inv: "pk_inv M n (p, t)"
  shows "pk_print_store_stats p = Inr (pk_log (report_on (elems (pk_stores p)) (region_bytes (pk_stores p))) p)"
proof -
  let ?es = "elems (pk_stores p)"
  have ok: "regions_ok (pk_stores p)" and len: "length ?es < OSET_ITER_MAX" using inv by (simp_all add: pk_inv_def pk_ok_def)
  have "lo e \<in> bytes e" if "e \<in> set ?es" for e using regions_rok [OF ok that] by (simp add: rok_def bytes_def hi_def)
  then have "region_bytes (pk_stores p) = {} \<longleftrightarrow> ?es = []" by (cases ?es) (auto simp: set_bytes_def)
  moreover have "sum_list (map st_size ?es) = of_nat (card (region_bytes (pk_stores p)))"
    unfolding card_set_bytes [OF regions_okD [OF ok]] by (rule total_size)
  ultimately show ?thesis
    using Size_correct [OF ok] os_iter_correct [OF ok len] by (simp add: pk_print_store_stats_def Let_def report_on_def pk_log_def)
qed

lemma pk_fini_ok:
  assumes "pk_inv M n w"
  shows "\<exists>w'. pk_fini w = Inr w'"
proof -
  obtain p t where w: "w = (p, t)" by (cases w)
  define p1 where "p1 = (if op_log_stores (pk_opts p) then pk_log [Emit ''|STOP'' []] p else p)"
  have "pk_inv M n (p1, t)" using assms w by (simp add: p1_def pk_inv_def pk_ok_def pk_warn_room_def pk_log_def)
  note st = pk_print_store_stats_spec [OF this]
  have "trans_inv n t" using assms w by (simp add: pk_inv_def)
  then obtain ms where ms: "print_tx_summary t = Inr ms" using print_tx_summary_ok [of t 0] by (auto simp: trans_inv_def)
  have "\<exists>p2. pk_print_pmem_stats False t p1 = Inr p2" using st ms by (simp add: pk_print_pmem_stats_def)
  then show ?thesis unfolding w pk_fini_def Let_def prod.case p1_def [symmetric] by auto
qed

lemma pk_final_report:
  assumes "pk_inv M n w" "not_durable (pk_view (fst w)) = B"
  shows "region_bytes (pk_stores (fst w)) = B \<and>
    pk_print_store_stats (fst w) = Inr (pk_log (report_on (elems (pk_stores (fst w))) B) (fst w)) \<and> (\<exists>w'. pk_fini w = Inr w')"
proof -
  have r: "region_bytes (pk_stores (fst w)) = B" using pk_lost_bytes [OF assms(1)] assms(2) by simp
  have "pk_inv M n (fst w, snd w)" using assms(1) by simp
  note pk_print_store_stats_spec [OF this, unfolded r]
  then show ?thesis using r pk_fini_ok [OF assms(1)] by blast
qed

section \<open>Sessions\<close>

lemma pk_session_start:
  assumes "pk_plain op" "pk_reg_room n op" "\<forall>(a, k) \<in> set ms. rok (mk_region a k)"
  shows "\<exists>w. foldM pk_map_step ms (pk_post_clo_init en False op) = Inr w \<and> pk_inv (all_mapped ms) n w \<and> pk_view (fst w) = all_durable"
  using pk_map_steps_inv [OF pk_init_inv(1) [OF assms(1,2), of en] assms(3)] pk_init_inv(2) [OF assms(1,2), of en] by simp

theorem pk_session_spec:
  assumes op: "pk_plain op" "pk_reg_room (length es) op" and maps: "\<forall>(a, k) \<in> set ms. rok (mk_region a k)"
    and ok: "\<forall>e \<in> set es. pk_access_ok e" and B: "B = {b. lost b (concat (map (\<lambda>(en, a). access_acts (all_mapped ms) a) es))}"
  shows "\<exists>w w'. foldM pk_map_step ms (pk_post_clo_init en False op) = Inr w \<and> foldM pk_access_step es w = Inr w' \<and>
    region_bytes (pk_stores (fst w')) = B \<and>
    pk_print_store_stats (fst w') = Inr (pk_log (report_on (elems (pk_stores (fst w'))) B) (fst w')) \<and> (\<exists>w''. pk_fini w' = Inr w'')"
proof -
  obtain w where w: "foldM pk_map_step ms (pk_post_clo_init en False op) = Inr w" "pk_inv (all_mapped ms) (length es) w"
    "pk_view (fst w) = all_durable" using pk_session_start [OF op maps, of en] by blast
  then obtain w' where w': "foldM pk_access_step es w = Inr w'" "pk_inv (all_mapped ms) 0 w'" "not_durable (pk_view (fst w')) = B"
    using pk_tracker.run_lost [of "all_mapped ms" es 0 w] ok B by auto
  from pk_final_report [OF w'(2,3)] show ?thesis using w(1) w'(1) by blast
qed

text \<open>The same session under both tools.\<close>

theorem tools_agree_spec:
  assumes op: "plain op" "reg_room (length es) op" "pk_plain op'" "pk_reg_room (length es) op'"
    and maps: "\<forall>(a, k) \<in> set ms. rok (mk_region a k)" and L: "0 < L" and ok: "\<forall>(en, a) \<in> set es. access_ok L a \<and> pk_access_ok (en, a)"
  shows "\<exists>w w' k k'. foldM (map_step en) ms (pmc_post_clo_init en False op) = Inr w \<and> foldM (\<lambda>(en, a). access_step en a) es w = Inr w' \<and>
    foldM pk_map_step ms (pk_post_clo_init en False op') = Inr k \<and> foldM pk_access_step es k = Inr k' \<and>
    set_bytes (out_entries (tl_pmem w')) = region_bytes (pk_stores (fst k')) \<and>
    in_state STST_DIRTY (out_entries (tl_pmem w')) = in_state STST_DIRTY (elems (pk_stores (fst k')))"
proof -
  let ?M = "all_mapped ms" and ?acts = "concat (map (\<lambda>(en, a). access_acts (all_mapped ms) a) es)"
  obtain w where w: "foldM (map_step en) ms (pmc_post_clo_init en False op) = Inr w" "tool_inv L ?M (length es) w" "tool_view w = all_durable"
    using session_start [OF op(1,2) maps, of en L] by blast
  then obtain w' where w': "foldM (\<lambda>(en, a). access_step en a) es w = Inr w'" "tool_inv L ?M 0 w'" "tool_view w' = fold act ?acts all_durable"
    using env_tracker.run_refines [of L ?M es 0 w] L ok by fastforce
  obtain k where k: "foldM pk_map_step ms (pk_post_clo_init en False op') = Inr k" "pk_inv ?M (length es) k" "pk_view (fst k) = all_durable"
    using pk_session_start [OF op(3,4) maps, of en] by blast
  then obtain k' where k': "foldM pk_access_step es k = Inr k'" "pk_inv ?M 0 k'" "pk_view (fst k') = fold act ?acts all_durable"
    using pk_tracker.run_refines [of ?M es 0 k] ok by fastforce
  have v: "tool_view w' = pk_view (fst k')" using w'(3) k'(3) by simp
  have "set_bytes (out_entries (tl_pmem w')) = not_durable (tool_view w')"
    using not_durable_bytes [of "tl_pmem w'"] w'(2) by (simp add: tool_view_def tool_inv_def store_inv_def)
  then have "set_bytes (out_entries (tl_pmem w')) = region_bytes (pk_stores (fst k'))" using v pk_lost_bytes [OF k'(2)] by simp
  moreover have "in_state STST_DIRTY (out_entries (tl_pmem w')) = in_state STST_DIRTY (elems (pk_stores (fst k')))"
    using v by (simp add: tool_view_def pk_view_def entries_view_def)
  ultimately show ?thesis using w(1) w'(1) k(1) k'(1) by blast
qed

text \<open>The options before the command line is read allow sessions of up to 10000 accesses.\<close>

lemma pk_default: "pk_plain pmc_pre_clo_init" "n \<le> 10000 \<Longrightarrow> pk_reg_room n pmc_pre_clo_init"
  by (simp_all add: pk_plain_def pk_reg_room_def pmc_pre_clo_init_def MAX_OOT_STORES_def)

end
