(* ===== verification/Pmemcheck_Properties.thy ===== *)
theory Pmemcheck_Properties
  imports PMC_Examples Pmemcheck_Session "HOL-Library.Code_Target_Nat"
begin

text \<open>
  The properties of \<open>pmemcheck\<close>: what a whole session reports, its agreement with PMDebugger on sessions that keep to
  cache lines, the exact effect of a flush and the detection of overwritten stores.  The last section holds runs of the
  model on which the code does not do what it means to.
\<close>

section \<open>Concrete states\<close>

text \<open>\<open>pk_started\<close>: a page is mapped; \<open>pk_one\<close>: a store that crosses a cache line is outstanding.\<close>

definition pk_started :: "pk_ops \<times> transaction_ops" where
  "pk_started = (case pk_map_step (4096, 4096) (pk_post_clo_init host False pmc_pre_clo_init) of Inr w \<Rightarrow> w
     | Inl e \<Rightarrow> pk_post_clo_init host False pmc_pre_clo_init)"

definition pk_one :: "pk_ops \<times> transaction_ops" where
  "pk_one = (case pk_access_step (host, Store 4156 8 1) pk_started of Inr w \<Rightarrow> w | Inl e \<Rightarrow> pk_started)"

lemma host_traced [simp]: "traced (en_context host)"
  by (simp add: traced_def host_def)

lemma pk_started_inv:
  "n \<le> 10000 \<Longrightarrow> pk_inv {4096..<8192} n pk_started" "pk_view (fst pk_started) = all_durable"
proof -
  have "\<exists>w. pk_map_step (4096, 4096) (pk_post_clo_init host False pmc_pre_clo_init) = Inr w \<and> pk_inv {4096..<8192} n w \<and> pk_view (fst w) = all_durable"
    if "n \<le> 10000" for n
    using pk_map_step_inv [OF pk_init_inv(1) [OF pk_default(1) pk_default(2) [OF that], of host] rok_page]
      pk_init_inv(2) [OF pk_default(1) pk_default(2) [OF that], of host] by simp
  note start = this
  show "n \<le> 10000 \<Longrightarrow> pk_inv {4096..<8192} n pk_started" using start [of n] by (auto simp: pk_started_def)
  show "pk_view (fst pk_started) = all_durable" using start [of 0] by (auto simp: pk_started_def)
qed

lemma pk_one_inv:
  "pk_inv {4096..<8192} 9999 pk_one" "pk_view (fst pk_one) = \<lparr>du_dirty = {4156..<4164}, du_flushed = {}\<rparr>"
proof -
  have "\<exists>w. pk_access_step (host, Store 4156 8 1) pk_started = Inr w \<and> pk_inv {4096..<8192} 9999 w \<and>
      pk_view (fst w) = fold act (access_acts {4096..<8192} (Store 4156 8 1)) (pk_view (fst pk_started)) \<and>
      pk_opts (fst w) = pk_opts (fst pk_started)"
    using pk_started_inv(1) [of "Suc 9999"] by (intro pk_store_step) (simp_all add: rok_def)
  then show "pk_inv {4096..<8192} 9999 pk_one" "pk_view (fst pk_one) = \<lparr>du_dirty = {4156..<4164}, du_flushed = {}\<rparr>"
    by (auto simp: pk_one_def pk_started_inv(2) all_durable_def)
qed

lemma pk_one_entries:
  "map (\<lambda>e. (st_addr e, st_size e, st_state e)) (inorder (os_root (pk_stores (fst pk_one)))) = [(4156, 8, STST_DIRTY)]"
  "pk_multiple_stores (fst pk_one) = []"
  by code_simp+

section \<open>Sessions\<close>

text \<open>C3.  A session of \<open>pmemcheck\<close> in the default mode: after initialisation, any number of registered mappings and any
  sequence of stores, flushes and fences (stores may cross cache lines, flushes may cover parts of stores), the tool
  has not failed, its entries cover exactly the bytes \<open>B\<close> whose last store is not followed by a flush and a later fence, the
  report prints them and as their total the number of bytes of \<open>B\<close>, and the tool exits without failing.\<close>

theorem pk_session_exact:
  assumes "pk_plain op" "pk_reg_room (length es) op" "\<forall>(a, k) \<in> set ms. rok (mk_region a k)" "\<forall>e \<in> set es. pk_access_ok e"
    and "B = {b. lost b (concat (map (\<lambda>(en, a). access_acts (all_mapped ms) a) es))}"
  shows "\<exists>w w'. foldM pk_map_step ms (pk_post_clo_init en False op) = Inr w \<and> foldM pk_access_step es w = Inr w' \<and>
    region_bytes (pk_stores (fst w')) = B \<and>
    pk_print_store_stats (fst w') = Inr (pk_log (report_on (elems (pk_stores (fst w'))) B) (fst w')) \<and> (\<exists>w''. pk_fini w' = Inr w'')"
  by (rule pk_session_spec [OF assms])

theorem pk_session_exact_witness:
  "\<exists>w w'. foldM pk_map_step [(4096, 4096)] (pk_post_clo_init host False pmc_pre_clo_init) = Inr w \<and>
    foldM pk_access_step [(host, Store 4156 8 1), (host, Flush 4096 64), (host, Fence)] w = Inr w' \<and>
    region_bytes (pk_stores (fst w')) = {4160..<4164} \<and>
    pk_print_store_stats (fst w') = Inr (pk_log (report_on (elems (pk_stores (fst w'))) {4160..<4164}) (fst w')) \<and>
    (\<exists>w''. pk_fini w' = Inr w'')"
proof -
  let ?es = "[(host, Store 4156 8 1), (host, Flush 4096 64), (host, Fence)]"
  have m: "all_mapped [(4096, 4096)] = {4096..<8192}" by (simp add: all_mapped_def)
  have lost: "{4160..<4164} = {b. lost b (concat (map (\<lambda>(en, a). access_acts (all_mapped [(4096, 4096)]) a) ?es))}"
    unfolding m by auto
  have ok: "\<forall>e \<in> set ?es. pk_access_ok e" by (simp add: rok_def rkey_def)
  show ?thesis
    using pk_session_exact [OF pk_default(1) pk_default(2) _ ok lost, of host] by simp
qed

text \<open>C5.  The two tools agree: on a session whose stores stay within cache lines and whose flushes cover whole lines,
  PMDebugger, with its array of recent stores and its tree, and \<open>pmemcheck\<close>, with its one set of disjoint merged
  stores, end with entries that cover the same bytes, and with the same bytes dirty.\<close>

theorem tools_agree:
  assumes "plain op" "reg_room (length es) op" "pk_plain op'" "pk_reg_room (length es) op'"
    and "\<forall>(a, k) \<in> set ms. rok (mk_region a k)" "0 < L" "\<forall>(en, a) \<in> set es. access_ok L a \<and> pk_access_ok (en, a)"
  shows "\<exists>w w' k k'. foldM (map_step en) ms (pmc_post_clo_init en False op) = Inr w \<and> foldM (\<lambda>(en, a). access_step en a) es w = Inr w' \<and>
    foldM pk_map_step ms (pk_post_clo_init en False op') = Inr k \<and> foldM pk_access_step es k = Inr k' \<and>
    set_bytes (out_entries (tl_pmem w')) = region_bytes (pk_stores (fst k')) \<and>
    in_state STST_DIRTY (out_entries (tl_pmem w')) = in_state STST_DIRTY (elems (pk_stores (fst k')))"
  by (rule tools_agree_spec [OF assms])

theorem tools_agree_witness:
  "\<exists>w w' k k'. foldM (map_step host) [(4096, 4096)] (pmc_post_clo_init host False pmc_pre_clo_init) = Inr w \<and>
    foldM (\<lambda>(en, a). access_step en a) [(host, Store 4160 8 1), (host, Store 4164 8 2), (host, Flush 4160 64), (host, Store 4160 4 3)] w = Inr w' \<and>
    foldM pk_map_step [(4096, 4096)] (pk_post_clo_init host False pmc_pre_clo_init) = Inr k \<and>
    foldM pk_access_step [(host, Store 4160 8 1), (host, Store 4164 8 2), (host, Flush 4160 64), (host, Store 4160 4 3)] k = Inr k' \<and>
    set_bytes (out_entries (tl_pmem w')) = region_bytes (pk_stores (fst k')) \<and>
    in_state STST_DIRTY (out_entries (tl_pmem w')) = in_state STST_DIRTY (elems (pk_stores (fst k')))"
proof -
  let ?es = "[(host, Store 4160 8 1), (host, Store 4164 8 2), (host, Flush 4160 64), (host, Store 4160 4 3)]"
  have ok: "\<forall>(en, a) \<in> set ?es. access_ok 64 a \<and> pk_access_ok (en, a)"
    by (simp add: rok_def rkey_def fits_def in_line_def whole_lines_def)
  show ?thesis
    using tools_agree [OF plain_default(1) plain_default(2) pk_default(1) pk_default(2) _ _ ok, of "[(4096, 4096)]" host] by simp
qed

section \<open>Handlers\<close>

text \<open>C16.  \<open>do_flush\<close> of \<open>pmemcheck\<close> on any range: exactly the dirty bytes in the range become flushed, every byte keeps the
  context of its last store, and the other bytes keep their state; at most two entries are added.  With \<open>--flush-check\<close>
  the entries registered as flushed twice are those that are not dirty and, for an entry that begins before the
  range and ends in it, the part that was flushed just now; a flush that touches no entry is superfluous.\<close>

theorem pk_do_flush_exact:
  assumes "regions_ok (pk_stores p)" "fi = pk_flush_range base sze p" "rkey fi"
    and "length (elems (pk_stores p)) + 2 < OSET_ITER_MAX" "pk_room (length (all_revisited fi (elems (pk_stores p)))) p"
    and "op_check_flush (pk_opts p) \<longrightarrow> length (pk_superfluous_flushes p) < MAX_FLUSH_ERROR_EVENTS"
  shows "\<exists>p'. pk_do_flush en base sze p = Inr p' \<and> regions_ok (pk_stores p') \<and>
    (\<forall>b. tags (elems (pk_stores p')) b = flush_tag fi b ` tags (elems (pk_stores p)) b) \<and>
    length (elems (pk_stores p')) \<le> length (elems (pk_stores p)) + 2 \<and>
    pk_redundant_flushes p' = pk_redundant_flushes p @ pk_warned p (all_revisited fi (elems (pk_stores p))) \<and>
    pk_superfluous_flushes p' = pk_superfluous_flushes p @ pk_warned p (superfluous en fi (elems (pk_stores p))) \<and>
    pk_mappings p' = pk_mappings p \<and> pk_opts p' = pk_opts p"
  by (rule pk_do_flush_spec [OF assms])

lemma pk_one_ready:
  "regions_ok (pk_stores (fst pk_one))" "length (elems (pk_stores (fst pk_one))) = 1" "\<not> op_force_flush_align (pk_opts (fst pk_one))"
  "\<not> op_check_flush (pk_opts (fst pk_one))"
proof -
  show "regions_ok (pk_stores (fst pk_one))" "\<not> op_force_flush_align (pk_opts (fst pk_one))"
    using pk_one_inv(1) by (simp_all add: pk_inv_def case_prod_beta pk_ok_def pk_plain_def)
  show "length (elems (pk_stores (fst pk_one))) = 1" using arg_cong [OF pk_one_entries(1), of length] by (simp add: elems_def)
  show "\<not> op_check_flush (pk_opts (fst pk_one))" by code_simp
qed

theorem pk_do_flush_exact_witness:
  "\<exists>p'. pk_do_flush host 4160 64 (fst pk_one) = Inr p' \<and> regions_ok (pk_stores p') \<and>
    in_state STST_DIRTY (elems (pk_stores p')) = {4156..<4160} \<and> in_state STST_FLUSHED (elems (pk_stores p')) = {4160..<4164} \<and>
    length (elems (pk_stores p')) \<le> 3"
proof -
  have fi: "mk_region 4160 64 = pk_flush_range 4160 64 (fst pk_one)" using pk_one_ready(3) by (simp add: pk_flush_range_def)
  have "rkey (mk_region 4160 64)" "pk_room n (fst pk_one)" for n using pk_one_ready(4) by (simp_all add: rkey_def pk_room_def)
  then obtain p' where p': "pk_do_flush host 4160 64 (fst pk_one) = Inr p'" "regions_ok (pk_stores p')"
    "\<forall>b. tags (elems (pk_stores p')) b = flush_tag (mk_region 4160 64) b ` tags (elems (pk_stores (fst pk_one))) b"
    "length (elems (pk_stores p')) \<le> 3"
    using pk_do_flush_exact [OF pk_one_ready(1) fi, of host] pk_one_ready(2,4) by (auto simp: OSET_ITER_MAX_def)
  have "in_state STST_DIRTY (elems (pk_stores (fst pk_one))) = {4156..<4164}" "in_state STST_FLUSHED (elems (pk_stores (fst pk_one))) = {}"
    using pk_one_inv(2) pk_view_states [OF pk_one_ready(1)] by simp_all
  then show ?thesis using p'(1,2,4) flush_in_state [OF p'(3)] by auto
qed

text \<open>C17.  With \<open>--mult-stores\<close> the detector of overwritten stores is exact, byte by byte: afterwards the bytes of the new
  store have its state and context and all others are as before, and the registered events name for every
  overwritten byte the context of the store that was overwritten, and no other byte; nothing is registered when the
  store repeats the last one within the indifference limit.\<close>

theorem pk_overwrites_exact:
  assumes "regions_ok (pk_stores p)" "rok r" "length (pk_multiple_stores p) + card (overlaps r (pk_stores p)) \<le> MAX_MULT_OVERWRITES"
  shows "\<exists>s' evs. pk_handle_with_mult_stores r p =
      Inr (p\<lparr>pk_multiple_stores := pk_multiple_stores p @ evs, pk_stores := s'\<rparr>) \<and> regions_ok s' \<and>
    (\<forall>b. tags (elems s') b = (if b \<in> bytes r then {(st_state r, st_context r)} else tags (elems (pk_stores p)) b)) \<and>
    (\<forall>b. writers evs b = (if b \<in> bytes r \<and> \<not> repeated r p (pk_stores p) then writers (elems (pk_stores p)) b else {}))"
  by (rule pk_handle_with_mult_stores_spec [OF assms])

theorem pk_overwrites_exact_witness:
  "\<exists>s' evs. pk_handle_with_mult_stores (mk_region 4160 16) (fst pk_one) =
      Inr ((fst pk_one)\<lparr>pk_multiple_stores := evs, pk_stores := s'\<rparr>) \<and> regions_ok s' \<and> {b. writers evs b \<noteq> {}} = {4160..<4164}"
proof -
  let ?r = "mk_region 4160 16" and ?s = "pk_stores (fst pk_one)"
  have "card (overlaps ?r ?s) \<le> 1" using card_overlaps [OF pk_one_ready(1), of ?r] Size_correct [OF pk_one_ready(1)] pk_one_ready(2) by simp
  then have room: "length (pk_multiple_stores (fst pk_one)) + card (overlaps ?r ?s) \<le> MAX_MULT_OVERWRITES"
    by (simp add: pk_one_entries(2) MAX_MULT_OVERWRITES_def)
  have "rok ?r" by (simp add: rok_def)
  then obtain s' evs where s': "pk_handle_with_mult_stores ?r (fst pk_one) = Inr ((fst pk_one)\<lparr>pk_multiple_stores := evs, pk_stores := s'\<rparr>)" "regions_ok s'"
    "\<forall>b. writers evs b = (if b \<in> bytes ?r \<and> \<not> repeated ?r (fst pk_one) ?s then writers (elems ?s) b else {})"
    using pk_overwrites_exact [OF pk_one_ready(1) _ room] by (auto simp: pk_one_entries(2))
  have b: "region_bytes ?s = {4156..<4164}" using pk_lost_bytes [OF pk_one_inv(1)] pk_one_inv(2) by (simp add: not_durable_def)
  have "\<not> repeated ?r (fst pk_one) ?s"
    using b pk_same_store_bytes [of ?r _ "fst pk_one"] by (fastforce simp: repeated_def set_bytes_def)
  then have "{b. writers evs b \<noteq> {}} = {4160..<4176} \<inter> region_bytes ?s" using s'(3) by (auto simp: writers_tags region_bytes_tags)
  then show ?thesis using s'(1,2) b by auto
qed

section \<open>Runs on which the code does not do what it means to\<close>

definition pk_after :: "access list \<Rightarrow> pk_ops \<times> transaction_ops \<Rightarrow> (pk_ops \<times> transaction_ops) res" where
  "pk_after as w = foldM pk_access_step (map (Pair host) as) w"

definition pk_left :: "pk_ops \<Rightarrow> (uword \<times> uword \<times> store_state) list" where
  "pk_left p = map (\<lambda>e. (st_addr e, st_size e, st_state e)) (inorder (os_root (pk_stores p)))"

text \<open>A store is flushed once, from its middle on, and the flush is registered as a second flush of its end: the
  iterator is put back on the entry that was just marked.\<close>

lemma pk_single_flush_redundant:
  "rbind (pk_after [Store 4156 8 1, Flush 4160 64] (apfst (\<lambda>p. p\<lparr>pk_opts := (pk_opts p)\<lparr>op_check_flush := True\<rparr>\<rparr>) pk_started))
     (\<lambda>(p, t). Inr (map (\<lambda>e. (st_addr e, st_size e)) (pk_redundant_flushes p))) = Inr [(4160, 4)]"
  by code_simp

text \<open>The request \<open>SET_CLEAN\<close> for the middle of a store leaves its end as a zeroed entry with an address and a
  size, which is neither dirty nor flushed: a flush and a fence do not drop it and it is reported.\<close>

lemma pk_clean_part_stays:
  "rbind (pk_after [Store 4160 24 1] pk_started) (\<lambda>(p, t). rbind (pk_set_clean 4168 8 p) (\<lambda>p'.
     rbind (pk_after [Flush 4160 64, Fence] (p', t)) (\<lambda>(p'', t'). Inr (pk_left p'')))) = Inr [(4176, 8, STST_CLEAN)]"
  by code_simp

text \<open>A store that is merged with its neighbour is checked against the transaction with the bytes of both: a store to an
  object of the transaction is recorded as out of transaction because its neighbour was stored to before.\<close>

lemma pk_merged_store_recorded:
  "rbind (pk_after [Store 4168 8 1] pk_started) (\<lambda>(p, t).
     rbind (register_new_tx host 5 t) (\<lambda>t1. rbind (add_obj_to_tx host 5 4160 8 (t1, 0)) (\<lambda>(r, t2, i).
     rbind (pk_after [Store 4160 8 2] (p, t2)) (\<lambda>(p', t3). Inr (map (\<lambda>e. (st_addr e, st_size e)) (tr_oot_stores t3)))))) = Inr [(4160, 16)]"
  by code_simp

text \<open>The session on which PMDebugger forgets a partial flush ends with nothing outstanding.\<close>

lemma pk_partial_flush_kept:
  "rbind (pk_after [Store 4156 8 1, Store 4296 8 1, Flush 4288 64, Flush 4096 64, Flush 4160 64, Fence] pk_started)
     (\<lambda>(p, t). Inr (pk_left p)) = Inr []"
  by code_simp

end
