(* ===== verification/Pmemcheck_Blocks.thy ===== *)
theory Pmemcheck_Blocks
  imports Pmemcheck_Session PMC_Session
begin

text \<open>
  Sessions of instrumented code under \<open>pmemcheck\<close>.  Its \<open>pmc_instrument\<close> and the helpers of it differ from
  those of PMDebugger in layout and comments only, so the blocks are instrumented by the same definition, and the
  calls they make go to the handlers of \<open>pmemcheck\<close>.
\<close>

section \<open>Calls\<close>

definition pk_on_flush :: "env \<Rightarrow> uword \<Rightarrow> pk_ops \<times> transaction_ops \<Rightarrow> (pk_ops \<times> transaction_ops) res" where
  "pk_on_flush en a w = rbind (pk_trace_pmem_flush en a (fst w)) (\<lambda>p. Inr (p, snd w))"

definition pk_on_fence :: "pk_ops \<times> transaction_ops \<Rightarrow> (pk_ops \<times> transaction_ops) res" where
  "pk_on_fence w = rbind (pk_do_fence (fst w)) (\<lambda>p. Inr (p, snd w))"

definition pk_on_sblock :: "pk_ops \<times> transaction_ops \<Rightarrow> (pk_ops \<times> transaction_ops) res" where
  "pk_on_sblock w = Inr (pk_add_one_SB_entered (fst w), snd w)"

definition pk_dispatch :: "env \<Rightarrow> call \<Rightarrow> pk_ops \<times> transaction_ops \<Rightarrow> (pk_ops \<times> transaction_ops) res" where
  "pk_dispatch en = route (pk_trace_pmem_store en) (pk_on_flush en) pk_on_fence pk_on_sblock"

lemma pk_inv_sblocks:
  assumes "pk_inv M n w"
  shows "pk_inv M n (pk_add_one_SB_entered (fst w), snd w) \<and> pk_view (pk_add_one_SB_entered (fst w)) = pk_view (fst w)"
  using assms by (auto simp: pk_inv_def pk_ok_def pk_warn_room_def pk_view_def pk_add_one_SB_entered_def)

lemma pk_dispatch_refines:
  assumes inv: "pk_inv M (length (call_accesses line c) + n) w" and line: "op_flush_align_size (pk_opts (fst w)) = line"
    and ok: "\<forall>e \<in> set (call_accesses line c). pk_access_ok (en, e)"
  shows "\<exists>w'. pk_dispatch en c w = Inr w' \<and> pk_inv M n w' \<and> op_flush_align_size (pk_opts (fst w')) = line \<and>
    pk_view (fst w') = fold act (concat (map (access_acts M) (call_accesses line c))) (pk_view (fst w))"
  unfolding pk_dispatch_def
proof (cases rule: route_cases [of line c "pk_trace_pmem_store en" "pk_on_flush en" pk_on_fence pk_on_sblock w])
  case (access e)
  have "(case e of Store a k v \<Rightarrow> pk_trace_pmem_store en a k v w | Flush a k \<Rightarrow> pk_on_flush en a w | Fence \<Rightarrow> pk_on_fence w) =
      pk_access_step (en, e) w"
    using access(2) line by (cases e) (simp_all add: pk_on_flush_def pk_on_fence_def pk_trace_pmem_flush_def)
  moreover have "pk_inv M (Suc n) w" "pk_access_ok (en, e)" using inv ok access(1) by simp_all
  ultimately show "\<exists>w'. route (pk_trace_pmem_store en) (pk_on_flush en) pk_on_fence pk_on_sblock c w = Inr w' \<and> pk_inv M n w' \<and>
      op_flush_align_size (pk_opts (fst w')) = line \<and>
      pk_view (fst w') = fold act (concat (map (access_acts M) (call_accesses line c))) (pk_view (fst w))"
    using pk_access_step_ok [of M n w en e] line access(1,3) by auto
qed (use pk_inv_sblocks [of M n w] inv line in \<open>simp_all add: pk_on_sblock_def pk_add_one_SB_entered_def\<close>)

interpretation pk_caller: call_tracker "pk_dispatch en" "\<lambda>n w. pk_inv M n w \<and> op_flush_align_size (pk_opts (fst w)) = line"
    "\<lambda>w. pk_view (fst w)" "access_acts M" "\<lambda>a. pk_access_ok (en, a)" line
  for en M line
proof
  fix c n w assume "pk_inv M (length (call_accesses line c) + n) w \<and> op_flush_align_size (pk_opts (fst w)) = line"
    and "\<forall>e \<in> set (call_accesses line c). pk_access_ok (en, e)"
  then show "\<exists>w'. pk_dispatch en c w = Inr w' \<and> (pk_inv M n w' \<and> op_flush_align_size (pk_opts (fst w')) = line) \<and>
      pk_view (fst w') = fold act (concat (map (access_acts M) (call_accesses line c))) (pk_view (fst w))"
    using pk_dispatch_refines [of M line c n w en] by blast
qed

section \<open>Sessions\<close>

lemma pk_map_steps_opts: "foldM pk_map_step ms w = Inr w' \<Longrightarrow> pk_opts (fst w') = pk_opts (fst w)"
proof (induction ms arbitrary: w)
  case (Cons m ms)
  obtain a k p t where m: "m = (a, k)" "w = (p, t)" by (cases m, cases w)
  obtain w1 where 1: "pk_map_step m w = Inr w1" "foldM pk_map_step ms w1 = Inr w'" using Cons.prems by (auto simp: rbind_eq_Inr)
  have "pk_opts (fst w1) = pk_opts (fst w)" using 1(1) by (auto simp: m pk_register_mapping_def rbind_eq_Inr)
  then show ?case using Cons.IH [OF 1(2)] by simp
qed simp

lemma pk_init_opts: "pk_opts (fst (pk_post_clo_init en v op)) = op\<lparr>op_flush_align_size := en_cache_line_size en\<rparr>"
  by (simp add: pk_post_clo_init_def)

theorem pk_instrumented_session_spec:
  fixes en op runs ms
  defines "opts \<equiv> pk_opts (fst (pk_post_clo_init en False op))"
  defines "es \<equiv> runs_accesses (en_cache_line_size en) opts runs"
  assumes op: "pk_plain op" "pk_reg_room (length es) op" and maps: "\<forall>(a, k) \<in> set ms. rok (mk_region a k)"
    and ok: "\<forall>e \<in> set es. pk_access_ok (en, e)" and good: "\<forall>r \<in> set runs. good_run opts r"
    and B: "B = {b. lost b (concat (map (access_acts (all_mapped ms)) es))}"
  shows "\<exists>w w'. foldM pk_map_step ms (pk_post_clo_init en False op) = Inr w \<and> foldM (run_with (pk_dispatch en) opts) runs w = Inr w' \<and>
    region_bytes (pk_stores (fst w')) = B \<and>
    pk_print_store_stats (fst w') = Inr (pk_log (report_on (elems (pk_stores (fst w'))) B) (fst w')) \<and> (\<exists>w''. pk_fini w' = Inr w'')"
proof -
  obtain w where w: "foldM pk_map_step ms (pk_post_clo_init en False op) = Inr w" "pk_inv (all_mapped ms) (length es) w"
    "pk_view (fst w) = all_durable" using pk_session_start [OF op maps, of en] by blast
  have line: "op_flush_align_size (pk_opts (fst w)) = en_cache_line_size en" using pk_map_steps_opts [OF w(1)] by (simp add: pk_init_opts)
  obtain w' where w': "foldM (run_with (pk_dispatch en) opts) runs w = Inr w'" "pk_inv (all_mapped ms) 0 w'"
    "pk_view (fst w') = fold act (concat (map (access_acts (all_mapped ms)) es)) (pk_view (fst w))"
    using pk_caller.blocks_refine [of "all_mapped ms" "en_cache_line_size en" opts runs 0 w en] line w(2) ok good by (auto simp: es_def)
  have "not_durable (pk_view (fst w')) = B" using w'(3) w(3) B by (auto simp: not_durable_history all_durable_def)
  from pk_final_report [OF w'(2) this] show ?thesis using w(1) w'(1) by blast
qed

end
