(* ===== verification/Pmemcheck_Block_Properties.thy ===== *)
theory Pmemcheck_Block_Properties
  imports PMC_Block_Examples Pmemcheck_Blocks
begin

text \<open>
  What a session of instrumented code reports under \<open>pmemcheck\<close>, whose instrumentation is that of PMDebugger.
\<close>

text \<open>C4.  A session of instrumented code under \<open>pmemcheck\<close>: blocks that pass the checker are instrumented and run, and the
  calls they make go to the handlers.  The reference is what the client's code itself does to memory (\<open>runs_effects\<close>).
  Where every executed statement is one that the tool can see (\<open>block_seen\<close>: a traced type of data, no failing
  store-conditional, no helper that writes to memory), flushed addresses start a line and no store crosses the border of
  the mappings, the tool does not fail, its entries cover exactly the mapped bytes whose last write is not followed by a
  write-back and a later fence, the report prints them with the number of these bytes, and the tool exits without failing.
  Stores may cross cache lines.\<close>

theorem pk_instrumented_session_exact:
  fixes en op runs ms
  defines "opts \<equiv> pk_opts (fst (pk_post_clo_init en False op))"
  defines "es \<equiv> runs_accesses (en_cache_line_size en) opts runs"
  defines "L \<equiv> unat (en_cache_line_size en)"
  defines "B \<equiv> {b. lost b (concat (map (effect_acts (all_mapped ms) L) (runs_effects (op_weak_clflush op) runs)))}"
  assumes "pk_plain op" "pk_reg_room (length es) op" "\<forall>(a, k) \<in> set ms. rok (mk_region a k)" "0 < L"
    and "\<forall>e \<in> set es. pk_access_ok (en, e)" "\<forall>e \<in> set es. on_lines (all_mapped ms) L e"
    and "\<forall>r \<in> set runs. good_run opts r" "\<forall>(bb, \<rho>) \<in> set runs. block_seen opts bb \<rho>"
  shows "\<exists>w w'. foldM pk_map_step ms (pk_post_clo_init en False op) = Inr w \<and> foldM (run_with (pk_dispatch en) opts) runs w = Inr w' \<and>
    region_bytes (pk_stores (fst w')) = B \<and>
    pk_print_store_stats (fst w') = Inr (pk_log (report_on (elems (pk_stores (fst w'))) B) (fst w')) \<and> (\<exists>w''. pk_fini w' = Inr w'')"
proof -
  have weak: "op_weak_clflush opts = op_weak_clflush op" by (simp add: opts_def pk_init_opts)
  have "B = {b. lost b (concat (map (access_acts (all_mapped ms)) es))}"
    using lost_client [OF assms(12) assms(10) [unfolded es_def] assms(8)] by (simp add: es_def B_def weak)
  then show ?thesis
    using pk_instrumented_session_spec [OF assms(5,6) [unfolded es_def opts_def] assms(7) assms(9,11) [unfolded es_def opts_def]]
    unfolding es_def opts_def by simp
qed

theorem pk_instrumented_session_exact_witness:
  "\<exists>w w'. foldM pk_map_step [(4096, 4096)] (pk_post_clo_init host False pmc_pre_clo_init) = Inr w \<and>
    foldM (run_with (pk_dispatch host) (pk_opts (fst (pk_post_clo_init host False pmc_pre_clo_init))))
      [(swapper, swapper_run), (writer, writer_run)] w = Inr w' \<and>
    region_bytes (pk_stores (fst w')) = {4224} \<and> (\<exists>w''. pk_fini w' = Inr w'')"
proof -
  let ?runs = "[(swapper, swapper_run), (writer, writer_run)]" and ?opts = "pk_opts (fst (pk_post_clo_init host False pmc_pre_clo_init))"
  let ?es = "[Store 4160 8 4160, Store 4160 8 5, Store 4168 8 3, Store 4224 1 9, Flush 4160 64, Fence]"
  have isa: "op_automatic_isa_rec ?opts" by (simp add: pk_init_opts pmc_pre_clo_init_def)
  have es: "runs_accesses 64 ?opts ?runs = ?es" using isa by (simp add: runs_accesses_def example_accesses)
  have m: "all_mapped [(4096, 4096)] = {4096..<8192}" by (simp add: all_mapped_def)
  have ok: "\<forall>e \<in> set ?es. pk_access_ok (host, e)" by (simp add: rok_def rkey_def traced_def host_def)
  have lines: "\<forall>e \<in> set ?es. on_lines {4096..<8192} 64 e" by (auto simp: bytes_def lo_def hi_def sz_def)
  have good: "\<forall>r \<in> set ?runs. good_run ?opts r" using swapper_good writer_good [OF isa] by simp
  have seen: "\<forall>(bb, \<rho>) \<in> set ?runs. block_seen ?opts bb \<rho>" using example_seen isa by simp
  have lost: "lost b (concat (map (effect_acts {4096..<8192} 64) (runs_effects (op_weak_clflush pmc_pre_clo_init) ?runs))) \<longleftrightarrow> b = 4224" for b
    using example_lost by blast
  show ?thesis
    using pk_instrumented_session_exact [of pmc_pre_clo_init host ?runs "[(4096, 4096)]", unfolded host_line] ok lines good seen
    unfolding es m by (auto simp: pk_default lost)
qed

end
