(* ===== verification/Tx_Properties.thy ===== *)
theory Tx_Properties
  imports PMC_Examples
begin

text \<open>
  The properties of the transaction module: which stores are reported as made outside of a transaction, how
  transactions start, grow, shrink and end, and what a thread that joins or leaves one changes.
\<close>

section \<open>Stores\<close>

text \<open>C18.  \<open>handle_tx_store\<close> records a store if and only if the excluded regions do not cover it and, when the running
  thread takes part in transactions, none of them tracks all its bytes, or, when it takes part in none, the option
  \<open>--tx-only\<close> is given; nothing else that is observable changes.\<close>

theorem handle_tx_store_exact:
  assumes "tx_wf t" "rkey store" "\<not> tr_verbose t" "tx_room n t" "length (tr_oot_stores t) < MAX_OOT_STORES"
  shows "\<exists>t'. handle_tx_store en store t = Inr t' \<and> tx_wf t' \<and> tx_same t t' \<and> tx_room n t' \<and>
    tr_oot_stores t' = tr_oot_stores t @ (if out_of_tx t (en_tid en) store then [store] else [])"
  by (rule handle_tx_store_ok [OF assms])

theorem handle_tx_store_exact_witness:
  "\<exists>t'. handle_tx_store host (mk_region 4160 8) open_tx = Inr t' \<and> tr_oot_stores t' = [mk_region 4160 8]"
proof -
  have "out_of_tx open_tx 1 (mk_region 4160 8)"
  proof -
    have "1 \<in> dom (the_thread open_tx)" using open_tx_ok(6) by simp
    then obtain th where th: "the_thread open_tx 1 = Some th" by auto
    have "set (elems (th_tx_ids th)) = tids open_tx 1" by (simp add: tids_def th)
    then have "set (elems (th_tx_ids th)) = {5}" by (simp add: open_tx_ok(5))
    moreover have "\<not> covers open_tx (mk_region 4160 8) 5" by (simp add: covers_def open_tx_ok(4))
    ultimately show ?thesis using th by (simp add: out_of_tx_def set_bytes_def open_tx_sel(5))
  qed
  moreover have "rkey (mk_region 4160 8)" by (simp add: rkey_def)
  moreover have "length (tr_oot_stores open_tx) < MAX_OOT_STORES" by (simp add: open_tx_sel(1) MAX_OOT_STORES_def)
  ultimately show ?thesis
    using handle_tx_store_exact [OF open_tx_ok(1) _ open_tx_sel(4) open_tx_ok(2), of "mk_region 4160 8" host] open_tx_sel(1)
    by (auto simp: host_def)
qed

text \<open>C19.  \<open>is_store_in_tx\<close> answers whether all bytes of a store are tracked by a transaction, whether the cached
  region or the tree of regions holds them, and the moves of the cache to the tree that it makes cannot be
  observed.\<close>

theorem is_store_in_tx_exact:
  assumes "tx_wf t" "the_tx t i = Some tx" "rkey store"
  shows "\<exists>t'. is_store_in_tx store i t = Inr (bytes store \<subseteq> tx_bytes tx, t') \<and> tx_wf t' \<and> tx_same t t' \<and>
    tr_oot_stores t' = tr_oot_stores t"
  using is_store_in_tx_ok [OF assms] by blast

theorem is_store_in_tx_exact_witness:
  "\<exists>t'. is_store_in_tx (mk_region 4160 8) 5 open_tx = Inr (False, t') \<and> tx_same open_tx t'"
proof -
  obtain tx where tx: "the_tx open_tx 5 = Some tx" "tx_bytes tx = {}" using open_tx_the by blast
  have "rkey (mk_region 4160 8)" by (simp add: rkey_def)
  then show ?thesis using is_store_in_tx_exact [OF open_tx_ok(1) tx(1)] tx(2) by fastforce
qed

section \<open>Regions\<close>

text \<open>C20.  \<open>add_obj_to_tx\<close> in a running transaction of the thread returns 0 and tracks the bytes of the object; every
  other transaction that tracks a region overlapping it gives one event of a region in two transactions, and, with
  \<open>--redundant-logging\<close>, a region of the same transaction that overlaps gives one event of redundant logging.\<close>

theorem add_obj_to_tx_exact:
  assumes "tx_wf t" "tx_room (Suc (Suc n)) t" "the_tx t i = Some tx" "i \<in> tids t (en_tid en)" "rok (mk_region base sze)"
    and "length (tr_cross_tx_evs t) + length (elems (tr_transactions t)) \<le> MAX_CROSS_EVS"
    and "length (tr_redundant_logging_tx_evs t) + length (elems (tr_transactions t)) \<le> MAX_CROSS_EVS"
  shows "\<exists>t' idx'. add_obj_to_tx en i base sze (t, idx) = Inr (0, t', idx') \<and> tx_wf t' \<and> tx_room n t' \<and>
    tr_threads t' = tr_threads t \<and> tr_oot_stores t' = tr_oot_stores t \<and> tr_excludes t' = tr_excludes t \<and>
    txs_view t' = (txs_view t)(i \<mapsto> (i, tx_counter tx, tx_context tx, tx_bytes tx \<union> bytes (mk_region base sze))) \<and>
    tr_cross_tx_evs t' = tr_cross_tx_evs t @ cross_evs i (added_region en base sze) (elems (tr_transactions t)) \<and>
    tr_redundant_logging_tx_evs t' = tr_redundant_logging_tx_evs t @
      (if tr_redundant_logging t then log_evs i (added_region en base sze) (elems (tr_transactions t)) else [])"
  using add_obj_to_tx_ok [OF assms] by blast

theorem add_obj_to_tx_exact_witness:
  "\<exists>t' idx'. add_obj_to_tx host 5 4096 64 (open_tx, 0) = Inr (0, t', idx') \<and>
    txs_view t' = [5 \<mapsto> (5, 1, Some [4198400], {4096..<4160})]"
proof -
  obtain tx where tx: "the_tx open_tx 5 = Some tx" "tx_counter tx = 1" "tx_context tx = Some [4198400]" "tx_bytes tx = {}"
    using open_tx_the by blast
  have "tx_room (Suc (Suc 996)) open_tx" using open_tx_ok(2) by simp
  moreover have "5 \<in> tids open_tx (en_tid host)" by (simp add: open_tx_ok(5) host_def)
  moreover have "rok (mk_region 4096 64)" by (simp add: rok_def)
  ultimately show ?thesis
    using add_obj_to_tx_exact [OF open_tx_ok(1) _ tx(1), of 996 host 4096 64 0] tx(2-4)
    by (auto simp: open_tx_sel open_tx_length MAX_CROSS_EVS_def open_tx_ok(4))
qed

text \<open>\<open>add_obj_to_tx\<close> refuses an object without changing the bookkeeping: 1 when there is no such transaction, 2
  when the running thread does not take part in it.\<close>

lemma add_obj_to_tx_refuses:
  assumes "tx_wf t" "tx_room n t" "the_tx t i = None \<or> i \<notin> tids t (en_tid en)"
  shows "\<exists>ms. add_obj_to_tx en i base sze (t, idx) = Inr (if the_tx t i = None then 1 else 2, tr_log ms t, idx)"
  by (rule add_obj_to_tx_rejects [OF assms])

text \<open>C21.  \<open>remove_obj_from_tx\<close> stops tracking the bytes of the object, with the exception that the code has for the
  region added last: an object equal to it drops that region only, so bytes that other regions track stay, and
  any other object leaves all bytes of it tracked.\<close>

theorem remove_obj_from_tx_exact:
  assumes "tx_wf t" "tx_room (Suc (Suc n)) t" "the_tx t i = Some tx" "i \<in> tids t (en_tid en)" "rkey (mk_region base sze)"
  shows "\<exists>t' idx'. remove_obj_from_tx en i base sze (t, idx) = Inr (0, t', idx') \<and> tx_wf t' \<and> tx_room n t' \<and> tx_rest t t' \<and>
    tr_threads t' = tr_threads t \<and>
    txs_view t' = (txs_view t)(i \<mapsto> (i, tx_counter tx, tx_context tx,
      if is_in_cache (mk_region base sze) tx then region_bytes (tx_regions tx)
      else (tx_bytes tx - bytes (mk_region base sze)) \<union> bytes (tx_cached_region tx)))"
  by (rule remove_obj_from_tx_ok [OF assms])

theorem remove_obj_from_tx_exact_witness:
  "\<exists>t' idx'. remove_obj_from_tx host 5 4096 64 (open_tx, 0) = Inr (0, t', idx') \<and> tx_wf t' \<and> tids t' = tids open_tx"
proof -
  obtain tx where tx: "the_tx open_tx 5 = Some tx" using open_tx_the by blast
  have "tx_room (Suc (Suc 996)) open_tx" using open_tx_ok(2) by simp
  moreover have "5 \<in> tids open_tx (en_tid host)" by (simp add: open_tx_ok(5) host_def)
  moreover have "rkey (mk_region 4096 64)" by (simp add: rkey_def)
  ultimately obtain t' idx' where "remove_obj_from_tx host 5 4096 64 (open_tx, 0) = Inr (0, t', idx')" "tx_wf t'"
    "tr_threads t' = tr_threads open_tx"
    using remove_obj_from_tx_exact [OF open_tx_ok(1) _ tx, of 996 host 4096 64 0] by blast
  then show ?thesis by (auto simp: tids_def fun_eq_iff)
qed

section \<open>Start and end\<close>

text \<open>C22.  \<open>register_new_tx\<close> starts a transaction with nesting 1 and no bytes, or raises the nesting of the running
  one by one, and notes it in the set of the running thread; all other transactions and threads stay.\<close>

theorem register_new_tx_exact:
  assumes "tx_wf t" "tx_room (Suc (Suc n)) t"
  shows "\<exists>t'. register_new_tx en i t = Inr t' \<and> tx_wf t' \<and> tx_room n t' \<and> tx_rest t t' \<and>
    txs_view t' = (txs_view t)(i \<mapsto> started en i (txs_view t i)) \<and>
    tids t' = (tids t)(en_tid en := insert i (tids t (en_tid en)))"
  using register_new_tx_ok [OF assms] by blast

theorem register_new_tx_exact_witness:
  "\<exists>t'. register_new_tx host 5 open_tx = Inr t' \<and> txs_view t' = [5 \<mapsto> (5, 2, Some [4198400], {})] \<and> tids t' = tids open_tx"
proof -
  have "tx_room (Suc (Suc 996)) open_tx" using open_tx_ok(2) by simp
  then show ?thesis
    using register_new_tx_exact [OF open_tx_ok(1), of 996 host 5] by (auto simp: open_tx_ok(4,5) started_def host_def)
qed

text \<open>C23.  \<open>remove_tx\<close> answers 1 for a transaction that is not running, lowers the nesting of a nested one, and
  removes one that ends; then the loop over the threads takes the transaction out of the threads in the order of
  their ids up to and including the first thread that is left without one, whose entry goes as well.\<close>

theorem remove_tx_exact:
  assumes "tx_wf t" "tx_room n t" "txs_view t i = Some (i, c, x, B)" "0 < c"
  shows "\<exists>t'. remove_tx i t = Inr (0, t') \<and> tx_wf t' \<and> tx_room n t' \<and> tx_rest t t' \<and>
    txs_view t' = (txs_view t)(i := if c = 1 then None else Some (i, c - 1, x, B)) \<and>
    threads_view t' = (if c = 1 then drop_tx i (threads_view t) else threads_view t)"
proof -
  obtain tx where tx: "the_tx t i = Some tx" "tx_counter tx = c" "tx_context tx = x" "tx_bytes tx = B"
    using assms(3) by (auto simp: txs_view_def tx_view_def)
  show ?thesis
  proof (cases "c = 1")
    case True
    then show ?thesis using remove_tx_last [OF assms(1,2) tx(1)] tx(2) by simp
  next
    case False
    then have "c - 1 > 0" using assms(4) by (simp add: word_neq_0_conv [symmetric])
    then obtain t' where "remove_tx i t = Inr (0, t')" "tx_wf t'" "tx_room n t'" "tx_rest t t'" "tr_threads t' = tr_threads t"
      "txs_view t' = (txs_view t)(i \<mapsto> (i, c - 1, x, B))"
      using remove_tx_nested [OF assms(1,2) tx(1)] tx(2-4) by blast
    then show ?thesis using False by (simp add: threads_view_def)
  qed
qed

theorem remove_tx_exact_witness:
  "\<exists>t'. remove_tx 5 open_tx = Inr (0, t') \<and> tx_wf t' \<and> txs_view t' = Map.empty"
proof -
  have "txs_view open_tx 5 = Some (5, 1, Some [4198400], {})" by (simp add: open_tx_ok(4))
  then have "\<exists>t'. remove_tx 5 open_tx = Inr (0, t') \<and> tx_wf t' \<and> txs_view t' = (txs_view open_tx)(5 := None)"
    using remove_tx_exact [OF open_tx_ok(1,2), of 5 1 "Some [4198400]" "{}"] by auto
  then show ?thesis by (simp add: open_tx_ok(4))
qed

text \<open>Starting a transaction and ending it is the identity on the transactions and on the sets of the threads,
  when the transaction was not running before, no thread had it and every registered thread has a transaction.\<close>

lemma start_end_roundtrip:
  assumes "tx_wf t" "tx_room (Suc (Suc n)) t" "txs_view t i = None"
    and "\<forall>k. i \<notin> tids t k" "\<forall>k \<in> dom (the_thread t). tids t k \<noteq> {}"
  shows "\<exists>t1 t2. register_new_tx en i t = Inr t1 \<and> remove_tx i t1 = Inr (0, t2) \<and> tx_wf t2 \<and> tx_room n t2 \<and> tx_rest t t2 \<and>
    txs_view t2 = txs_view t \<and> tids t2 = tids t"
  by (rule start_end_tx [OF assms])

lemma start_end_roundtrip_witness:
  "\<exists>t1 t2. register_new_tx host 7 open_tx = Inr t1 \<and> remove_tx 7 t1 = Inr (0, t2) \<and>
    txs_view t2 = [5 \<mapsto> (5, 1, Some [4198400], {})] \<and> tids t2 = (\<lambda>k. {})(1 := {5})"
proof -
  have "tx_room (Suc (Suc 996)) open_tx" using open_tx_ok(2) by simp
  moreover have "txs_view open_tx 7 = None" "\<forall>k. 7 \<notin> tids open_tx k" "\<forall>k \<in> dom (the_thread open_tx). tids open_tx k \<noteq> {}"
    by (simp_all add: open_tx_ok(4-6))
  ultimately show ?thesis
    using start_end_roundtrip [OF open_tx_ok(1), of 996 7 host] unfolding open_tx_ok(4,5) by blast
qed

section \<open>Threads\<close>

text \<open>A thread that is added to a running transaction and leaves it again has the transactions it had before,
  and no other thread and no transaction changes.\<close>

lemma join_leave_roundtrip:
  assumes "tx_wf t" "tx_room (Suc n) t" "txs_view t i \<noteq> None" "i \<notin> tids t (en_tid en)"
  shows "\<exists>t1 t2. add_thread_to_tx en i t = Inr (0, t1) \<and> i \<in> tids t1 (en_tid en) \<and>
    remove_thread_from_tx en i t1 = Inr (0, t2) \<and> tx_wf t2 \<and> tx_rest t t2 \<and> txs_view t2 = txs_view t \<and> tids t2 = tids t"
proof -
  let ?k = "en_tid en"
  obtain t1 where t1: "add_thread_to_tx en i t = Inr (0, t1)" "tx_wf t1" "tx_room n t1" "tx_rest t t1" "txs_view t1 = txs_view t"
    "tids t1 = (tids t)(?k := insert i (tids t ?k))"
    using add_thread_to_tx_ok [OF assms(1,2), of i en] assms(3) by auto
  moreover obtain t2 where "remove_thread_from_tx en i t1 = Inr (0, t2)" "tx_wf t2" "tx_rest t1 t2" "txs_view t2 = txs_view t1"
    "tids t2 = (tids t1)(?k := tids t1 ?k - {i})"
    using remove_thread_from_tx_ok [OF t1(2,3), of i en] assms(3) t1(5,6) by auto
  ultimately show ?thesis using assms(4) tx_rest_trans by (auto simp: fun_eq_iff)
qed

text \<open>C24.  A transaction from its start: after a thread that takes part in no other transaction has started one and
  added an object to it, a store of the thread is recorded exactly when neither the object nor the excluded
  regions cover it.\<close>

theorem tx_protects_object:
  assumes "tx_wf t" "tx_room 4 t" "\<not> tr_verbose t" "txs_view t i = None" "tids t (en_tid en) = {}"
    and "rok (mk_region base sze)" "rkey store" "length (tr_oot_stores t) < MAX_OOT_STORES"
    and "length (tr_cross_tx_evs t) + length (elems (tr_transactions t)) < MAX_CROSS_EVS"
    and "length (tr_redundant_logging_tx_evs t) + length (elems (tr_transactions t)) < MAX_CROSS_EVS"
  shows "\<exists>t1 t2 idx' t3. register_new_tx en i t = Inr t1 \<and> add_obj_to_tx en i base sze (t1, idx) = Inr (0, t2, idx') \<and>
    handle_tx_store en store t2 = Inr t3 \<and>
    tr_oot_stores t3 = tr_oot_stores t @
      (if bytes store \<subseteq> region_bytes (tr_excludes t) \<or> bytes store \<subseteq> bytes (mk_region base sze) then [] else [store])"
proof -
  let ?k = "en_tid en"
  have "tx_room (Suc (Suc 2)) t" using assms(2) by (simp add: numeral_eq_Suc)
  then obtain t1 where t1: "register_new_tx en i t = Inr t1" "tx_wf t1" "tx_room (Suc (Suc 0)) t1" "tx_rest t t1"
    "txs_view t1 = (txs_view t)(i \<mapsto> started en i (txs_view t i))" "tids t1 = (tids t)(?k := insert i (tids t ?k))"
    using register_new_tx_ok [OF assms(1), of 2 en i] by (auto simp: numeral_2_eq_2)
  have "txs_view t1 i = Some (i, 1, en_context en, {})" using t1(5) assms(4) by (simp add: started_def)
  then obtain tx where tx: "the_tx t1 i = Some tx" "tx_bytes tx = {}" by (auto simp: txs_view_def tx_view_def)
  have len: "length (elems (tr_transactions t1)) = Suc (length (elems (tr_transactions t)))"
    using t1(5) assms(1,4) t1(2) by (rule txs_view_length)
  obtain t2 idx' where t2: "add_obj_to_tx en i base sze (t1, idx) = Inr (0, t2, idx')" "tx_wf t2" "tx_room 0 t2"
    "tr_threads t2 = tr_threads t1" "tr_oot_stores t2 = tr_oot_stores t1" "tr_excludes t2 = tr_excludes t1" "tr_verbose t2 = tr_verbose t1"
    "txs_view t2 = (txs_view t1)(i \<mapsto> (i, tx_counter tx, tx_context tx, tx_bytes tx \<union> bytes (mk_region base sze)))"
    using add_obj_to_tx_ok [OF t1(2,3) tx(1), of en base sze idx] t1(4,6) len assms(6,9,10) by (auto simp: tx_rest_def)
  have "tids t2 = tids t1" using t2(4) by (simp add: tids_def fun_eq_iff)
  then have ids: "tids t2 ?k = {i}" using t1(6) assms(5) by simp
  then obtain th where th: "the_thread t2 ?k = Some th" "set (elems (th_tx_ids th)) = {i}"
    by (auto simp: tids_def split: option.splits)
  have "covers t2 store i \<longleftrightarrow> bytes store \<subseteq> bytes (mk_region base sze)" using t2(8) tx(2) by (simp add: covers_def)
  then have "out_of_tx t2 ?k store \<longleftrightarrow>
      \<not> (bytes store \<subseteq> region_bytes (tr_excludes t) \<or> bytes store \<subseteq> bytes (mk_region base sze))"
    using th t2(6) t1(4) by (simp add: out_of_tx_def tx_rest_def)
  moreover obtain t3 where "handle_tx_store en store t2 = Inr t3"
    "tr_oot_stores t3 = tr_oot_stores t2 @ (if out_of_tx t2 ?k store then [store] else [])"
    using handle_tx_store_ok [OF t2(2) assms(7) _ t2(3)] t2(5,7) t1(4) assms(3,8) by (auto simp: tx_rest_def)
  ultimately show ?thesis using t1(1,4) t2(1,5) by (auto simp: tx_rest_def)
qed

theorem tx_protects_object_witness:
  "\<exists>t1 t2 idx' t3. register_new_tx host 5 (tl_trans started_tool) = Inr t1 \<and>
    add_obj_to_tx host 5 4096 64 (t1, 0) = Inr (0, t2, idx') \<and> handle_tx_store host (mk_region 4100 8) t2 = Inr t3 \<and>
    tr_oot_stores t3 = []"
proof -
  have el: "elems (tr_transactions (tl_trans started_tool)) = []"
    by (simp add: started_tool_def pmc_post_clo_init_def Let_def init_transactions_def)
  have "tx_room 4 (tl_trans started_tool)" using started_tx(2) by (rule tx_room_mono) simp
  moreover have "rok (mk_region 4096 64)" "rkey (mk_region 4100 8)" by (simp_all add: rok_def rkey_def)
  ultimately show ?thesis
    using tx_protects_object [OF started_tx(1) _ started_tx(9), of 5 host 4096 64 "mk_region 4100 8" 0] started_tx(3,4,6-8) el
    by (simp add: MAX_OOT_STORES_def MAX_CROSS_EVS_def)
qed

end
