(* ===== verification/Region_Properties.thy ===== *)
theory Region_Properties
  imports PMC_Examples
begin

text \<open>
  The properties of regions and mappings: adding and removing byte ranges, the two routines that remove a range,
  and the decision whether an access touches persistent memory.
\<close>

section \<open>Mappings\<close>

text \<open>C25.  \<open>is_pmem_access\<close> with its test against the bounds of all mappings decides exactly whether an access
  touches a mapped byte.\<close>

theorem is_pmem_access_exact:
  assumes "maps_ok p" "rkey (mk_region a n)"
  shows "is_pmem_access a n p \<longleftrightarrow> bytes (mk_region a n) \<inter> mapped p \<noteq> {}"
  by (rule is_pmem_access_mapped [OF assms])

lemma page_ready: "maps_ok (tl_pmem one_store)" "mapped (tl_pmem one_store) = {4096..<8192}"
  using one_store_inv by (simp_all add: tool_inv_def store_inv_def)

theorem is_pmem_access_exact_witness:
  "is_pmem_access 8190 4 (tl_pmem one_store) \<and> \<not> is_pmem_access 8192 4 (tl_pmem one_store)"
  using is_pmem_access_exact [OF page_ready(1), of 8190 4] is_pmem_access_exact [OF page_ready(1), of 8192 4]
  by (simp add: page_ready(2) rkey_def)

text \<open>C26.  Registering a mapping adds its bytes to the mapped ones, keeps the mappings disjoint, apart from each
  other and within the recorded bounds, and changes nothing of the state but the set of mappings and its two bounds.\<close>

theorem register_mapping_exact:
  assumes "maps_ok p" "rok (mk_region a n)"
  shows "\<exists>p' ms l h. register_mapping a n p = Inr p' \<and> p' = p\<lparr>pm_mappings := ms, pm_min_map := l, pm_max_map := h\<rparr> \<and>
    maps_ok p' \<and> mapped p' = mapped p \<union> bytes (mk_region a n) \<and> out_entries p' = out_entries p"
proof -
  obtain p' where p': "register_mapping a n p = Inr p'" "maps_ok p'" "mapped p' = mapped p \<union> bytes (mk_region a n)"
    using register_mapping_ok [OF assms] by blast
  then obtain l h M where q: "p' = p\<lparr>pm_min_map := l, pm_max_map := h, pm_mappings := M\<rparr>" using register_mapping_frame by blast
  then have "out_entries p' = out_entries p" by (intro wf_cong(3)) simp_all
  then show ?thesis using p' q by (intro exI [of _ p'] exI [of _ M] exI [of _ l] exI [of _ h]) simp
qed

theorem register_mapping_exact_witness:
  "\<exists>p'. register_mapping 8192 64 (tl_pmem one_store) = Inr p' \<and> mapped p' = {4096..<8256} \<and>
    pm_stores p' = pm_stores (tl_pmem one_store) \<and> pm_epoch p' = pm_epoch (tl_pmem one_store)"
  using register_mapping_exact [OF page_ready(1), of 8192 64] by (auto simp: rok_def page_ready(2))

text \<open>C27.  Removing a mapping takes its bytes out of the mapped ones, cutting the mappings it overlaps, and keeps the
  invariant with the bounds computed anew.\<close>

theorem remove_mapping_exact:
  assumes "maps_ok p" "rkey (mk_region a n)" "Suc (length (elems (pm_mappings p))) < OSET_ITER_MAX"
  shows "\<exists>p'. remove_mapping a n p = Inr p' \<and> maps_ok p' \<and> mapped p' = mapped p - bytes (mk_region a n)"
  by (rule remove_mapping_ok [OF assms])

lemma page_mapping:
  "\<exists>p. register_mapping 4096 4096 (tl_pmem started_tool) = Inr p \<and> maps_ok p \<and> mapped p = {4096..<8192} \<and> length (elems (pm_mappings p)) \<le> 1"
proof -
  have ok: "maps_ok (tl_pmem started_tool)" "mapped (tl_pmem started_tool) = {}" "elems (pm_mappings (tl_pmem started_tool)) = []"
    using init_maps_ok by (simp_all add: started_tool_def) (simp add: pmc_post_clo_init_def Let_def)
  obtain p where p: "register_mapping 4096 4096 (tl_pmem started_tool) = Inr p" "maps_ok p" "mapped p = {4096..<8192}"
    using register_mapping_ok [OF ok(1) rok_page] ok(2) by auto
  have "length (elems (pm_mappings p)) \<le> 1"
    using add_region_spec [OF _ rok_page, of "pm_mappings (tl_pmem started_tool)"] ok(1,3) p(1)
    by (auto simp: maps_ok_def register_mapping_def Let_def split: prod.splits)
  then show ?thesis using p by blast
qed

theorem remove_mapping_exact_witness:
  "\<exists>p p'. register_mapping 4096 4096 (tl_pmem started_tool) = Inr p \<and> remove_mapping 5000 1000 p = Inr p' \<and> maps_ok p' \<and>
    mapped p' = {4096..<5000} \<union> {6000..<8192}"
proof -
  obtain p where p: "register_mapping 4096 4096 (tl_pmem started_tool) = Inr p" "maps_ok p" "mapped p = {4096..<8192}"
    "length (elems (pm_mappings p)) \<le> 1" using page_mapping by blast
  have "{4096..<8192} - {5000..<6000} = {4096..<5000} \<union> {6000..<8192::nat}" by auto
  then show ?thesis using remove_mapping_exact [OF p(2), of 5000 1000] p by (auto simp: rkey_def OSET_ITER_MAX_def)
qed

text \<open>Registering a mapping that overlaps no other and removing it again restores the mapped bytes.\<close>

lemma map_unmap_roundtrip:
  assumes "maps_ok p" "rok (mk_region a n)" "bytes (mk_region a n) \<inter> mapped p = {}"
    and "length (elems (pm_mappings p)) + 2 < OSET_ITER_MAX"
  shows "\<exists>p1 p2. register_mapping a n p = Inr p1 \<and> remove_mapping a n p1 = Inr p2 \<and> maps_ok p2 \<and> mapped p2 = mapped p"
proof -
  obtain p1 where p1: "register_mapping a n p = Inr p1" "maps_ok p1" "mapped p1 = mapped p \<union> bytes (mk_region a n)"
    using register_mapping_ok [OF assms(1,2)] by blast
  have "length (elems (pm_mappings p1)) \<le> Suc (length (elems (pm_mappings p)))"
    using add_region_spec [OF _ assms(2), of "pm_mappings p"] assms(1) p1(1)
    by (auto simp: maps_ok_def register_mapping_def Let_def split: prod.splits)
  then obtain p2 where "remove_mapping a n p1 = Inr p2" "maps_ok p2" "mapped p2 = mapped p1 - bytes (mk_region a n)"
    using remove_mapping_ok [OF p1(2) rok_rkey [OF assms(2)]] assms(4) by auto
  then show ?thesis using p1(1,3) assms(3) by auto
qed

section \<open>Sets of regions\<close>

lemma page_set: "\<exists>s. add_region (mk_region 4096 4096) (OSetGen_Create cmp_pmem_st (\<lambda>x. x)) = Inr s \<and> regions_ok s \<and>
    gapped (elems s) \<and> region_bytes s = {4096..<8192} \<and> length (elems s) \<le> 1"
  using add_region_spec [OF oset_inv_Create rok_page] by (auto simp: gapped_def)

text \<open>\<open>is_in_mapping_set\<close> on a set of regions that do not touch answers 0, 1 or 2 exactly when the range lies
  outside of all regions, inside of their union, or is cut by it.\<close>

lemma is_in_mapping_set_exact:
  assumes "regions_ok s" "gapped (elems s)" "rkey k"
  shows "is_in_mapping_set k s =
    (if bytes k \<inter> region_bytes s = {} then 0 else if bytes k \<subseteq> region_bytes s then 1 else 2)"
  by (rule is_in_mapping_set_value [OF assms])

lemma is_in_mapping_set_exact_witness:
  "\<exists>s. add_region (mk_region 4096 4096) (OSetGen_Create cmp_pmem_st (\<lambda>x. x)) = Inr s \<and>
    is_in_mapping_set (mk_region 8190 4) s = 2 \<and> is_in_mapping_set (mk_region 8192 4) s = 0 \<and> is_in_mapping_set (mk_region 8188 4) s = 1"
proof -
  obtain s where s: "add_region (mk_region 4096 4096) (OSetGen_Create cmp_pmem_st (\<lambda>x. x)) = Inr s" "regions_ok s"
    "gapped (elems s)" "region_bytes s = {4096..<8192}"
    using page_set by blast
  note * = is_in_mapping_set_exact [OF s(2,3), unfolded s(4)]
  show ?thesis
    using s(1) * [of "mk_region 8190 4"] * [of "mk_region 8192 4"] * [of "mk_region 8188 4"] by (simp add: rkey_def)
qed

text \<open>C28.  \<open>add_region\<close> adds exactly the bytes of the region, merges it with every region that it overlaps or
  touches, so that regions stay disjoint and apart, and adds at most one region.\<close>

theorem add_region_exact:
  assumes "regions_ok s" "rok r"
  shows "\<exists>s'. add_region r s = Inr s' \<and> regions_ok s' \<and> region_bytes s' = region_bytes s \<union> bytes r \<and>
    (gapped (elems s) \<longrightarrow> gapped (elems s')) \<and> length (elems s') \<le> Suc (length (elems s))"
  by (rule add_region_spec [OF assms])

theorem add_region_exact_witness:
  "\<exists>s s'. add_region (mk_region 4096 4096) (OSetGen_Create cmp_pmem_st (\<lambda>x. x)) = Inr s \<and>
    add_region (mk_region 8192 64) s = Inr s' \<and> region_bytes s' = {4096..<8256} \<and> gapped (elems s')"
proof -
  obtain s where s: "add_region (mk_region 4096 4096) (OSetGen_Create cmp_pmem_st (\<lambda>x. x)) = Inr s" "regions_ok s"
    "gapped (elems s)" "region_bytes s = {4096..<8192}"
    using page_set by blast
  have "rok (mk_region 8192 64)" by (simp add: rok_def)
  then show ?thesis using add_region_exact [OF s(2)] s by (fastforce simp: set_eq_iff)
qed

text \<open>C29.  \<open>remove_region\<close> takes exactly the bytes of the range out of the set: what is left of a region that is cut
  keeps its ends or ends at the range, so that regions that were apart stay apart, and the loop with its changes of
  the iterated set ends.\<close>

theorem remove_region_exact:
  assumes "regions_ok s" "gapped (elems s)" "rkey r" "2 * length (elems s) < OSET_ITER_MAX"
  shows "\<exists>s' idx'. remove_region r (s, idx) = Inr (s', idx') \<and> regions_ok s' \<and> gapped (elems s') \<and>
    region_bytes s' = region_bytes s - bytes r \<and> (\<forall>x \<in> set (elems s'). \<exists>e \<in> set (elems s). piece r e x)"
proof -
  obtain s' idx' where s': "remove_region r (s, idx) = Inr (s', idx')" "cut_out r s s'"
    using remove_region_spec [OF assms(1,3,4), of idx] by blast
  then show ?thesis using cut_out_gapped [OF assms(1,2,3) s'(2)] by (auto simp: cut_out_def)
qed

theorem remove_region_exact_witness:
  "\<exists>s s' idx'. add_region (mk_region 4096 4096) (OSetGen_Create cmp_pmem_st (\<lambda>x. x)) = Inr s \<and>
    remove_region (mk_region 5000 8) (s, 3) = Inr (s', idx') \<and> region_bytes s' = {4096..<8192} - {5000..<5008}"
proof -
  obtain s where s: "add_region (mk_region 4096 4096) (OSetGen_Create cmp_pmem_st (\<lambda>x. x)) = Inr s" "regions_ok s"
    "gapped (elems s)" "region_bytes s = {4096..<8192}" "length (elems s) \<le> 1"
    using page_set by blast
  have "rkey (mk_region 5000 8)" "2 * length (elems s) < OSET_ITER_MAX" using s(5) by (simp_all add: rkey_def OSET_ITER_MAX_def)
  then show ?thesis using remove_region_exact [OF s(2,3), of "mk_region 5000 8" 3] s(1,4) by auto
qed

lemma gapped_ranges_subset:
  assumes "regions_ok s" "gapped (elems s)" "regions_ok s'" "gapped (elems s')" "region_bytes s = region_bytes s'"
  shows "bytes ` set (elems s) \<subseteq> bytes ` set (elems s')"
proof
  fix B assume "B \<in> bytes ` set (elems s)"
  then obtain e where e: "e \<in> set (elems s)" "B = bytes e" by blast
  have sub: "x \<in> set (elems u) \<Longrightarrow> bytes x \<subseteq> region_bytes u" for x u by (auto simp: set_bytes_def)
  obtain e' where e': "e' \<in> set (elems s')" "bytes e \<subseteq> bytes e'"
    using covered_by_one [OF assms(3,4) rok_rkey [OF regions_rok [OF assms(1) e(1)]]] sub [OF e(1)] assms(5) by auto
  obtain e'' where e'': "e'' \<in> set (elems s)" "bytes e' \<subseteq> bytes e''"
    using covered_by_one [OF assms(1,2) rok_rkey [OF regions_rok [OF assms(3) e'(1)]]] sub [OF e'(1)] assms(5) by auto
  have "bytes e \<noteq> {}" using regions_rok [OF assms(1) e(1)] by (simp add: bytes_def rok_def hi_def)
  then have "e = e''" using disjoint_list_disj [OF regions_okD [OF assms(1)] e(1) e''(1)] e'(2) e''(2) by blast
  then show "B \<in> bytes ` set (elems s')" using e(2) e' e''(2) by blast
qed

text \<open>The two routines that remove a range, \<open>remove_region\<close> with its iteration and \<open>remove_region_mapping\<close>
  with its lookups, leave the same set of byte ranges.\<close>

lemma remove_region_routines_agree:
  assumes "regions_ok s" "gapped (elems s)" "rkey r" "2 * length (elems s) < OSET_ITER_MAX"
  shows "\<exists>s1 idx' s2. remove_region r (s, idx) = Inr (s1, idx') \<and> remove_region_mapping r s = Inr s2 \<and>
    bytes ` set (elems s1) = bytes ` set (elems s2)"
proof -
  obtain s1 idx' where s1: "remove_region r (s, idx) = Inr (s1, idx')" "cut_out r s s1"
    using remove_region_spec [OF assms(1,3,4), of idx] by blast
  obtain s2 where s2: "remove_region_mapping r s = Inr s2" "cut_out r s s2"
    using remove_region_mapping_spec [OF assms(1,3)] by blast
  have "bytes ` set (elems s1) = bytes ` set (elems s2)"
    using cut_out_gapped [OF assms(1-3) s1(2)] cut_out_gapped [OF assms(1-3) s2(2)] s1(2) s2(2)
    by (intro equalityI gapped_ranges_subset) (simp_all add: cut_out_def)
  then show ?thesis using s1(1) s2(1) by blast
qed

lemma remove_region_routines_agree_witness:
  "\<exists>s s1 idx' s2. add_region (mk_region 4096 4096) (OSetGen_Create cmp_pmem_st (\<lambda>x. x)) = Inr s \<and>
    remove_region (mk_region 5000 8) (s, 3) = Inr (s1, idx') \<and> remove_region_mapping (mk_region 5000 8) s = Inr s2 \<and>
    bytes ` set (elems s1) = bytes ` set (elems s2)"
proof -
  obtain s where s: "add_region (mk_region 4096 4096) (OSetGen_Create cmp_pmem_st (\<lambda>x. x)) = Inr s" "regions_ok s"
    "gapped (elems s)" "length (elems s) \<le> 1"
    using page_set by blast
  have "rkey (mk_region 5000 8)" "2 * length (elems s) < OSET_ITER_MAX" using s(4) by (simp_all add: rkey_def OSET_ITER_MAX_def)
  then show ?thesis using remove_region_routines_agree [OF s(2,3), of "mk_region 5000 8" 3] s(1) by auto
qed

end
