(* ===== verification/OSet_Properties.thy ===== *)
theory OSet_Properties
  imports PMC_Keyed_Laws
begin

text \<open>
  The properties of the ordered set of the Valgrind core, for every comparison that meets the contract \<open>oset_order\<close>.
  The witnesses use sets of machine words.
\<close>

definition words :: "uword list \<Rightarrow> oset_word res" where
  "words ws = foldM OSetWord_Insert ws OSetWord_Create"

lemma word_order: "oset_order (fast_cmp (\<lambda>x :: uword. x)) (\<lambda>x. x) (\<lambda>x. True) (\<lambda>k. True)"
  by (rule wo.oset_order_axioms)

lemma two_words: "\<exists>s. words [7, 3] = Inr s \<and> word_set s \<and> set (elems s) = {3, 7} \<and> length (elems s) = 2"
proof -
  obtain s1 where s1: "OSetWord_Insert 7 OSetWord_Create = Inr s1" "word_set s1" "set (elems s1) = {7}" "length (elems s1) = 1"
    using word_set_insert [of OSetWord_Create 7] by auto
  then obtain s2 where "OSetWord_Insert 3 s1 = Inr s2" "word_set s2" "set (elems s2) = {3, 7}" "length (elems s2) = 2"
    using word_set_insert [of s1 3] by auto
  then show ?thesis using s1(1) by (simp add: words_def)
qed

section \<open>Insertion, lookup, removal\<close>

text \<open>C30.  Inserting an element that compares equal to one of the set fails with the assertion of the code; any
  other element is put at its place in the order, and the tree stays balanced and ordered with the right count.\<close>

theorem Insert_exact:
  assumes "oset_order cmp key ok okk" "oset_inv cmp key ok t" "ok e"
  shows "if \<exists>y \<in> set (elems t). cmp (key e) y = 0
    then OSetGen_Insert e t = Inl (AssertFail ''OSet Insert: duplicate element added'')
    else \<exists>t'. OSetGen_Insert e t = Inr t' \<and> oset_inv cmp key ok t' \<and> elems t' = ins_sorted cmp key e (elems t)"
proof (cases "\<exists>y \<in> set (elems t). cmp (key e) y = 0")
  case True
  then show ?thesis using oset_order.Insert_duplicate [OF assms] by auto
next
  case False
  then show ?thesis using oset_order.Insert_correct [OF assms] by auto
qed

theorem Insert_exact_witness:
  "\<exists>s. words [7, 3] = Inr s \<and> OSetGen_Insert 3 s = Inl (AssertFail ''OSet Insert: duplicate element added'') \<and>
    (\<exists>s'. OSetGen_Insert 5 s = Inr s' \<and> elems s' = ins_sorted (fast_cmp (\<lambda>x. x)) (\<lambda>x. x) 5 (elems s))"
proof -
  obtain s where s: "words [7, 3] = Inr s" "word_set s" "set (elems s) = {3, 7}" using two_words by blast
  note * = Insert_exact [OF word_order s(2)]
  show ?thesis using s(1,3) * [of 3] * [of 5] by (auto simp: fast_cmp_eq_0)
qed

text \<open>Lookup finds an element exactly when the set has one that compares equal to the key, and returns such an
  element.\<close>

lemma Lookup_exact:
  assumes "oset_order cmp key ok okk" "oset_inv cmp key ok t" "okk k"
  shows "case OSetGen_Lookup t k of None \<Rightarrow> \<forall>y \<in> set (elems t). cmp k y \<noteq> 0
    | Some e \<Rightarrow> e \<in> set (elems t) \<and> cmp k e = 0"
proof (cases "OSetGen_Lookup t k")
  case None
  then show ?thesis using oset_order.Lookup_NoneD [OF assms] by simp
next
  case (Some e)
  then show ?thesis using Lookup_SomeD [OF Some] assms(2) by (simp add: oset_inv_def)
qed

text \<open>C31.  Removal takes out the element that lookup finds and no other, returns it, and keeps the tree balanced
  and ordered; without such an element it returns null and the set is as before.\<close>

theorem Remove_exact:
  assumes "oset_order cmp key ok okk" "oset_inv cmp key ok t"
  shows "case OSetGen_Lookup t k of None \<Rightarrow> OSetGen_Remove k t = Inr (None, t)
    | Some n \<Rightarrow> \<exists>t'. OSetGen_Remove k t = Inr (Some n, t') \<and> oset_inv cmp key ok t' \<and> elems t' = filter (\<lambda>y. y \<noteq> n) (elems t)"
proof (cases "OSetGen_Lookup t k")
  case None
  then show ?thesis using oset_order.Remove_None [OF assms(1)] by auto
next
  case (Some n)
  then show ?thesis using oset_order.Remove_correct [OF assms Some] by auto
qed

theorem Remove_exact_witness: "\<exists>s s'. words [7, 3] = Inr s \<and> OSetGen_Remove 3 s = Inr (Some 3, s') \<and> set (elems s') = {7}"
proof -
  obtain s where s: "words [7, 3] = Inr s" "word_set s" "set (elems s) = {3, 7}" using two_words by blast
  have "OSetGen_Lookup s 3 = Some 3" using keyed_lookup [OF s(2), of 3 3] s(3) by simp
  then show ?thesis using Remove_exact [OF word_order s(2), of 3] s(1,3) by (auto simp: set_eq_iff)
qed

text \<open>Inserting a new element and removing it by its key restores the elements in their order.\<close>

lemma Insert_Remove_roundtrip:
  assumes "oset_order cmp key ok okk" "oset_inv cmp key ok t" "ok e" "\<forall>y \<in> set (elems t). cmp (key e) y \<noteq> 0"
  shows "\<exists>t1 t2. OSetGen_Insert e t = Inr t1 \<and> OSetGen_Remove (key e) t1 = Inr (Some e, t2) \<and> oset_inv cmp key ok t2 \<and>
    elems t2 = elems t"
  by (rule oset_order.Insert_Remove [OF assms])

text \<open>C32.  A set whose keys are machine words implements a partial function: insertion of a new key is an update,
  removal of a present key is a deletion, and both keep the set well formed.\<close>

theorem keyed_refines_map:
  assumes "keyed key ok t" "ok e" "OSetGen_Lookup t (key e) = None" "OSetGen_Lookup t k = Some n"
  shows "\<exists>t1 t2. OSetGen_Insert e t = Inr t1 \<and> keyed key ok t1 \<and> OSetGen_Lookup t1 = (OSetGen_Lookup t)(key e \<mapsto> e) \<and>
    OSetGen_Remove k t = Inr (Some n, t2) \<and> keyed key ok t2 \<and> OSetGen_Lookup t2 = (OSetGen_Lookup t)(k := None)"
  using keyed_insert [OF assms(1-3)] keyed_remove [OF assms(1,4)] by blast

theorem keyed_refines_map_witness:
  "\<exists>s t1 t2. words [7, 3] = Inr s \<and> OSetGen_Insert 5 s = Inr t1 \<and> OSetGen_Lookup t1 5 = Some 5 \<and>
    OSetGen_Remove 3 s = Inr (Some 3, t2) \<and> OSetGen_Lookup t2 3 = None"
proof -
  obtain s where s: "words [7, 3] = Inr s" "word_set s" "set (elems s) = {3, 7}" using two_words by blast
  have "OSetGen_Lookup s 5 = None" "OSetGen_Lookup s 3 = Some 3"
    using keyed_lookup_None [OF s(2), of 5] keyed_lookup [OF s(2), of 3 3] s(3) by simp_all
  then show ?thesis using keyed_refines_map [OF s(2), of 5 3 3] s(1) by auto
qed

section \<open>Iteration\<close>

text \<open>C33.  Iterating from the start gives every element once, in increasing order, and the stack of the iterator
  does not overflow, for sets of fewer than \<open>OSET_ITER_MAX\<close> elements.\<close>

theorem iteration_exact:
  assumes "oset_order cmp key ok okk" "oset_inv cmp key ok t" "length (elems t) < OSET_ITER_MAX"
  shows "os_iter t = Inr (elems t) \<and> distinct (elems t) \<and> sorted_wrt (\<lambda>x y. cmp (key x) y < 0) (elems t) \<and>
    OSetGen_Size t = length (elems t)"
proof -
  have "ordered cmp key ok (elems t)" using assms(2) by (simp add: oset_inv_def)
  then show ?thesis
    using os_iter_correct [OF assms(2,3)] oset_order.ordered_distinct [OF assms(1)] Size_correct [OF assms(2)]
    by (simp add: ordered_def)
qed

theorem iteration_exact_witness: "\<exists>s. words [7, 3] = Inr s \<and> os_iter s = Inr [3, 7]"
proof -
  obtain s where s: "words [7, 3] = Inr s" "word_set s" "set (elems s) = {3, 7}" "length (elems s) = 2" using two_words by blast
  then have it: "os_iter s = Inr (elems s)" "distinct (elems s)" "sorted_wrt (\<lambda>x y. fast_cmp (\<lambda>x. x) x y < 0) (elems s)"
    using iteration_exact [OF word_order s(2)] by (simp_all add: OSET_ITER_MAX_def)
  obtain a b where ab: "elems s = [a, b]" using s(4) by (auto simp: length_Suc_conv numeral_2_eq_2)
  then have "elems s = [3, 7]"
    using s(3) it(3) by (auto simp: doubleton_eq_iff fast_cmp_def Let_def split: if_splits)
  then show ?thesis using s(1) it(1) by auto
qed

text \<open>\<open>OSetGen_ResetIterAt\<close> places the iterator so that exactly the elements not below the key are still to
  come, in order, and does not change the set.\<close>

lemma ResetIterAt_exact:
  assumes "oset_order cmp key ok okk" "oset_inv cmp key ok t" "okk k" "length (elems t) < OSET_ITER_MAX"
    and "\<forall>y \<in> set (elems t). \<forall>z \<in> set (elems t). cmp k y = 0 \<longrightarrow> cmp k z = 0 \<longrightarrow> y = z"
  shows "\<exists>t'. OSetGen_ResetIterAt k t = Inr t' \<and> oset_inv cmp key ok t' \<and> elems t' = elems t \<and>
    rest_of t' = filter (\<lambda>y. cmp k y \<le> 0) (elems t)"
  using oset_order.ResetIterAt_correct [OF assms] by blast

text \<open>C34.  The balance keeps the tree low: a set of height \<open>h\<close> has at least as many elements as the Fibonacci-like
  number \<open>avl_min h\<close>, so that the traversals of a set of fewer than \<open>OSET_ITER_MAX\<close> elements, iteration and
  destruction, stay within the stack of 32 entries.\<close>

theorem height_bound:
  assumes "oset_inv cmp key ok t" "length (elems t) < OSET_ITER_MAX"
  shows "avl_min (height (os_root t)) \<le> OSetGen_Size t \<and> height (os_root t) \<le> STACK_MAX \<and> OSetGen_Destroy t = Inr ()"
  using avl_min_size [of "os_root t"] height_le_STACK_MAX [of "os_root t"] assms Size_correct [OF assms(1)] Destroy_correct [OF assms]
  by (simp add: oset_inv_def elems_def)

theorem height_bound_witness: "\<exists>s. words [7, 3] = Inr s \<and> height (os_root s) \<le> 32 \<and> OSetGen_Destroy s = Inr ()"
proof -
  obtain s where s: "words [7, 3] = Inr s" "word_set s" "length (elems s) = 2" using two_words by blast
  then show ?thesis using height_bound [OF s(2)] by (simp add: OSET_ITER_MAX_def STACK_MAX_def)
qed

end
