(* ===== verification/Request_Properties.thy ===== *)
theory Request_Properties
  imports PMC_Examples
begin

text \<open>
  The properties of epochs, order requests and command line options.
\<close>

section \<open>Epochs\<close>




text \<open>Of the \<open>n\<close> fences that are marked in an epoch all but the first are registered as redundant, each with
  the stack trace of its fence, while the register has room.\<close>

lemma epoch_fences_exact:
  assumes "pm_epoch p" "pm_epoch_fence p = 0" "length (pm_redundant_fence p) + n < MAX_REDUNDANT_FENCE"
  shows "\<exists>p'. foldM (\<lambda>u. mark_epoch_fence en) [0 ..< n] p = Inr p' \<and> pm_epoch p' \<and> pm_epoch_fence p' = n \<and>
    pm_redundant_fence p' = pm_redundant_fence p @ replicate (n - 1) (en_context en)"
  by (rule epoch_fences_ok [OF assms])

section \<open>Options\<close>

text \<open>C36.  Every boolean option \<open>--name=value\<close> is found by its own name and sets its own field, for the values
  \<open>yes\<close> and \<open>no\<close>; every other value ends the tool.\<close>

theorem bool_option_exact:
  assumes "(name, put) \<in> set bool_opts"
  shows "pmc_process_cmd_line_option (name @ ''='' @ v) opts =
    (if v = ''yes'' then Inr (Some (put True opts)) else if v = ''no'' then Inr (Some (put False opts))
     else Inl (ToolExit [Text ''Invalid boolean value'']))"
  unfolding bool_option [OF assms] by (simp add: bool_value_def)

theorem bool_option_exact_witness:
  "pmc_process_cmd_line_option ''--flush-check=yes'' pmc_pre_clo_init = Inr (Some (pmc_pre_clo_init\<lparr>op_check_flush := True\<rparr>)) \<and>
   pmc_process_cmd_line_option ''--flush-check=1'' pmc_pre_clo_init = Inl (ToolExit [Text ''Invalid boolean value''])"
proof -
  have "(''--flush-check'', \<lambda>b x. x\<lparr>op_check_flush := b\<rparr>) \<in> set bool_opts" by (simp add: bool_opts_def)
  note * = bool_option_exact [OF this]
  show ?thesis using * [of "''yes''" pmc_pre_clo_init] * [of "''1''" pmc_pre_clo_init] by simp
qed

text \<open>C37.  The numeric options round trip: any number from the lower bound of the option up to \<open>UINT_MAX\<close>, written in
  decimal, is read back by \<open>VG_(strtoll10)\<close> and stored in the field of the option.\<close>

theorem int_option_roundtrip:
  assumes "(name, w, l, put) \<in> set int_opts" "unat l \<le> n" "n < 2 ^ 32"
  shows "pmc_process_cmd_line_option (name @ ''='' @ decimal n) opts = Inr (Some (put (of_nat n) opts))"
  by (rule int_option [OF assms])

theorem int_option_roundtrip_witness:
  "pmc_process_cmd_line_option (''--indiff='' @ decimal 250) pmc_pre_clo_init = Inr (Some (pmc_pre_clo_init\<lparr>op_store_sb_indiff := 250\<rparr>))"
proof -
  have "(''--indiff'', 64, 0, \<lambda>n x. x\<lparr>op_store_sb_indiff := n\<rparr>) \<in> set int_opts" by (simp add: int_opts_def)
  then show ?thesis using int_option_roundtrip [of "''--indiff''" 64 0 _ 250 pmc_pre_clo_init] by simp
qed

section \<open>Order of persistence\<close>

text \<open>C38.  An \<open>ORDER_GUARANTEE\<close> request adds the pair of the two requested ranges behind the pairs already there, keeps the
  records consistent and changes nothing else.  The final check then reports, in the order of the requests, exactly the pairs
  whose first range does not persist before the second is written, naming the ranges, and counts them; the new pair,
  of which nothing is written, is reported as the last one.\<close>

theorem order_request_exact:
  assumes "pm_time_records p = Some recs" "pm_order_records p = Some os" "orders_ok (pm_time_records_index p) recs os"
    and "Suc (length (elems os)) < OSET_ITER_MAX"
  shows "\<exists>p1 recs' os'. order_guarantee a1 n1 a2 n2 p = Inr p1 \<and>
    p1 = p\<lparr>pm_time_records := Some recs', pm_order_records := Some os', pm_time_records_index := pm_time_records_index p + 3\<rparr> \<and>
    orders_ok (pm_time_records_index p1) recs' os' \<and>
    map (map_prod range_of range_of) (orders_in recs' os') =
      map (map_prod range_of range_of) (orders_in recs os) @ [((a1, n1), (a2, n2))] \<and>
    check_pmem_order p1 = Inr (p1\<lparr>
      pm_order_guarantee_reg := pm_order_guarantee_reg p + Suc (length (filter violated (orders_in recs os))),
      pm_out := pm_out p @ order_reports p (orders_in recs os) @
        [Umsg ''Not order guarantee: '' []] @ (if show_traces p then [PpExe None, PpExe None] else []) @
        [Umsg ''First Address: 0x%lx First size: %lu Second Address: 0x%lx Second size: %lu'' [a1, n1, a2, n2]]\<rparr>)"
proof -
  let ?new = "((mk_order a1 n1)\<lparr>od_index := pm_time_records_index p\<rparr>, (mk_order a2 n2)\<lparr>od_index := Suc (pm_time_records_index p)\<rparr>)"
  obtain p1 recs' os' where p1: "order_guarantee a1 n1 a2 n2 p = Inr p1"
    "p1 = p\<lparr>pm_time_records := Some recs', pm_order_records := Some os', pm_time_records_index := pm_time_records_index p + 3\<rparr>"
    "orders_ok (pm_time_records_index p1) recs' os'" "orders_in recs' os' = orders_in recs os @ [?new]"
    using order_guarantee_ok [OF assms(1-3), of a1 n1 a2 n2] by blast
  have "length (elems os') = Suc (length (elems os))" using arg_cong [OF p1(4), of length] by (simp add: orders_in_def)
  then have len: "length (elems os') < OSET_ITER_MAX" using assms(4) by simp
  have new: "violated ?new" "order_reports p1 (orders_in recs' os') = order_reports p (orders_in recs os) @ order_report p ?new"
    by (simp_all add: violated_def mk_order_def order_reports_def order_report_def p1(2,4))
  have "check_pmem_order p1 = Inr (p1\<lparr>
      pm_order_guarantee_reg := pm_order_guarantee_reg p1 + length (filter violated (orders_in recs' os')),
      pm_out := pm_out p1 @ order_reports p1 (orders_in recs' os')\<rparr>)"
    using check_pmem_order_ok [OF _ _ p1(3) len] p1(2) by simp
  then show ?thesis using p1 new by (intro exI [of _ p1] exI [of _ recs'] exI [of _ os']) (simp add: range_of_def mk_order_def order_report_def)
qed

definition ordering :: pmem_ops where
  "ordering = tl_pmem (pmc_post_clo_init host False (pmc_pre_clo_init\<lparr>op_order_guarantee := True\<rparr>))"

lemma ordering_ready:
  "pm_time_records ordering = Some (OSetGen_Create (cmp_index od_index) od_index)"
  "pm_order_records ordering = Some (OSetGen_Create (cmp_index or_index) or_index)"
  "orders_ok (pm_time_records_index ordering) (OSetGen_Create (cmp_index od_index) od_index) (OSetGen_Create (cmp_index or_index) or_index)"
  "orders_in (OSetGen_Create (cmp_index od_index) od_index) (OSetGen_Create (cmp_index or_index) or_index) = []"
  "\<not> show_traces ordering" "pm_order_guarantee_reg ordering = 0" "pm_out ordering = []" "op_order_guarantee (pm_opts ordering)"
  by (simp_all add: ordering_def pmc_post_clo_init_def Let_def order_sets_def pmc_pre_clo_init_def orders_ok_def oset_inv_Create orders_in_def)

theorem order_request_exact_witness:
  "\<exists>p1 p2. order_guarantee 4096 8 4160 16 ordering = Inr p1 \<and> check_pmem_order p1 = Inr p2 \<and> pm_order_guarantee_reg p2 = 1 \<and>
    pm_out p2 = [Umsg ''Not order guarantee: '' [],
      Umsg ''First Address: 0x%lx First size: %lu Second Address: 0x%lx Second size: %lu'' [4096, 8, 4160, 16]]"
  using order_request_exact [OF ordering_ready(1,2,3), of 4096 8 4160 16]
  by (auto simp: ordering_ready OSET_ITER_MAX_def order_reports_def)



end
