(* ===== verification/Defect_Properties.thy ===== *)
theory Defect_Properties
  imports PMC_Examples "HOL-Library.Code_Target_Nat"
begin

text \<open>
  Runs of the model on which the code does not do what it means to, evaluated in the kernel.
\<close>

section \<open>A partial flush that is forgotten\<close>

text \<open>What is outstanding after the accesses, in a page that is mapped.\<close>

definition left_after :: "access list \<Rightarrow> (uword \<times> uword \<times> store_state) list res" where
  "left_after es =
     rbind (foldM (map_step host) [(4096, 4096)] started_tool) (\<lambda>w.
       rbind (foldM (access_step host) es w) (\<lambda>w'.
         Inr (map (\<lambda>e. (st_addr e, st_size e, st_state e)) (out_entries (tl_pmem w')))))"

text \<open>The hypothesis on cache lines of the exactness theorems is needed: a store that crosses a line is split when
  its first line is flushed, the split is appended to the current snippet without growing the bounds of the
  snippet, and the flush of its second line passes it by.  All bytes are flushed and fenced, none is lost, and
  four of them are still reported.\<close>

lemma partial_flush_forgotten:
  "(\<forall>b. \<not> lost b (concat (map (access_acts {4096..<8192})
      [Store 4156 8 1, Store 4296 8 1, Flush 4288 64, Flush 4096 64, Flush 4160 64, Fence]))) \<and>
   left_after [Store 4156 8 1, Store 4296 8 1, Flush 4288 64, Flush 4096 64, Flush 4160 64, Fence] = Inr [(4160, 4, STST_DIRTY)]"
proof
  show "left_after [Store 4156 8 1, Store 4296 8 1, Flush 4288 64, Flush 4096 64, Flush 4160 64, Fence] = Inr [(4160, 4, STST_DIRTY)]"
    by code_simp
qed auto

section \<open>A flush inside a line\<close>

text \<open>The flush of an address inside a cache line writes the whole line back; the tool takes it for the 64 bytes from the address
  on, and the bytes of the line in front of it stay outstanding.\<close>

lemma unaligned_flush_misses: "left_after [Store 4160 8 1, Flush 4168 64, Fence] = Inr [(4160, 8, STST_DIRTY)]"
  by code_simp

section \<open>A thread that keeps a transaction that ended\<close>

text \<open>Two threads take part in a transaction; at its end the entry of the first thread is removed, which clears the
  iterator, and the second thread keeps the id.\<close>

definition two_threads_end :: "(uword \<times> uword list) list res" where
  "two_threads_end =
     rbind (register_new_tx host 5 (tl_trans started_tool)) (\<lambda>t1.
       rbind (add_thread_to_tx (host\<lparr>en_tid := 2\<rparr>) 5 t1) (\<lambda>(r, t2).
         rbind (remove_tx 5 t2) (\<lambda>(r', t3). Inr (threads_view t3))))"

lemma end_tx_forgets_thread: "two_threads_end = Inr [(2, [5])]"
  by code_simp

section \<open>Requests that call another operation\<close>

text \<open>The requests that should add a thread to a transaction and remove it behave as the removal of an object.\<close>

lemma thread_requests_remove_objects:
  "run_request en ADD_THREAD_TO_TX_N = run_request en REMOVE_FROM_TX_N"
  "run_request en REMOVE_THREAD_FROM_TX_N = run_request en REMOVE_FROM_TX_N"
  by (simp_all add: fun_eq_iff)

section \<open>A mark that outlives its epoch\<close>

text \<open>A slot of the array keeps the mark of the store that used it before: a store made outside of every epoch is
  counted as made in one.\<close>

lemma stale_epoch_mark:
  "\<not> pm_epoch p \<Longrightarrow> st_inEpoch (fill_store en addr sze val p slot) = st_inEpoch slot"
  by (simp add: fill_store_def)

end
