(* ===== verification/Spec2Isabelle.thy ===== *)
theory Spec2Isabelle
  imports Durability_Properties Instrument_Properties Pmemcheck_Properties Pmemcheck_Block_Properties Tx_Properties Region_Properties OSet_Properties Request_Properties Defect_Properties
begin

text \<open>
  PMDebugger is a tool of the Valgrind framework that watches a program with persistent memory.  It is told by
  client requests which address ranges are persistent, it sees every store, cache line flush and memory fence of
  the program, and it reports stores that are not made durable, flushes that are not needed, fences that are not
  needed in an epoch, stores of a transaction to memory that was not logged, objects logged twice, and violations
  of a requested order of persistence.  This development models the tool under \<open>src/valgrind-pmdebugger/pmdebugger\<close>,
  the ordered set of the Valgrind core that all its bookkeeping rests on, \<open>coregrind/m_oset.c\<close>, and the intermediate
  code of VEX (\<open>VEX/pub/libvex_ir.h\<close>, \<open>VEX/priv/ir_defs.c\<close>), in which the core hands the blocks of the client to the
  tool and takes them back with the calls of its handlers.  Beside it stands \<open>src/valgrind-pmdebugger/pmemcheck\<close>, the tool
  that PMDebugger was derived from and is meant to replace, modelled so that the two can be compared.

  \<^bold>\<open>Parts and theories.\<close>  Addresses, sizes, values and time stamps are 64-bit words.  Numbers
  that only grow by one are natural numbers where the code has a \<open>UInt\<close> (the number of elements of a set, below
  9227464 in all theorems) or a \<open>UWord\<close> (the running indices of stores and order records, the index of a strand, the
  fences of an epoch, the registers of epochs and orders, the index of time records): that these wrap around after
  \<open>2 ^ 32\<close> or \<open>2 ^ 64\<close> steps is not modelled.  Every assertion, exit, access outside of an
  array, use of a freed node and followed null pointer of the code is a value of the error type, so that an
  operation returns \<open>Inr\<close> exactly when the code gets through.  An iteration bound appears only in loops that
  change the set they iterate over; running out of it is the error \<open>Diverge\<close>, and the theorems show that it
  does not occur.

  \<^item> \<^theory_text>\<open>PMC_Prelude\<close>: words, errors, results, output, iteration over a list.
  \<^item> \<^theory_text>\<open>OSet\<close>, \<^theory_text>\<open>OSet_Laws\<close>: \<open>m_oset.c\<close>, the AVL tree with its insertion, removal of nodes, iterator with
    a stack of 32 entries, and destruction.  The locale \<open>oset_order\<close> is the contract of a comparison function; in it
    insertion, lookup, removal and iteration are shown to be those of a sorted list.  It is interpreted for
    address ranges (\<open>cmp_pmem_st\<close>), running indices (\<open>cmp_pmem_own_st\<close>, \<open>cmp_index\<close>) and machine words
    (\<open>fast_cmp\<close>).
  \<^item> \<^theory_text>\<open>PMC_Region\<close>, \<^theory_text>\<open>PMC_Region_Laws\<close>, \<^theory_text>\<open>PMC_Map_Laws\<close>: \<open>pmc_include.h\<close> and \<open>pmc_common.c\<close>, sets of
    byte ranges with merging and cutting, related to sets of bytes, and the registered mappings.
  \<^item> \<^theory_text>\<open>PMC_Tx\<close> with \<^theory_text>\<open>PMC_Keyed_Laws\<close>, \<^theory_text>\<open>PMC_Tx_Laws\<close>, \<^theory_text>\<open>PMC_Tx_Ops_Laws\<close>, \<^theory_text>\<open>PMC_Tx_End_Laws\<close>,
    \<^theory_text>\<open>PMC_Tx_Region_Laws\<close>, \<^theory_text>\<open>PMC_Tx_Thread_Laws\<close>: \<open>pmc_tx.c\<close>.  A transaction is seen as its nesting, trace
    and set of bytes (\<open>txs_view\<close>), which hides the one-element cache in front of the tree of its regions, a
    thread as the set of its transactions (\<open>tids\<close>).
  \<^item> \<^theory_text>\<open>PMC_State\<close>, \<^theory_text>\<open>PMC_Store\<close>, \<^theory_text>\<open>PMC_Flush\<close>, \<^theory_text>\<open>PMC_Fence\<close>, \<^theory_text>\<open>PMC_Report\<close>, \<^theory_text>\<open>PMC_Client\<close>,
    \<^theory_text>\<open>PMC_Init\<close>: \<open>pmc_main.c\<close>, the state \<open>struct pmem_ops\<close> with the array of recent stores, its snippets and the
    tree of older ones, the handlers \<open>trace_pmem_store\<close>, \<open>do_flush\<close> and \<open>do_fence\<close>, epochs, order checks, reports,
    client requests, options, initialisation and exit.
  \<^item> \<^theory_text>\<open>PMC_Index_Laws\<close>, \<^theory_text>\<open>PMC_Outstanding\<close>, \<^theory_text>\<open>PMC_Flush_Entry_Laws\<close>, \<^theory_text>\<open>PMC_Flush_Laws\<close>,
    \<^theory_text>\<open>PMC_Store_Laws\<close>, \<^theory_text>\<open>PMC_Fence_Laws\<close>, \<^theory_text>\<open>PMC_Report_Laws\<close>, \<^theory_text>\<open>PMC_Epoch_Laws\<close>, \<^theory_text>\<open>PMC_Order_Laws\<close>,
    \<^theory_text>\<open>PMC_Option_Laws\<close>, \<^theory_text>\<open>PMC_Exit_Laws\<close>: the invariant \<open>pmem_wf\<close> of the array, the snippets and the tree, and
    the effect of each handler on the list \<open>out_entries\<close> of outstanding stores.
  \<^item> \<^theory_text>\<open>PMC_Persist\<close>, \<^theory_text>\<open>PMC_Init_Laws\<close>: the specification of durability byte by byte (\<open>act\<close>, \<open>lost\<close>), the locale
    \<open>persistency\<close> of trackers that refine it, its interpretation on the handlers, and whole sessions of the tool.
  \<^item> \<^theory_text>\<open>VEX_Primop\<close>, \<^theory_text>\<open>VEX_IR\<close>, \<^theory_text>\<open>VEX_Sanity\<close>, \<^theory_text>\<open>VEX_Sanity_Laws\<close>: types, expressions and statements of the
    intermediate code, the types of its 1096 primitive operations, the constructors that the tool uses, and the checker
    \<open>sanityCheckIRSB\<close> of blocks, which ends the run on a block that is not flat, not in single assignment form or
    not well typed.
  \<^item> \<^theory_text>\<open>PMC_Instrument\<close>: \<open>pmc_instrument\<close> and its helpers.  \<^theory_text>\<open>PMC_Instrument_Laws\<close> and
    \<^theory_text>\<open>PMC_Instrument_Block_Laws\<close> describe the block it returns statement by statement (\<open>instrumented\<close>),
    \<^theory_text>\<open>PMC_Instrument_Type_Laws\<close> shows that this block passes the checker, \<^theory_text>\<open>PMC_Erase_Laws\<close> that it holds the
    client's code, and what happens on a double compare-and-swap.
  \<^item> \<^theory_text>\<open>VEX_Run\<close>, \<^theory_text>\<open>PMC_Trace\<close>, \<^theory_text>\<open>PMC_Session\<close>: runs of a block as valuations of its temporaries, the calls of the
    handlers that a run makes, and sessions in which blocks are instrumented and run and the calls go to the handlers.
    The locale \<open>call_tracker\<close> is the contract of a tool that takes these calls; in it blocks are shown to have the effect
    of the client's accesses.  It is interpreted for both tools.
  \<^item> \<^theory_text>\<open>VEX_Effects\<close>, \<^theory_text>\<open>PMC_Effect_Laws\<close>: what the client's statements do to memory by the definition of the intermediate
    code, byte by byte and without regard to the tool (\<open>block_effects\<close>), which statements the tool can see (\<open>seen\<close>) and which
    values it passes on (\<open>valued\<close>), and that on these the calls of a run report exactly these effects.
  \<^item> \<^theory_text>\<open>PMC_Cpuinfo\<close>, \<^theory_text>\<open>PMC_Cpuinfo_Laws\<close>: \<open>read_cache_line_size\<close>, with the reads of the file as arguments; its result
    is the size of a line that both tools start with (\<open>en_cache_line_size\<close>).
  \<^item> \<^theory_text>\<open>Pmemcheck\<close>: \<open>pmemcheck/pmc_main.c\<close> and \<open>pmemcheck/pmc_common.c\<close>, with the names of the code after \<open>pk_\<close>:
    the state \<open>pk_ops\<close> with one set of disjoint stores, mappings, stores, flushes, fences, reports and exit.
    \<^theory_text>\<open>Pmemcheck_Store_Laws\<close> and \<^theory_text>\<open>Pmemcheck_Flush_Laws\<close> describe each handler by the state and context of every
    byte (\<open>tags\<close>), \<^theory_text>\<open>Pmemcheck_Persist\<close> interprets \<open>persistency\<close> on them, and \<^theory_text>\<open>Pmemcheck_Session\<close> treats whole
    sessions of it and of both tools, and \<^theory_text>\<open>Pmemcheck_Blocks\<close> sessions of instrumented code.
  \<^item> \<^theory_text>\<open>PMC_Examples\<close>, \<^theory_text>\<open>PMC_Block_Examples\<close>: states and blocks at which the properties are applied.

  \<^bold>\<open>Properties.\<close>  \<^theory_text>\<open>Durability_Properties\<close> holds C1 and C9 to C15: a session reports exactly the lost bytes,
  every access refines the specification, initialisation meets the invariant, the handlers are exact, the warnings about
  flushes are exact, the last line of the report counts all errors.  \<^theory_text>\<open>Instrument_Properties\<close> holds C2 and C6 to C8 on
  instrumented code, from what the client's blocks do to memory to the report, C40 on the size of a cache line, and the
  failure on a double compare-and-swap.
  \<^theory_text>\<open>Pmemcheck_Properties\<close> holds C3, C16 and C17 on the sessions, flushes and overwritten stores of \<open>pmemcheck\<close>, C5 on the
  agreement of the two tools, and runs on which \<open>pmemcheck\<close> deviates from its purpose; \<^theory_text>\<open>Pmemcheck_Block_Properties\<close>
  holds C4 on instrumented code under \<open>pmemcheck\<close>.
  \<^theory_text>\<open>Tx_Properties\<close> holds C18 to C24 on transactions, \<^theory_text>\<open>Region_Properties\<close> C25 to C29 on mappings and ranges,
  \<^theory_text>\<open>OSet_Properties\<close> C30 to C34 on the ordered set, \<^theory_text>\<open>Request_Properties\<close> C35 to C39 on epochs, options and order
  requests, and \<^theory_text>\<open>Defect_Properties\<close> runs on which the code deviates from its purpose.

  \<^bold>\<open>Hypotheses and bounds.\<close>  The exactness theorems on stores, flushes and fences are about the default mode:
  \<open>simple_mode\<close> excludes \<open>--tree-reorganization\<close>, \<open>--mult-stores\<close>, \<open>--order-guarantee\<close>,
  \<open>--lack-ordering-in-strand\<close> and stack traces in the store log.  Flushes cover the entries they touch (\<open>whole\<close>),
  which holds for stores within cache lines and flushes of whole lines; the lemma \<open>partial_flush_forgotten\<close>
  shows that the code is wrong without it.  The theorems on \<open>pmemcheck\<close> need no such discipline; they exclude traces in the store log, forced
  alignment of flushes and, for sessions, \<open>--mult-stores\<close>, and a recorded stack trace is not empty (\<open>traced\<close>), as the
  code asserts when it compares two of them.  Ranges are not empty and do not reach the last byte of the address space.  Sets have fewer than
  \<open>OSET_ITER_MAX\<close> = 9227464 elements: the smallest AVL tree of height 33 has that many, and the iterator of the
  code asserts a depth of at most 32.  The event registers have room, since the tool exits when one is full.
  The loops of \<open>remove_region\<close>, \<open>do_flush\<close> and \<open>SET_CLEAN\<close> revisit entries that they split; their bounds, a small
  multiple of the size of the set, are shown to be enough for the first two.  Blocks are those that pass the checker,
  without a double compare-and-swap and without temporaries of the invalid type (\<open>traceable\<close>), and the helpers that the
  client's code calls are not the handlers of the tool (\<open>foreign\<close>).  Sessions of instrumented code are compared with the client's
  effects on memory where every executed statement can be seen (\<open>block_seen\<close>): single precision and 128-bit integer data,
  floating point constants, store-conditionals that fail, helpers that write to memory and code in front of the first
  instruction mark are outside, since the tool misses them or reports what does not happen; so are stores across the border
  of the mappings and flushes inside of a line (\<open>on_lines\<close>), which the tool takes for other bytes.  The host is a 64-bit machine.

  \<^bold>\<open>Parameters.\<close>  What the Valgrind core supplies is the record \<open>env\<close>: the running thread, its stack trace, the
  description of an instruction address, strings of the client, the name behind a file descriptor, what reading
  \<open>/proc/cpuinfo\<close> returns, the keyword search of the monitor, and the contents of freshly allocated memory.  An execution
  context is the list of its instruction addresses.  The properties hold for all of their values.  A run of a block may give
  any value of the right type to a temporary that is not assigned by one of the operations whose meaning the tool relies
  on (widening, parts of vectors, addition, comparison).

  \<^bold>\<open>Not modelled.\<close>  The usage texts are constant; the decoders, optimiser and code generators of VEX, the other tools
  of Valgrind and its core, PMDK and the benchmarks are programs of their own.  Of \<open>pmemcheck\<close> the
  options, the requests on transactions and the dispatch of requests are left out; its instrumentation and its detection
  of the size of a cache line are those of PMDebugger up to layout and comments and share their definitions.
  Fields and counters that exist under \<open>#ifdef\<close> only are left out.  Modelled without exactness theorems are the
  mode \<open>--tree-reorganization\<close> with merging of stores, \<open>--mult-stores\<close>, \<open>SET_CLEAN\<close>, strands, and the
  times at which the ranges of the order checks become persistent.
\<close>

end
